(* ===== verification/Prelude.thy ===== *)
theory Prelude
  imports Main "HOL-Library.Word" "HOL-Library.Sublist"
begin

unbundle bit_operations_syntax

text \<open>
  Shared vocabulary of the development: the machine types of the C++ sources, the
  simplification collections the component theories fill, and the generic facts about lists,
  bits and words that several components use.

  A C++ \<^verbatim>\<open>uint8_t\<close>, \<^verbatim>\<open>uint32_t\<close>, \<^verbatim>\<open>uint64_t\<close> is a word of that width. A \<^verbatim>\<open>size_t\<close> that
  indexes a buffer is a \<open>nat\<close>: the buffer is a list, every index the code forms is bounded by
  its length, so no such index can wrap. A raw pointer with a size is the list of the bytes
  it designates (\<^verbatim>\<open>nullptr\<close> with a positive size is kept apart where the code tests it).
\<close>

type_synonym u8 = "8 word"
type_synonym u16 = "16 word"
type_synonym u32 = "32 word"
type_synonym u64 = "64 word"

named_theorems msb_simps \<open>reading and writing bits, most significant first\<close>
named_theorems invariant_intros \<open>preservation of component invariants\<close>

section \<open>Bit strings, most significant bit first\<close>

fun bits_val :: "bool list \<Rightarrow> nat" where
  "bits_val [] = 0"
| "bits_val (b # bs) = of_bool b * 2 ^ length bs + bits_val bs"

fun nat_bits :: "nat \<Rightarrow> nat \<Rightarrow> bool list" where
  "nat_bits 0 v = []"
| "nat_bits (Suc n) v = odd (v div 2 ^ n) # nat_bits n v"

lemma length_nat_bits [simp]: "length (nat_bits n v) = n"
  by (induction n) auto

lemma bits_val_less: "bits_val bs < 2 ^ length bs"
  by (induction bs) auto

lemma bits_val_append [msb_simps]:
  "bits_val (xs @ ys) = bits_val xs * 2 ^ length ys + bits_val ys"
  by (induction xs) (auto simp: algebra_simps power_add)

lemma bits_val_nat_bits: "bits_val (nat_bits n v) = v mod 2 ^ n"
proof (induction n)
  case 0
  then show ?case by simp
next
  case (Suc n)
  have "v mod 2 ^ Suc n = (v div 2 ^ n mod 2) * 2 ^ n + v mod 2 ^ n"
    using mod_mult2_eq [of v "2 ^ n" 2] by (simp add: mult.commute)
  then show ?case
    using Suc by (simp add: odd_iff_mod_2_eq_one of_bool_def)
qed

lemma bits_val_nat_bits_id [msb_simps]: "v < 2 ^ n \<Longrightarrow> bits_val (nat_bits n v) = v"
  by (simp add: bits_val_nat_bits)

section \<open>Words\<close>

lemma push_or_bit [msb_simps]:
  "push_bit 1 (a :: 'a::len word) OR of_bool b = 2 * a + of_bool b"
proof -
  have "push_bit 1 a AND of_bool b = 0"
    by (rule bit_eqI) (auto simp add: bit_simps simp del: push_bit_of_1 push_bit_Suc push_bit_eq_mult)
  then have "push_bit 1 a OR of_bool b = push_bit 1 a + of_bool b"
    by (rule disjunctive_add_eq_or [symmetric])
  then show ?thesis
    by (simp add: push_bit_eq_mult mult.commute)
qed

lemma of_nat_u32_eq_iff:
  "m < 2 ^ 32 \<Longrightarrow> n < 2 ^ 32 \<Longrightarrow> (of_nat m = (of_nat n :: u32)) = (m = n)"
  by (simp add: word_of_nat_eq_iff take_bit_nat_eq_self)

text \<open>A byte as its eight bits, the most significant first.\<close>

definition byte_bits :: "u8 \<Rightarrow> bool list" where
  "byte_bits b = map (\<lambda>i. bit b (7 - i)) [0..<8]"

lemma length_byte_bits [simp]: "length (byte_bits b) = 8"
  by (simp add: byte_bits_def)

lemma nth_byte_bits: "i < 8 \<Longrightarrow> byte_bits b ! i = bit b (7 - i)"
  by (simp add: byte_bits_def)

section \<open>Lists\<close>

lemma drop_add: "drop (a + b) xs = drop b (drop a xs)"
  by (simp add: add.commute)

lemma drop_prefix: "length xs = n \<Longrightarrow> drop n (xs @ ys) = ys"
  by simp

lemma hd_slice: "0 < n \<Longrightarrow> p < length xs \<Longrightarrow> hd (take n (drop p xs)) = xs ! p"
  by (simp add: hd_drop_conv_nth hd_take)

lemma length_slice: "p + n \<le> length xs \<Longrightarrow> length (take n (drop p xs)) = n"
  by simp

lemma drop_eq_Cons: "i < length xs \<Longrightarrow> drop i xs = xs ! i # drop (Suc i) xs"
  by (simp add: Cons_nth_drop_Suc)

text \<open>Big-endian fields of two and four bytes, as the serialisers push them.\<close>

definition be16 :: "nat \<Rightarrow> u8 list" where
  "be16 n = [of_nat (n div 256), of_nat n]"

definition be32 :: "u32 \<Rightarrow> u8 list" where
  "be32 w = [ucast (drop_bit 24 w AND 0xFF), ucast (drop_bit 16 w AND 0xFF),
             ucast (drop_bit 8 w AND 0xFF), ucast (w AND 0xFF)]"

fun be_val :: "u8 list \<Rightarrow> nat" where
  "be_val [] = 0"
| "be_val (b # bs) = unat b * 256 ^ length bs + be_val bs"

lemma length_be16 [simp]: "length (be16 n) = 2"
  by (simp add: be16_def)

lemma length_be32 [simp]: "length (be32 w) = 4"
  by (simp add: be32_def)

lemma be32_not_Nil [simp]: "be32 w \<noteq> []"
  by (simp add: be32_def)

lemma be_val_be16: "n < 65536 \<Longrightarrow> be_val (be16 n) = n"
  by (simp add: be16_def unat_of_nat)

lemma unat_byte: "unat (ucast (drop_bit n (w :: u32) AND 0xFF) :: u8) = unat w div 2 ^ n mod 256"
proof -
  have mask: "(0xFF :: u32) = mask 8"
    by (simp add: mask_eq_exp_minus_1)
  have "(ucast (drop_bit n w AND 0xFF) :: u8) = ucast (drop_bit n w)"
    unfolding mask by (rule bit_word_eqI) (auto simp: bit_simps)
  then have "unat (ucast (drop_bit n w AND 0xFF) :: u8) = take_bit 8 (unat (drop_bit n w))"
    by (simp only: unsigned_ucast_eq) simp
  also have "unat (drop_bit n w) = unat w div 2 ^ n"
    by (subst unat_drop_bit_eq) (rule drop_bit_eq_div)
  finally show ?thesis
    by (simp add: take_bit_eq_mod)
qed

lemma be_val_be32: "be_val (be32 w) = unat w"
proof -
  let ?n = "unat w"
  have "?n < 2 ^ 32"
    using unsigned_less [of w] by simp
  then have "?n div 16777216 mod 256 = ?n div 16777216"
    by (intro mod_less) (simp add: div_less_iff_less_mult)
  then have "be_val (be32 w) = ?n div 16777216 * 16777216 + ?n div 65536 mod 256 * 65536
      + ?n div 256 mod 256 * 256 + ?n mod 256"
    using unat_byte [of 24 w] unat_byte [of 16 w] unat_byte [of 8 w] unat_byte [of 0 w]
    by (simp add: be32_def)
  moreover have "?n div 65536 = ?n div 16777216 * 256 + ?n div 65536 mod 256"
    "?n div 256 = ?n div 65536 * 256 + ?n div 256 mod 256"
    using div_mult2_eq [of ?n 65536 256] div_mult2_eq [of ?n 256 256] by simp_all
  moreover have "?n = ?n div 256 * 256 + ?n mod 256"
    by (rule div_mult_mod_eq [symmetric])
  ultimately show ?thesis
    by linarith
qed

lemma nth_append_left: "i < length xs \<Longrightarrow> (xs @ ys) ! i = xs ! i"
  by (simp add: nth_append)

section \<open>Computations that can throw\<close>

text \<open>\<open>Inl\<close> is an exception or a returned error, \<open>Inr\<close> a result.\<close>

definition bindE :: "'e + 'a \<Rightarrow> ('a \<Rightarrow> 'e + 'b) \<Rightarrow> 'e + 'b" where
  "bindE m f = (case m of Inl e \<Rightarrow> Inl e | Inr x \<Rightarrow> f x)"

fun foldE :: "('s \<Rightarrow> 'a \<Rightarrow> 'e + 's) \<Rightarrow> 's \<Rightarrow> 'a list \<Rightarrow> 'e + 's" where
  "foldE f s [] = Inr s"
| "foldE f s (x # xs) = bindE (f s x) (\<lambda>s'. foldE f s' xs)"

lemma bindE_simps [simp]: "bindE (Inl e) f = Inl e" "bindE (Inr x) f = f x"
  by (simp_all add: bindE_def)

lemma bindE_Inr_iff: "bindE m f = Inr y \<longleftrightarrow> (\<exists>x. m = Inr x \<and> f x = Inr y)"
  by (cases m) simp_all

lemma bindE_Inl_iff: "bindE m f = Inl e \<longleftrightarrow> m = Inl e \<or> (\<exists>x. m = Inr x \<and> f x = Inl e)"
  by (cases m) simp_all

lemma foldE_append: "foldE f s (xs @ ys) = bindE (foldE f s xs) (\<lambda>s'. foldE f s' ys)"
proof (induction xs arbitrary: s)
  case (Cons x xs)
  then show ?case
    by (cases "f s x") simp_all
qed simp

text \<open>An invariant of the steps, over the elements already folded, holds at the end.\<close>

lemma foldE_invariant:
  assumes "foldE f s xs = Inr s'"
    and "P [] s"
    and "\<And>ys x zs t t'. xs = ys @ x # zs \<Longrightarrow> P ys t \<Longrightarrow> f t x = Inr t' \<Longrightarrow> P (ys @ [x]) t'"
  shows "P xs s'"
  using assms
proof (induction xs arbitrary: s' rule: rev_induct)
  case Nil
  then show ?case by simp
next
  case (snoc x xs)
  obtain t where t: "foldE f s xs = Inr t" and step: "f t x = Inr s'"
    using snoc.prems(1) by (auto simp: foldE_append bindE_Inr_iff)
  have "P xs t"
    by (rule snoc.IH [OF t snoc.prems(2)]) (rule snoc.prems(3), auto)
  then show ?case
    using snoc.prems(3) [of xs x "[]"] step by simp
qed

end
