(* ===== verification/AnnexB.thy ===== *)
theory AnnexB
  imports Prelude
begin

text \<open>
  Scanning of an Annex-B byte stream for its NAL units and the conversion of a packet to
  length-prefixed samples, the part that \<^verbatim>\<open>libs/engine/src/annexb_to_avcc.cpp\<close> (H.264, one
  header byte) and \<^verbatim>\<open>annexb_to_hvcc.cpp\<close> (HEVC, two header bytes) have in common. The two
  files hold the same code twice but for the header size, the type field and the list of the
  excluded types; the common shape is one parametric definition with two instances.

  The locale \<open>nal_scanner\<close> is the contract between a scanner and the sample converter; the
  converter's lemmas are proved once and hold for both codecs through the interpretations.
\<close>

section \<open>The scanner\<close>

record nal_span =
  payload_offset :: nat
  payload_size :: nat
  nal_type :: u8

definition StartCodeLen :: "u8 list \<Rightarrow> nat \<Rightarrow> nat" where
  "StartCodeLen d i =
     (if i + 3 < length d \<and> d ! i = 0 \<and> d ! (i + 1) = 0 \<and> d ! (i + 2) = 0 \<and> d ! (i + 3) = 1 then 4
      else if i + 2 < length d \<and> d ! i = 0 \<and> d ! (i + 1) = 0 \<and> d ! (i + 2) = 1 then 3
      else 0)"

text \<open>The inner loop: the first start code at or after \<open>j\<close>, or the end of the data.\<close>

function next_start_code :: "u8 list \<Rightarrow> nat \<Rightarrow> nat" where
  "next_start_code d j =
     (if j < length d then if StartCodeLen d j > 0 then j else next_start_code d (Suc j)
      else length d)"
  by pat_completeness auto
termination
  by (relation "measure (\<lambda>(d, j). length d - j)") auto

declare next_start_code.simps [simp del]

lemma next_start_code_unfold:
  "next_start_code d j =
     (if j < length d then if StartCodeLen d j > 0 then j else next_start_code d (Suc j)
      else length d)"
  by (rule next_start_code.simps)

lemma next_start_code_bounds:
  "next_start_code d j \<le> length d \<and> (j \<le> length d \<longrightarrow> j \<le> next_start_code d j)"
proof (induction d j rule: next_start_code.induct)
  case (1 d j)
  then show ?case
    by (cases "j < length d \<and> StartCodeLen d j = 0") (auto simp: next_start_code_unfold [of d j])
qed

lemmas next_start_code_le = next_start_code_bounds [THEN conjunct1]
  and next_start_code_ge = next_start_code_bounds [THEN conjunct2, rule_format]

lemma no_start_code_before:
  "j \<le> k \<Longrightarrow> k < next_start_code d j \<Longrightarrow> StartCodeLen d k = 0"
proof (induction d j rule: next_start_code.induct)
  case (1 d j)
  show ?case
  proof (cases "j < length d \<and> StartCodeLen d j = 0")
    case True
    then have "next_start_code d j = next_start_code d (Suc j)"
      by (subst next_start_code.simps) simp
    then show ?thesis
      using True 1 by (cases "k = j") auto
  next
    case False
    then have "next_start_code d j = (if j < length d then j else length d)"
      by (subst next_start_code.simps) auto
    then show ?thesis
      using "1.prems" by (auto split: if_splits)
  qed
qed

lemma next_start_code_eqI:
  assumes "j \<le> m" and "m \<le> length d"
    and "\<And>k. j \<le> k \<Longrightarrow> k < m \<Longrightarrow> StartCodeLen d k = 0"
    and "m < length d \<Longrightarrow> StartCodeLen d m > 0"
  shows "next_start_code d j = m"
  using assms
proof (induction d j rule: next_start_code.induct)
  case (1 d j)
  show ?case
  proof (cases "j = m")
    case True
    then show ?thesis
      using "1.prems"(2,4) by (subst next_start_code.simps) auto
  next
    case False
    then have "j < length d" "StartCodeLen d j = 0"
      using "1.prems" by auto
    then show ?thesis
      using 1 False by (subst next_start_code.simps) auto
  qed
qed

text \<open>The outer loop. \<open>hdr\<close> is the size of the NAL header, \<open>ty\<close> its type field.\<close>

function (sequential) EnumerateFrom ::
  "nat \<Rightarrow> (u8 \<Rightarrow> u8) \<Rightarrow> u8 list \<Rightarrow> nat \<Rightarrow> nal_span list" where
  "EnumerateFrom hdr ty d i =
     (if i < length d then
        let scLen = StartCodeLen d i in
        if scLen = 0 then EnumerateFrom hdr ty d (i + 1)
        else
          let payloadStart = i + scLen in
          if length d < payloadStart + hdr then []
          else
            let payloadEnd = next_start_code d (payloadStart + hdr) in
            \<lparr>payload_offset = payloadStart, payload_size = payloadEnd - payloadStart,
             nal_type = ty (d ! payloadStart)\<rparr> # EnumerateFrom hdr ty d payloadEnd
      else [])"
  by pat_completeness auto
termination
proof (relation "measure (\<lambda>(hdr, ty, d, i). length d - i)", goal_cases)
  case (3 hdr ty d i sc ps pe)
  then show ?case
    using next_start_code_ge [of "ps + hdr" d] by auto
qed auto

declare EnumerateFrom.simps [simp del]

definition EnumerateNals :: "u8 list \<Rightarrow> nal_span list" where
  "EnumerateNals d = EnumerateFrom 1 (\<lambda>b. b AND 0x1F) d 0"

definition EnumerateHevcNals :: "u8 list \<Rightarrow> nal_span list" where
  "EnumerateHevcNals d = EnumerateFrom 2 (\<lambda>b. drop_bit 1 b AND 0x3F) d 0"

definition span_bytes :: "u8 list \<Rightarrow> nal_span \<Rightarrow> u8 list" where
  "span_bytes d s = take (payload_size s) (drop (payload_offset s) d)"

section \<open>What a span is\<close>

text \<open>
  A span lies inside the data, holds a whole header, and holds no start code past the header.
\<close>

definition span_ok :: "nat \<Rightarrow> (u8 \<Rightarrow> u8) \<Rightarrow> u8 list \<Rightarrow> nal_span \<Rightarrow> bool" where
  "span_ok hdr ty d s \<longleftrightarrow>
     hdr \<le> payload_size s \<and> payload_offset s + payload_size s \<le> length d \<and>
     (0 < hdr \<longrightarrow> nal_type s = ty (d ! payload_offset s)) \<and>
     (\<forall>k. payload_offset s + hdr \<le> k \<longrightarrow> k < payload_offset s + payload_size s \<longrightarrow>
          StartCodeLen d k = 0)"

definition next_span :: "nat \<Rightarrow> (u8 \<Rightarrow> u8) \<Rightarrow> u8 list \<Rightarrow> nat \<Rightarrow> nal_span" where
  "next_span hdr ty d ps =
     \<lparr>payload_offset = ps, payload_size = next_start_code d (ps + hdr) - ps, nal_type = ty (d ! ps)\<rparr>"

lemma next_span_ok: "ps + hdr \<le> length d \<Longrightarrow> span_ok hdr ty d (next_span hdr ty d ps)"
  using next_start_code_ge [of "ps + hdr" d] next_start_code_le [of d "ps + hdr"]
    no_start_code_before [of "ps + hdr" _ d]
  by (auto simp: span_ok_def next_span_def)

lemma EnumerateFrom_end: "length d \<le> i \<Longrightarrow> EnumerateFrom hdr ty d i = []"
  by (subst EnumerateFrom.simps) simp

lemma EnumerateFrom_skip:
  "i < length d \<Longrightarrow> StartCodeLen d i = 0 \<Longrightarrow>
   EnumerateFrom hdr ty d i = EnumerateFrom hdr ty d (i + 1)"
  by (subst EnumerateFrom.simps) simp

lemma EnumerateFrom_short:
  "StartCodeLen d i = n \<Longrightarrow> 0 < n \<Longrightarrow> length d < i + n + hdr \<Longrightarrow> EnumerateFrom hdr ty d i = []"
  by (subst EnumerateFrom.simps) (simp add: Let_def)

lemma EnumerateFrom_hit:
  "i < length d \<Longrightarrow> StartCodeLen d i = n \<Longrightarrow> 0 < n \<Longrightarrow> i + n + hdr \<le> length d \<Longrightarrow>
   EnumerateFrom hdr ty d i =
     next_span hdr ty d (i + n) # EnumerateFrom hdr ty d (next_start_code d (i + n + hdr))"
  by (subst EnumerateFrom.simps) (simp add: Let_def next_span_def)

lemma EnumerateFrom_ok: "s \<in> set (EnumerateFrom hdr ty d i) \<Longrightarrow> span_ok hdr ty d s"
proof (induction hdr ty d i rule: EnumerateFrom.induct)
  case (1 hdr ty d i)
  define n where "n = StartCodeLen d i"
  consider "length d \<le> i" | "i < length d" "n = 0"
    | "0 < n" "length d < i + n + hdr" | "i < length d" "0 < n" "i + n + hdr \<le> length d"
    by linarith
  then show ?case
  proof cases
    case 2
    with 1 show ?thesis by (simp add: EnumerateFrom_skip n_def)
  next
    case 4
    have "s \<in> set (EnumerateFrom hdr ty d (next_start_code d (i + n + hdr))) \<Longrightarrow> span_ok hdr ty d s"
      using "1.IH"(2) [OF 4(1) n_def _ refl _ refl] 4(2,3) by simp
    with "1.prems" 4 show ?thesis
      using next_span_ok [OF 4(3)] by (auto simp: EnumerateFrom_hit [OF 4(1) n_def [symmetric] 4(2,3)])
  qed (use "1.prems" in \<open>simp_all add: EnumerateFrom_end EnumerateFrom_short [OF n_def [symmetric]]\<close>)
qed

section \<open>Well-formed streams\<close>

text \<open>
  The reference format: NAL units, each behind a start code of three or four bytes. A unit
  holds its header and, past the header, no start code (emulation prevention guarantees it).
  In front of a three-byte start code the unit ends in a non-zero byte (the stop bit of its
  trailing bits); in front of a four-byte one it may end in anything.
\<close>

definition start_code_free_from :: "nat \<Rightarrow> u8 list \<Rightarrow> bool" where
  "start_code_free_from hdr n \<longleftrightarrow>
     list_all (\<lambda>k. \<not> (n ! k = 0 \<and> n ! (k + 1) = 0 \<and> n ! (k + 2) = 1)) [hdr..<length n - 2]"

definition wf_nal :: "nat \<Rightarrow> u8 list \<Rightarrow> bool" where
  "wf_nal hdr n \<longleftrightarrow> n \<noteq> [] \<and> hdr \<le> length n \<and> start_code_free_from hdr n"

fun annexb_stream :: "(bool \<times> u8 list) list \<Rightarrow> u8 list" where
  "annexb_stream [] = []"
| "annexb_stream ((long, n) # ns) =
     (if long then [0, 0, 0, 1] else [0, 0, 1]) @ n @ annexb_stream ns"

fun wf_stream :: "nat \<Rightarrow> (bool \<times> u8 list) list \<Rightarrow> bool" where
  "wf_stream hdr [] = True"
| "wf_stream hdr ((long, n) # ns) =
     (wf_nal hdr n \<and> (last n \<noteq> 0 \<or> ns = [] \<or> fst (hd ns)) \<and> wf_stream hdr ns)"

lemma start_code_free_fromD:
  "start_code_free_from hdr n \<Longrightarrow> hdr \<le> k \<Longrightarrow> k + 2 < length n \<Longrightarrow>
   \<not> (n ! k = 0 \<and> n ! Suc k = 0 \<and> n ! Suc (Suc k) = 1)"
  by (auto simp: start_code_free_from_def list_all_iff)

lemma StartCodeLen_drop:
  "a \<le> length d \<Longrightarrow> StartCodeLen d (a + b) = StartCodeLen (drop a d) b"
  by (auto simp: StartCodeLen_def add.assoc less_diff_conv add.commute add.left_commute)

lemma StartCodeLen_pos_iff:
  "0 < StartCodeLen d i \<longleftrightarrow>
     (i + 3 < length d \<and> d ! i = 0 \<and> d ! Suc i = 0 \<and> d ! Suc (Suc i) = 0 \<and> d ! Suc (Suc (Suc i)) = 1) \<or>
     (i + 2 < length d \<and> d ! i = 0 \<and> d ! Suc i = 0 \<and> d ! Suc (Suc i) = 1)"
  by (simp add: StartCodeLen_def numeral_3_eq_3)

lemma StartCodeLen_shape:
  assumes "0 < StartCodeLen x k"
  shows "\<exists>e. (e = 2 \<or> e = 3) \<and> k + e < length x \<and> x ! (k + e) = 1 \<and> (\<forall>j. k \<le> j \<longrightarrow> j < k + e \<longrightarrow> x ! j = 0)"
proof -
  have two: "j = k \<or> j = Suc k" if "k \<le> j" "j < k + 2" for j
    using that by auto
  have three: "j = k \<or> j = Suc k \<or> j = Suc (Suc k)" if "k \<le> j" "j < k + 3" for j
    using that by auto
  from assms consider
      "k + 3 < length x" "x ! k = 0" "x ! Suc k = 0" "x ! Suc (Suc k) = 0" "x ! (k + 3) = 1"
    | "k + 2 < length x" "x ! k = 0" "x ! Suc k = 0" "x ! (k + 2) = 1"
    by (auto simp: StartCodeLen_pos_iff numeral_3_eq_3)
  then show ?thesis
  proof cases
    case 1
    then show ?thesis by (intro exI [of _ 3]) (auto dest!: three)
  next
    case 2
    then show ?thesis by (intro exI [of _ 2]) (auto dest!: two)
  qed
qed

lemma no_start_code_in_nal:
  assumes "wf_nal hdr n" and "hdr \<le> k" and "k < length n"
    and ws: "ws = [] \<or> take 3 ws = [0, 0, 0] \<or> last n \<noteq> 0"
  shows "StartCodeLen (n @ ws) k = 0"
proof (rule ccontr)
  let ?x = "n @ ws"
  assume "StartCodeLen ?x k \<noteq> 0"
  then obtain e where e: "e = 2 \<or> e = 3" "k + e < length ?x" "?x ! (k + e) = 1"
      and zeros: "\<And>j. k \<le> j \<Longrightarrow> j < k + e \<Longrightarrow> ?x ! j = 0"
    using StartCodeLen_shape [of ?x k] by blast
  have free: "start_code_free_from hdr n"
    using assms(1) by (simp add: wf_nal_def)
  show False
  proof (cases "k + e < length n")
    case True
    have "n ! (k + e - 2) = 0" "n ! Suc (k + e - 2) = 0" "n ! Suc (Suc (k + e - 2)) = 1"
      using True e zeros [of "k + e - 2"] zeros [of "Suc (k + e - 2)"]
      by (auto simp: nth_append numeral_2_eq_2 numeral_3_eq_3)
    moreover have "hdr \<le> k + e - 2" "k + e - 2 + 2 < length n"
      using e assms(2) True by auto
    ultimately show False
      using start_code_free_fromD [OF free] by blast
  next
    case False
    define i where "i = k + e - length n"
    have i: "i < 3" "k + e = length n + i"
      using False e(1) assms(3) unfolding i_def by auto
    then have "ws \<noteq> []" "ws ! i = 1"
      using e by (auto simp: nth_append)
    moreover have "last n = 0"
    proof -
      have "n \<noteq> []" and "length n - 1 < length n" and "k \<le> length n - 1" and "length n - 1 < k + e"
        using assms(3) i(2) by auto
      then show ?thesis
        using zeros [of "length n - 1"] by (simp add: nth_append_left last_conv_nth)
    qed
    moreover have "ws ! i = 0" if "take 3 ws = [0, 0, 0]"
    proof -
      have "ws ! i = take 3 ws ! i"
        using i(1) by simp
      then show ?thesis
        using i(1) unfolding that by (auto simp: less_Suc_eq numeral_3_eq_3)
    qed
    ultimately show False
      using ws by auto
  qed
qed

lemma start_code_at_stream:
  assumes "wf_stream hdr ((long, n) # ns)"
  shows "StartCodeLen (annexb_stream ((long, n) # ns)) 0 = (if long then 4 else 3)"
  using assms by (cases n) (auto simp: wf_nal_def StartCodeLen_def)

lemma stream_after_nal:
  assumes "wf_stream hdr ((long, n) # ns)"
  shows "annexb_stream ns = [] \<or> take 3 (annexb_stream ns) = [0, 0, 0] \<or> last n \<noteq> 0"
  using assms by (cases ns rule: annexb_stream.cases) auto

lemma EnumerateFrom_stream:
  assumes "drop i d = annexb_stream ns" and "i \<le> length d" and "wf_stream hdr ns"
  shows "map (span_bytes d) (EnumerateFrom hdr ty d i) = map snd ns \<and>
         map nal_type (EnumerateFrom hdr ty d i) = map (\<lambda>(long, n). ty (hd n)) ns"
  using assms
proof (induction ns arbitrary: i)
  case Nil
  then show ?case by (simp add: EnumerateFrom_end)
next
  case (Cons x ns)
  obtain long n where x: "x = (long, n)" by (cases x)
  define c :: nat where "c = (if long then 4 else 3)"
  define ps where "ps = i + c"
  have wf: "wf_nal hdr n" "wf_stream hdr ns"
    using Cons.prems(3) by (auto simp: x)
  note after = stream_after_nal [OF Cons.prems(3) [unfolded x]]
  from wf have n: "n \<noteq> []" "hdr \<le> length n"
    by (auto simp: wf_nal_def)
  have dps: "drop ps d = n @ annexb_stream ns"
    using Cons.prems(1) unfolding ps_def c_def x
    by (subst add.commute, subst drop_drop [symmetric]) simp
  have "length d - ps = length n + length (annexb_stream ns)" and "0 < length n"
    using arg_cong [OF dps, of length] n by simp_all
  then have psl: "ps \<le> length d" and len: "ps + length n + length (annexb_stream ns) = length d"
    by linarith+
  have sc: "StartCodeLen d i = c"
    using start_code_at_stream [of hdr long n ns] Cons.prems StartCodeLen_drop [of i d 0]
    by (simp add: x c_def)
  have nxt: "next_start_code d (ps + hdr) = ps + length n"
  proof (rule next_start_code_eqI)
    show "ps + hdr \<le> ps + length n" and "ps + length n \<le> length d"
      using n len by auto
    show "StartCodeLen d k = 0" if "ps + hdr \<le> k" "k < ps + length n" for k
      using that StartCodeLen_drop [OF psl, of "k - ps"] no_start_code_in_nal [OF wf(1) _ _ after, of "k - ps"]
      by (simp add: dps)
    show "0 < StartCodeLen d (ps + length n)" if "ps + length n < length d"
    proof -
      have "annexb_stream ns \<noteq> []"
        using that len by auto
      then obtain l m ms where ns: "ns = (l, m) # ms"
        by (cases ns) auto
      have "StartCodeLen d (ps + length n) = StartCodeLen (drop (ps + length n) d) 0"
        using StartCodeLen_drop [of "ps + length n" d 0] that by simp
      also have "drop (ps + length n) d = annexb_stream ns"
        using dps by (simp add: drop_add del: drop_drop)
      finally show ?thesis
        using start_code_at_stream [of hdr l m ms] wf(2) ns by simp
    qed
  qed
  have "i < length d"
    using psl len n unfolding ps_def by (simp add: c_def split: if_splits)
  then have enum: "EnumerateFrom hdr ty d i
      = next_span hdr ty d ps # EnumerateFrom hdr ty d (ps + length n)"
    using EnumerateFrom_hit [OF _ sc, of hdr ty] n len nxt unfolding ps_def
    by (simp add: c_def split: if_splits)
  have "drop (ps + length n) d = annexb_stream ns" "ps + length n \<le> length d"
    using dps len by (simp_all add: drop_add del: drop_drop)
  note IH = Cons.IH [OF this wf(2)]
  have "span_bytes d (next_span hdr ty d ps) = n"
    by (simp add: span_bytes_def next_span_def nxt dps)
  moreover have "d ! ps = hd n"
    using dps n(1) psl len by (metis append_is_Nil_conv hd_append2 hd_drop_conv_nth
        length_greater_0_conv less_add_same_cancel1 add_gr_0 add.assoc)
  ultimately show ?case
    using IH by (simp add: enum x next_span_def)
qed

text \<open>Conversely a unit found by the scanner is well formed.\<close>

lemma wf_nal_of_span:
  assumes "span_ok hdr ty d s" and "0 < hdr"
  shows "wf_nal hdr (span_bytes d s)"
proof -
  have ok: "payload_offset s + payload_size s \<le> length d" "hdr \<le> payload_size s"
    and none: "\<And>k. payload_offset s + hdr \<le> k \<Longrightarrow> k < payload_offset s + payload_size s \<Longrightarrow>
                 StartCodeLen d k = 0"
    using assms(1) by (auto simp: span_ok_def)
  have "\<not> (d ! (payload_offset s + k) = 0 \<and> d ! (payload_offset s + k + 1) = 0
           \<and> d ! (payload_offset s + k + 2) = 1)" if "hdr \<le> k" "k + 2 < payload_size s" for k
    using ok(1) none [of "payload_offset s + k"] that
    by (auto simp: StartCodeLen_def add.assoc split: if_splits)
  moreover have "length (span_bytes d s) = payload_size s"
    using ok(1) by (simp only: span_bytes_def length_slice)
  ultimately show ?thesis
    using ok assms(2)
    by (auto simp: wf_nal_def start_code_free_from_def list_all_iff span_bytes_def add.assoc)
qed

section \<open>Length-prefixed samples\<close>

definition sample_of_span :: "u8 list \<Rightarrow> nal_span \<Rightarrow> u8 list" where
  "sample_of_span d s = be32 (of_nat (payload_size s)) @ span_bytes d s"

text \<open>
  \<^verbatim>\<open>ConvertAnnexBToAvcc\<close> and \<^verbatim>\<open>ConvertAnnexBToHevcSample\<close>: the loop over the units, which
  skips the excluded types and the empty payloads; \<open>None\<close> is the return of \<^verbatim>\<open>false\<close>.
\<close>

definition convert_samples ::
  "(u8 list \<Rightarrow> nal_span list) \<Rightarrow> (u8 \<Rightarrow> bool) \<Rightarrow> u8 list \<Rightarrow> u8 list option" where
  "convert_samples scan excluded d =
     (if d = [] then None
      else
        let out = concat (map (sample_of_span d)
              (filter (\<lambda>s. \<not> excluded (nal_type s) \<and> payload_size s \<noteq> 0) (scan d)))
        in if out = [] then None else Some out)"

definition ConvertAnnexBToAvcc :: "u8 list \<Rightarrow> u8 list option" where
  "ConvertAnnexBToAvcc d = convert_samples EnumerateNals (\<lambda>t. t = 9 \<or> t = 7 \<or> t = 8) d"

definition ConvertAnnexBToHevcSample :: "u8 list \<Rightarrow> u8 list option" where
  "ConvertAnnexBToHevcSample d =
     convert_samples EnumerateHevcNals (\<lambda>t. t = 35 \<or> t = 32 \<or> t = 33 \<or> t = 34) d"

text \<open>The reader of such a payload: what a demuxer does with it.\<close>

function split_samples :: "u8 list \<Rightarrow> u8 list list option" where
  "split_samples xs =
     (if xs = [] then Some []
      else if length xs < 4 \<or> length xs < 4 + be_val (take 4 xs) then None
      else map_option ((#) (take (be_val (take 4 xs)) (drop 4 xs)))
             (split_samples (drop (4 + be_val (take 4 xs)) xs)))"
  by pat_completeness auto
termination
  by (relation "measure length") auto

declare split_samples.simps [simp del]

lemma split_samples_Nil [simp]: "split_samples [] = Some []"
  by (subst split_samples.simps) simp

lemma split_samples_Cons:
  assumes "length b < 2 ^ 32"
  shows "split_samples (be32 (of_nat (length b)) @ b @ ws) = map_option ((#) b) (split_samples ws)"
proof -
  have "be_val (be32 (of_nat (length b))) = length b"
    using assms by (simp add: be_val_be32 unat_of_nat)
  then show ?thesis
    by (subst split_samples.simps) simp
qed

lemma split_samples_concat:
  "\<forall>b\<in>set bs. length b < 2 ^ 32 \<Longrightarrow>
   split_samples (concat (map (\<lambda>b. be32 (of_nat (length b)) @ b) bs)) = Some bs"
  by (induction bs) (auto simp: split_samples_Cons)

section \<open>The contract of a scanner and what the converter makes of it\<close>

locale nal_scanner =
  fixes scan :: "u8 list \<Rightarrow> nal_span list"
    and hdr :: nat
    and ty :: "u8 \<Rightarrow> u8"
  assumes spans_inside:
      "s \<in> set (scan d) \<Longrightarrow>
       0 < payload_size s \<and> payload_offset s + payload_size s \<le> length d"
    and spans_typed: "s \<in> set (scan d) \<Longrightarrow> nal_type s = ty (hd (span_bytes d s))"
    and spans_of_stream:
      "wf_stream hdr ns \<Longrightarrow> d = annexb_stream ns \<Longrightarrow> map (span_bytes d) (scan d) = map snd ns"
begin

lemma length_span_bytes: "s \<in> set (scan d) \<Longrightarrow> length (span_bytes d s) = payload_size s"
  using spans_inside [of s d] by (simp only: span_bytes_def length_slice)

lemma samples_are_units:
  "convert_samples scan ex d = Some out \<Longrightarrow>
   out = concat (map (\<lambda>b. be32 (of_nat (length b)) @ b)
     (filter (\<lambda>b. \<not> ex (ty (hd b))) (map (span_bytes d) (scan d))))"
proof -
  assume out: "convert_samples scan ex d = Some out"
  have "concat (map (sample_of_span d) (filter (\<lambda>s. \<not> ex (nal_type s) \<and> payload_size s \<noteq> 0) ss))
      = concat (map (\<lambda>b. be32 (of_nat (length b)) @ b)
          (filter (\<lambda>b. \<not> ex (ty (hd b))) (map (span_bytes d) ss)))"
    if "set ss \<subseteq> set (scan d)" for ss
    using that
  proof (induction ss)
    case (Cons s ss)
    then show ?case
      using spans_inside [of s d] spans_typed [of s d]
      by (simp add: length_span_bytes sample_of_span_def)
  qed simp
  then show ?thesis
    using out by (auto simp: convert_samples_def Let_def split: if_splits)
qed

lemma samples_decode:
  assumes "convert_samples scan ex d = Some out" and "length d < 2 ^ 32"
  shows "split_samples out
    = Some (filter (\<lambda>b. \<not> ex (ty (hd b))) (map (span_bytes d) (scan d)))"
  unfolding samples_are_units [OF assms(1)]
proof (rule split_samples_concat, rule ballI)
  fix b
  assume "b \<in> set (filter (\<lambda>b. \<not> ex (ty (hd b))) (map (span_bytes d) (scan d)))"
  then obtain s where "s \<in> set (scan d)" "b = span_bytes d s"
    by auto
  then show "length b < 2 ^ 32"
    using spans_inside [of s d] assms(2) by (simp add: length_span_bytes)
qed

lemma kept_spans:
  "filter (\<lambda>s. \<not> ex (nal_type s) \<and> payload_size s \<noteq> 0) (scan d) = filter (\<lambda>s. \<not> ex (nal_type s)) (scan d)"
  using spans_inside by (auto intro: filter_cong)

lemma convert_samples_None_iff:
  "convert_samples scan ex d = None \<longleftrightarrow>
     (\<forall>s\<in>set (scan d). ex (nal_type s)) \<or> d = []"
  unfolding convert_samples_def kept_spans
  by (auto simp: Let_def sample_of_span_def filter_empty_conv)

lemma stream_decode:
  assumes "wf_stream hdr ns" and "length (annexb_stream ns) < 2 ^ 32"
    and "\<exists>n\<in>set (map snd ns). \<not> ex (ty (hd n))"
  shows "\<exists>out. convert_samples scan ex (annexb_stream ns) = Some out \<and>
               split_samples out = Some (filter (\<lambda>n. \<not> ex (ty (hd n))) (map snd ns))"
proof -
  let ?d = "annexb_stream ns"
  have units: "map (span_bytes ?d) (scan ?d) = map snd ns"
    using assms(1) by (simp add: spans_of_stream)
  have "convert_samples scan ex ?d \<noteq> None"
  proof
    assume "convert_samples scan ex ?d = None"
    moreover have "?d \<noteq> []"
      using assms(3) by (cases ns rule: annexb_stream.cases) auto
    ultimately have "\<forall>b\<in>set (map (span_bytes ?d) (scan ?d)). ex (ty (hd b))"
      using spans_typed by (auto simp: convert_samples_None_iff)
    with assms(3) show False
      by (simp only: units) blast
  qed
  then obtain out where "convert_samples scan ex ?d = Some out"
    by blast
  with samples_decode [OF this assms(2)] show ?thesis
    by (simp add: units)
qed

end

section \<open>Both scanners keep the contract\<close>

lemma span_ok_typed:
  "span_ok hdr ty d s \<Longrightarrow> 0 < hdr \<Longrightarrow> nal_type s = ty (hd (span_bytes d s))"
proof -
  assume "span_ok hdr ty d s" and "0 < hdr"
  then have "0 < payload_size s" "payload_offset s < length d" "nal_type s = ty (d ! payload_offset s)"
    by (auto simp: span_ok_def)
  then show ?thesis
    by (simp only: span_bytes_def hd_slice)
qed

lemma scanner_contract:
  assumes "\<And>d. scan d = EnumerateFrom hdr ty d 0" and "0 < hdr"
  shows "nal_scanner scan hdr ty"
proof unfold_locales
  fix s d
  assume s: "s \<in> set (scan d)"
  then have "span_ok hdr ty d s"
    by (simp add: assms(1) EnumerateFrom_ok)
  then show "0 < payload_size s \<and> payload_offset s + payload_size s \<le> length d"
    and "nal_type s = ty (hd (span_bytes d s))"
    using assms(2) span_ok_typed [of hdr ty d s] by (auto simp: span_ok_def)
next
  fix ns and d :: "u8 list"
  assume "wf_stream hdr ns" and "d = annexb_stream ns"
  then show "map (span_bytes d) (scan d) = map snd ns"
    using EnumerateFrom_stream [of 0 d ns hdr ty] by (simp add: assms(1))
qed

interpretation h264: nal_scanner EnumerateNals 1 "\<lambda>b. b AND 0x1F"
  by (rule scanner_contract) (simp_all add: EnumerateNals_def)

interpretation hevc: nal_scanner EnumerateHevcNals 2 "\<lambda>b. drop_bit 1 b AND 0x3F"
  by (rule scanner_contract) (simp_all add: EnumerateHevcNals_def)

section \<open>Properties\<close>

text \<open>
  Whatever the packet, the H.264 sample payload splits back, by its length prefixes alone,
  into exactly the units the scanner found in the packet, without the access unit delimiters
  and parameter sets, in their order and byte for byte.
\<close>

theorem avcc_packet_roundtrip:
  assumes "ConvertAnnexBToAvcc d = Some out" and "length d < 2 ^ 32"
  shows "split_samples out = Some (filter (\<lambda>b. hd b AND 0x1F \<notin> {7, 8, 9})
           (map (span_bytes d) (EnumerateNals d)))"
  using h264.samples_decode [OF assms(1) [unfolded ConvertAnnexBToAvcc_def] assms(2)]
  by (simp add: conj_ac)

theorem avcc_packet_roundtrip_witness:
  "\<exists>out. ConvertAnnexBToAvcc [0, 0, 0, 1, 0x09, 0x10, 0, 0, 1, 0x65, 0x88] = Some out \<and>
     split_samples out = Some [[0x65, 0x88]]"
proof -
  let ?d = "[0, 0, 0, 1, 0x09, 0x10, 0, 0, 1, 0x65, 0x88] :: u8 list"
  have conv: "ConvertAnnexBToAvcc ?d = Some [0, 0, 0, 2, 0x65, 0x88]"
    by code_simp
  have "length ?d < 2 ^ 32"
    by simp
  moreover have "filter (\<lambda>b. hd b AND 0x1F \<notin> {7, 8, 9}) (map (span_bytes ?d) (EnumerateNals ?d))
      = [[0x65, 0x88]]"
    by code_simp
  ultimately show ?thesis
    using avcc_packet_roundtrip [OF conv] conv by simp
qed

text \<open>
  C1: a stream of well-formed H.264 units with start codes of either length is converted to a
  payload that splits into exactly those units, the delimiters and parameter sets left out,
  whenever one unit is left.
\<close>

theorem avcc_stream_roundtrip:
  assumes "wf_stream 1 ns" and "length (annexb_stream ns) < 2 ^ 32"
    and "\<exists>n\<in>set (map snd ns). hd n AND 0x1F \<notin> {7, 8, 9}"
  shows "\<exists>out. ConvertAnnexBToAvcc (annexb_stream ns) = Some out \<and>
    split_samples out = Some (filter (\<lambda>n. hd n AND 0x1F \<notin> {7, 8, 9}) (map snd ns))"
  using h264.stream_decode [OF assms(1,2), of "\<lambda>t. t = 9 \<or> t = 7 \<or> t = 8"] assms(3)
  unfolding ConvertAnnexBToAvcc_def by (simp add: conj_ac)

theorem avcc_stream_roundtrip_witness:
  "\<exists>out. ConvertAnnexBToAvcc (annexb_stream [(True, [0x67, 0x64]), (False, [0x65, 0, 3])]) = Some out \<and>
     split_samples out = Some [[0x65, 0, 3]]"
  using avcc_stream_roundtrip [of "[(True, [0x67, 0x64]), (False, [0x65, 0, 3])]"]
  by (simp add: wf_nal_def start_code_free_from_def)

text \<open>
  The same for HEVC: the payload splits into the units of the stream without the three
  parameter set types and the delimiter.
\<close>

theorem hevc_stream_roundtrip:
  assumes "wf_stream 2 ns" and "length (annexb_stream ns) < 2 ^ 32"
    and "\<exists>n\<in>set (map snd ns). drop_bit 1 (hd n) AND 0x3F \<notin> {32, 33, 34, 35}"
  shows "\<exists>out. ConvertAnnexBToHevcSample (annexb_stream ns) = Some out \<and>
    split_samples out = Some (filter (\<lambda>n. drop_bit 1 (hd n) AND 0x3F \<notin> {32, 33, 34, 35}) (map snd ns))"
  using hevc.stream_decode [OF assms(1,2), of "\<lambda>t. t = 35 \<or> t = 32 \<or> t = 33 \<or> t = 34"] assms(3)
  unfolding ConvertAnnexBToHevcSample_def by (simp add: conj_ac)

theorem hevc_stream_roundtrip_witness:
  "\<exists>out. ConvertAnnexBToHevcSample (annexb_stream [(True, [0x40, 1, 0xC]), (True, [0x26, 1, 0xAF])]) = Some out \<and>
     split_samples out = Some [[0x26, 1, 0xAF]]"
  using hevc_stream_roundtrip [of "[(True, [0x40, 1, 0xC]), (True, [0x26, 1, 0xAF])]"]
  by (simp add: wf_nal_def start_code_free_from_def)

end
