(* ===== verification/RbspReader.thy ===== *)
theory RbspReader
  imports Prelude
begin

text \<open>
  The bit reader of \<^verbatim>\<open>libs/engine/src/rbsp_bit_reader.h\<close>: most significant bit first, with the
  emulation prevention byte removed on the fly, and the Exp-Golomb code on top of it. A read
  that returns \<^verbatim>\<open>false\<close> is \<open>None\<close>: every caller abandons the reader and the partially filled
  result at that point.

  The locale \<open>bit_source\<close> is the interface between the reader and the two routines that use
  it only through \<^verbatim>\<open>ReadBit\<close>; the abstraction is the list of bits still to come. The
  interpretation instantiates it with the reader, whose remaining bits are those of the payload
  with the emulation prevention bytes taken out by the rule of the standard (\<open>unescape\<close>).
\<close>

section \<open>The reader\<close>

record rbsp_reader =
  rb_data :: "u8 list"
  rb_byte_pos :: nat
  rb_bit_pos :: nat

definition RbspBitReader :: "u8 list \<Rightarrow> rbsp_reader" where
  "RbspBitReader d = \<lparr>rb_data = d, rb_byte_pos = 0, rb_bit_pos = 0\<rparr>"

definition emulation_byte_at :: "u8 list \<Rightarrow> nat \<Rightarrow> bool" where
  "emulation_byte_at d p \<longleftrightarrow>
     2 \<le> p \<and> p < length d \<and> d ! p = 3 \<and> d ! (p - 1) = 0 \<and> d ! (p - 2) = 0"

definition ReadBit :: "rbsp_reader \<Rightarrow> (u32 \<times> rbsp_reader) option" where
  "ReadBit r =
     (let d = rb_data r; p = rb_byte_pos r in
      if length d \<le> p then None
      else
        let out = (ucast (drop_bit (7 - rb_bit_pos r) (d ! p)) :: u32) AND 1;
            q = rb_bit_pos r + 1
        in Some (out,
             if q = 8
             then r\<lparr>rb_bit_pos := 0,
                    rb_byte_pos := (if emulation_byte_at d (p + 1) then p + 2 else p + 1)\<rparr>
             else r\<lparr>rb_bit_pos := q\<rparr>))"

section \<open>The routines that read through ReadBit\<close>

fun read_bits_from ::
  "('s \<Rightarrow> (u32 \<times> 's) option) \<Rightarrow> nat \<Rightarrow> u32 \<Rightarrow> 's \<Rightarrow> (u32 \<times> 's) option" where
  "read_bits_from next_bit 0 out s = Some (out, s)"
| "read_bits_from next_bit (Suc n) out s =
     (case next_bit s of
        None \<Rightarrow> None
      | Some (b, s') \<Rightarrow> read_bits_from next_bit n (push_bit 1 out OR b) s')"

function ue_zeros ::
  "('s \<Rightarrow> (u32 \<times> 's) option) \<Rightarrow> nat \<Rightarrow> 's \<Rightarrow> (nat \<times> 's) option" where
  "ue_zeros next_bit zeros s =
     (case next_bit s of
        None \<Rightarrow> None
      | Some (b, s') \<Rightarrow>
          if b = 1 then Some (zeros, s')
          else if zeros + 1 > 31 then None
          else ue_zeros next_bit (zeros + 1) s')"
  by pat_completeness auto
termination
  by (relation "measure (\<lambda>(f, zeros, s). 32 - zeros)") auto

declare ue_zeros.simps [simp del]

definition read_ue_from ::
  "('s \<Rightarrow> (u32 \<times> 's) option) \<Rightarrow> 's \<Rightarrow> (u32 \<times> 's) option" where
  "read_ue_from next_bit s =
     (case ue_zeros next_bit 0 s of
        None \<Rightarrow> None
      | Some (zeros, s') \<Rightarrow>
          (case (if zeros > 0 then read_bits_from next_bit zeros 0 s' else Some (0, s')) of
             None \<Rightarrow> None
           | Some (sfx, s'') \<Rightarrow> Some (push_bit zeros 1 - 1 + sfx, s'')))"

definition ReadBits :: "nat \<Rightarrow> rbsp_reader \<Rightarrow> (u32 \<times> rbsp_reader) option" where
  "ReadBits n r = read_bits_from ReadBit n 0 r"

definition ReadUe :: "rbsp_reader \<Rightarrow> (u32 \<times> rbsp_reader) option" where
  "ReadUe r = read_ue_from ReadBit r"

section \<open>The Exp-Golomb code as an encoder\<close>

fun log2_floor :: "nat \<Rightarrow> nat" where
  "log2_floor n = (if n < 2 then 0 else Suc (log2_floor (n div 2)))"

declare log2_floor.simps [simp del]

lemma log2_floor_bounds: "0 < n \<Longrightarrow> 2 ^ log2_floor n \<le> n \<and> n < 2 ^ Suc (log2_floor n)"
proof (induction n rule: log2_floor.induct)
  case (1 n)
  show ?case
  proof (cases "n < 2")
    case True
    with 1 have "n = 1" by simp
    then show ?thesis by (simp add: log2_floor.simps)
  next
    case False
    with 1 have "2 ^ log2_floor (n div 2) \<le> n div 2 \<and> n div 2 < 2 ^ Suc (log2_floor (n div 2))"
      by auto
    with False show ?thesis by (subst (1 2) log2_floor.simps) auto
  qed
qed

text \<open>\<open>ue_code k\<close>: as many zeros as \<open>k + 1\<close> has digits after its leading one, then \<open>k + 1\<close>.\<close>

definition ue_code :: "nat \<Rightarrow> bool list" where
  "ue_code k =
     (let n = log2_floor (k + 1) in replicate n False @ True # nat_bits n (k + 1 - 2 ^ n))"

section \<open>The interface: a source of bits\<close>

locale bit_source =
  fixes next_bit :: "'s \<Rightarrow> (u32 \<times> 's) option"
    and rest :: "'s \<Rightarrow> bool list"
    and valid :: "'s \<Rightarrow> bool"
  assumes next_empty: "valid s \<Longrightarrow> rest s = [] \<Longrightarrow> next_bit s = None"
    and next_Cons:
      "valid s \<Longrightarrow> rest s = b # bs \<Longrightarrow>
       \<exists>s'. next_bit s = Some (of_bool b, s') \<and> rest s' = bs \<and> valid s'"
begin

lemma read_bits_complete:
  "valid s \<Longrightarrow> rest s = bs @ ws \<Longrightarrow>
   \<exists>s'. read_bits_from next_bit (length bs) out s
          = Some (out * 2 ^ length bs + of_nat (bits_val bs), s') \<and> rest s' = ws \<and> valid s'"
proof (induction bs arbitrary: s out)
  case Nil
  then show ?case by simp
next
  case (Cons b bs)
  then obtain s' where s': "next_bit s = Some (of_bool b, s')" "rest s' = bs @ ws" "valid s'"
    using next_Cons [of s b "bs @ ws"] by auto
  from Cons.IH [OF s'(3,2), of "push_bit 1 out OR of_bool b"] obtain s2 where
    s2: "read_bits_from next_bit (length bs) (push_bit 1 out OR of_bool b) s'
           = Some ((2 * out + of_bool b) * 2 ^ length bs + of_nat (bits_val bs), s2)"
      "rest s2 = ws" "valid s2"
    unfolding push_or_bit by blast
  have "read_bits_from next_bit (length (b # bs)) out s
          = Some ((2 * out + of_bool b) * 2 ^ length bs + of_nat (bits_val bs), s2)"
    using s'(1) s2(1) by (simp only: list.size(4) add_Suc_right add_0_right read_bits_from.simps
        option.case prod.case)
  moreover have "(2 * out + of_bool b) * 2 ^ length bs + of_nat (bits_val bs)
      = out * 2 ^ length (b # bs) + of_nat (bits_val (b # bs))"
    by (simp add: algebra_simps)
  ultimately show ?case
    using s2(2,3) by metis
qed

lemma read_bits_truncated:
  "valid s \<Longrightarrow> length (rest s) < n \<Longrightarrow> read_bits_from next_bit n out s = None"
proof (induction n arbitrary: s out)
  case 0
  then show ?case by simp
next
  case (Suc n)
  show ?case
  proof (cases "rest s")
    case Nil
    with Suc show ?thesis by (simp add: next_empty)
  next
    case (Cons b bs)
    with Suc obtain s' where "next_bit s = Some (of_bool b, s')" "rest s' = bs" "valid s'"
      using next_Cons [of s b bs] by auto
    with Suc Cons show ?thesis by simp
  qed
qed

lemma ue_zeros_complete:
  "valid s \<Longrightarrow> rest s = replicate n False @ True # ws \<Longrightarrow> z + n \<le> 31 \<Longrightarrow>
   \<exists>s'. ue_zeros next_bit z s = Some (z + n, s') \<and> rest s' = ws \<and> valid s'"
proof (induction n arbitrary: s z)
  case 0
  then obtain s' where "next_bit s = Some (1, s')" "rest s' = ws" "valid s'"
    using next_Cons [of s True ws] by auto
  then show ?case by (simp add: ue_zeros.simps [of _ z])
next
  case (Suc n)
  then obtain s' where "next_bit s = Some (0, s')" "rest s' = replicate n False @ True # ws" "valid s'"
    using next_Cons [of s False "replicate n False @ True # ws"] by auto
  with Suc.IH [of s' "Suc z"] Suc.prems show ?case
    by (simp add: ue_zeros.simps [of _ z])
qed

lemma read_ue_complete:
  assumes "valid s" and "rest s = ue_code k @ ws" and "k + 1 < 2 ^ 32"
  shows "\<exists>s'. read_ue_from next_bit s = Some (of_nat k, s') \<and> rest s' = ws \<and> valid s'"
proof -
  define n where "n = log2_floor (k + 1)"
  define suf where "suf = nat_bits n (k + 1 - 2 ^ n)"
  have bnd: "2 ^ n \<le> k + 1" "k + 1 < 2 ^ Suc n"
    using log2_floor_bounds [of "k + 1"] by (auto simp: n_def)
  have "(2::nat) ^ n < 2 ^ 32"
    using bnd(1) assms(3) by linarith
  then have n31: "n \<le> 31"
    using power_increasing [of 32 n "2::nat"] by (cases "n \<le> 31") auto
  have code: "rest s = replicate n False @ True # suf @ ws"
    using assms(2) by (simp add: ue_code_def Let_def n_def suf_def)
  obtain s1 where s1: "ue_zeros next_bit 0 s = Some (n, s1)" "rest s1 = suf @ ws" "valid s1"
    using ue_zeros_complete [OF assms(1) code, of 0] n31 by auto
  have len: "length suf = n" and val: "bits_val suf = k + 1 - 2 ^ n"
    using bnd by (auto simp: suf_def bits_val_nat_bits_id)
  obtain s2 where s2: "read_bits_from next_bit n 0 s1 = Some (of_nat (bits_val suf), s2)"
    "rest s2 = ws" "valid s2"
    using read_bits_complete [OF s1(3,2), of 0] len by auto
  have "(push_bit n 1 - 1 + of_nat (bits_val suf) :: u32) = of_nat k"
    using bnd(1) by (simp add: val push_bit_eq_mult of_nat_diff)
  with s1 s2 n31 show ?thesis
    by (cases n) (auto simp: read_ue_from_def)
qed

end

section \<open>The reader provides the interface\<close>

text \<open>
  The rule of the standard: inside a run of at least two zero bytes a byte 3 is dropped. The
  counter is the number of zero bytes just read, as far as it matters (two or more is two).
\<close>

fun unescape :: "nat \<Rightarrow> u8 list \<Rightarrow> u8 list" where
  "unescape z [] = []"
| "unescape z (b # bs) =
     (if z = 2 \<and> b = 3 then unescape 0 bs
      else b # unescape (if b = 0 then if z = 0 then 1 else 2 else 0) bs)"

definition zeros_before :: "u8 list \<Rightarrow> nat \<Rightarrow> nat" where
  "zeros_before d p =
     (if 1 \<le> p \<and> d ! (p - 1) = 0 then if 2 \<le> p \<and> d ! (p - 2) = 0 then 2 else 1 else 0)"

definition payload_from :: "u8 list \<Rightarrow> nat \<Rightarrow> bool list" where
  "payload_from d p = concat (map byte_bits (unescape (zeros_before d p) (drop p d)))"

definition reader_valid :: "rbsp_reader \<Rightarrow> bool" where
  "reader_valid r \<longleftrightarrow> rb_bit_pos r < 8 \<and>
     \<not> emulation_byte_at (rb_data r) (rb_byte_pos r)"

definition reader_rest :: "rbsp_reader \<Rightarrow> bool list" where
  "reader_rest r = drop (rb_bit_pos r) (payload_from (rb_data r) (rb_byte_pos r))"

lemma payload_from_end: "length d \<le> p \<Longrightarrow> payload_from d p = []"
  by (simp add: payload_from_def)

lemma payload_from_Cons:
  assumes "p < length d" and "\<not> emulation_byte_at d p"
  shows "payload_from d p = byte_bits (d ! p) @ payload_from d (Suc p)"
proof -
  have "zeros_before d (Suc p) = (if d ! p = 0 then if zeros_before d p = 0 then 1 else 2 else 0)"
    by (auto simp: zeros_before_def)
  moreover have "\<not> (zeros_before d p = 2 \<and> d ! p = 3)"
    using assms by (auto simp: zeros_before_def emulation_byte_at_def split: if_splits)
  ultimately show ?thesis
    using assms(1) by (auto simp: payload_from_def drop_eq_Cons)
qed

lemma payload_from_skip:
  assumes "emulation_byte_at d p"
  shows "payload_from d p = payload_from d (Suc p)" and "\<not> emulation_byte_at d (Suc p)"
  using assms
  by (auto simp: payload_from_def emulation_byte_at_def zeros_before_def drop_eq_Cons)

lemma drop_byte_bits:
  "q < 8 \<Longrightarrow> drop q (byte_bits b) = bit b (7 - q) # drop (Suc q) (byte_bits b)"
  by (subst drop_eq_Cons) (simp_all add: nth_byte_bits)

lemma and_one_bit: "(ucast (drop_bit n (b :: u8)) :: u32) AND 1 = of_bool (bit b n)"
proof -
  have "(ucast (drop_bit n b) :: u32) AND 1 = of_bool (odd (ucast (drop_bit n b) :: u32))"
    by (simp add: and_one_eq odd_iff_mod_2_eq_one)
  also have "odd (ucast (drop_bit n b) :: u32) = bit b n"
    by (simp add: bit_simps flip: bit_0)
  finally show ?thesis .
qed

lemma reader_rest_Cons:
  assumes "reader_valid r" and "rb_byte_pos r < length (rb_data r)"
  shows "reader_rest r = bit (rb_data r ! rb_byte_pos r) (7 - rb_bit_pos r) #
           drop (Suc (rb_bit_pos r)) (byte_bits (rb_data r ! rb_byte_pos r))
             @ payload_from (rb_data r) (Suc (rb_byte_pos r))"
  using assms by (simp add: reader_rest_def reader_valid_def payload_from_Cons drop_byte_bits)

lemma ReadBit_rest:
  assumes "reader_valid r" and "rb_byte_pos r < length (rb_data r)"
  shows "\<exists>r'. ReadBit r = Some (of_bool (hd (reader_rest r)), r') \<and>
              reader_rest r' = tl (reader_rest r) \<and> reader_valid r'"
proof -
  let ?d = "rb_data r" and ?p = "rb_byte_pos r" and ?q = "rb_bit_pos r"
  have q: "?q < 8" using assms(1) by (simp add: reader_valid_def)
  have step: "payload_from ?d (if emulation_byte_at ?d (Suc ?p) then Suc (Suc ?p) else Suc ?p)
      = payload_from ?d (Suc ?p)"
    by (simp add: payload_from_skip)
  let ?r' = "if Suc ?q = 8
      then r\<lparr>rb_bit_pos := 0, rb_byte_pos :=
             (if emulation_byte_at ?d (Suc ?p) then Suc (Suc ?p) else Suc ?p)\<rparr>
      else r\<lparr>rb_bit_pos := Suc ?q\<rparr>"
  have "ReadBit r = Some (of_bool (hd (reader_rest r)), ?r')"
    using assms(2) unfolding reader_rest_Cons [OF assms]
    by (simp add: ReadBit_def Let_def and_one_bit)
  moreover have "reader_rest ?r' = tl (reader_rest r)"
    using assms(2) step payload_from_Cons [of ?p ?d] assms(1) q
    unfolding reader_rest_Cons [OF assms]
    by (auto simp: reader_rest_def reader_valid_def)
  moreover have "reader_valid ?r'"
    using assms(1) q payload_from_skip(2) [of ?d "Suc ?p"] by (auto simp: reader_valid_def)
  ultimately show ?thesis by blast
qed

lemma reader_rest_empty_iff:
  assumes "reader_valid r"
  shows "reader_rest r = [] \<longleftrightarrow> length (rb_data r) \<le> rb_byte_pos r"
  using assms reader_rest_Cons [of r] payload_from_end [of "rb_data r" "rb_byte_pos r"]
  by (cases "rb_byte_pos r < length (rb_data r)") (auto simp: reader_rest_def)

interpretation rbsp: bit_source ReadBit reader_rest reader_valid
proof unfold_locales
  show "reader_valid s \<Longrightarrow> reader_rest s = [] \<Longrightarrow> ReadBit s = None" for s
    by (simp add: reader_rest_empty_iff ReadBit_def)
next
  fix s b bs
  assume v: "reader_valid s" and r: "reader_rest s = b # bs"
  then have "rb_byte_pos s < length (rb_data s)"
    using reader_rest_empty_iff [OF v] by (auto simp: not_le)
  from ReadBit_rest [OF v this] r
  show "\<exists>s'. ReadBit s = Some (of_bool b, s') \<and> reader_rest s' = bs \<and> reader_valid s'"
    by simp
qed

lemma reader_start:
  "reader_valid (RbspBitReader d)"
  "reader_rest (RbspBitReader d) = concat (map byte_bits (unescape 0 d))"
  by (auto simp: reader_valid_def emulation_byte_at_def RbspBitReader_def reader_rest_def
      payload_from_def zeros_before_def)

text \<open>The two routines on the reader, in the form the parsers use them.\<close>

lemma ReadBit_law:
  "reader_valid r \<Longrightarrow> reader_rest r = b # ws \<Longrightarrow>
   \<exists>r'. ReadBit r = Some (of_bool b, r') \<and> reader_rest r' = ws \<and> reader_valid r'"
  by (rule rbsp.next_Cons)

lemma ReadBits_law:
  "reader_valid r \<Longrightarrow> reader_rest r = bs @ ws \<Longrightarrow> length bs = n \<Longrightarrow>
   \<exists>r'. ReadBits n r = Some (of_nat (bits_val bs), r') \<and> reader_rest r' = ws \<and> reader_valid r'"
  using rbsp.read_bits_complete [of r bs ws 0] by (auto simp: ReadBits_def)

lemma ReadUe_law:
  "reader_valid r \<Longrightarrow> reader_rest r = ue_code k @ ws \<Longrightarrow> k + 1 < 2 ^ 32 \<Longrightarrow>
   \<exists>r'. ReadUe r = Some (of_nat k, r') \<and> reader_rest r' = ws \<and> reader_valid r'"
  unfolding ReadUe_def by (rule rbsp.read_ue_complete)

lemmas reader_laws = ReadBit_law ReadBits_law ReadUe_law

end
