(* ===== verification/AvcConfig.thy ===== *)
theory AvcConfig
  imports AnnexB RbspReader
begin

text \<open>
  The H.264 half of \<^verbatim>\<open>libs/engine/src/annexb_to_avcc.cpp\<close> beyond the sample converter: the
  extraction of the parameter sets, the parser for the chroma block of the sequence parameter
  set, and the decoder configuration record written into the container.
\<close>

section \<open>Parameter sets of a packet\<close>

definition start_code_4 :: "u8 list" where
  "start_code_4 = [0x00, 0x00, 0x00, 0x01]"

definition ExtractH264SpsAndPps :: "u8 list \<Rightarrow> u8 list option" where
  "ExtractH264SpsAndPps d =
     (let nals = EnumerateNals d in
      case (find (\<lambda>s. nal_type s = 7) nals, find (\<lambda>s. nal_type s = 8) nals) of
        (Some sps, Some pps) \<Rightarrow>
          Some (start_code_4 @ span_bytes d sps @ start_code_4 @ span_bytes d pps)
      | _ \<Rightarrow> None)"

section \<open>The chroma block of the sequence parameter set\<close>

record H264SpsChromaInfo =
  h264_chroma_format_idc :: u32
  h264_bit_depth_luma_minus8 :: u32
  h264_bit_depth_chroma_minus8 :: u32

definition default_chroma_info :: H264SpsChromaInfo where
  "default_chroma_info =
     \<lparr>h264_chroma_format_idc = 1, h264_bit_depth_luma_minus8 = 0, h264_bit_depth_chroma_minus8 = 0\<rparr>"

definition kHighFamily :: "u8 list" where
  "kHighFamily = [100, 110, 122, 244, 44, 83, 86, 118, 128, 138, 139, 134, 135]"

text \<open>
  The boolean is the return value; the information is the output parameter, which keeps the
  fields read before a failed read.
\<close>

definition ParseH264SpsChromaInfo ::
  "u8 list \<Rightarrow> H264SpsChromaInfo \<Rightarrow> bool \<times> H264SpsChromaInfo" where
  "ParseH264SpsChromaInfo sps out =
     (if length sps < 4 then (False, out)
      else if sps ! 1 \<notin> set kHighFamily then (True, out)
      else
        case ReadBits 24 (RbspBitReader (drop 1 sps)) of None \<Rightarrow> (False, out)
        | Some (skip, r) \<Rightarrow>
        case ReadUe r of None \<Rightarrow> (False, out)
        | Some (sps_id, r) \<Rightarrow>
        case ReadUe r of None \<Rightarrow> (False, out)
        | Some (chroma, r) \<Rightarrow>
        let out = out\<lparr>h264_chroma_format_idc := chroma\<rparr> in
        case (if chroma = 3 then ReadBit r else Some (0, r)) of None \<Rightarrow> (False, out)
        | Some (separate_colour_plane_flag, r) \<Rightarrow>
        case ReadUe r of None \<Rightarrow> (False, out)
        | Some (luma, r) \<Rightarrow>
        let out = out\<lparr>h264_bit_depth_luma_minus8 := luma\<rparr> in
        case ReadUe r of None \<Rightarrow> (False, out)
        | Some (chr, r) \<Rightarrow> (True, out\<lparr>h264_bit_depth_chroma_minus8 := chr\<rparr>))"

section \<open>The decoder configuration record\<close>

text \<open>The loop that looks for the start code of the picture parameter set.\<close>

function find_start_code_4 :: "u8 list \<Rightarrow> nat \<Rightarrow> nat option" where
  "find_start_code_4 x i =
     (if i + 3 < length x then
        if x ! i = 0x00 \<and> x ! (i + 1) = 0x00 \<and> x ! (i + 2) = 0x00 \<and> x ! (i + 3) = 0x01
        then Some i else find_start_code_4 x (i + 1)
      else None)"
  by pat_completeness auto
termination
  by (relation "measure (\<lambda>(x, i). length x - i)") auto

declare find_start_code_4.simps [simp del]

definition avcc_trailer :: "u8 list \<Rightarrow> u8 list" where
  "avcc_trailer sps =
     (let profile_idc = sps ! 1 in
      if profile_idc \<noteq> 66 \<and> profile_idc \<noteq> 77 \<and> profile_idc \<noteq> 88 then
        let info = snd (ParseH264SpsChromaInfo sps default_chroma_info) in
        [0xFC OR ucast (h264_chroma_format_idc info AND 0x03),
         0xF8 OR ucast (h264_bit_depth_luma_minus8 info AND 0x07),
         0xF8 OR ucast (h264_bit_depth_chroma_minus8 info AND 0x07),
         0x00]
      else [])"

definition BuildAvccFromAnnexBSpsAndPps :: "u8 list \<Rightarrow> u8 list option" where
  "BuildAvccFromAnnexBSpsAndPps x =
     (if length x < 14 then None
      else if x ! 0 \<noteq> 0x00 \<or> x ! 1 \<noteq> 0x00 \<or> x ! 2 \<noteq> 0x00 \<or> x ! 3 \<noteq> 0x01 then None
      else
        case find_start_code_4 x 5 of None \<Rightarrow> None
        | Some pps_sc_pos \<Rightarrow>
            let sps_len = pps_sc_pos - 4;
                pps_start = pps_sc_pos + 4;
                pps_len = length x - pps_start;
                sps = take sps_len (drop 4 x);
                pps = drop pps_start x
            in if sps_len < 4 \<or> pps_len < 1 then None
               else if sps_len > 0xFFFF \<or> pps_len > 0xFFFF then None
               else Some ([0x01, sps ! 1, sps ! 2, sps ! 3, 0xFF, 0xE1] @ be16 sps_len @ sps
                    @ [0x01] @ be16 pps_len @ pps @ avcc_trailer sps))"

text \<open>The reader of the record, as a demuxer parses it: parameter sets and the trailer.\<close>

definition decode_avcc :: "u8 list \<Rightarrow> (u8 list \<times> u8 list \<times> u8 list) option" where
  "decode_avcc r =
     (if length r < 8 \<or> r ! 0 \<noteq> 1 \<or> r ! 4 \<noteq> 0xFF \<or> r ! 5 \<noteq> 0xE1 then None
      else
        let sl = be_val (take 2 (drop 6 r)); q = drop (8 + sl) r in
        if length r < 8 + sl \<or> length q < 3 \<or> q ! 0 \<noteq> 1 then None
        else
          let pl = be_val (take 2 (drop 1 q)) in
          if length q < 3 + pl then None
          else Some (take sl (drop 8 r), take pl (drop 3 q), drop (3 + pl) q))"

section \<open>Lemmas\<close>

lemma find_start_code_4_eqI:
  assumes "i \<le> m" and "m + 3 < length x"
    and "x ! m = 0" "x ! (m + 1) = 0" "x ! (m + 2) = 0" "x ! (m + 3) = 1"
    and "\<And>k. i \<le> k \<Longrightarrow> k < m \<Longrightarrow>
           \<not> (x ! k = 0 \<and> x ! (k + 1) = 0 \<and> x ! (k + 2) = 0 \<and> x ! (k + 3) = 1)"
  shows "find_start_code_4 x i = Some m"
  using assms
proof (induction x i rule: find_start_code_4.induct)
  case (1 x i)
  show ?case
  proof (cases "i = m")
    case True
    with "1.prems" show ?thesis by (subst find_start_code_4.simps) simp
  next
    case False
    then have miss: "\<not> (x ! i = 0 \<and> x ! (i + 1) = 0 \<and> x ! (i + 2) = 0 \<and> x ! (i + 3) = 1)"
      and lt: "i + 3 < length x" "i + 1 \<le> m"
      using "1.prems"(1,2,7) by auto
    have "find_start_code_4 x (i + 1) = Some m"
      using "1.prems" by (intro "1.IH" [OF lt(1) miss] lt(2)) auto
    then show ?thesis
      using lt(1) miss by (subst find_start_code_4.simps) auto
  qed
qed

text \<open>A unit that a scanner found is well formed: its tail holds no start code.\<close>

lemma span_wf_nal: "s \<in> set (EnumerateNals d) \<Longrightarrow> wf_nal 1 (span_bytes d s)"
  by (rule wf_nal_of_span [where ty = "\<lambda>b. b AND 0x1F"]) (simp_all add: EnumerateNals_def EnumerateFrom_ok)

lemma find_pps_start:
  assumes "wf_nal 1 s"
  shows "find_start_code_4 (start_code_4 @ s @ start_code_4 @ p) 5 = Some (4 + length s)"
proof (rule find_start_code_4_eqI)
  let ?x = "start_code_4 @ s @ start_code_4 @ p"
  show "\<not> (?x ! k = 0 \<and> ?x ! (k + 1) = 0 \<and> ?x ! (k + 2) = 0 \<and> ?x ! (k + 3) = 1)"
    if k: "5 \<le> k" "k < 4 + length s" for k
  proof -
    define j where "j = k - 4"
    then have j: "k = 4 + j" "1 \<le> j" "j < length s"
      using k by auto
    have nth: "?x ! (4 + i) = (s @ start_code_4 @ p) ! i" for i
      by (simp add: start_code_4_def)
    show ?thesis
    proof (cases "j + 3 < length s")
      case True
      then show ?thesis
        using start_code_free_fromD [of 1 s "j + 1"] assms nth [of "j + 1"] nth [of "j + 2"] nth [of "j + 3"]
        by (auto simp: j(1) nth_append_left add.assoc numeral_3_eq_3 wf_nal_def)
    next
      case False
      then obtain i where i: "j + 3 = length s + i" "i < 3"
        using j(3) by (metis add.commute add_less_cancel_right le_Suc_ex not_less)
      then have "(s @ start_code_4 @ p) ! (j + 3) = 0"
        by (auto simp: start_code_4_def nth_append less_Suc_eq numeral_3_eq_3)
      then show ?thesis
        using nth [of "j + 3"] by (simp add: j(1) add.assoc)
    qed
  qed
qed (use assms in \<open>auto simp: start_code_4_def nth_append wf_nal_def\<close>)

lemma Build_of_parameter_sets:
  assumes "wf_nal 1 s" and "4 \<le> length s" and "length s \<le> 0xFFFF"
    and "1 \<le> length p" and "length p \<le> 0xFFFF" and "6 \<le> length s + length p"
  shows "BuildAvccFromAnnexBSpsAndPps (start_code_4 @ s @ start_code_4 @ p)
    = Some ([0x01, s ! 1, s ! 2, s ! 3, 0xFF, 0xE1] @ be16 (length s) @ s
            @ [0x01] @ be16 (length p) @ p @ avcc_trailer s)"
proof -
  have "find_start_code_4 (start_code_4 @ s @ start_code_4 @ p) 5 = Some (4 + length s)"
    using assms by (intro find_pps_start) auto
  moreover have "drop (8 + length s) (start_code_4 @ s @ start_code_4 @ p) = p"
    using drop_prefix [of "start_code_4 @ s @ start_code_4" "8 + length s" p]
    by (simp only: append_assoc) (simp add: start_code_4_def)
  ultimately show ?thesis
    using assms by (auto simp: BuildAvccFromAnnexBSpsAndPps_def Let_def start_code_4_def)
qed

lemma decode_avcc_record:
  assumes "length s \<le> 0xFFFF" and "length p \<le> 0xFFFF"
    and r: "r = [0x01, a, b, c, 0xFF, 0xE1] @ be16 (length s) @ s
              @ [0x01] @ be16 (length p) @ p @ t"
  shows "decode_avcc r = Some (s, p, t)"
proof -
  let ?q = "1 # be16 (length p) @ p @ t"
  have q: "drop (8 + length s) r = ?q" and s: "take (length s) (drop 8 r) = s"
    and sl: "be_val (take 2 (drop 6 r)) = length s"
    using assms be_val_be16 [of "length s"] by (simp_all add: drop_add [of 8] del: drop_drop)
  have "\<not> (length r < 8 \<or> r ! 0 \<noteq> 1 \<or> r ! 4 \<noteq> 0xFF \<or> r ! 5 \<noteq> 0xE1)"
    "\<not> (length r < 8 + length s \<or> length ?q < 3 \<or> ?q ! 0 \<noteq> 1)"
    by (simp_all add: r)
  moreover have "be_val (take 2 (drop 1 ?q)) = length p" "\<not> length ?q < 3 + length p"
    "take (length p) (drop 3 ?q) = p" "drop (3 + length p) ?q = t"
    using assms(2) be_val_be16 [of "length p"] by (simp_all add: drop_add [of 3] del: drop_drop)
  ultimately show ?thesis
    unfolding decode_avcc_def Let_def sl q s by (simp only: if_False)
qed

lemma find_span: "find P (EnumerateNals d) = Some s \<Longrightarrow> s \<in> set (EnumerateNals d) \<and> P s"
  by (auto simp: find_Some_iff)

lemma read_optional_bit:
  assumes "reader_valid r" and "reader_rest r = (if c then [b] else []) @ ws"
  shows "\<exists>v r'. (if c then ReadBit r else Some (0, r)) = Some (v, r') \<and>
                reader_rest r' = ws \<and> reader_valid r'"
  using ReadBit_law [of r b ws] assms by (cases c) auto

section \<open>Properties\<close>

text \<open>
  C2: the decoder configuration record built from the parameter sets of a packet parses back
  to exactly the first sequence and the first picture parameter set of the packet, with the
  profile, compatibility and level bytes of the former in front, provided their sizes fit.
\<close>

theorem avcc_record_roundtrip:
  assumes "find (\<lambda>s. nal_type s = 7) (EnumerateNals d) = Some s"
    and "find (\<lambda>s. nal_type s = 8) (EnumerateNals d) = Some p"
    and "4 \<le> payload_size s" and "payload_size s \<le> 0xFFFF" and "payload_size p \<le> 0xFFFF"
    and "6 \<le> payload_size s + payload_size p"
  shows "\<exists>x r. ExtractH264SpsAndPps d = Some x \<and> BuildAvccFromAnnexBSpsAndPps x = Some r \<and>
    decode_avcc r = Some (span_bytes d s, span_bytes d p, avcc_trailer (span_bytes d s)) \<and>
    take 3 (drop 1 r) = [span_bytes d s ! 1, span_bytes d s ! 2, span_bytes d s ! 3]"
proof -
  let ?s = "span_bytes d s" and ?p = "span_bytes d p"
  have mem: "s \<in> set (EnumerateNals d)" "p \<in> set (EnumerateNals d)"
    using assms(1,2) find_span by blast+
  note len = mem [THEN h264.length_span_bytes] and pos = mem [THEN h264.spans_inside]
  have build: "BuildAvccFromAnnexBSpsAndPps (start_code_4 @ ?s @ start_code_4 @ ?p)
    = Some ([0x01, ?s ! 1, ?s ! 2, ?s ! 3, 0xFF, 0xE1] @ be16 (length ?s) @ ?s
            @ [0x01] @ be16 (length ?p) @ ?p @ avcc_trailer ?s)"
    using assms len pos span_wf_nal [OF mem(1)] by (intro Build_of_parameter_sets) auto
  moreover have "ExtractH264SpsAndPps d = Some (start_code_4 @ ?s @ start_code_4 @ ?p)"
    using assms by (simp add: ExtractH264SpsAndPps_def)
  moreover note decode_avcc_record [OF _ _ refl, of ?s ?p "?s ! 1" "?s ! 2" "?s ! 3" "avcc_trailer ?s"]
  ultimately show ?thesis
    using assms len by (auto simp: numeral_3_eq_3)
qed

theorem avcc_record_roundtrip_witness:
  "\<exists>x r. ExtractH264SpsAndPps
       [0, 0, 0, 1, 0x67, 100, 0, 31, 0xAE, 0, 0, 1, 0x68, 0xEE, 0x3C] = Some x \<and>
     BuildAvccFromAnnexBSpsAndPps x = Some r \<and>
     decode_avcc r = Some ([0x67, 100, 0, 31, 0xAE], [0x68, 0xEE, 0x3C], [0xFD, 0xF8, 0xF8, 0])"
proof -
  let ?d = "[0, 0, 0, 1, 0x67, 100, 0, 31, 0xAE, 0, 0, 1, 0x68, 0xEE, 0x3C] :: u8 list"
  let ?s = "\<lparr>payload_offset = 4, payload_size = 5, nal_type = 7\<rparr>"
  let ?p = "\<lparr>payload_offset = 12, payload_size = 3, nal_type = 8\<rparr>"
  have "find (\<lambda>s. nal_type s = 7) (EnumerateNals ?d) = Some ?s"
    and "find (\<lambda>s. nal_type s = 8) (EnumerateNals ?d) = Some ?p"
    by code_simp+
  moreover have "span_bytes ?d ?s = [0x67, 100, 0, 31, 0xAE]" "span_bytes ?d ?p = [0x68, 0xEE, 0x3C]"
    by (simp_all add: span_bytes_def)
  moreover have "avcc_trailer [0x67, 100, 0, 31, 0xAE] = [0xFD, 0xF8, 0xF8, 0]"
    by code_simp
  ultimately show ?thesis
    using avcc_record_roundtrip [of ?d ?s ?p] by fastforce
qed

text \<open>
  For a profile whose parameter set carries the chroma block, the parser returns exactly the
  chroma format and the two bit depths that the emulation-free payload encodes in Exp-Golomb
  codes behind the three fixed bytes and the parameter set id.
\<close>

theorem chroma_info_decoded:
  assumes "4 \<le> length sps" and "sps ! 1 \<in> set kHighFamily"
    and bits: "concat (map byte_bits (unescape 0 (drop 1 sps))) =
       fixed @ ue_code sps_id @ ue_code chroma @ (if chroma = 3 then [plane] else [])
         @ ue_code luma @ ue_code chr @ ws"
    and "length fixed = 24"
    and "sps_id + 1 < 2 ^ 32" "chroma + 1 < 2 ^ 32" "luma + 1 < 2 ^ 32" "chr + 1 < 2 ^ 32"
  shows "ParseH264SpsChromaInfo sps info =
    (True, \<lparr>h264_chroma_format_idc = of_nat chroma, h264_bit_depth_luma_minus8 = of_nat luma,
            h264_bit_depth_chroma_minus8 = of_nat chr\<rparr>)"
proof -
  let ?r0 = "RbspBitReader (drop 1 sps)"
  have start: "reader_valid ?r0" "reader_rest ?r0 = fixed @ ue_code sps_id @ ue_code chroma @
      (if chroma = 3 then [plane] else []) @ ue_code luma @ ue_code chr @ ws"
    using bits reader_start by auto
  obtain r1 where r1: "ReadBits 24 ?r0 = Some (of_nat (bits_val fixed), r1)" "reader_valid r1"
    "reader_rest r1 = ue_code sps_id @ ue_code chroma @
      (if chroma = 3 then [plane] else []) @ ue_code luma @ ue_code chr @ ws"
    using ReadBits_law [OF start assms(4)] by auto
  obtain r2 where r2: "ReadUe r1 = Some (of_nat sps_id, r2)" "reader_valid r2"
    "reader_rest r2 = ue_code chroma @ (if chroma = 3 then [plane] else []) @ ue_code luma @ ue_code chr @ ws"
    using ReadUe_law [OF r1(2,3) assms(5)] by auto
  obtain r3 where r3: "ReadUe r2 = Some (of_nat chroma, r3)" "reader_valid r3"
    "reader_rest r3 = (if chroma = 3 then [plane] else []) @ ue_code luma @ ue_code chr @ ws"
    using ReadUe_law [OF r2(2,3) assms(6)] by auto
  have three: "(of_nat chroma = (3 :: u32)) = (chroma = 3)"
    using assms(6) of_nat_u32_eq_iff [of chroma 3] by simp
  obtain v r4 where r4: "(if chroma = 3 then ReadBit r3 else Some (0, r3)) = Some (v, r4)"
    "reader_valid r4" "reader_rest r4 = ue_code luma @ ue_code chr @ ws"
    using read_optional_bit [OF r3(2,3)] by blast
  obtain r5 where r5: "ReadUe r4 = Some (of_nat luma, r5)" "reader_valid r5"
    "reader_rest r5 = ue_code chr @ ws"
    using ReadUe_law [OF r4(2,3) assms(7)] by auto
  obtain r6 where r6: "ReadUe r5 = Some (of_nat chr, r6)"
    using ReadUe_law [OF r5(2,3) assms(8)] by auto
  show ?thesis
    using assms(1,2) r1(1) r2(1) r3(1) r4(1) r5(1) r6
    by (simp add: ParseH264SpsChromaInfo_def Let_def three)
qed

theorem chroma_info_decoded_witness:
  "ParseH264SpsChromaInfo [0x67, 100, 0, 31, 0xAE] default_chroma_info =
    (True, \<lparr>h264_chroma_format_idc = of_nat 1, h264_bit_depth_luma_minus8 = of_nat 0,
            h264_bit_depth_chroma_minus8 = of_nat 0\<rparr>)"
proof (rule chroma_info_decoded [where sps_id = 0 and plane = False and ws = "[True, False]"
      and fixed = "concat (map byte_bits [100, 0, 31])"])
  show "concat (map byte_bits (unescape 0 (drop 1 [0x67, 100, 0, 31, 0xAE]))) =
      concat (map byte_bits [100, 0, 31]) @ ue_code 0 @ ue_code 1 @
      (if (1::nat) = 3 then [False] else []) @ ue_code 0 @ ue_code 0 @ [True, False]"
    by code_simp
qed (simp_all add: kHighFamily_def)

text \<open>
  A read that fails part of the way keeps what was read before: the parser reports failure and
  the record builder, which ignores the report, writes chroma format 2 with the default depths.
\<close>

lemma chroma_info_partial_update:
  "ParseH264SpsChromaInfo [0x67, 100, 0, 31, 0xB0] default_chroma_info =
     (False, default_chroma_info\<lparr>h264_chroma_format_idc := 2\<rparr>)"
  "avcc_trailer [0x67, 100, 0, 31, 0xB0] = [0xFE, 0xF8, 0xF8, 0x00]"
  by code_simp+

end
