(* ===== verification/HevcConfig.thy ===== *)
theory HevcConfig
  imports AnnexB RbspReader "HOL-Library.Monad_Syntax"
begin

text \<open>
  The HEVC half, \<^verbatim>\<open>libs/engine/src/annexb_to_hvcc.cpp\<close> beyond the sample converter: extraction
  of the three parameter sets, the parser for the sequence parameter set, and the decoder
  configuration record. The parsers are in the option monad: on a failed read the caller
  discards the partly filled structure and uses the fallback constants.
\<close>

section \<open>Parameter sets of a packet\<close>

definition hevc_start_code :: "u8 list" where
  "hevc_start_code = [0x00, 0x00, 0x00, 0x01]"

definition ExtractHevcVpsSpsPps :: "u8 list \<Rightarrow> u8 list option" where
  "ExtractHevcVpsSpsPps d =
     (let nals = EnumerateHevcNals d in
      case (find (\<lambda>s. nal_type s = 32) nals, find (\<lambda>s. nal_type s = 33) nals,
            find (\<lambda>s. nal_type s = 34) nals) of
        (Some vps, Some sps, Some pps) \<Rightarrow>
          Some (hevc_start_code @ span_bytes d vps @ hevc_start_code @ span_bytes d sps
                @ hevc_start_code @ span_bytes d pps)
      | _ \<Rightarrow> None)"

section \<open>The parser of the sequence parameter set\<close>

record ParsedHevcSps =
  profile_space :: u8
  tier_flag :: u8
  profile_idc :: u8
  profile_compatibility :: u32
  constraint_bytes :: "u8 list"
  level_idc :: u8
  chroma_format_idc :: u32
  bit_depth_luma_minus8 :: u32
  bit_depth_chroma_minus8 :: u32

definition initial_hevc_sps :: ParsedHevcSps where
  "initial_hevc_sps =
     \<lparr>profile_space = 0, tier_flag = 0, profile_idc = 1, profile_compatibility = 0,
      constraint_bytes = replicate 6 0, level_idc = 0, chroma_format_idc = 1,
      bit_depth_luma_minus8 = 0, bit_depth_chroma_minus8 = 0\<rparr>"

text \<open>The loop over the constraint bytes.\<close>

fun read_bytes :: "nat \<Rightarrow> rbsp_reader \<Rightarrow> (u8 list \<times> rbsp_reader) option" where
  "read_bytes 0 r = Some ([], r)"
| "read_bytes (Suc n) r = do {
     (v, r) \<leftarrow> ReadBits 8 r;
     (bs, r) \<leftarrow> read_bytes n r;
     Some (ucast v # bs, r)
   }"

text \<open>The loop over the presence flags of the sub-layers.\<close>

fun read_sub_layer_flags :: "nat \<Rightarrow> rbsp_reader \<Rightarrow> ((bool \<times> bool) list \<times> rbsp_reader) option" where
  "read_sub_layer_flags 0 r = Some ([], r)"
| "read_sub_layer_flags (Suc n) r = do {
     (pp, r) \<leftarrow> ReadBit r;
     (lp, r) \<leftarrow> ReadBit r;
     (fs, r) \<leftarrow> read_sub_layer_flags n r;
     Some ((pp \<noteq> 0, lp \<noteq> 0) # fs, r)
   }"

text \<open>Fields of the given widths, read and dropped.\<close>

fun skip_fields :: "nat list \<Rightarrow> rbsp_reader \<Rightarrow> rbsp_reader option" where
  "skip_fields [] r = Some r"
| "skip_fields (w # ws) r = do { (v, r) \<leftarrow> ReadBits w r; skip_fields ws r }"

definition sub_layer_widths :: "bool \<times> bool \<Rightarrow> nat list" where
  "sub_layer_widths f =
     (if fst f then [8, 32, 8, 8, 8, 8, 8, 8] else []) @ (if snd f then [8] else [])"

definition ParseProfileTierLevel ::
  "rbsp_reader \<Rightarrow> nat \<Rightarrow> ParsedHevcSps \<Rightarrow> (ParsedHevcSps \<times> rbsp_reader) option" where
  "ParseProfileTierLevel r max_sub_layers_minus1 out = do {
     (v, r) \<leftarrow> ReadBits 2 r;
     let out = out\<lparr>profile_space := ucast v\<rparr>;
     (v, r) \<leftarrow> ReadBit r;
     let out = out\<lparr>tier_flag := ucast v\<rparr>;
     (v, r) \<leftarrow> ReadBits 5 r;
     let out = out\<lparr>profile_idc := ucast v\<rparr>;
     (v, r) \<leftarrow> ReadBits 32 r;
     let out = out\<lparr>profile_compatibility := v\<rparr>;
     (bs, r) \<leftarrow> read_bytes 6 r;
     let out = out\<lparr>constraint_bytes := bs\<rparr>;
     (v, r) \<leftarrow> ReadBits 8 r;
     let out = out\<lparr>level_idc := ucast v\<rparr>;
     if max_sub_layers_minus1 > 0 then do {
       (fs, r) \<leftarrow> read_sub_layer_flags max_sub_layers_minus1 r;
       r \<leftarrow> (if max_sub_layers_minus1 < 8
             then skip_fields (replicate (8 - max_sub_layers_minus1) 2) r else Some r);
       r \<leftarrow> skip_fields (concat (map sub_layer_widths fs)) r;
       Some (out, r)
     } else Some (out, r)
   }"

text \<open>The conformance window: a flag and, behind it, four offsets the parser drops.\<close>

definition read_window :: "rbsp_reader \<Rightarrow> (u32 \<times> rbsp_reader) option" where
  "read_window r = do {
     (flag, r) \<leftarrow> ReadBit r;
     if flag \<noteq> 0 then do {
         (d, r) \<leftarrow> ReadUe r;
         (d, r) \<leftarrow> ReadUe r;
         (d, r) \<leftarrow> ReadUe r;
         ReadUe r
       } else Some (0, r)
   }"

definition ParseHevcSps :: "u8 list \<Rightarrow> ParsedHevcSps \<Rightarrow> ParsedHevcSps option" where
  "ParseHevcSps sps_nal out =
     (if length sps_nal < 3 then None
      else do {
        (v, r) \<leftarrow> ReadBits 4 (RbspBitReader (drop 2 sps_nal));
        (max_sub_layers_minus1, r) \<leftarrow> ReadBits 3 r;
        (v, r) \<leftarrow> ReadBit r;
        (out, r) \<leftarrow> ParseProfileTierLevel r (unat max_sub_layers_minus1) out;
        (sps_seq_parameter_set_id, r) \<leftarrow> ReadUe r;
        (v, r) \<leftarrow> ReadUe r;
        let out = out\<lparr>chroma_format_idc := v\<rparr>;
        (v, r) \<leftarrow> (if v = 3 then ReadBit r else Some (0, r));
        (pic_w, r) \<leftarrow> ReadUe r;
        (pic_h, r) \<leftarrow> ReadUe r;
        (d, r) \<leftarrow> read_window r;
        (v, r) \<leftarrow> ReadUe r;
        let out = out\<lparr>bit_depth_luma_minus8 := v\<rparr>;
        (v, r) \<leftarrow> ReadUe r;
        Some (out\<lparr>bit_depth_chroma_minus8 := v\<rparr>)
      })"

section \<open>The decoder configuration record\<close>

text \<open>The fields of the fixed header: those of the parsed set, or the fallback constants.\<close>

definition hvcc_fields :: "u8 list \<Rightarrow> ParsedHevcSps" where
  "hvcc_fields sps_data =
     (case ParseHevcSps sps_data initial_hevc_sps of
        Some sps \<Rightarrow> sps
      | None \<Rightarrow>
          \<lparr>profile_space = 0, tier_flag = 0, profile_idc = 1, profile_compatibility = 0x60000000,
           constraint_bytes = [0x90, 0x00, 0x00, 0x00, 0x00, 0x00],
           level_idc = (if length sps_data \<ge> 15 then sps_data ! 14 else 0),
           chroma_format_idc = 1, bit_depth_luma_minus8 = 0, bit_depth_chroma_minus8 = 0\<rparr>)"

definition hvcc_header :: "ParsedHevcSps \<Rightarrow> u8 list" where
  "hvcc_header f =
     [0x01,
      push_bit 6 (profile_space f AND 0x3) OR push_bit 5 (tier_flag f AND 0x1) OR (profile_idc f AND 0x1F)]
     @ be32 (profile_compatibility f)
     @ map (\<lambda>i. constraint_bytes f ! i) [0..<6]
     @ [level_idc f,
        0xF0, 0x00,
        0xFC,
        ucast (0xFC OR (chroma_format_idc f AND 0x3)),
        ucast (0xF8 OR (bit_depth_luma_minus8 f AND 0x7)),
        ucast (0xF8 OR (bit_depth_chroma_minus8 f AND 0x7)),
        0x00, 0x00,
        0x0F,
        0x03]"

definition hvcc_array :: "u8 \<Rightarrow> u8 list \<Rightarrow> u8 list" where
  "hvcc_array tag nal = [tag, 0x00, 0x01] @ be16 (length nal) @ nal"

definition BuildHvccFromAnnexBVpsSpsPps :: "u8 list \<Rightarrow> u8 list option" where
  "BuildHvccFromAnnexBVpsSpsPps x =
     (if length x < 18 then None
      else if x ! 0 \<noteq> 0x00 \<or> x ! 1 \<noteq> 0x00 \<or> x ! 2 \<noteq> 0x00 \<or> x ! 3 \<noteq> 0x01 then None
      else
        let nals = EnumerateHevcNals x in
        case (find (\<lambda>s. nal_type s = 32) nals, find (\<lambda>s. nal_type s = 33) nals,
              find (\<lambda>s. nal_type s = 34) nals) of
          (Some vps_span, Some sps_span, Some pps_span) \<Rightarrow>
            if payload_size vps_span < 2 \<or> payload_size sps_span < 2 \<or> payload_size pps_span < 2 then None
            else if payload_size vps_span > 0xFFFF \<or> payload_size sps_span > 0xFFFF
                    \<or> payload_size pps_span > 0xFFFF then None
            else Some (hvcc_header (hvcc_fields (span_bytes x sps_span))
                   @ hvcc_array 0xA0 (span_bytes x vps_span)
                   @ hvcc_array 0xA1 (span_bytes x sps_span)
                   @ hvcc_array 0xA2 (span_bytes x pps_span))
        | _ \<Rightarrow> None)"

text \<open>The reader of the three arrays behind the fixed header of 23 bytes.\<close>

definition take_array :: "u8 \<Rightarrow> u8 list \<Rightarrow> (u8 list \<times> u8 list) option" where
  "take_array tag r =
     (if length r < 5 \<or> take 3 r \<noteq> [tag, 0, 1] then None
      else let n = be_val (take 2 (drop 3 r)) in
        if length r < 5 + n then None else Some (take n (drop 5 r), drop (5 + n) r))"

definition decode_hvcc_arrays :: "u8 list \<Rightarrow> (u8 list \<times> u8 list \<times> u8 list) option" where
  "decode_hvcc_arrays r = do {
     (vps, r) \<leftarrow> take_array 0xA0 (drop 23 r);
     (sps, r) \<leftarrow> take_array 0xA1 r;
     (pps, r) \<leftarrow> take_array 0xA2 r;
     if r = [] then Some (vps, sps, pps) else None
   }"

section \<open>Lemmas about the record\<close>

lemma take_array_array:
  assumes "length nal \<le> 0xFFFF"
  shows "take_array tag (hvcc_array tag nal @ r) = Some (nal, r)"
  using assms be_val_be16 [of "length nal"]
  by (simp add: take_array_def hvcc_array_def Let_def drop_add [of 5] del: drop_drop)

lemma length_hvcc_header: "length (hvcc_header f) = 23"
  by (simp add: hvcc_header_def)

lemma decode_hvcc_record:
  assumes "length v \<le> 0xFFFF" "length s \<le> 0xFFFF" "length p \<le> 0xFFFF"
  shows "decode_hvcc_arrays (hvcc_header f @ hvcc_array 0xA0 v @ hvcc_array 0xA1 s @ hvcc_array 0xA2 p)
    = Some (v, s, p)"
  using assms take_array_array [of p "0xA2" "[]"]
  by (simp add: decode_hvcc_arrays_def length_hvcc_header take_array_array)

lemma find_hevc_span:
  "find (\<lambda>s. nal_type s = t) (EnumerateHevcNals d) = Some s \<Longrightarrow>
   s \<in> set (EnumerateHevcNals d) \<and> wf_nal 2 (span_bytes d s) \<and>
   drop_bit 1 (hd (span_bytes d s)) AND 0x3F = t"
proof -
  assume "find (\<lambda>s. nal_type s = t) (EnumerateHevcNals d) = Some s"
  then have s: "s \<in> set (EnumerateHevcNals d)" "nal_type s = t"
    by (auto simp: find_Some_iff)
  then have "span_ok 2 (\<lambda>b. drop_bit 1 b AND 0x3F) d s"
    by (simp add: EnumerateHevcNals_def EnumerateFrom_ok)
  from wf_nal_of_span [OF this] s hevc.spans_typed [OF s(1)] show ?thesis
    by simp
qed

text \<open>The three sets behind their start codes are the stream of the extraction.\<close>

lemma extracted_stream:
  "hevc_start_code @ v @ hevc_start_code @ s @ hevc_start_code @ p
     = annexb_stream [(True, v), (True, s), (True, p)]"
  by (simp add: hevc_start_code_def)

lemma find_by_list:
  assumes "xs = map f ss" and "map nal_type ss = map g xs"
  shows "map_option f (find (\<lambda>s. nal_type s = t) ss) = find (\<lambda>x. g x = t) xs"
  using assms by (induction ss arbitrary: xs) auto

section \<open>Lemmas about the parser\<close>

text \<open>
  The syntax the parser accepts, as an encoder: a sub-layer is its optional profile block of 88
  bits and its optional level byte.
\<close>

type_synonym sub_layer = "bool list option \<times> bool list option"

definition wf_sub_layer :: "sub_layer \<Rightarrow> bool" where
  "wf_sub_layer s \<longleftrightarrow> (\<forall>p. fst s = Some p \<longrightarrow> length p = 88) \<and> (\<forall>l. snd s = Some l \<longrightarrow> length l = 8)"

definition sub_layer_flags :: "sub_layer \<Rightarrow> bool \<times> bool" where
  "sub_layer_flags s = (fst s \<noteq> None, snd s \<noteq> None)"

definition flag_bits :: "bool \<times> bool \<Rightarrow> bool list" where
  "flag_bits f = [fst f, snd f]"

definition sub_layer_bits :: "sub_layer \<Rightarrow> bool list" where
  "sub_layer_bits s = (case fst s of None \<Rightarrow> [] | Some p \<Rightarrow> p) @ (case snd s of None \<Rightarrow> [] | Some l \<Rightarrow> l)"

definition ptl_bits :: "ParsedHevcSps \<Rightarrow> sub_layer list \<Rightarrow> bool list \<Rightarrow> bool list" where
  "ptl_bits f subs reserved =
     nat_bits 2 (unat (profile_space f)) @ [tier_flag f = 1]
     @ nat_bits 5 (unat (profile_idc f)) @ nat_bits 32 (unat (profile_compatibility f))
     @ concat (map (\<lambda>b. nat_bits 8 (unat b)) (constraint_bytes f)) @ nat_bits 8 (unat (level_idc f))
     @ (if subs = [] then []
        else concat (map (flag_bits \<circ> sub_layer_flags) subs) @ reserved
             @ concat (map sub_layer_bits subs))"

lemma ReadBits_nat_bits:
  assumes "reader_valid r" and "reader_rest r = nat_bits n v @ ws" and "v < 2 ^ n"
  shows "\<exists>r'. ReadBits n r = Some (of_nat v, r') \<and> reader_rest r' = ws \<and> reader_valid r'"
  using ReadBits_law [OF assms(1,2)] assms(3) by (simp add: bits_val_nat_bits_id)

lemma ucast_of_nat_u8: "(ucast (of_nat (unat b) :: u32) :: u8) = b"
proof -
  have "(of_nat (unat b) :: u32) = ucast b"
    by simp
  then show ?thesis
    by (simp only:) (rule bit_word_eqI, simp add: bit_simps)
qed

text \<open>The two shapes in which the parser reads a fixed field: a byte cut to its width, a word.\<close>

lemma ReadBits_u8:
  assumes "reader_valid r" and "reader_rest r = nat_bits n (unat (b :: u8)) @ ws" and "unat b < 2 ^ n"
  shows "\<exists>v r'. ReadBits n r = Some (v, r') \<and> ucast v = b \<and> reader_rest r' = ws \<and> reader_valid r'"
  using ReadBits_nat_bits [OF assms] ucast_of_nat_u8 [of b] by blast

lemma ReadBits_u32:
  assumes "reader_valid r" and "reader_rest r = nat_bits 32 (unat (w :: u32)) @ ws"
  shows "\<exists>r'. ReadBits 32 r = Some (w, r') \<and> reader_rest r' = ws \<and> reader_valid r'"
  using ReadBits_nat_bits [OF assms] unsigned_less [of w] by simp

lemma read_bytes_law:
  "reader_valid r \<Longrightarrow> reader_rest r = concat (map (\<lambda>b. nat_bits 8 (unat b)) bs) @ ws \<Longrightarrow>
   \<exists>r'. read_bytes (length bs) r = Some (bs, r') \<and> reader_rest r' = ws \<and> reader_valid r'"
proof (induction bs arbitrary: r)
  case (Cons b bs)
  have "unat b < 2 ^ 8"
    using unsigned_less [of b] by simp
  then obtain r1 where "ReadBits 8 r = Some (of_nat (unat b), r1)" "reader_valid r1"
      "reader_rest r1 = concat (map (\<lambda>b. nat_bits 8 (unat b)) bs) @ ws"
    using ReadBits_nat_bits [of r 8 "unat b"] Cons.prems by auto
  with Cons.IH [of r1] show ?case
    using ucast_of_nat_u8 [of b] by auto
qed simp

lemma read_flags_law:
  "reader_valid r \<Longrightarrow> reader_rest r = concat (map flag_bits fs) @ ws \<Longrightarrow>
   \<exists>r'. read_sub_layer_flags (length fs) r = Some (fs, r') \<and> reader_rest r' = ws \<and> reader_valid r'"
proof (induction fs arbitrary: r)
  case (Cons f fs)
  have "reader_rest r = fst f # snd f # concat (map flag_bits fs) @ ws"
    using Cons.prems(2) by (simp add: flag_bits_def [of f])
  then obtain r1 where "ReadBit r = Some (of_bool (fst f), r1)" "reader_valid r1"
      "reader_rest r1 = snd f # concat (map flag_bits fs) @ ws"
    using ReadBit_law Cons.prems(1) by blast
  moreover then obtain r2 where "ReadBit r1 = Some (of_bool (snd f), r2)" "reader_valid r2"
      "reader_rest r2 = concat (map flag_bits fs) @ ws"
    using ReadBit_law by blast
  ultimately show ?case
    using Cons.IH [of r2] by (cases f) auto
qed simp

lemma skip_fields_law:
  "reader_valid r \<Longrightarrow> reader_rest r = bs @ ws \<Longrightarrow> length bs = sum_list widths \<Longrightarrow>
   \<exists>r'. skip_fields widths r = Some r' \<and> reader_rest r' = ws \<and> reader_valid r'"
proof (induction widths arbitrary: r bs)
  case (Cons w widths)
  have "reader_rest r = take w bs @ drop w bs @ ws" "length (take w bs) = w"
    using Cons.prems by simp_all
  then obtain v r1 where "ReadBits w r = Some (v, r1)" "reader_valid r1" "reader_rest r1 = drop w bs @ ws"
    using ReadBits_law [OF Cons.prems(1)] by blast
  with Cons.IH [of r1 "drop w bs"] Cons.prems show ?case
    by auto
qed simp

lemma sub_layer_widths_sum:
  "wf_sub_layer s \<Longrightarrow> sum_list (sub_layer_widths (sub_layer_flags s)) = length (sub_layer_bits s)"
  by (cases s) (auto simp: wf_sub_layer_def sub_layer_flags_def sub_layer_widths_def sub_layer_bits_def
      split: option.splits)

definition wf_ptl :: "ParsedHevcSps \<Rightarrow> sub_layer list \<Rightarrow> bool list \<Rightarrow> bool" where
  "wf_ptl f subs reserved \<longleftrightarrow>
     unat (profile_space f) < 4 \<and> unat (tier_flag f) < 2 \<and> unat (profile_idc f) < 32 \<and>
     length (constraint_bytes f) = 6 \<and> length subs < 8 \<and>
     length reserved = 2 * (8 - length subs) \<and> list_all wf_sub_layer subs"

definition with_ptl :: "ParsedHevcSps \<Rightarrow> ParsedHevcSps \<Rightarrow> ParsedHevcSps" where
  "with_ptl f out = out\<lparr>profile_space := profile_space f, tier_flag := tier_flag f,
     profile_idc := profile_idc f, profile_compatibility := profile_compatibility f,
     constraint_bytes := constraint_bytes f, level_idc := level_idc f\<rparr>"

lemma sub_layers_law:
  assumes "reader_valid r" and "list_all wf_sub_layer subs" and "length subs < 8" and "subs \<noteq> []"
    and "length reserved = 2 * (8 - length subs)"
    and "reader_rest r = concat (map (flag_bits \<circ> sub_layer_flags) subs) @ reserved
            @ concat (map sub_layer_bits subs) @ ws"
  shows "\<exists>r1 r2 r3. read_sub_layer_flags (length subs) r = Some (map sub_layer_flags subs, r1) \<and>
    skip_fields (replicate (8 - length subs) 2) r1 = Some r2 \<and>
    skip_fields (concat (map sub_layer_widths (map sub_layer_flags subs))) r2 = Some r3 \<and>
    reader_rest r3 = ws \<and> reader_valid r3"
proof -
  obtain r1 where r1: "read_sub_layer_flags (length subs) r = Some (map sub_layer_flags subs, r1)"
      "reader_valid r1" "reader_rest r1 = reserved @ concat (map sub_layer_bits subs) @ ws"
    using read_flags_law [OF assms(1), of "map sub_layer_flags subs"] assms(6) by auto
  obtain r2 where r2: "skip_fields (replicate (8 - length subs) 2) r1 = Some r2"
      "reader_valid r2" "reader_rest r2 = concat (map sub_layer_bits subs) @ ws"
    using skip_fields_law [OF r1(2,3), of "replicate (8 - length subs) 2"] assms(5)
    by (auto simp: sum_list_replicate)
  have "length (concat (map sub_layer_bits ss))
      = sum_list (concat (map sub_layer_widths (map sub_layer_flags ss)))"
    if "list_all wf_sub_layer ss" for ss
    using that by (induction ss) (auto simp: sub_layer_widths_sum)
  then show ?thesis
    using skip_fields_law [OF r2(2,3)] r1(1) r2(1) assms(2) by blast
qed

lemma ptl_law:
  assumes wf: "wf_ptl f subs reserved" and "reader_valid r"
    and rest: "reader_rest r = ptl_bits f subs reserved @ ws"
  shows "\<exists>r'. ParseProfileTierLevel r (length subs) out = Some (with_ptl f out, r') \<and>
              reader_rest r' = ws \<and> reader_valid r'"
proof -
  define ts where "ts = (if subs = [] then [] else concat (map (flag_bits \<circ> sub_layer_flags) subs)
      @ reserved @ concat (map sub_layer_bits subs))"
  have cb: "length (constraint_bytes f) = 6"
    using wf by (simp add: wf_ptl_def)
  obtain v1 r1 where r1: "ReadBits 2 r = Some (v1, r1)" "ucast v1 = profile_space f" "reader_valid r1"
    "reader_rest r1 = (tier_flag f = 1) # nat_bits 5 (unat (profile_idc f))
       @ nat_bits 32 (unat (profile_compatibility f))
       @ concat (map (\<lambda>b. nat_bits 8 (unat b)) (constraint_bytes f)) @ nat_bits 8 (unat (level_idc f))
       @ ts @ ws"
    using ReadBits_u8 [OF assms(2), of 2 "profile_space f"] wf rest
    by (auto simp: ptl_bits_def wf_ptl_def ts_def [symmetric])
  obtain r2 where r2: "ReadBit r1 = Some (of_bool (tier_flag f = 1), r2)" "reader_valid r2"
    "reader_rest r2 = nat_bits 5 (unat (profile_idc f)) @ nat_bits 32 (unat (profile_compatibility f))
       @ concat (map (\<lambda>b. nat_bits 8 (unat b)) (constraint_bytes f)) @ nat_bits 8 (unat (level_idc f))
       @ ts @ ws"
    using ReadBit_law [OF r1(3,4)] by blast
  obtain v3 r3 where r3: "ReadBits 5 r2 = Some (v3, r3)" "ucast v3 = profile_idc f" "reader_valid r3"
    "reader_rest r3 = nat_bits 32 (unat (profile_compatibility f))
       @ concat (map (\<lambda>b. nat_bits 8 (unat b)) (constraint_bytes f)) @ nat_bits 8 (unat (level_idc f))
       @ ts @ ws"
    using ReadBits_u8 [OF r2(2,3)] wf unfolding wf_ptl_def by auto
  obtain r4 where r4: "ReadBits 32 r3 = Some (profile_compatibility f, r4)"
    "reader_valid r4"
    "reader_rest r4 = concat (map (\<lambda>b. nat_bits 8 (unat b)) (constraint_bytes f))
       @ nat_bits 8 (unat (level_idc f)) @ ts @ ws"
    using ReadBits_u32 [OF r3(3,4)] by blast
  obtain r5 where r5: "read_bytes 6 r4 = Some (constraint_bytes f, r5)" "reader_valid r5"
    "reader_rest r5 = nat_bits 8 (unat (level_idc f)) @ ts @ ws"
    using read_bytes_law [OF r4(2,3)] cb by auto
  obtain v6 r6 where r6: "ReadBits 8 r5 = Some (v6, r6)" "ucast v6 = level_idc f" "reader_valid r6"
    "reader_rest r6 = ts @ ws"
    using ReadBits_u8 [OF r5(2,3)] unsigned_less [of "level_idc f"] by fastforce
  have "unat (tier_flag f) < 2"
    using wf by (simp add: wf_ptl_def)
  then have "unat (tier_flag f) = unat (0 :: u8) \<or> unat (tier_flag f) = unat (1 :: u8)"
    by auto
  then have "tier_flag f = 0 \<or> tier_flag f = 1"
    by (simp only: word_unat_eq_iff)
  then have tier: "ucast (of_bool (tier_flag f = 1) :: u32) = tier_flag f"
    by auto
  note reads = r1(1,2) r2(1) r3(1,2) r4(1) r5(1) r6(1,2) tier
  show ?thesis
  proof (cases "subs = []")
    case True
    then show ?thesis
      using r6(3,4) by (simp add: ParseProfileTierLevel_def with_ptl_def Let_def reads ts_def)
  next
    case False
    then have "reader_rest r6 = concat (map (flag_bits \<circ> sub_layer_flags) subs) @ reserved
            @ concat (map sub_layer_bits subs) @ ws"
      using r6(4) by (simp add: ts_def)
    moreover have "list_all wf_sub_layer subs" "length subs < 8" "length reserved = 2 * (8 - length subs)"
      using wf by (simp_all add: wf_ptl_def)
    ultimately obtain s1 s2 s3 where
      "read_sub_layer_flags (length subs) r6 = Some (map sub_layer_flags subs, s1)"
      "skip_fields (replicate (8 - length subs) 2) s1 = Some s2"
      "skip_fields (concat (map sub_layer_widths (map sub_layer_flags subs))) s2 = Some s3"
      "reader_rest s3 = ws" "reader_valid s3"
      using sub_layers_law [OF r6(3) _ _ False] by blast
    then show ?thesis
      using False \<open>length subs < 8\<close>
      by (simp add: ParseProfileTierLevel_def with_ptl_def Let_def reads)
  qed
qed

text \<open>The rest of the syntax: what the parser reads and drops besides the fields it keeps.\<close>

record hevc_sps_syntax =
  sx_vps_id :: nat
  sx_nesting :: bool
  sx_sub_layers :: "sub_layer list"
  sx_reserved :: "bool list"
  sx_sps_id :: nat
  sx_plane :: bool
  sx_width :: nat
  sx_height :: nat
  sx_window :: "(nat \<times> nat \<times> nat \<times> nat) option"

definition window_bits :: "(nat \<times> nat \<times> nat \<times> nat) option \<Rightarrow> bool list" where
  "window_bits w = (case w of None \<Rightarrow> [False]
     | Some (a, b, c, d) \<Rightarrow> True # ue_code a @ ue_code b @ ue_code c @ ue_code d)"

definition hevc_sps_bits :: "ParsedHevcSps \<Rightarrow> hevc_sps_syntax \<Rightarrow> bool list" where
  "hevc_sps_bits f x =
     nat_bits 4 (sx_vps_id x) @ nat_bits 3 (length (sx_sub_layers x)) @ [sx_nesting x]
     @ ptl_bits f (sx_sub_layers x) (sx_reserved x)
     @ ue_code (sx_sps_id x) @ ue_code (unat (chroma_format_idc f))
     @ (if chroma_format_idc f = 3 then [sx_plane x] else [])
     @ ue_code (sx_width x) @ ue_code (sx_height x) @ window_bits (sx_window x)
     @ ue_code (unat (bit_depth_luma_minus8 f)) @ ue_code (unat (bit_depth_chroma_minus8 f))"

definition ue_ok :: "nat \<Rightarrow> bool" where
  "ue_ok k \<longleftrightarrow> k + 1 < 2 ^ 32"

definition wf_hevc_sps :: "ParsedHevcSps \<Rightarrow> hevc_sps_syntax \<Rightarrow> bool" where
  "wf_hevc_sps f x \<longleftrightarrow>
     wf_ptl f (sx_sub_layers x) (sx_reserved x) \<and> sx_vps_id x < 16 \<and> ue_ok (sx_sps_id x) \<and>
     ue_ok (unat (chroma_format_idc f)) \<and> ue_ok (sx_width x) \<and> ue_ok (sx_height x) \<and>
     (case sx_window x of None \<Rightarrow> True
      | Some (a, b, c, d) \<Rightarrow> ue_ok a \<and> ue_ok b \<and> ue_ok c \<and> ue_ok d) \<and>
     ue_ok (unat (bit_depth_luma_minus8 f)) \<and> ue_ok (unat (bit_depth_chroma_minus8 f))"

lemma ReadUe_ok:
  assumes "reader_valid r" and "reader_rest r = ue_code k @ ws" and "ue_ok k"
  shows "\<exists>v r'. ReadUe r = Some (v, r') \<and> reader_rest r' = ws \<and> reader_valid r'"
  using ReadUe_law [OF assms(1,2)] assms(3) by (auto simp: ue_ok_def)

lemma ReadUe_u32:
  assumes "reader_valid r" and "reader_rest r = ue_code (unat w) @ ws" and "ue_ok (unat w)"
  shows "\<exists>r'. ReadUe r = Some (w, r') \<and> reader_rest r' = ws \<and> reader_valid r'"
  using ReadUe_law [OF assms(1,2)] assms(3) by (simp add: ue_ok_def)

lemma read_window_law:
  assumes "reader_valid r" and "reader_rest r = window_bits w @ ws"
    and "case w of None \<Rightarrow> True | Some (a, b, c, d) \<Rightarrow> ue_ok a \<and> ue_ok b \<and> ue_ok c \<and> ue_ok d"
  shows "\<exists>v r'. read_window r = Some (v, r') \<and> reader_rest r' = ws \<and> reader_valid r'"
proof (cases w)
  case None
  then show ?thesis
    using ReadBit_law [OF assms(1), of False ws] assms(2) by (auto simp: read_window_def window_bits_def)
next
  case (Some q)
  obtain a b c d where q: "q = (a, b, c, d)" by (cases q)
  have ok: "ue_ok a" "ue_ok b" "ue_ok c" "ue_ok d"
    using assms(3) by (auto simp: Some q)
  have "reader_rest r = True # ue_code a @ ue_code b @ ue_code c @ ue_code d @ ws"
    using assms(2) by (simp add: Some q window_bits_def)
  from ReadBit_law [OF assms(1) this] obtain r1 where r1: "ReadBit r = Some (of_bool True, r1)"
    "reader_rest r1 = ue_code a @ ue_code b @ ue_code c @ ue_code d @ ws" "reader_valid r1" by blast
  from ReadUe_ok [OF r1(3,2) ok(1)] obtain v2 r2 where r2: "ReadUe r1 = Some (v2, r2)"
    "reader_rest r2 = ue_code b @ ue_code c @ ue_code d @ ws" "reader_valid r2" by blast
  from ReadUe_ok [OF r2(3,2) ok(2)] obtain v3 r3 where r3: "ReadUe r2 = Some (v3, r3)"
    "reader_rest r3 = ue_code c @ ue_code d @ ws" "reader_valid r3" by blast
  from ReadUe_ok [OF r3(3,2) ok(3)] obtain v4 r4 where r4: "ReadUe r3 = Some (v4, r4)"
    "reader_rest r4 = ue_code d @ ws" "reader_valid r4" by blast
  from ReadUe_ok [OF r4(3,2) ok(4)] obtain v5 r5 where "ReadUe r4 = Some (v5, r5)"
    "reader_rest r5 = ws" "reader_valid r5" by blast
  with r1(1) r2(1) r3(1) r4(1) show ?thesis
    by (simp add: read_window_def)
qed

text \<open>The parser's two halves: up to the end of the profile block, and behind it.\<close>

lemma sps_head_law:
  assumes "wf_ptl f subs reserved" and "vps < 16" and "reader_valid r"
    and "reader_rest r = nat_bits 4 vps @ nat_bits 3 (length subs) @ [nest] @ ptl_bits f subs reserved @ ws"
  shows "\<exists>v1 r1 r2 v3 r3 r4. ReadBits 4 r = Some (v1, r1) \<and>
    ReadBits 3 r1 = Some (of_nat (length subs), r2) \<and> ReadBit r2 = Some (v3, r3) \<and>
    ParseProfileTierLevel r3 (length subs) out = Some (with_ptl f out, r4) \<and>
    reader_valid r4 \<and> reader_rest r4 = ws"
proof -
  have n: "length subs < 2 ^ 3" "vps < 2 ^ 4"
    using assms(1,2) by (auto simp: wf_ptl_def)
  from ReadBits_nat_bits [OF assms(3,4) n(2)] obtain r1 where r1:
    "ReadBits 4 r = Some (of_nat vps, r1)" "reader_valid r1"
    "reader_rest r1 = nat_bits 3 (length subs) @ [nest] @ ptl_bits f subs reserved @ ws"
    by blast
  from ReadBits_nat_bits [OF r1(2,3) n(1)] obtain r2 where r2:
    "ReadBits 3 r1 = Some (of_nat (length subs), r2)" "reader_valid r2"
    "reader_rest r2 = nest # ptl_bits f subs reserved @ ws"
    by auto
  from ReadBit_law [OF r2(2,3)] obtain r3 where r3:
    "ReadBit r2 = Some (of_bool nest, r3)" "reader_valid r3" "reader_rest r3 = ptl_bits f subs reserved @ ws"
    by blast
  from ptl_law [OF assms(1) r3(2,3), of out] r1(1) r2(1) r3(1) show ?thesis
    by blast
qed

lemma sps_sizes_law:
  assumes "ue_ok (sx_width x)" and "ue_ok (sx_height x)" and "reader_valid r"
    and "case sx_window x of None \<Rightarrow> True
      | Some (a, b, c, d) \<Rightarrow> ue_ok a \<and> ue_ok b \<and> ue_ok c \<and> ue_ok d"
    and "reader_rest r = (if c then [sx_plane x] else []) @ ue_code (sx_width x)
           @ ue_code (sx_height x) @ window_bits (sx_window x) @ ws"
  shows "\<exists>v1 r1 v2 r2 v3 r3 v4 r4. (if c then ReadBit r else Some (0, r)) = Some (v1, r1) \<and>
    ReadUe r1 = Some (v2, r2) \<and> ReadUe r2 = Some (v3, r3) \<and> read_window r3 = Some (v4, r4) \<and>
    reader_valid r4 \<and> reader_rest r4 = ws"
proof -
  obtain v1 r1 where r1: "(if c then ReadBit r else Some (0, r)) = Some (v1, r1)" "reader_valid r1"
    "reader_rest r1 = ue_code (sx_width x) @ ue_code (sx_height x) @ window_bits (sx_window x) @ ws"
    using ReadBit_law [OF assms(3), of "sx_plane x"] assms(3,5) by (cases c) auto
  from ReadUe_ok [OF r1(2,3) assms(1)] obtain v2 r2 where r2: "ReadUe r1 = Some (v2, r2)"
    "reader_valid r2" "reader_rest r2 = ue_code (sx_height x) @ window_bits (sx_window x) @ ws"
    by blast
  from ReadUe_ok [OF r2(2,3) assms(2)] obtain v3 r3 where r3: "ReadUe r2 = Some (v3, r3)"
    "reader_valid r3" "reader_rest r3 = window_bits (sx_window x) @ ws"
    by blast
  from read_window_law [OF r3(2,3) assms(4)] r1(1) r2(1) r3(1) show ?thesis
    by blast
qed

lemma all_sps_fields:
  "(out :: ParsedHevcSps)\<lparr>profile_space := profile_space f, tier_flag := tier_flag f,
     profile_idc := profile_idc f, profile_compatibility := profile_compatibility f,
     constraint_bytes := constraint_bytes f, level_idc := level_idc f,
     chroma_format_idc := chroma_format_idc f, bit_depth_luma_minus8 := bit_depth_luma_minus8 f,
     bit_depth_chroma_minus8 := bit_depth_chroma_minus8 f\<rparr> = f"
  by (rule ParsedHevcSps.equality) simp_all

section \<open>Properties\<close>

text \<open>
  C3: the parser of the HEVC sequence parameter set inverts the syntax of the standard: on a
  unit whose emulation-free payload encodes given profile, tier, level, chroma and depth fields,
  with any sub-layers, window and sizes, it returns exactly those fields.
\<close>

theorem hevc_sps_decoded:
  assumes wf: "wf_hevc_sps f x" and "3 \<le> length sps"
    and bits: "concat (map byte_bits (unescape 0 (drop 2 sps))) = hevc_sps_bits f x @ ws"
  shows "ParseHevcSps sps out = Some f"
proof -
  let ?r0 = "RbspBitReader (drop 2 sps)" and ?n = "length (sx_sub_layers x)"
  let ?t2 = "ue_code (unat (bit_depth_luma_minus8 f)) @ ue_code (unat (bit_depth_chroma_minus8 f)) @ ws"
  define t1 where "t1 = (if chroma_format_idc f = 3 then [sx_plane x] else []) @ ue_code (sx_width x)
    @ ue_code (sx_height x) @ window_bits (sx_window x) @ ?t2"
  have wfp: "wf_ptl f (sx_sub_layers x) (sx_reserved x)" "sx_vps_id x < 16" "?n < 8"
    and ok: "ue_ok (sx_sps_id x)" "ue_ok (unat (chroma_format_idc f))"
      "ue_ok (unat (bit_depth_luma_minus8 f))" "ue_ok (unat (bit_depth_chroma_minus8 f))"
    using wf by (auto simp: wf_hevc_sps_def wf_ptl_def)
  have "reader_rest ?r0 = nat_bits 4 (sx_vps_id x) @ nat_bits 3 ?n @ [sx_nesting x] @
      ptl_bits f (sx_sub_layers x) (sx_reserved x) @
      ue_code (sx_sps_id x) @ ue_code (unat (chroma_format_idc f)) @ t1"
    using bits reader_start by (simp add: hevc_sps_bits_def t1_def)
  from sps_head_law [OF wfp(1,2) reader_start(1) this, of out] obtain v1 r1 r2 v3 r3 r4 where head:
    "ReadBits 4 ?r0 = Some (v1, r1)" "ReadBits 3 r1 = Some (of_nat ?n, r2)" "ReadBit r2 = Some (v3, r3)"
    "ParseProfileTierLevel r3 ?n out = Some (with_ptl f out, r4)" and v4: "reader_valid r4"
    "reader_rest r4 = ue_code (sx_sps_id x) @ ue_code (unat (chroma_format_idc f)) @ t1"
    by blast
  from ReadUe_ok [OF v4 ok(1)] obtain v5 r5 where r5: "ReadUe r4 = Some (v5, r5)" "reader_valid r5"
    "reader_rest r5 = ue_code (unat (chroma_format_idc f)) @ t1"
    by blast
  from ReadUe_u32 [OF r5(2,3) ok(2)] obtain r6 where r6:
    "ReadUe r5 = Some (chroma_format_idc f, r6)" "reader_valid r6" "reader_rest r6 = t1"
    by blast
  obtain v7 r7 v8 r8 v9 r9 v10 r10 where sizes:
    "(if chroma_format_idc f = 3 then ReadBit r6 else Some (0, r6)) = Some (v7, r7)"
    "ReadUe r7 = Some (v8, r8)" "ReadUe r8 = Some (v9, r9)" "read_window r9 = Some (v10, r10)"
    and v10: "reader_valid r10" "reader_rest r10 = ?t2"
    using sps_sizes_law [OF _ _ r6(2) _ r6(3) [unfolded t1_def]] wf unfolding wf_hevc_sps_def by blast
  from ReadUe_u32 [OF v10 ok(3)] obtain r11 where r11:
    "ReadUe r10 = Some (bit_depth_luma_minus8 f, r11)" "reader_valid r11"
    "reader_rest r11 = ue_code (unat (bit_depth_chroma_minus8 f)) @ ws"
    by blast
  from ReadUe_u32 [OF r11(2,3) ok(4)] obtain r12 where r12:
    "ReadUe r11 = Some (bit_depth_chroma_minus8 f, r12)"
    by blast
  have "unat (of_nat ?n :: u32) = ?n"
    using wfp(3) by (simp add: unat_of_nat)
  then show ?thesis
    using assms(2)
    by (simp add: ParseHevcSps_def head r5(1) r6(1) sizes r11(1) r12 with_ptl_def all_sps_fields)
qed

lemma nat_bits_zero: "nat_bits n 0 = replicate n False"
  by (induction n) auto

theorem hevc_sps_decoded_witness:
  "ParseHevcSps [0x42, 0x01, 0x01, 0x02, 0, 0, 3, 0, 0, 0x90, 0, 0, 3, 0, 0, 3, 0, 0x5D, 0xA1, 0x04, 0x37]
     initial_hevc_sps
   = Some \<lparr>profile_space = 0, tier_flag = 0, profile_idc = 2, profile_compatibility = 0,
       constraint_bytes = [0x90, 0, 0, 0, 0, 0], level_idc = 0x5D, chroma_format_idc = 1,
       bit_depth_luma_minus8 = 2, bit_depth_chroma_minus8 = 2\<rparr>"
proof -
  let ?sps = "[0x42, 0x01, 0x01, 0x02, 0, 0, 3, 0, 0, 0x90, 0, 0, 3, 0, 0, 3, 0, 0x5D, 0xA1, 0x04, 0x37] :: u8 list"
  let ?f = "\<lparr>profile_space = 0, tier_flag = 0, profile_idc = 2, profile_compatibility = 0,
       constraint_bytes = [0x90, 0, 0, 0, 0, 0], level_idc = 0x5D, chroma_format_idc = 1,
       bit_depth_luma_minus8 = 2, bit_depth_chroma_minus8 = 2\<rparr>"
  let ?x = "\<lparr>sx_vps_id = 0, sx_nesting = True, sx_sub_layers = [], sx_reserved = replicate 16 False,
       sx_sps_id = 0, sx_plane = False, sx_width = 7, sx_height = 3, sx_window = None\<rparr>"
  have small: "nat_bits 2 0 @ [False] @ nat_bits 5 2 = [False, False, False, False, False, False, True, False]"
    "concat (map (\<lambda>b :: u8. nat_bits 8 (unat b)) [0x90, 0, 0, 0, 0, 0]) =
       [True, False, False, True] @ replicate 44 False"
    "nat_bits 8 0x5D = [False, True, False, True, True, True, False, True]"
    "ue_code 0 @ ue_code 1 @ ue_code 7 @ ue_code 3 @ [False] @ ue_code 2 @ ue_code 2 @ [True]
       = concat (map byte_bits [0xA1, 0x04, 0x37])"
    by code_simp+
  have bytes: "concat (map byte_bits [0x01, 0x02, 0, 0, 0, 0, 0x90, 0, 0, 0, 0, 0, 0x5D]) =
      (replicate 4 False @ replicate 3 False @ [True])
      @ [False, False, False, False, False, False, True, False]
      @ replicate 32 False @ ([True, False, False, True] @ replicate 44 False)
      @ [False, True, False, True, True, True, False, True]"
    by code_simp
  have "hevc_sps_bits ?f ?x @ [True] = (nat_bits 4 0 @ nat_bits 3 0 @ [True])
      @ (nat_bits 2 0 @ [False] @ nat_bits 5 2) @ nat_bits 32 0
      @ concat (map (\<lambda>b :: u8. nat_bits 8 (unat b)) [0x90, 0, 0, 0, 0, 0]) @ nat_bits 8 0x5D
      @ ue_code 0 @ ue_code 1 @ ue_code 7 @ ue_code 3 @ [False] @ ue_code 2 @ ue_code 2 @ [True]"
    by (simp add: hevc_sps_bits_def ptl_bits_def window_bits_def)
  also have "\<dots> = concat (map byte_bits [0x01, 0x02, 0, 0, 0, 0, 0x90, 0, 0, 0, 0, 0, 0x5D])
      @ concat (map byte_bits [0xA1, 0x04, 0x37])"
    unfolding bytes small by (simp only: nat_bits_zero append_assoc)
  also have "\<dots> = concat (map byte_bits (unescape 0 (drop 2 ?sps)))"
    by simp
  finally have "concat (map byte_bits (unescape 0 (drop 2 ?sps))) = hevc_sps_bits ?f ?x @ [True]"
    by (rule sym)
  moreover have "wf_hevc_sps ?f ?x"
    by (simp add: wf_hevc_sps_def wf_ptl_def ue_ok_def)
  ultimately show ?thesis
    using hevc_sps_decoded [of ?f ?x ?sps "[True]" initial_hevc_sps] by simp
qed

text \<open>
  C4: the HEVC configuration record built from a packet parses back to exactly the first video,
  sequence and picture parameter set of the packet, and its fixed header is that of the fields
  the sequence parameter set parses to.
\<close>

theorem hvcc_record_roundtrip:
  assumes "find (\<lambda>s. nal_type s = 32) (EnumerateHevcNals d) = Some v"
    and "find (\<lambda>s. nal_type s = 33) (EnumerateHevcNals d) = Some s"
    and "find (\<lambda>s. nal_type s = 34) (EnumerateHevcNals d) = Some p"
    and "payload_size v \<le> 0xFFFF" and "payload_size s \<le> 0xFFFF" and "payload_size p \<le> 0xFFFF"
  shows "\<exists>x r. ExtractHevcVpsSpsPps d = Some x \<and> BuildHvccFromAnnexBVpsSpsPps x = Some r \<and>
    decode_hvcc_arrays r = Some (span_bytes d v, span_bytes d s, span_bytes d p) \<and>
    take 23 r = hvcc_header (hvcc_fields (span_bytes d s))"
proof -
  let ?ty = "\<lambda>b :: u8. drop_bit 1 b AND 0x3F"
  let ?v = "span_bytes d v" and ?s = "span_bytes d s" and ?p = "span_bytes d p"
  let ?x = "annexb_stream [(True, ?v), (True, ?s), (True, ?p)]"
  note spans = assms(1-3) [THEN find_hevc_span]
  have lens: "length ?v = payload_size v" "length ?s = payload_size s" "length ?p = payload_size p"
    using spans hevc.length_span_bytes by blast+
  have two: "2 \<le> length ?v" "2 \<le> length ?s" "2 \<le> length ?p"
    using spans by (auto simp: wf_nal_def)
  have "wf_stream 2 [(True, ?v), (True, ?s), (True, ?p)]"
    using spans by simp
  from EnumerateFrom_stream [OF _ _ this, of 0 ?x ?ty]
  have units: "map (span_bytes ?x) (EnumerateHevcNals ?x) = [?v, ?s, ?p]"
    and types: "map nal_type (EnumerateHevcNals ?x) = [32, 33, 34]"
    using spans by (simp_all add: EnumerateHevcNals_def)
  then obtain a b c where abc: "EnumerateHevcNals ?x = [a, b, c]"
    by (auto simp: map_eq_Cons_conv)
  have sizes: "payload_size a = length ?v" "payload_size b = length ?s" "payload_size c = length ?p"
    using hevc.length_span_bytes [of a ?x] hevc.length_span_bytes [of b ?x]
      hevc.length_span_bytes [of c ?x] units abc by simp_all
  have "BuildHvccFromAnnexBVpsSpsPps ?x = Some (hvcc_header (hvcc_fields ?s)
      @ hvcc_array 0xA0 ?v @ hvcc_array 0xA1 ?s @ hvcc_array 0xA2 ?p)"
    using units types two assms(4-6) lens sizes
    by (simp add: BuildHvccFromAnnexBVpsSpsPps_def abc del: annexb_stream.simps) simp
  moreover have "ExtractHevcVpsSpsPps d = Some ?x"
    using assms(1-3) by (simp add: ExtractHevcVpsSpsPps_def extracted_stream del: annexb_stream.simps)
  ultimately show ?thesis
    using decode_hvcc_record [of ?v ?s ?p] assms(4-6) lens length_hvcc_header by auto
qed

theorem hvcc_record_roundtrip_witness:
  "\<exists>x r. ExtractHevcVpsSpsPps
       [0, 0, 0, 1, 0x40, 1, 0xC, 0, 0, 1, 0x42, 1, 1, 0, 0, 1, 0x44, 1, 0xC1] = Some x \<and>
     BuildHvccFromAnnexBVpsSpsPps x = Some r \<and>
     decode_hvcc_arrays r = Some ([0x40, 1, 0xC], [0x42, 1, 1], [0x44, 1, 0xC1])"
proof -
  let ?d = "[0, 0, 0, 1, 0x40, 1, 0xC, 0, 0, 1, 0x42, 1, 1, 0, 0, 1, 0x44, 1, 0xC1] :: u8 list"
  let ?v = "\<lparr>payload_offset = 4, payload_size = 3, nal_type = 32\<rparr>"
  let ?s = "\<lparr>payload_offset = 10, payload_size = 3, nal_type = 33\<rparr>"
  let ?p = "\<lparr>payload_offset = 16, payload_size = 3, nal_type = 34\<rparr>"
  have "EnumerateHevcNals ?d = [?v, ?s, ?p]"
    by code_simp
  then have "find (\<lambda>s. nal_type s = 32) (EnumerateHevcNals ?d) = Some ?v"
    "find (\<lambda>s. nal_type s = 33) (EnumerateHevcNals ?d) = Some ?s"
    "find (\<lambda>s. nal_type s = 34) (EnumerateHevcNals ?d) = Some ?p"
    by simp_all
  then show ?thesis
    using hvcc_record_roundtrip [of ?d ?v ?s ?p] by (auto simp: span_bytes_def)
qed

end
