(* ===== verification/EnvTypes.thy ===== *)
theory EnvTypes
  imports Prelude "HOL-Library.List_Lexorder" "HOL-Library.Char_ord"
begin

text \<open>
  The vocabulary of the environment orchestrator, \<^verbatim>\<open>tools/envctl/core/env_types.cpp\<close>: capability
  classes, transaction states with their on-disk keys, and property identifiers, which print
  as \<^verbatim>\<open>alias:property\<close>. Also the machine hash of \<^verbatim>\<open>env_journal.cpp\<close>.
\<close>

section \<open>Capability classes and transaction states\<close>

datatype CapabilityClass =
  CapRead | MutateSafe | MutateTestOnly | Human | Physical | Secure | Unavailable

datatype TransactionState =
  Clean | Prepared | Mutating | Active | Restoring | Restored | RestorePending
| RestorePendingDeviceUnavailable | RestoreFailed

definition kCapabilityKeys :: "(CapabilityClass \<times> string) list" where
  "kCapabilityKeys =
     [(CapRead, ''ENV_READ''), (MutateSafe, ''ENV_MUTATE_SAFE''),
      (MutateTestOnly, ''ENV_MUTATE_TESTONLY''), (Human, ''ENV_HUMAN''), (Physical, ''PHYSICAL''),
      (Secure, ''SECURE''), (Unavailable, ''UNAVAILABLE'')]"

definition kStateKeys :: "(TransactionState \<times> string) list" where
  "kStateKeys =
     [(Clean, ''Clean''), (Prepared, ''Prepared''), (Mutating, ''Mutating''), (Active, ''Active''),
      (Restoring, ''Restoring''), (Restored, ''Restored''), (RestorePending, ''RestorePending''),
      (RestorePendingDeviceUnavailable, ''RestorePendingDeviceUnavailable''),
      (RestoreFailed, ''RestoreFailed'')]"

text \<open>The two table scans: by value with a default key, by key without one.\<close>

definition key_of :: "('a \<times> string) list \<Rightarrow> string \<Rightarrow> 'a \<Rightarrow> string" where
  "key_of table dflt v = (case find (\<lambda>(e, k). e = v) table of Some (e, k) \<Rightarrow> k | None \<Rightarrow> dflt)"

definition value_of :: "('a \<times> string) list \<Rightarrow> string \<Rightarrow> 'a option" where
  "value_of table key = map_option fst (find (\<lambda>(e, k). k = key) table)"

definition CapabilityToKey :: "CapabilityClass \<Rightarrow> string" where
  "CapabilityToKey = key_of kCapabilityKeys ''UNAVAILABLE''"

definition CapabilityClassFromKey :: "string \<Rightarrow> CapabilityClass option" where
  "CapabilityClassFromKey = value_of kCapabilityKeys"

definition StateToKey :: "TransactionState \<Rightarrow> string" where
  "StateToKey = key_of kStateKeys ''Clean''"

definition TransactionStateFromKey :: "string \<Rightarrow> TransactionState option" where
  "TransactionStateFromKey = value_of kStateKeys"

definition IsMutable :: "CapabilityClass \<Rightarrow> bool" where
  "IsMutable v \<longleftrightarrow> v = MutateSafe \<or> v = MutateTestOnly"

definition IsDirty :: "TransactionState \<Rightarrow> bool" where
  "IsDirty s = (case s of Clean \<Rightarrow> False | Restored \<Rightarrow> False | _ \<Rightarrow> True)"

definition IsTerminal :: "TransactionState \<Rightarrow> bool" where
  "IsTerminal s \<longleftrightarrow> s = Clean \<or> s = Restored \<or> s = RestoreFailed \<or> s = RestorePendingDeviceUnavailable"

section \<open>Property identifiers\<close>

datatype PropertyId = PropertyId (device_alias: string) (prop_name: string)

definition Key :: "PropertyId \<Rightarrow> string" where
  "Key p = device_alias p @ '':'' @ prop_name p"

definition PropertyId_less :: "PropertyId \<Rightarrow> PropertyId \<Rightarrow> bool" where
  "PropertyId_less a b \<longleftrightarrow>
     device_alias a < device_alias b \<or> device_alias a = device_alias b \<and> prop_name a < prop_name b"

instantiation PropertyId :: linorder
begin

definition less_eq_PropertyId :: "PropertyId \<Rightarrow> PropertyId \<Rightarrow> bool" where
  "less_eq_PropertyId a b \<longleftrightarrow>
     device_alias a < device_alias b \<or> device_alias a = device_alias b \<and> prop_name a \<le> prop_name b"

definition less_PropertyId :: "PropertyId \<Rightarrow> PropertyId \<Rightarrow> bool" where
  "less_PropertyId a b = PropertyId_less a b"

instance
  by standard (auto simp: less_eq_PropertyId_def less_PropertyId_def PropertyId_less_def PropertyId.expand)

end

definition PropertyIdFromKey :: "string \<Rightarrow> PropertyId option" where
  "PropertyIdFromKey key =
     (if CHR '':'' \<notin> set key then None
      else
        let alias = takeWhile (\<lambda>c. c \<noteq> CHR '':'') key;
            property = drop (length alias + 1) key
        in if alias = [] \<or> property = [] then None
           else if CHR '':'' \<in> set property then None
           else Some (PropertyId alias property))"

section \<open>The machine hash\<close>

definition hex_digit :: "nat \<Rightarrow> char" where
  "hex_digit n = ''0123456789abcdef'' ! (n mod 16)"

definition MachineHashFromSeed :: "string \<Rightarrow> string" where
  "MachineHashFromSeed seed =
     (let hash = foldl (\<lambda>h c. (h XOR of_char c) * 1099511628211) (1469598103934665603 :: u64) seed
      in map (\<lambda>i. hex_digit (unat (drop_bit (4 * (15 - i)) hash))) [0..<16])"

section \<open>Lemmas and properties\<close>

lemma split_at_separator:
  "c \<in> set k \<Longrightarrow> takeWhile (\<lambda>x. x \<noteq> c) k @ c # drop (Suc (length (takeWhile (\<lambda>x. x \<noteq> c) k))) k = k"
  by (induction k) auto

lemma takeWhile_separator: "c \<notin> set a \<Longrightarrow> takeWhile (\<lambda>x. x \<noteq> c) (a @ c # b) = a"
  by (induction a) auto

lemma separator_not_in_takeWhile: "c \<notin> set (takeWhile (\<lambda>x. x \<noteq> c) k)"
  by (induction k) auto

lemma PropertyIdFromKey_Key: "PropertyIdFromKey key = Some p \<Longrightarrow> Key p = key"
  using split_at_separator [of "CHR '':''" key]
  by (auto simp: PropertyIdFromKey_def Key_def Let_def split: if_splits)

lemma PropertyIdFromKey_parts:
  assumes "PropertyIdFromKey key = Some p"
  shows "device_alias p \<noteq> [] \<and> prop_name p \<noteq> [] \<and>
         CHR '':'' \<notin> set (device_alias p) \<and> CHR '':'' \<notin> set (prop_name p)"
  using assms separator_not_in_takeWhile [of "CHR '':''" key]
  by (auto simp: PropertyIdFromKey_def Let_def split: if_splits)

lemma PropertyIdFromKey_print:
  assumes "device_alias p \<noteq> []" "prop_name p \<noteq> []"
    "CHR '':'' \<notin> set (device_alias p)" "CHR '':'' \<notin> set (prop_name p)"
  shows "PropertyIdFromKey (Key p) = Some p"
proof -
  obtain a n where p: "p = PropertyId a n" by (cases p)
  have tw: "takeWhile (\<lambda>c. c \<noteq> CHR '':'') (a @ CHR '':'' # n) = a"
    using assms p by (intro takeWhile_separator) simp
  show ?thesis
    using assms unfolding p by (simp add: PropertyIdFromKey_def Key_def Let_def tw)
qed

text \<open>
  A property identifier is read back from the key it prints exactly when its two halves are
  non-empty and neither contains the separator; and a key that is read is the key of the result.
\<close>

theorem property_key_roundtrip:
  "(PropertyIdFromKey (Key p) = Some p \<longleftrightarrow>
      device_alias p \<noteq> [] \<and> prop_name p \<noteq> [] \<and>
      CHR '':'' \<notin> set (device_alias p) \<and> CHR '':'' \<notin> set (prop_name p)) \<and>
   (case PropertyIdFromKey key of None \<Rightarrow> True | Some q \<Rightarrow> Key q = key)"
  using PropertyIdFromKey_parts [of "Key p" p] PropertyIdFromKey_print [of p] PropertyIdFromKey_Key [of key]
  by (auto split: option.split)

lemma state_keys_roundtrip: "TransactionStateFromKey (StateToKey s) = Some s"
  by (cases s) (simp_all add: TransactionStateFromKey_def StateToKey_def value_of_def key_of_def kStateKeys_def)

lemma capability_keys_roundtrip: "CapabilityClassFromKey (CapabilityToKey c) = Some c"
  by (cases c) (simp_all add: CapabilityClassFromKey_def CapabilityToKey_def value_of_def key_of_def
      kCapabilityKeys_def)

end
