(* ===== verification/Dict.thy ===== *)
theory Dict
  imports Main
begin

text \<open>
  Ordered dictionaries: \<^verbatim>\<open>std::map\<close> as an association list in strictly increasing key order, with
  the three ways the sources write one (\<^verbatim>\<open>m[k] = v\<close>, an update through \<^verbatim>\<open>m[k]\<close>, which inserts a
  default first, and \<^verbatim>\<open>emplace\<close>, which keeps a present value).
\<close>

definition dict_ok :: "('k::linorder \<times> 'v) list \<Rightarrow> bool" where
  "dict_ok xs \<longleftrightarrow> sorted (map fst xs) \<and> distinct (map fst xs)"

fun dict_modify :: "'k::linorder \<Rightarrow> 'v \<Rightarrow> ('v \<Rightarrow> 'v) \<Rightarrow> ('k \<times> 'v) list \<Rightarrow> ('k \<times> 'v) list" where
  "dict_modify k d f [] = [(k, f d)]"
| "dict_modify k d f ((k', v) # xs) =
     (if k = k' then (k, f v) # xs
      else if k < k' then (k, f d) # (k', v) # xs
      else (k', v) # dict_modify k d f xs)"

definition dict_put :: "'k::linorder \<Rightarrow> 'v \<Rightarrow> ('k \<times> 'v) list \<Rightarrow> ('k \<times> 'v) list" where
  "dict_put k v = dict_modify k v (\<lambda>_. v)"

definition dict_emplace :: "'k::linorder \<Rightarrow> 'v \<Rightarrow> ('k \<times> 'v) list \<Rightarrow> ('k \<times> 'v) list" where
  "dict_emplace k v = dict_modify k v (\<lambda>w. w)"

lemma dict_ok_Nil [simp]: "dict_ok []"
  by (simp add: dict_ok_def)

lemma dict_ok_Cons: "dict_ok ((k, v) # xs) \<longleftrightarrow> (\<forall>x \<in> fst ` set xs. k < x) \<and> dict_ok xs"
  by (auto simp: dict_ok_def less_le)

lemma keys_dict_modify [simp]: "fst ` set (dict_modify k d f xs) = insert k (fst ` set xs)"
  by (induction k d f xs rule: dict_modify.induct) auto

lemma dict_ok_modify [simp, intro]: "dict_ok xs \<Longrightarrow> dict_ok (dict_modify k d f xs)"
proof (induction k d f xs rule: dict_modify.induct)
  case (1 k d f)
  then show ?case by (simp add: dict_ok_def)
next
  case (2 k d f k' v xs)
  then show ?case by (auto simp: dict_ok_Cons dest: order.strict_trans)
qed

lemma map_of_dict_modify [simp]:
  "dict_ok xs \<Longrightarrow>
   map_of (dict_modify k d f xs) = (map_of xs)(k \<mapsto> f (case map_of xs k of None \<Rightarrow> d | Some v \<Rightarrow> v))"
proof (induction k d f xs rule: dict_modify.induct)
  case (1 k d f)
  then show ?case by simp
next
  case (2 k d f k' v xs)
  show ?case
  proof (cases "k < k'")
    case True
    with 2 have "k \<notin> fst ` set xs" by (auto simp: dict_ok_Cons dest: order.strict_trans)
    then have "map_of xs k = None" by (simp add: map_of_eq_None_iff)
    with True show ?thesis by auto
  next
    case False
    with 2 show ?thesis by (auto simp: dict_ok_Cons fun_upd_twist)
  qed
qed

lemma set_dict_modify:
  "dict_ok xs \<Longrightarrow>
   set (dict_modify k d f xs) =
     insert (k, f (case map_of xs k of None \<Rightarrow> d | Some v \<Rightarrow> v)) {(k', v) \<in> set xs. k' \<noteq> k}"
proof (induction k d f xs rule: dict_modify.induct)
  case (1 k d f)
  then show ?case by simp
next
  case (2 k d f k' v xs)
  consider "k = k'" | "k < k'" | "k' < k" by (metis linorder_less_linear)
  then show ?case
  proof cases
    case 1
    with 2 show ?thesis by (force simp: dict_ok_Cons)
  next
    case 2
    with \<open>dict_ok ((k', v) # xs)\<close> have "\<forall>x \<in> fst ` set xs. k < x"
      by (auto simp: dict_ok_Cons dest: order.strict_trans)
    then have "map_of xs k = None" "\<forall>(a, b) \<in> set xs. a \<noteq> k"
      by (auto simp: map_of_eq_None_iff)
    with 2 show ?thesis by auto
  next
    case 3
    with 2 show ?thesis by (auto simp: dict_ok_Cons)
  qed
qed

lemma dict_ok_put [simp, intro]: "dict_ok xs \<Longrightarrow> dict_ok (dict_put k v xs)"
  by (simp add: dict_put_def)

lemma map_of_dict_put [simp]: "dict_ok xs \<Longrightarrow> map_of (dict_put k v xs) = (map_of xs)(k \<mapsto> v)"
  by (simp add: dict_put_def)

lemma keys_dict_put [simp]: "fst ` set (dict_put k v xs) = insert k (fst ` set xs)"
  by (simp add: dict_put_def)

lemma dict_ok_emplace [simp, intro]: "dict_ok xs \<Longrightarrow> dict_ok (dict_emplace k v xs)"
  by (simp add: dict_emplace_def)

lemma map_of_dict_emplace [simp]:
  "dict_ok xs \<Longrightarrow>
   map_of (dict_emplace k v xs) = (case map_of xs k of None \<Rightarrow> (map_of xs)(k \<mapsto> v) | Some _ \<Rightarrow> map_of xs)"
  by (auto simp: dict_emplace_def fun_upd_idem split: option.split)

lemma keys_dict_emplace [simp]: "fst ` set (dict_emplace k v xs) = insert k (fst ` set xs)"
  by (simp add: dict_emplace_def)

end
