(* ===== verification/EnvTransaction.thy ===== *)
theory EnvTransaction
  imports EnvTypes Dict
begin

text \<open>
  The environment transaction of \<^verbatim>\<open>tools/envctl/core\<close>: \<^verbatim>\<open>env_transaction.cpp\<close>, with the journal
  file operations of \<^verbatim>\<open>env_journal.cpp\<close> and the acceptance predicate of \<^verbatim>\<open>env_evidence.cpp\<close>.

  The host (\<^verbatim>\<open>IEnvironmentProvider\<close>, the clock, the file system) is a record of functions over
  an arbitrary world \<open>'w\<close>: every call may answer anything and change the world. The journal
  file is part of the state (\<open>tx_disk\<close>): a failed write or delete leaves it as it was, since the
  code replaces it by one rename. The file holds the journal value itself; its JSON text is the
  business of a third-party library. Texts of error messages are not modelled, their codes are.

  \<open>tx_log\<close> is a ghost: what an observer of the machine sees (reads with their answers, applies,
  journal writes), newest first, each with the journal file as it is right after the event.
\<close>

section \<open>Data\<close>

datatype ErrorCode =
  kNone | kDirtyJournal | kBadPropertyKey | kUnknownProperty | kNotMutable | kDeviceNotPresent
| kReadFailed | kApplyRejected | kVerifyMismatch | kRestoreVerifyMismatch | kRestoreRejected
| kJournalWriteFailed | kJournalReadFailed

record AppliedEntry =
  property :: string
  from_value :: string
  to_value :: string
  at_utc :: string

record Journal =
  transaction_id :: string
  owner_pid :: int
  run_id :: string
  machine :: string
  scenario :: string
  jstate :: TransactionState
  original :: "(string \<times> string) list"
  desired :: "(string \<times> string) list"
  applied :: "AppliedEntry list"
  created_at :: string
  updated_at :: string

record PropertyEvidence =
  ev_property :: string
  before_value :: string
  requested :: string
  applied_value :: string
  after_restore :: string
  skipped :: bool

record DevicePendingRestore =
  pend_alias :: string
  stable_id :: string
  friendly_name :: string
  pend_property :: string
  original_value :: string
  remaining_action :: string

record TransactionResult =
  res_ok :: bool
  res_state :: TransactionState
  error_code :: ErrorCode
  pending :: "DevicePendingRestore list"
  res_warning :: string

record TransactionEvidence =
  te_transaction_id :: string
  te_run_id :: string
  te_scenario :: string
  te_machine :: string
  final_state :: string
  properties :: "PropertyEvidence list"
  te_pending :: "DevicePendingRestore list"

record TransactionConfig =
  journal_path :: string
  cfg_transaction_id :: string
  cfg_run_id :: string
  cfg_scenario :: string
  cfg_owner_pid :: int
  cfg_machine :: string

record ReadResult =
  rd_ok :: bool
  device_present :: bool
  rd_value :: string

record PropertyDescriptor =
  desc_id :: PropertyId
  capability :: CapabilityClass

record AliasBinding =
  bind_stable_id :: string
  bind_friendly_name :: string

record 'w Host =
  h_describe :: "'w \<Rightarrow> PropertyDescriptor list \<times> 'w"
  h_read :: "PropertyId \<Rightarrow> 'w \<Rightarrow> ReadResult \<times> 'w"
  h_apply :: "PropertyId \<Rightarrow> string \<Rightarrow> 'w \<Rightarrow> bool \<times> 'w"
  h_present :: "string \<Rightarrow> 'w \<Rightarrow> bool \<times> 'w"
  h_clock :: "'w \<Rightarrow> string \<times> 'w"
  h_create_directories :: "'w \<Rightarrow> bool \<times> 'w"
  h_open_temporary :: "'w \<Rightarrow> bool \<times> 'w"
  h_write_durable :: "'w \<Rightarrow> bool \<times> 'w"
  h_rename :: "'w \<Rightarrow> bool \<times> 'w"
  h_remove :: "'w \<Rightarrow> string option \<times> 'w"
  h_exists :: "'w \<Rightarrow> bool \<times> 'w"
  h_open :: "'w \<Rightarrow> bool \<times> 'w"
  h_getenv :: "string \<Rightarrow> string option"
  h_alias_lookup :: "(string \<Rightarrow> AliasBinding option) option"

datatype Disk = Absent | Malformed | Present Journal

datatype Event = Observed string "string option" | Applied string string | Written | Deleted

record 'w Tx =
  tx_world :: 'w
  tx_disk :: Disk
  tx_config :: TransactionConfig
  tx_journal :: Journal
  tx_evidence :: "(string \<times> PropertyEvidence) list"
  tx_terminal :: "TransactionResult option"
  tx_log :: "(Event \<times> Disk) list"

definition empty_journal :: Journal where
  "empty_journal =
     \<lparr>transaction_id = [], owner_pid = 0, run_id = [], machine = [], scenario = [], jstate = Clean,
      original = [], desired = [], applied = [], created_at = [], updated_at = []\<rparr>"

definition empty_evidence :: PropertyEvidence where
  "empty_evidence =
     \<lparr>ev_property = [], before_value = [], requested = [], applied_value = [], after_restore = [],
      skipped = False\<rparr>"

definition ok_result :: "TransactionState \<Rightarrow> TransactionResult" where
  "ok_result st = \<lparr>res_ok = True, res_state = st, error_code = kNone, pending = [], res_warning = []\<rparr>"

section \<open>The host's calls\<close>

definition Read :: "'w Host \<Rightarrow> PropertyId \<Rightarrow> 'w Tx \<Rightarrow> ReadResult \<times> 'w Tx" where
  "Read h p s =
     (let (r, w) = h_read h p (tx_world s);
          seen = (if rd_ok r then Some (rd_value r) else None)
      in (r, s\<lparr>tx_world := w, tx_log := (Observed (Key p) seen, tx_disk s) # tx_log s\<rparr>))"

definition Apply :: "'w Host \<Rightarrow> PropertyId \<Rightarrow> string \<Rightarrow> 'w Tx \<Rightarrow> bool \<times> 'w Tx" where
  "Apply h p v s =
     (let (accepted, w) = h_apply h p v (tx_world s)
      in (accepted, s\<lparr>tx_world := w, tx_log := (Applied (Key p) v, tx_disk s) # tx_log s\<rparr>))"

definition DevicePresent :: "'w Host \<Rightarrow> string \<Rightarrow> 'w Tx \<Rightarrow> bool \<times> 'w Tx" where
  "DevicePresent h a s =
     (let (present, w) = h_present h a (tx_world s) in (present, s\<lparr>tx_world := w\<rparr>))"

definition Clock :: "'w Host \<Rightarrow> 'w Tx \<Rightarrow> string \<times> 'w Tx" where
  "Clock h s = (let (now, w) = h_clock h (tx_world s) in (now, s\<lparr>tx_world := w\<rparr>))"

text \<open>
  \<^verbatim>\<open>WriteJournalAtomic\<close>: the directory, the temporary file, the durable write, the rename; only
  the rename changes the file the readers see.
\<close>

definition WriteJournalAtomic :: "'w Host \<Rightarrow> Journal \<Rightarrow> 'w Tx \<Rightarrow> bool \<times> 'w Tx" where
  "WriteJournalAtomic h j s =
     (let (created, w) = h_create_directories h (tx_world s) in
      if \<not> created then (False, s\<lparr>tx_world := w\<rparr>) else
      let (opened, w) = h_open_temporary h w in
      if \<not> opened then (False, s\<lparr>tx_world := w\<rparr>) else
      let (durable, w) = h_write_durable h w in
      if \<not> durable then (False, s\<lparr>tx_world := w\<rparr>) else
      let (renamed, w) = h_rename h w in
      if \<not> renamed then (False, s\<lparr>tx_world := w\<rparr>) else
      (True, s\<lparr>tx_world := w, tx_disk := Present j, tx_log := (Written, Present j) # tx_log s\<rparr>))"

text \<open>\<open>Inl ()\<close> stands for a non-empty error: not clean. \<open>Inr None\<close> is \<open>no journal\<close>.\<close>

definition ReadJournal :: "'w Host \<Rightarrow> 'w Tx \<Rightarrow> (unit + Journal option) \<times> 'w Tx" where
  "ReadJournal h s =
     (let (determined, w) = h_exists h (tx_world s) in
      if \<not> determined then (Inl (), s\<lparr>tx_world := w\<rparr>) else
      if tx_disk s = Absent then (Inr None, s\<lparr>tx_world := w\<rparr>) else
      let (opened, w) = h_open h w in
      if \<not> opened then (Inl (), s\<lparr>tx_world := w\<rparr>) else
      (case tx_disk s of
         Present j \<Rightarrow> (Inr (Some j), s\<lparr>tx_world := w\<rparr>)
       | _ \<Rightarrow> (Inl (), s\<lparr>tx_world := w\<rparr>)))"

definition quoted :: "string \<Rightarrow> string" where
  "quoted s = CHR 0x27 # s @ [CHR 0x27]"

text \<open>\<open>Some\<close> is the error text: the file stays.\<close>

definition DeleteJournal :: "'w Host \<Rightarrow> 'w Tx \<Rightarrow> string option \<times> 'w Tx" where
  "DeleteJournal h s =
     (case h_remove h (tx_world s) of
        (Some e, w) \<Rightarrow>
          (Some (''journal_delete_failed: '' @ quoted (journal_path (tx_config s)) @ '': '' @ e),
           s\<lparr>tx_world := w\<rparr>)
      | (None, w) \<Rightarrow>
          (None, s\<lparr>tx_world := w, tx_disk := Absent, tx_log := (Deleted, Absent) # tx_log s\<rparr>))"

section \<open>Construction\<close>

definition EnvOrEmpty :: "'w Host \<Rightarrow> string \<Rightarrow> string" where
  "EnvOrEmpty h name = (case h_getenv h name of None \<Rightarrow> [] | Some v \<Rightarrow> v)"

definition StableMachineHash :: "'w Host \<Rightarrow> string" where
  "StableMachineHash h =
     MachineHashFromSeed
       (EnvOrEmpty h ''COMPUTERNAME'' @ ''|'' @ EnvOrEmpty h ''PROCESSOR_IDENTIFIER'' @ ''|'' @
        EnvOrEmpty h ''NUMBER_OF_PROCESSORS'' @ ''|exosnap-envctl'')"

definition CompactTimestamp :: "string \<Rightarrow> string" where
  "CompactTimestamp stamp = filter (\<lambda>c. c \<noteq> CHR ''-'' \<and> c \<noteq> CHR '':'' \<and> c \<noteq> CHR ''Z'') stamp"

definition EnvironmentTransaction :: "'w Host \<Rightarrow> TransactionConfig \<Rightarrow> Disk \<Rightarrow> 'w \<Rightarrow> 'w Tx" where
  "EnvironmentTransaction h cfg disk w =
     (let cfg = (if cfg_machine cfg = [] then cfg\<lparr>cfg_machine := StableMachineHash h\<rparr> else cfg);
          (cfg, w) =
            (if cfg_transaction_id cfg = [] then
               let (now, w) = h_clock h w;
                   seed = now @ ''|'' @ cfg_run_id cfg @ ''|'' @ cfg_scenario cfg @ ''|'' @ cfg_machine cfg
               in (cfg\<lparr>cfg_transaction_id :=
                        ''tx-'' @ CompactTimestamp now @ ''-'' @ take 8 (MachineHashFromSeed seed)\<rparr>, w)
             else (cfg, w));
          j = empty_journal\<lparr>transaction_id := cfg_transaction_id cfg, owner_pid := cfg_owner_pid cfg,
                run_id := cfg_run_id cfg, machine := cfg_machine cfg, scenario := cfg_scenario cfg\<rparr>
      in \<lparr>tx_world = w, tx_disk = disk, tx_config = cfg, tx_journal = j, tx_evidence = [],
          tx_terminal = None, tx_log = []\<rparr>)"

section \<open>Journal, evidence and results\<close>

definition Fail :: "ErrorCode \<Rightarrow> 'w Tx \<Rightarrow> TransactionResult" where
  "Fail code s =
     \<lparr>res_ok = False, res_state = jstate (tx_journal s), error_code = code, pending = [],
      res_warning = []\<rparr>"

definition PersistJournal :: "'w Host \<Rightarrow> TransactionState \<Rightarrow> 'w Tx \<Rightarrow> bool \<times> 'w Tx" where
  "PersistJournal h st s =
     (let (now, s) = Clock h s;
          j = (tx_journal s)\<lparr>jstate := st, updated_at := now\<rparr>;
          j = (if created_at j = [] then j\<lparr>created_at := now\<rparr> else j)
      in WriteJournalAtomic h j (s\<lparr>tx_journal := j\<rparr>))"

definition set_jstate :: "TransactionState \<Rightarrow> 'w Tx \<Rightarrow> 'w Tx" where
  "set_jstate st s = s\<lparr>tx_journal := (tx_journal s)\<lparr>jstate := st\<rparr>\<rparr>"

definition set_applied :: "AppliedEntry list \<Rightarrow> 'w Tx \<Rightarrow> 'w Tx" where
  "set_applied as s = s\<lparr>tx_journal := (tx_journal s)\<lparr>applied := as\<rparr>\<rparr>"

text \<open>\<^verbatim>\<open>evidence_[key]\<close> with an update: a missing key is inserted default-constructed.\<close>

definition at_evidence :: "string \<Rightarrow> (PropertyEvidence \<Rightarrow> PropertyEvidence) \<Rightarrow> 'w Tx \<Rightarrow> 'w Tx" where
  "at_evidence k f s = s\<lparr>tx_evidence := dict_modify k empty_evidence f (tx_evidence s)\<rparr>"

definition adopt_original :: "Journal \<Rightarrow> (string \<times> PropertyEvidence) list" where
  "adopt_original j =
     foldl (\<lambda>evs (key, b). dict_emplace key
        (empty_evidence\<lparr>ev_property := key, before_value := b,
           requested := (case map_of (desired j) key of Some d \<Rightarrow> d | None \<Rightarrow> b), skipped := True\<rparr>) evs)
       [] (original j)"

definition adopt_entry :: "AppliedEntry \<Rightarrow> PropertyEvidence \<Rightarrow> PropertyEvidence" where
  "adopt_entry e ev =
     ev\<lparr>ev_property := property e,
        before_value := (if before_value ev = [] then from_value e else before_value ev),
        requested := (if requested ev = [] then to_value e else requested ev),
        applied_value := to_value e, skipped := False\<rparr>"

definition AdoptJournal :: "Journal \<Rightarrow> 'w Tx \<Rightarrow> 'w Tx" where
  "AdoptJournal j s =
     s\<lparr>tx_journal := j,
       tx_config := (tx_config s)\<lparr>cfg_transaction_id := transaction_id j, cfg_run_id := run_id j,
          cfg_scenario := scenario j, cfg_machine := machine j\<rparr>,
       tx_terminal := None,
       tx_evidence := foldl (\<lambda>evs e. dict_modify (property e) empty_evidence (adopt_entry e) evs)
          (adopt_original j) (applied j)\<rparr>"

section \<open>Restoring\<close>

definition recover_command :: "'w Tx \<Rightarrow> string" where
  "recover_command s = ''`exosnap-envctl recover --journal '' @ journal_path (tx_config s) @ ''`''"

definition action_reattach :: "'w Tx \<Rightarrow> DevicePendingRestore \<Rightarrow> string" where
  "action_reattach s item =
     ''Reattach the device bound to alias '' @ quoted (pend_alias item) @
     (if stable_id item = [] then [] else '' (stable id '' @ stable_id item @ '')'') @
     (if friendly_name item = [] then [] else '', last seen as '' @ quoted (friendly_name item)) @
     '', then run '' @ recover_command s @ '' to set '' @ pend_property item @ '' back to '' @
     quoted (original_value item) @ ''.''"

definition action_untouched :: "'w Tx \<Rightarrow> string \<Rightarrow> DevicePendingRestore \<Rightarrow> string" where
  "action_untouched s missing item =
     ''Untouched on this attempt. Run '' @ recover_command s @ '' once alias '' @ quoted missing @
     '' is attached again; it will set '' @ pend_property item @ '' back to '' @
     quoted (original_value item) @ ''.''"

definition pending_item :: "'w Host \<Rightarrow> 'w Tx \<Rightarrow> string \<Rightarrow> AppliedEntry \<Rightarrow> DevicePendingRestore" where
  "pending_item h s missing entry =
     (let a = (case PropertyIdFromKey (property entry) of
                 Some p \<Rightarrow> device_alias p | None \<Rightarrow> property entry);
          binding = (case h_alias_lookup h of None \<Rightarrow> None | Some lookup \<Rightarrow> lookup a);
          item = \<lparr>pend_alias = a,
            stable_id = (case binding of Some b \<Rightarrow> bind_stable_id b | None \<Rightarrow> []),
            friendly_name = (case binding of Some b \<Rightarrow> bind_friendly_name b | None \<Rightarrow> []),
            pend_property = property entry, original_value = from_value entry, remaining_action = []\<rparr>
      in item\<lparr>remaining_action :=
            (if a = missing then action_reattach s item else action_untouched s missing item)\<rparr>)"

definition BuildPending :: "'w Host \<Rightarrow> string \<Rightarrow> 'w Tx \<Rightarrow> DevicePendingRestore list" where
  "BuildPending h missing s = map (pending_item h s missing) (rev (applied (tx_journal s)))"

text \<open>The aliases that are owed a value, in the order of a \<^verbatim>\<open>std::set\<close>.\<close>

definition owed_aliases :: "AppliedEntry list \<Rightarrow> string list" where
  "owed_aliases as =
     sorted_list_of_set (set (map device_alias (List.map_filter (\<lambda>e. PropertyIdFromKey (property e)) as)))"

fun first_missing :: "'w Host \<Rightarrow> string list \<Rightarrow> 'w Tx \<Rightarrow> string option \<times> 'w Tx" where
  "first_missing h [] s = (None, s)"
| "first_missing h (a # as) s =
     (let (present, s) = DevicePresent h a s in
      if present then first_missing h as s else (Some a, s))"

text \<open>
  The loop over the obligations, last applied first; the list is the reverse of the journal's.
  \<open>None\<close>: every obligation was discharged.
\<close>

fun RestoreLoop :: "'w Host \<Rightarrow> AppliedEntry list \<Rightarrow> 'w Tx \<Rightarrow> TransactionResult option \<times> 'w Tx" where
  "RestoreLoop h [] s = (None, s)"
| "RestoreLoop h (entry # rest) s =
     (case PropertyIdFromKey (property entry) of
        None \<Rightarrow>
          (let (_, s) = PersistJournal h RestoreFailed (set_jstate RestoreFailed s)
           in (Some (Fail kBadPropertyKey s), s))
      | Some p \<Rightarrow>
          let s = at_evidence (property entry) (\<lambda>ev. ev\<lparr>ev_property := property entry,
                    before_value := (if before_value ev = [] then from_value entry else before_value ev)\<rparr>) s;
              (current, s) = Read h p s
          in if rd_ok current \<and> rd_value current = from_value entry then
               let s = at_evidence (property entry) (\<lambda>ev. ev\<lparr>after_restore := rd_value current\<rparr>) s;
                   (persisted, s) = PersistJournal h Restoring (set_applied (rev rest) s)
               in if \<not> persisted then (Some (Fail kJournalWriteFailed s), s)
                  else RestoreLoop h rest s
             else
               let (accepted, s) = Apply h p (from_value entry) s
               in if \<not> accepted then
                    let s = at_evidence (property entry)
                              (\<lambda>ev. ev\<lparr>after_restore := (if rd_ok current then rd_value current else [])\<rparr>) s;
                        (_, s) = PersistJournal h RestoreFailed s
                    in (Some (Fail kRestoreRejected s), s)
                  else
                    let (verify, s) = Read h p s;
                        s = at_evidence (property entry)
                              (\<lambda>ev. ev\<lparr>after_restore := (if rd_ok verify then rd_value verify else [])\<rparr>) s
                    in if \<not> rd_ok verify \<or> rd_value verify \<noteq> from_value entry then
                         let (_, s) = PersistJournal h RestoreFailed s
                         in (Some (Fail kRestoreVerifyMismatch s), s)
                       else
                         let (persisted, s) = PersistJournal h Restoring (set_applied (rev rest) s)
                         in if \<not> persisted then (Some (Fail kJournalWriteFailed s), s)
                            else RestoreLoop h rest s)"

definition restored_result :: "string option \<Rightarrow> TransactionResult" where
  "restored_result e =
     (ok_result Restored)\<lparr>res_warning := (case e of None \<Rightarrow> [] | Some text \<Rightarrow> text)\<rparr>"

definition RestoreInternal :: "'w Host \<Rightarrow> 'w Tx \<Rightarrow> TransactionResult \<times> 'w Tx" where
  "RestoreInternal h s =
     (if applied (tx_journal s) = [] then
        let (e, s) = DeleteJournal h s;
            s = set_jstate Restored s;
            s = s\<lparr>tx_evidence := map (\<lambda>(k, ev).
                  (k, if skipped ev then ev\<lparr>after_restore := before_value ev\<rparr> else ev)) (tx_evidence s)\<rparr>
        in (restored_result e, s)
      else
        let (persisted, s) = PersistJournal h Restoring s in
        if \<not> persisted then (Fail kJournalWriteFailed s, s) else
        let (missing, s) = first_missing h (owed_aliases (applied (tx_journal s))) s in
        case missing of
          Some a \<Rightarrow>
            (let owed = BuildPending h a s;
                 (_, s) = PersistJournal h RestorePendingDeviceUnavailable s
             in ((Fail kDeviceNotPresent s)\<lparr>pending := owed\<rparr>, s))
        | None \<Rightarrow>
            (case RestoreLoop h (rev (applied (tx_journal s))) s of
               (Some r, s) \<Rightarrow> (r, s)
             | (None, s) \<Rightarrow>
                 let s = s\<lparr>tx_evidence := map (\<lambda>(k, ev).
                           (k, if skipped ev \<and> after_restore ev = []
                               then ev\<lparr>after_restore := before_value ev\<rparr> else ev)) (tx_evidence s)\<rparr>;
                     s = set_jstate Restored s;
                     (e, s) = DeleteJournal h s
                 in (restored_result e, s)))"

definition Restore :: "'w Host \<Rightarrow> 'w Tx \<Rightarrow> TransactionResult \<times> 'w Tx" where
  "Restore h s =
     (case tx_terminal s of
        Some r \<Rightarrow> (r, s)
      | None \<Rightarrow>
          if jstate (tx_journal s) = Clean \<or> jstate (tx_journal s) = Restored then
            let r = ok_result (jstate (tx_journal s)) in (r, s\<lparr>tx_terminal := Some r\<rparr>)
          else
            let (r, s) = RestoreInternal h s
            in (r, if IsTerminal (res_state r) then s\<lparr>tx_terminal := Some r\<rparr> else s))"

section \<open>Beginning\<close>

text \<open>The snapshot loop: \<open>Inl\<close> is the error code it fails with.\<close>

fun SnapshotLoop ::
  "'w Host \<Rightarrow> (string \<times> string) list \<Rightarrow> 'w Tx \<Rightarrow> (ErrorCode + (PropertyId \<times> string) list) \<times> 'w Tx" where
  "SnapshotLoop h [] s = (Inr [], s)"
| "SnapshotLoop h ((key, v) # rest) s =
     (case PropertyIdFromKey key of
        None \<Rightarrow> (Inl kBadPropertyKey, s)
      | Some p \<Rightarrow>
          let (r, s) = Read h p s in
          if \<not> device_present r then (Inl kDeviceNotPresent, s) else
          if \<not> rd_ok r then (Inl kReadFailed, s) else
          let j = tx_journal s;
              j = j\<lparr>original := dict_put key (rd_value r) (original j),
                    desired := dict_put key v (desired j)\<rparr>;
              ev = empty_evidence\<lparr>ev_property := key, before_value := rd_value r, requested := v,
                     skipped := True\<rparr>;
              s = s\<lparr>tx_journal := j, tx_evidence := dict_emplace key ev (tx_evidence s)\<rparr>;
              (more, s) = SnapshotLoop h rest s
          in (map_sum (\<lambda>e. e) (\<lambda>rs. (p, v) # rs) more, s))"

fun ValidateRequests :: "(string \<Rightarrow> CapabilityClass option) \<Rightarrow> (PropertyId \<times> string) list \<Rightarrow> ErrorCode option" where
  "ValidateRequests descriptors [] = None"
| "ValidateRequests descriptors ((p, v) # rest) =
     (case descriptors (Key p) of
        None \<Rightarrow> Some kUnknownProperty
      | Some c \<Rightarrow> if \<not> IsMutable c then Some kNotMutable else ValidateRequests descriptors rest)"

definition original_of :: "'w Tx \<Rightarrow> string \<Rightarrow> string" where
  "original_of s k = (case map_of (original (tx_journal s)) k of Some v \<Rightarrow> v | None \<Rightarrow> [])"

definition RollBack :: "'w Host \<Rightarrow> ErrorCode \<Rightarrow> 'w Tx \<Rightarrow> TransactionResult \<times> 'w Tx" where
  "RollBack h code s =
     (let (r, s) = RestoreInternal h s
      in ((Fail code s)\<lparr>res_state := res_state r, pending := pending r\<rparr>, s))"

fun MutateLoop :: "'w Host \<Rightarrow> (PropertyId \<times> string) list \<Rightarrow> 'w Tx \<Rightarrow> TransactionResult option \<times> 'w Tx" where
  "MutateLoop h [] s = (None, s)"
| "MutateLoop h ((p, v) # rest) s =
     (let key = Key p;
          owed = applied (tx_journal s);
          (now, s) = Clock h s;
          s = set_applied (owed @ [\<lparr>property = key, from_value = original_of s key, to_value = v,
                at_utc = now\<rparr>]) s;
          s = at_evidence key (\<lambda>ev. ev\<lparr>skipped := False\<rparr>) s;
          (persisted, s) = PersistJournal h Mutating s
      in if \<not> persisted then
           let s = at_evidence key (\<lambda>ev. ev\<lparr>skipped := True\<rparr>) (set_applied owed s);
               (r, s) = RollBack h kJournalWriteFailed s
           in (Some r, s)
         else
           let (accepted, s) = Apply h p v s in
           if \<not> accepted then let (r, s) = RollBack h kApplyRejected s in (Some r, s)
           else
             let (verify, s) = Read h p s;
                 s = at_evidence key (\<lambda>ev. ev\<lparr>applied_value := rd_value verify\<rparr>) s
             in if \<not> rd_ok verify then let (r, s) = RollBack h kReadFailed s in (Some r, s)
                else if rd_value verify \<noteq> v then
                  let (r, s) = RollBack h kVerifyMismatch s in (Some r, s)
                else
                  let (persisted, s) = PersistJournal h Mutating s in
                  if \<not> persisted then let (r, s) = RollBack h kJournalWriteFailed s in (Some r, s)
                  else MutateLoop h rest s)"

text \<open>From the minimal delta on: the requests are validated and the journal is on disk.\<close>

definition ApplyDelta :: "'w Host \<Rightarrow> (PropertyId \<times> string) list \<Rightarrow> 'w Tx \<Rightarrow> TransactionResult \<times> 'w Tx" where
  "ApplyDelta h delta s =
     (if delta = [] then
        let (persisted, s) = PersistJournal h Active s in
        if \<not> persisted then (Fail kJournalWriteFailed s, s)
        else (ok_result (jstate (tx_journal s)), s)
      else
        let (persisted, s) = PersistJournal h Mutating s in
        if \<not> persisted then (Fail kJournalWriteFailed s, s) else
        case MutateLoop h delta s of
          (Some r, s) \<Rightarrow> (r, s)
        | (None, s) \<Rightarrow>
            let (persisted, s) = PersistJournal h Active s in
            if \<not> persisted then RollBack h kJournalWriteFailed s
            else (ok_result (jstate (tx_journal s)), s))"

definition Begin :: "'w Host \<Rightarrow> (string \<times> string) list \<Rightarrow> 'w Tx \<Rightarrow> TransactionResult \<times> 'w Tx" where
  "Begin h wanted s =
     (let (existing, s) = ReadJournal h s in
      if existing \<noteq> Inr None then (Fail kDirtyJournal s, s) else
      let s = s\<lparr>tx_journal := (tx_journal s)\<lparr>original := [], desired := [], applied := []\<rparr>,
                tx_evidence := []\<rparr>;
          (snapshot, s) = SnapshotLoop h wanted s
      in case snapshot of
           Inl code \<Rightarrow> (Fail code s, s)
         | Inr requests \<Rightarrow>
             let (persisted, s) = PersistJournal h Prepared s in
             if \<not> persisted then (Fail kJournalWriteFailed s, s) else
             let (described, w) = h_describe h (tx_world s);
                 s = s\<lparr>tx_world := w\<rparr>;
                 descriptors = map_of (map (\<lambda>d. (Key (desc_id d), capability d)) described)
             in case ValidateRequests descriptors requests of
                  Some code \<Rightarrow>
                    let (_, s) = DeleteJournal h s; s = set_jstate Clean s in (Fail code s, s)
                | None \<Rightarrow> ApplyDelta h (filter (\<lambda>(p, v). original_of s (Key p) \<noteq> v) requests) s)"

section \<open>Evidence and recovery\<close>

definition Evidence :: "'w Tx \<Rightarrow> TransactionEvidence" where
  "Evidence s =
     (let j = tx_journal s
      in \<lparr>te_transaction_id = transaction_id j, te_run_id = run_id j, te_scenario = scenario j,
          te_machine = machine j, final_state = StateToKey (jstate j),
          properties = sort_key ev_property (map snd (tx_evidence s)), te_pending = []\<rparr>)"

definition IsRestored :: "PropertyEvidence \<Rightarrow> bool" where
  "IsRestored ev \<longleftrightarrow> skipped ev \<or> before_value ev \<noteq> [] \<and> before_value ev = after_restore ev"

definition Accepted :: "TransactionEvidence \<Rightarrow> bool" where
  "Accepted te \<longleftrightarrow> te_pending te = [] \<and> list_all IsRestored (properties te)"

record RecoveryOutcome =
  journal_present :: bool
  recovered :: bool
  mutation_allowed :: bool
  out_state :: TransactionState
  out_error_code :: ErrorCode
  out_warning :: string
  out_pending :: "DevicePendingRestore list"
  out_evidence :: "TransactionEvidence option"

definition initial_outcome :: RecoveryOutcome where
  "initial_outcome =
     \<lparr>journal_present = False, recovered = False, mutation_allowed = False, out_state = Clean,
      out_error_code = kNone, out_warning = [], out_pending = [], out_evidence = None\<rparr>"

text \<open>
  The journal is read before the transaction object is built; \<open>s\<close> only carries the file and the
  world up to that point.
\<close>

definition RecoverIfDirty :: "'w Host \<Rightarrow> TransactionConfig \<Rightarrow> 'w Tx \<Rightarrow> RecoveryOutcome \<times> 'w Tx" where
  "RecoverIfDirty h cfg s =
     (let (existing, s) = ReadJournal h s in
      case existing of
        Inl _ \<Rightarrow>
          (initial_outcome\<lparr>journal_present := True, out_error_code := kJournalReadFailed\<rparr>, s)
      | Inr None \<Rightarrow> (initial_outcome\<lparr>mutation_allowed := True, out_state := Clean\<rparr>, s)
      | Inr (Some j) \<Rightarrow>
          if \<not> IsDirty (jstate j) then
            let (e, s) = DeleteJournal h s
            in (initial_outcome\<lparr>journal_present := True, recovered := True, mutation_allowed := True,
                  out_state := Restored, out_warning := (case e of None \<Rightarrow> [] | Some text \<Rightarrow> text)\<rparr>, s)
          else
            let t = (EnvironmentTransaction h cfg (tx_disk s) (tx_world s))\<lparr>tx_log := tx_log s\<rparr>;
                (r, t) = Restore h (AdoptJournal j t);
                done = res_ok r \<and> res_state r = Restored
            in (\<lparr>journal_present = True, recovered = done, mutation_allowed = done,
                 out_state = res_state r, out_error_code = error_code r,
                 out_warning = res_warning r, out_pending = pending r,
                 out_evidence = Some (Evidence t)\<rparr>, t))"

end
