(* ===== verification/EnvSafety.thy ===== *)
theory EnvSafety
  imports EnvTransaction
begin

text \<open>
  What the environment transaction guarantees. A monitor watches the machine from outside: it
  knows what every read reported and what was applied, and nothing of the transaction's own
  bookkeeping. Its obligations (properties that may be off their original value) are shown to be
  covered, at every instant, by the journal that is on disk at that instant.
\<close>

section \<open>The monitor\<close>

record Monitor =
  last_read :: "string \<rightharpoonup> string"
  baseline :: "string \<rightharpoonup> string"
  at_risk :: "string set"

definition fresh_monitor :: Monitor where
  "fresh_monitor = \<lparr>last_read = Map.empty, baseline = Map.empty, at_risk = {}\<rparr>"

text \<open>
  The baseline of a property is what it was last seen at before its first apply; the property is
  at risk from then on, until a read sees the baseline again.
\<close>

fun observe :: "Event \<Rightarrow> Monitor \<Rightarrow> Monitor" where
  "observe (Observed k None) m = m"
| "observe (Observed k (Some v)) m =
     m\<lparr>last_read := (last_read m)(k \<mapsto> v),
       at_risk := (if baseline m k = Some v then at_risk m - {k} else at_risk m)\<rparr>"
| "observe (Applied k v) m =
     m\<lparr>baseline := (if baseline m k = None then (baseline m)(k := last_read m k) else baseline m),
       at_risk := insert k (at_risk m)\<rparr>"
| "observe Written m = m"
| "observe Deleted m = m"

definition monitor :: "Monitor \<Rightarrow> (Event \<times> Disk) list \<Rightarrow> Monitor" where
  "monitor m0 log = foldr (\<lambda>(e, d). observe e) log m0"

definition covered :: "Monitor \<Rightarrow> Disk \<Rightarrow> bool" where
  "covered m d \<longleftrightarrow>
     (\<forall>k \<in> at_risk m.
        case d of
          Present j \<Rightarrow>
            IsDirty (jstate j) \<and>
            (\<exists>e \<in> set (applied j). property e = k \<and> baseline m k = Some (from_value e))
        | _ \<Rightarrow> False)"

text \<open>Coverage after every single event of a log, so whatever the instant of a crash.\<close>

fun covered_log :: "Monitor \<Rightarrow> (Event \<times> Disk) list \<Rightarrow> bool" where
  "covered_log m0 [] = True"
| "covered_log m0 ((e, d) # log) \<longleftrightarrow> covered (monitor m0 ((e, d) # log)) d \<and> covered_log m0 log"

lemma monitor_Nil [simp]: "monitor m0 [] = m0"
  by (simp add: monitor_def)

lemma monitor_Cons [simp]: "monitor m0 ((e, d) # log) = observe e (monitor m0 log)"
  by (simp add: monitor_def)

section \<open>What each primitive changes\<close>

lemma Read_result:
  assumes "Read h p s = (r, s')"
  obtains w where "s' = s\<lparr>tx_world := w,
    tx_log := (Observed (Key p) (if rd_ok r then Some (rd_value r) else None), tx_disk s) # tx_log s\<rparr>"
  using assms by (auto simp: Read_def split: prod.splits)

lemma Apply_result:
  assumes "Apply h p v s = (r, s')"
  obtains w where "s' = s\<lparr>tx_world := w, tx_log := (Applied (Key p) v, tx_disk s) # tx_log s\<rparr>"
  using assms by (auto simp: Apply_def split: prod.splits)

lemma Clock_result:
  assumes "Clock h s = (r, s')"
  obtains w where "s' = s\<lparr>tx_world := w\<rparr>"
  using assms by (auto simp: Clock_def split: prod.splits)

lemma WriteJournalAtomic_result:
  assumes "WriteJournalAtomic h j s = (ok, s')"
  obtains w where "s' = (if ok then s\<lparr>tx_world := w, tx_disk := Present j,
    tx_log := (Written, Present j) # tx_log s\<rparr> else s\<lparr>tx_world := w\<rparr>)"
  using assms by (auto simp: WriteJournalAtomic_def Let_def split: prod.splits if_splits)

lemma DeleteJournal_result:
  assumes "DeleteJournal h s = (e, s')"
  obtains w where "s' = (if e = None then s\<lparr>tx_world := w, tx_disk := Absent,
    tx_log := (Deleted, Absent) # tx_log s\<rparr> else s\<lparr>tx_world := w\<rparr>)" "e \<noteq> Some []"
  using assms by (auto simp: DeleteJournal_def split: prod.splits option.splits)

lemma ReadJournal_result:
  assumes "ReadJournal h s = (r, s')"
  obtains w where "s' = s\<lparr>tx_world := w\<rparr>" "r = Inr None \<Longrightarrow> tx_disk s = Absent"
    "\<And>j. r = Inr (Some j) \<Longrightarrow> tx_disk s = Present j"
  using assms by (auto simp: ReadJournal_def Let_def split: prod.splits if_splits Disk.splits)

lemma PersistJournal_result:
  assumes "PersistJournal h st s = (ok, s')"
  obtains w j where
    "s' = (if ok then s\<lparr>tx_world := w, tx_journal := j, tx_disk := Present j,
             tx_log := (Written, Present j) # tx_log s\<rparr> else s\<lparr>tx_world := w, tx_journal := j\<rparr>)"
    "jstate j = st" "applied j = applied (tx_journal s)" "original j = original (tx_journal s)"
    "desired j = desired (tx_journal s)"
proof -
  obtain now s1 where c: "Clock h s = (now, s1)" by force
  obtain w where s1: "s1 = s\<lparr>tx_world := w\<rparr>" using Clock_result [OF c] by metis
  define j where "j = (let j = (tx_journal s)\<lparr>jstate := st, updated_at := now\<rparr>
     in if created_at j = [] then j\<lparr>created_at := now\<rparr> else j)"
  have wr: "WriteJournalAtomic h j (s1\<lparr>tx_journal := j\<rparr>) = (ok, s')"
    using assms by (simp add: PersistJournal_def c s1 j_def Let_def split: if_splits)
  obtain w' where "s' = (if ok then s1\<lparr>tx_journal := j, tx_world := w', tx_disk := Present j,
      tx_log := (Written, Present j) # tx_log (s1\<lparr>tx_journal := j\<rparr>)\<rparr>
      else s1\<lparr>tx_journal := j, tx_world := w'\<rparr>)"
    by (rule WriteJournalAtomic_result [OF wr])
  then have "s' = (if ok then s\<lparr>tx_world := w', tx_journal := j, tx_disk := Present j,
      tx_log := (Written, Present j) # tx_log s\<rparr> else s\<lparr>tx_world := w', tx_journal := j\<rparr>)"
    by (simp add: s1)
  then show thesis
    by (rule that [of j w']) (auto simp: j_def Let_def)
qed

section \<open>The invariant\<close>

definition tx_inv :: "Monitor \<Rightarrow> 'w Tx \<Rightarrow> bool" where
  "tx_inv m0 s \<longleftrightarrow>
     (let m = monitor m0 (tx_log s) in
      at_risk m \<subseteq> property ` set (applied (tx_journal s)) \<and>
      (\<forall>e \<in> set (applied (tx_journal s)). property e \<in> at_risk m \<longrightarrow> baseline m (property e) = Some (from_value e)) \<and>
      covered m (tx_disk s) \<and> covered_log m0 (tx_log s))"

text \<open>Every obligation's original value is the monitor's baseline.\<close>

definition grounded :: "Monitor \<Rightarrow> 'w Tx \<Rightarrow> bool" where
  "grounded m0 s \<longleftrightarrow>
     (\<forall>e \<in> set (applied (tx_journal s)). baseline (monitor m0 (tx_log s)) (property e) = Some (from_value e))"

text \<open>The file lists exactly the obligations in memory.\<close>

definition synced :: "'w Tx \<Rightarrow> bool" where
  "synced s \<longleftrightarrow>
     (case tx_disk s of Present j \<Rightarrow> IsDirty (jstate j) \<and> applied j = applied (tx_journal s) | _ \<Rightarrow> False)"

lemma covered_synced:
  assumes "at_risk m \<subseteq> property ` set as" "IsDirty (jstate j)" "applied j = as"
    "\<forall>e \<in> set as. property e \<in> at_risk m \<longrightarrow> baseline m (property e) = Some (from_value e)"
  shows "covered m (Present j)"
  using assms by (fastforce simp: covered_def)

lemma tx_inv_persist [invariant_intros]:
  assumes "PersistJournal h st s = (ok, s')" "tx_inv m0 s" "IsDirty st"
  shows "tx_inv m0 s' \<and> (ok \<longrightarrow> synced s')"
proof -
  obtain w j where s': "s' = (if ok then s\<lparr>tx_world := w, tx_journal := j, tx_disk := Present j,
             tx_log := (Written, Present j) # tx_log s\<rparr> else s\<lparr>tx_world := w, tx_journal := j\<rparr>)"
    and j: "jstate j = st" "applied j = applied (tx_journal s)"
    using PersistJournal_result [OF assms(1)] by metis
  have "covered (monitor m0 (tx_log s)) (Present j)"
    using assms(2,3) j by (intro covered_synced [of _ "applied j"]) (auto simp: tx_inv_def Let_def)
  then show ?thesis
    using assms(2,3) j by (auto simp: s' tx_inv_def synced_def Let_def)
qed

lemma persist_frame:
  assumes "PersistJournal h st s = (ok, s')"
  shows "applied (tx_journal s') = applied (tx_journal s) \<and> jstate (tx_journal s') = st \<and>
    original (tx_journal s') = original (tx_journal s) \<and> desired (tx_journal s') = desired (tx_journal s) \<and>
    tx_evidence s' = tx_evidence s \<and> tx_terminal s' = tx_terminal s \<and>
    monitor m0 (tx_log s') = monitor m0 (tx_log s) \<and> (ok \<longrightarrow> tx_disk s' = Present (tx_journal s')) \<and>
    (\<not> ok \<longrightarrow> tx_disk s' = tx_disk s \<and> tx_log s' = tx_log s) \<and>
    (ok \<longrightarrow> tx_log s' = (Written, tx_disk s') # tx_log s)"
  by (rule PersistJournal_result [OF assms]) auto

lemma grounded_persist [invariant_intros]:
  assumes "PersistJournal h st s = (ok, s')" "grounded m0 s"
  shows "grounded m0 s'"
  using assms persist_frame [OF assms(1), of m0] by (simp add: grounded_def)

lemma covered_observed:
  "covered m d \<Longrightarrow> covered (observe (Observed k v) m) d"
  by (cases v; cases d) (auto simp: covered_def)

lemma observed_fields:
  "at_risk (observe (Observed k v) m) \<subseteq> at_risk m" "baseline (observe (Observed k v) m) = baseline m"
  by (cases v; simp)+

lemma tx_inv_observed:
  assumes "tx_inv m0 s"
  shows "tx_inv m0 (s\<lparr>tx_world := w, tx_log := (Observed k v, tx_disk s) # tx_log s\<rparr>)"
proof -
  let ?m = "monitor m0 (tx_log s)"
  have "at_risk (observe (Observed k v) ?m) \<subseteq> property ` set (applied (tx_journal s))"
    using assms observed_fields(1) [of k v ?m] by (auto simp: tx_inv_def Let_def)
  moreover have "covered (observe (Observed k v) ?m) (tx_disk s)"
    using assms covered_observed by (auto simp: tx_inv_def Let_def)
  ultimately show ?thesis
    using assms observed_fields [of k v ?m]
    by (auto simp: tx_inv_def Let_def simp del: observe.simps)
qed

lemma tx_inv_read [invariant_intros]:
  assumes "Read h p s = (r, s')" "tx_inv m0 s"
  shows "tx_inv m0 s'"
  by (rule Read_result [OF assms(1)]) (simp add: tx_inv_observed [OF assms(2)])

lemma read_frame:
  assumes "Read h p s = (r, s')"
  shows "tx_journal s' = tx_journal s \<and> tx_disk s' = tx_disk s \<and> tx_evidence s' = tx_evidence s \<and>
    tx_terminal s' = tx_terminal s \<and>
    baseline (monitor m0 (tx_log s')) = baseline (monitor m0 (tx_log s)) \<and>
    (rd_ok r \<and> baseline (monitor m0 (tx_log s)) (Key p) = Some (rd_value r) \<longrightarrow>
       Key p \<notin> at_risk (monitor m0 (tx_log s'))) \<and>
    last_read (monitor m0 (tx_log s')) =
      (if rd_ok r then (last_read (monitor m0 (tx_log s)))(Key p \<mapsto> rd_value r)
       else last_read (monitor m0 (tx_log s)))"
  by (rule Read_result [OF assms]) auto

lemma grounded_read [invariant_intros]:
  assumes "Read h p s = (r, s')" "grounded m0 s"
  shows "grounded m0 s'"
  using assms read_frame [OF assms(1), of m0] by (simp add: grounded_def)

lemma synced_read [invariant_intros]:
  "Read h p s = (r, s') \<Longrightarrow> synced s \<Longrightarrow> synced s'"
  using read_frame [of h p s r s'] by (simp add: synced_def split: Disk.splits)

lemma apply_frame:
  assumes "Apply h p v s = (r, s')"
  shows "tx_journal s' = tx_journal s \<and> tx_disk s' = tx_disk s \<and> tx_evidence s' = tx_evidence s \<and>
    tx_terminal s' = tx_terminal s \<and> last_read (monitor m0 (tx_log s')) = last_read (monitor m0 (tx_log s)) \<and>
    baseline (monitor m0 (tx_log s')) =
      (if baseline (monitor m0 (tx_log s)) (Key p) = None
       then (baseline (monitor m0 (tx_log s)))(Key p := last_read (monitor m0 (tx_log s)) (Key p))
       else baseline (monitor m0 (tx_log s))) \<and>
    at_risk (monitor m0 (tx_log s')) = insert (Key p) (at_risk (monitor m0 (tx_log s)))"
  by (rule Apply_result [OF assms]) auto

text \<open>
  An apply is safe when the file is in step with the memory and the obligation of its property is
  among the entries, with the value the monitor knows it had.
\<close>

lemma tx_inv_apply [invariant_intros]:
  assumes "Apply h p v s = (r, s')" "tx_inv m0 s" "synced s"
    "Key p \<in> property ` set (applied (tx_journal s))" "grounded m0 s'"
  shows "tx_inv m0 s' \<and> synced s'"
proof -
  obtain w where s': "s' = s\<lparr>tx_world := w, tx_log := (Applied (Key p) v, tx_disk s) # tx_log s\<rparr>"
    using Apply_result [OF assms(1)] by metis
  obtain j where j: "tx_disk s = Present j" "IsDirty (jstate j)" "applied j = applied (tx_journal s)"
    using assms(3) by (auto simp: synced_def split: Disk.splits)
  let ?m = "monitor m0 (tx_log s')"
  have risk: "at_risk ?m \<subseteq> property ` set (applied (tx_journal s))"
    using assms(2,4) by (auto simp: s' tx_inv_def Let_def)
  have base: "\<forall>e \<in> set (applied (tx_journal s)). baseline ?m (property e) = Some (from_value e)"
    using assms(5) by (simp add: grounded_def s')
  then have "covered ?m (tx_disk s)"
    using covered_synced [OF risk] j by auto
  then show ?thesis
    using assms(2) risk base j by (simp add: s' tx_inv_def synced_def Let_def)
qed

lemma tx_inv_delete [invariant_intros]:
  assumes "DeleteJournal h s = (e, s')" "tx_inv m0 s" "at_risk (monitor m0 (tx_log s)) = {}"
  shows "tx_inv m0 s'"
  by (rule DeleteJournal_result [OF assms(1)])
     (use assms(2,3) in \<open>auto simp: tx_inv_def Let_def covered_def\<close>)

lemma delete_frame:
  assumes "DeleteJournal h s = (e, s')"
  shows "tx_journal s' = tx_journal s \<and> tx_evidence s' = tx_evidence s \<and> tx_terminal s' = tx_terminal s \<and>
    monitor m0 (tx_log s') = monitor m0 (tx_log s) \<and> (e = None \<longrightarrow> tx_disk s' = Absent) \<and>
    (e \<noteq> None \<longrightarrow> tx_disk s' = tx_disk s) \<and> e \<noteq> Some []"
  by (rule DeleteJournal_result [OF assms]) auto

text \<open>Changes of the bookkeeping that the invariant does not look at.\<close>

lemma bookkeeping [simp]:
  "tx_inv m0 (at_evidence k f s) = tx_inv m0 s" "tx_inv m0 (set_jstate st s) = tx_inv m0 s"
  "tx_inv m0 (s\<lparr>tx_evidence := ev\<rparr>) = tx_inv m0 s" "tx_inv m0 (s\<lparr>tx_terminal := t\<rparr>) = tx_inv m0 s"
  "tx_inv m0 (s\<lparr>tx_world := w\<rparr>) = tx_inv m0 s"
  "grounded m0 (at_evidence k f s) = grounded m0 s" "grounded m0 (set_jstate st s) = grounded m0 s"
  "grounded m0 (s\<lparr>tx_evidence := ev\<rparr>) = grounded m0 s" "grounded m0 (s\<lparr>tx_world := w\<rparr>) = grounded m0 s"
  "synced (at_evidence k f s) = synced s" "synced (s\<lparr>tx_evidence := ev\<rparr>) = synced s"
  "synced (s\<lparr>tx_world := w\<rparr>) = synced s"
  by (simp_all add: tx_inv_def grounded_def synced_def at_evidence_def set_jstate_def split: Disk.split)

lemma bookkeeping_fields [simp]:
  "tx_log (at_evidence k f s) = tx_log s" "tx_log (set_jstate st s) = tx_log s"
  "tx_log (set_applied as s) = tx_log s"
  "tx_journal (at_evidence k f s) = tx_journal s" "tx_disk (at_evidence k f s) = tx_disk s"
  "tx_disk (set_jstate st s) = tx_disk s" "tx_disk (set_applied as s) = tx_disk s"
  "applied (tx_journal (set_jstate st s)) = applied (tx_journal s)"
  "jstate (tx_journal (set_jstate st s)) = st"
  "applied (tx_journal (set_applied as s)) = as"
  "original (tx_journal (set_applied as s)) = original (tx_journal s)"
  "tx_evidence (set_applied as s) = tx_evidence s" "tx_evidence (set_jstate st s) = tx_evidence s"
  "tx_evidence (at_evidence k f s) = dict_modify k empty_evidence f (tx_evidence s)"
  by (simp_all add: at_evidence_def set_jstate_def set_applied_def)

text \<open>Dropping the last obligation once its property is not at risk any more.\<close>

lemma tx_inv_pop [invariant_intros]:
  assumes "tx_inv m0 s" "applied (tx_journal s) = as @ [e]" "property e \<notin> at_risk (monitor m0 (tx_log s))"
  shows "tx_inv m0 (set_applied as s)"
  using assms by (auto simp: tx_inv_def Let_def)

lemma grounded_pop [invariant_intros]:
  assumes "grounded m0 s" "applied (tx_journal s) = as @ [e]"
  shows "grounded m0 (set_applied as s)"
  using assms by (auto simp: grounded_def)

section \<open>Restoring\<close>

lemma Fail_simps [simp]:
  "res_ok (Fail c s) = False" "res_state (Fail c s) = jstate (tx_journal s)" "error_code (Fail c s) = c"
  "pending (Fail c s) = []"
  by (simp_all add: Fail_def)

lemma Dirty_states [simp]:
  "IsDirty Prepared" "IsDirty Mutating" "IsDirty Active" "IsDirty Restoring" "IsDirty RestoreFailed"
  "IsDirty RestorePendingDeviceUnavailable" "\<not> IsDirty Clean" "\<not> IsDirty Restored"
  by (simp_all add: IsDirty_def)

definition restorable :: "Monitor \<Rightarrow> 'w Tx \<Rightarrow> bool" where
  "restorable m0 s \<longleftrightarrow> tx_inv m0 s \<and> grounded m0 s"

lemmas restorable_intros = tx_inv_read grounded_read grounded_persist tx_inv_pop grounded_pop

lemma restorable_persist:
  "PersistJournal h st s = (ok, s') \<Longrightarrow> restorable m0 s \<Longrightarrow> IsDirty st \<Longrightarrow> restorable m0 s' \<and> (ok \<longrightarrow> synced s')"
  using tx_inv_persist [of h st s ok s' m0] grounded_persist [of h st s ok s' m0]
  by (simp add: restorable_def)

lemma restorable_read: "Read h p s = (r, s') \<Longrightarrow> restorable m0 s \<Longrightarrow> restorable m0 s'"
  using tx_inv_read [of h p s r s' m0] grounded_read [of h p s r s' m0] by (simp add: restorable_def)

lemma restorable_apply:
  assumes "Apply h p v s = (r, s')" "restorable m0 s" "synced s"
    "Key p \<in> property ` set (applied (tx_journal s))"
  shows "restorable m0 s' \<and> synced s'"
proof -
  obtain e where "e \<in> set (applied (tx_journal s))" "property e = Key p" using assms(4) by force
  then have "baseline (monitor m0 (tx_log s)) (Key p) \<noteq> None"
    using assms(2) by (auto simp: restorable_def grounded_def)
  then have "grounded m0 s'"
    using assms(2) apply_frame [OF assms(1), of m0] by (auto simp: restorable_def grounded_def)
  then show ?thesis
    using tx_inv_apply [OF assms(1), of m0] assms(2,3,4) by (simp add: restorable_def)
qed

lemma restorable_pop:
  "restorable m0 s \<Longrightarrow> applied (tx_journal s) = as @ [e] \<Longrightarrow>
   property e \<notin> at_risk (monitor m0 (tx_log s)) \<Longrightarrow> restorable m0 (set_applied as s)"
  using tx_inv_pop [of m0 s as e] grounded_pop [of m0 s as e] by (simp add: restorable_def)

lemma restorable_bookkeeping [simp]:
  "restorable m0 (at_evidence k f s) = restorable m0 s" "restorable m0 (set_jstate st s) = restorable m0 s"
  "restorable m0 (s\<lparr>tx_evidence := ev\<rparr>) = restorable m0 s" "restorable m0 (s\<lparr>tx_world := w\<rparr>) = restorable m0 s"
  by (simp_all add: restorable_def)

text \<open>
  One obligation that a read has just seen at its original value is dropped and the file rewritten.
\<close>

lemma drop_obligation:
  assumes "PersistJournal h Restoring (set_applied (rev rest) s) = (ok, s')" "restorable m0 s"
    "applied (tx_journal s) = rev (entry # rest)" "property entry \<notin> at_risk (monitor m0 (tx_log s))"
  shows "restorable m0 s' \<and> applied (tx_journal s') = rev rest \<and> (ok \<longrightarrow> synced s') \<and>
    jstate (tx_journal s') = Restoring"
  using restorable_persist [OF assms(1) restorable_pop [OF assms(2)]] assms(3,4) persist_frame [OF assms(1)]
  by simp

lemma seen_original:
  assumes "Read h p s = (r, s')" "restorable m0 s" "applied (tx_journal s) = rev (entry # rest)"
    "rd_ok r" "rd_value r = from_value entry" "Key p = property entry"
  shows "property entry \<notin> at_risk (monitor m0 (tx_log s'))"
  using read_frame [OF assms(1), of m0] assms(2-) by (simp add: restorable_def grounded_def)

lemma RestoreLoop_restorable:
  assumes "RestoreLoop h es s = (r, s')" "restorable m0 s" "synced s" "applied (tx_journal s) = rev es"
  shows "restorable m0 s' \<and> (r = None \<longrightarrow> applied (tx_journal s') = []) \<and>
    (\<forall>x. r = Some x \<longrightarrow> \<not> res_ok x \<and> res_state x = jstate (tx_journal s') \<and> pending x = [] \<and>
        res_state x \<in> {Restoring, RestoreFailed})"
  using assms
proof (induction es arbitrary: s)
  case Nil
  then show ?case by simp
next
  case (Cons entry rest)
  show ?case
  proof (cases "PropertyIdFromKey (property entry)")
    case None
    obtain ok s1 where p: "PersistJournal h RestoreFailed (set_jstate RestoreFailed s) = (ok, s1)" by force
    show ?thesis
      using Cons.prems restorable_persist [OF p, of m0] persist_frame [OF p] by (auto simp: None p)
  next
    case (Some p)
    have key: "Key p = property entry" using PropertyIdFromKey_Key [OF Some] .
    define s0 where "s0 = at_evidence (property entry) (\<lambda>ev. ev\<lparr>ev_property := property entry,
                    before_value := (if before_value ev = [] then from_value entry else before_value ev)\<rparr>) s"
    obtain cur s1 where rd: "Read h p s0 = (cur, s1)" by force
    have s0: "restorable m0 s0" "synced s0" "applied (tx_journal s0) = rev (entry # rest)"
      using Cons.prems by (simp_all add: s0_def)
    have s1: "restorable m0 s1" "synced s1" "applied (tx_journal s1) = rev (entry # rest)"
      using s0 restorable_read [OF rd] synced_read [OF rd] read_frame [OF rd] by auto
    show ?thesis
    proof (cases "rd_ok cur \<and> rd_value cur = from_value entry")
      case True
      define s2 where "s2 = at_evidence (property entry) (\<lambda>ev. ev\<lparr>after_restore := rd_value cur\<rparr>) s1"
      obtain ok s3 where p3: "PersistJournal h Restoring (set_applied (rev rest) s2) = (ok, s3)" by force
      have "restorable m0 s3 \<and> applied (tx_journal s3) = rev rest \<and> (ok \<longrightarrow> synced s3) \<and>
          jstate (tx_journal s3) = Restoring"
        using s1 True seen_original [OF rd s0(1) s0(3) _ _ key]
        by (intro drop_obligation [OF p3]) (simp_all add: s2_def)
      moreover have "RestoreLoop h (entry # rest) s =
          (if ok then RestoreLoop h rest s3 else (Some (Fail kJournalWriteFailed s3), s3))"
        using p3 True by (simp add: Some Let_def s0_def [symmetric] rd s2_def)
      ultimately show ?thesis
        using Cons.IH [of s3] Cons.prems(1) by (cases ok) auto
    next
      case differs: False
      obtain acc s2 where ap: "Apply h p (from_value entry) s1 = (acc, s2)" by force
      have s2: "restorable m0 s2" "synced s2" "applied (tx_journal s2) = rev (entry # rest)"
        using s1 restorable_apply [OF ap s1(1,2)] apply_frame [OF ap] key by auto
      show ?thesis
      proof (cases acc)
        case False
        define s3 where "s3 = at_evidence (property entry)
           (\<lambda>ev. ev\<lparr>after_restore := (if rd_ok cur then rd_value cur else [])\<rparr>) s2"
        obtain ok s4 where p4: "PersistJournal h RestoreFailed s3 = (ok, s4)" by force
        have "RestoreLoop h (entry # rest) s = (Some (Fail kRestoreRejected s4), s4)"
          using p4 False differs by (auto simp add: Some Let_def s0_def [symmetric] rd ap s3_def)
        moreover have "restorable m0 s4" "jstate (tx_journal s4) = RestoreFailed"
          using s2 restorable_persist [OF p4, of m0] persist_frame [OF p4] by (simp_all add: s3_def)
        ultimately show ?thesis
          using Cons.prems(1) by auto
      next
        case True
        obtain ver s3 where rd2: "Read h p s2 = (ver, s3)" by force
        define s4 where "s4 = at_evidence (property entry)
           (\<lambda>ev. ev\<lparr>after_restore := (if rd_ok ver then rd_value ver else [])\<rparr>) s3"
        have s4: "restorable m0 s4" "synced s4" "applied (tx_journal s4) = rev (entry # rest)"
          using s2 restorable_read [OF rd2] synced_read [OF rd2] read_frame [OF rd2] by (auto simp: s4_def)
        show ?thesis
        proof (cases "rd_ok ver \<and> rd_value ver = from_value entry")
          case False
          obtain ok s5 where p5: "PersistJournal h RestoreFailed s4 = (ok, s5)" by force
          have "RestoreLoop h (entry # rest) s = (Some (Fail kRestoreVerifyMismatch s5), s5)"
            using p5 True False differs
            by (auto simp add: Some Let_def s0_def [symmetric] rd ap rd2 s4_def [symmetric])
          moreover have "restorable m0 s5" "jstate (tx_journal s5) = RestoreFailed"
            using s4 restorable_persist [OF p5, of m0] persist_frame [OF p5] by simp_all
          ultimately show ?thesis
            using Cons.prems(1) by auto
        next
          case ok_ver: True
          obtain ok s5 where p5: "PersistJournal h Restoring (set_applied (rev rest) s4) = (ok, s5)" by force
          have "restorable m0 s5 \<and> applied (tx_journal s5) = rev rest \<and> (ok \<longrightarrow> synced s5) \<and>
              jstate (tx_journal s5) = Restoring"
            using s4 ok_ver seen_original [OF rd2 s2(1) s2(3) _ _ key]
            by (intro drop_obligation [OF p5]) (simp_all add: s4_def)
          moreover have "RestoreLoop h (entry # rest) s =
              (if ok then RestoreLoop h rest s5 else (Some (Fail kJournalWriteFailed s5), s5))"
            using p5 True differs ok_ver
            by (auto simp add: Some Let_def s0_def [symmetric] rd ap rd2 s4_def)
          ultimately show ?thesis
            using Cons.IH [of s5] Cons.prems(1) by (cases ok) auto
        qed
      qed
    qed
  qed
qed

lemma first_missing_frame:
  "first_missing h as s = (a, s') \<Longrightarrow> \<exists>w. s' = s\<lparr>tx_world := w\<rparr>"
proof (induction "as" arbitrary: s)
  case Nil
  then have "s' = s\<lparr>tx_world := tx_world s\<rparr>" by simp
  then show ?case by blast
next
  case (Cons x xs)
  obtain b w where d: "DevicePresent h x s = (b, s\<lparr>tx_world := w\<rparr>)"
    by (cases "h_present h x (tx_world s)") (simp add: DevicePresent_def)
  show ?case
  proof (cases b)
    case True
    then have "first_missing h xs (s\<lparr>tx_world := w\<rparr>) = (a, s')"
      using Cons.prems d by simp
    from Cons.IH [OF this] show ?thesis by simp
  next
    case False
    then show ?thesis using Cons.prems d by auto
  qed
qed

lemma restored_result_simps [simp]:
  "res_ok (restored_result e)" "res_state (restored_result e) = Restored" "pending (restored_result e) = []"
  "res_warning (restored_result e) = (case e of None \<Rightarrow> [] | Some text \<Rightarrow> text)"
  by (simp_all add: restored_result_def ok_result_def)

lemma restorable_settled:
  assumes "restorable m0 s" "applied (tx_journal s) = []"
  shows "at_risk (monitor m0 (tx_log s)) = {}"
  using assms by (simp add: restorable_def tx_inv_def Let_def)

lemma restorable_delete:
  assumes "DeleteJournal h s = (e, s')" "restorable m0 s" "applied (tx_journal s) = []"
  shows "restorable m0 s' \<and> at_risk (monitor m0 (tx_log s')) = {}"
  using tx_inv_delete [OF assms(1)] restorable_settled [OF assms(2,3)] delete_frame [OF assms(1), of m0] assms(2,3)
  by (simp add: restorable_def grounded_def)

text \<open>
  The end of every restore: success means nothing is at risk and no obligation is left, and a file
  that stayed is reported; failure leaves the machine's state dirty.
\<close>

definition restore_outcome :: "Monitor \<Rightarrow> TransactionResult \<Rightarrow> 'w Tx \<Rightarrow> bool" where
  "restore_outcome m0 r s \<longleftrightarrow>
     restorable m0 s \<and> res_state r = jstate (tx_journal s) \<and>
     (if res_ok r then
        res_state r = Restored \<and> applied (tx_journal s) = [] \<and> at_risk (monitor m0 (tx_log s)) = {} \<and>
        (tx_disk s = Absent \<or> res_warning r \<noteq> [])
      else IsDirty (res_state r))"

lemma RestoreInternal_outcome:
  assumes "RestoreInternal h s = (r, s')" "restorable m0 s"
  shows "restore_outcome m0 r s'"
proof (cases "applied (tx_journal s) = []")
  case True
  obtain e s1 where d: "DeleteJournal h s = (e, s1)" by force
  show ?thesis
    using assms(1) True restorable_delete [OF d assms(2) True] delete_frame [OF d]
    by (cases e) (auto simp: RestoreInternal_def d restore_outcome_def Let_def)
next
  case False
  obtain ok s1 where p: "PersistJournal h Restoring s = (ok, s1)" by force
  have s1: "restorable m0 s1" "ok \<Longrightarrow> synced s1" "jstate (tx_journal s1) = Restoring"
    using restorable_persist [OF p assms(2)] persist_frame [OF p] by simp_all
  obtain miss s2 where f: "first_missing h (owed_aliases (applied (tx_journal s1))) s1 = (miss, s2)" by force
  obtain w where s2: "s2 = s1\<lparr>tx_world := w\<rparr>" using first_missing_frame [OF f] by blast
  have s2f: "restorable m0 s2" "jstate (tx_journal s2) = Restoring" "ok \<Longrightarrow> synced s2"
    using s1 by (simp_all add: s2)
  show ?thesis
  proof (cases ok)
    case False
    then show ?thesis
      using assms(1) \<open>applied (tx_journal s) \<noteq> []\<close> s1
      by (auto simp: RestoreInternal_def p restore_outcome_def)
  next
    case True
    show ?thesis
    proof (cases miss)
      case (Some a)
      obtain ok2 s3 where p3: "PersistJournal h RestorePendingDeviceUnavailable s2 = (ok2, s3)" by force
      show ?thesis
        using assms(1) False True Some s2f restorable_persist [OF p3, of m0] persist_frame [OF p3]
        by (auto simp: RestoreInternal_def p f p3 restore_outcome_def Let_def)
    next
      case None
      obtain lr s3 where l: "RestoreLoop h (rev (applied (tx_journal s2))) s2 = (lr, s3)" by force
      have s3: "restorable m0 s3 \<and> (lr = None \<longrightarrow> applied (tx_journal s3) = []) \<and>
          (\<forall>x. lr = Some x \<longrightarrow> \<not> res_ok x \<and> res_state x = jstate (tx_journal s3) \<and> pending x = [] \<and>
            res_state x \<in> {Restoring, RestoreFailed})"
        by (rule RestoreLoop_restorable [OF l s2f(1) s2f(3) [OF True]]) simp
      show ?thesis
      proof (cases lr)
        case (Some x)
        then show ?thesis
          using assms(1) False True None s3
          by (auto simp: RestoreInternal_def p f l restore_outcome_def)
      next
        case lr: None
        define s4 where "s4 = set_jstate Restored (s3\<lparr>tx_evidence := map (\<lambda>(k, ev).
            (k, if skipped ev \<and> after_restore ev = [] then ev\<lparr>after_restore := before_value ev\<rparr> else ev))
            (tx_evidence s3)\<rparr>)"
        obtain e s5 where d: "DeleteJournal h s4 = (e, s5)" by force
        have s4: "restorable m0 s4" "applied (tx_journal s4) = []" "jstate (tx_journal s4) = Restored"
          using s3 lr by (simp_all add: s4_def)
        note d' = restorable_delete [OF d s4(1,2)] delete_frame [OF d]
        have "RestoreInternal h s = (restored_result e, s5)"
          using False True None lr d by (simp add: RestoreInternal_def p f l s4_def Let_def)
        then show ?thesis
          using assms(1) d' s4(2,3)
          by (auto simp: restore_outcome_def split: option.split)
      qed
    qed
  qed
qed

lemma Restore_outcome:
  assumes "Restore h s = (r, s')" "restorable m0 s" "tx_terminal s = None"
    "\<not> IsDirty (jstate (tx_journal s)) \<Longrightarrow> applied (tx_journal s) = []"
  shows "restorable m0 s' \<and>
    (res_ok r \<longrightarrow> applied (tx_journal s') = [] \<and> at_risk (monitor m0 (tx_log s')) = {})"
proof (cases "IsDirty (jstate (tx_journal s))")
  case True
  then have n: "jstate (tx_journal s) \<noteq> Clean" "jstate (tx_journal s) \<noteq> Restored" by auto
  obtain r1 s1 where i: "RestoreInternal h s = (r1, s1)" by force
  have "restore_outcome m0 r1 s1" by (rule RestoreInternal_outcome [OF i assms(2)])
  then show ?thesis
    using assms(1,3) n i
    by (auto simp: Restore_def restore_outcome_def restorable_def grounded_def split: if_splits)
next
  case False
  then have "jstate (tx_journal s) = Clean \<or> jstate (tx_journal s) = Restored"
    by (auto simp: IsDirty_def split: TransactionState.splits)
  then show ?thesis
    using assms(1,2,3) assms(4) [OF False] restorable_settled [OF assms(2)]
    by (auto simp: Restore_def Let_def restorable_def grounded_def)
qed

section \<open>Beginning\<close>

abbreviation mon :: "Monitor \<Rightarrow> 'w Tx \<Rightarrow> Monitor" where
  "mon m0 s \<equiv> monitor m0 (tx_log s)"

lemma restorable_cong:
  "tx_log s' = tx_log s \<Longrightarrow> tx_disk s' = tx_disk s \<Longrightarrow> applied (tx_journal s') = applied (tx_journal s) \<Longrightarrow>
   restorable m0 s' = restorable m0 s"
  by (simp add: restorable_def tx_inv_def grounded_def)

text \<open>A new obligation for a property that was never applied keeps the invariant.\<close>

lemma tx_inv_push:
  assumes "restorable m0 s" "baseline (mon m0 s) (property e) = None"
  shows "tx_inv m0 (set_applied (applied (tx_journal s) @ [e]) s)"
proof -
  have "property e \<notin> at_risk (mon m0 s)"
    using assms by (auto simp: restorable_def tx_inv_def Let_def)
  then show ?thesis
    using assms by (auto simp: restorable_def tx_inv_def Let_def)
qed

definition rolled_back :: "Monitor \<Rightarrow> TransactionResult \<Rightarrow> 'w Tx \<Rightarrow> bool" where
  "rolled_back m0 r s \<longleftrightarrow>
     \<not> res_ok r \<and> res_state r = jstate (tx_journal s) \<and>
     (\<not> IsDirty (res_state r) \<longrightarrow> at_risk (mon m0 s) = {} \<and> applied (tx_journal s) = [])"

lemma RollBack_outcome:
  assumes "RollBack h c s = (r, s')" "restorable m0 s"
  shows "restorable m0 s' \<and> rolled_back m0 r s'"
proof -
  obtain r1 s1 where i: "RestoreInternal h s = (r1, s1)" by force
  show ?thesis
    using assms(1) RestoreInternal_outcome [OF i assms(2)] i
    by (auto simp: RollBack_def restore_outcome_def rolled_back_def split: if_splits)
qed

definition awaiting :: "Monitor \<Rightarrow> 'w Tx \<Rightarrow> (PropertyId \<times> string) list \<Rightarrow> bool" where
  "awaiting m0 s rest \<longleftrightarrow>
     distinct (map (\<lambda>(p, v). Key p) rest) \<and>
     (\<forall>(p, v) \<in> set rest. baseline (mon m0 s) (Key p) = None \<and>
        last_read (mon m0 s) (Key p) = Some (original_of s (Key p)))"

text \<open>What a completed round of mutations leaves: every value was read back, nothing else was seen.\<close>

definition mutated :: "Monitor \<Rightarrow> 'w Tx \<Rightarrow> (PropertyId \<times> string) list \<Rightarrow> 'w Tx \<Rightarrow> bool" where
  "mutated m0 s rest s' \<longleftrightarrow>
     map (\<lambda>e. (property e, from_value e, to_value e)) (applied (tx_journal s')) =
       map (\<lambda>e. (property e, from_value e, to_value e)) (applied (tx_journal s)) @
       map (\<lambda>(p, v). (Key p, original_of s (Key p), v)) rest \<and>
     original (tx_journal s') = original (tx_journal s) \<and>
     (\<forall>(p, v) \<in> set rest. last_read (mon m0 s') (Key p) = Some v) \<and>
     (\<forall>k. k \<notin> set (map (\<lambda>(p, v). Key p) rest) \<longrightarrow> last_read (mon m0 s') k = last_read (mon m0 s) k)"

text \<open>One round: the obligation is on disk, then the value is applied.\<close>

lemma mutate_apply:
  assumes "PersistJournal h Mutating
      (at_evidence key f (set_applied (applied (tx_journal s) @ [e]) s)) = (True, s1)"
    "Apply h p v s1 = (acc, s2)" "restorable m0 s" "baseline (mon m0 s) key = None"
    "last_read (mon m0 s) key = Some (from_value e)" "property e = key" "Key p = key"
  shows "restorable m0 s2 \<and> synced s2 \<and> applied (tx_journal s2) = applied (tx_journal s) @ [e] \<and>
    original (tx_journal s2) = original (tx_journal s) \<and>
    last_read (mon m0 s2) = last_read (mon m0 s) \<and>
    (\<forall>k. k \<noteq> key \<longrightarrow> baseline (mon m0 s2) k = baseline (mon m0 s) k)"
proof -
  have inv: "tx_inv m0 (at_evidence key f (set_applied (applied (tx_journal s) @ [e]) s))"
    using tx_inv_push [OF assms(3)] assms(4,6) by simp
  note pf = persist_frame [OF assms(1), of m0] and af = apply_frame [OF assms(2), of m0]
  have s1: "tx_inv m0 s1" "synced s1"
    using tx_inv_persist [OF assms(1) inv] by simp_all
  have b: "baseline (mon m0 s2) = (baseline (mon m0 s))(key \<mapsto> from_value e)"
    using pf af assms(4,5,7) by simp
  have a2: "applied (tx_journal s2) = applied (tx_journal s) @ [e]"
    using pf af by simp
  have "grounded m0 s2"
    using assms(3,4,6) a2 b by (auto simp: restorable_def grounded_def)
  then have "tx_inv m0 s2 \<and> synced s2"
    using pf assms(6,7) by (intro tx_inv_apply [OF assms(2) s1]) auto
  then show ?thesis
    using \<open>grounded m0 s2\<close> pf a2 b conjunct1 [OF conjunct2 [OF af]] af
    by (simp add: restorable_def assms(4,7))
qed

lemma clock_frame:
  assumes "Clock h s = (now, s')"
  shows "\<exists>w. s' = s\<lparr>tx_world := w\<rparr>"
  using Clock_result [OF assms] by blast

lemma MutateLoop_safe:
  assumes "MutateLoop h rest s = (r, s')" "restorable m0 s" "synced s" "awaiting m0 s rest"
  shows "restorable m0 s' \<and> (r = None \<longrightarrow> synced s' \<and> mutated m0 s rest s') \<and>
    (\<forall>x. r = Some x \<longrightarrow> rolled_back m0 x s')"
  using assms
proof (induction rest arbitrary: s)
  case Nil
  then show ?case by (simp add: mutated_def)
next
  case (Cons pv rest)
  obtain p v where pv: "pv = (p, v)" by (cases pv)
  define key where "key = Key p"
  have aw: "baseline (mon m0 s) key = None" "last_read (mon m0 s) key = Some (original_of s key)"
    "key \<notin> set (map (\<lambda>(p, v). Key p) rest)" "awaiting m0 s rest"
    using Cons.prems(4) by (auto simp: awaiting_def pv key_def)
  obtain now sc where c: "Clock h s = (now, sc)" by force
  obtain w where sc: "sc = s\<lparr>tx_world := w\<rparr>" using clock_frame [OF c] by blast
  have orig: "original_of sc key = original_of s key" by (simp add: sc original_of_def)
  define e where "e = \<lparr>property = key, from_value = original_of s key, to_value = v, at_utc = now\<rparr>"
  let ?f = "\<lambda>ev. ev\<lparr>skipped := False\<rparr>"
  obtain ok s1 where p1: "PersistJournal h Mutating
      (at_evidence key ?f (set_applied (applied (tx_journal s) @ [e]) sc)) = (ok, s1)" by force
  have roll: ?case if "MutateLoop h (pv # rest) s = (let (r, s) = RollBack h c t in (Some r, s))"
    "restorable m0 t" for c t
  proof -
    obtain rb sb where rb: "RollBack h c t = (rb, sb)" by force
    show ?thesis using that RollBack_outcome [OF rb, of m0] Cons.prems(1) by (auto simp: rb)
  qed
  show ?case
  proof (cases ok)
    case False
    let ?t = "at_evidence key (\<lambda>ev. ev\<lparr>skipped := True\<rparr>) (set_applied (applied (tx_journal s)) s1)"
    have "restorable m0 (set_applied (applied (tx_journal s)) s1)"
      using Cons.prems(2) persist_frame [OF p1] False
      by (subst restorable_cong [of _ s]) (simp_all add: sc)
    moreover have "MutateLoop h (pv # rest) s = (let (r, s) = RollBack h kJournalWriteFailed ?t in (Some r, s))"
      using p1 False by (simp add: pv Let_def c key_def [symmetric] orig e_def [symmetric])
    ultimately show ?thesis by (intro roll [of kJournalWriteFailed ?t]) simp_all
  next
    case True
    obtain acc s2 where ap: "Apply h p v s1 = (acc, s2)" by force
    have rs: "restorable m0 sc" "baseline (mon m0 sc) key = None"
      "last_read (mon m0 sc) key = Some (from_value e)" "applied (tx_journal sc) = applied (tx_journal s)"
      using Cons.prems(2) aw by (simp_all add: sc e_def)
    have s2: "restorable m0 s2 \<and> synced s2 \<and> applied (tx_journal s2) = applied (tx_journal sc) @ [e] \<and>
      original (tx_journal s2) = original (tx_journal sc) \<and>
      last_read (mon m0 s2) = last_read (mon m0 sc) \<and>
      (\<forall>k. k \<noteq> key \<longrightarrow> baseline (mon m0 s2) k = baseline (mon m0 sc) k)"
      using p1 True rs
      by (intro mutate_apply [where f = ?f and e = e, OF _ ap]) (simp_all add: e_def key_def)
    show ?thesis
    proof (cases acc)
      case False
      then have "MutateLoop h (pv # rest) s = (let (r, s) = RollBack h kApplyRejected s2 in (Some r, s))"
        using p1 True ap by (simp add: pv Let_def c key_def [symmetric] orig e_def [symmetric])
      then show ?thesis using s2 by (intro roll [of kApplyRejected s2]) simp_all
    next
      case acc: True
      obtain ver s3 where rd: "Read h p s2 = (ver, s3)" by force
      define s4 where "s4 = at_evidence key (\<lambda>ev. ev\<lparr>applied_value := rd_value ver\<rparr>) s3"
      obtain ok2 s5 where p5: "PersistJournal h Mutating s4 = (ok2, s5)" by force
      have eq: "MutateLoop h (pv # rest) s =
         (if \<not> rd_ok ver then (let (r, s) = RollBack h kReadFailed s4 in (Some r, s))
          else if rd_value ver \<noteq> v then (let (r, s) = RollBack h kVerifyMismatch s4 in (Some r, s))
          else if \<not> ok2 then (let (r, s) = RollBack h kJournalWriteFailed s5 in (Some r, s))
          else MutateLoop h rest s5)"
        using p1 True ap acc rd p5
        by (simp add: pv Let_def c key_def [symmetric] orig e_def [symmetric] s4_def [symmetric]
            split del: if_split cong del: if_weak_cong)
      have s4: "restorable m0 s4" using s2 restorable_read [OF rd] by (simp add: s4_def)
      have s5: "restorable m0 s5" "ok2 \<Longrightarrow> synced s5" using restorable_persist [OF p5 s4] by simp_all
      note fr = read_frame [OF rd, of m0] persist_frame [OF p5, of m0]
      show ?thesis
      proof (cases "rd_ok ver \<and> rd_value ver = v \<and> ok2")
        case False
        show ?thesis
        proof (cases "rd_ok ver \<and> rd_value ver = v")
          case True
          then show ?thesis using False eq s5(1) by (intro roll [of kJournalWriteFailed s5]) simp_all
        next
          case False
          then have "MutateLoop h (pv # rest) s =
              (let (r, s) = RollBack h (if rd_ok ver then kVerifyMismatch else kReadFailed) s4 in (Some r, s))"
            using eq by (simp split: if_splits)
          then show ?thesis using s4 by (rule roll)
        qed
      next
        case good: True
        then have eq': "MutateLoop h (pv # rest) s = MutateLoop h rest s5" using eq by simp
        have a5: "applied (tx_journal s5) = applied (tx_journal s) @ [e]"
          "original (tx_journal s5) = original (tx_journal s)"
          using s2 fr sc by (simp_all add: s4_def)
        have m5: "last_read (mon m0 s5) = (last_read (mon m0 s))(key \<mapsto> v)"
          "\<forall>k. k \<noteq> key \<longrightarrow> baseline (mon m0 s5) k = baseline (mon m0 s) k"
          using s2 fr sc good by (simp_all add: s4_def key_def)
        have o5: "original_of s5 = original_of s" using a5 by (simp add: original_of_def fun_eq_iff)
        have "\<forall>(q, x) \<in> set rest. Key q \<noteq> key" using aw(3) by force
        then have "awaiting m0 s5 rest"
          using aw(4) m5 by (fastforce simp: awaiting_def o5)
        note ih = Cons.IH [OF _ s5(1) s5(2) this]
        have mut: "mutated m0 s (pv # rest) t" if "mutated m0 s5 rest t" for t
          using that a5 m5 aw(3) by (auto simp: mutated_def o5 pv e_def key_def)
        show ?thesis
          using ih Cons.prems(1) good mut unfolding eq' by simp
      qed
    qed
  qed
qed

definition idle :: "Monitor \<Rightarrow> 'w Tx \<Rightarrow> bool" where
  "idle m0 s \<longleftrightarrow> restorable m0 s \<and> applied (tx_journal s) = [] \<and> baseline (mon m0 s) = Map.empty"

lemma idle_cong:
  "tx_log s' = tx_log s \<Longrightarrow> tx_disk s' = tx_disk s \<Longrightarrow> applied (tx_journal s') = applied (tx_journal s) \<Longrightarrow>
   idle m0 s' = idle m0 s"
  using restorable_cong [of s' s m0] by (simp add: idle_def)

lemma SnapshotLoop_effect:
  assumes "SnapshotLoop h ws s = (r, s')" "idle m0 s" "distinct (map fst ws)"
    "dict_ok (original (tx_journal s))"
  shows "idle m0 s' \<and> tx_disk s' = tx_disk s \<and> dict_ok (original (tx_journal s')) \<and>
    (\<forall>k. k \<notin> fst ` set ws \<longrightarrow> last_read (mon m0 s') k = last_read (mon m0 s) k \<and>
        original_of s' k = original_of s k) \<and>
    (\<forall>rs. r = Inr rs \<longrightarrow> map (\<lambda>(p, v). (Key p, v)) rs = ws \<and>
        (\<forall>k \<in> fst ` set ws. last_read (mon m0 s') k = Some (original_of s' k)))"
  using assms
proof (induction ws arbitrary: s r s')
  case Nil
  then show ?case by auto
next
  case (Cons kv ws)
  obtain key v where kv: "kv = (key, v)" by (cases kv)
  show ?case
  proof (cases "PropertyIdFromKey key")
    case None
    then show ?thesis using Cons.prems by (auto simp: kv)
  next
    case (Some p)
    have key: "Key p = key" using PropertyIdFromKey_Key [OF Some] .
    obtain rd s1 where r1: "Read h p s = (rd, s1)" by force
    note fr = read_frame [OF r1, of m0]
    have s1: "idle m0 s1" using Cons.prems(2) restorable_read [OF r1] fr by (simp add: idle_def)
    have o1: "original_of s1 = original_of s" using fr by (simp add: original_of_def fun_eq_iff)
    show ?thesis
    proof (cases "device_present rd \<and> rd_ok rd")
      case False
      then have "SnapshotLoop h (kv # ws) s =
          (Inl (if device_present rd then kReadFailed else kDeviceNotPresent), s1)"
        by (simp add: kv Some r1)
      then have "s' = s1" "\<forall>rs. r \<noteq> Inr rs" using Cons.prems(1) by auto
      then show ?thesis
        using Cons.prems(4) s1 fr o1 key by (simp add: kv)
    next
      case True
      define ev where "ev = empty_evidence\<lparr>ev_property := key, before_value := rd_value rd, requested := v,
                     skipped := True\<rparr>"
      define s2 where "s2 = s1\<lparr>tx_journal := (tx_journal s1)\<lparr>
          original := dict_put key (rd_value rd) (original (tx_journal s1)),
          desired := dict_put key v (desired (tx_journal s1))\<rparr>,
          tx_evidence := dict_emplace key ev (tx_evidence s1)\<rparr>"
      obtain more s3 where l: "SnapshotLoop h ws s2 = (more, s3)" by force
      have i2: "idle m0 s2" using s1 by (subst idle_cong [of _ s1]) (simp_all add: s2_def)
      have d2: "dict_ok (original (tx_journal s2))" using Cons.prems(4) fr by (simp add: s2_def)
      have dist: "distinct (map fst ws)" "key \<notin> fst ` set ws" using Cons.prems(3) by (auto simp: kv)
      have m2: "last_read (mon m0 s2) = (last_read (mon m0 s))(key \<mapsto> rd_value rd)"
        "original_of s2 = (original_of s)(key := rd_value rd)" "tx_disk s2 = tx_disk s"
        using fr True key Cons.prems(4) by (auto simp: s2_def original_of_def fun_eq_iff)
      note ih = Cons.IH [OF l i2 dist(1) d2]
      have "SnapshotLoop h (kv # ws) s = (map_sum (\<lambda>e. e) (\<lambda>rs. (p, v) # rs) more, s3)"
        using True l by (simp add: kv Some r1 Let_def s2_def ev_def)
      then have "s' = s3" "r = map_sum (\<lambda>e. e) (\<lambda>rs. (p, v) # rs) more"
        using Cons.prems(1) by simp_all
      then show ?thesis
        using ih m2 dist(2) key by (cases more) (auto simp: kv)
    qed
  qed
qed

text \<open>What a transaction that began leaves behind.\<close>

definition begun :: "Monitor \<Rightarrow> (string \<times> string) list \<Rightarrow> 'w Tx \<Rightarrow> bool" where
  "begun m0 wanted s \<longleftrightarrow>
     jstate (tx_journal s) = Active \<and> tx_disk s = Present (tx_journal s) \<and>
     (\<forall>(k, v) \<in> set wanted. last_read (mon m0 s) k = Some v) \<and>
     map (\<lambda>e. (property e, from_value e, to_value e)) (applied (tx_journal s)) =
       map (\<lambda>(k, v). (k, original_of s k, v)) (filter (\<lambda>(k, v). original_of s k \<noteq> v) wanted)"

lemma idle_settled: "idle m0 s \<Longrightarrow> at_risk (mon m0 s) = {}"
  by (simp add: idle_def restorable_settled)

lemma idle_persist:
  assumes "PersistJournal h st s = (ok, s')" "idle m0 s" "IsDirty st"
  shows "idle m0 s' \<and> (ok \<longrightarrow> synced s') \<and> original_of s' = original_of s \<and>
    last_read (mon m0 s') = last_read (mon m0 s)"
  using restorable_persist [OF assms(1), of m0] assms(2,3) persist_frame [OF assms(1), of m0]
  by (simp add: idle_def original_of_def fun_eq_iff)

lemma idle_bookkeeping [simp]:
  "idle m0 (set_jstate st s) = idle m0 s" "idle m0 (s\<lparr>tx_world := w\<rparr>) = idle m0 s"
  "original_of (s\<lparr>tx_world := w\<rparr>) = original_of s"
  by (simp_all add: idle_def original_of_def fun_eq_iff)

lemma idle_delete:
  assumes "DeleteJournal h s = (e, s')" "idle m0 s"
  shows "idle m0 s'"
  using restorable_delete [OF assms(1)] assms(2) delete_frame [OF assms(1), of m0]
  by (simp add: idle_def)

lemma map_filter_keys:
  assumes "map (\<lambda>(p, v). (Key p, v)) rs = ws"
  shows "map (\<lambda>(p, v). (Key p, f (Key p), v)) (filter (\<lambda>(p, v). f (Key p) \<noteq> v) rs) =
    map (\<lambda>(k, v). (k, f k, v)) (filter (\<lambda>(k, v). f k \<noteq> v) ws)"
  using assms by (induction rs arbitrary: ws) auto

lemma begun_persist:
  assumes "PersistJournal h Active s = (True, s')" "mutated m0 s0 delta s"
    "map (\<lambda>(p, v). (Key p, v)) requests = wanted" "delta = filter (\<lambda>(p, v). original_of s0 (Key p) \<noteq> v) requests"
    "applied (tx_journal s0) = []" "\<forall>k \<in> fst ` set wanted. last_read (mon m0 s0) k = Some (original_of s0 k)"
    "distinct (map fst wanted)"
  shows "begun m0 wanted s'"
proof -
  have orig: "original_of s = original_of s0" and orig': "original_of s' = original_of s0"
    using assms(2) persist_frame [OF assms(1)] by (auto simp: mutated_def original_of_def fun_eq_iff)
  have lr: "last_read (mon m0 s') = last_read (mon m0 s)"
    using persist_frame [OF assms(1), of m0] by simp
  have "last_read (mon m0 s) k = Some v" if "(k, v) \<in> set wanted" for k v
  proof (cases "original_of s0 k = v")
    case True
    have "(k, v') \<in> set wanted \<Longrightarrow> v' = v" for v'
      using assms(7) that by (simp add: eq_key_imp_eq_value)
    then have "k \<notin> set (map (\<lambda>(p, v). Key p) delta)"
      using True assms(3,4) by force
    then have "last_read (mon m0 s) k = last_read (mon m0 s0) k"
      using assms(2) by (simp add: mutated_def)
    moreover have "k \<in> fst ` set wanted" using that by force
    ultimately show ?thesis using True assms(6) by metis
  next
    case False
    have "(k, v) \<in> (\<lambda>(p, v). (Key p, v)) ` set requests" using that assms(3) by auto
    then obtain p where p: "(p, v) \<in> set requests" "Key p = k" by auto
    then have "(p, v) \<in> set delta" using False assms(4) by auto
    then show ?thesis using assms(2) p by (auto simp: mutated_def)
  qed
  moreover have "map (\<lambda>(p, v). (Key p, original_of s0 (Key p), v)) delta =
      map (\<lambda>(k, v). (k, original_of s0 k, v)) (filter (\<lambda>(k, v). original_of s0 k \<noteq> v) wanted)"
    unfolding assms(4) by (rule map_filter_keys [OF assms(3)])
  ultimately show ?thesis
    using assms(2,5) persist_frame [OF assms(1), of m0] orig'
    by (auto simp: begun_def mutated_def lr)
qed

definition begin_outcome :: "Monitor \<Rightarrow> (string \<times> string) list \<Rightarrow> TransactionResult \<Rightarrow> 'w Tx \<Rightarrow> bool" where
  "begin_outcome m0 wanted r s \<longleftrightarrow>
     restorable m0 s \<and> (\<not> IsDirty (jstate (tx_journal s)) \<longrightarrow> applied (tx_journal s) = []) \<and>
     (if res_ok r then begun m0 wanted s else IsDirty (res_state r) \<or> at_risk (mon m0 s) = {})"

lemma begin_failed_idle: "idle m0 s \<Longrightarrow> begin_outcome m0 wanted (Fail c s) s"
  using idle_settled by (auto simp: begin_outcome_def idle_def)

lemma Begin_mutating:
  assumes "idle m0 s" "synced s" "map (\<lambda>(p, v). (Key p, v)) requests = wanted" "distinct (map fst wanted)"
    "\<forall>k \<in> fst ` set wanted. last_read (mon m0 s) k = Some (original_of s k)"
    "delta = filter (\<lambda>(p, v). original_of s (Key p) \<noteq> v) requests"
    "(case MutateLoop h delta s of
        (Some r, s) \<Rightarrow> (r, s)
      | (None, s) \<Rightarrow>
          let (persisted, s) = PersistJournal h Active s in
          if \<not> persisted then RollBack h kJournalWriteFailed s
          else (ok_result (jstate (tx_journal s)), s)) = (r, s')"
  shows "begin_outcome m0 wanted r s'"
proof -
  have keys: "map (\<lambda>(p, v). Key p) requests = map fst wanted" using assms(3) by auto
  have "distinct (map (\<lambda>(p, v). Key p) requests)" using keys assms(4) by simp
  then have "distinct (map (\<lambda>(p, v). Key p) delta)" unfolding assms(6) by (rule distinct_map_filter)
  moreover have "\<forall>(p, v) \<in> set delta. Key p \<in> fst ` set wanted" using assms(3,6) by force
  ultimately have aw: "awaiting m0 s delta"
    using assms(1,5) by (fastforce simp: awaiting_def idle_def)
  obtain lr s1 where l: "MutateLoop h delta s = (lr, s1)" by force
  have s1: "restorable m0 s1 \<and> (lr = None \<longrightarrow> synced s1 \<and> mutated m0 s delta s1) \<and>
    (\<forall>x. lr = Some x \<longrightarrow> rolled_back m0 x s1)"
    using MutateLoop_safe [OF l _ assms(2) aw] assms(1) by (simp add: idle_def)
  show ?thesis
  proof (cases lr)
    case (Some x)
    then show ?thesis using s1 assms(7) l by (auto simp: begin_outcome_def rolled_back_def)
  next
    case None
    obtain ok s2 where p: "PersistJournal h Active s1 = (ok, s2)" by force
    have s2: "restorable m0 s2" using restorable_persist [OF p] s1 by simp
    show ?thesis
    proof (cases ok)
      case True
      have "begun m0 wanted s2"
        using s1 None assms(1) True p
        by (intro begun_persist [OF _ _ assms(3,6) _ assms(5,4)]) (auto simp: idle_def)
      then show ?thesis using assms(7) l None p True s2 by (auto simp: begin_outcome_def ok_result_def begun_def)
    next
      case False
      then have "RollBack h kJournalWriteFailed s2 = (r, s')" using assms(7) l None p by simp
      then show ?thesis using RollBack_outcome [OF _ s2] by (auto simp: begin_outcome_def rolled_back_def)
    qed
  qed
qed

lemma ApplyDelta_outcome:
  assumes "ApplyDelta h delta s = (r, s')" "idle m0 s" "map (\<lambda>(p, v). (Key p, v)) requests = wanted"
    "distinct (map fst wanted)"
    "\<forall>k \<in> fst ` set wanted. last_read (mon m0 s) k = Some (original_of s k)"
    "delta = filter (\<lambda>(p, v). original_of s (Key p) \<noteq> v) requests"
  shows "begin_outcome m0 wanted r s'"
proof (cases "delta = []")
  case True
  obtain ok s1 where p: "PersistJournal h Active s = (ok, s1)" by force
  have i1: "idle m0 s1" using idle_persist [OF p assms(2)] by simp
  show ?thesis
  proof (cases ok)
    case ok: True
    have "begun m0 wanted s1"
      using ok p assms True
      by (intro begun_persist [where s = s and s0 = s and delta = "[]" and requests = requests])
         (auto simp: mutated_def idle_def)
    then show ?thesis
      using assms(1) True p ok i1 by (auto simp: ApplyDelta_def begin_outcome_def ok_result_def idle_def)
  next
    case False
    then show ?thesis
      using assms(1) True p begin_failed_idle [OF i1] by (auto simp: ApplyDelta_def)
  qed
next
  case False
  obtain ok s1 where p: "PersistJournal h Mutating s = (ok, s1)" by force
  have i1: "idle m0 s1" "ok \<Longrightarrow> synced s1" "original_of s1 = original_of s"
    "last_read (mon m0 s1) = last_read (mon m0 s)"
    using idle_persist [OF p assms(2)] by simp_all
  show ?thesis
  proof (cases ok)
    case True
    then show ?thesis
      using assms i1 p False
      by (intro Begin_mutating [of m0 s1 requests wanted delta h r s']) (simp_all add: ApplyDelta_def)
  next
    case nok: False
    then show ?thesis
      using assms(1) False p begin_failed_idle [OF i1(1)] by (auto simp: ApplyDelta_def)
  qed
qed

lemma Begin_outcome:
  assumes "Begin h wanted s = (r, s')" "idle m0 s" "dict_ok wanted"
  shows "begin_outcome m0 wanted r s'"
proof -
  have dist: "distinct (map fst wanted)" using assms(3) by (simp add: dict_ok_def)
  obtain ex sr where rj: "ReadJournal h s = (ex, sr)" by force
  obtain w where sr: "sr = s\<lparr>tx_world := w\<rparr>" using ReadJournal_result [OF rj] by metis
  have ir: "idle m0 sr" using assms(2) by (simp add: sr)
  define s0 where "s0 = sr\<lparr>tx_journal := (tx_journal sr)\<lparr>original := [], desired := [], applied := []\<rparr>,
      tx_evidence := []\<rparr>"
  have i0: "idle m0 s0" using ir by (subst idle_cong [of _ sr]) (simp_all add: s0_def idle_def)
  obtain snap s1 where sn: "SnapshotLoop h wanted s0 = (snap, s1)" by force
  have d0: "dict_ok (original (tx_journal s0))" by (simp add: s0_def)
  note snap = SnapshotLoop_effect [OF sn i0 dist d0]
  consider (dirty) "ex \<noteq> Inr None" | (failed) c where "ex = Inr None" "snap = Inl c"
    | (read) rs where "ex = Inr None" "snap = Inr rs" by (cases snap) auto
  then show ?thesis
  proof cases
    case dirty
    then show ?thesis using assms(1) begin_failed_idle [OF ir] rj by (auto simp: Begin_def)
  next
    case failed
    then show ?thesis using assms(1) begin_failed_idle snap rj sn
      by (auto simp: Begin_def Let_def s0_def [symmetric])
  next
    case read
    have keys: "map (\<lambda>(p, v). (Key p, v)) rs = wanted"
      and seen: "\<forall>k \<in> fst ` set wanted. last_read (mon m0 s1) k = Some (original_of s1 k)"
      and i1: "idle m0 s1" using snap read by simp_all
    obtain ok s2 where p: "PersistJournal h Prepared s1 = (ok, s2)" by force
    have p': "idle m0 s2" "original_of s2 = original_of s1" "last_read (mon m0 s2) = last_read (mon m0 s1)"
      using idle_persist [OF p i1] by simp_all
    obtain ds wd where d: "h_describe h (tx_world s2) = (ds, wd)" by force
    define s3 where "s3 = s2\<lparr>tx_world := wd\<rparr>"
    have s3: "idle m0 s3" "original_of s3 = original_of s1" "last_read (mon m0 s3) = last_read (mon m0 s1)"
      using p' by (simp_all add: s3_def)
    obtain e s4 where del: "DeleteJournal h s3 = (e, s4)" by force
    define vr where "vr = ValidateRequests (map_of (map (\<lambda>d. (Key (desc_id d), capability d)) ds)) rs"
    show ?thesis
    proof (cases ok)
      case False
      then show ?thesis
        using assms(1) read rj sn p begin_failed_idle [OF p'(1)]
        by (auto simp: Begin_def Let_def s0_def [symmetric])
    next
      case True
      show ?thesis
      proof (cases vr)
        case (Some c)
        have "idle m0 (set_jstate Clean s4)" using idle_delete [OF del s3(1)] by simp
        moreover have "r = Fail c (set_jstate Clean s4)" "s' = set_jstate Clean s4"
          using assms(1) read rj sn p True d del Some
          by (auto simp: Begin_def Let_def s0_def [symmetric] s3_def [symmetric] vr_def)
        ultimately show ?thesis by (simp add: begin_failed_idle)
      next
        case None
        have "ApplyDelta h (filter (\<lambda>(p, v). original_of s3 (Key p) \<noteq> v) rs) s3 = (r, s')"
          using assms(1) read rj sn p True d None
          by (simp add: Begin_def Let_def s0_def [symmetric] s3_def [symmetric] vr_def)
        then show ?thesis
          using keys dist seen s3 by (intro ApplyDelta_outcome [OF _ s3(1) keys dist]) simp_all
      qed
    qed
  qed
qed

section \<open>A transaction from its construction to its restore\<close>

lemma idle_new: "idle fresh_monitor (EnvironmentTransaction h cfg disk w)"
  by (auto simp: idle_def EnvironmentTransaction_def Let_def restorable_def tx_inv_def grounded_def
      covered_def fresh_monitor_def empty_journal_def split: prod.split)

lemma new_terminal: "tx_terminal (EnvironmentTransaction h cfg disk w) = None"
  by (auto simp: EnvironmentTransaction_def Let_def split: prod.split)

lemma at_evidence_terminal [simp]:
  "tx_terminal (at_evidence k f s) = tx_terminal s" "tx_terminal (set_applied as s) = tx_terminal s"
  "tx_terminal (set_jstate st s) = tx_terminal s"
  by (simp_all add: at_evidence_def set_applied_def set_jstate_def)

text \<open>Only \<open>Restore\<close> stores a terminal result.\<close>

lemma Read_terminal [simp]: "tx_terminal (snd (Read h p s)) = tx_terminal s"
  by (simp add: Read_def Let_def case_prod_beta)

lemma Apply_terminal [simp]: "tx_terminal (snd (Apply h p v s)) = tx_terminal s"
  by (simp add: Apply_def case_prod_beta)

lemma Clock_terminal [simp]: "tx_terminal (snd (Clock h s)) = tx_terminal s"
  by (simp add: Clock_def case_prod_beta)

lemma PersistJournal_terminal [simp]: "tx_terminal (snd (PersistJournal h st s)) = tx_terminal s"
  using persist_frame [of h st s "fst (PersistJournal h st s)" "snd (PersistJournal h st s)"] by simp

lemma DeleteJournal_terminal [simp]: "tx_terminal (snd (DeleteJournal h s)) = tx_terminal s"
  using delete_frame [of h s "fst (DeleteJournal h s)" "snd (DeleteJournal h s)"] by simp

lemma first_missing_terminal [simp]: "tx_terminal (snd (first_missing h as s)) = tx_terminal s"
  using first_missing_frame [of h "as" s "fst (first_missing h as s)" "snd (first_missing h as s)"] by auto

lemma ReadJournal_terminal [simp]: "tx_terminal (snd (ReadJournal h s)) = tx_terminal s"
  by (rule ReadJournal_result [of h s "fst (ReadJournal h s)" "snd (ReadJournal h s)"]) auto

lemma RestoreLoop_terminal [simp]: "tx_terminal (snd (RestoreLoop h es s)) = tx_terminal s"
  by (induction es arbitrary: s) (simp_all add: Let_def case_prod_beta split: option.split)

lemma RestoreInternal_terminal [simp]: "tx_terminal (snd (RestoreInternal h s)) = tx_terminal s"
proof -
  have "tx_terminal (snd (case RestoreLoop h es t of (Some r, s) \<Rightarrow> (r, s) | (None, s) \<Rightarrow> f s)) =
      tx_terminal t" if "\<And>s. tx_terminal (snd (f s)) = tx_terminal s" for es t and f :: "'a Tx \<Rightarrow> TransactionResult \<times> 'a Tx"
    using that RestoreLoop_terminal [of h es t] by (cases "RestoreLoop h es t") (auto split: option.split)
  then show ?thesis
    by (simp add: RestoreInternal_def Let_def case_prod_beta split: option.split)
qed

lemma RollBack_terminal [simp]: "tx_terminal (snd (RollBack h c s)) = tx_terminal s"
  by (simp add: RollBack_def Let_def case_prod_beta)

lemma MutateLoop_terminal [simp]: "tx_terminal (snd (MutateLoop h rest s)) = tx_terminal s"
  by (induction rest arbitrary: s) (auto simp: Let_def case_prod_beta)

lemma SnapshotLoop_terminal [simp]: "tx_terminal (snd (SnapshotLoop h ws s)) = tx_terminal s"
  by (induction ws arbitrary: s) (auto simp: Let_def case_prod_beta split: option.split)

lemma Begin_terminal [simp]: "tx_terminal (snd (Begin h wanted s)) = tx_terminal s"
proof -
  have delta: "tx_terminal (snd (ApplyDelta h delta t)) = tx_terminal t" for delta t
    using MutateLoop_terminal [of h delta "snd (PersistJournal h Mutating t)"]
    by (auto simp: ApplyDelta_def Let_def case_prod_beta split: option.split)
  show ?thesis
    by (auto simp: Begin_def Let_def case_prod_beta delta split: option.split sum.split)
qed

end
