(* ===== verification/EnvGuarantees.thy ===== *)
theory EnvGuarantees
  imports EnvSafety
begin

text \<open>
  The properties of the environment transaction, on a freshly constructed object and for every
  host: write-ahead journalling, reaching the requested state, restoring, the recovery gate, and
  the rule that a restore does not start while a device it owes a value to is missing.
\<close>

section \<open>A small host, for concrete instances\<close>

text \<open>The world is the list of assignments made so far, the latest first; every call succeeds.\<close>

definition demo_host :: "(string \<times> string) list Host" where
  "demo_host =
     \<lparr>h_describe = (\<lambda>w. ([\<lparr>desc_id = PropertyId ''d'' ''hdr'', capability = MutateSafe\<rparr>,
                        \<lparr>desc_id = PropertyId ''d'' ''mode'', capability = MutateTestOnly\<rparr>], w)),
      h_read = (\<lambda>p w. (case map_of w (Key p) of
           None \<Rightarrow> \<lparr>rd_ok = False, device_present = False, rd_value = []\<rparr>
         | Some v \<Rightarrow> \<lparr>rd_ok = True, device_present = True, rd_value = v\<rparr>, w)),
      h_apply = (\<lambda>p v w. (True, (Key p, v) # w)),
      h_present = (\<lambda>a w. (a = ''d'', w)), h_clock = (\<lambda>w. (''now'', w)),
      h_create_directories = (\<lambda>w. (True, w)), h_open_temporary = (\<lambda>w. (True, w)),
      h_write_durable = (\<lambda>w. (True, w)), h_rename = (\<lambda>w. (True, w)), h_remove = (\<lambda>w. (None, w)),
      h_exists = (\<lambda>w. (True, w)), h_open = (\<lambda>w. (True, w)), h_getenv = (\<lambda>_. None),
      h_alias_lookup = None\<rparr>"

definition demo_config :: TransactionConfig where
  "demo_config = \<lparr>journal_path = ''j'', cfg_transaction_id = ''t'', cfg_run_id = ''r'', cfg_scenario = ''s'',
     cfg_owner_pid = 1, cfg_machine = ''m''\<rparr>"

definition demo_world :: "(string \<times> string) list" where
  "demo_world = [(''d:hdr'', ''off''), (''d:mode'', ''60'')]"

definition demo_wanted :: "(string \<times> string) list" where
  "demo_wanted = [(''d:hdr'', ''on''), (''d:mode'', ''60'')]"

lemma demo_wanted_ok: "dict_ok demo_wanted"
  by (simp add: demo_wanted_def dict_ok_def)

section \<open>Properties\<close>

text \<open>
  C5: write-ahead journalling. Whatever the host answers, at every instant of \<open>Begin\<close> followed by
  \<open>Restore\<close> (so at any point of a crash) each property that may be off its original value is
  listed, with that value, in a dirty journal on disk; and a restore that reports success leaves
  no property off its original value and no obligation.
\<close>

theorem session_write_ahead:
  assumes "dict_ok wanted"
  shows "let s1 = snd (Begin h wanted (EnvironmentTransaction h cfg disk w));
             (r, s2) = Restore h s1
         in covered_log fresh_monitor (tx_log s2) \<and>
            (res_ok r \<longrightarrow> at_risk (monitor fresh_monitor (tx_log s2)) = {} \<and> applied (tx_journal s2) = [])"
proof -
  let ?s = "EnvironmentTransaction h cfg disk w"
  obtain b s1 where b: "Begin h wanted ?s = (b, s1)" by force
  obtain r s2 where r: "Restore h s1 = (r, s2)" by force
  have o: "begin_outcome fresh_monitor wanted b s1"
    by (rule Begin_outcome [OF b idle_new assms])
  have "tx_terminal s1 = None"
    using Begin_terminal [of h wanted ?s] b by (simp add: new_terminal)
  then have "restorable fresh_monitor s2 \<and>
      (res_ok r \<longrightarrow> applied (tx_journal s2) = [] \<and> at_risk (monitor fresh_monitor (tx_log s2)) = {})"
    using o by (intro Restore_outcome [OF r]) (auto simp: begin_outcome_def)
  then show ?thesis
    by (simp add: b r restorable_def tx_inv_def Let_def)
qed

theorem session_write_ahead_witness:
  "covered_log fresh_monitor (tx_log (snd (Restore demo_host
     (snd (Begin demo_host demo_wanted (EnvironmentTransaction demo_host demo_config Absent demo_world))))))"
  using session_write_ahead [OF demo_wanted_ok, of demo_host demo_config Absent demo_world]
  by (simp add: Let_def case_prod_beta)

text \<open>
  A \<open>Begin\<close> that reports success leaves an \<open>Active\<close> journal on disk, every requested property
  last seen at its requested value, and exactly the properties that differed recorded, in order,
  with the value they had; one that fails either names a dirty state or has left nothing off its
  original value.
\<close>

theorem begin_reaches_desired:
  assumes "dict_ok wanted"
  shows "let (r, s) = Begin h wanted (EnvironmentTransaction h cfg disk w);
             m = monitor fresh_monitor (tx_log s)
         in if res_ok r then
              jstate (tx_journal s) = Active \<and> tx_disk s = Present (tx_journal s) \<and>
              (\<forall>(k, v) \<in> set wanted. last_read m k = Some v) \<and>
              map (\<lambda>e. (property e, from_value e, to_value e)) (applied (tx_journal s)) =
                map (\<lambda>(k, v). (k, original_of s k, v)) (filter (\<lambda>(k, v). original_of s k \<noteq> v) wanted)
            else IsDirty (res_state r) \<or> at_risk m = {}"
proof -
  obtain r s where b: "Begin h wanted (EnvironmentTransaction h cfg disk w) = (r, s)" by force
  show ?thesis
    using Begin_outcome [OF b idle_new assms]
    by (auto simp: b begin_outcome_def begun_def)
qed

theorem begin_reaches_desired_witness:
  "let (r, s) = Begin demo_host demo_wanted (EnvironmentTransaction demo_host demo_config Absent demo_world);
       m = monitor fresh_monitor (tx_log s)
   in if res_ok r then tx_disk s = Present (tx_journal s) \<and> last_read m ''d:hdr'' = Some ''on''
      else IsDirty (res_state r) \<or> at_risk m = {}"
  using begin_reaches_desired [OF demo_wanted_ok, of demo_host demo_config Absent demo_world]
  by (auto simp: Let_def case_prod_beta demo_wanted_def split: if_splits)

text \<open>
  The gate of \<open>Begin\<close>: unless the journal file is known to be absent, nothing is read, applied
  or written, the object keeps its journal, and the error is \<open>dirty_journal\<close>.
\<close>

theorem begin_refuses_dirty:
  assumes "tx_disk s \<noteq> Absent \<or> (\<forall>w. \<not> fst (h_exists h w))"
  shows "error_code (fst (Begin h wanted s)) = kDirtyJournal \<and> \<not> res_ok (fst (Begin h wanted s)) \<and>
         tx_log (snd (Begin h wanted s)) = tx_log s \<and> tx_disk (snd (Begin h wanted s)) = tx_disk s \<and>
         tx_journal (snd (Begin h wanted s)) = tx_journal s"
proof -
  obtain ex sr where rj: "ReadJournal h s = (ex, sr)" by force
  obtain w where sr: "sr = s\<lparr>tx_world := w\<rparr>" using ReadJournal_result [OF rj] by metis
  have "ex \<noteq> Inr None"
    using assms rj by (auto simp: ReadJournal_def Let_def split: prod.splits if_splits Disk.splits)
      (metis fst_conv)+
  then show ?thesis
    by (simp add: Begin_def rj sr)
qed

theorem begin_refuses_dirty_witness:
  "error_code (fst (Begin demo_host demo_wanted
     (EnvironmentTransaction demo_host demo_config Malformed demo_world))) = kDirtyJournal"
  using begin_refuses_dirty [of "EnvironmentTransaction demo_host demo_config Malformed demo_world"
      demo_host demo_wanted]
  by (simp add: EnvironmentTransaction_def demo_config_def)

lemma first_missing_absent:
  assumes "a \<in> set as" "\<forall>w. \<not> fst (h_present h a w)"
  shows "fst (first_missing h as s) \<noteq> None"
  using assms(1)
proof (induction "as" arbitrary: s)
  case (Cons x xs)
  then show ?case
    using assms(2) by (auto simp: DevicePresent_def split: prod.split) (metis fst_conv)
qed simp

lemma owed_aliases_mem:
  assumes "e \<in> set es" "PropertyIdFromKey (property e) = Some p"
  shows "device_alias p \<in> set (owed_aliases es)"
  using assms by (force simp: owed_aliases_def List.map_filter_def)

text \<open>
  A restore does not start while a device it owes a value to is missing. It fails, it applies
  nothing and reads nothing, every obligation is kept, and the report lists either nothing (the
  journal could not be written) or every obligation, last applied first, with its original value.
\<close>

theorem restore_waits_for_devices:
  assumes "e \<in> set (applied (tx_journal s))" "PropertyIdFromKey (property e) = Some p"
    "\<forall>w. \<not> fst (h_present h (device_alias p) w)"
  shows "let (r, s') = RestoreInternal h s in
     \<not> res_ok r \<and> applied (tx_journal s') = applied (tx_journal s) \<and>
     (\<exists>news. tx_log s' = news @ tx_log s \<and> fst ` set news \<subseteq> {Written}) \<and>
     (if res_state r = RestorePendingDeviceUnavailable
      then map (\<lambda>i. (pend_property i, original_value i)) (pending r) =
             map (\<lambda>e. (property e, from_value e)) (rev (applied (tx_journal s)))
      else error_code r = kJournalWriteFailed)"
proof -
  have ne: "applied (tx_journal s) \<noteq> []" using assms(1) by auto
  obtain ok s1 where p1: "PersistJournal h Restoring s = (ok, s1)" by force
  note f1 = persist_frame [OF p1]
  show ?thesis
  proof (cases ok)
    case False
    then show ?thesis using ne p1 f1 by (simp add: RestoreInternal_def)
  next
    case True
    obtain miss s2 where f: "first_missing h (owed_aliases (applied (tx_journal s))) s1 = (miss, s2)" by force
    then obtain a where a: "miss = Some a"
      using first_missing_absent [OF owed_aliases_mem [OF assms(1,2)] assms(3), of s1] by auto
    obtain w where s2: "s2 = s1\<lparr>tx_world := w\<rparr>" using first_missing_frame [OF f] by blast
    obtain ok2 s3 where p3: "PersistJournal h RestorePendingDeviceUnavailable s2 = (ok2, s3)" by force
    note f3 = persist_frame [OF p3]
    have "RestoreInternal h s = ((Fail kDeviceNotPresent s3)\<lparr>pending := BuildPending h a s2\<rparr>, s3)"
      using ne p1 f1 True f a p3 by (simp add: RestoreInternal_def)
    moreover have "\<exists>news. tx_log s3 = news @ tx_log s \<and> fst ` set news \<subseteq> {Written}"
    proof (cases ok2)
      case True
      then have "tx_log s3 = [(Written, tx_disk s3), (Written, tx_disk s1)] @ tx_log s"
        using f3 f1 \<open>ok\<close> s2 by simp
      then show ?thesis
        by (intro exI [of _ "[(Written, tx_disk s3), (Written, tx_disk s1)]"]) simp
    next
      case False
      then have "tx_log s3 = [(Written, tx_disk s1)] @ tx_log s"
        using f3 f1 \<open>ok\<close> s2 by simp
      then show ?thesis by (intro exI [of _ "[(Written, tx_disk s1)]"]) simp
    qed
    ultimately show ?thesis
      using f1 f3 s2 by (simp add: BuildPending_def pending_item_def Let_def)
  qed
qed

definition demo_debt :: "(string \<times> string) list Tx" where
  "demo_debt =
     set_applied [\<lparr>property = ''x:vol'', from_value = ''3'', to_value = ''5'', at_utc = ''now''\<rparr>]
       (EnvironmentTransaction demo_host demo_config Absent demo_world)"

theorem restore_waits_for_devices_witness:
  "\<not> res_ok (fst (RestoreInternal demo_host demo_debt))"
  using restore_waits_for_devices
    [of "\<lparr>property = ''x:vol'', from_value = ''3'', to_value = ''5'', at_utc = ''now''\<rparr>" demo_debt
        "PropertyId ''x'' ''vol''" demo_host]
  by (simp add: demo_debt_def PropertyIdFromKey_def Let_def demo_host_def case_prod_beta)

text \<open>
  C6: the recovery gate. From a machine whose risks are covered by the file, at every instant of
  the recovery they stay covered; mutation is allowed only when nothing is off its original value
  any more, and never when the file cannot be read.
\<close>

theorem recovery_gate:
  assumes "tx_log s = []" "covered m0 (tx_disk s)"
    "\<forall>j. tx_disk s = Present j \<longrightarrow>
       (\<forall>e \<in> set (applied j). baseline m0 (property e) = Some (from_value e))"
  shows "let (out, s') = RecoverIfDirty h cfg s in
     covered_log m0 (tx_log s') \<and>
     (mutation_allowed out \<longrightarrow> at_risk (monitor m0 (tx_log s')) = {} \<and> tx_disk s \<noteq> Malformed)"
proof -
  obtain ex s1 where rj: "ReadJournal h s = (ex, s1)" by force
  obtain w where s1: "s1 = s\<lparr>tx_world := w\<rparr>" and absent: "ex = Inr None \<Longrightarrow> tx_disk s = Absent"
    and present: "\<And>j. ex = Inr (Some j) \<Longrightarrow> tx_disk s = Present j"
    using ReadJournal_result [OF rj] by metis
  consider (unreadable) "ex = Inl ()" | (none) "ex = Inr None" | (some) j where "ex = Inr (Some j)"
    by (metis sum.exhaust option.exhaust old.unit.exhaust)
  then show ?thesis
  proof cases
    case unreadable
    then show ?thesis
      using assms(1) by (simp add: RecoverIfDirty_def rj s1 initial_outcome_def)
  next
    case none
    then show ?thesis
      using assms(1,2) absent by (simp add: RecoverIfDirty_def rj s1 initial_outcome_def covered_def)
  next
    case some
    have d: "tx_disk s = Present j" using present some by simp
    show ?thesis
    proof (cases "IsDirty (jstate j)")
      case False
      then have no: "at_risk m0 = {}" using assms(2) d by (auto simp: covered_def)
      obtain e s2 where del: "DeleteJournal h s1 = (e, s2)" by force
      have "covered_log m0 (tx_log s2) \<and> monitor m0 (tx_log s2) = m0"
        by (rule DeleteJournal_result [OF del]) (auto simp: s1 assms(1) covered_def no)
      then show ?thesis
        using False some no d by (simp add: RecoverIfDirty_def rj del initial_outcome_def)
    next
      case True
      define t where "t = AdoptJournal j
          ((EnvironmentTransaction h cfg (tx_disk s1) (tx_world s1))\<lparr>tx_log := tx_log s1\<rparr>)"
      obtain r s2 where r: "Restore h t = (r, s2)" by force
      have disk: "tx_disk (EnvironmentTransaction h cfg d u) = d" for d u
        by (simp add: EnvironmentTransaction_def Let_def split: prod.split)
      have t: "tx_log t = []" "tx_disk t = Present j" "tx_journal t = j" "tx_terminal t = None"
        using assms(1) d by (simp_all add: t_def AdoptJournal_def s1 disk)
      have "restorable m0 t"
        using assms(2,3) d by (auto simp: restorable_def tx_inv_def grounded_def t covered_def)
      note out = Restore_outcome [OF r this t(4)]
      show ?thesis
        using out True some d
        by (auto simp: RecoverIfDirty_def rj t_def [symmetric] r Let_def t restorable_def tx_inv_def)
    qed
  qed
qed

definition demo_crashed :: "(string \<times> string) list Tx" where
  "demo_crashed =
     (EnvironmentTransaction demo_host demo_config
        (Present (empty_journal\<lparr>jstate := Mutating, applied :=
           [\<lparr>property = ''d:hdr'', from_value = ''off'', to_value = ''on'', at_utc = ''now''\<rparr>]\<rparr>))
        ((''d:hdr'', ''on'') # demo_world))"

definition demo_crashed_monitor :: Monitor where
  "demo_crashed_monitor = \<lparr>last_read = [''d:hdr'' \<mapsto> ''on''], baseline = [''d:hdr'' \<mapsto> ''off''],
     at_risk = {''d:hdr''}\<rparr>"

theorem recovery_gate_witness:
  "covered_log demo_crashed_monitor (tx_log (snd (RecoverIfDirty demo_host demo_config demo_crashed)))"
  using recovery_gate [of demo_crashed demo_crashed_monitor demo_host demo_config]
  by (simp add: demo_crashed_def demo_crashed_monitor_def EnvironmentTransaction_def demo_config_def
      covered_def case_prod_beta)

end
