(* ===== verification/MatroskaWriter.thy ===== *)
theory MatroskaWriter
  imports Prelude
begin

text \<open>
  The streaming Matroska writer, \<^verbatim>\<open>libs/engine/src/matroska_stream_writer.cpp\<close>: the reorder window
  (\<open>Push\<close>, \<open>DrainWindow\<close>), the clusters and cue points (\<open>EmitPacket\<close>, \<open>FlushCluster\<close>), the published
  progress and the trailer (\<open>Finalize\<close>).

  Rendering is libmatroska's: the writer hands it a cluster (its start and its blocks) and learns
  only success or an exception. The file operations are functions over an arbitrary world, any
  of which may fail. \<open>mw_rendered\<close>, the clusters rendered so far in file order, is a ghost.
\<close>

section \<open>Data\<close>

record MuxPacket =
  pts_ns :: u64
  track_num :: u64
  is_key :: bool
  bytes :: "u8 list"

record SimpleBlock =
  blk_entry :: u32
  blk_pts :: u64
  blk_key :: bool
  blk_bytes :: "u8 list"

record Cluster =
  start_ms :: u64
  blocks :: "SimpleBlock list"

datatype FlushResult = Flushed | StreamFailure | DurabilityFailure

datatype TrailerStep =
  RenderCues "(u64 \<times> u64) list" | ReplaceSeekHead | PatchDuration u64 | PatchLightLevels u64 u64
| PatchSegmentSize u64

record 'w Io =
  io_tell :: "'w \<Rightarrow> u64 option \<times> 'w"
  io_add_frame :: "SimpleBlock \<Rightarrow> 'w \<Rightarrow> bool \<times> 'w"
  io_render :: "Cluster \<Rightarrow> 'w \<Rightarrow> bool \<times> 'w"
  io_cluster_position :: "'w \<Rightarrow> u64 \<times> 'w"
  io_trailer :: "TrailerStep \<Rightarrow> 'w \<Rightarrow> bool \<times> 'w"
  io_flush :: "'w \<Rightarrow> FlushResult \<times> 'w"
  io_close :: "'w \<Rightarrow> bool \<times> 'w"
  io_now_ms :: "'w \<Rightarrow> int \<times> 'w"

record MatroskaStreamConfig =
  reorder_window_ns :: u64
  reorder_window_max_packets :: nat
  frame_rate_num :: u32
  frame_rate_den :: u32
  audio_track_count :: u32
  reserve_content_light_level :: bool

record 'w Writer =
  mw_world :: 'w
  mw_config :: MatroskaStreamConfig
  mw_io_open :: bool
  mw_window :: "MuxPacket list"
  mw_max_pushed_pts_ns :: u64
  mw_cluster :: "Cluster option"
  mw_first_cluster :: bool
  mw_cluster_start_ms :: u64
  mw_pending_cue_ms :: "u64 list"
  mw_cues :: "(u64 \<times> u64) list"
  mw_max_emitted_pts_ns :: u64
  mw_opened :: bool
  mw_finalized :: bool
  mw_failed :: bool
  mw_peak_window_packets :: nat
  mw_peak_window_bytes :: u64
  mw_cur_window_bytes :: u64
  mw_bytes_written :: u64
  mw_flush_count :: u64
  mw_last_flush :: "int option"
  mw_durability_flush_count :: u64
  mw_progress :: "u64 list"
  mw_segment_data_start :: u64
  mw_light_levels_reserved :: bool
  mw_measured_max_cll :: u32
  mw_measured_max_fall :: u32
  mw_rendered :: "Cluster list"

definition kTimecodeScaleNs :: u64 where "kTimecodeScaleNs = 1000000"
definition kClusterBoundaryMs :: u64 where "kClusterBoundaryMs = 2000"
definition kMaxClusterRelativeMs :: int where "kMaxClusterRelativeMs = 32767"
definition kContentLightLevelCeiling :: u64 where "kContentLightLevelCeiling = 0xFFFF"
definition kDurabilityFlushInterval :: int where "kDurabilityFlushInterval = 2000"

definition ClampContentLightLevel :: "u32 \<Rightarrow> u64" where
  "ClampContentLightLevel nits =
     (let v = ucast nits in if v > kContentLightLevelCeiling then kContentLightLevelCeiling else v)"

definition set_failed :: "'w Writer \<Rightarrow> 'w Writer" where
  "set_failed s = s\<lparr>mw_failed := True\<rparr>"

section \<open>Progress and durability\<close>

text \<open>The sink holds the last published value; \<open>mw_progress\<close> lists all of them, newest first.\<close>

definition PublishProgress :: "'w Io \<Rightarrow> 'w Writer \<Rightarrow> 'w Writer" where
  "PublishProgress io s =
     (if \<not> mw_io_open s then s else
      let (pos, w) = io_tell io (mw_world s);
          s = s\<lparr>mw_world := w\<rparr>;
          s = (case pos of
                 Some p \<Rightarrow> if p > mw_bytes_written s then s\<lparr>mw_bytes_written := p\<rparr> else s
               | None \<Rightarrow> s)
      in s\<lparr>mw_progress := mw_bytes_written s # mw_progress s\<rparr>)"

definition IsDue :: "int option \<Rightarrow> int \<Rightarrow> bool" where
  "IsDue last_flush now = (case last_flush of None \<Rightarrow> True | Some t \<Rightarrow> now - t \<ge> kDurabilityFlushInterval)"

definition DurabilityFlush :: "'w Io \<Rightarrow> 'w Writer \<Rightarrow> bool \<times> 'w Writer" where
  "DurabilityFlush io s =
     (if \<not> mw_io_open s then (True, s) else
      let (now, w) = io_now_ms io (mw_world s); s = s\<lparr>mw_world := w\<rparr> in
      if \<not> IsDue (mw_last_flush s) now then (True, s) else
      let (result, w) = io_flush io (mw_world s); s = s\<lparr>mw_world := w\<rparr> in
      if result = StreamFailure then (False, set_failed s)
      else (True, s\<lparr>mw_durability_flush_count := mw_durability_flush_count s + 1,
                    mw_last_flush := Some now\<rparr>))"

section \<open>Clusters\<close>

definition FlushCluster :: "'w Io \<Rightarrow> 'w Writer \<Rightarrow> bool \<times> 'w Writer" where
  "FlushCluster io s =
     (case mw_cluster s of
        None \<Rightarrow> (True, s)
      | Some c \<Rightarrow>
          let abandoned = (\<lambda>s. (False, (set_failed s)\<lparr>mw_cluster := None\<rparr>));
              (before, w) = io_tell io (mw_world s); s = s\<lparr>mw_world := w\<rparr>
          in case before of None \<Rightarrow> abandoned s | Some pos_before \<Rightarrow>
          let (rendered, w) = io_render io c (mw_world s); s = s\<lparr>mw_world := w\<rparr>
          in if \<not> rendered then abandoned s else
          let s = s\<lparr>mw_rendered := mw_rendered s @ [c], mw_flush_count := mw_flush_count s + 1\<rparr>;
              (behind, w) = io_tell io (mw_world s); s = s\<lparr>mw_world := w\<rparr>
          in case behind of None \<Rightarrow> abandoned s | Some pos_after \<Rightarrow>
          let s = (if pos_after > pos_before
                   then s\<lparr>mw_bytes_written := mw_bytes_written s + (pos_after - pos_before)\<rparr> else s);
              s = PublishProgress io s;
              (cluster_rel, w) = io_cluster_position io (mw_world s);
              s = s\<lparr>mw_world := w,
                    mw_cues := mw_cues s @ map (\<lambda>cue_ms. (cue_ms, cluster_rel)) (mw_pending_cue_ms s),
                    mw_pending_cue_ms := [], mw_cluster := None\<rparr>
          in DurabilityFlush io s)"

text \<open>The track entry of a packet: 0 is the video track, \<open>1 + n\<close> audio track \<open>n\<close>; \<open>None\<close> is skipped.\<close>

definition track_entry :: "MatroskaStreamConfig \<Rightarrow> u64 \<Rightarrow> u32 option" where
  "track_entry cfg t =
     (if t = 0 then None
      else if t = 1 then Some 0
      else let entry_idx = ucast (t - 2) + 1
           in if unat entry_idx \<ge> 1 + unat (audio_track_count cfg) then None else Some entry_idx)"

definition need_new_cluster :: "MuxPacket \<Rightarrow> 'w Writer \<Rightarrow> bool" where
  "need_new_cluster e s =
     (let pkt_ms = pts_ns e div kTimecodeScaleNs in
      if \<not> mw_first_cluster s \<and> mw_cluster s \<noteq> None then
        let rel_ms = sint pkt_ms - sint (mw_cluster_start_ms s) in
        if rel_ms > kMaxClusterRelativeMs then True
        else is_key e \<and> track_num e = 1 \<and> pkt_ms - mw_cluster_start_ms s \<ge> kClusterBoundaryMs
      else mw_first_cluster s)"

text \<open>The block joins the open cluster; a video keyframe leaves a pending cue.\<close>

definition AddBlock :: "'w Io \<Rightarrow> u32 \<Rightarrow> MuxPacket \<Rightarrow> 'w Writer \<Rightarrow> bool \<times> 'w Writer" where
  "AddBlock io entry e s =
     (let b = \<lparr>blk_entry = entry, blk_pts = pts_ns e, blk_key = is_key e, blk_bytes = bytes e\<rparr>;
          (added, w) = io_add_frame io b (mw_world s); s = s\<lparr>mw_world := w\<rparr>
      in if \<not> added then (False, set_failed s) else
         let s = s\<lparr>mw_cluster := map_option (\<lambda>c. c\<lparr>blocks := blocks c @ [b]\<rparr>) (mw_cluster s)\<rparr>;
             s = (if is_key e \<and> track_num e = 1
                  then s\<lparr>mw_pending_cue_ms := mw_pending_cue_ms s @ [pts_ns e div kTimecodeScaleNs]\<rparr>
                  else s);
             s = (if pts_ns e > mw_max_emitted_pts_ns s
                  then s\<lparr>mw_max_emitted_pts_ns := pts_ns e\<rparr> else s)
         in (True, s))"

definition EmitPacket :: "'w Io \<Rightarrow> MuxPacket \<Rightarrow> 'w Writer \<Rightarrow> bool \<times> 'w Writer" where
  "EmitPacket io e s =
     (case track_entry (mw_config s) (track_num e) of
        None \<Rightarrow> (True, s)
      | Some entry \<Rightarrow>
          if need_new_cluster e s then
            let pkt_ms = pts_ns e div kTimecodeScaleNs;
                (flushed, s) = FlushCluster io s
            in if \<not> flushed then (False, s)
               else AddBlock io entry e
                      (s\<lparr>mw_first_cluster := False, mw_cluster_start_ms := pkt_ms,
                         mw_cluster := Some \<lparr>start_ms = pkt_ms, blocks = []\<rparr>\<rparr>)
          else AddBlock io entry e s)"

section \<open>The reorder window\<close>

text \<open>The insertion scan from the back: after the last entry that is not newer.\<close>

fun insert_back :: "MuxPacket \<Rightarrow> MuxPacket list \<Rightarrow> MuxPacket list" where
  "insert_back e [] = [e]"
| "insert_back e (p # ps) = (if pts_ns p \<le> pts_ns e then e # p # ps else p # insert_back e ps)"

definition window_insert :: "MuxPacket \<Rightarrow> MuxPacket list \<Rightarrow> MuxPacket list" where
  "window_insert e window = rev (insert_back e (rev window))"

definition may_emit :: "bool \<Rightarrow> 'w Writer \<Rightarrow> MuxPacket \<Rightarrow> nat \<Rightarrow> bool" where
  "may_emit force s front queued \<longleftrightarrow>
     force \<or> mw_max_pushed_pts_ns s \<ge> pts_ns front + reorder_window_ns (mw_config s) \<or>
     queued > reorder_window_max_packets (mw_config s)"

text \<open>
  The list is the window. The front leaves it after it was emitted; when emitting fails it stays.
\<close>

fun DrainFrom :: "'w Io \<Rightarrow> bool \<Rightarrow> MuxPacket list \<Rightarrow> 'w Writer \<Rightarrow> bool \<times> 'w Writer" where
  "DrainFrom io force [] s = (True, s)"
| "DrainFrom io force (front # rest) s =
     (if \<not> may_emit force s front (Suc (length rest)) then (True, s)
      else
        let (ok, s) = EmitPacket io front s in
        if \<not> ok then (False, s)
        else DrainFrom io force rest
               (s\<lparr>mw_cur_window_bytes := mw_cur_window_bytes s - of_nat (length (bytes front)),
                  mw_window := rest\<rparr>))"

definition DrainWindow :: "'w Io \<Rightarrow> bool \<Rightarrow> 'w Writer \<Rightarrow> bool \<times> 'w Writer" where
  "DrainWindow io force s = DrainFrom io force (mw_window s) s"

definition Enqueue :: "MuxPacket \<Rightarrow> 'w Writer \<Rightarrow> 'w Writer" where
  "Enqueue e s =
     (let s = (if pts_ns e > mw_max_pushed_pts_ns s then s\<lparr>mw_max_pushed_pts_ns := pts_ns e\<rparr> else s);
          s = s\<lparr>mw_cur_window_bytes := mw_cur_window_bytes s + of_nat (length (bytes e)),
                mw_window := window_insert e (mw_window s)\<rparr>;
          s = (if length (mw_window s) > mw_peak_window_packets s
               then s\<lparr>mw_peak_window_packets := length (mw_window s)\<rparr> else s)
      in if mw_cur_window_bytes s > mw_peak_window_bytes s
         then s\<lparr>mw_peak_window_bytes := mw_cur_window_bytes s\<rparr> else s)"

definition Push :: "'w Io \<Rightarrow> MuxPacket \<Rightarrow> 'w Writer \<Rightarrow> bool \<times> 'w Writer" where
  "Push io e s =
     (if mw_failed s \<or> \<not> mw_opened s \<or> mw_finalized s then (False, s)
      else if bytes e = [] then (True, s)
      else DrainWindow io False (Enqueue e s))"

definition SetContentLightLevels :: "u32 \<Rightarrow> u32 \<Rightarrow> 'w Writer \<Rightarrow> 'w Writer" where
  "SetContentLightLevels cll fall s = s\<lparr>mw_measured_max_cll := cll, mw_measured_max_fall := fall\<rparr>"

section \<open>The trailer\<close>

definition last_frame_ns :: "MatroskaStreamConfig \<Rightarrow> u64" where
  "last_frame_ns cfg =
     (if frame_rate_num cfg > 0 \<and> frame_rate_den cfg > 0
      then ucast (frame_rate_den cfg) * 1000000000 div ucast (frame_rate_num cfg) else 0)"

definition Trailer :: "'w Io \<Rightarrow> TrailerStep \<Rightarrow> 'w Writer \<Rightarrow> bool \<times> 'w Writer" where
  "Trailer io step s =
     (let (ok, w) = io_trailer io step (mw_world s); s = s\<lparr>mw_world := w\<rparr>
      in if \<not> ok then (False, set_failed s) else (True, s))"

text \<open>Each step is followed by a progress checkpoint; the first exception ends the trailer.\<close>

definition checkpoint ::
  "'w Io \<Rightarrow> ('w Writer \<Rightarrow> bool \<times> 'w Writer) \<Rightarrow> ('w Writer \<Rightarrow> bool \<times> 'w Writer) \<Rightarrow> 'w Writer \<Rightarrow> bool \<times> 'w Writer" where
  "checkpoint io step rest s =
     (let (ok, s) = step s in if \<not> ok then (False, s) else rest (PublishProgress io s))"

definition light_level_step :: "'w Io \<Rightarrow> 'w Writer \<Rightarrow> bool \<times> 'w Writer" where
  "light_level_step io s =
     (if mw_light_levels_reserved s
      then Trailer io (PatchLightLevels (ClampContentLightLevel (mw_measured_max_cll s))
                                        (ClampContentLightLevel (mw_measured_max_fall s))) s
      else (True, s))"

definition segment_size_step :: "'w Io \<Rightarrow> 'w Writer \<Rightarrow> bool \<times> 'w Writer" where
  "segment_size_step io s =
     (let (eof, w) = io_tell io (mw_world s); s = s\<lparr>mw_world := w\<rparr>
      in case eof of
           None \<Rightarrow> (False, set_failed s)
         | Some eof_pos \<Rightarrow> Trailer io (PatchSegmentSize (eof_pos - mw_segment_data_start s)) s)"

definition duration_ms :: "'w Writer \<Rightarrow> u64" where
  "duration_ms s = (mw_max_emitted_pts_ns s + last_frame_ns (mw_config s)) div kTimecodeScaleNs"

definition WriteTrailer :: "'w Io \<Rightarrow> 'w Writer \<Rightarrow> bool \<times> 'w Writer" where
  "WriteTrailer io =
     checkpoint io (\<lambda>s. Trailer io (RenderCues (mw_cues s)) s)
       (checkpoint io (Trailer io ReplaceSeekHead)
         (checkpoint io (\<lambda>s. Trailer io (PatchDuration (duration_ms s)) s)
           (checkpoint io (light_level_step io)
             (checkpoint io (segment_size_step io) (\<lambda>s. (True, s))))))"

definition CloseIo :: "'w Io \<Rightarrow> 'w Writer \<Rightarrow> 'w Writer" where
  "CloseIo io s =
     (if \<not> mw_io_open s then s else
      let (closed, w) = io_close io (mw_world s);
          s = s\<lparr>mw_world := w, mw_io_open := False\<rparr>
      in if closed then s else set_failed s)"

definition FinalFlush :: "'w Io \<Rightarrow> 'w Writer \<Rightarrow> 'w Writer" where
  "FinalFlush io s =
     (if \<not> mw_io_open s then s else
      let (result, w) = io_flush io (mw_world s); s = s\<lparr>mw_world := w\<rparr>;
          s = (if result = StreamFailure then set_failed s else s)
      in s\<lparr>mw_durability_flush_count := mw_durability_flush_count s + 1\<rparr>)"

definition Finalize :: "'w Io \<Rightarrow> 'w Writer \<Rightarrow> bool \<times> 'w Writer" where
  "Finalize io s =
     (if \<not> mw_opened s \<or> mw_finalized s then (\<not> mw_failed s, s)
      else
        let s = s\<lparr>mw_finalized := True\<rparr>;
            (ok, s) = (if \<not> mw_failed s then DrainWindow io True s else (False, s));
            (ok, s) = (if ok then FlushCluster io s else (False, s));
            (ok, s) = (if ok then WriteTrailer io s else (False, s));
            s = CloseIo io (PublishProgress io (FinalFlush io s))
        in (ok \<and> \<not> mw_failed s, s))"

end
