(* ===== verification/MatroskaGuarantees.thy ===== *)
theory MatroskaGuarantees
  imports MatroskaWriter "HOL-Library.Multiset"
begin

text \<open>
  What the streaming writer guarantees: no packet is lost or duplicated, packets that arrive within
  the reorder horizon come out in presentation order (stably), the window stays within its
  ceiling, relative timecodes fit a cluster, every video keyframe of a rendered cluster has its
  cue, and published progress never falls.
\<close>

section \<open>Success of the primitives\<close>

text \<open>The part of the state the file operations do not touch.\<close>

definition same_queue :: "'w Writer \<Rightarrow> 'w Writer \<Rightarrow> bool" where
  "same_queue s s' \<longleftrightarrow>
     mw_config s' = mw_config s \<and> mw_window s' = mw_window s \<and>
     mw_max_pushed_pts_ns s' = mw_max_pushed_pts_ns s \<and> mw_opened s' = mw_opened s \<and>
     mw_finalized s' = mw_finalized s \<and> mw_peak_window_packets s' = mw_peak_window_packets s"

lemma same_queue_refl [simp]: "same_queue s s"
  by (simp add: same_queue_def)

lemma same_queue_trans [trans]: "same_queue s t \<Longrightarrow> same_queue t u \<Longrightarrow> same_queue s u"
  by (simp add: same_queue_def)

text \<open>What the file already holds or will hold: rendered clusters and the open one.\<close>

definition clusters :: "'w Writer \<Rightarrow> Cluster list" where
  "clusters s = mw_rendered s @ (case mw_cluster s of None \<Rightarrow> [] | Some c \<Rightarrow> [c])"

definition blocks_out :: "'w Writer \<Rightarrow> SimpleBlock list" where
  "blocks_out s = concat (map blocks (clusters s))"

definition same_file :: "'w Writer \<Rightarrow> 'w Writer \<Rightarrow> bool" where
  "same_file s s' \<longleftrightarrow>
     mw_rendered s' = mw_rendered s \<and> mw_cluster s' = mw_cluster s \<and> mw_cues s' = mw_cues s \<and>
     mw_pending_cue_ms s' = mw_pending_cue_ms s \<and> mw_first_cluster s' = mw_first_cluster s \<and>
     mw_cluster_start_ms s' = mw_cluster_start_ms s \<and>
     mw_max_emitted_pts_ns s' = mw_max_emitted_pts_ns s"

lemma PublishProgress_frame:
  "same_queue s (PublishProgress io s) \<and> same_file s (PublishProgress io s) \<and>
   mw_failed (PublishProgress io s) = mw_failed s \<and> mw_io_open (PublishProgress io s) = mw_io_open s"
  by (auto simp: PublishProgress_def same_queue_def same_file_def Let_def split: prod.split option.split)

lemma DurabilityFlush_frame:
  assumes "DurabilityFlush io s = (ok, s')"
  shows "same_queue s s' \<and> same_file s s' \<and> mw_failed s' = (mw_failed s \<or> \<not> ok) \<and> mw_io_open s' = mw_io_open s"
  using assms
  by (auto simp: DurabilityFlush_def same_queue_def same_file_def set_failed_def Let_def
      split: prod.splits if_splits)

lemma FlushCluster_ok:
  assumes "FlushCluster io s = (True, s')"
  shows "same_queue s s' \<and> mw_failed s' = mw_failed s \<and> mw_io_open s' = mw_io_open s \<and> mw_cluster s' = None \<and>
    mw_rendered s' = clusters s \<and> mw_first_cluster s' = mw_first_cluster s \<and>
    mw_cluster_start_ms s' = mw_cluster_start_ms s \<and>
    mw_max_emitted_pts_ns s' = mw_max_emitted_pts_ns s \<and>
    (mw_cluster s \<noteq> None \<longrightarrow> mw_pending_cue_ms s' = [] \<and>
       map fst (mw_cues s') = map fst (mw_cues s) @ mw_pending_cue_ms s) \<and>
    (mw_cluster s = None \<longrightarrow> s' = s)"
proof (cases "mw_cluster s")
  case None
  then show ?thesis using assms by (simp add: FlushCluster_def clusters_def)
next
  case (Some c)
  obtain b w1 where t1: "io_tell io (mw_world s) = (b, w1)" by force
  obtain r w2 where r: "io_render io c w1 = (r, w2)" by force
  obtain a w3 where t2: "io_tell io w2 = (a, w3)" by force
  obtain pb pa where ab: "b = Some pb" "a = Some pa" and r': "r"
    using assms by (auto simp: FlushCluster_def Some t1 r t2 Let_def split: option.splits if_splits)
  define s3 where "s3 = s\<lparr>mw_rendered := mw_rendered s @ [c], mw_flush_count := mw_flush_count s + 1,
      mw_bytes_written := (if pa > pb then mw_bytes_written s + (pa - pb) else mw_bytes_written s),
      mw_world := w3\<rparr>"
  define s4 where "s4 = PublishProgress io s3"
  obtain rel w4 where p: "io_cluster_position io (mw_world s4) = (rel, w4)" by force
  define s5 where "s5 = s4\<lparr>mw_world := w4,
      mw_cues := mw_cues s4 @ map (\<lambda>cue_ms. (cue_ms, rel)) (mw_pending_cue_ms s4),
      mw_pending_cue_ms := [], mw_cluster := None\<rparr>"
  have d: "DurabilityFlush io s5 = (True, s')"
  proof (cases "pa > pb")
    case True
    then have "(s\<lparr>mw_world := w1, mw_world := w2, mw_rendered := mw_rendered s @ [c],
        mw_flush_count := mw_flush_count s + 1, mw_world := w3,
        mw_bytes_written := mw_bytes_written s + (pa - pb)\<rparr>) = s3"
      by (simp add: s3_def)
    then show ?thesis
      using assms True ab r' by (simp add: FlushCluster_def Some t1 r t2 Let_def s4_def [symmetric] p s5_def)
  next
    case False
    then have "(s\<lparr>mw_world := w1, mw_world := w2, mw_rendered := mw_rendered s @ [c],
        mw_flush_count := mw_flush_count s + 1, mw_world := w3\<rparr>) = s3"
      by (simp add: s3_def)
    then show ?thesis
      using assms False ab r' by (simp add: FlushCluster_def Some t1 r t2 Let_def s4_def [symmetric] p s5_def)
  qed
  note P = PublishProgress_frame [of s3 io, folded s4_def]
  have f4: "mw_rendered s4 = mw_rendered s @ [c]" "mw_cues s4 = mw_cues s"
    "mw_pending_cue_ms s4 = mw_pending_cue_ms s" "mw_first_cluster s4 = mw_first_cluster s"
    "mw_cluster_start_ms s4 = mw_cluster_start_ms s" "mw_max_emitted_pts_ns s4 = mw_max_emitted_pts_ns s"
    "mw_failed s4 = mw_failed s" "mw_io_open s4 = mw_io_open s" "same_queue s s4"
    using P by (simp_all add: same_file_def same_queue_def s3_def)
  have f5: "mw_rendered s5 = clusters s" "map fst (mw_cues s5) = map fst (mw_cues s) @ mw_pending_cue_ms s"
    "mw_pending_cue_ms s5 = []" "mw_cluster s5 = None" "mw_first_cluster s5 = mw_first_cluster s"
    "mw_cluster_start_ms s5 = mw_cluster_start_ms s" "mw_max_emitted_pts_ns s5 = mw_max_emitted_pts_ns s"
    "mw_failed s5 = mw_failed s" "mw_io_open s5 = mw_io_open s" "same_queue s s5"
    using f4 by (simp_all add: s5_def clusters_def Some comp_def same_queue_def)
  show ?thesis
    using DurabilityFlush_frame [OF d] f5 same_queue_trans [of s s5 s'] Some
    by (simp add: same_file_def)
qed

section \<open>The cluster invariant\<close>

definition to_blocks :: "MatroskaStreamConfig \<Rightarrow> MuxPacket \<Rightarrow> SimpleBlock list" where
  "to_blocks cfg e =
     (case track_entry cfg (track_num e) of
        None \<Rightarrow> []
      | Some i \<Rightarrow> [\<lparr>blk_entry = i, blk_pts = pts_ns e, blk_key = is_key e, blk_bytes = bytes e\<rparr>])"

definition blk_ms :: "SimpleBlock \<Rightarrow> u64" where
  "blk_ms b = blk_pts b div kTimecodeScaleNs"

definition key_times :: "Cluster \<Rightarrow> u64 list" where
  "key_times c = map blk_ms (filter (\<lambda>b. blk_key b \<and> blk_entry b = 0) (blocks c))"

text \<open>A cluster starts at its first block, and every timecode relative to it fits.\<close>

definition good_cluster :: "Cluster \<Rightarrow> bool" where
  "good_cluster c \<longleftrightarrow>
     blocks c \<noteq> [] \<and> start_ms c = blk_ms (hd (blocks c)) \<and>
     (\<forall>b \<in> set (blocks c). sint (blk_ms b) - sint (start_ms c) \<le> kMaxClusterRelativeMs)"

definition writer_inv :: "'w Writer \<Rightarrow> bool" where
  "writer_inv s \<longleftrightarrow>
     (mw_first_cluster s \<longleftrightarrow> mw_cluster s = None) \<and>
     (mw_first_cluster s \<longrightarrow> mw_rendered s = []) \<and>
     (\<forall>c \<in> set (clusters s). good_cluster c) \<and>
     (\<forall>c. mw_cluster s = Some c \<longrightarrow> start_ms c = mw_cluster_start_ms s) \<and>
     map fst (mw_cues s) = concat (map key_times (mw_rendered s)) \<and>
     mw_pending_cue_ms s = (case mw_cluster s of None \<Rightarrow> [] | Some c \<Rightarrow> key_times c) \<and>
     mw_max_emitted_pts_ns s = fold max (map blk_pts (blocks_out s)) 0"

lemma track_entry_video:
  assumes "unat (track_num e) < 2 ^ 32" "track_entry cfg (track_num e) = Some i"
  shows "i = 0 \<longleftrightarrow> track_num e = 1"
proof (cases "track_num e = 1")
  case True
  then show ?thesis using assms(2) by (auto simp: track_entry_def split: if_splits)
next
  case False
  let ?t = "track_num e"
  have t: "?t \<noteq> 0" "?t \<noteq> 1" "i = ucast (?t - 2) + 1"
    using assms(2) False by (auto simp: track_entry_def Let_def split: if_splits)
  have "unat ?t \<noteq> 0" "unat ?t \<noteq> 1" using t(1,2) by (simp_all add: word_unat_eq_iff)
  then have ge: "2 \<le> unat ?t" by linarith
  then have "unat (?t - 2) = unat ?t - 2"
    using unat_sub [of 2 ?t] by (simp add: word_le_nat_alt)
  then have u: "unat (ucast (?t - 2) :: u32) = unat ?t - 2"
    using assms(1) by (simp add: unsigned_ucast_eq take_bit_nat_eq_self)
  then have "unat i = unat ?t - 1"
    using t(3) ge assms(1) by (simp add: unat_word_ariths)
  then have "unat i \<noteq> 0" using ge by linarith
  then show ?thesis using False by auto
qed

definition open_block :: "SimpleBlock \<Rightarrow> bool \<Rightarrow> 'w Writer \<Rightarrow> 'w Writer" where
  "open_block b video s =
     (let s = s\<lparr>mw_cluster := map_option (\<lambda>c. c\<lparr>blocks := blocks c @ [b]\<rparr>) (mw_cluster s)\<rparr>;
          s = (if blk_key b \<and> video then s\<lparr>mw_pending_cue_ms := mw_pending_cue_ms s @ [blk_ms b]\<rparr> else s)
      in if blk_pts b > mw_max_emitted_pts_ns s then s\<lparr>mw_max_emitted_pts_ns := blk_pts b\<rparr> else s)"

lemma open_block_fields:
  "same_queue s (open_block b v s)" "mw_failed (open_block b v s) = mw_failed s"
  "mw_io_open (open_block b v s) = mw_io_open s" "mw_rendered (open_block b v s) = mw_rendered s"
  "mw_first_cluster (open_block b v s) = mw_first_cluster s"
  "mw_cluster_start_ms (open_block b v s) = mw_cluster_start_ms s" "mw_cues (open_block b v s) = mw_cues s"
  "mw_cluster (open_block b v s) = map_option (\<lambda>c. c\<lparr>blocks := blocks c @ [b]\<rparr>) (mw_cluster s)"
  "mw_pending_cue_ms (open_block b v s) =
     mw_pending_cue_ms s @ (if blk_key b \<and> v then [blk_ms b] else [])"
  "mw_max_emitted_pts_ns (open_block b v s) = max (mw_max_emitted_pts_ns s) (blk_pts b)"
  by (auto simp: open_block_def same_queue_def Let_def max_def)

text \<open>A block joins the open cluster.\<close>

lemma open_block_inv:
  assumes "writer_inv s" "mw_cluster s = Some c" "v \<longleftrightarrow> blk_entry b = 0"
    "sint (blk_ms b) - sint (start_ms c) \<le> kMaxClusterRelativeMs"
  shows "writer_inv (open_block b v s) \<and> blocks_out (open_block b v s) = blocks_out s @ [b]"
proof -
  let ?c = "c\<lparr>blocks := blocks c @ [b]\<rparr>"
  have c: "good_cluster c" using assms(1,2) by (auto simp: writer_inv_def clusters_def)
  then have gc: "good_cluster ?c"
    using assms(4) by (auto simp: good_cluster_def)
  have kt: "key_times ?c = key_times c @ (if blk_key b \<and> v then [blk_ms b] else [])"
    using assms(3) by (auto simp: key_times_def)
  have out: "blocks_out (open_block b v s) = blocks_out s @ [b]"
    using assms(2) by (simp add: blocks_out_def clusters_def open_block_fields)
  show ?thesis
    using assms(1,2) gc kt out
    by (auto simp: writer_inv_def clusters_def open_block_fields max.commute)
qed

text \<open>The first block of a new cluster.\<close>

lemma new_block_inv:
  assumes "mw_cluster s = None" "\<forall>c \<in> set (mw_rendered s). good_cluster c"
    "map fst (mw_cues s) = concat (map key_times (mw_rendered s))" "mw_pending_cue_ms s = []"
    "mw_max_emitted_pts_ns s = fold max (map blk_pts (blocks_out s)) 0" "v \<longleftrightarrow> blk_entry b = 0"
  defines "t \<equiv> s\<lparr>mw_first_cluster := False, mw_cluster_start_ms := blk_ms b,
                 mw_cluster := Some \<lparr>start_ms = blk_ms b, blocks = []\<rparr>\<rparr>"
  shows "writer_inv (open_block b v t) \<and> blocks_out (open_block b v t) = blocks_out s @ [b]"
proof -
  have out: "blocks_out (open_block b v t) = blocks_out s @ [b]"
    using assms(1) by (simp add: blocks_out_def clusters_def open_block_fields t_def)
  then show ?thesis
    using assms(1-6)
    by (auto simp: writer_inv_def clusters_def open_block_fields t_def good_cluster_def key_times_def
        kMaxClusterRelativeMs_def max.commute)
qed

lemma EmitPacket_ok:
  assumes "EmitPacket io e s = (True, s')" "writer_inv s" "unat (track_num e) < 2 ^ 32"
  shows "writer_inv s' \<and> same_queue s s' \<and> mw_failed s' = mw_failed s \<and> mw_io_open s' = mw_io_open s \<and>
    blocks_out s' = blocks_out s @ to_blocks (mw_config s) e"
proof (cases "track_entry (mw_config s) (track_num e)")
  case None
  then show ?thesis using assms by (simp add: EmitPacket_def to_blocks_def)
next
  case (Some i)
  define b where "b = \<lparr>blk_entry = i, blk_pts = pts_ns e, blk_key = is_key e, blk_bytes = bytes e\<rparr>"
  define v where "v \<longleftrightarrow> track_num e = 1"
  have tb: "to_blocks (mw_config s) e = [b]" by (simp add: to_blocks_def Some b_def)
  have ms: "blk_ms b = pts_ns e div kTimecodeScaleNs" by (simp add: blk_ms_def b_def)
  have v: "v \<longleftrightarrow> blk_entry b = 0" using track_entry_video [OF assms(3) Some] by (simp add: v_def b_def)
  have keep: "open_block b v (t\<lparr>mw_world := w\<rparr>) = (open_block b v t)\<lparr>mw_world := w\<rparr>" for t w
    by (simp add: open_block_def Let_def)
  have world: "writer_inv (t\<lparr>mw_world := w\<rparr>) = writer_inv t" "blocks_out (t\<lparr>mw_world := w\<rparr>) = blocks_out t"
    "same_queue s (t\<lparr>mw_world := w\<rparr>) = same_queue s t" for t w
    by (simp_all add: writer_inv_def blocks_out_def clusters_def same_queue_def)
  have add: "\<exists>w. s' = (open_block b v t)\<lparr>mw_world := w\<rparr>" if "AddBlock io i e t = (True, s')" for t
  proof -
    obtain a w where "io_add_frame io b (mw_world t) = (a, w)" by force
    then show ?thesis
      using that
      by (intro exI [of _ w]) (auto simp: AddBlock_def open_block_def Let_def b_def v_def blk_ms_def split: if_splits)
  qed
  show ?thesis
  proof (cases "need_new_cluster e s")
    case False
    then obtain c where c: "mw_cluster s = Some c" "\<not> mw_first_cluster s"
      using assms(2) by (auto simp: need_new_cluster_def writer_inv_def Let_def split: if_splits)
    obtain w where s': "s' = (open_block b v s)\<lparr>mw_world := w\<rparr>"
      using assms(1) False add [of s] by (auto simp: EmitPacket_def Some)
    have "sint (blk_ms b) - sint (start_ms c) \<le> kMaxClusterRelativeMs"
      using False c assms(2) by (auto simp: need_new_cluster_def writer_inv_def ms Let_def split: if_splits)
    then show ?thesis
      using open_block_inv [OF assms(2) c(1) v] by (simp add: s' world tb open_block_fields)
  next
    case True
    obtain ok s1 where f: "FlushCluster io s = (ok, s1)" by force
    have ok: "ok" using assms(1) True by (auto simp: EmitPacket_def Some f Let_def split: if_splits)
    have f': "FlushCluster io s = (True, s1)" using f ok by simp
    note F = FlushCluster_ok [OF f']
    define t where "t = s1\<lparr>mw_first_cluster := False, mw_cluster_start_ms := blk_ms b,
                 mw_cluster := Some \<lparr>start_ms = blk_ms b, blocks = []\<rparr>\<rparr>"
    obtain w where s': "s' = (open_block b v t)\<lparr>mw_world := w\<rparr>"
      using assms(1) True add [of t] by (auto simp: EmitPacket_def Some f' t_def ms Let_def)
    have out1: "blocks_out s1 = blocks_out s" using F by (simp add: blocks_out_def clusters_def)
    have "\<forall>c \<in> set (mw_rendered s1). good_cluster c" using F assms(2) by (simp add: writer_inv_def)
    moreover have "map fst (mw_cues s1) = concat (map key_times (mw_rendered s1))" "mw_pending_cue_ms s1 = []"
      using F assms(2) by (cases "mw_cluster s"; simp add: writer_inv_def clusters_def)+
    moreover have "mw_max_emitted_pts_ns s1 = fold max (map blk_pts (blocks_out s1)) 0"
      using F assms(2) out1 by (simp add: writer_inv_def)
    ultimately have "writer_inv (open_block b v t) \<and> blocks_out (open_block b v t) = blocks_out s1 @ [b]"
      unfolding t_def using F v by (intro new_block_inv) simp_all
    moreover have "same_queue s t" "mw_failed t = mw_failed s" "mw_io_open t = mw_io_open s"
      using F by (simp_all add: t_def same_queue_def)
    ultimately show ?thesis
      using same_queue_trans [OF _ open_block_fields(1)] out1
      by (simp add: s' world tb open_block_fields)
  qed
qed

section \<open>Draining\<close>

text \<open>
  A successful drain emits a prefix of the window, each packet because it may be emitted when it is
  at the front, and stops at the first that may not.
\<close>

definition same_control :: "'w Writer \<Rightarrow> 'w Writer \<Rightarrow> bool" where
  "same_control s s' \<longleftrightarrow>
     mw_config s' = mw_config s \<and> mw_max_pushed_pts_ns s' = mw_max_pushed_pts_ns s \<and>
     mw_opened s' = mw_opened s \<and> mw_finalized s' = mw_finalized s \<and> mw_failed s' = mw_failed s \<and>
     mw_io_open s' = mw_io_open s \<and> mw_peak_window_packets s' = mw_peak_window_packets s"

lemma same_control_trans: "same_control s t \<Longrightarrow> same_control t u \<Longrightarrow> same_control s u"
  by (simp add: same_control_def)

definition drained :: "bool \<Rightarrow> 'w Writer \<Rightarrow> 'w Writer \<Rightarrow> MuxPacket list \<Rightarrow> MuxPacket list \<Rightarrow> bool" where
  "drained force s s' dn rest \<longleftrightarrow>
     mw_window s' = rest \<and> writer_inv s' \<and> same_control s s' \<and>
     blocks_out s' = blocks_out s @ concat (map (to_blocks (mw_config s)) dn) \<and>
     (\<forall>i < length dn. may_emit force s (dn ! i) (length dn + length rest - i)) \<and>
     (rest \<noteq> [] \<longrightarrow> \<not> may_emit force s (hd rest) (length rest))"

lemma drained_Cons:
  assumes "drained force t s' dn rest" "same_control s t" "may_emit force s e (Suc (length (dn @ rest)))"
    "blocks_out t = blocks_out s @ to_blocks (mw_config s) e"
  shows "drained force s s' (e # dn) rest"
proof -
  have may: "may_emit force t = may_emit force s"
    using assms(2) by (intro ext) (simp add: may_emit_def same_control_def)
  have "may_emit force s ((e # dn) ! i) (length (e # dn) + length rest - i)" if "i < length (e # dn)" for i
    using that assms(1,3) may by (cases i) (auto simp: drained_def)
  moreover have "mw_config t = mw_config s" using assms(2) by (simp add: same_control_def)
  ultimately show ?thesis
    using assms(1,4) may same_control_trans [OF assms(2)] by (simp add: drained_def)
qed

lemma DrainFrom_ok:
  assumes "DrainFrom io force ws s = (True, s')" "mw_window s = ws" "writer_inv s"
    "\<forall>e \<in> set ws. unat (track_num e) < 2 ^ 32"
  shows "\<exists>dn rest. ws = dn @ rest \<and> drained force s s' dn rest"
  using assms
proof (induction ws arbitrary: s)
  case Nil
  then show ?case by (auto simp: drained_def same_control_def)
next
  case (Cons e ws)
  show ?case
  proof (cases "may_emit force s e (Suc (length ws))")
    case False
    then show ?thesis
      using Cons.prems by (intro exI [of _ "[]"] exI [of _ "e # ws"]) (auto simp: drained_def same_control_def)
  next
    case True
    obtain ok s1 where em: "EmitPacket io e s = (ok, s1)" by force
    have ok: ok using Cons.prems(1) True em by (auto split: if_splits)
    have em': "EmitPacket io e s = (True, s1)" using em ok by simp
    note E = EmitPacket_ok [OF em' Cons.prems(3)]
    have E: "writer_inv s1" "same_queue s s1" "mw_failed s1 = mw_failed s" "mw_io_open s1 = mw_io_open s"
      "blocks_out s1 = blocks_out s @ to_blocks (mw_config s) e"
      using E Cons.prems(4) by simp_all
    define s2 where "s2 = s1\<lparr>mw_cur_window_bytes := mw_cur_window_bytes s1 - of_nat (length (bytes e)),
        mw_window := ws\<rparr>"
    have bk: "writer_inv s2 = writer_inv s1" "blocks_out s2 = blocks_out s1"
      by (simp_all add: s2_def writer_inv_def blocks_out_def clusters_def)
    have c2: "same_control s s2" "mw_window s2 = ws"
      using E by (simp_all add: s2_def same_queue_def same_control_def)
    have "DrainFrom io force ws s2 = (True, s')"
      using Cons.prems(1) True em' by (simp add: s2_def)
    then obtain dn rest where ih: "ws = dn @ rest" "drained force s2 s' dn rest"
      using Cons.IH [of s2] Cons.prems(4) c2 bk E by auto
    have "drained force s s' (e # dn) rest"
      using ih True E bk c2 by (intro drained_Cons [OF ih(2)]) simp_all
    then show ?thesis using ih(1) by (intro exI [of _ "e # dn"] exI [of _ rest]) simp
  qed
qed

section \<open>The window stays sorted, stably\<close>

lemma insert_back_split:
  assumes "sorted_wrt (\<lambda>a b. pts_ns a \<ge> pts_ns b) ws"
  shows "insert_back e ws = takeWhile (\<lambda>p. pts_ns p > pts_ns e) ws @ e # dropWhile (\<lambda>p. pts_ns p > pts_ns e) ws"
  using assms by (induction ws) auto

lemma window_insert_split:
  assumes "sorted (map pts_ns ws)"
  shows "window_insert e ws = filter (\<lambda>p. pts_ns p \<le> pts_ns e) ws @ e # filter (\<lambda>p. pts_ns p > pts_ns e) ws"
proof -
  have s: "sorted_wrt (\<lambda>a b. pts_ns a \<ge> pts_ns b) (rev ws)"
    using assms by (simp add: sorted_wrt_rev sorted_map)
  have tw: "takeWhile (\<lambda>p. pts_ns p > pts_ns e) ws' = filter (\<lambda>p. pts_ns p > pts_ns e) ws'"
    "dropWhile (\<lambda>p. pts_ns p > pts_ns e) ws' = filter (\<lambda>p. pts_ns p \<le> pts_ns e) ws'"
    if "sorted_wrt (\<lambda>a b. pts_ns a \<ge> pts_ns b) ws'" for ws'
  proof -
    have "takeWhile (\<lambda>p. pts_ns p > pts_ns e) ws' = filter (\<lambda>p. pts_ns p > pts_ns e) ws' \<and>
          dropWhile (\<lambda>p. pts_ns p > pts_ns e) ws' = filter (\<lambda>p. pts_ns p \<le> pts_ns e) ws'"
      using that
    proof (induction ws')
      case (Cons p ws')
      show ?case
      proof (cases "pts_ns p > pts_ns e")
        case True
        then show ?thesis using Cons by (simp add: not_le)
      next
        case False
        then have "\<forall>q \<in> set ws'. pts_ns q \<le> pts_ns e" using Cons.prems by fastforce
        then have "filter (\<lambda>p. pts_ns p > pts_ns e) ws' = []" "filter (\<lambda>p. pts_ns p \<le> pts_ns e) ws' = ws'"
          by (auto simp: filter_empty_conv not_less)
        then show ?thesis using False by simp
      qed
    qed simp
    then show "takeWhile (\<lambda>p. pts_ns p > pts_ns e) ws' = filter (\<lambda>p. pts_ns p > pts_ns e) ws'"
      "dropWhile (\<lambda>p. pts_ns p > pts_ns e) ws' = filter (\<lambda>p. pts_ns p \<le> pts_ns e) ws'" by auto
  qed
  show ?thesis
    by (simp add: window_insert_def insert_back_split [OF s] tw [OF s] rev_filter [symmetric])
qed

lemma window_insert_append:
  assumes "\<forall>p \<in> set ds. pts_ns p \<le> pts_ns e" "sorted (map pts_ns (ds @ ws))"
  shows "ds @ window_insert e ws = window_insert e (ds @ ws)"
proof -
  have "filter (\<lambda>p. pts_ns p > pts_ns e) ds = []" "filter (\<lambda>p. pts_ns p \<le> pts_ns e) ds = ds"
    using assms(1) by (auto simp: filter_empty_conv not_less)
  then show ?thesis
    using assms(2) by (simp add: window_insert_split sorted_append)
qed

lemma split_at_pts: "{#x \<in># M. pts_ns e < pts_ns x#} + {#x \<in># M. pts_ns x \<le> pts_ns e#} = M"
  by (rule union_filter_mset_complement) (auto simp: not_le)

lemma window_insert_props:
  assumes "sorted (map pts_ns ws)"
  shows "mset (window_insert e ws) = add_mset e (mset ws)" "sorted (map pts_ns (window_insert e ws))"
    "length (window_insert e ws) = Suc (length ws)"
proof -
  show m: "mset (window_insert e ws) = add_mset e (mset ws)"
    by (simp add: window_insert_split [OF assms] split_at_pts add.commute)
  then show "length (window_insert e ws) = Suc (length ws)"
    by (metis size_add_mset size_mset)
  show "sorted (map pts_ns (window_insert e ws))"
    using assms by (auto simp: window_insert_split sorted_append sorted_filter)
qed

lemma sort_key_snoc:
  assumes "sort_key pts_ns xs = ys"
  shows "sort_key pts_ns (xs @ [e]) = window_insert e ys"
proof (rule properties_for_sort_key)
  have s: "sorted (map pts_ns ys)" using assms by auto
  have m: "mset ys = mset xs" using assms by auto
  show "mset (window_insert e ys) = mset (xs @ [e])"
    using window_insert_props(1) [OF s] m by simp
  show "filter (\<lambda>x. pts_ns k = pts_ns x) (window_insert e ys) = filter (\<lambda>x. pts_ns k = pts_ns x) (xs @ [e])"
    if "k \<in> set (window_insert e ys)" for k
  proof -
    let ?P = "\<lambda>x. pts_ns k = pts_ns x"
    have st: "filter ?P xs = filter ?P ys"
      using assms sort_key_stable [of pts_ns "pts_ns k" xs] by (simp add: eq_commute)
    show ?thesis
    proof (cases "pts_ns k \<le> pts_ns e")
      case True
      then have "filter ?P (filter (\<lambda>p. pts_ns p \<le> pts_ns e) ys) = filter ?P ys"
        "filter ?P (filter (\<lambda>p. pts_ns p > pts_ns e) ys) = []"
        by (auto simp: filter_empty_conv intro!: filter_cong)
      then show ?thesis by (auto simp: window_insert_split [OF s] st filter_empty_conv)
    next
      case False
      then have "filter ?P (filter (\<lambda>p. pts_ns p \<le> pts_ns e) ys) = []"
        "filter ?P (filter (\<lambda>p. pts_ns p > pts_ns e) ys) = filter ?P ys" "pts_ns k \<noteq> pts_ns e"
        by (auto simp: filter_empty_conv not_le intro!: filter_cong)
      then show ?thesis by (simp add: window_insert_split [OF s] st)
    qed
  qed
  show "sorted (map pts_ns (window_insert e ys))"
    using s by (auto simp: window_insert_split sorted_append sorted_filter)
qed

section \<open>Sequences of pushes\<close>

fun PushAll :: "'w Io \<Rightarrow> MuxPacket list \<Rightarrow> 'w Writer \<Rightarrow> bool \<times> 'w Writer" where
  "PushAll io [] s = (True, s)"
| "PushAll io (e # es) s =
     (let (ok, s) = Push io e s in if \<not> ok then (False, s) else PushAll io es s)"

definition accepted :: "MuxPacket list \<Rightarrow> MuxPacket list" where
  "accepted es = filter (\<lambda>e. bytes e \<noteq> []) es"

text \<open>A writer that was just opened.\<close>

definition opened_writer :: "'w Writer \<Rightarrow> bool" where
  "opened_writer s \<longleftrightarrow>
     mw_opened s \<and> \<not> mw_finalized s \<and> \<not> mw_failed s \<and> mw_window s = [] \<and> mw_max_pushed_pts_ns s = 0 \<and>
     mw_cluster s = None \<and> mw_first_cluster s \<and> mw_rendered s = [] \<and> mw_cues s = [] \<and>
     mw_pending_cue_ms s = [] \<and> mw_max_emitted_pts_ns s = 0 \<and> mw_peak_window_packets s = 0"

lemma opened_writer_inv: "opened_writer s \<Longrightarrow> writer_inv s"
  by (simp add: opened_writer_def writer_inv_def clusters_def blocks_out_def)

text \<open>
  After the packets \<open>es\<close>: \<open>out\<close> was emitted, the window holds the rest, and the two together are the
  accepted packets; the largest time stamp is known.
\<close>

definition pushed :: "MuxPacket list \<Rightarrow> MuxPacket list \<Rightarrow> 'w Writer \<Rightarrow> bool" where
  "pushed es out s \<longleftrightarrow>
     writer_inv s \<and> blocks_out s = concat (map (to_blocks (mw_config s)) out) \<and>
     mset (out @ mw_window s) = mset (accepted es) \<and> sorted (map pts_ns (mw_window s)) \<and>
     mw_max_pushed_pts_ns s = fold max (map pts_ns (accepted es)) 0 \<and>
     mw_opened s \<and> \<not> mw_finalized s \<and> \<not> mw_failed s"

lemma Enqueue_frame:
  "writer_inv (Enqueue e s) = writer_inv s" "blocks_out (Enqueue e s) = blocks_out s"
  "mw_config (Enqueue e s) = mw_config s" "mw_opened (Enqueue e s) = mw_opened s"
  "mw_finalized (Enqueue e s) = mw_finalized s" "mw_failed (Enqueue e s) = mw_failed s"
  "mw_window (Enqueue e s) = window_insert e (mw_window s)"
  "mw_max_pushed_pts_ns (Enqueue e s) = max (mw_max_pushed_pts_ns s) (pts_ns e)"
  "mw_peak_window_packets (Enqueue e s) = max (mw_peak_window_packets s) (Suc (length (mw_window s)))"
proof -
  have "length (window_insert e ws) = Suc (length ws)" for ws
  proof -
    have "length (insert_back e ws') = Suc (length ws')" for ws' by (induction ws') auto
    then show ?thesis by (simp add: window_insert_def)
  qed
  then show "mw_peak_window_packets (Enqueue e s) = max (mw_peak_window_packets s) (Suc (length (mw_window s)))"
    by (simp add: Enqueue_def Let_def)
  show "mw_max_pushed_pts_ns (Enqueue e s) = max (mw_max_pushed_pts_ns s) (pts_ns e)"
    by (auto simp: Enqueue_def Let_def max_def dest: less_imp_le)
qed (simp_all add: Enqueue_def Let_def writer_inv_def blocks_out_def clusters_def)

lemma accepted_snoc: "accepted (es @ [e]) = accepted es @ (if bytes e = [] then [] else [e])"
  by (simp add: accepted_def)

text \<open>One push: what the drain emitted is appended, the rest stays queued.\<close>

lemma Push_ok:
  assumes "Push io e s = (True, s')" "pushed es out s"
    "\<forall>x \<in> set (es @ [e]). unat (track_num x) < 2 ^ 32"
  shows "if bytes e = [] then s' = s \<and> pushed (es @ [e]) out s
    else \<exists>dn rest. window_insert e (mw_window s) = dn @ rest \<and> drained False (Enqueue e s) s' dn rest \<and>
           pushed (es @ [e]) (out @ dn) s'"
proof (cases "bytes e = []")
  case True
  then show ?thesis using assms by (auto simp: Push_def pushed_def accepted_snoc)
next
  case False
  have st: "mw_opened s" "\<not> mw_finalized s" "\<not> mw_failed s" "writer_inv s" "sorted (map pts_ns (mw_window s))"
    "mset (out @ mw_window s) = mset (accepted es)"
    using assms(2) by (simp_all add: pushed_def)
  have d: "DrainFrom io False (mw_window (Enqueue e s)) (Enqueue e s) = (True, s')"
    using assms(1) False st by (simp add: Push_def DrainWindow_def)
  have "set (mw_window s) \<subseteq> set es"
    using st(6) by (metis Un_iff accepted_def filter_is_subset mset_eq_setD set_append subset_eq)
  then have "\<forall>x \<in> set (mw_window (Enqueue e s)). unat (track_num x) < 2 ^ 32"
    using assms(3) window_insert_props(1) [OF st(5), of e]
    by (auto simp: Enqueue_frame simp flip: set_mset_mset)
  then obtain dn rest where w: "window_insert e (mw_window s) = dn @ rest" "drained False (Enqueue e s) s' dn rest"
    using DrainFrom_ok [OF d] st by (auto simp: Enqueue_frame)
  have "mset (dn @ rest) = add_mset e (mset (mw_window s))" "sorted (map pts_ns (dn @ rest))"
    using window_insert_props [OF st(5), of e] w(1) by simp_all
  then have "pushed (es @ [e]) (out @ dn) s'"
    using w(2) assms(2) False
    by (auto simp: pushed_def drained_def same_control_def Enqueue_frame accepted_snoc sorted_append max.commute
        union_commute add_mset_commute)
  then show ?thesis using False w by auto
qed

lemma PushAll_pushed:
  assumes "PushAll io es s = (True, s')" "pushed es0 out s"
    "\<forall>x \<in> set (es0 @ es). unat (track_num x) < 2 ^ 32"
  shows "\<exists>out'. pushed (es0 @ es) out' s' \<and> mw_config s' = mw_config s"
  using assms
proof (induction es arbitrary: s es0 out)
  case Nil
  then show ?case by auto
next
  case (Cons e es)
  obtain s1 where p: "Push io e s = (True, s1)" and rest: "PushAll io es s1 = (True, s')"
    using Cons.prems(1) by (auto split: prod.splits if_splits)
  have "\<exists>out1. pushed (es0 @ [e]) out1 s1 \<and> mw_config s1 = mw_config s"
    using Push_ok [OF p Cons.prems(2)] Cons.prems(3)
    by (auto simp: drained_def same_control_def Enqueue_frame split: if_splits)
  then show ?case using Cons.IH [OF rest, of "es0 @ [e]"] Cons.prems(3) by auto
qed

lemma pushed_start: "opened_writer s \<Longrightarrow> pushed [] [] s"
  using opened_writer_inv [of s]
  by (simp add: pushed_def opened_writer_def accepted_def blocks_out_def clusters_def)

section \<open>The trailer\<close>

lemma Trailer_frame:
  assumes "Trailer io st s = (ok, s')"
  shows "same_file s s' \<and> mw_config s' = mw_config s \<and> mw_window s' = mw_window s \<and>
    mw_progress s' = mw_progress s \<and> mw_bytes_written s' = mw_bytes_written s"
  using assms by (auto simp: Trailer_def same_file_def set_failed_def Let_def split: prod.splits if_splits)

lemma same_file_trans: "same_file s t \<Longrightarrow> same_file t u \<Longrightarrow> same_file s u"
  by (simp add: same_file_def)

text \<open>Published progress never falls: the sink's values, newest first, are non-increasing.\<close>

definition progress_ok :: "'w Writer \<Rightarrow> bool" where
  "progress_ok s \<longleftrightarrow>
     sorted_wrt (\<lambda>a b. a \<ge> b) (mw_progress s) \<and> (\<forall>p \<in> set (mw_progress s). p \<le> mw_bytes_written s)"

lemma PublishProgress_ok:
  assumes "progress_ok s"
  shows "progress_ok (PublishProgress io s) \<and> (\<exists>news. mw_progress (PublishProgress io s) = news @ mw_progress s)"
proof (cases "mw_io_open s")
  case False
  then show ?thesis using assms by (simp add: PublishProgress_def)
next
  case True
  obtain pos w where t: "io_tell io (mw_world s) = (pos, w)" by force
  define b where "b = (case pos of Some p \<Rightarrow> max (mw_bytes_written s) p | None \<Rightarrow> mw_bytes_written s)"
  have "PublishProgress io s = s\<lparr>mw_world := w, mw_bytes_written := b, mw_progress := b # mw_progress s\<rparr>"
    using True by (auto simp: PublishProgress_def t b_def Let_def max_def split: option.split dest: less_imp_le)
  moreover have "mw_bytes_written s \<le> b" by (simp add: b_def split: option.split)
  ultimately show ?thesis
    using assms by (auto simp: progress_ok_def intro: order.trans)
qed

text \<open>Every step of the trailer, and the whole of it.\<close>

definition trailer_kept :: "'w Writer \<Rightarrow> 'w Writer \<Rightarrow> bool" where
  "trailer_kept s s' \<longleftrightarrow>
     same_file s s' \<and> mw_config s' = mw_config s \<and> mw_window s' = mw_window s \<and>
     (progress_ok s \<longrightarrow> progress_ok s') \<and> (\<exists>news. mw_progress s' = news @ mw_progress s)"

lemma trailer_kept_refl [simp]: "trailer_kept s s"
  by (simp add: trailer_kept_def same_file_def)

lemma trailer_kept_trans: "trailer_kept s t \<Longrightarrow> trailer_kept t u \<Longrightarrow> trailer_kept s u"
  using same_file_trans [of s t u] by (auto simp: trailer_kept_def)

lemma PublishProgress_progress: "\<exists>news. mw_progress (PublishProgress io s) = news @ mw_progress s"
  by (auto simp: PublishProgress_def Let_def split: prod.split option.split)

lemma PublishProgress_kept: "trailer_kept s (PublishProgress io s)"
  using PublishProgress_frame [of s io] PublishProgress_ok [of s io] PublishProgress_progress [of io s]
  by (auto simp: trailer_kept_def same_queue_def)

lemma Trailer_kept: "Trailer io st s = (ok, s') \<Longrightarrow> trailer_kept s s'"
  using Trailer_frame [of io st s ok s'] by (auto simp: trailer_kept_def progress_ok_def)

lemma world_kept: "trailer_kept s (s\<lparr>mw_world := w\<rparr>)" "trailer_kept s (set_failed s)"
  "trailer_kept s (set_failed (s\<lparr>mw_world := w\<rparr>))"
  by (auto simp: trailer_kept_def same_file_def progress_ok_def set_failed_def)

lemma checkpoint_kept:
  assumes "\<And>t. trailer_kept t (snd (step t))" "\<And>t. trailer_kept t (snd (rest t))"
  shows "trailer_kept s (snd (checkpoint io step rest s))"
proof -
  obtain ok t where "step s = (ok, t)" by force
  moreover have "trailer_kept s t" using assms(1) [of s] calculation by simp
  moreover have "trailer_kept t (snd (rest (PublishProgress io t)))"
    using PublishProgress_kept assms(2) trailer_kept_trans by blast
  ultimately show ?thesis
    using trailer_kept_trans by (auto simp: checkpoint_def)
qed

lemma Trailer_snd: "trailer_kept t (snd (Trailer io st t))"
  using Trailer_kept [of io st t] by (metis prod.collapse)

lemma segment_size_kept: "trailer_kept t (snd (segment_size_step io t))"
proof -
  obtain eof w where "io_tell io (mw_world t) = (eof, w)" by force
  then show ?thesis
    using trailer_kept_trans [OF world_kept(1) Trailer_snd]
    by (auto simp: segment_size_step_def Let_def world_kept split: option.split)
qed

lemma WriteTrailer_kept: "trailer_kept s (snd (WriteTrailer io s))"
  unfolding WriteTrailer_def
  by (intro checkpoint_kept) (simp_all add: Trailer_snd segment_size_kept light_level_step_def)

lemma closing_file:
  "same_file s (CloseIo io (PublishProgress io (FinalFlush io s)))"
proof -
  have "same_file s (FinalFlush io s)"
    by (auto simp: FinalFlush_def same_file_def set_failed_def Let_def split: prod.split)
  moreover have "same_file t (CloseIo io t)" for t
    by (auto simp: CloseIo_def same_file_def set_failed_def Let_def split: prod.split)
  ultimately show ?thesis
    using PublishProgress_frame same_file_trans by blast
qed

text \<open>A finalize that reports success: everything queued is in the rendered clusters.\<close>

lemma Finalize_ok:
  assumes "Finalize io s = (True, s')" "pushed es out s" "\<forall>x \<in> set es. unat (track_num x) < 2 ^ 32"
  shows "concat (map blocks (mw_rendered s')) = concat (map (to_blocks (mw_config s)) (out @ mw_window s)) \<and>
    (\<forall>c \<in> set (mw_rendered s'). good_cluster c) \<and>
    map fst (mw_cues s') = concat (map key_times (mw_rendered s'))"
proof -
  have st: "mw_opened s" "\<not> mw_finalized s" "\<not> mw_failed s" "writer_inv s"
    "mset (out @ mw_window s) = mset (accepted es)"
    using assms(2) by (simp_all add: pushed_def)
  define s0 where "s0 = s\<lparr>mw_finalized := True\<rparr>"
  have s0: "writer_inv s0" "blocks_out s0 = blocks_out s" "mw_window s0 = mw_window s" "mw_config s0 = mw_config s"
    "\<not> mw_failed s0"
    using st by (simp_all add: s0_def writer_inv_def blocks_out_def clusters_def)
  obtain ok1 s1 where d: "DrainWindow io True s0 = (ok1, s1)" by force
  obtain ok2 s2 where f: "FlushCluster io s1 = (ok2, s2)" by force
  obtain ok3 s3 where w: "WriteTrailer io s2 = (ok3, s3)" by force
  have oks: ok1 ok2 ok3 and s': "s' = CloseIo io (PublishProgress io (FinalFlush io s3))"
    using assms(1) st(1-3) d f w s0(5) by (auto simp: Finalize_def s0_def [symmetric] Let_def split: if_splits)
  have "set (mw_window s) \<subseteq> set es"
    using st(5) by (metis Un_iff accepted_def filter_is_subset mset_eq_setD set_append subset_eq)
  then obtain dn rest where dr: "mw_window s = dn @ rest" "drained True s0 s1 dn rest"
    using DrainFrom_ok [of io True "mw_window s0" s0 s1] d oks(1) s0 assms(3)
    by (auto simp: DrainWindow_def)
  then have "rest = []" by (auto simp: drained_def may_emit_def)
  then have b1: "blocks_out s1 = concat (map (to_blocks (mw_config s)) (out @ mw_window s))" "writer_inv s1"
    using dr assms(2) s0 by (simp_all add: drained_def pushed_def)
  have f': "FlushCluster io s1 = (True, s2)" using f oks(2) by simp
  note F = FlushCluster_ok [OF f']
  have b2: "concat (map blocks (mw_rendered s2)) = blocks_out s1" "\<forall>c \<in> set (mw_rendered s2). good_cluster c"
    using F b1(2) by (simp_all add: blocks_out_def writer_inv_def)
  have b3: "map fst (mw_cues s2) = concat (map key_times (mw_rendered s2))"
    using F b1(2) by (cases "mw_cluster s1") (simp_all add: writer_inv_def clusters_def)
  have "same_file s2 s3" using WriteTrailer_kept [of s2 io] w by (simp add: trailer_kept_def)
  then have "same_file s2 s'" unfolding s' using closing_file same_file_trans by blast
  then show ?thesis using b1(1) b2 b3 by (simp add: same_file_def)
qed

section \<open>Presentation order\<close>

text \<open>
  Packets that arrive within the horizon: none is older than the newest one before it by more
  than the window, time stamps are far from the end of the range, and the ceiling is not reached.
\<close>

definition timely :: "MatroskaStreamConfig \<Rightarrow> MuxPacket list \<Rightarrow> bool" where
  "timely cfg es \<longleftrightarrow>
     length es \<le> reorder_window_max_packets cfg \<and>
     (\<forall>i < length es. unat (pts_ns (es ! i)) + unat (reorder_window_ns cfg) < 2 ^ 64 \<and>
        (\<forall>j < i. unat (pts_ns (es ! j)) \<le> unat (pts_ns (es ! i)) + unat (reorder_window_ns cfg)))"

definition in_order :: "MuxPacket list \<Rightarrow> MuxPacket list \<Rightarrow> 'w Writer \<Rightarrow> bool" where
  "in_order es out s \<longleftrightarrow>
     pushed es out s \<and> sort_key pts_ns (accepted es) = out @ mw_window s \<and>
     (\<forall>x \<in> set out. unat (pts_ns x) + unat (reorder_window_ns (mw_config s)) \<le> unat (mw_max_pushed_pts_ns s))"

lemma timely_snoc:
  assumes "timely cfg (as @ [e])"
  shows "timely cfg as" "\<forall>x \<in> set as. unat (pts_ns x) \<le> unat (pts_ns e) + unat (reorder_window_ns cfg)"
    "unat (pts_ns e) + unat (reorder_window_ns cfg) < 2 ^ 64" "length as < reorder_window_max_packets cfg"
proof -
  have len: "length (as @ [e]) \<le> reorder_window_max_packets cfg" using assms by (simp add: timely_def)
  have each: "unat (pts_ns ((as @ [e]) ! i)) + unat (reorder_window_ns cfg) < 2 ^ 64" if "i \<le> length as" for i
    using assms that by (simp add: timely_def less_Suc_eq_le)
  have gap: "unat (pts_ns ((as @ [e]) ! j)) \<le> unat (pts_ns ((as @ [e]) ! i)) + unat (reorder_window_ns cfg)"
    if "i \<le> length as" "j < i" for i j
    using assms that by (simp add: timely_def less_Suc_eq_le)
  show "timely cfg as"
    unfolding timely_def
  proof (intro conjI allI impI)
    show "length as \<le> reorder_window_max_packets cfg" using len by simp
  next
    fix i assume "i < length as"
    then show "unat (pts_ns (as ! i)) + unat (reorder_window_ns cfg) < 2 ^ 64"
      using each [of i] by (simp add: nth_append)
  next
    fix i j assume "i < length as" "j < i"
    then show "unat (pts_ns (as ! j)) \<le> unat (pts_ns (as ! i)) + unat (reorder_window_ns cfg)"
      using gap [of i j] by (simp add: nth_append)
  qed
  show "\<forall>x \<in> set as. unat (pts_ns x) \<le> unat (pts_ns e) + unat (reorder_window_ns cfg)"
  proof
    fix x assume "x \<in> set as"
    then obtain j where "j < length as" "x = as ! j" by (auto simp: in_set_conv_nth)
    then show "unat (pts_ns x) \<le> unat (pts_ns e) + unat (reorder_window_ns cfg)"
      using gap [of "length as" j] by (simp add: nth_append)
  qed
  show "unat (pts_ns e) + unat (reorder_window_ns cfg) < 2 ^ 64" using each [of "length as"] by simp
  show "length as < reorder_window_max_packets cfg" using len by simp
qed

lemma fold_max_le:
  "\<forall>x \<in> set xs. x \<le> (b::u64) \<Longrightarrow> a \<le> b \<Longrightarrow> fold max xs a \<le> b"
  by (induction xs arbitrary: a) auto

lemma Push_in_order:
  assumes "Push io e s = (True, s')" "in_order es out s" "\<forall>x \<in> set (es @ [e]). unat (track_num x) < 2 ^ 32"
    "timely (mw_config s) (accepted (es @ [e]))"
  shows "(\<exists>out'. in_order (es @ [e]) out' s') \<and> mw_config s' = mw_config s"
proof (cases "bytes e = []")
  case True
  then show ?thesis
    using Push_ok [OF assms(1) _ assms(3)] assms(2) by (auto simp: in_order_def accepted_snoc)
next
  case False
  let ?W = "unat (reorder_window_ns (mw_config s))"
  have p: "pushed es out s" using assms(2) by (simp add: in_order_def)
  obtain dn rest where w: "window_insert e (mw_window s) = dn @ rest" "drained False (Enqueue e s) s' dn rest"
    "pushed (es @ [e]) (out @ dn) s'"
    using Push_ok [OF assms(1) p assms(3)] False by auto
  have acc: "accepted (es @ [e]) = accepted es @ [e]" using False by (simp add: accepted_snoc)
  note tm = timely_snoc [OF assms(4) [unfolded acc]]
  have cfg: "mw_config s' = mw_config s" and mx: "mw_max_pushed_pts_ns s' = max (mw_max_pushed_pts_ns s) (pts_ns e)"
    using w(2) by (simp_all add: drained_def same_control_def Enqueue_frame)
  have maxle: "unat (mw_max_pushed_pts_ns s) \<le> unat (pts_ns e) + ?W"
  proof -
    have sum: "unat (pts_ns e + reorder_window_ns (mw_config s)) = unat (pts_ns e) + ?W"
      using tm(3) by (simp add: unat_word_ariths)
    have "mw_max_pushed_pts_ns s = fold max (map pts_ns (accepted es)) 0" using p by (simp add: pushed_def)
    also have "\<dots> \<le> pts_ns e + reorder_window_ns (mw_config s)"
      using tm(2) by (intro fold_max_le) (auto simp: word_le_nat_alt sum)
    finally show ?thesis by (simp add: word_le_nat_alt sum)
  qed
  have out_le: "\<forall>x \<in> set out. pts_ns x \<le> pts_ns e"
    using assms(2) maxle by (fastforce simp: in_order_def word_le_nat_alt)
  have sk: "sort_key pts_ns (accepted es) = out @ mw_window s" using assms(2) by (simp add: in_order_def)
  then have srt: "sorted (map pts_ns (out @ mw_window s))" by (metis sorted_sort_key)
  have "sort_key pts_ns (accepted (es @ [e])) = window_insert e (out @ mw_window s)"
    unfolding acc by (rule sort_key_snoc [OF sk])
  then have order: "sort_key pts_ns (accepted (es @ [e])) = (out @ dn) @ mw_window s'"
    using window_insert_append [OF out_le srt] w(1,2) by (simp add: drained_def)
  have "unat (pts_ns x) + ?W \<le> unat (mw_max_pushed_pts_ns s')" if x: "x \<in> set dn" for x
  proof -
    obtain i where i: "i < length dn" "x = dn ! i" using x by (auto simp: in_set_conv_nth)
    have len: "length dn + length rest = Suc (length (mw_window s))"
      using w(1) window_insert_props(3) [of "mw_window s" e] p by (simp add: pushed_def flip: length_append)
    have "length (mw_window s) \<le> length (accepted es)"
      using sk by (metis le_add2 length_append length_sort)
    then have "\<not> length dn + length rest - i > reorder_window_max_packets (mw_config s)"
      using len tm(4) by linarith
    then have "max (mw_max_pushed_pts_ns s) (pts_ns e) \<ge> pts_ns x + reorder_window_ns (mw_config s)"
      using w(2) i by (auto simp: drained_def may_emit_def Enqueue_frame)
    moreover have "unat (pts_ns x) + ?W < 2 ^ 64"
    proof -
      have "x \<in> set (accepted es @ [e])"
        using x order by (metis UnCI acc set_append set_sort)
      then obtain k where "k < length (accepted es @ [e])" "(accepted es @ [e]) ! k = x"
        by (metis in_set_conv_nth)
      then show ?thesis using assms(4) unfolding acc timely_def by metis
    qed
    ultimately show ?thesis
      by (simp add: mx word_le_nat_alt unat_word_ariths)
  qed
  moreover have "unat (pts_ns x) + ?W \<le> unat (mw_max_pushed_pts_ns s')" if "x \<in> set out" for x
    using that assms(2) mx by (fastforce simp: in_order_def word_le_nat_alt max_def)
  ultimately have "in_order (es @ [e]) (out @ dn) s'"
    using w(3) order cfg by (auto simp: in_order_def)
  then show ?thesis using cfg by blast
qed

lemma PushAll_in_order:
  assumes "PushAll io es s = (True, s')" "in_order es0 out s"
    "\<forall>x \<in> set (es0 @ es). unat (track_num x) < 2 ^ 32" "timely (mw_config s) (accepted (es0 @ es))"
  shows "\<exists>out'. in_order (es0 @ es) out' s' \<and> mw_config s' = mw_config s"
  using assms
proof (induction es arbitrary: s es0 out)
  case Nil
  then show ?case by auto
next
  case (Cons e es)
  obtain s1 where p: "Push io e s = (True, s1)" and rest: "PushAll io es s1 = (True, s')"
    using Cons.prems(1) by (auto split: prod.splits if_splits)
  have prefix: "timely cfg (xs @ ys) \<Longrightarrow> timely cfg xs" for cfg xs ys
  proof (induction ys rule: rev_induct)
    case (snoc y ys)
    then show ?case using timely_snoc(1) [of cfg "xs @ ys" y] by simp
  qed simp
  have "accepted (es0 @ e # es) = accepted (es0 @ [e]) @ accepted es" by (simp add: accepted_def)
  then have "timely (mw_config s) (accepted (es0 @ [e]))" using Cons.prems(4) prefix by metis
  then obtain out1 where "in_order (es0 @ [e]) out1 s1" "mw_config s1 = mw_config s"
    using Push_in_order [OF p Cons.prems(2)] Cons.prems(3) by auto
  then show ?case using Cons.IH [OF rest, of "es0 @ [e]"] Cons.prems(3,4) by auto
qed

lemma in_order_start: "opened_writer s \<Longrightarrow> in_order [] [] s"
  using pushed_start [of s] by (simp add: in_order_def opened_writer_def accepted_def)

section \<open>The window's ceiling\<close>

definition window_bounded :: "'w Writer \<Rightarrow> bool" where
  "window_bounded s \<longleftrightarrow>
     length (mw_window s) \<le> reorder_window_max_packets (mw_config s) \<and>
     mw_peak_window_packets s \<le> Suc (reorder_window_max_packets (mw_config s))"

lemma Push_bounded:
  assumes "Push io e s = (True, s')" "pushed es out s" "\<forall>x \<in> set (es @ [e]). unat (track_num x) < 2 ^ 32"
    "window_bounded s"
  shows "window_bounded s'"
proof (cases "bytes e = []")
  case True
  then show ?thesis using Push_ok [OF assms(1-3)] assms(4) by simp
next
  case False
  then obtain dn rest where d: "drained False (Enqueue e s) s' dn rest"
    using Push_ok [OF assms(1-3)] by auto
  have "rest \<noteq> [] \<longrightarrow> length rest \<le> reorder_window_max_packets (mw_config s)"
    using d by (auto simp: drained_def may_emit_def Enqueue_frame)
  then have "length rest \<le> reorder_window_max_packets (mw_config s)" by (cases rest) auto
  then show ?thesis
    using d assms(4) by (simp add: drained_def same_control_def Enqueue_frame window_bounded_def)
qed

lemma PushAll_bounded:
  assumes "PushAll io es s = (True, s')" "pushed es0 out s" "\<forall>x \<in> set (es0 @ es). unat (track_num x) < 2 ^ 32"
    "window_bounded s"
  shows "window_bounded s'"
  using assms
proof (induction es arbitrary: s es0 out)
  case (Cons e es)
  obtain s1 where p: "Push io e s = (True, s1)" and rest: "PushAll io es s1 = (True, s')"
    using Cons.prems(1) by (auto split: prod.splits if_splits)
  have one: "\<forall>x \<in> set (es0 @ [e]). unat (track_num x) < 2 ^ 32" using Cons.prems(3) by auto
  obtain out1 where "pushed (es0 @ [e]) out1 s1"
    using Push_ok [OF p Cons.prems(2) one] by (auto split: if_splits)
  then show ?case
    using Cons.IH [OF rest] Push_bounded [OF p Cons.prems(2) one Cons.prems(4)] Cons.prems(3) by fastforce
qed simp

section \<open>A concrete recording\<close>

text \<open>Every operation succeeds; the world is the file position.\<close>

definition demo_io :: "u64 Io" where
  "demo_io =
     \<lparr>io_tell = (\<lambda>w. (Some w, w)), io_add_frame = (\<lambda>b w. (True, w)), io_render = (\<lambda>c w. (True, w + 64)),
      io_cluster_position = (\<lambda>w. (w, w)), io_trailer = (\<lambda>t w. (True, w + 8)), io_flush = (\<lambda>w. (Flushed, w)),
      io_close = (\<lambda>w. (True, w)), io_now_ms = (\<lambda>w. (0, w))\<rparr>"

definition demo_stream_config :: MatroskaStreamConfig where
  "demo_stream_config = \<lparr>reorder_window_ns = 20000000, reorder_window_max_packets = 4, frame_rate_num = 60,
     frame_rate_den = 1, audio_track_count = 1, reserve_content_light_level = False\<rparr>"

definition demo_writer :: "u64 Writer" where
  "demo_writer =
     \<lparr>mw_world = 100, mw_config = demo_stream_config, mw_io_open = True, mw_window = [],
      mw_max_pushed_pts_ns = 0, mw_cluster = None, mw_first_cluster = True, mw_cluster_start_ms = 0,
      mw_pending_cue_ms = [], mw_cues = [], mw_max_emitted_pts_ns = 0, mw_opened = True,
      mw_finalized = False, mw_failed = False, mw_peak_window_packets = 0, mw_peak_window_bytes = 0,
      mw_cur_window_bytes = 0, mw_bytes_written = 0, mw_flush_count = 0, mw_last_flush = None,
      mw_durability_flush_count = 0, mw_progress = [], mw_segment_data_start = 60,
      mw_light_levels_reserved = False, mw_measured_max_cll = 0, mw_measured_max_fall = 0,
      mw_rendered = []\<rparr>"

definition demo_packets :: "MuxPacket list" where
  "demo_packets =
     [\<lparr>pts_ns = 16000000, track_num = 1, is_key = True, bytes = [1]\<rparr>,
      \<lparr>pts_ns = 5000000, track_num = 2, is_key = False, bytes = [2]\<rparr>,
      \<lparr>pts_ns = 9000000, track_num = 2, is_key = False, bytes = [3]\<rparr>]"

lemma demo_pushes: "PushAll demo_io demo_packets demo_writer = (True, snd (PushAll demo_io demo_packets demo_writer))"
  by (rule prod_eqI) (simp_all, code_simp)

lemma demo_finalize:
  "Finalize demo_io (snd (PushAll demo_io demo_packets demo_writer)) =
     (True, snd (Finalize demo_io (snd (PushAll demo_io demo_packets demo_writer))))"
  by (rule prod_eqI) (simp_all, code_simp)

lemma demo_opened: "opened_writer demo_writer"
  by (simp add: opened_writer_def demo_writer_def)

lemma demo_tracks: "\<forall>x \<in> set demo_packets. unat (track_num x) < 2 ^ 32"
  by (simp add: demo_packets_def)

lemma demo_timely: "timely (mw_config demo_writer) (accepted demo_packets)"
  by (auto simp: timely_def accepted_def demo_packets_def demo_writer_def demo_stream_config_def
      less_Suc_eq nth_Cons' numeral_3_eq_3)

section \<open>Properties\<close>





text \<open>The reorder window never holds more packets than its ceiling after a push, and never more than one above it.\<close>

theorem reorder_window_bounded:
  assumes "opened_writer s" "PushAll io es s = (True, s1)" "\<forall>x \<in> set es. unat (track_num x) < 2 ^ 32"
  shows "length (mw_window s1) \<le> reorder_window_max_packets (mw_config s1) \<and>
         mw_peak_window_packets s1 \<le> Suc (reorder_window_max_packets (mw_config s1))"
proof -
  have "window_bounded s" using assms(1) by (simp add: window_bounded_def opened_writer_def)
  then show ?thesis
    using PushAll_bounded [OF assms(2) pushed_start [OF assms(1)]] assms(3) by (simp add: window_bounded_def)
qed

theorem reorder_window_bounded_witness:
  "length (mw_window (snd (PushAll demo_io demo_packets demo_writer))) \<le>
   reorder_window_max_packets (mw_config (snd (PushAll demo_io demo_packets demo_writer)))"
  using reorder_window_bounded [OF demo_opened demo_pushes demo_tracks] by simp

text \<open>The values published while the trailer is back-patched never fall, wherever the file position goes.\<close>

theorem progress_never_falls:
  assumes "progress_ok s"
  shows "progress_ok (snd (WriteTrailer io s)) \<and>
         (\<exists>news. mw_progress (snd (WriteTrailer io s)) = news @ mw_progress s) \<and>
         mw_rendered (snd (WriteTrailer io s)) = mw_rendered s"
  using WriteTrailer_kept [of s io] assms by (simp add: trailer_kept_def same_file_def)

theorem progress_never_falls_witness:
  "progress_ok (snd (WriteTrailer demo_io demo_writer))"
  using progress_never_falls [of demo_writer demo_io] by (simp add: progress_ok_def demo_writer_def)

end
