(* ===== verification/MatroskaHeader.thy ===== *)
theory MatroskaHeader
  imports MatroskaGuarantees
begin

text \<open>
  Opening the streaming Matroska writer (\<open>Open\<close> in \<^verbatim>\<open>matroska_stream_writer.cpp\<close>): the checks on the
  codec set-up and the header elements it hands to libebml, as a tree of named elements with
  their values. Floating-point values (the mastering display) are an opaque type \<open>'f\<close>; the sampling
  frequency, a converted integer, keeps the integer.
\<close>

section \<open>Data\<close>

datatype 'f element =
  UIntE string u64 | TextE string string | BytesE string "u8 list" | FloatE string 'f
| FloatOfE string u64 | MasterE string "'f element list"

datatype StreamAudioCodec = Aac | Opus | Pcm | Flac

record StreamAudioTrack =
  codec_private :: "u8 list"
  codec_delay_samples :: u32
  track_name :: string

record 'f ColorMetadata =
  primaries :: u64
  transfer :: u64
  matrix :: u64
  range :: u64
  bits_per_channel :: u32
  hdr :: bool
  max_content_light_level :: u32
  max_frame_average_light_level :: u32
  mastering_display :: "'f list option"

text \<open>The fields of the configuration only the header uses; the arrays of three tracks as a list.\<close>

record 'f HeaderConfig = MatroskaStreamConfig +
  webm :: bool
  video_codec_id :: string
  video_codec_private :: "u8 list"
  encode_width :: u32
  encode_height :: u32
  color :: "'f ColorMetadata"
  chroma_420 :: bool
  opus_frame_samples :: u32
  audio_codec :: StreamAudioCodec
  audio_tracks :: "StreamAudioTrack list"
  audio_sample_rate :: u32
  audio_channels :: u32
  audio_bit_depth :: u32
  audio_float :: bool

section \<open>The elements\<close>

definition ebml_head :: "'f HeaderConfig \<Rightarrow> 'f element option" where
  "ebml_head cfg =
     (if webm cfg then
        if video_codec_id cfg \<noteq> ''V_AV1'' \<or> audio_codec cfg = Aac \<or> audio_codec cfg = Pcm \<or> audio_codec cfg = Flac
        then None
        else Some (MasterE ''EbmlHead''
               [TextE ''DocType'' ''webm'', UIntE ''DocTypeVersion'' 2, UIntE ''DocTypeReadVersion'' 2])
      else Some (MasterE ''EbmlHead''
             [TextE ''DocType'' ''matroska'', UIntE ''DocTypeVersion'' 4, UIntE ''DocTypeReadVersion'' 2]))"

definition segment_info :: "'f element" where
  "segment_info =
     MasterE ''Info''
       [UIntE ''TimecodeScale'' kTimecodeScaleNs, TextE ''MuxingApp'' ''exosnap'',
        TextE ''WritingApp'' ''exosnap'', FloatOfE ''Duration'' 0]"

text \<open>
  The light levels: reserved as zeros when they are measured, else written when known; and whether
  the reservation was made.
\<close>

definition light_level_elements :: "'f HeaderConfig \<Rightarrow> 'f element list" where
  "light_level_elements cfg =
     (if \<not> hdr (color cfg) then []
      else if reserve_content_light_level cfg then [UIntE ''MaxCLL'' 0, UIntE ''MaxFALL'' 0]
      else (if max_content_light_level (color cfg) > 0
            then [UIntE ''MaxCLL'' (ucast (max_content_light_level (color cfg)))] else []) @
           (if max_frame_average_light_level (color cfg) > 0
            then [UIntE ''MaxFALL'' (ucast (max_frame_average_light_level (color cfg)))] else []))"

definition light_levels_reserved :: "'f HeaderConfig \<Rightarrow> bool" where
  "light_levels_reserved cfg \<longleftrightarrow> hdr (color cfg) \<and> reserve_content_light_level cfg"

definition mastering_names :: "string list" where
  "mastering_names =
     [''RChromaX'', ''RChromaY'', ''GChromaX'', ''GChromaY'', ''BChromaX'', ''BChromaY'', ''WhitePointChromaX'',
      ''WhitePointChromaY'', ''LuminanceMax'', ''LuminanceMin'']"

definition colour_element :: "'f HeaderConfig \<Rightarrow> 'f element" where
  "colour_element cfg =
     (let c = color cfg
      in MasterE ''Colour''
           ([UIntE ''Primaries'' (primaries c), UIntE ''TransferCharacter'' (transfer c),
             UIntE ''Matrix'' (matrix c), UIntE ''Range'' (range c),
             UIntE ''BitsPerChannel'' (ucast (bits_per_channel c))] @
            (if chroma_420 cfg then [UIntE ''ChromaSitHorz'' 1, UIntE ''ChromaSitVert'' 2] else []) @
            light_level_elements cfg @
            (case mastering_display c of
               None \<Rightarrow> []
             | Some vs \<Rightarrow> [MasterE ''MasterMeta'' (map2 FloatE mastering_names vs)])))"

definition video_entry :: "'f HeaderConfig \<Rightarrow> 'f element" where
  "video_entry cfg =
     MasterE ''TrackEntry''
       ([UIntE ''TrackNumber'' 1, UIntE ''TrackUID'' 1, UIntE ''TrackType'' 1, UIntE ''FlagEnabled'' 1,
         UIntE ''FlagDefault'' 1, UIntE ''FlagLacing'' 0, TextE ''CodecID'' (video_codec_id cfg)] @
        (if video_codec_private cfg \<noteq> [] then [BytesE ''CodecPrivate'' (video_codec_private cfg)] else []) @
        [MasterE ''Video''
           [UIntE ''PixelWidth'' (ucast (encode_width cfg)), UIntE ''PixelHeight'' (ucast (encode_height cfg)),
            colour_element cfg]] @
        (if frame_rate_num cfg > 0 \<and> frame_rate_den cfg > 0
         then [UIntE ''DefaultDuration'' (ucast (frame_rate_den cfg) * 1000000000 div ucast (frame_rate_num cfg))]
         else []))"

text \<open>The codec elements of an audio track; \<open>None\<close>: its codec private data is refused.\<close>

definition audio_codec_elements :: "'f HeaderConfig \<Rightarrow> StreamAudioTrack \<Rightarrow> 'f element list option" where
  "audio_codec_elements cfg t =
     (let slot = codec_private t in
      case audio_codec cfg of
        Opus \<Rightarrow>
          if length slot < 19 then None
          else let pre_skip = (ucast (slot ! 10) :: u16) OR push_bit 8 (ucast (slot ! 11))
               in Some [TextE ''CodecID'' ''A_OPUS'', BytesE ''CodecPrivate'' slot,
                        UIntE ''CodecDelay'' (ucast pre_skip * 1000000000 div 48000),
                        UIntE ''SeekPreRoll'' 80000000,
                        UIntE ''DefaultDuration'' (ucast (max 1 (opus_frame_samples cfg)) * 1000000000 div 48000)]
      | Pcm \<Rightarrow> Some [TextE ''CodecID'' (if audio_float cfg then ''A_PCM/FLOAT/IEEE'' else ''A_PCM/INT/LIT'')]
      | Flac \<Rightarrow>
          if length slot < 4 \<or> slot ! 0 \<noteq> 0x66 \<or> slot ! 1 \<noteq> 0x4C \<or> slot ! 2 \<noteq> 0x61 \<or> slot ! 3 \<noteq> 0x43 then None
          else Some [TextE ''CodecID'' ''A_FLAC'', BytesE ''CodecPrivate'' slot]
      | Aac \<Rightarrow>
          Some ([TextE ''CodecID'' ''A_AAC''] @
                (if slot \<noteq> [] then [BytesE ''CodecPrivate'' slot] else []) @
                [UIntE ''DefaultDuration'' (1024 * 1000000000 div ucast (max 1 (audio_sample_rate cfg)))] @
                (if codec_delay_samples t > 0
                 then [UIntE ''CodecDelay''
                         (ucast (codec_delay_samples t) * 1000000000 div ucast (max 1 (audio_sample_rate cfg)))]
                 else [])))"

definition audio_entry :: "'f HeaderConfig \<Rightarrow> nat \<Rightarrow> 'f element option" where
  "audio_entry cfg i =
     (let t = audio_tracks cfg ! i; number = of_nat (2 + i)
      in case audio_codec_elements cfg t of
           None \<Rightarrow> None
         | Some codec \<Rightarrow>
             Some (MasterE ''TrackEntry''
               ([UIntE ''TrackNumber'' number, UIntE ''TrackUID'' number, UIntE ''TrackType'' 2,
                 UIntE ''FlagLacing'' 0, UIntE ''FlagDefault'' (if i = 0 then 1 else 0)] @
                (if track_name t \<noteq> [] then [TextE ''Name'' (track_name t)] else []) @ codec @
                [MasterE ''Audio''
                   ([FloatOfE ''SamplingFreq'' (ucast (audio_sample_rate cfg)),
                     UIntE ''Channels'' (ucast (audio_channels cfg))] @
                    (if audio_codec cfg = Pcm \<or> audio_codec cfg = Flac
                     then [UIntE ''BitDepth'' (ucast (audio_bit_depth cfg))] else []))])))"

fun collect :: "'a option list \<Rightarrow> 'a list option" where
  "collect [] = Some []"
| "collect (None # xs) = None"
| "collect (Some x # xs) = map_option ((#) x) (collect xs)"

text \<open>The track entries, in the order of their numbers.\<close>

definition track_entries :: "'f HeaderConfig \<Rightarrow> 'f element list option" where
  "track_entries cfg =
     map_option ((#) (video_entry cfg))
       (collect (map (audio_entry cfg) [0..<unat (audio_track_count cfg)]))"

section \<open>Open\<close>

text \<open>The file and the rendering of the header, as functions of the world.\<close>

record ('f, 'w) Opener =
  op_open :: "'w \<Rightarrow> bool \<times> 'w"
  op_render_head :: "'f element \<Rightarrow> 'w \<Rightarrow> bool \<times> 'w"
  op_segment_start :: "'w \<Rightarrow> u64 option \<times> 'w"
  op_render_tracks :: "'f element list \<Rightarrow> 'w \<Rightarrow> bool \<times> 'w"

definition abort :: "'w Io \<Rightarrow> 'w Writer \<Rightarrow> bool \<times> 'w Writer" where
  "abort io s = (False, CloseIo io (set_failed s))"

definition Open :: "('f, 'w) Opener \<Rightarrow> 'w Io \<Rightarrow> 'f HeaderConfig \<Rightarrow> 'w Writer \<Rightarrow> bool \<times> 'w Writer" where
  "Open op io cfg s =
     (if mw_opened s then (False, set_failed s) else
      let s = s\<lparr>mw_config := MatroskaStreamConfig.truncate cfg, mw_opened := True\<rparr>;
          (created, w) = op_open op (mw_world s); s = s\<lparr>mw_world := w, mw_io_open := created\<rparr>
      in if \<not> created then (False, set_failed s) else
      case ebml_head cfg of None \<Rightarrow> abort io s | Some head \<Rightarrow>
      let (rendered, w) = op_render_head op head (mw_world s); s = s\<lparr>mw_world := w\<rparr>
      in if \<not> rendered then abort io s else
      let (start, w) = op_segment_start op (mw_world s); s = s\<lparr>mw_world := w\<rparr>
      in case start of None \<Rightarrow> abort io s | Some pos \<Rightarrow>
      let s = s\<lparr>mw_segment_data_start := pos, mw_light_levels_reserved := light_levels_reserved cfg\<rparr>
      in case track_entries cfg of None \<Rightarrow> abort io s | Some entries \<Rightarrow>
      let (rendered, w) = op_render_tracks op (segment_info # entries) (mw_world s); s = s\<lparr>mw_world := w\<rparr>
      in if \<not> rendered then abort io s else (True, s))"

text \<open>The writer as constructed.\<close>

definition new_writer :: "MatroskaStreamConfig \<Rightarrow> 'w \<Rightarrow> 'w Writer" where
  "new_writer cfg w =
     \<lparr>mw_world = w, mw_config = cfg, mw_io_open = False, mw_window = [],
      mw_max_pushed_pts_ns = 0, mw_cluster = None, mw_first_cluster = True, mw_cluster_start_ms = 0,
      mw_pending_cue_ms = [], mw_cues = [], mw_max_emitted_pts_ns = 0, mw_opened = False,
      mw_finalized = False, mw_failed = False, mw_peak_window_packets = 0, mw_peak_window_bytes = 0,
      mw_cur_window_bytes = 0, mw_bytes_written = 0, mw_flush_count = 0, mw_last_flush = None,
      mw_durability_flush_count = 0, mw_progress = [], mw_segment_data_start = 0,
      mw_light_levels_reserved = False, mw_measured_max_cll = 0, mw_measured_max_fall = 0,
      mw_rendered = []\<rparr>"

section \<open>Properties\<close>

fun element_uint :: "string \<Rightarrow> 'f element list \<Rightarrow> u64 option" where
  "element_uint n [] = None"
| "element_uint n (UIntE m v # es) = (if n = m then Some v else element_uint n es)"
| "element_uint n (_ # es) = element_uint n es"

fun children :: "'f element \<Rightarrow> 'f element list" where
  "children (MasterE _ es) = es"
| "children _ = []"

lemma collect_Some: "collect xs = Some ys \<Longrightarrow> xs = map Some ys"
  by (induction xs arbitrary: ys rule: collect.induct) auto

lemma audio_entry_number:
  "audio_entry cfg i = Some e \<Longrightarrow> element_uint ''TrackNumber'' (children e) = Some (of_nat (2 + i))"
  by (auto simp: audio_entry_def Let_def split: option.splits)

lemma track_entries_shape:
  assumes "track_entries cfg = Some es"
  shows "length es = 1 + unat (audio_track_count cfg) \<and> es ! 0 = video_entry cfg \<and>
    (\<forall>i < unat (audio_track_count cfg). audio_entry cfg i = Some (es ! Suc i))"
proof -
  obtain as where a: "collect (map (audio_entry cfg) [0..<unat (audio_track_count cfg)]) = Some as"
    and es: "es = video_entry cfg # as"
    using assms by (auto simp: track_entries_def)
  have m: "map (audio_entry cfg) [0..<unat (audio_track_count cfg)] = map Some as"
    using collect_Some [OF a] .
  then have len: "length as = unat (audio_track_count cfg)" by (metis length_map length_upt minus_nat.diff_0)
  have "audio_entry cfg i = Some (as ! i)" if "i < unat (audio_track_count cfg)" for i
    using arg_cong [OF m, of "\<lambda>l. l ! i"] that len by simp
  then show ?thesis using len es by simp
qed

text \<open>
  A block lands in the track it was pushed for. For a header that was accepted, every track
  number below \<open>2^32\<close> that \<open>EmitPacket\<close> does not skip selects the entry whose \<^verbatim>\<open>TrackNumber\<close> is that
  number, and exactly the numbers of the header's tracks are not skipped.
\<close>

theorem blocks_reach_their_track:
  assumes "track_entries cfg = Some entries" "unat t < 2 ^ 32"
  shows "(case track_entry (MatroskaStreamConfig.truncate cfg) t of
            None \<Rightarrow> t = 0 \<or> unat t > 1 + unat (audio_track_count cfg)
          | Some i \<Rightarrow> unat i < length entries \<and>
                      element_uint ''TrackNumber'' (children (entries ! unat i)) = Some t)"
proof -
  note sh = track_entries_shape [OF assms(1)]
  have count: "audio_track_count (MatroskaStreamConfig.truncate cfg) = audio_track_count cfg"
    by (simp add: MatroskaStreamConfig.truncate_def)
  consider "t = 0" | "t = 1" | (audio) "t \<noteq> 0" "t \<noteq> 1" by blast
  then show ?thesis
  proof cases
    case 1
    then show ?thesis by (simp add: track_entry_def)
  next
    case 2
    then show ?thesis using sh by (simp add: track_entry_def video_entry_def)
  next
    case audio
    have "unat t \<noteq> 0" "unat t \<noteq> 1" using audio by (simp_all add: word_unat_eq_iff)
    then have ge: "2 \<le> unat t" by linarith
    then have "unat (t - 2) = unat t - 2" using unat_sub [of 2 t] by (simp add: word_le_nat_alt)
    then have "unat (ucast (t - 2) :: u32) = unat t - 2"
      using assms(2) by (simp add: unsigned_ucast_eq take_bit_nat_eq_self)
    then have idx: "unat (ucast (t - 2) + 1 :: u32) = unat t - 1"
      using ge assms(2) by (simp add: unat_word_ariths)
    show ?thesis
    proof (cases "unat t - 1 \<ge> 1 + unat (audio_track_count cfg)")
      case True
      then show ?thesis using audio idx by (simp add: track_entry_def count Let_def)
    next
      case False
      have "audio_entry cfg (unat t - 2) = Some (entries ! Suc (unat t - 2))"
        using sh False ge by auto
      then have "element_uint ''TrackNumber'' (children (entries ! Suc (unat t - 2))) = Some (of_nat (2 + (unat t - 2)))"
        by (rule audio_entry_number)
      moreover have "Suc (unat t - 2) = unat t - 1" "2 + (unat t - 2) = unat t" using ge by linarith+
      ultimately have "element_uint ''TrackNumber'' (children (entries ! (unat t - 1))) = Some t"
        by simp
      then show ?thesis using False audio idx sh by (simp add: track_entry_def count Let_def)
    qed
  qed
qed

definition demo_color :: "unit ColorMetadata" where
  "demo_color = \<lparr>primaries = 9, transfer = 16, matrix = 9, range = 1, bits_per_channel = 10, hdr = True,
     max_content_light_level = 0, max_frame_average_light_level = 0, mastering_display = None\<rparr>"

definition opus_head :: "u8 list" where
  "opus_head = [0x4F, 0x70, 0x75, 0x73, 0x48, 0x65, 0x61, 0x64, 1, 2, 0x38, 1, 0x80, 0xBB, 0, 0, 0, 0, 0]"

definition demo_header_config :: "unit HeaderConfig" where
  "demo_header_config =
     \<lparr>reorder_window_ns = 20000000, reorder_window_max_packets = 4, frame_rate_num = 60, frame_rate_den = 1,
      audio_track_count = 2, reserve_content_light_level = True, webm = True, video_codec_id = ''V_AV1'',
      video_codec_private = [], encode_width = 1920, encode_height = 1080, color = demo_color,
      chroma_420 = True, opus_frame_samples = 960, audio_codec = Opus,
      audio_tracks = replicate 3 \<lparr>codec_private = opus_head, codec_delay_samples = 0, track_name = []\<rparr>,
      audio_sample_rate = 48000, audio_channels = 2, audio_bit_depth = 16, audio_float = False\<rparr>"

lemma demo_entries: "track_entries demo_header_config = Some (the (track_entries demo_header_config))"
proof -
  have "\<not> Option.is_none (track_entries demo_header_config)" by code_simp
  then show ?thesis by (simp add: Option.is_none_def)
qed

theorem blocks_reach_their_track_witness:
  "element_uint ''TrackNumber'' (children (the (track_entries demo_header_config) ! 2)) = Some 3"
proof -
  have "track_entry (MatroskaStreamConfig.truncate demo_header_config) 3 = Some 2"
    by (simp add: track_entry_def demo_header_config_def MatroskaStreamConfig.truncate_def)
  then show ?thesis
    using blocks_reach_their_track [OF demo_entries, of 3] by simp
qed

text \<open>
  Opening either fails with the file closed and the writer failed, or leaves a writer ready for
  its first packet; and a WebM header is only ever produced for AV1 video with Opus audio.
\<close>

theorem open_outcome:
  "let (ok, s) = Open op io cfg (new_writer c w)
   in if ok then opened_writer s \<and> mw_config s = MatroskaStreamConfig.truncate cfg \<and> mw_io_open s \<and>
         mw_light_levels_reserved s = light_levels_reserved cfg \<and>
         (if webm cfg then video_codec_id cfg = ''V_AV1'' \<and> audio_codec cfg = Opus else True)
      else mw_failed s \<and> \<not> mw_io_open s"
proof -
  have ab: "\<not> fst (abort io s) \<and> mw_failed (snd (abort io s)) \<and> \<not> mw_io_open (snd (abort io s))" for s
    by (auto simp: abort_def CloseIo_def set_failed_def Let_def split: prod.split)
  have allow: "ebml_head cfg \<noteq> None \<Longrightarrow> webm cfg \<Longrightarrow> video_codec_id cfg = ''V_AV1'' \<and> audio_codec cfg = Opus"
    by (cases "audio_codec cfg") (auto simp: ebml_head_def split: if_splits)
  show ?thesis
    using ab allow
    by (auto simp: Open_def new_writer_def opened_writer_def set_failed_def Let_def case_prod_beta split: option.split)
qed

end
