(* ===== verification/Versions.thy ===== *)
theory Versions
  imports Prelude "HOL-Library.Product_Lexorder"
begin

text \<open>
  Semantic versions of the update strand: \<^verbatim>\<open>SemVer\<close> with its precedence and printer
  (\<^verbatim>\<open>libs/update/include/update/update_types.h\<close>) and the parser
  (\<^verbatim>\<open>libs/update/src/semver.cpp\<close>), together with the standard library's decimal conversions
  they call: \<^verbatim>\<open>std::to_string\<close> and \<^verbatim>\<open>std::from_chars\<close> on \<^verbatim>\<open>uint32_t\<close>.
\<close>

section \<open>Decimal numbers\<close>

definition digit_char :: "nat \<Rightarrow> char" where
  "digit_char d = char_of (48 + d)"

definition is_digit :: "char \<Rightarrow> bool" where
  "is_digit c \<longleftrightarrow> 48 \<le> (of_char c :: nat) \<and> (of_char c :: nat) \<le> 57"

definition digit_value :: "char \<Rightarrow> nat" where
  "digit_value c = of_char c - 48"

fun to_string :: "nat \<Rightarrow> string" where
  "to_string n = (if n < 10 then [digit_char n] else to_string (n div 10) @ [digit_char (n mod 10)])"

declare to_string.simps [simp del]

definition decimal_value :: "string \<Rightarrow> nat" where
  "decimal_value s = foldl (\<lambda>n c. n * 10 + digit_value c) 0 s"

text \<open>
  \<^verbatim>\<open>std::from_chars(p, end, uint32_t&)\<close>: the longest run of digits, no sign and no white space;
  an empty run or a value out of range is an error, and then nothing is consumed.
\<close>

definition from_chars_u32 :: "string \<Rightarrow> (u32 \<times> string) option" where
  "from_chars_u32 s =
     (let ds = takeWhile is_digit s; n = decimal_value ds in
      if ds = [] \<or> 2 ^ 32 \<le> n then None else Some (of_nat n, dropWhile is_digit s))"

lemma of_char_digit_char: "d < 10 \<Longrightarrow> (of_char (digit_char d) :: nat) = 48 + d"
  by (simp add: digit_char_def)

lemma is_digit_digit_char [simp]: "d < 10 \<Longrightarrow> is_digit (digit_char d)"
  by (simp add: is_digit_def of_char_digit_char)

lemma digit_value_digit_char [simp]: "d < 10 \<Longrightarrow> digit_value (digit_char d) = d"
  by (simp add: digit_value_def of_char_digit_char)

lemma decimal_value_snoc [simp]: "decimal_value (s @ [c]) = decimal_value s * 10 + digit_value c"
  by (simp add: decimal_value_def)

lemma decimal_value_Nil [simp]: "decimal_value [] = 0"
  by (simp add: decimal_value_def)

lemma to_string_digits: "\<forall>c\<in>set (to_string n). is_digit c"
proof (induction n rule: to_string.induct)
  case (1 n)
  then show ?case
    by (subst to_string.simps) auto
qed

lemma decimal_value_to_string [simp]: "decimal_value (to_string n) = n"
proof (induction n rule: to_string.induct)
  case (1 n)
  show ?case
  proof (cases "n < 10")
    case True
    then show ?thesis
      using decimal_value_snoc [of "[]"] by (simp add: to_string.simps [of n])
  next
    case False
    then show ?thesis
      using 1 by (simp add: to_string.simps [of n])
  qed
qed

lemma to_string_not_Nil [simp]: "to_string n \<noteq> []"
  by (subst to_string.simps) simp

text \<open>The first character after a number is not a digit.\<close>

definition number_ends :: "string \<Rightarrow> bool" where
  "number_ends s = (case s of [] \<Rightarrow> True | c # s' \<Rightarrow> \<not> is_digit c)"

lemma number_ends_simps [simp]: "number_ends []" "number_ends (c # s) \<longleftrightarrow> \<not> is_digit c"
  by (simp_all add: number_ends_def)

lemma takeWhile_number:
  "number_ends s \<Longrightarrow> takeWhile is_digit (to_string n @ s) = to_string n"
  "number_ends s \<Longrightarrow> dropWhile is_digit (to_string n @ s) = s"
  using to_string_digits [of n]
  by (auto simp: number_ends_def takeWhile_append2 dropWhile_append2 split: list.splits)

lemma from_chars_to_string:
  "number_ends s \<Longrightarrow> from_chars_u32 (to_string (unat w) @ s) = Some (w, s)"
  using unsigned_less [of w, where 'a = nat] by (simp add: from_chars_u32_def Let_def takeWhile_number)

section \<open>Versions\<close>

record SemVer =
  major :: u32
  minor :: u32
  patch :: u32
  is_prerelease :: bool
  prerelease_number :: u32

definition final_version :: "u32 \<Rightarrow> u32 \<Rightarrow> u32 \<Rightarrow> SemVer" where
  "final_version x y z = \<lparr>major = x, minor = y, patch = z, is_prerelease = False, prerelease_number = 0\<rparr>"

definition semver_less :: "SemVer \<Rightarrow> SemVer \<Rightarrow> bool" where
  "semver_less v w =
     (if major v \<noteq> major w then major v < major w
      else if minor v \<noteq> minor w then minor v < minor w
      else if patch v \<noteq> patch w then patch v < patch w
      else if is_prerelease v \<noteq> is_prerelease w then is_prerelease v
      else if \<not> is_prerelease v then False
      else prerelease_number v < prerelease_number w)"

definition semver_le :: "SemVer \<Rightarrow> SemVer \<Rightarrow> bool" where
  "semver_le v w \<longleftrightarrow> \<not> semver_less w v"

definition SemVerToString :: "SemVer \<Rightarrow> string" where
  "SemVerToString v =
     (let s = to_string (unat (major v)) @ ''.'' @ to_string (unat (minor v)) @ ''.'' @ to_string (unat (patch v)) in
      if is_prerelease v then s @ ''-rc'' @ to_string (unat (prerelease_number v)) else s)"

text \<open>The part of the parser behind the patch number.\<close>

definition ParsePrerelease :: "SemVer \<Rightarrow> string \<Rightarrow> SemVer" where
  "ParsePrerelease v s =
     (case s of
        CHR ''-'' # s1 \<Rightarrow>
          (let v = v\<lparr>is_prerelease := True\<rparr> in
           case s1 of
             CHR ''r'' # CHR ''c'' # s2 \<Rightarrow>
               (case from_chars_u32 s2 of Some (n, _) \<Rightarrow> v\<lparr>prerelease_number := n\<rparr> | None \<Rightarrow> v)
           | _ \<Rightarrow> v)
      | _ \<Rightarrow> v)"

definition expect_dot :: "string \<Rightarrow> string option" where
  "expect_dot s = (case s of CHR ''.'' # s' \<Rightarrow> Some s' | _ \<Rightarrow> None)"

definition ParseSemVer :: "string \<Rightarrow> SemVer option" where
  "ParseSemVer s =
     Option.bind (from_chars_u32 s) (\<lambda>(x, s).
     Option.bind (expect_dot s) (\<lambda>s.
     Option.bind (from_chars_u32 s) (\<lambda>(y, s).
     Option.bind (expect_dot s) (\<lambda>s.
     Option.bind (from_chars_u32 s) (\<lambda>(z, s).
       Some (ParsePrerelease (final_version x y z) s))))))"

section \<open>Precedence\<close>

text \<open>
  The precedence as a key: number fields first, then candidates before the final release, then
  the ordinal of the candidate.
\<close>

definition semver_key :: "SemVer \<Rightarrow> u32 \<times> u32 \<times> u32 \<times> bool \<times> u32" where
  "semver_key v = (major v, minor v, patch v, \<not> is_prerelease v,
     if is_prerelease v then prerelease_number v else 0)"

lemma semver_less_key: "semver_less v w \<longleftrightarrow> semver_key v < semver_key w"
  by (auto simp: semver_less_def semver_key_def)

lemma semver_le_key: "semver_le v w \<longleftrightarrow> semver_key v \<le> semver_key w"
  by (simp add: semver_le_def semver_less_key not_less)

lemma semver_less_irrefl [simp]: "\<not> semver_less v v"
  by (simp add: semver_less_key)

lemma semver_less_trans: "semver_less u v \<Longrightarrow> semver_less v w \<Longrightarrow> semver_less u w"
  by (simp add: semver_less_key)

lemma semver_less_asym: "semver_less v w \<Longrightarrow> \<not> semver_less w v"
  by (simp add: semver_less_key)

lemma semver_le_less_trans: "\<not> semver_less v u \<Longrightarrow> semver_less v w \<Longrightarrow> semver_less u w"
  by (simp add: semver_less_key)

lemma semver_less_le_trans: "semver_less u v \<Longrightarrow> \<not> semver_less w v \<Longrightarrow> semver_less u w"
  by (simp add: semver_less_key)

text \<open>What the parser returns carries an ordinal only for a candidate.\<close>

definition canonical :: "SemVer \<Rightarrow> bool" where
  "canonical v \<longleftrightarrow> is_prerelease v \<or> prerelease_number v = 0"

lemma semver_key_inj: "canonical v \<Longrightarrow> canonical w \<Longrightarrow> semver_key v = semver_key w \<longleftrightarrow> v = w"
  by (cases v, cases w) (auto simp: canonical_def semver_key_def split: if_splits)

lemma canonical_ParsePrerelease: "canonical v \<Longrightarrow> canonical (ParsePrerelease v s)"
  by (auto simp: ParsePrerelease_def canonical_def Let_def split: list.splits char.splits bool.splits option.splits)

lemma canonical_final_version [simp]: "canonical (final_version x y z)"
  by (simp add: canonical_def final_version_def)

lemma canonical_ParseSemVer: "ParseSemVer s = Some v \<Longrightarrow> canonical v"
  by (auto simp: ParseSemVer_def bind_eq_Some_conv intro: canonical_ParsePrerelease)

text \<open>
  Precedence orders the versions the parser can return totally, by number fields first;
  every candidate of a version comes before its final release, and candidates come in the order
  of their ordinals.
\<close>

theorem release_precedence:
  assumes "ParseSemVer s = Some v" "ParseSemVer t = Some w"
  shows "(semver_less v w \<longleftrightarrow> semver_key v < semver_key w)
    \<and> (v = w \<or> semver_less v w \<or> semver_less w v)
    \<and> \<not> (semver_less v w \<and> semver_less w v)
    \<and> (major v = major w \<and> minor v = minor w \<and> patch v = patch w \<longrightarrow>
         semver_less v w \<longleftrightarrow>
           is_prerelease v \<and> (\<not> is_prerelease w \<or> prerelease_number v < prerelease_number w))"
proof -
  have "canonical v" "canonical w"
    using assms by (simp_all add: canonical_ParseSemVer)
  then have "v = w \<or> semver_less v w \<or> semver_less w v"
    using semver_key_inj [of v w] by (auto simp: semver_less_key)
  then show ?thesis
    using semver_less_asym [of v w] by (auto simp: semver_less_key) (auto simp: semver_key_def)
qed

theorem release_precedence_witness:
  "semver_less (the (ParseSemVer ''0.9.0-rc4'')) (the (ParseSemVer ''0.9.0''))"
proof -
  have *: "ParseSemVer ''0.9.0-rc4'' = Some \<lparr>major = 0, minor = 9, patch = 0, is_prerelease = True, prerelease_number = 4\<rparr>"
    "ParseSemVer ''0.9.0'' = Some (final_version 0 9 0)"
    by (simp_all add: ParseSemVer_def from_chars_u32_def is_digit_def decimal_value_def digit_value_def
        expect_dot_def ParsePrerelease_def final_version_def)
  then show ?thesis
    using release_precedence [OF *] by (simp add: final_version_def semver_key_def)
qed

section \<open>Printing and parsing\<close>

lemma from_chars_to_string_end: "from_chars_u32 (to_string (unat w)) = Some (w, [])"
  using from_chars_to_string [of "[]"] by simp

lemma not_digit_separators [simp]: "\<not> is_digit (CHR ''.'')" "\<not> is_digit (CHR ''-'')"
  by (simp_all add: is_digit_def)

lemma expect_dot_simp [simp]: "expect_dot (CHR ''.'' # s) = Some s"
  by (simp add: expect_dot_def)

lemma ParsePrerelease_rc:
  "ParsePrerelease v (CHR ''-'' # CHR ''r'' # CHR ''c'' # to_string (unat n)) =
     v\<lparr>is_prerelease := True, prerelease_number := n\<rparr>"
  using from_chars_to_string [of "[]" n] by (simp add: ParsePrerelease_def)

text \<open>
  Parsing a printed version returns it: every version the strand can hold survives being
  printed into a tag and read back, the ordinal of a candidate included.
\<close>

theorem semver_roundtrip:
  "ParseSemVer (SemVerToString v) =
     Some (if is_prerelease v then v else v\<lparr>prerelease_number := 0\<rparr>)"
proof -
  have "ParsePrerelease v' [] = v'" for v'
    by (simp add: ParsePrerelease_def)
  then show ?thesis
    by (cases v) (simp add: ParseSemVer_def SemVerToString_def Let_def from_chars_to_string from_chars_to_string_end
        ParsePrerelease_rc final_version_def)
qed

end
