(* ===== verification/AudioTracks.thy ===== *)
theory AudioTracks
  imports Versions
begin

text \<open>
  Audio sources and the tracks they resolve to, \<^verbatim>\<open>libs/engine/src/audio_track_model.cpp\<close>: the
  rows a capture target can serve, their grouping into tracks, the track names, and the check that
  the mux's positional slots match the plan.

  Gains are an opaque type \<open>'f\<close>; \<open>to_linear\<close> is the decibel conversion of \<^verbatim>\<open>GainDbToLinear\<close> and
  \<open>silence\<close> its value for a muted row.
\<close>

section \<open>Rows and tracks\<close>

datatype AudioSourceKind = SourceApp | SourceMic | SourceSys | SourceSystemOutput

record 'f AudioSourceRow =
  row_kind :: AudioSourceKind
  row_enabled :: bool
  merge_with_above :: bool
  gain_db :: 'f
  row_muted :: bool

record 'f ResolvedAudioTrack =
  sources :: "AudioSourceKind list"
  source_gain_linear :: "'f list"
  track_index :: nat

record 'f gain_model =
  to_linear :: "'f \<Rightarrow> 'f"
  silence :: 'f

definition GainDbToLinear :: "'f gain_model \<Rightarrow> 'f \<Rightarrow> bool \<Rightarrow> 'f" where
  "GainDbToLinear gm gain muted = (if muted then silence gm else to_linear gm gain)"

definition AudioSourceKindBit :: "AudioSourceKind \<Rightarrow> u32" where
  "AudioSourceKindBit k = push_bit (case k of SourceApp \<Rightarrow> 0 | SourceMic \<Rightarrow> 1 | SourceSys \<Rightarrow> 2 | SourceSystemOutput \<Rightarrow> 3) 1"

section \<open>Rows of a target\<close>

text \<open>\<^verbatim>\<open>std::erase_if\<close> with the flag: the first system output survives.\<close>

fun keep_first_output :: "bool \<Rightarrow> 'f AudioSourceRow list \<Rightarrow> 'f AudioSourceRow list" where
  "keep_first_output seen [] = []"
| "keep_first_output seen (r # rows) =
     (if row_kind r \<noteq> SourceSystemOutput then r # keep_first_output seen rows
      else if seen then keep_first_output True rows
      else r # keep_first_output True rows)"

definition NormalizeSourceRowsForTarget :: "'f AudioSourceRow list \<Rightarrow> bool \<Rightarrow> 'f AudioSourceRow list" where
  "NormalizeSourceRowsForTarget rows window_target =
     (if window_target then rows
      else keep_first_output False
             (map (\<lambda>r. if row_kind r = SourceSys then r\<lparr>row_kind := SourceSystemOutput\<rparr> else r)
               (filter (\<lambda>r. row_kind r \<noteq> SourceApp) rows)))"

section \<open>Resolution\<close>

definition resolve_row ::
    "'f gain_model \<Rightarrow> 'f AudioSourceRow \<Rightarrow> 'f ResolvedAudioTrack list \<Rightarrow> 'f ResolvedAudioTrack list" where
  "resolve_row gm row tracks =
     (let gain = GainDbToLinear gm (gain_db row) (row_muted row) in
      if \<not> row_enabled row then tracks
      else if tracks = [] \<or> \<not> merge_with_above row
      then tracks @ [\<lparr>sources = [row_kind row], source_gain_linear = [gain], track_index = length tracks\<rparr>]
      else butlast tracks @
        [(last tracks)\<lparr>sources := sources (last tracks) @ [row_kind row],
                       source_gain_linear := source_gain_linear (last tracks) @ [gain]\<rparr>])"

definition ResolveAudioTracks :: "'f gain_model \<Rightarrow> 'f AudioSourceRow list \<Rightarrow> 'f ResolvedAudioTrack list" where
  "ResolveAudioTracks gm rows = fold (resolve_row gm) rows []"

definition AudioSourceKindDisplayName :: "AudioSourceKind \<Rightarrow> string" where
  "AudioSourceKindDisplayName k = (case k of
       SourceApp \<Rightarrow> ''Application'' | SourceMic \<Rightarrow> ''Microphone'' | SourceSys \<Rightarrow> ''System''
     | SourceSystemOutput \<Rightarrow> ''System'')"

definition DeriveAudioTrackName :: "'f ResolvedAudioTrack \<Rightarrow> string" where
  "DeriveAudioTrackName t =
     fold (\<lambda>k name. (if name \<noteq> [] then name @ '' + '' else name) @ AudioSourceKindDisplayName k) (sources t) []"

text \<open>An empty answer accepts the plan.\<close>

definition DescribeInvalidTrackIndices :: "'f ResolvedAudioTrack list \<Rightarrow> nat \<Rightarrow> string" where
  "DescribeInvalidTrackIndices tracks max_tracks =
     (if tracks = [] then []
      else if max_tracks < length tracks
      then ''audio_track_plan has '' @ to_string (length tracks) @ '' tracks; at most '' @ to_string max_tracks @
           '' are supported''
      else case find (\<lambda>(position, t). track_index t \<noteq> position) (List.enumerate 0 tracks) of
        None \<Rightarrow> []
      | Some (position, t) \<Rightarrow>
          ''audio_track_plan track at position '' @ to_string position @ '' carries track_index '' @
          to_string (track_index t) @
          ''; indices must be dense and ascending from 0 (the mux's per-track slots are positional, so a '' @
          ''gap leaves a slot nobody ever fills and the mux waits for a header that never arrives)'')"

section \<open>What resolution keeps\<close>

definition plan_ok :: "'f ResolvedAudioTrack list \<Rightarrow> bool" where
  "plan_ok tracks \<longleftrightarrow> map track_index tracks = [0..<length tracks] \<and>
     (\<forall>t \<in> set tracks. sources t \<noteq> [] \<and> length (source_gain_linear t) = length (sources t))"

lemma resolve_row_plan:
  assumes "plan_ok tracks"
  shows "plan_ok (resolve_row gm row tracks)"
    and "concat (map sources (resolve_row gm row tracks)) =
      concat (map sources tracks) @ (if row_enabled row then [row_kind row] else [])"
    and "concat (map source_gain_linear (resolve_row gm row tracks)) =
      concat (map source_gain_linear tracks) @
        (if row_enabled row then [GainDbToLinear gm (gain_db row) (row_muted row)] else [])"
proof -
  have split: "tracks \<noteq> [] \<Longrightarrow> tracks = butlast tracks @ [last tracks]"
    by simp
  have index: "tracks \<noteq> [] \<Longrightarrow> map track_index (butlast tracks) @ [track_index (last tracks)] = [0..<length tracks]"
    using assms by (metis append_butlast_last_id list.simps(8) list.simps(9) map_append plan_ok_def)
  have parts: "tracks \<noteq> [] \<Longrightarrow> concat (map f tracks) = concat (map f (butlast tracks)) @ f (last tracks)"
    for f :: "'a ResolvedAudioTrack \<Rightarrow> 'b list"
    by (subst split) (simp_all del: append_butlast_last_id)
  show "plan_ok (resolve_row gm row tracks)"
    using assms index by (auto simp: plan_ok_def resolve_row_def Let_def dest: in_set_butlastD)
  show "concat (map sources (resolve_row gm row tracks)) =
      concat (map sources tracks) @ (if row_enabled row then [row_kind row] else [])"
    "concat (map source_gain_linear (resolve_row gm row tracks)) =
      concat (map source_gain_linear tracks) @
        (if row_enabled row then [GainDbToLinear gm (gain_db row) (row_muted row)] else [])"
    using parts [of sources] parts [of source_gain_linear] by (auto simp: resolve_row_def Let_def)
qed

lemma resolve_rows_plan:
  assumes "plan_ok tracks"
  shows "plan_ok (fold (resolve_row gm) rows tracks) \<and>
    concat (map sources (fold (resolve_row gm) rows tracks)) =
      concat (map sources tracks) @ map row_kind (filter row_enabled rows) \<and>
    concat (map source_gain_linear (fold (resolve_row gm) rows tracks)) =
      concat (map source_gain_linear tracks) @
        map (\<lambda>r. GainDbToLinear gm (gain_db r) (row_muted r)) (filter row_enabled rows)"
  using assms
proof (induction rows arbitrary: tracks)
  case Nil
  then show ?case
    by simp
next
  case (Cons r rows)
  then show ?case
    using resolve_row_plan [OF Cons.prems, of gm r] by simp
qed

lemma plan_ok_accepted:
  assumes "plan_ok tracks" "length tracks \<le> max_tracks"
  shows "DescribeInvalidTrackIndices tracks max_tracks = []"
proof -
  have index: "track_index (tracks ! i) = i" if "i < length tracks" for i
    using assms(1) that by (metis add.left_neutral length_map nth_map nth_upt plan_ok_def)
  have "find (\<lambda>(position, t). track_index t \<noteq> position) (List.enumerate 0 tracks) = None"
    by (auto simp: find_None_iff in_set_enumerate_eq index)
  then show ?thesis
    using assms(2) by (simp add: DescribeInvalidTrackIndices_def)
qed

text \<open>
  Every enabled row ends in exactly one track, in row order and with its gain; no track is empty;
  and the plan passes the check on positional indices as soon as it has no more tracks than slots.
\<close>

theorem resolved_tracks_carry_every_source:
  "concat (map sources (ResolveAudioTracks gm rows)) = map row_kind (filter row_enabled rows)"
  "concat (map source_gain_linear (ResolveAudioTracks gm rows)) =
     map (\<lambda>r. GainDbToLinear gm (gain_db r) (row_muted r)) (filter row_enabled rows)"
  "length (ResolveAudioTracks gm rows) \<le> n \<Longrightarrow> DescribeInvalidTrackIndices (ResolveAudioTracks gm rows) n = []"
  using resolve_rows_plan [of "[]" gm rows] plan_ok_accepted
  by (auto simp: ResolveAudioTracks_def plan_ok_def)

lemma keep_first_output_kinds:
  "set (keep_first_output seen rows) \<subseteq> set rows"
  "length (filter (\<lambda>r. row_kind r = SourceSystemOutput) (keep_first_output seen rows)) \<le> (if seen then 0 else 1)"
  "filter (\<lambda>r. row_kind r \<noteq> SourceSystemOutput) (keep_first_output seen rows) =
     filter (\<lambda>r. row_kind r \<noteq> SourceSystemOutput) rows"
  by (induction seen rows rule: keep_first_output.induct) (auto split: if_splits)

text \<open>Without a window there is no process: no row asks for one, and no audio is captured twice.\<close>

theorem targets_without_a_window:
  "row_kind r \<notin> {SourceApp, SourceSys}" if "r \<in> set (NormalizeSourceRowsForTarget rows False)"
  using that keep_first_output_kinds(1) by (fastforce simp: NormalizeSourceRowsForTarget_def split: if_splits)

theorem one_system_output:
  "length (filter (\<lambda>r. row_kind r = SourceSystemOutput) (NormalizeSourceRowsForTarget rows False)) \<le> 1"
  using keep_first_output_kinds(2) [of False] by (simp add: NormalizeSourceRowsForTarget_def)

end
