(* ===== verification/EpochAlign.thy ===== *)
theory EpochAlign
  imports Prelude
begin

text \<open>
  Alignment of the audio timeline with the video timeline and placement of a packet on its
  segment's own timeline, \<^verbatim>\<open>libs/engine/src/av_epoch_align.h\<close>.

  An \<^verbatim>\<open>int64_t\<close> is an integer here, converted from a \<^verbatim>\<open>uint64_t\<close> by its two's complement value; the
  source's signed arithmetic is exact, its overflow undefined.
\<close>

section \<open>Epochs\<close>

definition kMaxAudioEpochShiftNs :: int where
  "kMaxAudioEpochShiftNs = 5000000000"

definition AudioEpochNsFromPacket :: "u64 \<Rightarrow> u64 \<Rightarrow> u32 \<Rightarrow> u64" where
  "AudioEpochNsFromPacket packet_qpc_ns frames_on_timeline sample_rate =
     (if sample_rate = 0 then 0
      else let elapsed_ns = frames_on_timeline * 1000000000 div ucast sample_rate in
        if packet_qpc_ns \<le> elapsed_ns then 0 else packet_qpc_ns - elapsed_ns)"

definition epoch_difference_ns :: "u64 \<Rightarrow> u64 \<Rightarrow> int" where
  "epoch_difference_ns audio_epoch video_epoch = (sint audio_epoch - sint video_epoch) * 100"

definition IsPlausibleAudioEpoch :: "u64 \<Rightarrow> u64 \<Rightarrow> int \<Rightarrow> bool" where
  "IsPlausibleAudioEpoch audio_epoch video_epoch max_abs_ns =
     (if audio_epoch = 0 then False
      else let shift = epoch_difference_ns audio_epoch video_epoch in
        shift \<le> max_abs_ns \<and> - max_abs_ns \<le> shift)"

definition AudioTimelineShiftNs :: "u64 \<Rightarrow> u64 \<Rightarrow> int \<Rightarrow> int" where
  "AudioTimelineShiftNs audio_epoch video_epoch max_abs_ns =
     (let shift = epoch_difference_ns audio_epoch video_epoch in
      if max_abs_ns < shift then max_abs_ns else if shift < - max_abs_ns then - max_abs_ns else shift)"

definition ClampedVfrVideoEpochTicks100ns :: "int \<Rightarrow> u64 \<Rightarrow> int" where
  "ClampedVfrVideoEpochTicks100ns first_frame_ticks session_start_qpc =
     (let session_start = (if 2 ^ 63 - 1 < uint session_start_qpc then 2 ^ 63 - 1 else sint session_start_qpc) in
      if first_frame_ticks \<le> session_start then session_start else first_frame_ticks)"

section \<open>Placement\<close>

text \<open>\<open>None\<close>: the packet lies before the video epoch and is dropped.\<close>

definition ShiftAudioPts :: "u64 \<Rightarrow> int \<Rightarrow> u64 option" where
  "ShiftAudioPts pts shift_ns =
     (let shifted = sint pts + shift_ns in if shifted < 0 then None else Some (of_int shifted))"

datatype SegmentPlacement = PlaceWrite u64 | PlaceDefer | PlaceTrim

definition PlaceOnSegmentTimeline :: "u64 \<Rightarrow> bool \<Rightarrow> u64 \<Rightarrow> SegmentPlacement" where
  "PlaceOnSegmentTimeline pts epoch_is_set epoch_session_pts =
     (if \<not> epoch_is_set then PlaceDefer
      else if pts < epoch_session_pts then PlaceTrim
      else PlaceWrite (pts - epoch_session_pts))"

section \<open>What the arithmetic gives\<close>

lemma AudioTimelineShift_bounded:
  "0 \<le> m \<Longrightarrow> \<bar>AudioTimelineShiftNs a v m\<bar> \<le> m"
  by (auto simp: AudioTimelineShiftNs_def Let_def)

lemma AudioTimelineShift_plausible:
  "IsPlausibleAudioEpoch a v m \<Longrightarrow> AudioTimelineShiftNs a v m = epoch_difference_ns a v"
  by (auto simp: IsPlausibleAudioEpoch_def AudioTimelineShiftNs_def Let_def split: if_split_asm)

lemma sint_small:
  assumes "uint (p :: u64) < 2 ^ 63"
  shows "sint p = uint p"
proof -
  have "signed_take_bit 63 (uint p) = uint p"
    using assms uint_nonnegative [of p] by (intro signed_take_bit_int_eq_self) linarith+
  then show ?thesis
    by (simp add: sint_uint)
qed

lemma ShiftAudioPts_exact:
  assumes "ShiftAudioPts p d = Some q" "sint p + d < 2 ^ 64"
  shows "uint q = sint p + d"
proof -
  have "0 \<le> sint p + d" "q = word_of_int (sint p + d)"
    using assms(1) by (simp_all add: ShiftAudioPts_def Let_def split: if_split_asm)
  then show ?thesis
    using assms(2) by (simp only: uint_word_of_int take_bit_int_eq_self)
      (simp add: take_bit_int_eq_self)
qed

lemma Place_write:
  assumes "PlaceOnSegmentTimeline p b e = PlaceWrite l"
  shows "b" "e \<le> p" "uint l = uint p - uint e"
proof -
  show b: "b" "e \<le> p"
    using assms by (auto simp: PlaceOnSegmentTimeline_def split: if_split_asm)
  show "uint l = uint p - uint e"
    using assms b by (simp add: PlaceOnSegmentTimeline_def uint_minus_simple_alt word_le_def split: if_split_asm)
qed

text \<open>
  A measured epoch: moving the packet back by the frames already on the timeline gives the instant
  of the first frame, whenever that instant lies after the origin of the counter.
\<close>

lemma AudioEpoch_measured:
  assumes "sample_rate \<noteq> 0" "unat frames * 1000000000 < 2 ^ 64"
    "unat frames * 1000000000 div unat sample_rate < unat qpc"
  shows "unat (AudioEpochNsFromPacket qpc frames sample_rate) =
    unat qpc - unat frames * 1000000000 div unat sample_rate"
proof -
  have "unat sample_rate < 2 ^ 64"
    using unsigned_less [of sample_rate, where 'a = nat] by simp
  then have rate: "take_bit 64 (unat sample_rate) = unat sample_rate"
    by (simp add: take_bit_nat_eq_self)
  have "unat (frames * 1000000000 div ucast sample_rate :: u64) = unat frames * 1000000000 div unat sample_rate"
    using assms(2) rate by (simp add: unat_div unat_mult_lem [THEN iffD1] unsigned_ucast_eq take_bit_nat_eq_self
        unat_word_ariths)
  then show ?thesis
    using assms by (simp add: AudioEpochNsFromPacket_def Let_def word_le_nat_alt unat_sub)
qed

end
