(* ===== verification/Paths.thy ===== *)
theory Paths
  imports Versions
begin

text \<open>
  Path arithmetic of \<^verbatim>\<open>std::filesystem\<close> on Windows, as far as the program uses it: the two
  separators, joining, and the parts of the last component.
\<close>

definition is_separator :: "char \<Rightarrow> bool" where
  "is_separator c \<longleftrightarrow> c = CHR 0x5C \<or> c = CHR ''/''"

text \<open>\<^verbatim>\<open>fs::path::operator/\<close> with a relative right side.\<close>

definition path_join :: "string \<Rightarrow> string \<Rightarrow> string" where
  "path_join a b =
     (if a = [] then b else if is_separator (List.last a) then a @ b else a @ [CHR 0x5C] @ b)"

definition path_filename :: "string \<Rightarrow> string" where
  "path_filename p = rev (takeWhile (\<lambda>c. \<not> is_separator c) (rev p))"

text \<open>The separators before the last component belong to neither, unless they are the root.\<close>

definition path_parent :: "string \<Rightarrow> string" where
  "path_parent p =
     (let front = dropWhile (\<lambda>c. \<not> is_separator c) (rev p);
          trimmed = dropWhile is_separator front in
      rev (if trimmed = [] \<or> hd trimmed = CHR '':'' then take 1 front @ trimmed else trimmed))"

text \<open>The extension starts at the last dot of the last component, unless that is its first character.\<close>

definition path_extension :: "string \<Rightarrow> string" where
  "path_extension p =
     (let f = path_filename p; tail = takeWhile (\<lambda>c. c \<noteq> CHR ''.'') (rev f) in
      if f = ''..'' \<or> length f \<le> Suc (length tail) then [] else CHR ''.'' # rev tail)"

definition path_stem :: "string \<Rightarrow> string" where
  "path_stem p = (let f = path_filename p in take (length f - length (path_extension p)) f)"

lemma path_filename_join:
  "\<forall>c \<in> set b. \<not> is_separator c \<Longrightarrow> path_filename (path_join a b) = b"
proof -
  assume b: "\<forall>c \<in> set b. \<not> is_separator c"
  have sep: "is_separator (CHR 0x5C)"
    by (simp add: is_separator_def)
  have "takeWhile (\<lambda>c. \<not> is_separator c) (rev b) = rev b"
    using b by (simp add: takeWhile_eq_all_conv)
  then have all: "rev (takeWhile (\<lambda>c. \<not> is_separator c) (rev b)) = b"
    by (simp only: rev_rev_ident)
  show ?thesis
  proof (cases "a = []")
    case True
    then show ?thesis
      by (simp add: path_filename_def path_join_def all)
  next
    case False
    then obtain a' x where "a = a' @ [x]"
      by (metis rev_exhaust)
    then show ?thesis
      using b sep by (auto simp: path_filename_def path_join_def takeWhile_append)
  qed
qed

end
