(* ===== verification/SegmentPaths.thy ===== *)
theory SegmentPaths
  imports Paths Prelude
begin

text \<open>
  Where the segments of a split recording go: \<open>DeriveSegmentPath\<close> and the partial-file names of
  \<^verbatim>\<open>libs/engine/src/recorder_session.cpp\<close>. The existence probe is a function of the world that
  answers with an error code, 0 for none.
\<close>

section \<open>Partial files\<close>

definition DeriveValuablePartialPath :: "string \<Rightarrow> string" where
  "DeriveValuablePartialPath final_path = path_join (path_parent final_path) (path_filename final_path @ ''.partial'')"

definition DeriveTransientMkvPath :: "string \<Rightarrow> string" where
  "DeriveTransientMkvPath mp4_path =
     (if path_extension mp4_path = ''.partial'' then mp4_path else DeriveValuablePartialPath mp4_path)"

section \<open>Segments\<close>

text \<open>\<^verbatim>\<open>%03u\<close>, for the part numbers that fit the buffer of the source (below ten million).\<close>

definition three_digits :: "nat \<Rightarrow> string" where
  "three_digits n = (let s = to_string n in replicate (3 - length s) (CHR ''0'') @ s)"

definition segment_candidate :: "string \<Rightarrow> u32 \<Rightarrow> nat \<Rightarrow> string" where
  "segment_candidate base index d =
     (let name = path_stem base @ ''_part-'' @ three_digits (unat (index + 1)) @
            (if 0 < d then ''_'' @ to_string d else []) @ path_extension base in
      if path_parent base = [] then name else path_join (path_parent base) name)"

datatype SegmentPathResult = PathOk string | PathFail u32 string

definition kMaxDisambiguator :: nat where
  "kMaxDisambiguator = 10000"

definition ERROR_ALREADY_EXISTS :: u32 where
  "ERROR_ALREADY_EXISTS = 183"

type_synonym 'w exists_probe = "'w \<Rightarrow> string \<Rightarrow> bool \<times> u32 \<times> 'w"

text \<open>The candidates from disambiguator \<open>d\<close> on.\<close>

function probe_candidates ::
    "'w exists_probe \<Rightarrow> (u32 \<Rightarrow> string) \<Rightarrow> string \<Rightarrow> (nat \<Rightarrow> string) \<Rightarrow> nat \<Rightarrow> 'w \<Rightarrow> SegmentPathResult \<times> 'w" where
  "probe_candidates probe error_message base compose d w =
     (if d < kMaxDisambiguator then
        case probe w (compose d) of (candidate_exists, ec, w) \<Rightarrow>
          if ec \<noteq> 0
          then (PathFail ec (''failed to probe segment path for collision: '' @ compose d @ '': '' @ error_message ec), w)
          else if \<not> candidate_exists then (PathOk (compose d), w)
          else probe_candidates probe error_message base compose (d + 1) w
      else
        (PathFail ERROR_ALREADY_EXISTS
           (''segment path collision limit ('' @ to_string kMaxDisambiguator @
            '' candidates) exhausted for base: '' @ base), w))"
  by pat_completeness auto
termination
  by (relation "measure (\<lambda>(_, _, _, _, d, _). kMaxDisambiguator - d)") auto

declare probe_candidates.simps [simp del]

definition DeriveSegmentPath ::
    "'w exists_probe \<Rightarrow> (u32 \<Rightarrow> string) \<Rightarrow> string \<Rightarrow> u32 \<Rightarrow> 'w \<Rightarrow> SegmentPathResult \<times> 'w" where
  "DeriveSegmentPath probe error_message base index w =
     (if index = 0 then (PathOk base, w)
      else probe_candidates probe error_message base (segment_candidate base index) 0 w)"

section \<open>Only a free path is returned\<close>

lemma probe_candidates_ok:
  "probe_candidates probe msg base compose d w = (PathOk p, w') \<Longrightarrow>
   \<exists>d < kMaxDisambiguator. \<exists>v. p = compose d \<and> probe v p = (False, 0, w')"
proof (induction probe msg base compose d w rule: probe_candidates.induct)
  case (1 probe msg base compose d w)
  show ?case
    using 1 probe_candidates.simps [of probe msg base compose d w] by (auto split: prod.splits if_splits)
qed

text \<open>
  A later segment is written only to a path the last probe found free.
\<close>

lemma derived_path_is_free:
  assumes "DeriveSegmentPath probe msg base index w = (PathOk p, w')" "index \<noteq> 0"
  shows "\<exists>d < kMaxDisambiguator. \<exists>v. p = segment_candidate base index d \<and> probe v p = (False, 0, w')"
  using assms probe_candidates_ok by (fastforce simp: DeriveSegmentPath_def)

end
