(* ===== verification/MuxThread.thy ===== *)
theory MuxThread
  imports AvcConfig HevcConfig MatroskaHeader AudioTracks EpochAlign SegmentPaths
begin

text \<open>
  The muxer of a recording, \<^verbatim>\<open>libs/engine/src/mux_thread.cpp\<close>: it takes encoded packets and split
  sentinels from a queue, aligns the audio with the video, places every packet on the timeline of its
  segment and drives one Matroska writer per segment.

  What other threads do between two steps is in the world and in the rounds: the atomics the
  muxer loads are functions of the world, a round of the main loop lists the items found in the queue
  and the failures other threads had recorded when the loop looked. Counters for diagnostics and log
  lines are left out. \<open>fates\<close>, \<open>written\<close> and \<open>closed\<close> are ghosts: what became of each audio
  packet, what the current writer accepted, and the writers already finalized.
\<close>

section \<open>Data\<close>

datatype VideoCodec = Av1 | H264 | Hevc
datatype AudioCodec = CodecAac | CodecOpus | CodecPcm | CodecFlac
datatype Container = WebM | Matroska | Mp4

record EncodedVideoPacket =
  ev_bytes :: "u8 list"
  ev_pts :: u64
  ev_key :: bool

record EncodedAudioPacket =
  ea_bytes :: "u8 list"
  ea_pts :: u64
  ea_track :: u32

datatype SplitTriggerSource = AutomaticDuration | AutomaticSize | ManualButton | Hotkey

datatype MuxPayload =
  VideoPacket EncodedVideoPacket | AudioPacket EncodedAudioPacket | VideoEos | AudioEos u32
| SplitAt u32 SplitTriggerSource

record AudioCodecPrivateSlot =
  slot_bytes :: "u8 list"
  slot_delay_samples :: u32

record CodecPrivateData =
  av1_codec_private :: "u8 list"
  av1_ready :: bool
  h264_sps_pps :: "u8 list"
  h264_ready :: bool
  hevc_vps_sps_pps :: "u8 list"
  hevc_ready :: bool
  audio_codec_private :: "AudioCodecPrivateSlot list"
  audio_track_ready :: "bool list"

definition kMaxAudioTracks :: nat where
  "kMaxAudioTracks = 3"

definition VideoReady :: "CodecPrivateData \<Rightarrow> VideoCodec \<Rightarrow> bool" where
  "VideoReady d codec = (case codec of H264 \<Rightarrow> h264_ready d | Hevc \<Rightarrow> hevc_ready d | Av1 \<Rightarrow> av1_ready d)"

definition AudioAllReady :: "CodecPrivateData \<Rightarrow> nat \<Rightarrow> bool" where
  "AudioAllReady d track_count =
     (if track_count = 0 then True else if kMaxAudioTracks < track_count then False
      else list_all (\<lambda>i. audio_track_ready d ! i) [0..<track_count])"

datatype ErrorPhase = PhaseNone | PhasePrepare | PhaseVideoCapture | PhaseVideoEncode | PhaseAudioCapture
| PhaseAudioEncode | PhaseMux | PhaseFinalize | PhaseShutdown

record SessionFailure =
  error_code :: u32
  error_phase :: ErrorPhase
  error_detail :: string

record CompletedSegment =
  cs_path :: string
  cs_session_start_ms :: u64
  cs_duration_ms :: u64
  cs_file_size :: u64
  cs_index :: u32
  cs_succeeded :: bool
  cs_session_end :: bool

text \<open>What the muxer reads of the session's configuration.\<close>

record 'f RecorderConfig =
  rc_output_path :: string
  rc_path_pre_reserved :: bool
  rc_container :: Container
  rc_video_codec :: VideoCodec
  rc_audio_codec :: AudioCodec
  rc_frame_rate_num :: u32
  rc_frame_rate_den :: u32
  rc_color :: "'f ColorMetadata"
  rc_chroma_420 :: bool
  rc_opus_frame_samples :: u32
  rc_audio_plan :: "'f ResolvedAudioTrack list"
  rc_audio_sample_rate :: u32
  rc_audio_channels :: u32
  rc_audio_bit_depth :: u32
  rc_audio_pcm_float :: bool
  rc_split_size_bytes :: u64

record ('f, 'w) mux_env =
  me_io :: "'w Io"
  me_opener :: "string \<Rightarrow> bool \<Rightarrow> ('f, 'w) Opener"
  me_path_exists :: "'w exists_probe"
  me_error_message :: "u32 \<Rightarrow> string"
  me_writer_error :: "'w Writer \<Rightarrow> string"
  me_video_epoch :: "'w \<Rightarrow> u64 \<times> 'w"
  me_audio_epoch :: "u32 \<Rightarrow> 'w \<Rightarrow> u64 \<times> 'w"
  me_session_start :: u64
  me_light_levels :: "'w \<Rightarrow> (u32 \<times> u32) \<times> 'w"
  me_file_size :: "'w \<Rightarrow> string \<Rightarrow> u64"
  me_request_size_split :: "'w \<Rightarrow> 'w"

text \<open>One writer configuration for all segments.\<close>

record 'f mux_config =
  mc_codec :: VideoCodec
  mc_base_path :: string
  mc_pre_reserved :: bool
  mc_split_size :: u64
  mc_delays :: "u64 list"
  mc_template :: "'f HeaderConfig"

datatype AudioFate = FateWritten | FateTrimmed | FateEarly | FateBadTrack | FateLost

record 'w mux =
  seg_writer :: "'w Writer option"
  idle_world :: 'w
  seg_path :: string
  seg_index :: u32
  seg_epoch :: u64
  seg_epoch_set :: bool
  seg_max_local :: u64
  write_error :: bool
  any_segment_opened :: bool
  epoch_resolved :: bool
  video_epoch_100ns :: u64
  pending_audio :: "EncodedAudioPacket list"
  audio_shift :: "int option list"
  segment_pending_audio :: "EncodedAudioPacket list"
  trimmed_audio_packets :: u64
  aligned_audio_end :: "u64 list"
  size_split_armed :: bool
  failure :: "SessionFailure option"
  reports :: "CompletedSegment list"
  fates :: "(EncodedAudioPacket \<times> AudioFate) list"
  written :: "MuxPacket list"
  closed :: "(bool \<times> MuxPacket list \<times> 'w Writer) list"

section \<open>World and failures\<close>

definition world_of :: "'w mux \<Rightarrow> 'w" where
  "world_of s = (case seg_writer s of None \<Rightarrow> idle_world s | Some wr \<Rightarrow> mw_world wr)"

definition set_world :: "'w \<Rightarrow> 'w mux \<Rightarrow> 'w mux" where
  "set_world w s = (case seg_writer s of
       None \<Rightarrow> s\<lparr>idle_world := w\<rparr> | Some wr \<Rightarrow> s\<lparr>seg_writer := Some (wr\<lparr>mw_world := w\<rparr>)\<rparr>)"

definition load :: "('w \<Rightarrow> 'a \<times> 'w) \<Rightarrow> 'w mux \<Rightarrow> 'a \<times> 'w mux" where
  "load f s = (case f (world_of s) of (x, w) \<Rightarrow> (x, set_world w s))"

text \<open>The first failure wins.\<close>

definition note_failure :: "SessionFailure option \<Rightarrow> 'w mux \<Rightarrow> 'w mux" where
  "note_failure f s = (if failure s = None then s\<lparr>failure := f\<rparr> else s)"

definition RecordFailure :: "u32 \<Rightarrow> ErrorPhase \<Rightarrow> string \<Rightarrow> 'w mux \<Rightarrow> 'w mux" where
  "RecordFailure code phase detail =
     note_failure (Some \<lparr>error_code = code, error_phase = phase, error_detail = detail\<rparr>)"

definition E_FAIL :: u32 where "E_FAIL = 0x80004005"
definition E_INVALIDARG :: u32 where "E_INVALIDARG = 0x80070057"
definition ERROR_OPEN_FAILED :: u32 where "ERROR_OPEN_FAILED = 110"

definition HRESULT_FROM_WIN32 :: "u32 \<Rightarrow> u32" where
  "HRESULT_FROM_WIN32 x = (if x <=s 0 then x else (x AND 0xFFFF) OR 0x80070000)"

section \<open>Configuration of the writers\<close>

definition stream_audio_codec :: "AudioCodec \<Rightarrow> StreamAudioCodec" where
  "stream_audio_codec c = (case c of
       CodecOpus \<Rightarrow> Opus | CodecPcm \<Rightarrow> Pcm | CodecFlac \<Rightarrow> Flac | CodecAac \<Rightarrow> Aac)"

text \<open>The decoder configuration of the video track; \<open>Inl\<close>: why it cannot be built.\<close>

definition video_private :: "VideoCodec \<Rightarrow> CodecPrivateData \<Rightarrow> string + u8 list" where
  "video_private codec d = (case codec of
       H264 \<Rightarrow> (case BuildAvccFromAnnexBSpsAndPps (h264_sps_pps d) of
          None \<Rightarrow> Inl ''Failed to build AVCC from H.264 SPS/PPS for Matroska'' | Some b \<Rightarrow> Inr b)
     | Hevc \<Rightarrow> (case BuildHvccFromAnnexBVpsSpsPps (hevc_vps_sps_pps d) of
          None \<Rightarrow> Inl ''Failed to build hvcC from HEVC VPS/SPS/PPS for Matroska'' | Some b \<Rightarrow> Inr b)
     | Av1 \<Rightarrow> Inr (av1_codec_private d))"

definition stream_track :: "'f RecorderConfig \<Rightarrow> CodecPrivateData \<Rightarrow> nat \<Rightarrow> nat \<Rightarrow> StreamAudioTrack" where
  "stream_track rc d track_count i =
     (if i < track_count
      then \<lparr>codec_private = slot_bytes (audio_codec_private d ! i),
            codec_delay_samples = slot_delay_samples (audio_codec_private d ! i),
            track_name = (if i < length (rc_audio_plan rc) then DeriveAudioTrackName (rc_audio_plan rc ! i) else [])\<rparr>
      else \<lparr>codec_private = [], codec_delay_samples = 0, track_name = []\<rparr>)"

definition stream_config ::
    "'f RecorderConfig \<Rightarrow> CodecPrivateData \<Rightarrow> nat \<Rightarrow> u8 list \<Rightarrow> u32 \<Rightarrow> u32 \<Rightarrow> 'f HeaderConfig" where
  "stream_config rc d track_count video enc_w enc_h =
     \<lparr>reorder_window_ns = 3000000000, reorder_window_max_packets = 4096,
      frame_rate_num = rc_frame_rate_num rc, frame_rate_den = rc_frame_rate_den rc,
      audio_track_count = of_nat track_count, reserve_content_light_level = hdr (rc_color rc),
      webm = (rc_container rc = WebM),
      video_codec_id = (case rc_video_codec rc of
        H264 \<Rightarrow> ''V_MPEG4/ISO/AVC'' | Hevc \<Rightarrow> ''V_MPEGH/ISO/HEVC'' | Av1 \<Rightarrow> ''V_AV1''),
      video_codec_private = video, encode_width = enc_w, encode_height = enc_h, color = rc_color rc,
      chroma_420 = rc_chroma_420 rc, opus_frame_samples = rc_opus_frame_samples rc,
      audio_codec = stream_audio_codec (rc_audio_codec rc),
      audio_tracks = map (stream_track rc d track_count) [0..<kMaxAudioTracks],
      audio_sample_rate = rc_audio_sample_rate rc, audio_channels = rc_audio_channels rc,
      audio_bit_depth = rc_audio_bit_depth rc, audio_float = rc_audio_pcm_float rc\<rparr>"

definition codec_delay_ns :: "'f RecorderConfig \<Rightarrow> CodecPrivateData \<Rightarrow> nat \<Rightarrow> u64" where
  "codec_delay_ns rc d i =
     ucast (slot_delay_samples (audio_codec_private d ! i)) * 1000000000 div
     ucast (max 1 (rc_audio_sample_rate rc))"

definition mux_settings ::
    "'f RecorderConfig \<Rightarrow> CodecPrivateData \<Rightarrow> nat \<Rightarrow> u8 list \<Rightarrow> u32 \<Rightarrow> u32 \<Rightarrow> 'f mux_config" where
  "mux_settings rc d track_count video enc_w enc_h =
     \<lparr>mc_codec = rc_video_codec rc, mc_base_path = rc_output_path rc, mc_pre_reserved = rc_path_pre_reserved rc,
      mc_split_size = rc_split_size_bytes rc,
      mc_delays = map (\<lambda>i. if i < track_count then codec_delay_ns rc d i else 0) [0..<kMaxAudioTracks],
      mc_template = stream_config rc d track_count video enc_w enc_h\<rparr>"

definition frame_dur_ns :: "'f mux_config \<Rightarrow> u64" where
  "frame_dur_ns cfg =
     (let num = frame_rate_num (mc_template cfg); den = frame_rate_den (mc_template cfg) in
      if 0 < num \<and> 0 < den then ucast den * 1000000000 div ucast num else 0)"

section \<open>Segments\<close>

definition initial_mux :: "'w \<Rightarrow> 'w mux" where
  "initial_mux w =
     \<lparr>seg_writer = None, idle_world = w, seg_path = [], seg_index = 0, seg_epoch = 0, seg_epoch_set = False,
      seg_max_local = 0, write_error = False, any_segment_opened = False, epoch_resolved = False,
      video_epoch_100ns = 0, pending_audio = [], audio_shift = replicate kMaxAudioTracks None,
      segment_pending_audio = [], trimmed_audio_packets = 0, aligned_audio_end = replicate kMaxAudioTracks 0,
      size_split_armed = False, failure = None, reports = [], fates = [], written = [], closed = []\<rparr>"

definition path_failure :: "u32 \<Rightarrow> u32 \<Rightarrow> string \<Rightarrow> 'w mux \<Rightarrow> 'w mux" where
  "path_failure index e detail =
     RecordFailure (if e \<noteq> 0 then HRESULT_FROM_WIN32 e else E_FAIL) PhaseMux
       (''failed to derive segment path (segment '' @ to_string (unat index) @ ''): '' @ detail)"

definition open_segment :: "('f, 'w) mux_env \<Rightarrow> 'f mux_config \<Rightarrow> u32 \<Rightarrow> 'w mux \<Rightarrow> bool \<times> 'w mux" where
  "open_segment env cfg index s =
     (case load (DeriveSegmentPath (me_path_exists env) (me_error_message env) (mc_base_path cfg) index) s of
        (PathFail e detail, s) \<Rightarrow> (False, path_failure index e detail s)
      | (PathOk path, s) \<Rightarrow>
          let s = s\<lparr>seg_path := path, seg_index := index, seg_epoch := 0, seg_epoch_set := False,
                    seg_max_local := 0\<rparr>;
              (opened, wr) = Open (me_opener env path (index = 0 \<and> mc_pre_reserved cfg)) (me_io env) (mc_template cfg)
                (new_writer (MatroskaStreamConfig.truncate (mc_template cfg)) (world_of s)) in
          if \<not> opened
          then (False, RecordFailure (HRESULT_FROM_WIN32 ERROR_OPEN_FAILED) PhaseMux
                 (''Matroska stream writer open failed (segment '' @ to_string (unat index) @ ''): '' @
                  me_writer_error env wr)
                 (s\<lparr>seg_writer := None, idle_world := mw_world wr\<rparr>))
          else (True, s\<lparr>seg_writer := Some wr, any_segment_opened := True, written := []\<rparr>))"

definition segment_report :: "('f, 'w) mux_env \<Rightarrow> 'f mux_config \<Rightarrow> bool \<Rightarrow> bool \<Rightarrow> 'w mux \<Rightarrow> CompletedSegment" where
  "segment_report env cfg ok session_end s =
     (let tail_ns = (if 0 < seg_max_local s \<and> seg_epoch_set s then frame_dur_ns cfg else 0) in
      \<lparr>cs_path = seg_path s, cs_session_start_ms = seg_epoch s div 1000000,
       cs_duration_ms = (seg_max_local s + tail_ns) div 1000000,
       cs_file_size = me_file_size env (world_of s) (seg_path s), cs_index = seg_index s,
       cs_succeeded = ok, cs_session_end = session_end\<rparr>)"

definition finalize_segment :: "('f, 'w) mux_env \<Rightarrow> 'f mux_config \<Rightarrow> bool \<Rightarrow> 'w mux \<Rightarrow> 'w mux" where
  "finalize_segment env cfg session_end s =
     (case seg_writer s of
        None \<Rightarrow> s
      | Some wr \<Rightarrow>
          let ((cll, fall), w) = me_light_levels env (mw_world wr);
              (ok, wr) = Finalize (me_io env) (SetContentLightLevels cll fall (wr\<lparr>mw_world := w\<rparr>));
              s = s\<lparr>seg_writer := None, idle_world := mw_world wr, closed := closed s @ [(ok, written s, wr)]\<rparr>;
              report = segment_report env cfg ok session_end s;
              s = (if \<not> ok then s\<lparr>write_error := True\<rparr> else s) in
          s\<lparr>reports := reports s @ [report]\<rparr>)"

section \<open>Alignment\<close>

definition resolve_epoch :: "('f, 'w) mux_env \<Rightarrow> 'w mux \<Rightarrow> 'w mux" where
  "resolve_epoch env s =
     (if epoch_resolved s then s
      else case load (me_video_epoch env) s of (e, s) \<Rightarrow>
        if e = 0 then s else s\<lparr>video_epoch_100ns := e, epoch_resolved := True\<rparr>)"

definition audio_shift_for :: "('f, 'w) mux_env \<Rightarrow> u32 \<Rightarrow> 'w mux \<Rightarrow> int \<times> 'w mux" where
  "audio_shift_for env track s =
     (if \<not> epoch_resolved s then (0, s)
      else if kMaxAudioTracks \<le> unat track then (0, s)
      else case audio_shift s ! unat track of
        Some shift \<Rightarrow> (shift, s)
      | None \<Rightarrow>
          case load (me_audio_epoch env track) s of (measured, s) \<Rightarrow>
            let audio_epoch = (if IsPlausibleAudioEpoch measured (video_epoch_100ns s) kMaxAudioEpochShiftNs
                  then measured else me_session_start env);
                shift = AudioTimelineShiftNs audio_epoch (video_epoch_100ns s) kMaxAudioEpochShiftNs in
            (shift, s\<lparr>audio_shift := (audio_shift s)[unat track := Some shift]\<rparr>))"

section \<open>Pushing packets\<close>

definition fate :: "AudioFate \<Rightarrow> EncodedAudioPacket \<Rightarrow> 'w mux \<Rightarrow> 'w mux" where
  "fate f p s = s\<lparr>fates := fates s @ [(p, f)]\<rparr>"

definition push_packet :: "('f, 'w) mux_env \<Rightarrow> MuxPacket \<Rightarrow> 'w mux \<Rightarrow> bool \<times> 'w mux" where
  "push_packet env mp s =
     (let s = (if seg_max_local s < pts_ns mp then s\<lparr>seg_max_local := pts_ns mp\<rparr> else s) in
      case seg_writer s of
        None \<Rightarrow> (False, s)
      | Some wr \<Rightarrow>
          case Push (me_io env) mp wr of (ok, wr) \<Rightarrow>
            if \<not> ok then (False, s\<lparr>seg_writer := Some wr, write_error := True\<rparr>)
            else (True, s\<lparr>seg_writer := Some wr, written := written s @ [mp]\<rparr>))"

definition track_count :: "'f mux_config \<Rightarrow> nat" where
  "track_count cfg = unat (audio_track_count (mc_template cfg))"

definition audio_block :: "'f mux_config \<Rightarrow> EncodedAudioPacket \<Rightarrow> u64 \<Rightarrow> MuxPacket" where
  "audio_block cfg p local_pts =
     \<lparr>pts_ns = local_pts + mc_delays cfg ! unat (ea_track p), track_num = 2 + ucast (ea_track p), is_key = True,
      bytes = ea_bytes p\<rparr>"

definition push_audio :: "('f, 'w) mux_env \<Rightarrow> 'f mux_config \<Rightarrow> EncodedAudioPacket \<Rightarrow> 'w mux \<Rightarrow> 'w mux" where
  "push_audio env cfg p s =
     (if write_error s \<or> seg_writer s = None then fate FateLost p s
      else if track_count cfg \<le> unat (ea_track p) \<or> kMaxAudioTracks \<le> unat (ea_track p) then fate FateBadTrack p s
      else case audio_shift_for env (ea_track p) s of (shift, s) \<Rightarrow>
        case ShiftAudioPts (ea_pts p) shift of
          None \<Rightarrow> fate FateEarly p s
        | Some shifted \<Rightarrow>
            let p = p\<lparr>ea_pts := shifted\<rparr> in
            case PlaceOnSegmentTimeline shifted (seg_epoch_set s) (seg_epoch s) of
              PlaceDefer \<Rightarrow> s\<lparr>segment_pending_audio := segment_pending_audio s @ [p]\<rparr>
            | PlaceTrim \<Rightarrow> fate FateTrimmed p (s\<lparr>trimmed_audio_packets := trimmed_audio_packets s + 1\<rparr>)
            | PlaceWrite local_pts \<Rightarrow>
                (case push_packet env (audio_block cfg p local_pts) s of (ok, s) \<Rightarrow>
                   if \<not> ok then fate FateLost p s
                   else
                     let t = unat (ea_track p); aligned_end = shifted + mc_delays cfg ! t in
                     fate FateWritten p
                       (if aligned_audio_end s ! t < aligned_end
                        then s\<lparr>aligned_audio_end := (aligned_audio_end s)[t := aligned_end]\<rparr> else s)))"

text \<open>The samples of the container; \<open>Inl\<close>: why the packet cannot be converted.\<close>

definition video_sample :: "VideoCodec \<Rightarrow> u8 list \<Rightarrow> string + u8 list" where
  "video_sample codec d = (case codec of
       H264 \<Rightarrow> (case ConvertAnnexBToAvcc d of
          None \<Rightarrow> Inl ''Failed to convert H.264 Annex-B packet to AVCC for Matroska'' | Some b \<Rightarrow> Inr b)
     | Hevc \<Rightarrow> (case ConvertAnnexBToHevcSample d of
          None \<Rightarrow> Inl ''Failed to convert HEVC Annex-B packet to hvcC sample for Matroska'' | Some b \<Rightarrow> Inr b)
     | Av1 \<Rightarrow> Inr d)"

definition mux_failure :: "string \<Rightarrow> 'w mux \<Rightarrow> 'w mux" where
  "mux_failure detail s = RecordFailure E_FAIL PhaseMux detail (s\<lparr>write_error := True\<rparr>)"

definition push_video :: "('f, 'w) mux_env \<Rightarrow> 'f mux_config \<Rightarrow> EncodedVideoPacket \<Rightarrow> 'w mux \<Rightarrow> 'w mux" where
  "push_video env cfg p s =
     (if write_error s \<or> seg_writer s = None then s
      else
        let s = (if \<not> seg_epoch_set s then s\<lparr>seg_epoch := ev_pts p, seg_epoch_set := True\<rparr> else s) in
        case PlaceOnSegmentTimeline (ev_pts p) (seg_epoch_set s) (seg_epoch s) of
          PlaceWrite local_pts \<Rightarrow>
            (case video_sample (mc_codec cfg) (ev_bytes p) of
               Inl detail \<Rightarrow> mux_failure detail s
             | Inr sample \<Rightarrow>
                 snd (push_packet env \<lparr>pts_ns = local_pts, track_num = 1, is_key = ev_key p, bytes = sample\<rparr> s))
        | _ \<Rightarrow> mux_failure ''video packet could not be placed on its own segment's timeline'' s)"

text \<open>The queue is drained from its front until a write error; what is left stays.\<close>

fun push_while_ok ::
    "('f, 'w) mux_env \<Rightarrow> 'f mux_config \<Rightarrow> EncodedAudioPacket list \<Rightarrow> 'w mux \<Rightarrow> EncodedAudioPacket list \<times> 'w mux" where
  "push_while_ok env cfg [] s = ([], s)"
| "push_while_ok env cfg (p # ps) s =
     (if write_error s then (p # ps, s) else push_while_ok env cfg ps (push_audio env cfg p s))"

definition flush_pending_audio :: "('f, 'w) mux_env \<Rightarrow> 'f mux_config \<Rightarrow> 'w mux \<Rightarrow> 'w mux" where
  "flush_pending_audio env cfg s =
     (case push_while_ok env cfg (pending_audio s) s of (rest, s) \<Rightarrow> s\<lparr>pending_audio := rest\<rparr>)"

definition drain_pending_audio :: "('f, 'w) mux_env \<Rightarrow> 'f mux_config \<Rightarrow> 'w mux \<Rightarrow> 'w mux" where
  "drain_pending_audio env cfg s = (if \<not> epoch_resolved s then s else flush_pending_audio env cfg s)"

text \<open>The held packets are swapped out first; those not reached on a write error are gone.\<close>

definition drain_segment_pending_audio :: "('f, 'w) mux_env \<Rightarrow> 'f mux_config \<Rightarrow> 'w mux \<Rightarrow> 'w mux" where
  "drain_segment_pending_audio env cfg s =
     (if \<not> seg_epoch_set s \<or> segment_pending_audio s = [] then s
      else case push_while_ok env cfg (segment_pending_audio s) (s\<lparr>segment_pending_audio := []\<rparr>) of
        (rest, s) \<Rightarrow> fold (fate FateLost) rest s)"

definition begin_new_segment :: "('f, 'w) mux_env \<Rightarrow> 'f mux_config \<Rightarrow> u32 \<Rightarrow> 'w mux \<Rightarrow> 'w mux" where
  "begin_new_segment env cfg index s =
     (if write_error s then s
      else
        let s = finalize_segment env cfg False
                  (drain_segment_pending_audio env cfg (drain_pending_audio env cfg s)) in
        if write_error s then s
        else snd (open_segment env cfg index (s\<lparr>size_split_armed := False\<rparr>)))"

section \<open>The queue\<close>

record mux_eos =
  video_eos :: bool
  audio_eos :: "bool list"

definition handle_video :: "('f, 'w) mux_env \<Rightarrow> 'f mux_config \<Rightarrow> EncodedVideoPacket \<Rightarrow> 'w mux \<Rightarrow> 'w mux" where
  "handle_video env cfg p s =
     (if ev_bytes p = [] then s
      else drain_segment_pending_audio env cfg
             (drain_pending_audio env cfg (push_video env cfg p (resolve_epoch env s))))"

definition handle_audio :: "('f, 'w) mux_env \<Rightarrow> 'f mux_config \<Rightarrow> EncodedAudioPacket \<Rightarrow> 'w mux \<Rightarrow> 'w mux" where
  "handle_audio env cfg p s =
     (if ea_bytes p = [] then s
      else
        let s = resolve_epoch env s in
        if epoch_resolved s then push_audio env cfg p (drain_pending_audio env cfg s)
        else s\<lparr>pending_audio := pending_audio s @ [p]\<rparr>)"

definition handle_payload ::
    "('f, 'w) mux_env \<Rightarrow> 'f mux_config \<Rightarrow> MuxPayload \<Rightarrow> 'w mux \<times> mux_eos \<Rightarrow> 'w mux \<times> mux_eos" where
  "handle_payload env cfg item se = (case item of
       VideoPacket p \<Rightarrow> (handle_video env cfg p (fst se), snd se)
     | AudioPacket p \<Rightarrow> (handle_audio env cfg p (fst se), snd se)
     | SplitAt index _ \<Rightarrow> (begin_new_segment env cfg index (fst se), snd se)
     | VideoEos \<Rightarrow> (fst se, (snd se)\<lparr>video_eos := True\<rparr>)
     | AudioEos track \<Rightarrow>
         (fst se, if unat track < track_count cfg \<and> unat track < kMaxAudioTracks
                  then (snd se)\<lparr>audio_eos := (audio_eos (snd se))[unat track := True]\<rparr> else snd se))"

definition drain_premux ::
    "('f, 'w) mux_env \<Rightarrow> 'f mux_config \<Rightarrow> EncodedVideoPacket list \<Rightarrow> EncodedAudioPacket list \<Rightarrow> 'w mux \<Rightarrow> 'w mux" where
  "drain_premux env cfg video audio s = fold (handle_audio env cfg) audio (fold (handle_video env cfg) video s)"

definition sample_mux :: "('f, 'w) mux_env \<Rightarrow> 'f mux_config \<Rightarrow> 'w mux \<Rightarrow> 'w mux" where
  "sample_mux env cfg s =
     (case seg_writer s of
        None \<Rightarrow> s
      | Some wr \<Rightarrow>
          if 0 < mc_split_size cfg \<and> mc_split_size cfg \<le> mw_bytes_written wr \<and> \<not> size_split_armed s
          then (set_world (me_request_size_split env (world_of s)) s)\<lparr>size_split_armed := True\<rparr>
          else s)"

text \<open>
  A round of the main loop: the failure another thread had recorded when the loop condition was
  checked, the one recorded when the wait for items ended, and the items found until the queue was
  empty.
\<close>

record mux_round =
  failure_before :: "SessionFailure option"
  failure_after_wait :: "SessionFailure option"
  round_items :: "MuxPayload list"

definition all_eos :: "'f mux_config \<Rightarrow> mux_eos \<Rightarrow> bool" where
  "all_eos cfg eos \<longleftrightarrow> video_eos eos \<and> list_all (\<lambda>i. audio_eos eos ! i) [0..<track_count cfg]"

text \<open>\<open>None\<close>: after these rounds the loop is still waiting.\<close>

fun mux_loop ::
    "('f, 'w) mux_env \<Rightarrow> 'f mux_config \<Rightarrow> mux_round list \<Rightarrow> 'w mux \<times> mux_eos \<Rightarrow> ('w mux \<times> mux_eos) option" where
  "mux_loop env cfg rounds (s, eos) =
     (if all_eos cfg eos then Some (s, eos)
      else case rounds of
        [] \<Rightarrow> None
      | r # rs \<Rightarrow>
          let s = note_failure (failure_before r) s in
          if failure s \<noteq> None \<or> write_error s then Some (s, eos)
          else
            let s = note_failure (failure_after_wait r) s in
            if failure s \<noteq> None then Some (s, eos)
            else case fold (handle_payload env cfg) (round_items r) (s, eos) of (s, eos) \<Rightarrow>
              mux_loop env cfg rs (sample_mux env cfg s, eos))"

text \<open>After the loop: the last items, the audio still held, the last segment, the outcome.\<close>

definition settle_pending_audio :: "('f, 'w) mux_env \<Rightarrow> 'f mux_config \<Rightarrow> 'w mux \<Rightarrow> 'w mux" where
  "settle_pending_audio env cfg s =
     (let s = (if \<not> epoch_resolved s then flush_pending_audio env cfg s else s);
          s = drain_segment_pending_audio env cfg s in
      fold (fate FateTrimmed) (segment_pending_audio s)
        (s\<lparr>trimmed_audio_packets := trimmed_audio_packets s + of_nat (length (segment_pending_audio s)),
           segment_pending_audio := []\<rparr>))"

definition conclude :: "('f, 'w) mux_env \<Rightarrow> 'f mux_config \<Rightarrow> MuxPayload list \<Rightarrow> 'w mux \<times> mux_eos \<Rightarrow> 'w mux" where
  "conclude env cfg last_items se =
     (let s = finalize_segment env cfg True
                (settle_pending_audio env cfg (fst (fold (handle_payload env cfg) last_items se))) in
      if write_error s \<or> \<not> any_segment_opened s
      then RecordFailure E_FAIL PhaseMux ''Matroska stream write failed'' s
      else s)"

text \<open>What the muxer finds when its wait for the codec headers ends.\<close>

record mux_start =
  ms_private :: CodecPrivateData
  ms_track_count :: nat
  ms_video_premux :: "EncodedVideoPacket list"
  ms_audio_premux :: "EncodedAudioPacket list"
  ms_encode_width :: u32
  ms_encode_height :: u32

definition Run ::
    "('f, 'w) mux_env \<Rightarrow> 'f RecorderConfig \<Rightarrow> mux_start \<Rightarrow> mux_round list \<Rightarrow> MuxPayload list \<Rightarrow> 'w \<Rightarrow> 'w mux option" where
  "Run env rc st rounds last_items w =
     (let s = initial_mux w; n = ms_track_count st; d = ms_private st in
      if \<not> (VideoReady d (rc_video_codec rc) \<and> AudioAllReady d n) then Some s
      else if kMaxAudioTracks < n
      then Some (RecordFailure E_INVALIDARG PhaseMux ''Audio track count exceeds maximum supported'' s)
      else case video_private (rc_video_codec rc) d of
        Inl detail \<Rightarrow> Some (RecordFailure E_FAIL PhaseMux detail s)
      | Inr video \<Rightarrow>
          let cfg = mux_settings rc d n video (ms_encode_width st) (ms_encode_height st) in
          case open_segment env cfg 0 s of
            (False, s) \<Rightarrow> Some s
          | (True, s) \<Rightarrow>
              map_option (conclude env cfg last_items)
                (mux_loop env cfg rounds
                  (drain_premux env cfg (ms_video_premux st) (ms_audio_premux st) s,
                   \<lparr>video_eos = False, audio_eos = replicate kMaxAudioTracks False\<rparr>)))"

end
