(* ===== verification/PacketRouting.thy ===== *)
theory PacketRouting
  imports MuxThread
begin

text \<open>
  How packets reach the muxer: split requests (\<^verbatim>\<open>split_sentinel_policy.h\<close>), the bounded queue and the
  premux buffers (\<^verbatim>\<open>session_internal.h\<close>), the routing of the video thread with its segment boundaries
  (\<open>maybeArmSplit\<close>, \<open>routePacket\<close> in \<^verbatim>\<open>video_thread.cpp\<close>) and of an audio thread.

  What other threads do while a lock is released is an argument: a function on the shared state.
\<close>

section \<open>Split requests\<close>

definition kSplitTriggerBits :: nat where "kSplitTriggerBits = 8"
definition kSplitMaskBits :: nat where "kSplitMaskBits = 8"
definition kSplitTriggerMask :: u64 where "kSplitTriggerMask = push_bit kSplitTriggerBits 1 - 1"
definition kSplitCoalesceMask :: u64 where "kSplitCoalesceMask = push_bit kSplitMaskBits 1 - 1"

record SplitRequestState =
  sequence :: u64
  primary_trigger :: u32
  coalesced_triggers :: u32

definition PackSplitRequest :: "SplitRequestState \<Rightarrow> u64" where
  "PackSplitRequest st =
     (push_bit (kSplitTriggerBits + kSplitMaskBits) (sequence st) OR
      push_bit kSplitTriggerBits (ucast (coalesced_triggers st) AND kSplitCoalesceMask)) OR
     (ucast (primary_trigger st) AND kSplitTriggerMask)"

definition UnpackSplitRequest :: "u64 \<Rightarrow> SplitRequestState" where
  "UnpackSplitRequest packed =
     \<lparr>sequence = drop_bit (kSplitTriggerBits + kSplitMaskBits) packed,
      primary_trigger = ucast (packed AND kSplitTriggerMask),
      coalesced_triggers = ucast (drop_bit kSplitTriggerBits packed AND kSplitCoalesceMask)\<rparr>"

definition SplitRequestWith :: "u64 \<Rightarrow> u32 \<Rightarrow> u64" where
  "SplitRequestWith packed trigger =
     (let st = UnpackSplitRequest packed in
      PackSplitRequest
        \<lparr>sequence = sequence st + 1, primary_trigger = trigger AND ucast kSplitTriggerMask,
         coalesced_triggers = coalesced_triggers st OR push_bit (unat (trigger AND 7)) 1\<rparr>)"

definition SplitRequestConsumed :: "SplitRequestState \<Rightarrow> u64" where
  "SplitRequestConsumed st = PackSplitRequest (st\<lparr>coalesced_triggers := 0\<rparr>)"

definition SplitTriggerMaskText :: "u32 \<Rightarrow> string" where
  "SplitTriggerMaskText m =
     (let out = fold (\<lambda>(n, name) out. if \<not> bit m n then out else (if out \<noteq> [] then out @ ''+'' else out) @ name)
                  (List.enumerate 0 [''automatic-duration'', ''automatic-size'', ''manual-button'', ''hotkey'']) []
      in if out = [] then ''none'' else out)"

definition ShouldEmitSplitSentinel :: "bool \<Rightarrow> u64 \<Rightarrow> bool \<Rightarrow> u64 \<Rightarrow> bool" where
  "ShouldEmitSplitSentinel split_armed split_forced_pts_ns pkt_keyframe pkt_pts_ns \<longleftrightarrow>
     split_armed \<and> pkt_keyframe \<and> split_forced_pts_ns \<le> pkt_pts_ns"

text \<open>The enumerators by value; the requests carry nothing else.\<close>

definition trigger_source :: "u32 \<Rightarrow> SplitTriggerSource" where
  "trigger_source t = (if t = 0 then AutomaticDuration else if t = 1 then AutomaticSize
     else if t = 2 then ManualButton else Hotkey)"

fun trigger_value :: "SplitTriggerSource \<Rightarrow> u32" where
  "trigger_value AutomaticDuration = 0"
| "trigger_value AutomaticSize = 1"
| "trigger_value ManualButton = 2"
| "trigger_value Hotkey = 3"

section \<open>The shared state\<close>

definition kVideoPremuxLimit :: nat where "kVideoPremuxLimit = 120"
definition kAudioPremuxLimit :: nat where "kAudioPremuxLimit = 600"

record shared =
  split_request :: u64
  mux_queue :: "MuxPayload list"
  mux_queue_bytes :: nat
  mux_queue_packet_limit :: nat
  mux_queue_byte_limit :: nat
  video_premux :: "EncodedVideoPacket list"
  audio_premux :: "EncodedAudioPacket list"
  codec_private_data :: CodecPrivateData
  audio_tracks_expected :: nat
  session_failure :: "SessionFailure option"
  stop_requested :: bool

definition E_OUTOFMEMORY :: u32 where "E_OUTOFMEMORY = 0x8007000E"

definition record_failure :: "u32 \<Rightarrow> ErrorPhase \<Rightarrow> string \<Rightarrow> shared \<Rightarrow> shared" where
  "record_failure code phase detail s =
     (if session_failure s = None
      then s\<lparr>session_failure := Some \<lparr>error_code = code, error_phase = phase, error_detail = detail\<rparr>\<rparr> else s)
     \<lparr>stop_requested := True\<rparr>"

definition MuxItemPayloadBytes :: "MuxPayload \<Rightarrow> nat" where
  "MuxItemPayloadBytes item = (case item of
       VideoPacket p \<Rightarrow> length (ev_bytes p) | AudioPacket p \<Rightarrow> length (ea_bytes p) | _ \<Rightarrow> 0)"

definition PushMuxItemLocked :: "MuxPayload \<Rightarrow> shared \<Rightarrow> shared" where
  "PushMuxItemLocked item s =
     s\<lparr>mux_queue_bytes := mux_queue_bytes s + MuxItemPayloadBytes item, mux_queue := mux_queue s @ [item]\<rparr>"

text \<open>The muxer takes the front of the queue.\<close>

definition pop_mux_item :: "shared \<Rightarrow> (MuxPayload \<times> shared) option" where
  "pop_mux_item s = (case mux_queue s of
       [] \<Rightarrow> None
     | item # rest \<Rightarrow>
         Some (item, s\<lparr>mux_queue := rest,
           mux_queue_bytes := mux_queue_bytes s -
             (if MuxItemPayloadBytes item \<le> mux_queue_bytes s then MuxItemPayloadBytes item else mux_queue_bytes s)\<rparr>))"

definition queue_full :: "shared \<Rightarrow> bool" where
  "queue_full s \<longleftrightarrow> mux_queue_packet_limit s \<le> length (mux_queue s) \<or> mux_queue_byte_limit s \<le> mux_queue_bytes s"

datatype MuxQueueWait = Ready | Stopping | Failed | TimedOut

text \<open>
  A wake-up of a waiting producer: what others did to the shared state meanwhile, and whether the deadline
  had passed. \<open>None\<close>: still waiting after these.
\<close>

record wake =
  others :: "shared \<Rightarrow> shared"
  deadline_passed :: bool

fun WaitForMuxQueueSpace :: "wake list \<Rightarrow> shared \<Rightarrow> (MuxQueueWait \<times> shared) option" where
  "WaitForMuxQueueSpace wakes s =
     (if \<not> queue_full s then Some (Ready, s)
      else if session_failure s \<noteq> None then Some (Failed, s)
      else case wakes of
        [] \<Rightarrow> None
      | k # ks \<Rightarrow>
          let s = others k s in
          if deadline_passed k then
            if \<not> queue_full s then Some (Ready, s)
            else if session_failure s \<noteq> None then Some (Failed, s)
            else Some (if stop_requested s then Stopping else TimedOut, s)
          else WaitForMuxQueueSpace ks s)"

declare WaitForMuxQueueSpace.simps [simp del]

definition headers_known :: "VideoCodec \<Rightarrow> shared \<Rightarrow> bool" where
  "headers_known codec s \<longleftrightarrow>
     VideoReady (codec_private_data s) codec \<and> AudioAllReady (codec_private_data s) (audio_tracks_expected s)"

section \<open>Boundaries\<close>

record boundary =
  current_segment_index :: u32
  segment_start_session_pts_ns :: u64
  split_auto_enabled :: bool
  split_auto_interval_ns :: u64
  next_auto_threshold_ns :: u64
  split_last_seq :: u64
  split_armed :: bool
  split_forced_pts_ns :: u64
  split_armed_trigger :: SplitTriggerSource

definition initial_boundary :: "u64 \<Rightarrow> shared \<Rightarrow> boundary" where
  "initial_boundary split_duration_ms s =
     (let auto = 0 < split_duration_ms; interval = (if auto then split_duration_ms * 1000000 else 0) in
      \<lparr>current_segment_index = 0, segment_start_session_pts_ns = 0, split_auto_enabled = auto,
       split_auto_interval_ns = interval, next_auto_threshold_ns = (if auto then interval else - 1),
       split_last_seq = sequence (UnpackSplitRequest (split_request s)), split_armed = False,
       split_forced_pts_ns = 0, split_armed_trigger = ManualButton\<rparr>)"

text \<open>
  The request word is read once; \<open>raced\<close> is what it is changed by before the compare-exchange. The
  result says whether a keyframe is requested of the encoder.
\<close>

definition maybeArmSplit :: "(u64 \<Rightarrow> u64) \<Rightarrow> u64 \<Rightarrow> boundary \<times> shared \<Rightarrow> bool \<times> boundary \<times> shared" where
  "maybeArmSplit raced t bs =
     (let (b, s) = bs;
          observed = split_request s;
          request = UnpackSplitRequest observed;
          s = s\<lparr>split_request := raced observed\<rparr>;
          manual = (sequence request \<noteq> split_last_seq b);
          automatic = (next_auto_threshold_ns b \<le> t) in
      if split_armed b then (False, b, s)
      else if \<not> manual \<and> \<not> automatic then (False, b, s)
      else (True,
        b\<lparr>split_last_seq := sequence request, split_armed := True, split_forced_pts_ns := t,
          split_armed_trigger := (if manual then trigger_source (primary_trigger request) else AutomaticDuration)\<rparr>,
        if manual \<and> split_request s = PackSplitRequest request
        then s\<lparr>split_request := SplitRequestConsumed request\<rparr> else s))"

section \<open>Routing\<close>

text \<open>The sentinel and its keyframe enter the queue under one lock.\<close>

definition enqueue_video :: "EncodedVideoPacket \<Rightarrow> boundary \<times> shared \<Rightarrow> boundary \<times> shared" where
  "enqueue_video p bs =
     (let (b, s) = bs;
          (b, s) =
            (if ShouldEmitSplitSentinel (split_armed b) (split_forced_pts_ns b) (ev_key p) (ev_pts p)
             then let index = current_segment_index b + 1;
                      b = b\<lparr>current_segment_index := index, segment_start_session_pts_ns := ev_pts p\<rparr>;
                      b = (if split_auto_enabled b
                           then b\<lparr>next_auto_threshold_ns := segment_start_session_pts_ns b + split_auto_interval_ns b\<rparr>
                           else b)
                  in (b\<lparr>split_armed := False\<rparr>, PushMuxItemLocked (SplitAt index (split_armed_trigger b)) s)
             else (b, s))
      in (b, PushMuxItemLocked (VideoPacket p) s))"

definition video_limit_failure :: "shared \<Rightarrow> shared" where
  "video_limit_failure = record_failure E_OUTOFMEMORY PhaseMux
     ''Pre-mux video buffer limit (120 packets) exceeded before codec private data was ready''"

definition backpressure_failure :: "MuxQueueWait \<Rightarrow> string \<Rightarrow> shared \<Rightarrow> shared" where
  "backpressure_failure room detail s = (if room = TimedOut then record_failure E_OUTOFMEMORY PhaseMux detail s else s)"

definition queue_limit_detail :: string where
  "queue_limit_detail = ''Mux queue limit exceeded: the output destination cannot keep up with the recording''"

text \<open>The first keyframe that carries the parameter sets publishes them; \<open>av1\<close> derives those of AV1.\<close>

definition captureCodecPrivateFromKeyframe ::
    "(u8 list \<Rightarrow> u8 list option) \<Rightarrow> VideoCodec \<Rightarrow> EncodedVideoPacket \<Rightarrow> CodecPrivateData \<Rightarrow> CodecPrivateData" where
  "captureCodecPrivateFromKeyframe av1 codec p d =
     (if \<not> ev_key p then d
      else case codec of
        H264 \<Rightarrow> if h264_ready d then d
          else (case ExtractH264SpsAndPps (ev_bytes p) of
            None \<Rightarrow> d | Some b \<Rightarrow> d\<lparr>h264_sps_pps := b, h264_ready := True\<rparr>)
      | Hevc \<Rightarrow> if hevc_ready d then d
          else (case ExtractHevcVpsSpsPps (ev_bytes p) of
            None \<Rightarrow> d | Some b \<Rightarrow> d\<lparr>hevc_vps_sps_pps := b, hevc_ready := True\<rparr>)
      | Av1 \<Rightarrow> if av1_ready d then d
          else (case av1 (ev_bytes p) of
            None \<Rightarrow> d | Some b \<Rightarrow> d\<lparr>av1_codec_private := b, av1_ready := True\<rparr>))"

text \<open>\<open>None\<close>: the producer is still waiting for room.\<close>

definition routePacket ::
    "(u8 list \<Rightarrow> u8 list option) \<Rightarrow> VideoCodec \<Rightarrow> wake list \<Rightarrow> EncodedVideoPacket \<Rightarrow>
     boundary \<times> shared \<Rightarrow> (bool \<times> boundary \<times> shared) option" where
  "routePacket av1 codec wakes p bs =
     (let (b, s) = bs in
      if ev_bytes p = [] then Some (True, b, s)
      else
        let s = s\<lparr>codec_private_data := captureCodecPrivateFromKeyframe av1 codec p (codec_private_data s)\<rparr> in
        if \<not> headers_known codec s then
          if kVideoPremuxLimit \<le> length (video_premux s) then Some (False, b, video_limit_failure s)
          else Some (True, b, s\<lparr>video_premux := video_premux s @ [p]\<rparr>)
        else case WaitForMuxQueueSpace wakes s of
          None \<Rightarrow> None
        | Some (room, s) \<Rightarrow>
            if room \<noteq> Ready then Some (False, b, backpressure_failure room queue_limit_detail s)
            else Some (True, enqueue_video p (b, s)))"

text \<open>One packet of an audio thread.\<close>

definition audio_limit_failure :: "shared \<Rightarrow> shared" where
  "audio_limit_failure = record_failure E_OUTOFMEMORY PhaseMux
     ''Pre-mux audio buffer limit (600 packets) exceeded before codec private data was ready''"

definition routeAudioPacket ::
    "VideoCodec \<Rightarrow> u32 \<Rightarrow> wake list \<Rightarrow> EncodedAudioPacket \<Rightarrow> shared \<Rightarrow> (bool \<times> shared) option" where
  "routeAudioPacket codec track wakes p s =
     (if ea_bytes p = [] then Some (True, s)
      else
        let p = p\<lparr>ea_track := track\<rparr> in
        if \<not> headers_known codec s then
          if kAudioPremuxLimit \<le> length (audio_premux s) then Some (False, audio_limit_failure s)
          else Some (True, s\<lparr>audio_premux := audio_premux s @ [p]\<rparr>)
        else case WaitForMuxQueueSpace wakes s of
          None \<Rightarrow> None
        | Some (room, s) \<Rightarrow>
            if room \<noteq> Ready then Some (False, backpressure_failure room queue_limit_detail s)
            else Some (True, PushMuxItemLocked (AudioPacket p) s))"

fun routeAudioPackets ::
    "VideoCodec \<Rightarrow> u32 \<Rightarrow> (wake list \<times> EncodedAudioPacket) list \<Rightarrow> shared \<Rightarrow> (bool \<times> shared) option" where
  "routeAudioPackets codec track [] s = Some (True, s)"
| "routeAudioPackets codec track ((wakes, p) # ps) s =
     (case routeAudioPacket codec track wakes p s of
        None \<Rightarrow> None
      | Some (ok, s) \<Rightarrow> if ok then routeAudioPackets codec track ps s else Some (False, s))"

text \<open>One packet of the encoder's final drain: no boundary is placed any more.\<close>

definition drainPacket ::
    "(u8 list \<Rightarrow> u8 list option) \<Rightarrow> VideoCodec \<Rightarrow> wake list \<Rightarrow> EncodedVideoPacket \<Rightarrow>
     shared \<Rightarrow> (bool \<times> shared) option" where
  "drainPacket av1 codec wakes p s =
     (if ev_bytes p = [] then Some (True, s)
      else
        let s = s\<lparr>codec_private_data := captureCodecPrivateFromKeyframe av1 codec p (codec_private_data s)\<rparr> in
        if \<not> headers_known codec s then
          Some (True, if length (video_premux s) < kVideoPremuxLimit then s\<lparr>video_premux := video_premux s @ [p]\<rparr> else s)
        else case WaitForMuxQueueSpace wakes s of
          None \<Rightarrow> None
        | Some (room, s) \<Rightarrow>
            if room \<noteq> Ready
            then Some (False, backpressure_failure room ''Mux queue limit exceeded while draining the video encoder'' s)
            else Some (True, PushMuxItemLocked (VideoPacket p) s))"

section \<open>Commands scoped to a recording\<close>

type_synonym RecordRequestId = u64

definition kUnscopedRecordRequest :: RecordRequestId where "kUnscopedRecordRequest = 0"

definition RecordRequestMatches :: "RecordRequestId \<Rightarrow> RecordRequestId \<Rightarrow> bool" where
  "RecordRequestMatches record_request stop_request \<longleftrightarrow>
     record_request = kUnscopedRecordRequest \<or> stop_request = kUnscopedRecordRequest \<or> record_request = stop_request"

record PendingStopTracker =
  pending :: bool
  pending_request :: RecordRequestId

definition NoteStop :: "bool \<Rightarrow> RecordRequestId \<Rightarrow> PendingStopTracker \<Rightarrow> PendingStopTracker" where
  "NoteStop recording request_id t =
     (if \<not> recording then t\<lparr>pending := True, pending_request := request_id\<rparr> else t)"

definition Consume :: "RecordRequestId \<Rightarrow> PendingStopTracker \<Rightarrow> bool \<times> PendingStopTracker" where
  "Consume request_id t =
     (pending t \<and> RecordRequestMatches request_id (pending_request t),
      t\<lparr>pending := False, pending_request := kUnscopedRecordRequest\<rparr>)"

definition Clear :: "PendingStopTracker \<Rightarrow> PendingStopTracker" where
  "Clear t = t\<lparr>pending := False, pending_request := kUnscopedRecordRequest\<rparr>"

definition RequestSplit :: "SplitTriggerSource \<Rightarrow> RecordRequestId \<Rightarrow> bool \<Rightarrow> RecordRequestId \<Rightarrow> shared \<Rightarrow> bool \<times> shared" where
  "RequestSplit source request_id recording active_request s =
     (if \<not> recording then (False, s)
      else if \<not> RecordRequestMatches active_request request_id then (False, s)
      else (True, s\<lparr>split_request := SplitRequestWith (split_request s) (trigger_value source)\<rparr>))"

end
