(* ===== verification/RoutingGuarantees.thy ===== *)
theory RoutingGuarantees
  imports PacketRouting
begin

text \<open>
  What the producers promise the muxer: split requests are neither lost nor misread, every boundary
  stands directly before the keyframe that opens its segment, and the queue stays bounded. The threads
  are interleaved as the atomic moves under the queue's lock.
\<close>

section \<open>Split requests\<close>

lemma split_masks [simp]: "kSplitTriggerMask = mask 8" "kSplitCoalesceMask = mask 8"
  by (simp_all add: kSplitTriggerMask_def kSplitCoalesceMask_def kSplitTriggerBits_def kSplitMaskBits_def mask_eq_decr_exp)

lemma low_bits: "x < 2 ^ n \<Longrightarrow> take_bit n (x :: 'a::len word) = x"
  using less_mask_eq [of x n] by (simp add: take_bit_eq_mask)

lemma bit_low: "bit (x :: 'a::len word) m \<Longrightarrow> x < 2 ^ n \<Longrightarrow> m < n"
  using low_bits [of x n] by (metis bit_take_bit_iff)

lemma wide_and_back [simp]: "(ucast (ucast (x :: u32) :: u64) :: u32) = x"
  by (auto simp: bit_eq_iff bit_simps)

lemma packed_bits:
  assumes "sequence st < 2 ^ 48" "primary_trigger st < 2 ^ 8" "coalesced_triggers st < 2 ^ 8"
  shows "drop_bit 16 (PackSplitRequest st) = sequence st"
    "PackSplitRequest st AND mask 8 = ucast (primary_trigger st)"
    "drop_bit 8 (PackSplitRequest st) AND mask 8 = ucast (coalesced_triggers st)"
  by (auto simp: PackSplitRequest_def kSplitTriggerBits_def kSplitMaskBits_def bit_simps bit_eq_iff
      dest: bit_low [OF _ assms(1)] bit_low [OF _ assms(2)] bit_low [OF _ assms(3)])

lemma packed_low: "bit (ucast (x :: u32) :: u64) n = bit x n"
  by (auto simp: bit_simps dest: bit_imp_le_length)

lemma unpack_pack:
  assumes "sequence st < 2 ^ 48" "primary_trigger st < 2 ^ 8" "coalesced_triggers st < 2 ^ 8"
  shows "UnpackSplitRequest (PackSplitRequest st) = st"
  using packed_bits [OF assms]
  by (simp add: UnpackSplitRequest_def kSplitTriggerBits_def kSplitMaskBits_def)

lemma word_bits_less:
  assumes "\<And>m. bit (x :: 'a::len word) m \<Longrightarrow> m < n" "n < LENGTH('a)"
  shows "x < 2 ^ n"
proof -
  have "take_bit n x = x"
    using assms(1) by (auto simp: bit_eq_iff bit_take_bit_iff)
  then show ?thesis
    using and_mask_less' [OF assms(2), of x] by (simp add: take_bit_eq_mask)
qed

lemma unpacked_bounds:
  "primary_trigger (UnpackSplitRequest w) < 2 ^ 8" "coalesced_triggers (UnpackSplitRequest w) < 2 ^ 8"
  by (intro word_bits_less; auto simp: UnpackSplitRequest_def bit_simps)+

lemma unpack_with:
  assumes "unat (sequence (UnpackSplitRequest w)) + 1 < 2 ^ 48"
  defines "st \<equiv> UnpackSplitRequest w"
  shows "UnpackSplitRequest (SplitRequestWith w t) =
    \<lparr>sequence = sequence st + 1, primary_trigger = t AND 255,
     coalesced_triggers = coalesced_triggers st OR push_bit (unat (t AND 7)) 1\<rparr>"
proof -
  have seven: "unat (t AND 7) < 8"
    using word_and_le1 [of t 7] by (simp add: word_le_nat_alt)
  have m: "(ucast (mask 8 :: u64) :: u32) = 255"
    by (simp add: mask_eq_decr_exp)
  have "coalesced_triggers st OR push_bit (unat (t AND 7)) 1 < 2 ^ 8"
    using seven bit_low [OF _ unpacked_bounds(2), of w]
    by (intro word_bits_less) (auto simp: st_def bit_simps)
  moreover have "t AND 255 < 2 ^ 8"
    using word_and_le1 [of t 255] by (simp add: word_le_nat_alt word_less_nat_alt)
  moreover have "sequence st + 1 < 2 ^ 48"
    using assms by (simp add: word_less_nat_alt unat_word_ariths)
  ultimately show ?thesis
    by (simp add: SplitRequestWith_def Let_def st_def [symmetric] unpack_pack m)
qed

definition requests :: "SplitTriggerSource list \<Rightarrow> u64 \<Rightarrow> u64" where
  "requests ts w = fold (\<lambda>t w. SplitRequestWith w (trigger_value t)) ts w"

lemma trigger_values [simp]:
  "trigger_source (trigger_value t) = t" "trigger_value t AND 255 = trigger_value t" "trigger_value t AND 7 = trigger_value t"
  by (cases t; simp add: trigger_source_def)+

lemma trigger_value_inj: "(unat (trigger_value t) = unat (trigger_value u)) = (t = u)"
  by (metis trigger_values(1) unsigned_word_eqI)

lemma trigger_value_less: "unat (trigger_value t) < 4"
  by (cases t) simp_all

lemma requests_kept:
  assumes "coalesced_triggers (UnpackSplitRequest w) = 0"
    "unat (sequence (UnpackSplitRequest w)) + length ts < 2 ^ 48"
  defines "st \<equiv> UnpackSplitRequest (requests ts w)"
  shows "unat (sequence st) = unat (sequence (UnpackSplitRequest w)) + length ts \<and>
    (ts \<noteq> [] \<longrightarrow> trigger_source (primary_trigger st) = List.last ts) \<and>
    (\<forall>t. bit (coalesced_triggers st) (unat (trigger_value t)) = (t \<in> set ts))"
  using assms(2) unfolding st_def
proof (induction ts rule: rev_induct)
  case Nil
  then show ?case
    using assms(1) by (simp add: requests_def)
next
  case (snoc u ts)
  define s where "s = UnpackSplitRequest (requests ts w)"
  have ih: "unat (sequence s) = unat (sequence (UnpackSplitRequest w)) + length ts"
    "bit (coalesced_triggers s) (unat (trigger_value t)) = (t \<in> set ts)" for t
    using snoc by (simp_all add: s_def)
  have step: "UnpackSplitRequest (requests (ts @ [u]) w) =
    \<lparr>sequence = sequence s + 1, primary_trigger = trigger_value u,
     coalesced_triggers = coalesced_triggers s OR push_bit (unat (trigger_value u)) 1\<rparr>"
    using snoc.prems ih(1) unpack_with [of "requests ts w" "trigger_value u"] by (simp add: requests_def s_def)
  have "unat (sequence s + 1) = unat (sequence s) + 1"
    using snoc.prems ih(1) by (simp add: unat_word_ariths)
  then show ?case
    using trigger_value_less [of u] by (auto simp: step ih bit_simps trigger_value_inj)
qed

section \<open>The producers as atomic moves\<close>

text \<open>
  \<open>entered\<close> lists everything that ever entered the queue, \<open>asked\<close> the times for which a keyframe was
  requested of the encoder.
\<close>

record routing =
  rt_boundary :: boundary
  rt_shared :: shared
  entered :: "MuxPayload list"
  asked :: "u64 list"

definition queue_view :: "shared \<Rightarrow> MuxPayload list \<times> nat \<times> nat \<times> nat" where
  "queue_view s = (mux_queue s, mux_queue_bytes s, mux_queue_packet_limit s, mux_queue_byte_limit s)"

definition with_push :: "MuxPayload \<Rightarrow> routing \<Rightarrow> routing" where
  "with_push item r = r\<lparr>rt_shared := PushMuxItemLocked item (rt_shared r), entered := entered r @ [item]\<rparr>"

definition with_arming :: "(u64 \<Rightarrow> u64) \<Rightarrow> u64 \<Rightarrow> routing \<Rightarrow> routing" where
  "with_arming raced t r =
     (case maybeArmSplit raced t (rt_boundary r, rt_shared r) of (armed, b, s) \<Rightarrow>
        r\<lparr>rt_boundary := b, rt_shared := s, asked := asked r @ (if armed then [t] else [])\<rparr>)"

definition with_video :: "EncodedVideoPacket \<Rightarrow> routing \<Rightarrow> routing" where
  "with_video p r =
     (case enqueue_video p (rt_boundary r, rt_shared r) of (b, s) \<Rightarrow>
        r\<lparr>rt_boundary := b, rt_shared := s,
          entered := entered r @ drop (length (mux_queue (rt_shared r))) (mux_queue s)\<rparr>)"

inductive move :: "routing \<Rightarrow> routing \<Rightarrow> bool" where
  arm: "move r (with_arming raced t r)"
| route_video: "move r (with_video p r)" if "\<not> queue_full (rt_shared r)" "ev_bytes p \<noteq> []"
| drain_video: "move r (with_push (VideoPacket p) r)" if "\<not> queue_full (rt_shared r)" "ev_bytes p \<noteq> []"
| route_audio: "move r (with_push (AudioPacket p) r)" if "\<not> queue_full (rt_shared r)" "ea_bytes p \<noteq> []"
| video_over: "move r (with_push VideoEos r)"
| audio_over: "move r (with_push (AudioEos n) r)"
| taken: "move r (r\<lparr>rt_shared := s\<rparr>)" if "pop_mux_item (rt_shared r) = Some (item, s)"
| elsewhere: "move r (r\<lparr>rt_shared := s\<rparr>)" if "queue_view s = queue_view (rt_shared r)"

abbreviation moves :: "routing \<Rightarrow> routing \<Rightarrow> bool" where
  "moves \<equiv> move\<^sup>*\<^sup>*"

definition idle_routing :: "u64 \<Rightarrow> shared \<Rightarrow> routing" where
  "idle_routing split_duration_ms s =
     \<lparr>rt_boundary = initial_boundary split_duration_ms s, rt_shared = s, entered = [], asked = []\<rparr>"

text \<open>Every sentinel directly before a keyframe; the boundaries with the times of these keyframes.\<close>

fun well_split :: "MuxPayload list \<Rightarrow> bool" where
  "well_split [] = True"
| "well_split (SplitAt n trigger # rest) =
     ((case rest of VideoPacket p # _ \<Rightarrow> ev_key p \<and> ev_bytes p \<noteq> [] | _ \<Rightarrow> False) \<and> well_split rest)"
| "well_split (item # rest) = well_split rest"

fun boundaries :: "MuxPayload list \<Rightarrow> (u32 \<times> u64) list" where
  "boundaries [] = []"
| "boundaries (SplitAt n trigger # rest) =
     (case rest of VideoPacket p # _ \<Rightarrow> [(n, ev_pts p)] | _ \<Rightarrow> []) @ boundaries rest"
| "boundaries (item # rest) = boundaries rest"

lemma well_split_append: "well_split xs \<Longrightarrow> well_split (xs @ ys) = well_split ys"
  by (induction xs rule: well_split.induct) (auto split: list.splits MuxPayload.splits)

lemma boundaries_append: "well_split xs \<Longrightarrow> boundaries (xs @ ys) = boundaries xs @ boundaries ys"
  by (induction xs rule: well_split.induct) (auto split: list.splits MuxPayload.splits)

lemma enqueue_video_split:
  assumes "ShouldEmitSplitSentinel (split_armed b) (split_forced_pts_ns b) (ev_key p) (ev_pts p)"
  shows "mux_queue (snd (enqueue_video p (b, s))) =
      mux_queue s @ [SplitAt (current_segment_index b + 1) (split_armed_trigger b), VideoPacket p]"
    "mux_queue_bytes (snd (enqueue_video p (b, s))) = mux_queue_bytes s + length (ev_bytes p)"
    "current_segment_index (fst (enqueue_video p (b, s))) = current_segment_index b + 1"
    "\<not> split_armed (fst (enqueue_video p (b, s)))"
  using assms by (simp_all add: enqueue_video_def Let_def PushMuxItemLocked_def MuxItemPayloadBytes_def)

lemma enqueue_video_plain:
  assumes "\<not> ShouldEmitSplitSentinel (split_armed b) (split_forced_pts_ns b) (ev_key p) (ev_pts p)"
  shows "enqueue_video p (b, s) = (b, PushMuxItemLocked (VideoPacket p) s)"
  using assms by (simp add: enqueue_video_def)

lemma enqueue_video_limits [simp]:
  "mux_queue_packet_limit (snd (enqueue_video p (b, s))) = mux_queue_packet_limit s"
  "mux_queue_byte_limit (snd (enqueue_video p (b, s))) = mux_queue_byte_limit s"
  by (simp_all add: enqueue_video_def Let_def PushMuxItemLocked_def)

lemma maybeArmSplit_queue [simp]: "queue_view (snd (snd (maybeArmSplit raced t (b, s)))) = queue_view s"
  by (simp add: maybeArmSplit_def Let_def queue_view_def)

text \<open>
  The boundaries are numbered from 1 without gaps; each lies at or after the time its keyframe was asked
  for, and every request but a pending one has its boundary.
\<close>

definition numbered :: "(u32 \<times> u64) list \<Rightarrow> bool" where
  "numbered bs \<longleftrightarrow> map fst bs = map of_nat [1..<length bs + 1]"

definition routing_inv :: "routing \<Rightarrow> bool" where
  "routing_inv r \<longleftrightarrow>
     (let bs = boundaries (entered r); b = rt_boundary r in
      well_split (entered r) \<and> numbered bs \<and> current_segment_index b = of_nat (length bs) \<and>
      list_all2 (\<lambda>t (n, at). t \<le> at) (if split_armed b then butlast (asked r) else asked r) bs \<and>
      (split_armed b \<longrightarrow> asked r \<noteq> [] \<and> List.last (asked r) = split_forced_pts_ns b))"

lemma well_split_snoc:
  assumes "well_split xs" "\<forall>n t. item \<noteq> SplitAt n t"
  shows "well_split (xs @ [item])" "boundaries (xs @ [item]) = boundaries xs"
  using assms by (cases item; simp add: well_split_append boundaries_append)+

lemma routing_inv_push:
  assumes "routing_inv r" "\<forall>n t. item \<noteq> SplitAt n t"
  shows "routing_inv (with_push item r)"
  using assms well_split_snoc [of "entered r" item] by (auto simp: routing_inv_def with_push_def Let_def)

lemma routing_inv_arming: "routing_inv r \<Longrightarrow> routing_inv (with_arming raced t r)"
  by (auto simp: routing_inv_def with_arming_def maybeArmSplit_def Let_def split: prod.splits if_splits)

lemma routing_inv_video:
  assumes "routing_inv r" "ev_bytes p \<noteq> []"
  shows "routing_inv (with_video p r)"
proof (cases "ShouldEmitSplitSentinel (split_armed (rt_boundary r)) (split_forced_pts_ns (rt_boundary r))
      (ev_key p) (ev_pts p)")
  case True
  let ?b = "rt_boundary r" and ?bs = "boundaries (entered r)"
  have due: "split_armed ?b" "ev_key p" "split_forced_pts_ns ?b \<le> ev_pts p"
    using True by (auto simp: ShouldEmitSplitSentinel_def)
  define two where "two = [SplitAt (current_segment_index ?b + 1) (split_armed_trigger ?b), VideoPacket p]"
  have two: "well_split two" "boundaries two = [(current_segment_index ?b + 1, ev_pts p)]"
    using due assms(2) by (simp_all add: two_def)
  have "well_split (entered r @ two)" "boundaries (entered r @ two) = ?bs @ [(current_segment_index ?b + 1, ev_pts p)]"
    using assms(1) two by (auto simp: routing_inv_def Let_def well_split_append boundaries_append)
  moreover have "entered (with_video p r) = entered r @ two" "asked (with_video p r) = asked r"
    "rt_boundary (with_video p r) = fst (enqueue_video p (?b, rt_shared r))"
    using enqueue_video_split(1) [OF True, of "rt_shared r"] by (simp_all add: with_video_def two_def case_prod_beta)
  moreover have "asked r = butlast (asked r) @ [split_forced_pts_ns ?b]"
    using assms(1) due(1) by (metis append_butlast_last_id routing_inv_def)
  then have "list_all2 (\<lambda>t (n, at). t \<le> at) (asked r) (?bs @ [(current_segment_index ?b + 1, ev_pts p)])"
    using list_all2_appendI [of "\<lambda>t (n, at). t \<le> at" "butlast (asked r)" ?bs "[split_forced_pts_ns ?b]"
        "[(current_segment_index ?b + 1, ev_pts p)]"] assms(1) due
    by (simp add: routing_inv_def Let_def)
  ultimately show ?thesis
    using assms(1) due enqueue_video_split [OF True, of "rt_shared r"]
    by (auto simp: routing_inv_def Let_def numbered_def)
next
  case False
  then show ?thesis
    using assms routing_inv_push [of r "VideoPacket p"]
    by (simp add: with_video_def with_push_def enqueue_video_plain PushMuxItemLocked_def)
qed

section \<open>The bounded queue\<close>

definition is_eos :: "MuxPayload \<Rightarrow> bool" where
  "is_eos item = (case item of VideoEos \<Rightarrow> True | AudioEos _ \<Rightarrow> True | _ \<Rightarrow> False)"

definition largest :: "MuxPayload list \<Rightarrow> nat" where
  "largest items = Max (insert 0 (MuxItemPayloadBytes ` set items))"

lemma largest_snoc [simp]: "largest (items @ [item]) = max (MuxItemPayloadBytes item) (largest items)"
  by (simp add: largest_def insert_commute [of 0])

definition queue_inv :: "nat \<Rightarrow> nat \<Rightarrow> routing \<Rightarrow> bool" where
  "queue_inv packets byte_limit r \<longleftrightarrow>
     (let s = rt_shared r; q = mux_queue s in
      mux_queue_packet_limit s = packets \<and> mux_queue_byte_limit s = byte_limit \<and>
      mux_queue_bytes s = sum_list (map MuxItemPayloadBytes q) \<and>
      (\<exists>handled. entered r = handled @ q) \<and>
      length q \<le> packets + 1 + length (filter is_eos (entered r)) \<and>
      mux_queue_bytes s \<le> byte_limit + largest (entered r))"

lemma queue_inv_push:
  assumes "queue_inv n k r" "is_eos item \<or> \<not> queue_full (rt_shared r)"
  shows "queue_inv n k (with_push item r)"
proof -
  have "is_eos item \<Longrightarrow> MuxItemPayloadBytes item = 0"
    by (cases item) (simp_all add: is_eos_def MuxItemPayloadBytes_def)
  then show ?thesis
    using assms by (auto simp: queue_inv_def with_push_def PushMuxItemLocked_def Let_def queue_full_def)
qed

lemma queue_inv_view:
  assumes "queue_inv n k r" "queue_view (rt_shared r') = queue_view (rt_shared r)" "entered r' = entered r"
  shows "queue_inv n k r'"
  using assms by (auto simp: queue_inv_def queue_view_def Let_def)

lemma queue_inv_video:
  assumes "queue_inv n k r" "\<not> queue_full (rt_shared r)"
  shows "queue_inv n k (with_video p r)"
proof (cases "ShouldEmitSplitSentinel (split_armed (rt_boundary r)) (split_forced_pts_ns (rt_boundary r))
      (ev_key p) (ev_pts p)")
  case True
  let ?two = "[SplitAt (current_segment_index (rt_boundary r) + 1) (split_armed_trigger (rt_boundary r)), VideoPacket p]"
  have "largest (entered r @ ?two) = max (length (ev_bytes p)) (largest (entered r))"
    using largest_snoc [of "entered r @ [hd ?two]" "VideoPacket p"] by (simp add: MuxItemPayloadBytes_def)
  then show ?thesis
    using assms enqueue_video_split [OF True, of "rt_shared r"]
    by (auto simp: queue_inv_def with_video_def case_prod_beta Let_def queue_full_def MuxItemPayloadBytes_def)
next
  case False
  then show ?thesis
    using assms queue_inv_push [of n k r "VideoPacket p"]
    by (simp add: with_video_def with_push_def enqueue_video_plain PushMuxItemLocked_def)
qed

lemma pop_fields:
  assumes "pop_mux_item s = Some (item, s')" "mux_queue_bytes s = sum_list (map MuxItemPayloadBytes (mux_queue s))"
  shows "mux_queue s = item # mux_queue s'" "mux_queue_bytes s' = sum_list (map MuxItemPayloadBytes (mux_queue s'))"
    "mux_queue_bytes s' \<le> mux_queue_bytes s"
    "mux_queue_packet_limit s' = mux_queue_packet_limit s" "mux_queue_byte_limit s' = mux_queue_byte_limit s"
  using assms by (auto simp: pop_mux_item_def split: list.splits)

lemma queue_inv_pop:
  assumes "queue_inv n k r" "pop_mux_item (rt_shared r) = Some (item, s)"
  shows "queue_inv n k (r\<lparr>rt_shared := s\<rparr>)"
proof -
  have "mux_queue_bytes (rt_shared r) = sum_list (map MuxItemPayloadBytes (mux_queue (rt_shared r)))"
    using assms(1) by (simp add: queue_inv_def Let_def)
  note f = pop_fields [OF assms(2) this]
  obtain handled where "entered r = (handled @ [item]) @ mux_queue s"
    using assms(1) f(1) by (auto simp: queue_inv_def Let_def)
  then have "\<exists>handled. entered r = handled @ mux_queue s" ..
  then show ?thesis
    using assms(1) f by (simp add: queue_inv_def Let_def)
qed

lemma routing_inv_aside: "routing_inv (r\<lparr>rt_shared := s\<rparr>) = routing_inv r"
  by (simp add: routing_inv_def Let_def)

lemma move_inv:
  assumes "move r r'" "routing_inv r" "queue_inv n k r"
  shows "routing_inv r' \<and> queue_inv n k r'"
  using assms
proof (cases rule: move.cases)
  case (arm raced t)
  then show ?thesis
    using assms routing_inv_arming [of r raced t] queue_inv_view [OF assms(3), of r']
    by (simp add: with_arming_def case_prod_beta)
next
  case (taken item s)
  then show ?thesis
    using assms(2) queue_inv_pop [OF assms(3)] by (simp add: routing_inv_aside)
next
  case (elsewhere s)
  then show ?thesis
    using assms queue_inv_view [OF assms(3), of r'] by (simp add: routing_inv_aside)
qed (use assms in \<open>auto intro!: routing_inv_push routing_inv_video queue_inv_push queue_inv_video simp: is_eos_def\<close>)

lemma start_inv:
  assumes "mux_queue s = []" "mux_queue_bytes s = 0"
  shows "routing_inv (idle_routing ms s)"
    "queue_inv (mux_queue_packet_limit s) (mux_queue_byte_limit s) (idle_routing ms s)"
  using assms by (simp_all add: routing_inv_def queue_inv_def idle_routing_def initial_boundary_def numbered_def Let_def)

lemma reachable_inv:
  assumes "moves (idle_routing ms s) r" "mux_queue s = []" "mux_queue_bytes s = 0"
  shows "routing_inv r \<and> queue_inv (mux_queue_packet_limit s) (mux_queue_byte_limit s) r"
  using assms(1) by (induction rule: rtranclp_induct) (auto simp: start_inv assms dest: move_inv)

section \<open>The producers make only such moves\<close>

text \<open>While a producer waits, the others make moves too; the boundary state is the video thread's own.\<close>

definition tame :: "wake \<Rightarrow> bool" where
  "tame k \<longleftrightarrow>
     (\<forall>r. \<exists>r'. moves r r' \<and> rt_boundary r' = rt_boundary r \<and> rt_shared r' = others k (rt_shared r))"

definition reaches :: "routing \<Rightarrow> boundary \<Rightarrow> shared \<Rightarrow> bool" where
  "reaches r b s \<longleftrightarrow> (\<exists>r'. moves r r' \<and> rt_boundary r' = b \<and> rt_shared r' = s)"

lemma reaches_step:
  assumes "reaches r b s"
    "\<And>r' :: routing. rt_boundary r' = b \<Longrightarrow> rt_shared r' = s \<Longrightarrow> \<exists>r''. moves r' r'' \<and> rt_boundary r'' = b' \<and> rt_shared r'' = s'"
  shows "reaches r b' s'"
  using assms unfolding reaches_def by (metis rtranclp_trans)

lemma reaches_aside:
  assumes "reaches r b s" "queue_view s' = queue_view s"
  shows "reaches r b s'"
proof (rule reaches_step [OF assms(1)])
  fix r' :: routing assume "rt_boundary r' = b" "rt_shared r' = s"
  then have "move r' (r'\<lparr>rt_shared := s'\<rparr>)"
    using assms(2) by (intro move.elsewhere) simp
  then show "\<exists>r''. moves r' r'' \<and> rt_boundary r'' = b \<and> rt_shared r'' = s'"
    using \<open>rt_boundary r' = b\<close> by (intro exI [of _ "r'\<lparr>rt_shared := s'\<rparr>"]) auto
qed

lemma wait_unfold:
  "WaitForMuxQueueSpace [] s =
     (if \<not> queue_full s then Some (Ready, s) else if session_failure s \<noteq> None then Some (Failed, s) else None)"
  "WaitForMuxQueueSpace (k # ks) s =
     (if \<not> queue_full s then Some (Ready, s)
      else if session_failure s \<noteq> None then Some (Failed, s)
      else if \<not> deadline_passed k then WaitForMuxQueueSpace ks (others k s)
      else if \<not> queue_full (others k s) then Some (Ready, others k s)
      else if session_failure (others k s) \<noteq> None then Some (Failed, others k s)
      else Some (if stop_requested (others k s) then Stopping else TimedOut, others k s))"
  by (subst WaitForMuxQueueSpace.simps; simp add: Let_def)+

definition wait_result :: "MuxQueueWait \<times> shared \<Rightarrow> bool" where
  "wait_result x = (case x of
     (Ready, s) \<Rightarrow> \<not> queue_full s | (Failed, s) \<Rightarrow> session_failure s \<noteq> None
   | (Stopping, s) \<Rightarrow> stop_requested s | (TimedOut, s) \<Rightarrow> True)"

lemma wait_ready: "WaitForMuxQueueSpace wakes s = Some x \<Longrightarrow> wait_result x"
  by (induction wakes arbitrary: s) (auto simp: wait_unfold wait_result_def split: if_splits)

lemma wait_moves:
  assumes "WaitForMuxQueueSpace wakes s = Some (room, s')" "\<forall>k \<in> set wakes. tame k" "reaches r b s"
  shows "reaches r b s'"
  using assms
proof (induction wakes arbitrary: s)
  case Nil
  then show ?case
    by (auto simp: wait_unfold split: if_splits)
next
  case (Cons k ks)
  have "reaches r b (others k s)"
    using Cons.prems(2) by (intro reaches_step [OF Cons.prems(3)]) (auto simp: tame_def)
  then show ?case
    using Cons.prems Cons.IH [of "others k s"] by (auto simp: wait_unfold split: if_splits)
qed

lemma failure_aside [simp]:
  "queue_view (record_failure code phase detail s) = queue_view s"
  "queue_view (video_limit_failure s) = queue_view s" "queue_view (audio_limit_failure s) = queue_view s"
  "queue_view (backpressure_failure room detail s) = queue_view s"
  by (simp_all add: queue_view_def record_failure_def video_limit_failure_def audio_limit_failure_def
      backpressure_failure_def)

lemma premux_aside [simp]:
  "queue_view (s\<lparr>video_premux := v\<rparr>) = queue_view s" "queue_view (s\<lparr>audio_premux := a\<rparr>) = queue_view s"
  "queue_view (s\<lparr>codec_private_data := d\<rparr>) = queue_view s"
  by (simp_all add: queue_view_def)

lemma reaches_enqueue:
  assumes "reaches r b s" "\<not> queue_full s" "ev_bytes p \<noteq> []" "enqueue_video p (b, s) = (b', s')"
  shows "reaches r b' s'"
proof (rule reaches_step [OF assms(1)])
  fix r' :: routing assume "rt_boundary r' = b" "rt_shared r' = s"
  moreover from this have "moves r' (with_video p r')"
    using assms(2,3) by (intro r_into_rtranclp move.route_video) auto
  ultimately show "\<exists>r''. moves r' r'' \<and> rt_boundary r'' = b' \<and> rt_shared r'' = s'"
    using assms(4) by (intro exI [of _ "with_video p r'"]) (auto simp: with_video_def)
qed

lemma reaches_push:
  assumes "reaches r b s" "\<not> queue_full s"
    "item = VideoPacket v \<and> ev_bytes v \<noteq> [] \<or> item = AudioPacket a \<and> ea_bytes a \<noteq> []"
  shows "reaches r b (PushMuxItemLocked item s)"
proof (rule reaches_step [OF assms(1)])
  fix r' :: routing assume "rt_boundary r' = b" "rt_shared r' = s"
  then show "\<exists>r''. moves r' r'' \<and> rt_boundary r'' = b \<and> rt_shared r'' = PushMuxItemLocked item s"
    using assms(2,3)
    by (intro exI [of _ "with_push item r'"]) (auto intro: move.drain_video move.route_audio, auto simp: with_push_def)
qed

lemma video_route_moves:
  assumes "\<forall>k \<in> set wakes. tame k" "reaches r b s" "routePacket av1 codec wakes p (b, s) = Some (ok, b', s')"
  shows "reaches r b' s'"
proof (cases "ev_bytes p = []")
  case False
  define s1 where "s1 = s\<lparr>codec_private_data := captureCodecPrivateFromKeyframe av1 codec p (codec_private_data s)\<rparr>"
  have s1: "reaches r b s1"
    unfolding s1_def by (rule reaches_aside [OF assms(2)]) simp
  show ?thesis
  proof (cases "headers_known codec s1")
    case True
    then obtain room s2 where w: "WaitForMuxQueueSpace wakes s1 = Some (room, s2)"
      and out: "(b', s') = (if room = Ready then enqueue_video p (b, s2) else (b, backpressure_failure room queue_limit_detail s2))"
      using assms(3) False by (auto simp: routePacket_def s1_def [symmetric] split: option.splits if_splits)
    have "reaches r b s2"
      by (rule wait_moves [OF w assms(1) s1])
    then show ?thesis
      using out wait_ready [OF w] False
      by (cases "room = Ready") (auto simp: wait_result_def intro: reaches_enqueue reaches_aside)
  next
    case unknown: False
    then have "b' = b" "queue_view s' = queue_view s1"
      using assms(3) False by (auto simp: routePacket_def Let_def s1_def [symmetric] split: if_splits)
    then show ?thesis
      using reaches_aside [OF s1] by simp
  qed
qed (use assms in \<open>simp add: routePacket_def\<close>)

lemma drain_moves:
  assumes "\<forall>k \<in> set wakes. tame k" "reaches r b s" "drainPacket av1 codec wakes p s = Some (ok, s')"
  shows "reaches r b s'"
proof (cases "ev_bytes p = []")
  case False
  define s1 where "s1 = s\<lparr>codec_private_data := captureCodecPrivateFromKeyframe av1 codec p (codec_private_data s)\<rparr>"
  have s1: "reaches r b s1"
    unfolding s1_def by (rule reaches_aside [OF assms(2)]) simp
  show ?thesis
  proof (cases "headers_known codec s1")
    case True
    then obtain room s2 detail where w: "WaitForMuxQueueSpace wakes s1 = Some (room, s2)"
      and out: "s' = (if room = Ready then PushMuxItemLocked (VideoPacket p) s2 else backpressure_failure room detail s2)"
      using assms(3) False
      by (auto simp: drainPacket_def s1_def [symmetric] simp del: append.simps split: option.splits if_splits)
    have "reaches r b s2"
      by (rule wait_moves [OF w assms(1) s1])
    then show ?thesis
      using out wait_ready [OF w] False
      by (cases "room = Ready") (auto simp: wait_result_def intro: reaches_push reaches_aside)
  next
    case unknown: False
    then have "queue_view s' = queue_view s1"
      using assms(3) False by (auto simp: drainPacket_def Let_def s1_def [symmetric])
    then show ?thesis
      using reaches_aside [OF s1] by simp
  qed
qed (use assms in \<open>simp add: drainPacket_def\<close>)

lemma audio_route_moves:
  assumes "\<forall>k \<in> set wakes. tame k" "reaches r b s" "routeAudioPacket codec track wakes a s = Some (ok, s')"
  shows "reaches r b s'"
proof (cases "ea_bytes a \<noteq> [] \<and> headers_known codec s")
  case True
  then obtain room s2 where w: "WaitForMuxQueueSpace wakes s = Some (room, s2)"
    and out: "s' = (if room = Ready then PushMuxItemLocked (AudioPacket (a\<lparr>ea_track := track\<rparr>)) s2
      else backpressure_failure room queue_limit_detail s2)"
    using assms(3) by (auto simp: routeAudioPacket_def split: option.splits if_splits)
  have "reaches r b s2"
    by (rule wait_moves [OF w assms(1,2)])
  then show ?thesis
    using out wait_ready [OF w] True
    by (cases "room = Ready") (auto simp: wait_result_def intro: reaches_push reaches_aside)
next
  case False
  then have "queue_view s' = queue_view s"
    using assms(3) by (auto simp: routeAudioPacket_def Let_def split: if_splits)
  then show ?thesis
    by (rule reaches_aside [OF assms(2)])
qed

section \<open>Commands of a recording\<close>

text \<open>
  A second request while a boundary is pending does not advance \<open>split_last_seq\<close>: once the pending
  boundary has been placed, the next frame arms another one.
\<close>

theorem request_while_pending_splits_again:
  assumes "split_armed b" "ev_key p" "split_forced_pts_ns b \<le> ev_pts p"
    "sequence (UnpackSplitRequest (split_request s)) \<noteq> split_last_seq b"
  shows "\<not> fst (maybeArmSplit raced t (b, s))"
    "fst (maybeArmSplit id t (enqueue_video p (b, s)))"
proof -
  show "\<not> fst (maybeArmSplit raced t (b, s))"
    using assms(1) by (simp add: maybeArmSplit_def Let_def)
  have due: "ShouldEmitSplitSentinel (split_armed b) (split_forced_pts_ns b) (ev_key p) (ev_pts p)"
    using assms by (simp add: ShouldEmitSplitSentinel_def)
  show "fst (maybeArmSplit id t (enqueue_video p (b, s)))"
    using assms due by (simp add: enqueue_video_def maybeArmSplit_def Let_def PushMuxItemLocked_def)
qed

text \<open>A stop meant for one recording is never taken by another, and taking clears it.\<close>

lemma stop_is_for_its_recording:
  assumes "fst (Consume request_id (NoteStop False stopped t))" "stopped \<noteq> kUnscopedRecordRequest"
    "request_id \<noteq> kUnscopedRecordRequest"
  shows "request_id = stopped"
  using assms by (simp add: Consume_def NoteStop_def RecordRequestMatches_def)

lemma stop_is_taken_once: "\<not> fst (Consume again (snd (Consume request_id t)))" "\<not> fst (Consume request_id (Clear t))"
  by (simp_all add: Consume_def Clear_def)

end
