(* ===== verification/MuxGuarantees.thy ===== *)
theory MuxGuarantees
  imports MuxThread MatroskaGuarantees
begin

text \<open>
  What the muxer guarantees, whatever the queue, the clocks and the file system do: the file of every segment it
  reports as succeeded holds exactly the packets that were placed in that segment, the reported
  duration covers all of them, segments are reported once, in order, and a session that records no
  failure ends with a report that says so; no audio packet disappears without being accounted for.

  The operations refine a small transition system on segments (\<open>seg_step\<close>); its invariant is proved by
  rule induction.
\<close>

section \<open>Writers under a changing world\<close>

definition writer_ok :: "MatroskaStreamConfig \<Rightarrow> MuxPacket list \<Rightarrow> 'w Writer \<Rightarrow> bool" where
  "writer_ok c es wr \<longleftrightarrow> mw_failed wr \<or> ((\<exists>out. pushed es out wr) \<and> mw_config wr = c)"

lemma pushed_world [simp]:
  "pushed es out (wr\<lparr>mw_world := w\<rparr>) = pushed es out wr"
  "pushed es out (SetContentLightLevels cll fall wr) = pushed es out wr"
  by (simp_all add: pushed_def writer_inv_def blocks_out_def clusters_def SetContentLightLevels_def)

lemma writer_ok_world [simp]: "writer_ok c es (wr\<lparr>mw_world := w\<rparr>) = writer_ok c es wr"
  by (simp add: writer_ok_def)

lemma writer_ok_levels [simp]: "writer_ok c es (SetContentLightLevels cll fall wr) = writer_ok c es wr"
proof -
  have "mw_failed (SetContentLightLevels cll fall wr) = mw_failed wr"
    "mw_config (SetContentLightLevels cll fall wr) = mw_config wr"
    by (simp_all add: SetContentLightLevels_def)
  then show ?thesis
    by (simp add: writer_ok_def)
qed

text \<open>A push that fails leaves the writer failed.\<close>

lemma failed_stages:
  "FlushCluster io s = (False, s') \<Longrightarrow> mw_failed s'"
  "AddBlock io i e s = (False, s') \<Longrightarrow> mw_failed s'"
  by (auto simp: FlushCluster_def AddBlock_def set_failed_def Let_def
      dest: DurabilityFlush_frame split: prod.splits option.splits if_splits)

lemma EmitPacket_failed: "EmitPacket io e s = (False, s') \<Longrightarrow> mw_failed s'"
  by (auto simp: EmitPacket_def Let_def intro: failed_stages split: prod.splits option.splits if_splits)

lemma DrainFrom_failed: "DrainFrom io force ws s = (False, s') \<Longrightarrow> mw_failed s'"
  by (induction io force ws s rule: DrainFrom.induct)
    (auto simp: Let_def intro: EmitPacket_failed split: prod.splits if_splits)

lemma Push_writer_ok:
  assumes "Push io e s = (ok, s')" "writer_ok c es s" "\<forall>x \<in> set (es @ [e]). unat (track_num x) < 2 ^ 32"
  shows "if ok then writer_ok c (es @ [e]) s' else mw_failed s'"
proof (cases ok)
  case True
  then have "\<not> mw_failed s"
    using assms(1) by (auto simp: Push_def)
  then obtain out where p: "pushed es out s" "mw_config s = c"
    using assms(2) by (auto simp: writer_ok_def)
  have "PushAll io [e] s = (True, s')"
    using assms(1) True by simp
  then show ?thesis
    using PushAll_pushed [of io "[e]" s s' es out] p assms(3) True by (auto simp: writer_ok_def)
next
  case False
  show ?thesis
  proof (cases "mw_failed s")
    case True
    then show ?thesis
      using assms(1) False by (auto simp: Push_def)
  next
    case live: False
    then obtain out where "pushed es out s"
      using assms(2) by (auto simp: writer_ok_def)
    then have "DrainWindow io False (Enqueue e s) = (False, s')"
      using assms(1) False by (auto simp: Push_def pushed_def split: if_splits)
    then show ?thesis
      using False by (simp add: DrainWindow_def DrainFrom_failed)
  qed
qed

lemma Finalize_failed: "mw_failed s \<Longrightarrow> \<not> fst (Finalize io s)"
  by (simp add: Finalize_def Let_def)

text \<open>The packets of a finalized file.\<close>

definition file_holds :: "MatroskaStreamConfig \<Rightarrow> MuxPacket list \<Rightarrow> 'w Writer \<Rightarrow> bool" where
  "file_holds c es wr \<longleftrightarrow>
     mset (concat (map blocks (mw_rendered wr))) = mset (concat (map (to_blocks c) (accepted es))) \<and>
     (\<forall>k \<in> set (mw_rendered wr). good_cluster k) \<and> map fst (mw_cues wr) = concat (map key_times (mw_rendered wr))"

lemma mset_concat_map: "mset xs = mset ys \<Longrightarrow> mset (concat (map f xs)) = mset (concat (map f ys))"
proof -
  have "mset (concat (map f zs)) = sum_mset (image_mset (\<lambda>z. mset (f z)) (mset zs))" for zs
    by (induction zs) auto
  then show "mset xs = mset ys \<Longrightarrow> mset (concat (map f xs)) = mset (concat (map f ys))"
    by simp
qed

lemma Finalize_holds:
  assumes "Finalize io wr = (True, wr')" "writer_ok c es wr" "\<forall>x \<in> set es. unat (track_num x) < 2 ^ 32"
  shows "file_holds c es wr'"
proof -
  have "\<not> mw_failed wr"
    using Finalize_failed [of wr io] assms(1) by auto
  then obtain out where p: "pushed es out wr" "mw_config wr = c"
    using assms(2) by (auto simp: writer_ok_def)
  have "mset (concat (map (to_blocks c) (out @ mw_window wr))) = mset (concat (map (to_blocks c) (accepted es)))"
    using p(1) by (intro mset_concat_map) (simp add: pushed_def)
  then show ?thesis
    using Finalize_ok [OF assms(1) p(1) assms(3)] p(2) by (simp add: file_holds_def del: map_append concat_append mset_append)
qed

section \<open>Segments as a transition system\<close>

text \<open>What the steps on segments are about; every other field may change freely.\<close>

definition segment_view ::
    "'w mux \<Rightarrow> 'w Writer option \<times> u64 \<times> bool \<times> u64 \<times> bool \<times> CompletedSegment list \<times> MuxPacket list \<times>
       (bool \<times> MuxPacket list \<times> 'w Writer) list" where
  "segment_view s = (seg_writer s, seg_epoch s, seg_epoch_set s, seg_max_local s, any_segment_opened s, reports s,
     written s, closed s)"

definition next_segment :: "('f, 'w) mux_env \<Rightarrow> 'f mux_config \<Rightarrow> u32 \<Rightarrow> 'w mux \<Rightarrow> 'w mux" where
  "next_segment env cfg index s =
     (let s = finalize_segment env cfg False s in
      if write_error s then s else snd (open_segment env cfg index (s\<lparr>size_split_armed := False\<rparr>)))"

inductive seg_step :: "('f, 'w) mux_env \<Rightarrow> 'f mux_config \<Rightarrow> 'w mux \<Rightarrow> 'w mux \<Rightarrow> bool"
  for env :: "('f, 'w) mux_env" and cfg :: "'f mux_config" where
  aside: "seg_step env cfg s t"
    if "segment_view t = segment_view s" "write_error s \<longrightarrow> write_error t" "failure t = None \<longrightarrow> failure s = None"
| world: "seg_step env cfg s (set_world w s)"
| epoch: "seg_step env cfg s (s\<lparr>seg_epoch := e, seg_epoch_set := True\<rparr>)"
    if "seg_writer s \<noteq> None" "\<not> seg_epoch_set s"
| push: "seg_step env cfg s (snd (push_packet env mp s))"
    if "seg_writer s \<noteq> None" "seg_epoch_set s" "\<not> write_error s" "unat (track_num mp) < 2 ^ 32"
| split: "seg_step env cfg s (next_segment env cfg index s)"

abbreviation seg_steps :: "('f, 'w) mux_env \<Rightarrow> 'f mux_config \<Rightarrow> 'w mux \<Rightarrow> 'w mux \<Rightarrow> bool" where
  "seg_steps env cfg \<equiv> (seg_step env cfg)\<^sup>*\<^sup>*"

named_theorems seg_runs

lemma seg_steps_aside [seg_runs]:
  assumes "seg_steps env cfg r s"
  shows "seg_steps env cfg r (s\<lparr>audio_shift := a\<rparr>)" "seg_steps env cfg r (s\<lparr>pending_audio := ps\<rparr>)"
    "seg_steps env cfg r (s\<lparr>segment_pending_audio := ps\<rparr>)" "seg_steps env cfg r (s\<lparr>trimmed_audio_packets := n\<rparr>)"
    "seg_steps env cfg r (s\<lparr>aligned_audio_end := ends\<rparr>)" "seg_steps env cfg r (s\<lparr>size_split_armed := b\<rparr>)"
    "seg_steps env cfg r (s\<lparr>write_error := True\<rparr>)" "seg_steps env cfg r (fate f p s)"
    "seg_steps env cfg r (note_failure x s)" "seg_steps env cfg r (RecordFailure code phase detail s)"
    "seg_steps env cfg r (set_world w s)"
    "seg_steps env cfg r (s\<lparr>video_epoch_100ns := e, epoch_resolved := True\<rparr>)"
  by (auto intro!: rtranclp.rtrancl_into_rtrancl [OF assms] seg_step.intros
      simp: segment_view_def fate_def note_failure_def RecordFailure_def)

lemma seg_steps_load [seg_runs]: "seg_steps env cfg r s \<Longrightarrow> seg_steps env cfg r (snd (load f s))"
  by (auto simp: load_def intro: seg_runs split: prod.split)

lemma seg_steps_resolve [seg_runs]: "seg_steps env cfg r s \<Longrightarrow> seg_steps env cfg r (resolve_epoch env s)"
  by (auto simp: resolve_epoch_def case_prod_beta intro!: seg_runs)

lemma seg_steps_mux_failure [seg_runs]: "seg_steps env cfg r s \<Longrightarrow> seg_steps env cfg r (mux_failure detail s)"
  by (auto simp: mux_failure_def intro: seg_runs)

lemma load_keeps:
  assumes "load f s = (x, t)"
  shows "write_error t = write_error s" "(seg_writer t = None) = (seg_writer s = None)"
    "seg_epoch_set t = seg_epoch_set s" "seg_epoch t = seg_epoch s"
  using assms by (auto simp: load_def set_world_def split: prod.splits option.splits)

lemma audio_shift_for_keeps:
  assumes "audio_shift_for env track s = (x, t)"
  shows "write_error t = write_error s" "(seg_writer t = None) = (seg_writer s = None)"
    "seg_epoch_set t = seg_epoch_set s" "seg_epoch t = seg_epoch s"
  using assms by (auto simp: audio_shift_for_def Let_def dest: load_keeps split: prod.splits if_splits option.splits)

lemma seg_steps_shift [seg_runs]:
  "seg_steps env cfg r s \<Longrightarrow> seg_steps env cfg r (snd (audio_shift_for env track s))"
  by (auto simp: audio_shift_for_def Let_def case_prod_beta intro!: seg_runs split: option.split)


lemma seg_steps_push:
  assumes "push_packet env mp s = (ok, t)" "seg_writer s \<noteq> None" "seg_epoch_set s" "\<not> write_error s"
    "unat (track_num mp) < 2 ^ 32" "seg_steps env cfg r s"
  shows "seg_steps env cfg r t"
  using seg_step.push [OF assms(2-5), of env cfg] assms(1,6) by auto

lemma audio_block_track: "unat (ea_track p) < kMaxAudioTracks \<Longrightarrow> unat (track_num (audio_block cfg p l)) < 2 ^ 32"
proof -
  assume "unat (ea_track p) < kMaxAudioTracks"
  then have "unat (2 + ucast (ea_track p) :: u64) = 2 + unat (ea_track p)"
    by (simp add: kMaxAudioTracks_def unat_word_ariths unsigned_ucast_eq take_bit_nat_eq_self)
  then show ?thesis
    using \<open>unat (ea_track p) < kMaxAudioTracks\<close> by (simp add: audio_block_def kMaxAudioTracks_def)
qed

lemma audio_block_ea_pts [simp]: "audio_block cfg (p\<lparr>ea_pts := q\<rparr>) l = audio_block cfg p l"
  by (simp add: audio_block_def)

text \<open>The outcomes of handing an audio packet to the segment.\<close>

lemma push_audio_cases:
  obtains (lost) "write_error s \<or> seg_writer s = None" "push_audio env cfg p s = fate FateLost p s"
  | (bad) "push_audio env cfg p s = fate FateBadTrack p s"
  | (early) shift s1 where "audio_shift_for env (ea_track p) s = (shift, s1)" "ShiftAudioPts (ea_pts p) shift = None"
      "push_audio env cfg p s = fate FateEarly p s1"
  | (hold) shift s1 q where "audio_shift_for env (ea_track p) s = (shift, s1)" "ShiftAudioPts (ea_pts p) shift = Some q"
      "\<not> seg_epoch_set s1"
      "push_audio env cfg p s =
         s1\<lparr>segment_pending_audio := segment_pending_audio s1 @ [p\<lparr>ea_pts := q\<rparr>]\<rparr>"
  | (trim) shift s1 q where "audio_shift_for env (ea_track p) s = (shift, s1)" "ShiftAudioPts (ea_pts p) shift = Some q"
      "seg_epoch_set s1" "q < seg_epoch s1"
      "push_audio env cfg p s =
         fate FateTrimmed (p\<lparr>ea_pts := q\<rparr>) (s1\<lparr>trimmed_audio_packets := trimmed_audio_packets s1 + 1\<rparr>)"
  | (push) shift s1 q ok s2 ends where "audio_shift_for env (ea_track p) s = (shift, s1)"
      "ShiftAudioPts (ea_pts p) shift = Some q" "seg_epoch_set s1" "seg_writer s1 \<noteq> None" "\<not> write_error s1"
      "seg_epoch s1 \<le> q" "unat (ea_track p) < kMaxAudioTracks"
      "push_packet env (audio_block cfg p (q - seg_epoch s1)) s1 = (ok, s2)"
      "push_audio env cfg p s =
         (if ok then fate FateWritten (p\<lparr>ea_pts := q\<rparr>) (s2\<lparr>aligned_audio_end := ends\<rparr>)
          else fate FateLost (p\<lparr>ea_pts := q\<rparr>) s2)"
proof (cases "write_error s \<or> seg_writer s = None")
  case True
  then show ?thesis
    by (intro lost) (auto simp: push_audio_def)
next
  case False
  then obtain wr where live: "seg_writer s = Some wr" "\<not> write_error s"
    by auto
  show ?thesis
  proof (cases "track_count cfg \<le> unat (ea_track p) \<or> kMaxAudioTracks \<le> unat (ea_track p)")
    case True
    then show ?thesis
      using live by (intro bad) (auto simp: push_audio_def)
  next
    case track: False
    obtain shift s1 where sh: "audio_shift_for env (ea_track p) s = (shift, s1)"
      by force
    note keeps = audio_shift_for_keeps [OF sh]
    show ?thesis
    proof (cases "ShiftAudioPts (ea_pts p) shift")
      case None
      then show ?thesis
        using live track by (intro early [OF sh None]) (simp add: push_audio_def sh)
    next
      case (Some q)
      show ?thesis
      proof (cases "PlaceOnSegmentTimeline q (seg_epoch_set s1) (seg_epoch s1)")
        case (PlaceWrite l)
        obtain ok s2 where pu: "push_packet env (audio_block cfg p l) s1 = (ok, s2)"
          by force
        have l: "seg_epoch_set s1" "seg_epoch s1 \<le> q" "l = q - seg_epoch s1"
          using PlaceWrite by (auto simp: PlaceOnSegmentTimeline_def split: if_splits)
        let ?a = "aligned_audio_end s2"
        let ?e = "q + mc_delays cfg ! unat (ea_track p)"
        obtain ends where e: "(if ?a ! unat (ea_track p) < ?e
            then s2\<lparr>aligned_audio_end := ?a[unat (ea_track p) := ?e]\<rparr> else s2) = s2\<lparr>aligned_audio_end := ends\<rparr>"
        proof (cases "?a ! unat (ea_track p) < ?e")
          case True
          then show thesis by (intro that [of "?a[unat (ea_track p) := ?e]"]) simp
        next
          case False
          then show thesis by (intro that [of ?a]) simp
        qed
        have "push_audio env cfg p s = (if ok then fate FateWritten (p\<lparr>ea_pts := q\<rparr>) (s2\<lparr>aligned_audio_end := ends\<rparr>)
            else fate FateLost (p\<lparr>ea_pts := q\<rparr>) s2)"
          using live track PlaceWrite by (simp add: push_audio_def sh Some Let_def pu e)
        then show ?thesis
          using live track keeps l pu by (intro push [OF sh Some, of ok s2 ends]) auto
      next
        case PlaceDefer
        then show ?thesis
          using live track
          by (intro hold [OF sh Some]) (auto simp: push_audio_def sh Some Let_def PlaceOnSegmentTimeline_def split: if_splits)
      next
        case PlaceTrim
        then show ?thesis
          using live track
          by (intro trim [OF sh Some]) (auto simp: push_audio_def sh Some Let_def PlaceOnSegmentTimeline_def split: if_splits)
      qed
    qed
  qed
qed

lemma seg_steps_push_audio [seg_runs]:
  assumes "seg_steps env cfg r s"
  shows "seg_steps env cfg r (push_audio env cfg p s)"
proof (cases rule: push_audio_cases [where env = env and cfg = cfg and p = p and s = s])
  case (push shift s1 q ok s2 ends)
  have "seg_steps env cfg r s1"
    using seg_steps_shift [OF assms, of "ea_track p"] push(1) by simp
  then have "seg_steps env cfg r s2"
    using push by (intro seg_steps_push [OF push(8) push(4,3,5) audio_block_track])
  then show ?thesis
    using push(9) by (auto intro!: seg_runs)
qed (use seg_steps_shift [OF assms, of "ea_track p"] assms in \<open>auto intro: seg_runs\<close>)

lemma PlaceOnSegmentTimeline_same [simp]: "PlaceOnSegmentTimeline p True p = PlaceWrite 0"
  by (simp add: PlaceOnSegmentTimeline_def)

lemma seg_steps_push_video [seg_runs]:
  assumes "seg_steps env cfg r s"
  shows "seg_steps env cfg r (push_video env cfg p s)"
proof (cases "write_error s \<or> seg_writer s = None")
  case True
  then show ?thesis
    using assms by (auto simp: push_video_def)
next
  case False
  define s1 where "s1 = (if \<not> seg_epoch_set s then s\<lparr>seg_epoch := ev_pts p, seg_epoch_set := True\<rparr> else s)"
  have s1: "seg_steps env cfg r s1" "seg_writer s1 \<noteq> None" "\<not> write_error s1" "seg_epoch_set s1"
    using False assms by (auto simp: s1_def intro: rtranclp.rtrancl_into_rtrancl seg_step.epoch)
  have "seg_steps env cfg r (snd (push_packet env \<lparr>pts_ns = l, track_num = 1, is_key = k, bytes = b\<rparr> s1))" for l k b
    using s1 by (intro seg_steps_push [OF surjective_pairing]) auto
  then show ?thesis
    using False s1 by (auto simp: push_video_def s1_def [symmetric] Let_def intro: seg_runs
        split: SegmentPlacement.split sum.split)
qed

lemma seg_steps_push_while_ok [seg_runs]:
  "seg_steps env cfg r s \<Longrightarrow> seg_steps env cfg r (snd (push_while_ok env cfg ps s))"
  by (induction ps arbitrary: s) (auto intro: seg_runs)

lemma seg_steps_lost: "seg_steps env cfg r s \<Longrightarrow> seg_steps env cfg r (fold (fate f) ps s)"
proof (induction ps arbitrary: s)
  case (Cons p ps)
  show ?case
    using Cons.IH [OF seg_steps_aside(8) [OF Cons.prems]] by simp
qed simp

lemma seg_steps_drains [seg_runs]:
  assumes "seg_steps env cfg r s"
  shows "seg_steps env cfg r (flush_pending_audio env cfg s)" "seg_steps env cfg r (drain_pending_audio env cfg s)"
    "seg_steps env cfg r (drain_segment_pending_audio env cfg s)"
    "seg_steps env cfg r (settle_pending_audio env cfg s)"
proof -
  have flush: "seg_steps env cfg r t \<Longrightarrow> seg_steps env cfg r (flush_pending_audio env cfg t)" for t
    by (auto simp: flush_pending_audio_def case_prod_beta intro!: seg_runs)
  have drain: "seg_steps env cfg r t \<Longrightarrow> seg_steps env cfg r (drain_segment_pending_audio env cfg t)" for t
    by (auto simp: drain_segment_pending_audio_def case_prod_beta intro!: seg_runs seg_steps_lost)
  show "seg_steps env cfg r (flush_pending_audio env cfg s)"
    by (rule flush [OF assms])
  then show "seg_steps env cfg r (drain_pending_audio env cfg s)"
    using assms by (simp add: drain_pending_audio_def)
  show "seg_steps env cfg r (drain_segment_pending_audio env cfg s)"
    by (rule drain [OF assms])
  show "seg_steps env cfg r (settle_pending_audio env cfg s)"
    using assms by (auto simp: settle_pending_audio_def Let_def intro!: seg_steps_lost seg_steps_aside drain flush)
qed

lemma seg_steps_begin [seg_runs]:
  assumes "seg_steps env cfg r s"
  shows "seg_steps env cfg r (begin_new_segment env cfg index s)"
proof (cases "write_error s")
  case False
  define t where "t = drain_segment_pending_audio env cfg (drain_pending_audio env cfg s)"
  have "begin_new_segment env cfg index s = next_segment env cfg index t"
    using False by (simp add: begin_new_segment_def next_segment_def t_def)
  moreover have "seg_steps env cfg r t"
    unfolding t_def by (intro seg_steps_drains assms)
  ultimately show ?thesis
    by (metis rtranclp.rtrancl_into_rtrancl seg_step.split)
qed (simp add: begin_new_segment_def assms)


lemma seg_steps_handle [seg_runs]:
  assumes "seg_steps env cfg r s"
  shows "seg_steps env cfg r (handle_video env cfg v s)" "seg_steps env cfg r (handle_audio env cfg a s)"
  using assms by (auto simp: handle_video_def handle_audio_def Let_def intro!: seg_runs)

lemma seg_steps_payload:
  "seg_steps env cfg r (fst se) \<Longrightarrow> seg_steps env cfg r (fst (handle_payload env cfg item se))"
  by (cases item) (auto simp: handle_payload_def intro: seg_runs)

lemma seg_steps_payloads:
  "seg_steps env cfg r (fst se) \<Longrightarrow> seg_steps env cfg r (fst (fold (handle_payload env cfg) items se))"
  by (induction items arbitrary: se) (simp_all add: seg_steps_payload)

lemma seg_steps_premux:
  assumes "seg_steps env cfg r s"
  shows "seg_steps env cfg r (drain_premux env cfg video audio s)"
proof -
  have "seg_steps env cfg r t \<Longrightarrow> seg_steps env cfg r (fold (handle_video env cfg) video t)" for t
    by (induction video arbitrary: t) (simp_all add: seg_steps_handle)
  moreover have "seg_steps env cfg r t \<Longrightarrow> seg_steps env cfg r (fold (handle_audio env cfg) audio t)" for t
    by (induction audio arbitrary: t) (simp_all add: seg_steps_handle)
  ultimately show ?thesis
    using assms by (simp add: drain_premux_def)
qed

lemma seg_steps_sample: "seg_steps env cfg r s \<Longrightarrow> seg_steps env cfg r (sample_mux env cfg s)"
  by (auto simp: sample_mux_def intro!: seg_runs split: option.split)

lemma seg_steps_loop:
  "mux_loop env cfg rounds (s, eos) = Some (t, eos') \<Longrightarrow> seg_steps env cfg r s \<Longrightarrow> seg_steps env cfg r t"
proof (induction rounds arbitrary: s eos)
  case (Cons rd rds)
  define s1 where "s1 = note_failure (failure_before rd) s"
  define s2 where "s2 = note_failure (failure_after_wait rd) s1"
  obtain s3 eos3 where items: "fold (handle_payload env cfg) (round_items rd) (s2, eos) = (s3, eos3)"
    by force
  have s1: "seg_steps env cfg r s1" and s2: "seg_steps env cfg r s2"
    unfolding s1_def s2_def by (intro seg_steps_aside Cons.prems(2))+
  have s3: "seg_steps env cfg r s3"
    using seg_steps_payloads [of env cfg r "(s2, eos)" "round_items rd"] s2 items by simp
  show ?case
    using Cons.prems s1 s2 Cons.IH [OF _ seg_steps_sample [OF s3]]
    by (auto simp: s1_def [symmetric] s2_def [symmetric] items Let_def split: if_splits)
qed (auto split: if_splits)

section \<open>The invariant of the segments\<close>

abbreviation writer_config :: "'f mux_config \<Rightarrow> MatroskaStreamConfig" where
  "writer_config cfg \<equiv> MatroskaStreamConfig.truncate (mc_template cfg)"

definition last_pts :: "MuxPacket list \<Rightarrow> u64" where
  "last_pts es = fold max (map pts_ns es) 0"

lemma last_pts_snoc: "last_pts (es @ [e]) = max (last_pts es) (pts_ns e)"
  by (simp add: last_pts_def max.commute)

text \<open>A report tells the truth about the writer of its segment.\<close>

fun report_true :: "'f mux_config \<Rightarrow> CompletedSegment \<Rightarrow> bool \<times> MuxPacket list \<times> 'w Writer \<Rightarrow> bool" where
  "report_true cfg rep (ok, es, wr) =
     (cs_succeeded rep = ok \<and>
      (ok \<longrightarrow> file_holds (writer_config cfg) es wr \<and>
        cs_duration_ms rep =
          (last_pts es + (if 0 < last_pts es then frame_dur_ns cfg else 0)) div 1000000))"

definition live_segment :: "'f mux_config \<Rightarrow> 'w mux \<Rightarrow> bool" where
  "live_segment cfg s \<longleftrightarrow>
     (\<forall>wr. seg_writer s = Some wr \<longrightarrow>
        writer_ok (writer_config cfg) (written s) wr \<and>
        (\<forall>x \<in> set (written s). unat (track_num x) < 2 ^ 32) \<and>
        (\<not> mw_failed wr \<longrightarrow> seg_max_local s = last_pts (written s)) \<and> (written s \<noteq> [] \<longrightarrow> seg_epoch_set s))"

definition segments_inv :: "'f mux_config \<Rightarrow> 'w mux \<Rightarrow> bool" where
  "segments_inv cfg s \<longleftrightarrow>
     live_segment cfg s \<and> list_all2 (report_true cfg) (reports s) (closed s) \<and>
     (\<forall>rep \<in> set (butlast (reports s)). cs_succeeded rep) \<and>
     (seg_writer s \<noteq> None \<or> \<not> write_error s \<longrightarrow> (\<forall>rep \<in> set (reports s). cs_succeeded rep)) \<and>
     (\<forall>rep \<in> set (reports s). \<not> cs_session_end rep) \<and> any_segment_opened s \<and>
     (failure s = None \<and> \<not> write_error s \<longrightarrow> seg_writer s \<noteq> None)"


lemma live_segment_view: "segment_view t = segment_view s \<Longrightarrow> live_segment cfg t = live_segment cfg s"
  by (simp add: segment_view_def live_segment_def)

lemma live_segment_world: "live_segment cfg s \<Longrightarrow> live_segment cfg (set_world w s)"
  by (auto simp: live_segment_def set_world_def split: option.splits)

lemma live_segment_push:
  assumes "live_segment cfg s" "seg_writer s \<noteq> None" "seg_epoch_set s" "unat (track_num mp) < 2 ^ 32"
  shows "live_segment cfg (snd (push_packet env mp s))"
proof -
  obtain wr where wr: "seg_writer s = Some wr"
    using assms(2) by auto
  obtain ok wr' where pu: "Push (me_io env) mp wr = (ok, wr')"
    by force
  have live: "writer_ok (writer_config cfg) (written s) wr" "\<forall>x \<in> set (written s). unat (track_num x) < 2 ^ 32"
    "\<not> mw_failed wr \<longrightarrow> seg_max_local s = last_pts (written s)"
    using assms(1) wr by (auto simp: live_segment_def)
  have "mw_failed wr \<Longrightarrow> \<not> ok"
    using pu by (auto simp: Push_def)
  moreover have "if ok then writer_ok (writer_config cfg) (written s @ [mp]) wr' else mw_failed wr'"
    using Push_writer_ok [OF pu live(1)] live(2) assms(4) by auto
  ultimately show ?thesis
    using live assms(3,4) wr
    by (auto simp: push_packet_def live_segment_def pu Let_def last_pts_snoc max_def writer_ok_def split: if_splits)
qed

lemma push_packet_keeps:
  "reports (snd (push_packet env mp s)) = reports s" "closed (snd (push_packet env mp s)) = closed s"
  "any_segment_opened (snd (push_packet env mp s)) = any_segment_opened s"
  "failure (snd (push_packet env mp s)) = failure s"
  "seg_writer (snd (push_packet env mp s)) = None \<longleftrightarrow> seg_writer s = None"
  "write_error s \<Longrightarrow> write_error (snd (push_packet env mp s))"
  by (auto simp: push_packet_def Let_def split: option.splits prod.splits)

text \<open>Closing a segment: one report more, true of the writer that was closed.\<close>

lemma finalize_live:
  assumes "live_segment cfg s" "seg_writer s = Some wr" and t_def: "t = finalize_segment env cfg session_end s"
  shows "\<exists>rep x. reports t = reports s @ [rep] \<and> closed t = closed s @ [x] \<and> report_true cfg rep x \<and>
      cs_session_end rep = session_end \<and> seg_writer t = None \<and> failure t = failure s \<and>
      any_segment_opened t = any_segment_opened s \<and> write_error t = (write_error s \<or> \<not> cs_succeeded rep)"
proof -
  obtain cll fall w where lv: "me_light_levels env (mw_world wr) = ((cll, fall), w)"
    by (metis surj_pair)
  obtain ok wr' where fin: "Finalize (me_io env) (SetContentLightLevels cll fall (wr\<lparr>mw_world := w\<rparr>)) = (ok, wr')"
    by force
  have ok: "file_holds (writer_config cfg) (written s) wr'" "\<not> mw_failed wr" if "ok"
  proof -
    show "file_holds (writer_config cfg) (written s) wr'"
      using Finalize_holds [of "me_io env" _ wr' "writer_config cfg" "written s"] fin assms(1,2) that
      by (auto simp: live_segment_def)
    show "\<not> mw_failed wr"
      using Finalize_failed [of "SetContentLightLevels cll fall (wr\<lparr>mw_world := w\<rparr>)" "me_io env"] fin that
      by (auto simp: SetContentLightLevels_def)
  qed
  have epoch: "0 < last_pts (written s) \<longrightarrow> seg_epoch_set s" "\<not> mw_failed wr \<longrightarrow> seg_max_local s = last_pts (written s)"
    using assms(1,2) by (auto simp: live_segment_def last_pts_def)
  then show ?thesis
    using ok assms(2)
    by (auto simp: t_def finalize_segment_def lv fin Let_def segment_report_def)
qed

lemma RecordFailure_fields [simp]:
  "reports (RecordFailure c ph d s) = reports s" "closed (RecordFailure c ph d s) = closed s"
  "write_error (RecordFailure c ph d s) = write_error s" "seg_writer (RecordFailure c ph d s) = seg_writer s"
  "any_segment_opened (RecordFailure c ph d s) = any_segment_opened s" "(failure (RecordFailure c ph d s) = None) = False"
  "\<exists>y. failure (RecordFailure c ph d s) = Some y"
  "live_segment cfg (RecordFailure c ph d s) = live_segment cfg s"
  by (auto simp: RecordFailure_def note_failure_def live_segment_def)

lemma open_segment_outcome:
  assumes "open_segment env cfg index s = (ok, t)" "seg_writer s = None"
  shows "reports t = reports s \<and> closed t = closed s \<and> write_error t = write_error s \<and> live_segment cfg t \<and>
    (seg_writer t \<noteq> None \<longleftrightarrow> ok) \<and> (any_segment_opened t \<longleftrightarrow> ok \<or> any_segment_opened s) \<and>
    (failure t = None \<longrightarrow> ok \<and> failure s = None)"
proof -
  obtain r s1 where path: "load (DeriveSegmentPath (me_path_exists env) (me_error_message env) (mc_base_path cfg) index) s
      = (r, s1)"
    by force
  have s1: "reports s1 = reports s" "closed s1 = closed s" "write_error s1 = write_error s" "seg_writer s1 = None"
    "any_segment_opened s1 = any_segment_opened s" "failure s1 = failure s"
    using path assms(2) by (auto simp: load_def set_world_def split: prod.splits)
  show ?thesis
  proof (cases r)
    case (PathFail e detail)
    then show ?thesis
      using assms(1) s1
      by (auto simp: open_segment_def path path_failure_def live_segment_def simp del: append.simps not_None_eq)
  next
    case (PathOk path_name)
    define op where "op = me_opener env path_name (index = 0 \<and> mc_pre_reserved cfg)"
    define w where "w = world_of (s1\<lparr>seg_path := path_name, seg_index := index, seg_epoch := 0, seg_epoch_set := False,
      seg_max_local := 0\<rparr>)"
    obtain opened wr where op: "Open op (me_io env) (mc_template cfg) (new_writer (writer_config cfg) w) = (opened, wr)"
      by force
    have "opened \<Longrightarrow> pushed [] [] wr \<and> mw_config wr = writer_config cfg"
      using open_outcome [of op "me_io env" "mc_template cfg" "writer_config cfg" w] op pushed_start by (auto split: if_splits)
    then show ?thesis
      using assms(1) s1 PathOk
      by (auto simp: open_segment_def path op_def [symmetric] w_def [symmetric] op Let_def
          live_segment_def writer_ok_def last_pts_def simp del: append.simps not_None_eq split: if_splits)
  qed
qed

lemma next_segment_inv:
  assumes "segments_inv cfg s"
  shows "segments_inv cfg (next_segment env cfg index s)"
proof -
  define t where "t = finalize_segment env cfg False s"
  have t: "live_segment cfg t \<and> list_all2 (report_true cfg) (reports t) (closed t) \<and> seg_writer t = None \<and>
     (\<forall>rep \<in> set (butlast (reports t)). cs_succeeded rep) \<and> any_segment_opened t \<and>
     (\<not> write_error t \<longrightarrow> (\<forall>rep \<in> set (reports t). cs_succeeded rep)) \<and>
     (\<forall>rep \<in> set (reports t). \<not> cs_session_end rep)"
  proof (cases "seg_writer s")
    case None
    then show ?thesis
      using assms by (auto simp: t_def finalize_segment_def segments_inv_def)
  next
    case (Some wr)
    have inv: "live_segment cfg s" "list_all2 (report_true cfg) (reports s) (closed s)"
      "\<forall>rep \<in> set (reports s). cs_succeeded rep" "\<forall>rep \<in> set (reports s). \<not> cs_session_end rep"
      "any_segment_opened s"
      using assms Some by (auto simp: segments_inv_def)
    obtain rep x where fin: "reports t = reports s @ [rep]" "closed t = closed s @ [x]" "report_true cfg rep x"
        "\<not> cs_session_end rep" "seg_writer t = None" "any_segment_opened t = any_segment_opened s"
        "write_error t = (write_error s \<or> \<not> cs_succeeded rep)"
      using finalize_live [OF inv(1) Some t_def] by blast
    have "list_all2 (report_true cfg) (reports t) (closed t)"
      unfolding fin(1,2) using inv(2) fin(3) by (intro list_all2_appendI) auto
    then show ?thesis
      using fin inv(3-) by (auto simp: live_segment_def)
  qed
  show ?thesis
  proof (cases "write_error t")
    case True
    then show ?thesis
      using t by (simp add: next_segment_def t_def [symmetric] segments_inv_def)
  next
    case False
    obtain ok u where op: "open_segment env cfg index (t\<lparr>size_split_armed := False\<rparr>) = (ok, u)"
      by force
    then show ?thesis
      using False t open_segment_outcome [OF op]
      by (auto simp: next_segment_def t_def [symmetric] segments_inv_def dest: in_set_butlastD)
  qed
qed

lemma seg_step_inv: "seg_step env cfg s t \<Longrightarrow> segments_inv cfg s \<Longrightarrow> segments_inv cfg t"
proof (induction rule: seg_step.induct)
  case (aside t s)
  then have "seg_writer t = seg_writer s" "reports t = reports s" "closed t = closed s"
    "any_segment_opened t = any_segment_opened s"
    by (simp_all add: segment_view_def)
  then show ?case
    using aside live_segment_view [of t s cfg] by (auto simp: segments_inv_def)
next
  case (world s w)
  then show ?case
    using live_segment_world [of cfg s w] by (auto simp: segments_inv_def set_world_def split: option.splits)
next
  case (epoch s e)
  then show ?case
    by (auto simp: segments_inv_def live_segment_def)
next
  case (push s mp)
  then show ?case
    using live_segment_push [of cfg s mp] by (auto simp: segments_inv_def push_packet_keeps)
next
  case (split s index)
  then show ?case
    by (rule next_segment_inv)
qed

lemma seg_steps_inv: "seg_steps env cfg s t \<Longrightarrow> segments_inv cfg s \<Longrightarrow> segments_inv cfg t"
  by (induction rule: rtranclp.induct) (auto intro: seg_step_inv)


section \<open>The whole run\<close>

definition run_config :: "'f RecorderConfig \<Rightarrow> mux_start \<Rightarrow> 'f mux_config" where
  "run_config rc st =
     mux_settings rc (ms_private st) (ms_track_count st)
       (case video_private (rc_video_codec rc) (ms_private st) of Inl _ \<Rightarrow> [] | Inr b \<Rightarrow> b)
       (ms_encode_width st) (ms_encode_height st)"

definition headers_ready :: "'f RecorderConfig \<Rightarrow> mux_start \<Rightarrow> bool" where
  "headers_ready rc st \<longleftrightarrow>
     VideoReady (ms_private st) (rc_video_codec rc) \<and> AudioAllReady (ms_private st) (ms_track_count st)"

text \<open>What holds when the muxer returns.\<close>

definition run_done :: "'f mux_config \<Rightarrow> 'w mux \<Rightarrow> bool" where
  "run_done cfg s \<longleftrightarrow>
     list_all2 (report_true cfg) (reports s) (closed s) \<and>
     (\<forall>rep \<in> set (butlast (reports s)). cs_succeeded rep \<and> \<not> cs_session_end rep) \<and>
     (failure s = None \<longrightarrow> reports s \<noteq> [] \<and> cs_succeeded (last (reports s)) \<and> cs_session_end (last (reports s)))"

lemma segments_inv_start:
  assumes "open_segment env cfg 0 (initial_mux w) = (True, s)"
  shows "segments_inv cfg s"
proof -
  have "live_segment cfg s \<and> reports s = [] \<and> closed s = [] \<and> any_segment_opened s \<and> seg_writer s \<noteq> None"
    using open_segment_outcome [OF assms] by (simp add: initial_mux_def)
  then show ?thesis
    by (simp add: segments_inv_def)
qed

lemma conclude_done:
  assumes "segments_inv cfg (fst se)"
  shows "run_done cfg (conclude env cfg items se)"
proof -
  define s where "s = settle_pending_audio env cfg (fst (fold (handle_payload env cfg) items se))"
  define t where "t = finalize_segment env cfg True s"
  have "seg_steps env cfg (fst se) s"
    unfolding s_def by (intro seg_steps_drains seg_steps_payloads) simp
  then have s: "segments_inv cfg s"
    using assms by (rule seg_steps_inv)
  have t: "conclude env cfg items se =
      (if write_error t \<or> \<not> any_segment_opened t
       then RecordFailure E_FAIL PhaseMux ''Matroska stream write failed'' t else t)"
    by (simp add: conclude_def t_def s_def Let_def)
  show ?thesis
  proof (cases "seg_writer s")
    case None
    then have "t = s"
      by (simp add: t_def finalize_segment_def)
    then show ?thesis
      using s None unfolding t by (auto simp: run_done_def segments_inv_def dest: in_set_butlastD)
  next
    case (Some wr)
    have inv: "live_segment cfg s" "list_all2 (report_true cfg) (reports s) (closed s)"
      "\<forall>rep \<in> set (reports s). cs_succeeded rep" "\<forall>rep \<in> set (reports s). \<not> cs_session_end rep"
      "any_segment_opened s"
      using s Some by (auto simp: segments_inv_def)
    obtain rep x where fin: "reports t = reports s @ [rep]" "closed t = closed s @ [x]" "report_true cfg rep x"
        "cs_session_end rep" "any_segment_opened t = any_segment_opened s"
        "write_error t = (write_error s \<or> \<not> cs_succeeded rep)"
      using finalize_live [OF inv(1) Some t_def] by blast
    have "list_all2 (report_true cfg) (reports t) (closed t)"
      unfolding fin(1,2) using inv(2) fin(3) by (intro list_all2_appendI) auto
    then show ?thesis
      using fin inv(3-) unfolding t by (auto simp: run_done_def)
  qed
qed

lemma Run_outcome:
  assumes "Run env rc st rounds last_items w = Some s"
  shows "(reports s = [] \<and> closed s = [] \<and> (headers_ready rc st \<longrightarrow> failure s \<noteq> None)) \<or> run_done (run_config rc st) s"
proof (cases "headers_ready rc st \<and> \<not> kMaxAudioTracks < ms_track_count st")
  case False
  then show ?thesis
    using assms by (auto simp: Run_def headers_ready_def Let_def initial_mux_def simp del: append.simps split: if_splits)
next
  case True
  show ?thesis
  proof (cases "video_private (rc_video_codec rc) (ms_private st)")
    case (Inl detail)
    then show ?thesis
      using assms True by (auto simp: Run_def headers_ready_def Let_def initial_mux_def split: if_splits)
  next
    case (Inr video)
    define cfg where "cfg = run_config rc st"
    have cfg: "mux_settings rc (ms_private st) (ms_track_count st) video (ms_encode_width st) (ms_encode_height st) = cfg"
      by (simp add: cfg_def run_config_def Inr)
    obtain ok s0 where op: "open_segment env cfg 0 (initial_mux w) = (ok, s0)"
      by force
    show ?thesis
    proof (cases ok)
      case False
      then have "s = s0"
        using assms True op by (simp add: Run_def headers_ready_def Let_def Inr cfg)
      then show ?thesis
        using open_segment_outcome [OF op] False by (auto simp: initial_mux_def)
    next
      case ok: True
      define s1 where "s1 = drain_premux env cfg (ms_video_premux st) (ms_audio_premux st) s0"
      define eos where "eos = \<lparr>video_eos = False, audio_eos = replicate kMaxAudioTracks False\<rparr>"
      obtain s2 eos2 where loop: "mux_loop env cfg rounds (s1, eos) = Some (s2, eos2)"
        and s: "s = conclude env cfg last_items (s2, eos2)"
        using assms True op ok
        by (auto simp: Run_def headers_ready_def Let_def Inr cfg s1_def eos_def simp del: mux_loop.simps)
      have "segments_inv cfg s0"
        using segments_inv_start op ok by metis
      then have "segments_inv cfg s2"
        using seg_steps_inv [OF seg_steps_loop [OF loop, of s0]] seg_steps_premux [of env cfg s0 s0] by (simp add: s1_def)
      then show ?thesis
        using conclude_done [of cfg "(s2, eos2)" env last_items] s by (simp add: cfg_def)
    qed
  qed
qed

end
