(* ===== verification/SegmentStarts.thy ===== *)
theory SegmentStarts
  imports RoutingGuarantees MuxGuarantees
begin

text \<open>
  Producers and muxer together: as the producers put every sentinel directly before a keyframe, every
  file begins with a video packet at its time 0, and every file after a boundary with a keyframe.
\<close>

definition opens :: "bool \<Rightarrow> MuxPacket list \<Rightarrow> bool" where
  "opens key es = (case es of [] \<Rightarrow> True | e # _ \<Rightarrow> track_num e = 1 \<and> pts_ns e = 0 \<and> (key \<longrightarrow> is_key e))"

lemma opens_simps [simp]: "opens k []" "es \<noteq> [] \<Longrightarrow> opens k (es @ fs) = opens k es"
  by (cases es; simp add: opens_def)+

definition closed_open :: "'w mux \<Rightarrow> bool" where
  "closed_open s \<longleftrightarrow> (\<forall>i < length (closed s). opens (0 < i) (fst (snd (closed s ! i))))"

text \<open>\<open>fresh\<close>: a sentinel has just been handled, its keyframe is the next item.\<close>

definition starts_inv :: "bool \<Rightarrow> 'w mux \<Rightarrow> bool" where
  "starts_inv fresh s \<longleftrightarrow> closed_open s \<and>
     (seg_writer s \<noteq> None \<longrightarrow> opens (closed s \<noteq> []) (written s)) \<and>
     (seg_writer s \<noteq> None \<and> \<not> write_error s \<longrightarrow>
        (if seg_epoch_set s then written s \<noteq> [] else written s = [] \<and> (fresh \<or> closed s = [])))"

lemma starts_view:
  assumes "starts_inv f s" "(seg_writer t = None) = (seg_writer s = None)" "seg_epoch_set t = seg_epoch_set s"
    "written t = written s" "closed t = closed s" "write_error s \<longrightarrow> write_error t"
  shows "starts_inv f t"
  using assms by (auto simp: starts_inv_def closed_open_def)

lemma starts_weaken: "starts_inv False s \<Longrightarrow> starts_inv f s"
  by (auto simp: starts_inv_def)

named_theorems starts_runs

lemma starts_aside [starts_runs]:
  assumes "starts_inv f s"
  shows "starts_inv f (s\<lparr>audio_shift := a\<rparr>)" "starts_inv f (s\<lparr>pending_audio := ps\<rparr>)"
    "starts_inv f (s\<lparr>segment_pending_audio := ps\<rparr>)" "starts_inv f (s\<lparr>trimmed_audio_packets := n\<rparr>)"
    "starts_inv f (s\<lparr>aligned_audio_end := ends\<rparr>)" "starts_inv f (s\<lparr>size_split_armed := b\<rparr>)"
    "starts_inv f (s\<lparr>write_error := True\<rparr>)" "starts_inv f (fate x p s)"
    "starts_inv f (note_failure y s)" "starts_inv f (RecordFailure code phase detail s)"
    "starts_inv f (set_world w s)"
    "starts_inv f (s\<lparr>video_epoch_100ns := e, epoch_resolved := True\<rparr>)"
  by (auto intro!: starts_view [OF assms] simp: fate_def note_failure_def RecordFailure_def set_world_def
      split: option.split)

lemma starts_load [starts_runs]: "starts_inv f s \<Longrightarrow> starts_inv f (snd (load g s))"
  by (auto simp: load_def intro: starts_runs split: prod.split)

lemma starts_resolve [starts_runs]: "starts_inv f s \<Longrightarrow> starts_inv f (resolve_epoch env s)"
  by (auto simp: resolve_epoch_def case_prod_beta intro!: starts_runs)

lemma starts_mux_failure [starts_runs]: "starts_inv f s \<Longrightarrow> starts_inv f (mux_failure detail s)"
  by (auto simp: mux_failure_def intro: starts_runs)

lemma starts_shift [starts_runs]: "starts_inv f s \<Longrightarrow> starts_inv f (snd (audio_shift_for env track s))"
  by (auto simp: audio_shift_for_def Let_def case_prod_beta intro!: starts_runs split: option.split)

lemma push_packet_view:
  assumes "push_packet env mp s = (ok, t)"
  shows "(seg_writer t = None) = (seg_writer s = None)" "seg_epoch_set t = seg_epoch_set s" "closed t = closed s"
    "write_error s \<longrightarrow> write_error t" "if ok then written t = written s @ [mp] else written t = written s"
    "ok \<or> seg_writer s = None \<or> write_error t"
  using assms by (auto simp: push_packet_def Let_def split: option.splits prod.splits if_splits)

lemma starts_push:
  assumes "push_packet env mp s = (ok, t)" "starts_inv f s" "seg_epoch_set s" "seg_writer s \<noteq> None" "\<not> write_error s"
  shows "starts_inv f t"
  using push_packet_view [OF assms(1)] assms(2-) by (auto simp: starts_inv_def closed_open_def split: if_splits)

lemma starts_push_audio [starts_runs]:
  assumes "starts_inv f s"
  shows "starts_inv f (push_audio env cfg p s)"
proof (cases rule: push_audio_cases [where env = env and cfg = cfg and p = p and s = s])
  case (push shift s1 q ok s2 ends)
  have "starts_inv f s1"
    using starts_shift [OF assms, of env "ea_track p"] push(1) by simp
  then have "starts_inv f s2"
    using push by (intro starts_push [OF push(8)])
  then show ?thesis
    using push(9) by (auto intro!: starts_runs)
qed (use starts_shift [OF assms, of env "ea_track p"] assms in \<open>auto intro: starts_runs\<close>)

text \<open>The first video packet of a segment sets its epoch and so lies at local time 0.\<close>

lemma starts_push_video:
  assumes "starts_inv f s" "f \<longrightarrow> ev_key p"
  shows "starts_inv False (push_video env cfg p s)"
proof (cases "write_error s \<or> seg_writer s = None")
  case True
  then show ?thesis
    using assms by (auto simp: push_video_def starts_inv_def)
next
  case live: False
  define s1 where "s1 = (if \<not> seg_epoch_set s then s\<lparr>seg_epoch := ev_pts p, seg_epoch_set := True\<rparr> else s)"
  have s1: "seg_writer s1 \<noteq> None" "\<not> write_error s1" "seg_epoch_set s1" "closed s1 = closed s" "written s1 = written s"
    using live by (auto simp: s1_def)
  have first: "seg_epoch s1 = ev_pts p" if "\<not> seg_epoch_set s"
    using that by (simp add: s1_def)
  have failed: "starts_inv False (mux_failure detail s1)" for detail
    using assms live s1 by (auto simp: starts_inv_def closed_open_def mux_failure_def RecordFailure_def note_failure_def)
  have pushed: "starts_inv False t"
    if "PlaceOnSegmentTimeline (ev_pts p) True (seg_epoch s1) = PlaceWrite l"
      "push_packet env \<lparr>pts_ns = l, track_num = 1, is_key = ev_key p, bytes = b\<rparr> s1 = (ok, t)" for l b ok t
  proof -
    have "l = 0" if "written s = []"
      using that assms(1) live first \<open>PlaceOnSegmentTimeline _ _ _ = _\<close>
      by (auto simp: starts_inv_def PlaceOnSegmentTimeline_def split: if_splits)
    then show ?thesis
      using push_packet_view [OF that(2)] s1 assms live
      by (cases "written s") (auto simp: starts_inv_def closed_open_def opens_def split: if_splits)
  qed
  show ?thesis
    using live s1 failed pushed
    by (auto simp: push_video_def s1_def [symmetric] Let_def split: SegmentPlacement.split sum.split)
      (metis surjective_pairing)
qed

lemma starts_push_while_ok [starts_runs]:
  "starts_inv f s \<Longrightarrow> starts_inv f (snd (push_while_ok env cfg ps s))"
  by (induction ps arbitrary: s) (auto intro: starts_runs)

lemma starts_lost: "starts_inv f s \<Longrightarrow> starts_inv f (fold (fate x) ps s)"
proof (induction ps arbitrary: s)
  case (Cons p ps)
  show ?case
    using Cons.IH [OF starts_aside(8) [OF Cons.prems]] by simp
qed simp

lemma starts_drains [starts_runs]:
  assumes "starts_inv f s"
  shows "starts_inv f (flush_pending_audio env cfg s)" "starts_inv f (drain_pending_audio env cfg s)"
    "starts_inv f (drain_segment_pending_audio env cfg s)"
    "starts_inv f (settle_pending_audio env cfg s)"
proof -
  have flush: "starts_inv f t \<Longrightarrow> starts_inv f (flush_pending_audio env cfg t)" for t
    by (auto simp: flush_pending_audio_def case_prod_beta intro!: starts_runs)
  have drain: "starts_inv f t \<Longrightarrow> starts_inv f (drain_segment_pending_audio env cfg t)" for t
    by (auto simp: drain_segment_pending_audio_def case_prod_beta intro!: starts_runs starts_lost)
  show "starts_inv f (flush_pending_audio env cfg s)"
    by (rule flush [OF assms])
  then show "starts_inv f (drain_pending_audio env cfg s)"
    using assms by (simp add: drain_pending_audio_def)
  show "starts_inv f (drain_segment_pending_audio env cfg s)"
    by (rule drain [OF assms])
  show "starts_inv f (settle_pending_audio env cfg s)"
    using assms by (auto simp: settle_pending_audio_def Let_def intro!: starts_lost starts_aside drain flush)
qed

lemma finalize_closed:
  assumes "starts_inv f s"
  shows "closed_open (finalize_segment env cfg e s)" "seg_writer (finalize_segment env cfg e s) = None"
proof -
  show "seg_writer (finalize_segment env cfg e s) = None"
    by (auto simp: finalize_segment_def Let_def split: option.split prod.splits)
  show "closed_open (finalize_segment env cfg e s)"
  proof (cases "seg_writer s")
    case None
    then show ?thesis
      using assms by (simp add: finalize_segment_def starts_inv_def)
  next
    case (Some wr)
    have "\<exists>ok wr'. closed (finalize_segment env cfg e s) = closed s @ [(ok, written s, wr')]"
      using Some by (auto simp: finalize_segment_def Let_def case_prod_beta)
    then obtain ok wr' where "closed (finalize_segment env cfg e s) = closed s @ [(ok, written s, wr')]"
      by blast
    then show ?thesis
      using assms Some by (auto simp: starts_inv_def closed_open_def nth_append less_Suc_eq)
  qed
qed

lemma starts_finalize:
  assumes "starts_inv f s"
  shows "starts_inv g (finalize_segment env cfg e s)"
  using finalize_closed [OF assms, of env cfg e] by (simp add: starts_inv_def)

lemma open_segment_view:
  assumes "open_segment env cfg index s = (ok, t)" "seg_writer s = None"
  shows "closed t = closed s" "seg_writer t = None \<or> written t = [] \<and> \<not> seg_epoch_set t"
  using assms
  by (auto simp: open_segment_def Let_def path_failure_def RecordFailure_def note_failure_def load_def set_world_def
      simp del: append.simps split: prod.splits SegmentPathResult.splits option.splits if_splits)

lemma starts_begin:
  assumes "starts_inv f s"
  shows "starts_inv True (begin_new_segment env cfg index s)"
proof (cases "write_error s")
  case True
  then show ?thesis
    using assms by (auto simp: begin_new_segment_def starts_inv_def)
next
  case False
  define t where "t = finalize_segment env cfg False (drain_segment_pending_audio env cfg (drain_pending_audio env cfg s))"
  have t: "closed_open t" "seg_writer t = None"
    unfolding t_def by (rule finalize_closed [OF starts_drains(3) [OF starts_drains(2) [OF assms]]])+
  obtain ok u where u: "open_segment env cfg index (t\<lparr>size_split_armed := False\<rparr>) = (ok, u)"
    by force
  have "closed u = closed t" "seg_writer u = None \<or> written u = [] \<and> \<not> seg_epoch_set u"
    using open_segment_view [OF u] t by simp_all
  then have "starts_inv True u"
    using t by (auto simp: starts_inv_def closed_open_def)
  then show ?thesis
    using False t u by (auto simp: begin_new_segment_def t_def [symmetric] Let_def starts_inv_def)
qed

section \<open>A run\<close>

lemma starts_handle_audio [starts_runs]: "starts_inv f s \<Longrightarrow> starts_inv f (handle_audio env cfg a s)"
  by (auto simp: handle_audio_def Let_def intro!: starts_runs)

lemma starts_handle_video:
  assumes "starts_inv f s" "ev_bytes p \<noteq> []" "f \<longrightarrow> ev_key p"
  shows "starts_inv False (handle_video env cfg p s)"
  using assms by (auto simp: handle_video_def intro!: starts_runs starts_push_video)

lemma starts_any_video: "starts_inv False s \<Longrightarrow> starts_inv False (handle_video env cfg p s)"
  using starts_handle_video [of False s p env cfg] by (cases "ev_bytes p = []") (simp_all add: handle_video_def)

lemma starts_items:
  assumes "well_split items" "starts_inv f (fst se)"
    "f \<longrightarrow> (case items of VideoPacket p # _ \<Rightarrow> ev_key p \<and> ev_bytes p \<noteq> [] | _ \<Rightarrow> False)"
  shows "starts_inv False (fst (fold (handle_payload env cfg) items se))"
  using assms
proof (induction items arbitrary: f se rule: well_split.induct [case_names Empty Sentinel Video Audio VideoEnd AudioEnd])
  case (Sentinel n trigger rest)
  have "starts_inv True (fst (handle_payload env cfg (SplitAt n trigger) se))"
    using Sentinel.prems by (auto simp: handle_payload_def intro: starts_begin)
  then show ?case
    using Sentinel.prems Sentinel.IH [of True "handle_payload env cfg (SplitAt n trigger) se"] by simp
next
  case (Video p rest)
  have "starts_inv False (handle_video env cfg p (fst se))"
    using Video.prems starts_handle_video [of f] starts_any_video by (cases f) auto
  then show ?case
    using Video.prems Video.IH [of False "handle_payload env cfg (VideoPacket p) se"] by (simp add: handle_payload_def)
next
  case (Audio p rest)
  then have "starts_inv False (fst (handle_payload env cfg (AudioPacket p) se))"
    by (cases f) (simp_all add: handle_payload_def starts_handle_audio)
  then show ?case
    using Audio.prems Audio.IH [of False "handle_payload env cfg (AudioPacket p) se"] by simp
qed (auto simp: handle_payload_def)

lemma starts_premux:
  assumes "starts_inv False s"
  shows "starts_inv False (drain_premux env cfg video audio s)"
proof -
  have "starts_inv False t \<Longrightarrow> starts_inv False (fold (handle_video env cfg) video t)" for t
    by (induction video arbitrary: t) (simp_all add: starts_any_video)
  moreover have "starts_inv False t \<Longrightarrow> starts_inv False (fold (handle_audio env cfg) audio t)" for t
    by (induction audio arbitrary: t) (simp_all add: starts_handle_audio)
  ultimately show ?thesis
    using assms by (simp add: drain_premux_def)
qed

lemma starts_sample: "starts_inv f s \<Longrightarrow> starts_inv f (sample_mux env cfg s)"
  by (auto simp: sample_mux_def intro!: starts_runs split: option.split)

lemma starts_loop:
  "mux_loop env cfg rounds (s, eos) = Some (t, eos') \<Longrightarrow> starts_inv False s \<Longrightarrow>
     \<forall>r \<in> set rounds. well_split (round_items r) \<Longrightarrow> starts_inv False t"
proof (induction rounds arbitrary: s eos)
  case (Cons rd rds)
  define s1 where "s1 = note_failure (failure_before rd) s"
  define s2 where "s2 = note_failure (failure_after_wait rd) s1"
  obtain s3 eos3 where items: "fold (handle_payload env cfg) (round_items rd) (s2, eos) = (s3, eos3)"
    by force
  have s1: "starts_inv False s1" and s2: "starts_inv False s2"
    unfolding s1_def s2_def by (intro starts_aside Cons.prems(2))+
  have s3: "starts_inv False s3"
    using starts_items [of "round_items rd" False "(s2, eos)" env cfg] s2 items Cons.prems(3) by simp
  show ?case
    using Cons.prems s1 s2 Cons.IH [OF _ starts_sample [OF s3, of env cfg]]
    by (auto simp: s1_def [symmetric] s2_def [symmetric] items Let_def split: if_splits)
qed (auto split: if_splits)

lemma starts_conclude:
  assumes "starts_inv False (fst se)" "well_split items"
  shows "closed_open (conclude env cfg items se)"
proof -
  define s where "s = settle_pending_audio env cfg (fst (fold (handle_payload env cfg) items se))"
  have "starts_inv False s"
    unfolding s_def by (intro starts_drains(4) starts_items [of _ False]) (simp_all add: assms)
  then have "closed_open (finalize_segment env cfg True s)"
    by (rule finalize_closed)
  then show ?thesis
    by (simp add: conclude_def s_def [symmetric] Let_def closed_open_def RecordFailure_def note_failure_def)
qed

lemma Run_starts:
  assumes "Run env rc st rounds last_items w = Some s"
    "\<forall>r \<in> set rounds. well_split (round_items r)" "well_split last_items"
  shows "closed_open s"
proof -
  have none: "closed_open (initial_mux w)" "closed_open (RecordFailure c ph d (initial_mux w))" for c ph d
    by (simp_all add: closed_open_def initial_mux_def RecordFailure_def note_failure_def)
  show ?thesis
  proof (cases "\<exists>cfg s0 t eos. open_segment env cfg 0 (initial_mux w) = (True, s0) \<and>
      mux_loop env cfg rounds (drain_premux env cfg (ms_video_premux st) (ms_audio_premux st) s0,
        \<lparr>video_eos = False, audio_eos = replicate kMaxAudioTracks False\<rparr>) = Some (t, eos) \<and>
      s = conclude env cfg last_items (t, eos)")
    case True
    then obtain cfg s0 t eos where run: "open_segment env cfg 0 (initial_mux w) = (True, s0)"
      "mux_loop env cfg rounds (drain_premux env cfg (ms_video_premux st) (ms_audio_premux st) s0,
        \<lparr>video_eos = False, audio_eos = replicate kMaxAudioTracks False\<rparr>) = Some (t, eos)"
      "s = conclude env cfg last_items (t, eos)"
      by blast
    have "starts_inv False s0"
      using open_segment_view [OF run(1)] by (auto simp: starts_inv_def closed_open_def initial_mux_def)
    then show ?thesis
      using starts_conclude [of "(t, eos)"] starts_loop [OF run(2) starts_premux assms(2)] assms(3) run(3) by simp
  next
    case False
    then have "s = initial_mux w \<or> (\<exists>c ph d. s = RecordFailure c ph d (initial_mux w)) \<or>
        (\<exists>cfg. open_segment env cfg 0 (initial_mux w) = (False, s))"
      using assms(1) by (fastforce simp: Run_def Let_def split: if_splits sum.splits prod.splits bool.splits)
    moreover have "closed_open s" if "open_segment env cfg 0 (initial_mux w) = (False, s)" for cfg
      using open_segment_view(1) [OF that] by (simp add: closed_open_def initial_mux_def)
    ultimately show ?thesis
      using none by blast
  qed
qed

end
