(* ===== verification/MuxAudio.thy ===== *)
theory MuxAudio
  imports MuxGuarantees
begin

text \<open>
  Where the audio goes: every audio packet the muxer handles ends in exactly one file, or is dropped
  for a reason that is recorded (trimmed at a split, before the video, of an unknown track), or is lost
  to a failure the session reports.
\<close>

section \<open>The account\<close>

definition packet_key :: "EncodedAudioPacket \<Rightarrow> u64 \<times> u8 list" where
  "packet_key p = (2 + ucast (ea_track p), ea_bytes p)"

definition block_key :: "MuxPacket \<Rightarrow> u64 \<times> u8 list" where
  "block_key mp = (track_num mp, bytes mp)"

text \<open>The packets accepted by the writers, closed or not.\<close>

definition in_files :: "'w mux \<Rightarrow> MuxPacket list" where
  "in_files s = concat (map (fst \<circ> snd) (closed s)) @ (if seg_writer s = None then [] else written s)"

definition audio_in_files :: "'w mux \<Rightarrow> MuxPacket list" where
  "audio_in_files s = filter (\<lambda>mp. track_num mp \<noteq> 1) (in_files s)"

definition dropped :: "'w mux \<Rightarrow> EncodedAudioPacket list" where
  "dropped s = map fst (filter (\<lambda>x. snd x \<noteq> FateWritten) (fates s))"

definition account :: "'w mux \<Rightarrow> (u64 \<times> u8 list) multiset" where
  "account s = mset (map block_key (audio_in_files s)) + mset (map packet_key (dropped s)) +
     mset (map packet_key (pending_audio s)) + mset (map packet_key (segment_pending_audio s))"

text \<open>What the operations that leave the audio alone keep.\<close>

definition audio_view ::
    "'w mux \<Rightarrow> MuxPacket list \<times> (EncodedAudioPacket \<times> AudioFate) list \<times> EncodedAudioPacket list \<times>
       EncodedAudioPacket list \<times> u64 \<times> bool" where
  "audio_view s = (audio_in_files s, fates s, pending_audio s, segment_pending_audio s, trimmed_audio_packets s,
     epoch_resolved s)"

named_theorems audio_kept

lemma audio_view_updates [audio_kept]:
  "audio_view (s\<lparr>audio_shift := a\<rparr>) = audio_view s" "audio_view (s\<lparr>size_split_armed := b\<rparr>) = audio_view s"
  "audio_view (s\<lparr>aligned_audio_end := ends\<rparr>) = audio_view s" "audio_view (s\<lparr>write_error := b\<rparr>) = audio_view s"
  "audio_view (s\<lparr>seg_epoch := e, seg_epoch_set := b\<rparr>) = audio_view s" "audio_view (s\<lparr>failure := f\<rparr>) = audio_view s"
  "audio_view (s\<lparr>reports := rs\<rparr>) = audio_view s"
  by (simp_all add: audio_view_def audio_in_files_def in_files_def)

lemma audio_view_world [audio_kept]: "audio_view (set_world w s) = audio_view s"
  by (cases "seg_writer s") (simp_all add: set_world_def audio_view_def audio_in_files_def in_files_def)

lemma audio_view_failures [audio_kept]:
  "audio_view (note_failure f s) = audio_view s" "audio_view (RecordFailure code ph detail s) = audio_view s"
  "audio_view (mux_failure detail s) = audio_view s"
  by (simp_all add: note_failure_def RecordFailure_def mux_failure_def audio_kept)

lemma audio_view_load [audio_kept]: "audio_view (snd (load f s)) = audio_view s"
  by (simp add: load_def audio_kept split: prod.split)

lemma resolve_epoch_audio:
  "audio_in_files (resolve_epoch env s) = audio_in_files s" "fates (resolve_epoch env s) = fates s"
  "pending_audio (resolve_epoch env s) = pending_audio s"
  "segment_pending_audio (resolve_epoch env s) = segment_pending_audio s"
  "trimmed_audio_packets (resolve_epoch env s) = trimmed_audio_packets s"
proof -
  obtain e t where l: "load (me_video_epoch env) s = (e, t)"
    by force
  have "audio_view t = audio_view s"
    using audio_view_load [of "me_video_epoch env" s] l by simp
  moreover have "audio_in_files (t\<lparr>video_epoch_100ns := e, epoch_resolved := b\<rparr>) = audio_in_files t" for e b
    by (simp add: audio_in_files_def in_files_def)
  ultimately have "audio_in_files (resolve_epoch env s) = audio_in_files s \<and> fates (resolve_epoch env s) = fates s \<and>
      pending_audio (resolve_epoch env s) = pending_audio s \<and>
      segment_pending_audio (resolve_epoch env s) = segment_pending_audio s \<and>
      trimmed_audio_packets (resolve_epoch env s) = trimmed_audio_packets s"
    by (simp add: resolve_epoch_def l audio_view_def)
  then show "audio_in_files (resolve_epoch env s) = audio_in_files s" "fates (resolve_epoch env s) = fates s"
    "pending_audio (resolve_epoch env s) = pending_audio s"
    "segment_pending_audio (resolve_epoch env s) = segment_pending_audio s"
    "trimmed_audio_packets (resolve_epoch env s) = trimmed_audio_packets s"
    by simp_all
qed

lemma audio_view_shift [audio_kept]: "audio_view (snd (audio_shift_for env track s)) = audio_view s"
  by (simp add: audio_shift_for_def Let_def case_prod_beta audio_kept split: option.split)

lemma push_packet_in_files:
  assumes "push_packet env mp s = (ok, t)" "seg_writer s \<noteq> None"
  shows "in_files t = in_files s @ (if ok then [mp] else [])" "fates t = fates s" "pending_audio t = pending_audio s"
    "segment_pending_audio t = segment_pending_audio s" "trimmed_audio_packets t = trimmed_audio_packets s" "epoch_resolved t = epoch_resolved s"
  using assms by (auto simp: push_packet_def in_files_def Let_def split: prod.splits if_splits)

lemma audio_view_push_video [audio_kept]: "audio_view (push_video env cfg p s) = audio_view s"
proof (cases "write_error s \<or> seg_writer s = None")
  case False
  define s1 where "s1 = (if \<not> seg_epoch_set s then s\<lparr>seg_epoch := ev_pts p, seg_epoch_set := True\<rparr> else s)"
  have s1: "audio_view s1 = audio_view s" "seg_writer s1 \<noteq> None"
    using False by (auto simp: s1_def audio_kept)
  have "audio_view (snd (push_packet env mp s1)) = audio_view s1" if "track_num mp = 1" for mp
    using push_packet_in_files [OF surjective_pairing s1(2), of env mp] that
    by (simp add: audio_view_def audio_in_files_def)
  then show ?thesis
    using False s1 by (simp add: push_video_def s1_def [symmetric] Let_def audio_kept
        split: SegmentPlacement.split sum.split)
qed (auto simp: push_video_def)

lemma audio_view_finalize [audio_kept]: "audio_view (finalize_segment env cfg b s) = audio_view s"
  by (simp add: finalize_segment_def audio_view_def audio_in_files_def in_files_def Let_def
        split: option.split prod.split)

lemma finalize_no_writer: "seg_writer (finalize_segment env cfg b s) = None"
  by (simp add: finalize_segment_def Let_def split: option.split prod.split)

lemma audio_view_open:
  assumes "seg_writer s = None"
  shows "audio_view (snd (open_segment env cfg index s)) = audio_view s"
proof -
  obtain x t where path: "load (DeriveSegmentPath (me_path_exists env) (me_error_message env) (mc_base_path cfg) index) s
      = (x, t)"
    by force
  then have t: "audio_view t = audio_view s" "seg_writer t = None"
    using audio_view_load [of _ s] load_keeps(2) [OF path] assms by (metis snd_conv, simp)
  show ?thesis
  proof (cases x)
    case PathFail
    then show ?thesis
      using t by (simp add: open_segment_def path path_failure_def audio_kept del: append.simps)
  next
    case (PathOk p)
    obtain opened wr where op: "Open (me_opener env p (index = 0 \<and> mc_pre_reserved cfg)) (me_io env) (mc_template cfg)
        (new_writer (writer_config cfg) (world_of (t\<lparr>seg_path := p, seg_index := index, seg_epoch := 0,
           seg_epoch_set := False, seg_max_local := 0\<rparr>))) = (opened, wr)"
      by force
    have "audio_view (t\<lparr>seg_path := p, seg_index := index, seg_epoch := 0, seg_epoch_set := False,
        seg_max_local := 0, seg_writer := None, idle_world := mw_world wr\<rparr>) = audio_view s"
      "audio_view (t\<lparr>seg_path := p, seg_index := index, seg_epoch := 0, seg_epoch_set := False,
        seg_max_local := 0, seg_writer := Some wr, any_segment_opened := True, written := []\<rparr>) = audio_view s"
      using t by (simp_all add: audio_view_def audio_in_files_def in_files_def)
    then show ?thesis
      using PathOk by (cases opened) (simp_all add: open_segment_def path op Let_def audio_kept del: append.simps)
  qed
qed

lemma audio_view_next [audio_kept]: "audio_view (next_segment env cfg index s) = audio_view s"
  by (simp add: next_segment_def Let_def audio_view_open finalize_no_writer audio_kept)

lemma audio_view_sample [audio_kept]: "audio_view (sample_mux env cfg s) = audio_view s"
  by (simp add: sample_mux_def audio_kept split: option.split)

section \<open>Every packet is accounted for\<close>

lemma account_view: "audio_view t = audio_view s \<Longrightarrow> account t = account s"
  by (simp add: audio_view_def account_def dropped_def)

lemma account_resolve: "account (resolve_epoch env s) = account s"
  by (simp add: account_def dropped_def resolve_epoch_audio)

lemma account_fate:
  "account (fate f p s) = (if f = FateWritten then account s else add_mset (packet_key p) (account s))"
  by (simp add: account_def fate_def dropped_def audio_in_files_def in_files_def)

lemma packet_key_pts [simp]: "packet_key (p\<lparr>ea_pts := q\<rparr>) = packet_key p"
  by (simp add: packet_key_def)

lemma account_updates:
  "account (s\<lparr>trimmed_audio_packets := n\<rparr>) = account s" "account (s\<lparr>aligned_audio_end := ends\<rparr>) = account s"
  "account (s\<lparr>segment_pending_audio := ps\<rparr>) + mset (map packet_key (segment_pending_audio s)) =
     account s + mset (map packet_key ps)"
  "account (s\<lparr>pending_audio := ps\<rparr>) + mset (map packet_key (pending_audio s)) = account s + mset (map packet_key ps)"
  by (simp_all add: account_def dropped_def audio_in_files_def in_files_def)

lemma audio_block_key: "block_key (audio_block cfg p l) = packet_key p"
  by (simp add: block_key_def audio_block_def packet_key_def)

lemma audio_block_not_video: "unat (ea_track p) < kMaxAudioTracks \<Longrightarrow> track_num (audio_block cfg p l) \<noteq> 1"
proof
  assume t: "unat (ea_track p) < kMaxAudioTracks" and one: "track_num (audio_block cfg p l) = 1"
  have "unat (2 + ucast (ea_track p) :: u64) = 2 + unat (ea_track p)"
    using t by (simp add: kMaxAudioTracks_def unat_word_ariths unsigned_ucast_eq take_bit_nat_eq_self)
  then have "unat (track_num (audio_block cfg p l)) = 2 + unat (ea_track p)"
    by (simp add: audio_block_def)
  then show False
    unfolding one by simp
qed

lemma account_push_packet:
  assumes "push_packet env (audio_block cfg p l) s = (ok, t)" "seg_writer s \<noteq> None" "unat (ea_track p) < kMaxAudioTracks"
  shows "account t = (if ok then add_mset (packet_key p) (account s) else account s)"
  using push_packet_in_files [OF assms(1,2)] audio_block_not_video [OF assms(3), of cfg l]
  by (simp add: account_def dropped_def audio_in_files_def audio_block_key)

lemma account_push_audio:
  "account (push_audio env cfg p s) = add_mset (packet_key p) (account s) \<and>
   pending_audio (push_audio env cfg p s) = pending_audio s"
proof (cases rule: push_audio_cases [where env = env and cfg = cfg and p = p and s = s])
  case (push shift s1 q ok s2 ends)
  have "account s1 = account s" "pending_audio s1 = pending_audio s"
    using audio_view_shift [of env "ea_track p" s] account_view [of s1 s] push(1) by (auto simp: audio_view_def)
  moreover have "account s2 = (if ok then add_mset (packet_key p) (account s1) else account s1)"
    "pending_audio s2 = pending_audio s1"
    using account_push_packet [OF push(8,4,7)] push_packet_in_files [OF push(8,4)] by auto
  ultimately show ?thesis
    unfolding push(9) by (simp add: account_fate account_updates) (simp add: fate_def)
next
  case (hold shift s1 q)
  have "account (s1\<lparr>segment_pending_audio := segment_pending_audio s1 @ [p\<lparr>ea_pts := q\<rparr>]\<rparr>) =
      add_mset (packet_key p) (account s1)"
    by (simp add: account_def dropped_def audio_in_files_def in_files_def)
  then show ?thesis
    using audio_view_shift [of env "ea_track p" s] account_view [of s1 s] hold by (auto simp: audio_view_def)
next
  case (early shift s1)
  then show ?thesis
    using audio_view_shift [of env "ea_track p" s] account_view [of s1 s]
    by (simp add: account_fate audio_view_def) (simp add: fate_def)
next
  case (trim shift s1 q)
  then show ?thesis
    using audio_view_shift [of env "ea_track p" s] account_view [of s1 s]
    by (simp add: account_fate account_updates audio_view_def) (simp add: fate_def)
qed (simp_all add: account_fate, simp_all add: fate_def)

lemma account_push_while_ok:
  assumes "push_while_ok env cfg ps s = (rest, t)"
  shows "account t + mset (map packet_key rest) = account s + mset (map packet_key ps) \<and> pending_audio t = pending_audio s"
  using assms
proof (induction ps arbitrary: s)
  case (Cons p ps)
  then show ?case
    using account_push_audio [of env cfg p s] by (cases "write_error s") (auto simp: add_mset_commute)
qed simp

lemma account_flush: "account (flush_pending_audio env cfg s) = account s"
proof -
  obtain rest t where w: "push_while_ok env cfg (pending_audio s) s = (rest, t)"
    by force
  show ?thesis
    using account_push_while_ok [OF w] account_updates(4) [of rest t]
    by (simp add: flush_pending_audio_def w)
qed

lemma account_lost: "account (fold (fate f) ps s) = (if f = FateWritten then account s else account s + mset (map packet_key ps))"
  by (induction ps arbitrary: s) (simp_all add: account_fate)

lemma account_drains:
  "account (drain_pending_audio env cfg s) = account s"
  "account (drain_segment_pending_audio env cfg s) = account s"
  "account (settle_pending_audio env cfg s) = account s"
proof -
  show p: "account (drain_pending_audio env cfg s) = account s"
    by (simp add: drain_pending_audio_def account_flush)
  have q: "account (drain_segment_pending_audio env cfg s) = account s" for s
  proof (cases "\<not> seg_epoch_set s \<or> segment_pending_audio s = []")
    case False
    obtain rest t where w: "push_while_ok env cfg (segment_pending_audio s) (s\<lparr>segment_pending_audio := []\<rparr>) = (rest, t)"
      by force
    show ?thesis
      using account_push_while_ok [OF w] account_updates(3) [of "[]" s] False
      by (simp add: drain_segment_pending_audio_def w account_lost)
  qed (auto simp: drain_segment_pending_audio_def)
  then show "account (drain_segment_pending_audio env cfg s) = account s" .
  define u where "u = drain_segment_pending_audio env cfg (if \<not> epoch_resolved s then flush_pending_audio env cfg s else s)"
  have "account u = account s"
    by (simp add: u_def q account_flush)
  moreover have "account (u\<lparr>trimmed_audio_packets := n, segment_pending_audio := []\<rparr>) +
      mset (map packet_key (segment_pending_audio u)) = account u" for n
    using account_updates(3) [of "[]" "u\<lparr>trimmed_audio_packets := n\<rparr>"] by (simp add: account_updates)
  ultimately show "account (settle_pending_audio env cfg s) = account s"
    by (simp add: settle_pending_audio_def Let_def account_lost u_def [symmetric])
qed


lemma account_begin: "account (begin_new_segment env cfg index s) = account s"
proof (cases "write_error s")
  case False
  then have "begin_new_segment env cfg index s =
      next_segment env cfg index (drain_segment_pending_audio env cfg (drain_pending_audio env cfg s))"
    by (simp add: begin_new_segment_def next_segment_def)
  then show ?thesis
    by (simp add: account_view [OF audio_view_next] account_drains)
qed (simp add: begin_new_segment_def)

lemma account_handle_video: "account (handle_video env cfg v s) = account s"
  by (simp add: handle_video_def account_drains account_view [OF audio_view_push_video]
      account_resolve)

lemma account_held:
  "account (t\<lparr>pending_audio := pending_audio t @ [p]\<rparr>) = add_mset (packet_key p) (account t)"
  by (simp add: account_def dropped_def audio_in_files_def in_files_def)

lemma account_handle_audio:
  "account (handle_audio env cfg p s) = (if ea_bytes p = [] then account s else add_mset (packet_key p) (account s))"
  by (simp add: handle_audio_def Let_def account_push_audio account_drains account_held account_resolve)

text \<open>The audio packets among the items.\<close>

fun audio_of :: "MuxPayload \<Rightarrow> EncodedAudioPacket list" where
  "audio_of (AudioPacket p) = [p]"
| "audio_of _ = []"

definition keys_of :: "EncodedAudioPacket list \<Rightarrow> (u64 \<times> u8 list) multiset" where
  "keys_of ps = mset (map packet_key (filter (\<lambda>p. ea_bytes p \<noteq> []) ps))"

lemma keys_of_append [simp]: "keys_of (xs @ ys) = keys_of xs + keys_of ys"
  by (simp add: keys_of_def)

lemma keys_of_simps [simp]: "keys_of [] = {#}"
  by (simp add: keys_of_def)

lemma account_payload: "account (fst (handle_payload env cfg item se)) = account (fst se) + keys_of (audio_of item)"
  by (cases item) (simp_all add: handle_payload_def account_handle_video account_handle_audio account_begin keys_of_def)

lemma account_payloads:
  "account (fst (fold (handle_payload env cfg) items se)) = account (fst se) + keys_of (concat (map audio_of items))"
  by (induction items arbitrary: se) (simp_all add: account_payload ac_simps)

lemma account_premux: "account (drain_premux env cfg video audio s) = account s + keys_of audio"
proof -
  have "account (fold (handle_video env cfg) video t) = account t" for t
    by (induction video arbitrary: t) (simp_all add: account_handle_video)
  moreover have "account (fold (handle_audio env cfg) audio t) = account t + keys_of audio" for t
    by (induction audio arbitrary: t) (auto simp: account_handle_audio keys_of_def)
  ultimately show ?thesis
    by (simp add: drain_premux_def)
qed

lemma account_loop:
  "mux_loop env cfg rounds (s, eos) = Some (t, eos') \<Longrightarrow>
   \<exists>k. account t = account s + keys_of (concat (map audio_of (concat (map round_items (take k rounds)))))"
proof (induction rounds arbitrary: s eos)
  case Nil
  then show ?case
    by (auto split: if_splits)
next
  case (Cons r rs)
  define s1 where "s1 = note_failure (failure_before r) s"
  define s2 where "s2 = note_failure (failure_after_wait r) s1"
  obtain s3 eos3 where items: "fold (handle_payload env cfg) (round_items r) (s2, eos) = (s3, eos3)"
    by force
  have acc: "account s1 = account s" "account s2 = account s"
    by (simp_all add: s1_def s2_def account_view [OF audio_view_failures(1)])
  have s3: "account (sample_mux env cfg s3) = account s + keys_of (concat (map audio_of (round_items r)))"
    using account_payloads [of env cfg "round_items r" "(s2, eos)"] items acc
    by (simp add: account_view [OF audio_view_sample])
  consider "t = s" | "t = s1" | "t = s2" | "mux_loop env cfg rs (sample_mux env cfg s3, eos3) = Some (t, eos')"
    using Cons.prems by (auto simp: s1_def [symmetric] s2_def [symmetric] items Let_def split: if_splits)
  then show ?case
  proof cases
    case 4
    obtain k where "account t = account (sample_mux env cfg s3) +
        keys_of (concat (map audio_of (concat (map round_items (take k rs)))))"
      using Cons.IH [OF 4] by blast
    then show ?thesis
      by (intro exI [of _ "Suc k"]) (simp add: s3 ac_simps)
  qed (auto simp: acc intro: exI [of _ 0])
qed


section \<open>Only a failure loses audio\<close>

text \<open>Errors are never forgotten.\<close>

lemma seg_step_mono:
  "seg_step env cfg s t \<Longrightarrow> (write_error s \<longrightarrow> write_error t) \<and> (failure t = None \<longrightarrow> failure s = None)"
proof (induction rule: seg_step.induct)
  case (world s w)
  then show ?case
    by (simp add: set_world_def split: option.split)
next
  case (push s mp)
  then show ?case
    by (simp add: push_packet_keeps)
next
  case (split s index)
  have fin: "(write_error s \<longrightarrow> write_error (finalize_segment env cfg False s)) \<and>
      failure (finalize_segment env cfg False s) = failure s"
    by (simp add: finalize_segment_def Let_def split: option.split prod.split)
  obtain ok t where op: "open_segment env cfg index (finalize_segment env cfg False s\<lparr>size_split_armed := False\<rparr>) = (ok, t)"
    by force
  then show ?case
    using fin open_segment_outcome [OF op] by (auto simp: next_segment_def Let_def finalize_no_writer)
qed auto

lemma seg_steps_mono:
  "seg_steps env cfg s t \<Longrightarrow> (write_error s \<longrightarrow> write_error t) \<and> (failure t = None \<longrightarrow> failure s = None)"
  by (induction rule: rtranclp.induct) (auto dest: seg_step_mono)

definition troubled :: "'w mux \<Rightarrow> bool" where
  "troubled s \<longleftrightarrow> write_error s \<or> failure s \<noteq> None"

definition lost_audio :: "'w mux \<Rightarrow> bool" where
  "lost_audio s \<longleftrightarrow> FateLost \<in> snd ` set (fates s)"

definition trimmed_fates :: "'w mux \<Rightarrow> nat" where
  "trimmed_fates s = length (filter (\<lambda>x. snd x = FateTrimmed) (fates s))"

definition audio_inv :: "'f mux_config \<Rightarrow> 'w mux \<Rightarrow> bool" where
  "audio_inv cfg s \<longleftrightarrow>
     segments_inv cfg s \<and> (lost_audio s \<longrightarrow> troubled s) \<and> trimmed_audio_packets s = of_nat (trimmed_fates s)"

lemma audio_inv_frame:
  assumes "audio_inv cfg s" "seg_steps env cfg s t" "fates t = fates s" "trimmed_audio_packets t = trimmed_audio_packets s"
  shows "audio_inv cfg t"
  using assms seg_steps_inv [OF assms(2)] seg_steps_mono [OF assms(2)]
  by (auto simp: audio_inv_def lost_audio_def trimmed_fates_def troubled_def)

lemma seg_runs_refl: "seg_steps env cfg s s"
  by simp

lemma audio_inv_fate:
  assumes "audio_inv cfg s" "f = FateLost \<longrightarrow> troubled s" "f \<noteq> FateTrimmed"
  shows "audio_inv cfg (fate f p s)"
proof -
  have "segments_inv cfg (fate f p s)"
    using seg_steps_inv [OF seg_steps_aside(8) [OF seg_runs_refl]] assms(1) by (auto simp: audio_inv_def)
  then show ?thesis
    using assms by (auto simp: audio_inv_def fate_def lost_audio_def trimmed_fates_def troubled_def)
qed

lemma audio_inv_trim:
  assumes "audio_inv cfg s"
  shows "audio_inv cfg (fate FateTrimmed p (s\<lparr>trimmed_audio_packets := trimmed_audio_packets s + 1\<rparr>))"
proof -
  let ?t = "fate FateTrimmed p (s\<lparr>trimmed_audio_packets := trimmed_audio_packets s + 1\<rparr>)"
  have "seg_steps undefined cfg s ?t"
    by (intro seg_steps_aside seg_runs_refl)
  then have "segments_inv cfg ?t"
    using seg_steps_inv assms by (auto simp: audio_inv_def)
  then show ?thesis
    using assms by (auto simp: audio_inv_def fate_def lost_audio_def trimmed_fates_def troubled_def)
qed

text \<open>A segment without a writer has a cause on record.\<close>

lemma no_writer_troubled: "audio_inv cfg s \<Longrightarrow> write_error s \<or> seg_writer s = None \<Longrightarrow> troubled s"
  by (auto simp: audio_inv_def segments_inv_def troubled_def)

lemma audio_inv_shift:
  fixes env :: "('f, 'w) mux_env" and cfg :: "'f mux_config"
  assumes "audio_inv cfg s" "audio_shift_for env track s = (shift, t)"
  shows "audio_inv cfg t" "epoch_resolved t = epoch_resolved s" "pending_audio t = pending_audio s"
proof -
  have "seg_steps env cfg s t" "audio_view t = audio_view s"
    using seg_steps_shift [OF seg_runs_refl, of env cfg s track] audio_view_shift [of env track s] assms(2) by simp_all
  then show "audio_inv cfg t" "epoch_resolved t = epoch_resolved s" "pending_audio t = pending_audio s"
    using audio_inv_frame [OF assms(1), of env t] by (auto simp: audio_view_def)
qed

lemma audio_inv_push_audio:
  fixes env :: "('f, 'w) mux_env" and cfg :: "'f mux_config"
  assumes "audio_inv cfg s"
  shows "audio_inv cfg (push_audio env cfg p s) \<and> epoch_resolved (push_audio env cfg p s) = epoch_resolved s \<and>
    pending_audio (push_audio env cfg p s) = pending_audio s"
proof (cases rule: push_audio_cases [where env = env and cfg = cfg and p = p and s = s])
  case lost
  then show ?thesis
    using audio_inv_fate [OF assms, of FateLost p] no_writer_troubled [OF assms] by (simp add: fate_def)
next
  case bad
  then show ?thesis
    using audio_inv_fate [OF assms, of FateBadTrack p] by (simp add: fate_def)
next
  case (early shift s1)
  then show ?thesis
    using audio_inv_shift [OF assms early(1)] audio_inv_fate [of cfg s1 FateEarly p] by (simp add: fate_def)
next
  case (hold shift s1 q)
  note s1 = audio_inv_shift [OF assms hold(1)]
  show ?thesis
    using audio_inv_frame [OF s1(1) seg_steps_aside(3) [OF seg_runs_refl]] s1 hold(4) by simp
next
  case (trim shift s1 q)
  note s1 = audio_inv_shift [OF assms trim(1)]
  show ?thesis
    using audio_inv_trim [OF s1(1), of "p\<lparr>ea_pts := q\<rparr>"] s1 trim(5) by (simp add: fate_def)
next
  case (push shift s1 q ok s2 ends)
  note s1 = audio_inv_shift [OF assms push(1)]
  note keeps = push_packet_in_files [OF push(8,4)]
  have "seg_steps env cfg s1 s2"
    by (rule seg_steps_push [OF push(8,4,3,5) audio_block_track [OF push(7)] seg_runs_refl])
  then have s2: "audio_inv cfg s2"
    using audio_inv_frame [OF s1(1)] keeps by blast
  show ?thesis
  proof (cases ok)
    case True
    have "audio_inv cfg (s2\<lparr>aligned_audio_end := ends\<rparr>)"
      by (rule audio_inv_frame [OF s2 seg_steps_aside(5) [OF seg_runs_refl]]) simp_all
    then show ?thesis
      using True push(9) keeps s1 audio_inv_fate [of cfg "s2\<lparr>aligned_audio_end := ends\<rparr>" FateWritten "p\<lparr>ea_pts := q\<rparr>"]
      by (simp add: fate_def)
  next
    case False
    have "write_error s2"
      using push(4,8) False by (auto simp: push_packet_def Let_def split: prod.splits if_splits)
    then show ?thesis
      using False push(9) keeps s1 audio_inv_fate [OF s2, of FateLost] by (simp add: fate_def troubled_def)
  qed
qed


text \<open>Between two items: nothing waits for an epoch that is known.\<close>

definition ready :: "'f mux_config \<Rightarrow> 'w mux \<Rightarrow> bool" where
  "ready cfg s \<longleftrightarrow> audio_inv cfg s \<and> (epoch_resolved s \<and> pending_audio s \<noteq> [] \<longrightarrow> write_error s)"

lemma ready_frame:
  assumes "ready cfg s" "seg_steps env cfg s t" "audio_view t = audio_view s"
  shows "ready cfg t"
  using assms(1,3) audio_inv_frame [OF _ assms(2)] seg_steps_mono [OF assms(2)]
  by (auto simp: ready_def audio_view_def)

lemma audio_inv_frame_view:
  "audio_inv cfg s \<Longrightarrow> seg_steps env cfg s t \<Longrightarrow> audio_view t = audio_view s \<Longrightarrow> audio_inv cfg t"
  by (rule audio_inv_frame) (auto simp: audio_view_def)

lemma push_while_ok_inv:
  fixes env :: "('f, 'w) mux_env" and cfg :: "'f mux_config"
  assumes "push_while_ok env cfg ps s = (rest, t)" "audio_inv cfg s"
  shows "audio_inv cfg t \<and> (rest \<noteq> [] \<longrightarrow> write_error t) \<and> epoch_resolved t = epoch_resolved s \<and>
    pending_audio t = pending_audio s"
  using assms
proof (induction ps arbitrary: s)
  case (Cons p ps)
  then show ?case
    using audio_inv_push_audio [OF Cons.prems(2), of env p] by (auto split: if_splits)
qed auto

lemma flush_inv:
  fixes env :: "('f, 'w) mux_env" and cfg :: "'f mux_config"
  assumes "audio_inv cfg s"
  shows "audio_inv cfg (flush_pending_audio env cfg s) \<and>
    (pending_audio (flush_pending_audio env cfg s) \<noteq> [] \<longrightarrow> write_error (flush_pending_audio env cfg s)) \<and>
    epoch_resolved (flush_pending_audio env cfg s) = epoch_resolved s"
proof -
  obtain rest t where w: "push_while_ok env cfg (pending_audio s) s = (rest, t)"
    by force
  note inv = push_while_ok_inv [OF w assms]
  have "audio_inv cfg (t\<lparr>pending_audio := rest\<rparr>)"
    using inv audio_inv_frame [OF _ seg_steps_aside(2) [OF seg_runs_refl], of cfg t] by auto
  then show ?thesis
    using inv by (simp add: flush_pending_audio_def w)
qed

lemma drain_pending_ready:
  fixes env :: "('f, 'w) mux_env" and cfg :: "'f mux_config"
  assumes "audio_inv cfg s"
  shows "ready cfg (drain_pending_audio env cfg s)"
  using flush_inv [OF assms, of env] assms by (auto simp: drain_pending_audio_def ready_def)

lemma lost_inv:
  "audio_inv cfg s \<Longrightarrow> ps \<noteq> [] \<longrightarrow> write_error s \<Longrightarrow>
   audio_inv cfg (fold (fate FateLost) ps s) \<and> epoch_resolved (fold (fate FateLost) ps s) = epoch_resolved s \<and>
   pending_audio (fold (fate FateLost) ps s) = pending_audio s"
proof (induction ps arbitrary: s)
  case (Cons p ps)
  have "audio_inv cfg (fate FateLost p s)" "write_error (fate FateLost p s)"
    using Cons.prems by (simp_all add: audio_inv_fate troubled_def) (simp add: fate_def)
  then show ?case
    using Cons.IH [of "fate FateLost p s"] by (auto simp: fate_def)
qed simp

lemma drain_segment_inv:
  fixes env :: "('f, 'w) mux_env" and cfg :: "'f mux_config"
  assumes "audio_inv cfg s"
  shows "audio_inv cfg (drain_segment_pending_audio env cfg s) \<and>
    epoch_resolved (drain_segment_pending_audio env cfg s) = epoch_resolved s \<and>
    pending_audio (drain_segment_pending_audio env cfg s) = pending_audio s"
proof (cases "\<not> seg_epoch_set s \<or> segment_pending_audio s = []")
  case False
  obtain rest t where w: "push_while_ok env cfg (segment_pending_audio s) (s\<lparr>segment_pending_audio := []\<rparr>) = (rest, t)"
    by force
  have "audio_inv cfg (s\<lparr>segment_pending_audio := []\<rparr>)"
    using audio_inv_frame [OF assms seg_steps_aside(3) [OF seg_runs_refl]] by simp
  then show ?thesis
    using push_while_ok_inv [OF w] lost_inv [of cfg t rest] False by (simp add: drain_segment_pending_audio_def w)
qed (use assms in \<open>auto simp: drain_segment_pending_audio_def\<close>)

lemma drain_segment_ready:
  fixes env :: "('f, 'w) mux_env" and cfg :: "'f mux_config"
  assumes "ready cfg s"
  shows "ready cfg (drain_segment_pending_audio env cfg s)"
  using drain_segment_inv [of cfg s env] seg_steps_mono [OF seg_steps_drains(3) [OF seg_runs_refl, of env cfg s]] assms
  by (auto simp: ready_def)

lemma ready_handle_video:
  fixes env :: "('f, 'w) mux_env" and cfg :: "'f mux_config"
  assumes "ready cfg s"
  shows "ready cfg (handle_video env cfg v s)"
proof (cases "ev_bytes v = []")
  case False
  have inv: "audio_inv cfg (resolve_epoch env s)"
    using assms by (intro audio_inv_frame [OF _ seg_steps_resolve [OF seg_runs_refl]])
      (simp_all add: ready_def resolve_epoch_audio)
  have "audio_inv cfg (push_video env cfg v (resolve_epoch env s))"
    by (rule audio_inv_frame_view [OF inv seg_steps_push_video [OF seg_runs_refl] audio_view_push_video])
  then show ?thesis
    using False by (simp add: handle_video_def drain_segment_ready drain_pending_ready)
qed (use assms in \<open>simp add: handle_video_def\<close>)

lemma ready_handle_audio:
  fixes env :: "('f, 'w) mux_env" and cfg :: "'f mux_config"
  assumes "ready cfg s"
  shows "ready cfg (handle_audio env cfg p s)"
proof (cases "ea_bytes p = []")
  case False
  define r where "r = resolve_epoch env s"
  have inv: "audio_inv cfg r"
    using assms unfolding r_def by (intro audio_inv_frame [OF _ seg_steps_resolve [OF seg_runs_refl]])
      (simp_all add: ready_def resolve_epoch_audio)
  show ?thesis
  proof (cases "epoch_resolved r")
    case True
    define d where "d = drain_pending_audio env cfg r"
    have d: "ready cfg d"
      unfolding d_def by (rule drain_pending_ready [OF inv])
    then have "ready cfg (push_audio env cfg p d)"
      using audio_inv_push_audio [of cfg d env p] seg_steps_mono [OF seg_steps_push_audio [OF seg_runs_refl, of env cfg d p]]
      by (auto simp: ready_def)
    then show ?thesis
      using True False by (simp add: handle_audio_def Let_def r_def d_def)
  next
    case unresolved: False
    have "audio_inv cfg (r\<lparr>pending_audio := pending_audio r @ [p]\<rparr>)"
      by (rule audio_inv_frame [OF inv seg_steps_aside(2) [OF seg_runs_refl]]) simp_all
    then show ?thesis
      using unresolved False by (simp add: handle_audio_def Let_def r_def ready_def)
  qed
qed (use assms in \<open>simp add: handle_audio_def\<close>)

lemma ready_begin:
  fixes env :: "('f, 'w) mux_env" and cfg :: "'f mux_config"
  assumes "ready cfg s"
  shows "ready cfg (begin_new_segment env cfg index s)"
proof (cases "write_error s")
  case False
  define d where "d = drain_segment_pending_audio env cfg (drain_pending_audio env cfg s)"
  have d: "ready cfg d"
    using assms unfolding d_def by (intro drain_segment_ready drain_pending_ready) (simp add: ready_def)
  have "seg_steps env cfg d (next_segment env cfg index d)"
    by (intro r_into_rtranclp seg_step.split)
  then have "ready cfg (next_segment env cfg index d)"
    by (rule ready_frame [OF d _ audio_view_next])
  then show ?thesis
    using False by (simp add: begin_new_segment_def next_segment_def d_def)
qed (use assms in \<open>simp add: begin_new_segment_def\<close>)

lemma ready_payloads:
  fixes env :: "('f, 'w) mux_env" and cfg :: "'f mux_config"
  shows "ready cfg (fst se) \<Longrightarrow> ready cfg (fst (fold (handle_payload env cfg) items se))"
proof (induction items arbitrary: se)
  case (Cons item items)
  have "ready cfg (fst (handle_payload env cfg item se))"
    using Cons.prems by (cases item) (simp_all add: handle_payload_def ready_handle_video ready_handle_audio ready_begin)
  then show ?case
    using Cons.IH by simp
qed simp

lemma ready_premux:
  fixes env :: "('f, 'w) mux_env" and cfg :: "'f mux_config"
  assumes "ready cfg s"
  shows "ready cfg (drain_premux env cfg video audio s)"
proof -
  have "ready cfg t \<Longrightarrow> ready cfg (fold (handle_video env cfg) video t)" for t
    by (induction video arbitrary: t) (simp_all add: ready_handle_video)
  moreover have "ready cfg t \<Longrightarrow> ready cfg (fold (handle_audio env cfg) audio t)" for t
    by (induction audio arbitrary: t) (simp_all add: ready_handle_audio)
  ultimately show ?thesis
    using assms by (simp add: drain_premux_def)
qed

lemma ready_note_failure: "ready cfg s \<Longrightarrow> ready cfg (note_failure f s)"
  by (rule ready_frame [OF _ seg_steps_aside(9) [OF seg_runs_refl] audio_view_failures(1)])

lemma ready_sample: "ready cfg s \<Longrightarrow> ready cfg (sample_mux env cfg s)"
  by (rule ready_frame [OF _ seg_steps_sample [OF seg_runs_refl] audio_view_sample])

lemma ready_loop:
  fixes env :: "('f, 'w) mux_env" and cfg :: "'f mux_config"
  shows "mux_loop env cfg rounds (s, eos) = Some (t, eos') \<Longrightarrow> ready cfg s \<Longrightarrow> ready cfg t"
proof (induction rounds arbitrary: s eos)
  case (Cons r rs)
  define s1 where "s1 = note_failure (failure_before r) s"
  define s2 where "s2 = note_failure (failure_after_wait r) s1"
  obtain s3 eos3 where items: "fold (handle_payload env cfg) (round_items r) (s2, eos) = (s3, eos3)"
    by force
  have inv: "ready cfg s1" "ready cfg s2"
    using Cons.prems(2) by (simp_all add: s1_def s2_def ready_note_failure)
  then have "ready cfg (sample_mux env cfg s3)"
    using ready_payloads [of cfg "(s2, eos)" env "round_items r"] items by (simp add: ready_sample)
  then show ?case
    using Cons.prems inv Cons.IH [of "sample_mux env cfg s3" eos3]
    by (auto simp: s1_def [symmetric] s2_def [symmetric] items Let_def split: if_splits)
qed (auto split: if_splits)


lemma fold_fate: "fold (fate f) ps s = s\<lparr>fates := fates s @ map (\<lambda>p. (p, f)) ps\<rparr>"
  by (induction ps arbitrary: s) (simp_all add: fate_def)

lemma settle_inv:
  fixes env :: "('f, 'w) mux_env" and cfg :: "'f mux_config"
  assumes "ready cfg s"
  defines "t \<equiv> settle_pending_audio env cfg s"
  shows "audio_inv cfg t" "segment_pending_audio t = []" "pending_audio t \<noteq> [] \<longrightarrow> write_error t"
proof -
  define u0 where "u0 = (if \<not> epoch_resolved s then flush_pending_audio env cfg s else s)"
  define u where "u = drain_segment_pending_audio env cfg u0"
  have u0: "audio_inv cfg u0" "pending_audio u0 \<noteq> [] \<longrightarrow> write_error u0"
    using assms(1) flush_inv [of cfg s env] by (auto simp: u0_def ready_def)
  have u: "audio_inv cfg u" "pending_audio u \<noteq> [] \<longrightarrow> write_error u"
    using drain_segment_inv [OF u0(1), of env] u0(2) seg_steps_mono [OF seg_steps_drains(3) [OF seg_runs_refl, of env cfg u0]]
    by (auto simp: u_def)
  have t: "t = u\<lparr>trimmed_audio_packets := trimmed_audio_packets u + of_nat (length (segment_pending_audio u)),
      segment_pending_audio := [], fates := fates u @ map (\<lambda>p. (p, FateTrimmed)) (segment_pending_audio u)\<rparr>"
    by (simp add: t_def settle_pending_audio_def Let_def fold_fate u_def u0_def)
  show "segment_pending_audio t = []" "pending_audio t \<noteq> [] \<longrightarrow> write_error t"
    using u(2) by (simp_all add: t)
  have "segments_inv cfg t"
    using assms(1) seg_steps_inv [OF seg_steps_drains(4) [OF seg_runs_refl]] by (auto simp: t_def ready_def audio_inv_def)
  moreover have "filter (\<lambda>x. snd x = FateTrimmed) (map (\<lambda>p. (p, FateTrimmed)) ps) = map (\<lambda>p. (p, FateTrimmed)) ps"
    for ps :: "EncodedAudioPacket list"
    by (induction ps) auto
  ultimately show "audio_inv cfg t"
    using u(1) by (auto simp: audio_inv_def t lost_audio_def trimmed_fates_def troubled_def)
qed

lemma ready_start:
  assumes "open_segment env cfg 0 (initial_mux w) = (True, s)"
  shows "ready cfg s" "account s = {#}"
proof -
  have "audio_view s = audio_view (initial_mux w)"
    using audio_view_open [of "initial_mux w" env cfg 0] assms by (simp add: initial_mux_def)
  then have view: "audio_in_files s = []" "fates s = []" "pending_audio s = []" "segment_pending_audio s = []"
    "trimmed_audio_packets s = 0"
    by (simp_all add: audio_view_def initial_mux_def audio_in_files_def in_files_def)
  then show "ready cfg s" "account s = {#}"
    using segments_inv_start [OF assms]
    by (simp_all add: ready_def audio_inv_def lost_audio_def trimmed_fates_def account_def dropped_def)
qed

text \<open>The audio a run has handled: what was held before the tracks existed, \<open>k\<close> rounds, and the last items.\<close>

definition handled_audio :: "mux_start \<Rightarrow> mux_round list \<Rightarrow> MuxPayload list \<Rightarrow> nat \<Rightarrow> EncodedAudioPacket list" where
  "handled_audio st rounds last_items k =
     ms_audio_premux st @ concat (map audio_of (concat (map round_items (take k rounds)) @ last_items))"

definition audio_of_closed :: "'w mux \<Rightarrow> MuxPacket list" where
  "audio_of_closed s = filter (\<lambda>mp. track_num mp \<noteq> 1) (concat (map (fst \<circ> snd) (closed s)))"

definition audio_settled :: "mux_start \<Rightarrow> mux_round list \<Rightarrow> MuxPayload list \<Rightarrow> 'w mux \<Rightarrow> bool" where
  "audio_settled st rounds last_items s \<longleftrightarrow>
     (\<exists>k. keys_of (handled_audio st rounds last_items k) =
            mset (map block_key (audio_of_closed s)) + mset (map packet_key (dropped s))) \<and>
     FateLost \<notin> snd ` set (fates s) \<and>
     trimmed_audio_packets s = of_nat (length (filter (\<lambda>x. snd x = FateTrimmed) (fates s)))"

lemma conclude_audio:
  fixes env :: "('f, 'w) mux_env" and cfg :: "'f mux_config"
  assumes "ready cfg (fst se)" "account (fst se) = keys_of ps" "failure (conclude env cfg items se) = None"
  defines "s \<equiv> conclude env cfg items se"
  shows "keys_of (ps @ concat (map audio_of items)) =
      mset (map block_key (audio_of_closed s)) + mset (map packet_key (dropped s)) \<and>
    FateLost \<notin> snd ` set (fates s) \<and> trimmed_audio_packets s = of_nat (trimmed_fates s)"
proof -
  define r where "r = fst (fold (handle_payload env cfg) items se)"
  define u where "u = settle_pending_audio env cfg r"
  define t where "t = finalize_segment env cfg True u"
  have r: "ready cfg r" "account r = keys_of ps + keys_of (concat (map audio_of items))"
    using ready_payloads [OF assms(1)] account_payloads [of env cfg items se] assms(2) by (simp_all add: r_def)
  note u = settle_inv [OF r(1), of env, folded u_def]
  have st: "s = t" "\<not> write_error t" "failure t = None"
    using assms(3) by (auto simp: s_def conclude_def Let_def t_def u_def r_def split: if_splits)
  have view: "audio_view t = audio_view u" "seg_writer t = None"
    by (simp_all add: t_def audio_view_finalize finalize_no_writer)
  have mono: "write_error u \<longrightarrow> write_error t" "failure t = failure u"
    by (simp_all add: t_def finalize_segment_def Let_def split: option.split prod.split)
  have clean: "\<not> write_error u" "failure u = None"
    using st mono by auto
  then have empty: "pending_audio t = []" "segment_pending_audio t = []"
    using u view by (auto simp: audio_view_def)
  have "account t = keys_of ps + keys_of (concat (map audio_of items))"
    using account_view [OF view(1)] account_drains(3) [of env cfg r] r(2) by (simp add: u_def)
  then have "keys_of (ps @ concat (map audio_of items)) =
      mset (map block_key (audio_of_closed t)) + mset (map packet_key (dropped t))"
    using empty view(2) by (simp add: account_def audio_of_closed_def audio_in_files_def in_files_def)
  moreover have "fates t = fates u" "trimmed_audio_packets t = trimmed_audio_packets u"
    using view(1) by (simp_all add: audio_view_def)
  ultimately show ?thesis
    using u(1) clean st(1) by (auto simp: audio_inv_def lost_audio_def troubled_def trimmed_fates_def)
qed

lemma Run_audio:
  assumes "Run env rc st rounds last_items w = Some s" "headers_ready rc st" "failure s = None"
  shows "audio_settled st rounds last_items s"
proof -
  have n: "\<not> kMaxAudioTracks < ms_track_count st"
    using assms by (auto simp: Run_def headers_ready_def Let_def simp del: append.simps)
  obtain video where video: "video_private (rc_video_codec rc) (ms_private st) = Inr video"
    using assms n by (cases "video_private (rc_video_codec rc) (ms_private st)") (auto simp: Run_def headers_ready_def Let_def)
  define cfg where "cfg = mux_settings rc (ms_private st) (ms_track_count st) video (ms_encode_width st) (ms_encode_height st)"
  obtain ok s0 where op: "open_segment env cfg 0 (initial_mux w) = (ok, s0)"
    by force
  have ok: ok
    using assms n op open_segment_outcome [OF op]
    by (auto simp: Run_def headers_ready_def Let_def video cfg_def [symmetric] initial_mux_def simp del: mux_loop.simps split: if_splits)
  define s1 where "s1 = drain_premux env cfg (ms_video_premux st) (ms_audio_premux st) s0"
  define eos where "eos = \<lparr>video_eos = False, audio_eos = replicate kMaxAudioTracks False\<rparr>"
  obtain s2 eos2 where loop: "mux_loop env cfg rounds (s1, eos) = Some (s2, eos2)"
    and s: "s = conclude env cfg last_items (s2, eos2)"
    using assms n op ok
    by (auto simp: Run_def headers_ready_def Let_def video cfg_def [symmetric] s1_def eos_def simp del: mux_loop.simps)
  note start = ready_start [OF op [unfolded eqTrueI [OF ok]]]
  have s1: "ready cfg s1" "account s1 = keys_of (ms_audio_premux st)"
    using start by (simp_all add: s1_def ready_premux account_premux)
  have s2: "ready cfg s2"
    by (rule ready_loop [OF loop s1(1)])
  obtain k where "account s2 = account s1 + keys_of (concat (map audio_of (concat (map round_items (take k rounds)))))"
    using account_loop [OF loop] by blast
  then have "account (fst (s2, eos2)) =
      keys_of (ms_audio_premux st @ concat (map audio_of (concat (map round_items (take k rounds)))))"
    by (simp add: s1(2))
  note con = conclude_audio [OF _ this, of cfg env last_items, folded s]
  have "keys_of (handled_audio st rounds last_items k) =
      mset (map block_key (audio_of_closed s)) + mset (map packet_key (dropped s))"
    using con s2 assms(3) by (simp add: handled_audio_def)
  then show ?thesis
    using con s2 assms(3) by (auto simp: audio_settled_def trimmed_fates_def)
qed

end
