(* ===== verification/MatroskaLiveness.thy ===== *)
theory MatroskaLiveness
  imports MatroskaGuarantees
begin

text \<open>
  The converse of the guarantees of the streaming writer: only the file system makes it fail. When
  no file operation fails, every push and the finalize succeed.
\<close>

section \<open>A file system that never fails\<close>

definition io_never_fails :: "'w Io \<Rightarrow> bool" where
  "io_never_fails io \<longleftrightarrow>
     (\<forall>w. fst (io_tell io w) \<noteq> None) \<and> (\<forall>b w. fst (io_add_frame io b w)) \<and> (\<forall>c w. fst (io_render io c w)) \<and>
     (\<forall>t w. fst (io_trailer io t w)) \<and> (\<forall>w. fst (io_flush io w) \<noteq> StreamFailure) \<and> (\<forall>w. fst (io_close io w))"

lemma never_fails_io:
  "io_never_fails io \<Longrightarrow> \<exists>p. fst (io_tell io w) = Some p"
  by (simp add: io_never_fails_def)

text \<open>Success that leaves the writer as healthy as it was.\<close>

definition fine :: "'w Writer \<Rightarrow> bool \<times> 'w Writer \<Rightarrow> bool" where
  "fine s r \<longleftrightarrow> fst r \<and> mw_failed (snd r) = mw_failed s"

lemma flush_fine:
  assumes "io_never_fails io"
  shows "fine s (FlushCluster io s)"
proof (cases "FlushCluster io s")
  case (Pair ok s')
  have io: "io_tell io w = (None, w') \<Longrightarrow> False" "io_render io c w = (False, w') \<Longrightarrow> False"
    "io_flush io w = (StreamFailure, w') \<Longrightarrow> False" for w w' c
    using assms by (metis io_never_fails_def fst_conv)+
  have ok
    using Pair by (cases ok) (auto simp: FlushCluster_def DurabilityFlush_def Let_def
        split: prod.splits option.splits if_splits dest: io)
  then show ?thesis
    using FlushCluster_ok [of io s s'] Pair by (simp add: fine_def)
qed

lemma emit_fine:
  assumes "io_never_fails io"
  shows "fine s (EmitPacket io e s)"
proof -
  have "fst (io_add_frame io b w)" for b w
    using assms by (simp add: io_never_fails_def)
  then have "fine t (AddBlock io i e t)" for i t
    by (simp add: fine_def AddBlock_def Let_def split_beta)
  then show ?thesis
    using flush_fine [OF assms, of s] by (simp add: fine_def EmitPacket_def Let_def split_beta split: option.split)
qed

lemma drain_fine:
  assumes "io_never_fails io"
  shows "fine s (DrainFrom io force ws s)"
proof (induction ws arbitrary: s)
  case (Cons w ws)
  then show ?case
    using emit_fine [OF assms, of s w] by (auto simp: fine_def Let_def split_beta)
qed (simp add: fine_def)

lemma push_fine:
  assumes "io_never_fails io" "\<not> mw_failed s" "mw_opened s" "\<not> mw_finalized s"
  shows "fine s (Push io e s)"
  using drain_fine [OF assms(1), of "Enqueue e s"] assms(2-)
  by (simp add: Push_def DrainWindow_def fine_def Enqueue_frame)

lemma checkpoint_fine:
  assumes "\<And>t. fine t (step t)" "\<And>t. fine t (rest t)"
  shows "fine s (checkpoint io step rest s)"
  using assms(1) [of s] assms(2) [of "PublishProgress io (snd (step s))"] PublishProgress_frame [of "snd (step s)" io]
  by (simp add: fine_def checkpoint_def Let_def split_beta)

lemma trailer_fine:
  assumes "io_never_fails io"
  shows "fine s (WriteTrailer io s)"
proof -
  have io: "fst (io_trailer io st w)" for st w
    using assms by (simp add: io_never_fails_def)
  then have step: "fine t (Trailer io st t)" for t st
    by (simp add: fine_def Trailer_def Let_def split_beta)
  have "fine t (segment_size_step io t)" for t
    using io never_fails_io [OF assms, of "mw_world t"]
    by (auto simp: fine_def segment_size_step_def Trailer_def Let_def split_beta)
  then show ?thesis
    unfolding WriteTrailer_def using step
    by (intro checkpoint_fine) (auto simp: light_level_step_def fine_def)
qed

lemma finalize_fine:
  assumes "io_never_fails io" "\<not> mw_failed s"
  shows "fst (Finalize io s)"
proof (cases "mw_opened s \<and> \<not> mw_finalized s")
  case True
  define s1 where "s1 = snd (DrainWindow io True (s\<lparr>mw_finalized := True\<rparr>))"
  define s2 where "s2 = snd (FlushCluster io s1)"
  define s3 where "s3 = snd (WriteTrailer io s2)"
  have d: "DrainWindow io True (s\<lparr>mw_finalized := True\<rparr>) = (True, s1)" "\<not> mw_failed s1"
    using drain_fine [OF assms(1)] assms(2) unfolding s1_def DrainWindow_def fine_def by (simp_all add: prod_eq_iff)
  have f: "FlushCluster io s1 = (True, s2)" "\<not> mw_failed s2"
    using flush_fine [OF assms(1), of s1] d(2) by (simp_all add: s2_def fine_def prod_eq_iff)
  have w: "WriteTrailer io s2 = (True, s3)" "\<not> mw_failed s3"
    using trailer_fine [OF assms(1), of s2] f(2) by (simp_all add: s3_def fine_def prod_eq_iff)
  have "fst (io_flush io v) \<noteq> StreamFailure" "fst (io_close io v)" for v
    using assms(1) by (simp_all add: io_never_fails_def)
  then have "\<not> mw_failed (FinalFlush io t)" "\<not> mw_failed (CloseIo io t)" if "\<not> mw_failed t" for t
    using that by (auto simp: FinalFlush_def CloseIo_def Let_def split_beta)
  then have "\<not> mw_failed (CloseIo io (PublishProgress io (FinalFlush io s3)))"
    using w(2) PublishProgress_frame [of "FinalFlush io s3" io] by simp
  then show ?thesis
    using True assms(2) d f w by (simp add: Finalize_def Let_def)
qed (use assms(2) in \<open>auto simp: Finalize_def\<close>)


lemma push_all_fine:
  assumes "io_never_fails io"
  shows "pushed es0 out s \<Longrightarrow> \<forall>x \<in> set (es0 @ es). unat (track_num x) < 2 ^ 32 \<Longrightarrow> fine s (PushAll io es s)"
proof (induction es arbitrary: s es0 out)
  case (Cons e es)
  obtain ok s1 where p: "Push io e s = (ok, s1)"
    by force
  have "fine s (Push io e s)"
    using Cons.prems(1) by (intro push_fine [OF assms]) (simp_all add: pushed_def)
  then have s1: ok "mw_failed s1 = mw_failed s"
    by (simp_all add: p fine_def)
  have "PushAll io [e] s = (True, s1)"
    using p s1(1) by simp
  then obtain out1 where "pushed (es0 @ [e]) out1 s1"
    using PushAll_pushed [of io "[e]" s s1 es0 out] Cons.prems by auto
  then show ?case
    using Cons.IH [of "es0 @ [e]" out1 s1] Cons.prems(2) p s1 by (simp add: fine_def)
qed (simp add: fine_def)

section \<open>Property\<close>

text \<open>
  Only the file system makes a recording fail. On a file system whose operations all succeed, an
  opened writer accepts every packet and finalizes successfully, whatever the packets are.
\<close>

theorem writer_succeeds:
  assumes "io_never_fails io" "opened_writer s" "\<forall>x \<in> set es. unat (track_num x) < 2 ^ 32"
  shows "fst (PushAll io es s) \<and> fst (Finalize io (snd (PushAll io es s)))"
proof -
  have "fine s (PushAll io es s)"
    using push_all_fine [OF assms(1) pushed_start [OF assms(2)]] assms(3) by simp
  moreover have "\<not> mw_failed s"
    using assms(2) by (simp add: opened_writer_def)
  ultimately show ?thesis
    using finalize_fine [OF assms(1)] by (simp add: fine_def)
qed

lemma demo_io_never_fails: "io_never_fails demo_io"
  by (simp add: io_never_fails_def demo_io_def)

theorem writer_succeeds_witness: "fst (PushAll demo_io demo_packets demo_writer)"
  using writer_succeeds [OF demo_io_never_fails demo_opened demo_tracks] by simp

end
