(* ===== verification/MuxProperties.thy ===== *)
theory MuxProperties
  imports MuxAudio MatroskaLiveness
begin

text \<open>
  The guarantees of the muxer as properties of a whole run, and a concrete run they apply to.
\<close>

section \<open>A concrete recording\<close>

text \<open>
  AV1 with one Opus track; every operation succeeds. The first video frame was captured at tick 50000,
  the audio epoch is tick 70000: the audio is 2 ms late.
\<close>

definition demo_env :: "(unit, u64) mux_env" where
  "demo_env =
     \<lparr>me_io = demo_io,
      me_opener = (\<lambda>p r. \<lparr>op_open = (\<lambda>w. (True, w)), op_render_head = (\<lambda>e w. (True, w)),
        op_segment_start = (\<lambda>w. (Some w, w)), op_render_tracks = (\<lambda>e w. (True, w))\<rparr>),
      me_path_exists = (\<lambda>w p. (False, 0, w)), me_error_message = (\<lambda>e. []), me_writer_error = (\<lambda>wr. []),
      me_video_epoch = (\<lambda>w. (50000, w)), me_audio_epoch = (\<lambda>t w. (70000, w)), me_session_start = 50000,
      me_light_levels = (\<lambda>w. ((0, 0), w)), me_file_size = (\<lambda>w p. w), me_request_size_split = (\<lambda>w. w)\<rparr>"

definition demo_rc :: "unit RecorderConfig" where
  "demo_rc =
     \<lparr>rc_output_path = ''r.mkv'', rc_path_pre_reserved = False, rc_container = Matroska, rc_video_codec = Av1,
      rc_audio_codec = CodecOpus, rc_frame_rate_num = 50, rc_frame_rate_den = 1, rc_color = demo_color,
      rc_chroma_420 = True, rc_opus_frame_samples = 960, rc_audio_plan = [], rc_audio_sample_rate = 48000,
      rc_audio_channels = 2, rc_audio_bit_depth = 16, rc_audio_pcm_float = False, rc_split_size_bytes = 0\<rparr>"

definition demo_private :: CodecPrivateData where
  "demo_private =
     \<lparr>av1_codec_private = [1], av1_ready = True, h264_sps_pps = [], h264_ready = False, hevc_vps_sps_pps = [],
      hevc_ready = False,
      audio_codec_private = replicate 3 \<lparr>slot_bytes = opus_head, slot_delay_samples = 0\<rparr>,
      audio_track_ready = replicate 3 True\<rparr>"

definition demo_video :: "u64 \<Rightarrow> MuxPayload" where
  "demo_video t = VideoPacket \<lparr>ev_bytes = [1], ev_pts = t, ev_key = True\<rparr>"

definition demo_audio :: "u8 \<Rightarrow> u64 \<Rightarrow> EncodedAudioPacket" where
  "demo_audio b t = \<lparr>ea_bytes = [b], ea_pts = t, ea_track = 0\<rparr>"

definition demo_start :: mux_start where
  "demo_start = \<lparr>ms_private = demo_private, ms_track_count = 1, ms_video_premux = [], ms_audio_premux = [demo_audio 7 0],
     ms_encode_width = 64, ms_encode_height = 64\<rparr>"

definition demo_rounds :: "mux_round list" where
  "demo_rounds =
     [\<lparr>failure_before = None, failure_after_wait = None,
       round_items = [demo_video 0, AudioPacket (demo_audio 8 20000000), VideoEos, AudioEos 0]\<rparr>]"

text \<open>The configuration of its writer.\<close>

definition demo_cfg :: "unit mux_config" where
  "demo_cfg =
     \<lparr>mc_codec = Av1, mc_base_path = ''r.mkv'', mc_pre_reserved = False, mc_split_size = 0, mc_delays = [0, 0, 0],
      mc_template = \<lparr>reorder_window_ns = 3000000000, reorder_window_max_packets = 4096, frame_rate_num = 50,
        frame_rate_den = 1, audio_track_count = 1, reserve_content_light_level = True, webm = False,
        video_codec_id = ''V_AV1'', video_codec_private = [1], encode_width = 64, encode_height = 64,
        color = demo_color, chroma_420 = True, opus_frame_samples = 960, audio_codec = Opus,
        audio_tracks = [\<lparr>codec_private = opus_head, codec_delay_samples = 0, track_name = []\<rparr>,
          \<lparr>codec_private = [], codec_delay_samples = 0, track_name = []\<rparr>,
          \<lparr>codec_private = [], codec_delay_samples = 0, track_name = []\<rparr>],
        audio_sample_rate = 48000, audio_channels = 2, audio_bit_depth = 16, audio_float = False\<rparr>\<rparr>"

lemma demo_run_config: "run_config demo_rc demo_start = demo_cfg"
  by (simp add: run_config_def demo_rc_def demo_start_def demo_private_def video_private_def mux_settings_def
      demo_cfg_def stream_config_def demo_color_def stream_track_def kMaxAudioTracks_def upt_rec
      stream_audio_codec_def codec_delay_ns_def numeral_3_eq_3)

text \<open>The states between the steps.\<close>

definition demo_segment :: "MuxPacket list \<Rightarrow> u64 \<Rightarrow> u64 Writer" where
  "demo_segment window newest =
     (new_writer (MatroskaStreamConfig.truncate (mc_template demo_cfg)) 100)
       \<lparr>mw_io_open := True, mw_opened := True, mw_segment_data_start := 100, mw_light_levels_reserved := True,
        mw_window := window, mw_max_pushed_pts_ns := newest, mw_peak_window_packets := length window,
        mw_peak_window_bytes := of_nat (length window), mw_cur_window_bytes := of_nat (length window)\<rparr>"

definition demo_opened_mux :: "u64 mux" where
  "demo_opened_mux =
     (initial_mux 100)\<lparr>seg_writer := Some (demo_segment [] 0), seg_path := ''r.mkv'', any_segment_opened := True\<rparr>"

definition demo_held :: "u64 mux" where
  "demo_held = demo_opened_mux\<lparr>epoch_resolved := True, video_epoch_100ns := 50000,
     audio_shift := [Some 2000000, None, None], segment_pending_audio := [demo_audio 7 2000000]\<rparr>"

definition demo_blocks :: "MuxPacket list" where
  "demo_blocks =
     [\<lparr>pts_ns = 0, track_num = 1, is_key = True, bytes = [1]\<rparr>,
      \<lparr>pts_ns = 4000000, track_num = 2, is_key = True, bytes = [7]\<rparr>,
      \<lparr>pts_ns = 22000000, track_num = 2, is_key = True, bytes = [8]\<rparr>]"

definition demo_drained :: "u64 mux" where
  "demo_drained = demo_held\<lparr>seg_writer := Some (demo_segment (take 2 demo_blocks) 4000000), seg_epoch_set := True,
     seg_max_local := 4000000, segment_pending_audio := [], aligned_audio_end := [4000000, 0, 0],
     fates := [(demo_audio 7 4000000, FateWritten)], written := take 2 demo_blocks\<rparr>"

definition demo_filled :: "u64 mux" where
  "demo_filled = demo_drained\<lparr>seg_writer := Some (demo_segment demo_blocks 22000000), seg_max_local := 22000000,
     aligned_audio_end := [22000000, 0, 0],
     fates := [(demo_audio 7 4000000, FateWritten), (demo_audio 8 22000000, FateWritten)], written := demo_blocks\<rparr>"

lemma demo_open: "open_segment demo_env demo_cfg 0 (initial_mux 100) = (True, demo_opened_mux)"
  by code_simp

lemma demo_premux: "handle_audio demo_env demo_cfg (demo_audio 7 0) demo_opened_mux = demo_held"
  by code_simp

lemma demo_first_video:
  "handle_video demo_env demo_cfg \<lparr>ev_bytes = [1], ev_pts = 0, ev_key = True\<rparr> demo_held = demo_drained"
  by code_simp

lemma demo_second_audio: "handle_audio demo_env demo_cfg (demo_audio 8 20000000) demo_drained = demo_filled"
  by code_simp

definition demo_final :: "u64 mux" where
  "demo_final = conclude demo_env demo_cfg []
     (demo_filled, \<lparr>video_eos = True, audio_eos = [True, False, False]\<rparr>)"

lemma demo_all_items:
  "fold (handle_payload demo_env demo_cfg) (round_items (hd demo_rounds))
     (demo_held, \<lparr>video_eos = False, audio_eos = replicate kMaxAudioTracks False\<rparr>) =
   (demo_filled, \<lparr>video_eos = True, audio_eos = [True, False, False]\<rparr>)"
  using demo_first_video demo_second_audio
  by (simp add: demo_rounds_def handle_payload_def demo_video_def track_count_def demo_cfg_def kMaxAudioTracks_def
      numeral_3_eq_3)

lemma demo_ends: "all_eos demo_cfg \<lparr>video_eos = True, audio_eos = [True, False, False]\<rparr>"
  by (simp add: all_eos_def track_count_def demo_cfg_def upt_rec)

lemma demo_starts: "\<not> all_eos demo_cfg \<lparr>video_eos = False, audio_eos = es\<rparr>"
  by (simp add: all_eos_def)

lemma demo_untroubled: "failure demo_held = None" "\<not> write_error demo_held" "write_error demo_filled = False"
  "failure demo_filled = None" "any_segment_opened demo_filled" "epoch_resolved demo_filled"
  "segment_pending_audio demo_filled = []" "mc_split_size demo_cfg = 0"
  by (simp_all add: demo_held_def demo_filled_def demo_drained_def demo_opened_mux_def initial_mux_def demo_cfg_def)

lemma demo_sample: "sample_mux demo_env demo_cfg s = s"
  by (simp add: sample_mux_def demo_untroubled split: option.split)

lemma demo_ready: "headers_ready demo_rc demo_start"
  by (simp add: headers_ready_def demo_rc_def demo_start_def demo_private_def VideoReady_def AudioAllReady_def
      kMaxAudioTracks_def)

lemma note_failure_None [simp]: "note_failure None s = s"
  by (cases s) (simp add: note_failure_def)

lemma demo_loop:
  "mux_loop demo_env demo_cfg demo_rounds (demo_held, \<lparr>video_eos = False, audio_eos = replicate kMaxAudioTracks False\<rparr>) =
   Some (demo_filled, \<lparr>video_eos = True, audio_eos = [True, False, False]\<rparr>)"
proof -
  obtain r where r: "demo_rounds = [r]" "failure_before r = None" "failure_after_wait r = None"
    by (simp add: demo_rounds_def)
  show ?thesis
    using demo_all_items demo_ends
    by (simp add: r demo_starts demo_untroubled demo_sample del: replicate.simps)
qed

lemma demo_runs: "Run demo_env demo_rc demo_start demo_rounds [] 100 = Some demo_final"
proof -
  have cfg: "mux_settings demo_rc (ms_private demo_start) (ms_track_count demo_start) [1] (ms_encode_width demo_start)
      (ms_encode_height demo_start) = demo_cfg" "video_private (rc_video_codec demo_rc) (ms_private demo_start) = Inr [1]"
    using demo_run_config by (simp_all add: run_config_def video_private_def demo_rc_def demo_start_def demo_private_def)
  have "drain_premux demo_env demo_cfg (ms_video_premux demo_start) (ms_audio_premux demo_start) demo_opened_mux = demo_held"
    using demo_premux by (simp add: drain_premux_def demo_start_def)
  moreover have "\<not> kMaxAudioTracks < ms_track_count demo_start"
    by (simp add: demo_start_def kMaxAudioTracks_def)
  ultimately show ?thesis
    using demo_ready demo_loop demo_open
    by (simp add: Run_def headers_ready_def Let_def cfg demo_final_def del: mux_loop.simps)
qed

lemma demo_clean: "failure demo_final = None"
proof -
  define t where "t = finalize_segment demo_env demo_cfg True demo_filled"
  have "settle_pending_audio demo_env demo_cfg demo_filled = demo_filled"
    by (simp add: settle_pending_audio_def drain_segment_pending_audio_def demo_untroubled Let_def)
  then have final: "demo_final = (if write_error t \<or> \<not> any_segment_opened t
      then RecordFailure E_FAIL PhaseMux ''Matroska stream write failed'' t else t)"
    by (simp add: demo_final_def conclude_def t_def Let_def)
  obtain wr where wr: "seg_writer demo_filled = Some wr" "\<not> mw_failed wr"
    by (simp add: demo_filled_def demo_segment_def new_writer_def)
  obtain ok v where fin: "Finalize demo_io (SetContentLightLevels 0 0 wr) = (ok, v)"
    by force
  have ok
    using finalize_fine [OF demo_io_never_fails, of "SetContentLightLevels 0 0 wr"] wr(2) fin
    by (simp add: SetContentLightLevels_def)
  then have "\<not> write_error t" "any_segment_opened t" "failure t = None"
    using fin wr(1) demo_untroubled
    by (simp_all add: t_def finalize_segment_def demo_env_def Let_def)
  then show ?thesis
    by (simp add: final)
qed


section \<open>The end of the streams\<close>

lemma payload_eos: "snd (handle_payload env cfg item se) = snd (handle_payload env cfg item (s, snd se))"
  by (cases item) (simp_all add: handle_payload_def)

definition eos_after :: "'f mux_config \<Rightarrow> MuxPayload list \<Rightarrow> mux_eos \<Rightarrow> mux_eos" where
  "eos_after cfg items eos =
     \<lparr>video_eos = video_eos eos \<or> VideoEos \<in> set items,
      audio_eos = map (\<lambda>i. audio_eos eos ! i \<or>
        (i < track_count cfg \<and> i < kMaxAudioTracks \<and> AudioEos (of_nat i) \<in> set items)) [0..<length (audio_eos eos)]\<rparr>"

lemma eos_after_Nil [simp]: "eos_after cfg [] eos = eos"
proof -
  have "map ((!) xs) [0..<length xs] = xs" for xs :: "bool list"
    by (rule map_nth)
  then show ?thesis
    by (cases eos) (simp add: eos_after_def)
qed

lemma handle_payload_eos:
  assumes "length (audio_eos eos) = kMaxAudioTracks"
  shows "snd (handle_payload env cfg item (s, eos)) = eos_after cfg [item] eos"
proof (cases item)
  case (AudioEos track)
  have track: "of_nat i = track \<longleftrightarrow> i = unat track" if "i < kMaxAudioTracks" for i
    using that by (auto simp: kMaxAudioTracks_def word_unat_eq_iff unsigned_of_nat take_bit_nat_eq_self)
  have "(audio_eos eos)[k := True] ! i \<longleftrightarrow> audio_eos eos ! i \<or> i = k" if "i < length (audio_eos eos)" for i k
    using that by (cases "i = k") auto
  then show ?thesis
    using assms track AudioEos
    by (cases eos) (auto simp: handle_payload_def eos_after_def intro!: nth_equalityI)
next
  case VideoEos
  have "audio_eos eos = map (\<lambda>i. audio_eos eos ! i) [0..<length (audio_eos eos)]"
    by (rule map_nth [symmetric])
  then show ?thesis
    using VideoEos by (cases eos) (simp add: handle_payload_def eos_after_def)
qed (use eos_after_Nil [of cfg eos] in \<open>simp_all add: handle_payload_def eos_after_def\<close>)

lemma fold_eos:
  "length (audio_eos (snd se)) = kMaxAudioTracks \<Longrightarrow>
   snd (fold (handle_payload env cfg) items se) = eos_after cfg items (snd se)"
proof (induction items arbitrary: se)
  case (Cons item items)
  have one: "snd (handle_payload env cfg item se) = eos_after cfg [item] (snd se)"
    using handle_payload_eos [of "snd se" env cfg item "fst se"] Cons.prems by simp
  moreover have "length (audio_eos (eos_after cfg [item] (snd se))) = kMaxAudioTracks"
    using Cons.prems by (simp add: eos_after_def)
  moreover have "eos_after cfg items (eos_after cfg [item] eos) = eos_after cfg (item # items) eos" for eos
    by (auto simp: eos_after_def intro!: nth_equalityI)
  ultimately show ?case
    using Cons.IH [of "handle_payload env cfg item se"] by simp
qed simp

lemma mux_loop_waits:
  "mux_loop env cfg rounds (s, eos) = None \<Longrightarrow> length (audio_eos eos) = kMaxAudioTracks \<Longrightarrow>
   \<not> all_eos cfg (eos_after cfg (concat (map round_items rounds)) eos)"
proof (induction rounds arbitrary: s eos)
  case (Cons r rs)
  define s2 where "s2 = note_failure (failure_after_wait r) (note_failure (failure_before r) s)"
  obtain s3 eos3 where items: "fold (handle_payload env cfg) (round_items r) (s2, eos) = (s3, eos3)"
    by force
  have eos3: "eos3 = eos_after cfg (round_items r) eos"
    using fold_eos [of "(s2, eos)" env cfg "round_items r"] items Cons.prems(2) by simp
  have "mux_loop env cfg rs (sample_mux env cfg s3, eos3) = None"
    using Cons.prems(1) by (auto simp: s2_def [symmetric] items Let_def split: if_splits)
  moreover have "length (audio_eos eos3) = kMaxAudioTracks"
    using Cons.prems(2) by (simp add: eos3 eos_after_def)
  ultimately have "\<not> all_eos cfg (eos_after cfg (concat (map round_items rs)) eos3)"
    by (rule Cons.IH)
  moreover have "eos_after cfg xs (eos_after cfg ys eos) = eos_after cfg (ys @ xs) eos" for xs ys
    by (auto simp: eos_after_def intro!: nth_equalityI)
  ultimately show ?case
    by (simp add: eos3)
qed (auto split: if_splits)

section \<open>Placement\<close>

lemma written_push:
  assumes "push_packet env mp s = (ok, t)"
  shows "written t = written s @ (if ok then [mp] else [])"
  using assms by (auto simp: push_packet_def Let_def split: option.splits prod.splits if_splits)

lemma shift_known:
  assumes "epoch_resolved s" "unat track < kMaxAudioTracks" "audio_shift s ! unat track = Some d"
  shows "audio_shift_for env track s = (d, s)"
  using assms by (simp add: audio_shift_for_def)

section \<open>Properties\<close>



text \<open>
  How a run is reported. Every segment but the last succeeded and does not claim to end the session;
  and when the codec headers arrived and no failure is on record, the last report does end the session
  and says it succeeded. So a run without such a report has a failure on record.
\<close>

theorem clean_run_is_reported:
  assumes "Run env rc st rounds last_items w = Some s"
  shows "(\<forall>rep \<in> set (butlast (reports s)). cs_succeeded rep \<and> \<not> cs_session_end rep) \<and>
    (headers_ready rc st \<and> failure s = None \<longrightarrow>
       reports s \<noteq> [] \<and> cs_succeeded (last (reports s)) \<and> cs_session_end (last (reports s)))"
  using Run_outcome [OF assms] by (auto simp: run_done_def)

theorem clean_run_is_reported_witness:
  "reports demo_final \<noteq> [] \<and> cs_session_end (last (reports demo_final))"
  using clean_run_is_reported [OF demo_runs] demo_ready demo_clean by simp

text \<open>
  C21: no audio disappears. In a run without a failure every non-empty audio packet the muxer took is in
  exactly one segment file, on its track and with its bytes, or was dropped for a recorded reason
  (trimmed, before the first video frame, unknown track); none was lost, and the packets trimmed are
  the number reported.
\<close>

theorem audio_is_accounted_for:
  assumes "Run env rc st rounds last_items w = Some s" "headers_ready rc st" "failure s = None"
  shows "(\<exists>k. keys_of (handled_audio st rounds last_items k) =
            mset (map block_key (audio_of_closed s)) + mset (map packet_key (dropped s))) \<and>
    FateLost \<notin> snd ` set (fates s) \<and>
    trimmed_audio_packets s = of_nat (length (filter (\<lambda>x. snd x = FateTrimmed) (fates s)))"
  using Run_audio [OF assms] by (simp add: audio_settled_def)

theorem audio_is_accounted_for_witness:
  "\<exists>k. keys_of (handled_audio demo_start demo_rounds [] k) =
     mset (map block_key (audio_of_closed demo_final)) + mset (map packet_key (dropped demo_final))"
  using audio_is_accounted_for [OF demo_runs demo_ready demo_clean] by simp

text \<open>
  The main loop ends with its streams. Once the marks for the end of the video and of every audio
  track have come through the queue, in any order and in any number of rounds, the loop returns.
\<close>

theorem loop_ends_with_streams:
  assumes "length (audio_eos eos) = kMaxAudioTracks" "track_count cfg \<le> kMaxAudioTracks"
    "VideoEos \<in> set (concat (map round_items rounds))"
    "\<forall>i < track_count cfg. AudioEos (of_nat i) \<in> set (concat (map round_items rounds))"
  shows "\<exists>result. mux_loop env cfg rounds (s, eos) = Some result"
proof (rule ccontr)
  assume "\<not> ?thesis"
  then have "\<not> all_eos cfg (eos_after cfg (concat (map round_items rounds)) eos)"
    using mux_loop_waits assms(1) by (metis not_None_eq)
  moreover have "all_eos cfg (eos_after cfg (concat (map round_items rounds)) eos)"
    using assms by (auto simp: all_eos_def eos_after_def list_all_iff)
  ultimately show False
    by blast
qed

theorem loop_ends_with_streams_witness:
  "\<exists>result. mux_loop demo_env demo_cfg demo_rounds
     (demo_held, \<lparr>video_eos = False, audio_eos = [False, False, False]\<rparr>) = Some result"
  by (rule loop_ends_with_streams)
    (simp_all add: kMaxAudioTracks_def track_count_def demo_cfg_def demo_rounds_def demo_video_def)



text \<open>
  An audio packet that waits for its segment's epoch is moved twice. Captured at 0, with a track shift of
  2 ms, a packet that is handled before the first video packet of the session is written at 4 ms, while
  the packet captured 20 ms later is written at 22 ms: the two are 18 ms apart in the file.
\<close>

theorem held_audio_is_shifted_twice:
  "map (\<lambda>b. (pts_ns b, bytes b)) (filter (\<lambda>b. track_num b = 2)
     (written (handle_audio demo_env demo_cfg (demo_audio 8 20000000)
        (handle_video demo_env demo_cfg \<lparr>ev_bytes = [1], ev_pts = 0, ev_key = True\<rparr>
          (handle_audio demo_env demo_cfg (demo_audio 7 0) demo_opened_mux))))) =
   [(4000000, [7]), (22000000, [8])] \<and>
   fst (audio_shift_for demo_env 0 demo_held) = 2000000"
  unfolding demo_premux demo_first_video demo_second_audio
  by (simp add: demo_filled_def demo_blocks_def audio_shift_for_def demo_held_def kMaxAudioTracks_def)

end
