(* ===== verification/RoutingProperties.thy ===== *)
theory RoutingProperties
  imports SegmentStarts MuxProperties
begin

text \<open>
  The promises of the producers as properties, alone and together with the muxer.
\<close>

section \<open>What is pushed between two moments\<close>

definition pushed_between :: "u64 \<Rightarrow> shared \<Rightarrow> MuxPayload list \<Rightarrow> bool" where
  "pushed_between ms s items \<longleftrightarrow>
     (\<exists>a b. moves (idle_routing ms s) a \<and> moves a b \<and> entered b = entered a @ items)"

lemma pushed_between_split:
  assumes "pushed_between ms s items" "mux_queue s = []" "mux_queue_bytes s = 0"
  shows "well_split items"
proof -
  obtain a b where ab: "moves (idle_routing ms s) a" "moves a b" "entered b = entered a @ items"
    using assms(1) by (auto simp: pushed_between_def)
  then have "moves (idle_routing ms s) b"
    by simp
  then have "well_split (entered a)" "well_split (entered b)"
    using ab(1) reachable_inv [OF _ assms(2,3)] by (auto simp: routing_inv_def Let_def)
  then show ?thesis
    using ab(3) well_split_append by metis
qed

section \<open>A concrete queue\<close>

definition demo_shared :: shared where
  "demo_shared =
     \<lparr>split_request = 0, mux_queue = [], mux_queue_bytes = 0, mux_queue_packet_limit = 4, mux_queue_byte_limit = 100,
      video_premux = [], audio_premux = [], codec_private_data = demo_private, audio_tracks_expected = 1,
      session_failure = None, stop_requested = False\<rparr>"

definition demo_frame :: "u64 \<Rightarrow> EncodedVideoPacket" where
  "demo_frame t = \<lparr>ev_bytes = [1], ev_pts = t, ev_key = True\<rparr>"

text \<open>A boundary is armed by a request and placed with the next keyframe.\<close>

definition demo_requested :: shared where
  "demo_requested = demo_shared\<lparr>split_request := SplitRequestWith 0 (trigger_value ManualButton)\<rparr>"

definition demo_routing :: routing where
  "demo_routing = with_video (demo_frame 40) (with_arming (\<lambda>w. w) 40
     ((idle_routing 0 demo_shared)\<lparr>rt_shared := demo_requested\<rparr>))"

lemma demo_routing_entered: "entered demo_routing = [SplitAt 1 ManualButton, VideoPacket (demo_frame 40)]"
  by code_simp

lemma demo_routing_reached: "moves (idle_routing 0 demo_shared) demo_routing"
proof -
  let ?r = "(idle_routing 0 demo_shared)\<lparr>rt_shared := demo_requested\<rparr>"
  have "move (idle_routing 0 demo_shared) ?r"
    by (rule move.elsewhere) (simp add: queue_view_def idle_routing_def demo_requested_def)
  moreover have "\<not> queue_full (rt_shared (with_arming (\<lambda>w. w) 40 ?r))"
    by code_simp
  then have "move (with_arming (\<lambda>w. w) 40 ?r) demo_routing"
    unfolding demo_routing_def by (intro move.route_video) (simp_all add: demo_frame_def)
  ultimately show ?thesis
    using move.arm [of ?r "\<lambda>w. w" 40] by (blast intro: rtranclp.rtrancl_into_rtrancl)
qed

lemma demo_empty: "mux_queue demo_shared = []" "mux_queue_bytes demo_shared = 0" "mux_queue_packet_limit demo_shared = 4"
    "mux_queue_byte_limit demo_shared = 100"
  by (simp_all add: demo_shared_def)

text \<open>A waiting producer is woken by the muxer, which has taken an item.\<close>

definition demo_wake :: wake where
  "demo_wake =
     \<lparr>others = (\<lambda>s. case pop_mux_item s of None \<Rightarrow> s | Some (_, s) \<Rightarrow> s), deadline_passed = False\<rparr>"

lemma demo_wake_tame: "tame demo_wake"
  unfolding tame_def
proof
  fix r :: routing
  show "\<exists>r'. moves r r' \<and> rt_boundary r' = rt_boundary r \<and> rt_shared r' = others demo_wake (rt_shared r)"
  proof (cases "pop_mux_item (rt_shared r)")
    case None
    then show ?thesis
      by (intro exI [of _ r]) (simp add: demo_wake_def)
  next
    case (Some x)
    then have "move r (r\<lparr>rt_shared := snd x\<rparr>)"
      by (intro move.taken [where item = "fst x"]) simp
    then show ?thesis
      using Some by (intro exI [of _ "r\<lparr>rt_shared := snd x\<rparr>"]) (auto simp: demo_wake_def split: prod.split)
  qed
qed

definition demo_full :: shared where
  "demo_full = demo_shared\<lparr>mux_queue := [VideoEos, VideoEos, VideoEos, VideoEos]\<rparr>"

lemma demo_full_state:
  "captureCodecPrivateFromKeyframe (\<lambda>d. None) Av1 (demo_frame t) (codec_private_data demo_full) = codec_private_data demo_full"
  "demo_full\<lparr>codec_private_data := codec_private_data demo_full\<rparr> = demo_full"
  "headers_known Av1 demo_full" "ev_bytes (demo_frame t) \<noteq> []"
  by (simp_all add: captureCodecPrivateFromKeyframe_def demo_frame_def demo_full_def demo_shared_def
      demo_private_def headers_known_def VideoReady_def AudioAllReady_def kMaxAudioTracks_def)

lemma demo_routed:
  "routePacket (\<lambda>d. None) Av1 wakes (demo_frame t) (b, demo_full) =
     (case WaitForMuxQueueSpace wakes demo_full of
        None \<Rightarrow> None
      | Some (room, s) \<Rightarrow>
          if room \<noteq> Ready then Some (False, b, backpressure_failure room queue_limit_detail s)
          else Some (True, enqueue_video (demo_frame t) (b, s)))"
  by (simp add: routePacket_def demo_full_state)

lemma demo_waiting:
  "queue_full demo_full" "session_failure demo_full = None" "\<not> deadline_passed demo_wake"
  "others demo_wake demo_full = demo_full\<lparr>mux_queue := [VideoEos, VideoEos, VideoEos]\<rparr>"
  "\<not> queue_full (demo_full\<lparr>mux_queue := [VideoEos, VideoEos, VideoEos]\<rparr>)" "\<not> stop_requested demo_full"
  by (simp_all add: demo_full_def demo_shared_def queue_full_def demo_wake_def pop_mux_item_def MuxItemPayloadBytes_def)

text \<open>The items of the concrete recording, as moves.\<close>

lemma demo_items_pushed:
  "pushed_between 0 demo_shared [demo_video 0, AudioPacket (demo_audio 8 20000000), VideoEos, AudioEos 0]"
proof -
  let ?r0 = "idle_routing 0 demo_shared"
  let ?r1 = "with_push (VideoPacket (demo_frame 0)) ?r0"
  let ?r2 = "with_push (AudioPacket (demo_audio 8 20000000)) ?r1"
  have "move ?r0 ?r1"
    by (rule move.drain_video) (simp_all add: idle_routing_def queue_full_def demo_shared_def demo_frame_def)
  moreover have "move ?r1 ?r2"
    by (rule move.route_audio) (simp_all add: with_push_def idle_routing_def queue_full_def demo_shared_def
        demo_frame_def demo_audio_def PushMuxItemLocked_def MuxItemPayloadBytes_def)
  moreover have "move ?r2 (with_push VideoEos ?r2)"
    "move (with_push VideoEos ?r2) (with_push (AudioEos 0) (with_push VideoEos ?r2))"
    by (rule move.video_over move.audio_over)+
  ultimately have "moves ?r0 (with_push (AudioEos 0) (with_push VideoEos ?r2))"
    by (meson r_into_rtranclp rtranclp.rtrancl_into_rtrancl)
  moreover have "entered (with_push (AudioEos 0) (with_push VideoEos ?r2)) =
      entered ?r0 @ [demo_video 0, AudioPacket (demo_audio 8 20000000), VideoEos, AudioEos 0]"
    by (simp add: with_push_def idle_routing_def demo_video_def demo_frame_def)
  ultimately show ?thesis
    unfolding pushed_between_def by blast
qed

lemma nothing_pushed: "pushed_between ms s []"
  unfolding pushed_between_def by auto

section \<open>Properties\<close>

text \<open>
  No split request is lost. Requests that arrive one after another, each by a compare-exchange on the
  request word, advance its sequence by their number, leave the last one's trigger as the primary
  trigger and exactly their triggers in the mask; consuming clears the mask and keeps the sequence.
\<close>

theorem split_requests_are_kept:
  assumes "coalesced_triggers (UnpackSplitRequest w) = 0"
    "unat (sequence (UnpackSplitRequest w)) + length ts < 2 ^ 48" "ts \<noteq> []"
  defines "st \<equiv> UnpackSplitRequest (fold (\<lambda>t w. SplitRequestWith w (trigger_value t)) ts w)"
  shows "unat (sequence st) = unat (sequence (UnpackSplitRequest w)) + length ts \<and>
    trigger_source (primary_trigger st) = List.last ts \<and>
    (\<forall>t. bit (coalesced_triggers st) (unat (trigger_value t)) = (t \<in> set ts)) \<and>
    UnpackSplitRequest (SplitRequestConsumed st) = st\<lparr>coalesced_triggers := 0\<rparr>"
proof -
  have "unat (sequence st) < 2 ^ 48"
    using requests_kept [OF assms(1,2)] assms(2) by (simp add: st_def requests_def)
  then have "UnpackSplitRequest (SplitRequestConsumed st) = st\<lparr>coalesced_triggers := 0\<rparr>"
    using unpacked_bounds(1) by (auto simp: SplitRequestConsumed_def st_def word_less_nat_alt intro!: unpack_pack)
  then show ?thesis
    using requests_kept [OF assms(1,2)] assms(3) by (simp add: st_def requests_def)
qed

theorem split_requests_are_kept_witness:
  "UnpackSplitRequest (SplitRequestConsumed (UnpackSplitRequest
     (fold (\<lambda>t w. SplitRequestWith w (trigger_value t)) [Hotkey, ManualButton] 0))) =
   \<lparr>sequence = 2, primary_trigger = 2, coalesced_triggers = 0\<rparr>"
proof -
  have "UnpackSplitRequest (fold (\<lambda>t w. SplitRequestWith w (trigger_value t)) [Hotkey, ManualButton] 0) =
      \<lparr>sequence = 2, primary_trigger = 2, coalesced_triggers = 12\<rparr>"
    by code_simp
  then show ?thesis
    using split_requests_are_kept [of 0 "[Hotkey, ManualButton]"] by (simp add: UnpackSplitRequest_def)
qed

text \<open>
  C24: boundaries and keyframes. However the threads interleave, every split sentinel stands directly
  before a keyframe; the boundaries are numbered from 1 without gaps; each keyframe is at or after the
  frame for which it was asked of the encoder, and only a pending boundary has a request without a
  sentinel. The muxer sees a prefix of this sequence.
\<close>

theorem boundaries_precede_keyframes:
  assumes "moves (idle_routing ms s) r" "mux_queue s = []" "mux_queue_bytes s = 0"
  shows "well_split (entered r) \<and>
    map fst (boundaries (entered r)) = map of_nat [1..<length (boundaries (entered r)) + 1] \<and>
    list_all2 (\<lambda>t (n, at). t \<le> at)
      (if split_armed (rt_boundary r) then butlast (asked r) else asked r) (boundaries (entered r)) \<and>
    (\<exists>handled. entered r = handled @ mux_queue (rt_shared r))"
  using reachable_inv [OF assms] by (simp add: routing_inv_def queue_inv_def numbered_def Let_def)

theorem boundaries_precede_keyframes_witness:
  "well_split (entered demo_routing) \<and> boundaries (entered demo_routing) = [(1, 40)]"
proof
  show "well_split (entered demo_routing)"
    using boundaries_precede_keyframes [OF demo_routing_reached demo_empty(1,2)] by (rule conjunct1)
  show "boundaries (entered demo_routing) = [(1, 40)]"
    by (simp add: demo_routing_entered demo_frame_def)
qed

text \<open>
  C25: the queue is bounded. It never holds more than its packet limit plus one item, besides the
  end-of-stream markers, which bypass the bound; its byte count is exactly the payload it holds and
  never exceeds the byte limit by more than one packet.
\<close>

theorem queue_stays_bounded:
  assumes "moves (idle_routing ms s) r" "mux_queue s = []" "mux_queue_bytes s = 0"
  shows "length (mux_queue (rt_shared r)) \<le> mux_queue_packet_limit s + 1 + length (filter is_eos (entered r)) \<and>
    mux_queue_bytes (rt_shared r) = sum_list (map MuxItemPayloadBytes (mux_queue (rt_shared r))) \<and>
    mux_queue_bytes (rt_shared r) \<le> mux_queue_byte_limit s + largest (entered r)"
  using reachable_inv [OF assms] by (auto simp: queue_inv_def Let_def)

theorem queue_stays_bounded_witness:
  "length (mux_queue (rt_shared demo_routing)) \<le> 5 \<and> mux_queue_bytes (rt_shared demo_routing) \<le> 101"
  using queue_stays_bounded [OF demo_routing_reached demo_empty(1,2)]
  by (simp add: demo_empty demo_routing_entered is_eos_def largest_def MuxItemPayloadBytes_def demo_frame_def)

text \<open>
  Routing a packet is a sequence of atomic moves. Whatever the other threads do while a producer waits
  for room, as long as each of their steps is such a move, the video thread's \<open>routePacket\<close>, its final
  drain and an audio thread's routing only reach states that moves reach.
\<close>

theorem routing_is_made_of_moves:
  assumes "\<forall>k \<in> set wakes. tame k" "reaches r b s"
  shows "(\<forall>p ok b' s'. routePacket av1 codec wakes p (b, s) = Some (ok, b', s') \<longrightarrow> reaches r b' s') \<and>
    (\<forall>p ok s'. drainPacket av1 codec wakes p s = Some (ok, s') \<longrightarrow> reaches r b s') \<and>
    (\<forall>p track ok s'. routeAudioPacket codec track wakes p s = Some (ok, s') \<longrightarrow> reaches r b s')"
  using video_route_moves [OF assms] drain_moves [OF assms] audio_route_moves [OF assms] by blast

theorem routing_is_made_of_moves_witness:
  "\<exists>b' s'. routePacket (\<lambda>d. None) Av1 [demo_wake] (demo_frame 40) (rt_boundary demo_routing, demo_full) = Some (True, b', s') \<and>
     reaches (demo_routing\<lparr>rt_shared := demo_full\<rparr>) b' s'"
proof -
  have "reaches (demo_routing\<lparr>rt_shared := demo_full\<rparr>) (rt_boundary demo_routing) demo_full"
    unfolding reaches_def by (intro exI [of _ "demo_routing\<lparr>rt_shared := demo_full\<rparr>"]) simp
  note r = routing_is_made_of_moves [OF _ this, of "[demo_wake]"]
  have "routePacket (\<lambda>d. None) Av1 [demo_wake] (demo_frame 40) (rt_boundary demo_routing, demo_full) =
      Some (True, enqueue_video (demo_frame 40) (rt_boundary demo_routing, demo_full\<lparr>mux_queue := [VideoEos, VideoEos, VideoEos]\<rparr>))"
    by (simp add: demo_routed wait_unfold demo_waiting)
  then show ?thesis
    using r demo_wake_tame by (metis empty_iff empty_set set_ConsD surj_pair)
qed



text \<open>
  C23: every file opens with a keyframe. When the items of each round of the muxer are what the producers
  pushed between two moments, every segment file begins with a video packet at the segment's time 0, and
  every file after the first with a keyframe, so each can be played alone.
\<close>

theorem every_file_opens_with_a_keyframe:
  assumes "Run env rc st rounds last_items w = Some s"
    "\<forall>r \<in> set rounds. pushed_between ms sh (round_items r)" "pushed_between ms sh last_items"
    "mux_queue sh = []" "mux_queue_bytes sh = 0"
  shows "\<forall>i < length (closed s). case fst (snd (closed s ! i)) of [] \<Rightarrow> True
    | e # _ \<Rightarrow> track_num e = 1 \<and> pts_ns e = 0 \<and> (0 < i \<longrightarrow> is_key e)"
proof -
  have "\<forall>r \<in> set rounds. well_split (round_items r)" "well_split last_items"
    using assms(2-) pushed_between_split by blast+
  from Run_starts [OF assms(1) this] show ?thesis
    by (simp add: closed_open_def opens_def)
qed

theorem every_file_opens_with_a_keyframe_witness:
  "list_all (\<lambda>file. opens False (fst (snd file))) (closed demo_final)"
proof -
  have "\<forall>i < length (closed demo_final). case fst (snd (closed demo_final ! i)) of [] \<Rightarrow> True
    | e # _ \<Rightarrow> track_num e = 1 \<and> pts_ns e = 0 \<and> (0 < i \<longrightarrow> is_key e)"
    by (rule every_file_opens_with_a_keyframe [OF demo_runs _ nothing_pushed demo_empty(1,2), of 0])
      (simp add: demo_rounds_def demo_items_pushed)
  then show ?thesis
    by (auto simp: list_all_length opens_def split: list.splits)
qed

end
