(* ===== verification/ReleaseFeed.thy ===== *)
theory ReleaseFeed
  imports Versions "HOL-Library.Multiset"
begin

text \<open>
  The release feed of the update strand: selection of the newest qualifying release and the
  release notes (\<^verbatim>\<open>libs/update/src/release_locator.cpp\<close>), the offer decision, the check and
  its policies, and the split of the feed's address (\<^verbatim>\<open>libs/update/src/update_checker.cpp\<close>).

  The JSON library is the record \<open>json_api\<close>: its values are an arbitrary type \<open>'j\<close>, and each
  accessor that can throw returns \<open>Inl\<close> of the exception's text. The HTTPS request over WinHTTP
  is a function on an arbitrary world. \<^verbatim>\<open>std::sort\<close> leaves the order of equal elements open;
  it is a parameter too, with its contract \<open>is_newest_first_sort\<close>.
\<close>

section \<open>JSON values\<close>

record 'j json_api =
  json_parse :: "string \<Rightarrow> string + 'j"
  json_items :: "'j \<Rightarrow> 'j list"
  json_value_bool :: "'j \<Rightarrow> string \<Rightarrow> bool \<Rightarrow> string + bool"
  json_value_string :: "'j \<Rightarrow> string \<Rightarrow> string \<Rightarrow> string + string"
  json_contains :: "'j \<Rightarrow> string \<Rightarrow> bool"
  json_field :: "'j \<Rightarrow> string \<Rightarrow> 'j"
  json_at :: "'j \<Rightarrow> string \<Rightarrow> string + 'j"
  json_get_string :: "'j \<Rightarrow> string + string"

section \<open>Locating a release\<close>

datatype UpdateChannel = Stable | Preview

record ReleaseAssets =
  ra_version :: SemVer
  ra_version_tag :: string
  ra_manifest_url :: string
  ra_signature_url :: string
  ra_portable_url :: string
  ra_installer_url :: string
  ra_releases_page_url :: string

definition strip_v :: "string \<Rightarrow> string" where
  "strip_v tag = (case tag of CHR ''v'' # s \<Rightarrow> s | _ \<Rightarrow> tag)"

definition TagToSemVer :: "string \<Rightarrow> SemVer option" where
  "TagToSemVer tag = ParseSemVer (strip_v tag)"

definition EndsWith :: "string \<Rightarrow> string \<Rightarrow> bool" where
  "EndsWith s e \<longleftrightarrow> length e \<le> length s \<and> drop (length s - length e) s = e"

record asset_urls =
  au_manifest :: string
  au_signature :: string
  au_portable :: string
  au_installer :: string

definition take_asset :: "'j json_api \<Rightarrow> asset_urls \<Rightarrow> 'j \<Rightarrow> string + asset_urls" where
  "take_asset api u asset =
     bindE (json_value_string api asset ''name'' []) (\<lambda>name.
     bindE (json_value_string api asset ''browser_download_url'' []) (\<lambda>url.
       Inr (if name = ''update-manifest.json.sig'' then u\<lparr>au_signature := url\<rparr>
            else if name = ''update-manifest.json'' then u\<lparr>au_manifest := url\<rparr>
            else if EndsWith name ''-portable.zip'' then u\<lparr>au_portable := url\<rparr>
            else if EndsWith name ''.msi'' then u\<lparr>au_installer := url\<rparr>
            else u)))"

definition no_urls :: asset_urls where
  "no_urls = \<lparr>au_manifest = [], au_signature = [], au_portable = [], au_installer = []\<rparr>"

definition release_urls :: "'j json_api \<Rightarrow> 'j \<Rightarrow> string + asset_urls" where
  "release_urls api rel =
     (if json_contains api rel ''assets''
      then foldE (take_asset api) no_urls (json_items api (json_field api rel ''assets''))
      else Inr no_urls)"

text \<open>One pass of the loop body, up to its last \<^verbatim>\<open>continue\<close>: \<open>None\<close> skips the release.\<close>

definition release_candidate ::
    "'j json_api \<Rightarrow> UpdateChannel \<Rightarrow> 'j \<Rightarrow> string + ReleaseAssets option" where
  "release_candidate api channel rel =
     bindE (json_value_bool api rel ''prerelease'' False) (\<lambda>pre.
     bindE (json_value_bool api rel ''draft'' False) (\<lambda>draft.
       if draft then Inr None
       else if \<not> (if channel = Preview then pre else \<not> pre) then Inr None
       else
         bindE (json_value_string api rel ''tag_name'' []) (\<lambda>tag.
           case TagToSemVer tag of
             None \<Rightarrow> Inr None
           | Some v \<Rightarrow>
               bindE (release_urls api rel) (\<lambda>u.
                 if au_manifest u = [] \<or> au_signature u = [] then Inr None
                 else Inr (Some \<lparr>ra_version = v, ra_version_tag = strip_v tag,
                   ra_manifest_url = au_manifest u, ra_signature_url = au_signature u,
                   ra_portable_url = au_portable u, ra_installer_url = au_installer u,
                   ra_releases_page_url = []\<rparr>)))))"

definition consider_release ::
    "'j json_api \<Rightarrow> UpdateChannel \<Rightarrow> ReleaseAssets option \<Rightarrow> 'j \<Rightarrow> string + ReleaseAssets option" where
  "consider_release api channel best rel =
     bindE (release_candidate api channel rel) (\<lambda>c.
       case c of
         None \<Rightarrow> Inr best
       | Some a \<Rightarrow>
           if best = None \<or> semver_less (ra_version (the best)) (ra_version a)
           then bindE (json_value_string api rel ''html_url'' []) (\<lambda>page.
                  Inr (Some (a\<lparr>ra_releases_page_url := page\<rparr>)))
           else Inr best)"

text \<open>The located release and the text left in \<^verbatim>\<open>parse_error\<close>.\<close>

definition LocateRelease ::
    "'j json_api \<Rightarrow> string \<Rightarrow> UpdateChannel \<Rightarrow> ReleaseAssets option \<times> string" where
  "LocateRelease api body channel =
     (case bindE (json_parse api body) (\<lambda>rels. foldE (consider_release api channel) None (json_items api rels)) of
        Inl e \<Rightarrow> (None, ''JSON parse error: '' @ e)
      | Inr best \<Rightarrow> (best, []))"

section \<open>Release notes\<close>

record ReleaseNote =
  rn_version :: SemVer
  rn_body_markdown :: string
  rn_html_url :: string

definition release_note ::
    "'j json_api \<Rightarrow> UpdateChannel \<Rightarrow> (SemVer \<Rightarrow> bool) \<Rightarrow> 'j \<Rightarrow> string + ReleaseNote option" where
  "release_note api channel in_range rel =
     bindE (json_value_bool api rel ''draft'' False) (\<lambda>draft.
       if draft then Inr None
       else
         bindE (json_value_bool api rel ''prerelease'' False) (\<lambda>pre.
           if channel \<noteq> Preview \<and> pre then Inr None
           else
             bindE (json_value_string api rel ''tag_name'' []) (\<lambda>tag.
               case TagToSemVer tag of
                 None \<Rightarrow> Inr None
               | Some v \<Rightarrow>
                   if \<not> in_range v then Inr None
                   else
                     bindE (json_value_string api rel ''body'' []) (\<lambda>text.
                     bindE (json_value_string api rel ''html_url'' []) (\<lambda>page.
                       Inr (Some \<lparr>rn_version = v, rn_body_markdown = text, rn_html_url = page\<rparr>))))))"

definition add_note ::
    "'j json_api \<Rightarrow> UpdateChannel \<Rightarrow> (SemVer \<Rightarrow> bool) \<Rightarrow> ReleaseNote list \<Rightarrow> 'j \<Rightarrow> string + ReleaseNote list" where
  "add_note api channel in_range notes rel =
     bindE (release_note api channel in_range rel) (\<lambda>n. Inr (case n of None \<Rightarrow> notes | Some x \<Rightarrow> notes @ [x]))"

type_synonym note_sort = "ReleaseNote list \<Rightarrow> ReleaseNote list"

definition is_newest_first_sort :: "note_sort \<Rightarrow> bool" where
  "is_newest_first_sort srt \<longleftrightarrow>
     (\<forall>ns. mset (srt ns) = mset ns \<and>
       sorted_wrt (\<lambda>a b. \<not> semver_less (rn_version a) (rn_version b)) (srt ns))"

definition CollectNotesMatching ::
    "'j json_api \<Rightarrow> note_sort \<Rightarrow> string \<Rightarrow> UpdateChannel \<Rightarrow> (SemVer \<Rightarrow> bool) \<Rightarrow> ReleaseNote list" where
  "CollectNotesMatching api srt body channel in_range =
     (case bindE (json_parse api body) (\<lambda>rels. foldE (add_note api channel in_range) [] (json_items api rels)) of
        Inl e \<Rightarrow> []
      | Inr notes \<Rightarrow> srt notes)"

definition CollectReleaseNotes ::
    "'j json_api \<Rightarrow> note_sort \<Rightarrow> string \<Rightarrow> SemVer \<Rightarrow> SemVer \<Rightarrow> UpdateChannel \<Rightarrow> ReleaseNote list" where
  "CollectReleaseNotes api srt body lo hi channel =
     CollectNotesMatching api srt body channel (\<lambda>v. semver_less lo v \<and> semver_le v hi)"

definition CollectAllReleaseNotesForChannel ::
    "'j json_api \<Rightarrow> note_sort \<Rightarrow> string \<Rightarrow> UpdateChannel \<Rightarrow> ReleaseNote list" where
  "CollectAllReleaseNotesForChannel api srt body channel = CollectNotesMatching api srt body channel (\<lambda>_. True)"

section \<open>The offer\<close>

datatype UpdateBlockReason = NotBlocked | ActiveRecording | Finalizing | OfficialBuildGateOff

text \<open>\<open>recording_guard\<close> is what the callback returns when it is called; \<open>None\<close> if there is no callback.\<close>

record CheckParams =
  current_version :: SemVer
  current_version_raw :: string
  check_channel :: UpdateChannel
  recording_guard :: "UpdateBlockReason option"
  api_base_url :: string
  allow_same_version_reinstall :: bool

datatype UpdateOffer = NoOffer | OfferUpdate | VerificationReinstall

definition DecideOffer :: "SemVer \<Rightarrow> string \<Rightarrow> CheckParams \<Rightarrow> UpdateOffer" where
  "DecideOffer release_version release_version_raw params =
     (if semver_less (current_version params) release_version then OfferUpdate
      else if allow_same_version_reinstall params \<and> current_version_raw params \<noteq> [] \<and>
              release_version_raw \<noteq> [] \<and> release_version_raw = current_version_raw params
      then VerificationReinstall
      else NoOffer)"

record UpdateCheckResult =
  update_available :: bool
  verification_reinstall :: bool
  available_version :: "SemVer option"
  available_version_raw :: string
  releases_page_url :: "string option"
  manifest_url :: string
  manifest_signature_url :: string
  error_message :: "string option"
  check_failed :: bool
  gap_notes :: "ReleaseNote list"
  all_channel_notes :: "ReleaseNote list"

definition no_result :: UpdateCheckResult where
  "no_result = \<lparr>update_available = False, verification_reinstall = False, available_version = None,
     available_version_raw = [], releases_page_url = None, manifest_url = [], manifest_signature_url = [],
     error_message = None, check_failed = False, gap_notes = [], all_channel_notes = []\<rparr>"

definition failed_check :: "string \<Rightarrow> UpdateCheckResult" where
  "failed_check msg = no_result\<lparr>check_failed := True, error_message := Some msg\<rparr>"

definition with_anchor :: "ReleaseAssets option \<Rightarrow> UpdateCheckResult \<Rightarrow> UpdateCheckResult" where
  "with_anchor release r =
     (case release of
        None \<Rightarrow> r
      | Some a \<Rightarrow> r\<lparr>manifest_url := ra_manifest_url a, manifest_signature_url := ra_signature_url a\<rparr>)"

definition release_offer :: "ReleaseAssets option \<Rightarrow> CheckParams \<Rightarrow> UpdateOffer" where
  "release_offer release params =
     (case release of None \<Rightarrow> NoOffer | Some a \<Rightarrow> DecideOffer (ra_version a) (ra_version_tag a) params)"

definition with_offer ::
    "'j json_api \<Rightarrow> note_sort \<Rightarrow> string \<Rightarrow> ReleaseAssets option \<Rightarrow> CheckParams \<Rightarrow> UpdateOffer
     \<Rightarrow> UpdateCheckResult \<Rightarrow> UpdateCheckResult" where
  "with_offer api srt body release params offer r =
     (if offer \<noteq> NoOffer then
        r\<lparr>update_available := True,
          verification_reinstall := (offer = VerificationReinstall),
          available_version := Some (ra_version (the release)),
          available_version_raw := ra_version_tag (the release),
          releases_page_url := Some (ra_releases_page_url (the release)),
          gap_notes :=
            (if offer = OfferUpdate
             then CollectReleaseNotes api srt body (current_version params) (ra_version (the release))
                    (check_channel params)
             else gap_notes r)\<rparr>
      else r)"

definition BuildCheckResult ::
    "'j json_api \<Rightarrow> note_sort \<Rightarrow> string \<Rightarrow> ReleaseAssets option \<Rightarrow> CheckParams \<Rightarrow> UpdateCheckResult" where
  "BuildCheckResult api srt body release params =
     with_offer api srt body release params (release_offer release params)
       (with_anchor release
          (no_result\<lparr>all_channel_notes :=
             CollectAllReleaseNotesForChannel api srt body (check_channel params)\<rparr>))"

section \<open>Fetching the feed\<close>

text \<open>
  \<open>get w host path port\<close> is the HTTPS request: the error text or the body, and the world after it.
\<close>

type_synonym 'w https_get = "'w \<Rightarrow> string \<Rightarrow> string \<Rightarrow> u16 \<Rightarrow> (string + string) \<times> 'w"

fun parse_port_digits :: "nat \<Rightarrow> string \<Rightarrow> nat" where
  "parse_port_digits parsed [] = parsed"
| "parse_port_digits parsed (c # cs) =
     (if \<not> is_digit c then 0
      else let n = parsed * 10 + digit_value c in
        if 65535 < n then n else parse_port_digits n cs)"

definition split_port :: "string \<Rightarrow> string + string \<times> u16" where
  "split_port host_port =
     (case dropWhile (\<lambda>c. c \<noteq> CHR '':'') host_port of
        [] \<Rightarrow> Inr (host_port, 443)
      | _ # port_str \<Rightarrow>
          (let n = parse_port_digits 0 port_str in
           if port_str = [] \<or> n = 0 \<or> 65535 < n then Inl ''invalid port in base URL''
           else Inr (takeWhile (\<lambda>c. c \<noteq> CHR '':'') host_port, of_nat n)))"

definition first_page :: "string \<Rightarrow> string" where
  "first_page path = path @ (if CHR ''?'' \<notin> set path then ''?per_page=30'' else ''&per_page=30'')"

definition FetchReleasesJson :: "'w https_get \<Rightarrow> 'w \<Rightarrow> string \<Rightarrow> (string + string) \<times> 'w" where
  "FetchReleasesJson get w base_url =
     (if take 8 base_url \<noteq> ''https://'' then (Inl ''base URL must be https://'', w)
      else
        let rest = drop 8 base_url;
            host_port = takeWhile (\<lambda>c. c \<noteq> CHR ''/'') rest;
            tail = dropWhile (\<lambda>c. c \<noteq> CHR ''/'') rest;
            path = (if tail = [] then ''/'' else tail) in
        case split_port host_port of
          Inl e \<Rightarrow> (Inl e, w)
        | Inr (host, port) \<Rightarrow>
            if host = [] then (Inl ''missing host in base URL'', w)
            else get w host (first_page path) port)"

section \<open>The check\<close>

definition CheckAgainstFeed ::
    "'j json_api \<Rightarrow> note_sort \<Rightarrow> 'w https_get \<Rightarrow> 'w \<Rightarrow> CheckParams \<Rightarrow> UpdateCheckResult \<times> 'w" where
  "CheckAgainstFeed api srt get w params =
     (case FetchReleasesJson get w (api_base_url params) of
        (Inl e, w) \<Rightarrow> (failed_check (''Network error: '' @ e), w)
      | (Inr body, w) \<Rightarrow>
          (case LocateRelease api body (check_channel params) of
             (release, parse_error) \<Rightarrow>
               if release = None \<and> parse_error \<noteq> []
               then (failed_check ''JSON parse error from GitHub releases API'', w)
               else (BuildCheckResult api srt body release params, w)))"

definition CheckForUpdate ::
    "bool \<Rightarrow> 'j json_api \<Rightarrow> note_sort \<Rightarrow> 'w https_get \<Rightarrow> 'w \<Rightarrow> CheckParams \<Rightarrow> UpdateCheckResult \<times> 'w" where
  "CheckForUpdate official api srt get w params =
     (case recording_guard params of
        Some ActiveRecording \<Rightarrow> (failed_check ''Update check blocked: recording in progress'', w)
      | Some Finalizing \<Rightarrow> (failed_check ''Update check blocked: recording finalizing'', w)
      | Some OfficialBuildGateOff \<Rightarrow> (failed_check ''Update check blocked: recording finalizing'', w)
      | _ \<Rightarrow>
          if \<not> official then (failed_check ''Update checking disabled (unofficial build)'', w)
          else CheckAgainstFeed api srt get w params)"

end
