(* ===== verification/ReleaseGuarantees.thy ===== *)
theory ReleaseGuarantees
  imports ReleaseFeed
begin

text \<open>
  What the update check promises: the located release is the newest one that qualifies and
  carries its trust anchor, the notes are exactly the window between the running and the
  offered version, nothing older is ever offered, and a blocked check sends no request.
\<close>

section \<open>The assets of a release\<close>

text \<open>A release that may be offered on a channel, with the assets found in it.\<close>

definition has_asset :: "'j json_api \<Rightarrow> 'j \<Rightarrow> string \<Rightarrow> string \<Rightarrow> bool" where
  "has_asset api rel name url \<longleftrightarrow>
     json_contains api rel ''assets'' \<and>
     (\<exists>asset \<in> set (json_items api (json_field api rel ''assets'')).
        json_value_string api asset ''name'' [] = Inr name \<and>
        json_value_string api asset ''browser_download_url'' [] = Inr url)"

definition qualifies :: "'j json_api \<Rightarrow> UpdateChannel \<Rightarrow> 'j \<Rightarrow> ReleaseAssets \<Rightarrow> bool" where
  "qualifies api channel rel a \<longleftrightarrow>
     json_value_bool api rel ''draft'' False = Inr False \<and>
     json_value_bool api rel ''prerelease'' False = Inr (channel = Preview) \<and>
     (\<exists>tag. json_value_string api rel ''tag_name'' [] = Inr tag \<and>
        TagToSemVer tag = Some (ra_version a) \<and> ra_version_tag a = strip_v tag) \<and>
     ra_manifest_url a \<noteq> [] \<and> has_asset api rel ''update-manifest.json'' (ra_manifest_url a) \<and>
     ra_signature_url a \<noteq> [] \<and> has_asset api rel ''update-manifest.json.sig'' (ra_signature_url a)"

lemma release_urls_found:
  assumes "release_urls api rel = Inr u"
  shows "au_manifest u \<noteq> [] \<Longrightarrow> has_asset api rel ''update-manifest.json'' (au_manifest u)"
    and "au_signature u \<noteq> [] \<Longrightarrow> has_asset api rel ''update-manifest.json.sig'' (au_signature u)"
proof -
  let ?assets = "json_items api (json_field api rel ''assets'')"
  let ?named = "\<lambda>ys name url. \<exists>asset \<in> set ys. json_value_string api asset ''name'' [] = Inr name \<and>
        json_value_string api asset ''browser_download_url'' [] = Inr url"
  have *: "(au_manifest u \<noteq> [] \<longrightarrow> ?named ?assets ''update-manifest.json'' (au_manifest u)) \<and>
      (au_signature u \<noteq> [] \<longrightarrow> ?named ?assets ''update-manifest.json.sig'' (au_signature u))"
    if fold: "foldE (take_asset api) no_urls ?assets = Inr u"
    using fold by (rule foldE_invariant [where P = "\<lambda>ys v.
      (au_manifest v \<noteq> [] \<longrightarrow> ?named ys ''update-manifest.json'' (au_manifest v)) \<and>
      (au_signature v \<noteq> [] \<longrightarrow> ?named ys ''update-manifest.json.sig'' (au_signature v))"])
      (auto simp: no_urls_def take_asset_def bindE_Inr_iff split: if_splits)
  then show "au_manifest u \<noteq> [] \<Longrightarrow> has_asset api rel ''update-manifest.json'' (au_manifest u)"
    and "au_signature u \<noteq> [] \<Longrightarrow> has_asset api rel ''update-manifest.json.sig'' (au_signature u)"
    using assms by (auto simp: release_urls_def has_asset_def no_urls_def split: if_splits)
qed

lemma candidate_qualifies:
  assumes "release_candidate api channel rel = Inr (Some a)"
  shows "qualifies api channel rel a"
  using assms
  by (auto simp: release_candidate_def qualifies_def bindE_Inr_iff release_urls_found
      split: if_splits option.splits)

lemma qualifies_page [simp]:
  "qualifies api channel rel (a\<lparr>ra_releases_page_url := p\<rparr>) = qualifies api channel rel a"
  by (simp add: qualifies_def)

section \<open>The newest release\<close>

text \<open>\<open>best\<close> is a newest candidate among the releases \<open>rels\<close>, the first of its version.\<close>

definition newest_of :: "'j json_api \<Rightarrow> UpdateChannel \<Rightarrow> 'j list \<Rightarrow> ReleaseAssets option \<Rightarrow> bool" where
  "newest_of api channel rels best =
     (case best of
        None \<Rightarrow> \<forall>rel \<in> set rels. release_candidate api channel rel = Inr None
      | Some a \<Rightarrow>
          (\<exists>rel \<in> set rels. qualifies api channel rel a) \<and>
          (\<forall>rel \<in> set rels. \<forall>c. release_candidate api channel rel = Inr (Some c) \<longrightarrow>
             \<not> semver_less (ra_version a) (ra_version c)))"

lemma consider_release_newest:
  assumes "newest_of api channel ys best" "consider_release api channel best rel = Inr best'"
  shows "newest_of api channel (ys @ [rel]) best'"
proof -
  obtain c where c: "release_candidate api channel rel = Inr c"
    using assms(2) by (auto simp: consider_release_def bindE_Inr_iff)
  show ?thesis
  proof (cases c)
    case None
    then show ?thesis
      using assms c by (auto simp: consider_release_def newest_of_def split: option.splits)
  next
    case (Some a)
    show ?thesis
    proof (cases "best = None \<or> semver_less (ra_version (the best)) (ra_version a)")
      case True
      then obtain page where "best' = Some (a\<lparr>ra_releases_page_url := page\<rparr>)"
        using assms(2) c Some by (auto simp: consider_release_def bindE_Inr_iff)
      then show ?thesis
        using True assms(1) c Some candidate_qualifies [of api channel rel a]
        by (auto simp: newest_of_def dest: semver_less_trans split: option.splits)
    next
      case False
      then show ?thesis
        using assms c Some by (auto simp: consider_release_def newest_of_def split: option.splits)
    qed
  qed
qed

lemma LocateRelease_newest:
  assumes "json_parse api body = Inr rels" "LocateRelease api body channel = (best, [])"
  shows "newest_of api channel (json_items api rels) best"
proof -
  have fold: "foldE (consider_release api channel) None (json_items api rels) = Inr best"
    using assms by (simp add: LocateRelease_def split: sum.splits)
  show ?thesis
    using fold by (rule foldE_invariant) (auto simp: consider_release_newest, simp add: newest_of_def)
qed

lemma LocateRelease_SomeD:
  assumes "LocateRelease api body channel = (Some a, err)"
  obtains rels where "err = []" "json_parse api body = Inr rels"
  using assms by (cases "json_parse api body") (auto simp: LocateRelease_def split: sum.splits)

text \<open>
  C9: a release that is located is a non-draft release of the channel whose tag parses, it
  carries both the manifest and its detached signature, and no release of the feed that
  qualifies has a greater version. Nothing is located only where no release qualifies or the
  feed could not be read, which is reported.
\<close>

theorem located_release_is_newest:
  assumes "LocateRelease api body channel = (best, err)"
  shows "case best of
      Some a \<Rightarrow> err = [] \<and> (\<exists>rels. json_parse api body = Inr rels \<and>
        (\<exists>rel \<in> set (json_items api rels). qualifies api channel rel a) \<and>
        (\<forall>rel \<in> set (json_items api rels). \<forall>c. release_candidate api channel rel = Inr (Some c) \<longrightarrow>
           \<not> semver_less (ra_version a) (ra_version c)))
    | None \<Rightarrow> err \<noteq> [] \<or> (\<exists>rels. json_parse api body = Inr rels \<and>
        (\<forall>rel \<in> set (json_items api rels). release_candidate api channel rel = Inr None))"
proof (cases best)
  case None
  show ?thesis
  proof (cases "err = []")
    case True
    then obtain rels where rels: "json_parse api body = Inr rels"
      using assms by (cases "json_parse api body") (auto simp: LocateRelease_def)
    then show ?thesis
      using LocateRelease_newest [OF rels, of channel None] assms None True by (simp add: newest_of_def)
  qed (simp add: None)
next
  case (Some a)
  then obtain rels where "err = []" and rels: "json_parse api body = Inr rels"
    using assms LocateRelease_SomeD by blast
  then show ?thesis
    using LocateRelease_newest [OF rels, of channel "Some a"] assms Some by (simp add: newest_of_def)
qed

section \<open>A feed to try the statements on\<close>

text \<open>JSON values as a library presents them, with the accessors' exceptions by name.\<close>

datatype json_value =
  JBool bool
| JString string
| JArray "json_value list"
| JObject "(string \<times> json_value) list"

definition jlookup :: "json_value \<Rightarrow> string \<Rightarrow> json_value option" where
  "jlookup j k = (case j of JObject fs \<Rightarrow> map_of fs k | _ \<Rightarrow> None)"

definition jelements :: "json_value \<Rightarrow> json_value list" where
  "jelements j = (case j of JArray js \<Rightarrow> js | JObject fs \<Rightarrow> map snd fs | _ \<Rightarrow> [j])"

definition document_api :: "(string \<times> json_value) list \<Rightarrow> json_value json_api" where
  "document_api docs = \<lparr>
     json_parse = (\<lambda>body. case map_of docs body of Some j \<Rightarrow> Inr j | None \<Rightarrow> Inl ''parse_error''),
     json_items = jelements,
     json_value_bool = (\<lambda>j k d. case jlookup j k of Some (JBool b) \<Rightarrow> Inr b | None \<Rightarrow> Inr d | _ \<Rightarrow> Inl ''type_error''),
     json_value_string = (\<lambda>j k d. case jlookup j k of Some (JString s) \<Rightarrow> Inr s | None \<Rightarrow> Inr d | _ \<Rightarrow> Inl ''type_error''),
     json_contains = (\<lambda>j k. jlookup j k \<noteq> None),
     json_field = (\<lambda>j k. the (jlookup j k)),
     json_at = (\<lambda>j k. case jlookup j k of Some v \<Rightarrow> Inr v | None \<Rightarrow> Inl ''out_of_range''),
     json_get_string = (\<lambda>j. case j of JString s \<Rightarrow> Inr s | _ \<Rightarrow> Inl ''type_error'')\<rparr>"

definition demo_asset :: "string \<Rightarrow> json_value" where
  "demo_asset name = JObject [(''name'', JString name), (''browser_download_url'', JString (''u/'' @ name))]"

definition demo_release :: "string \<Rightarrow> bool \<Rightarrow> json_value" where
  "demo_release tag with_sig = JObject [(''tag_name'', JString tag), (''body'', JString ''notes''),
     (''assets'', JArray (demo_asset ''update-manifest.json'' #
        (if with_sig then [demo_asset ''update-manifest.json.sig''] else [])))]"

text \<open>Version 3.0.0 lacks its signature, so 2.0.0 is the newest release that qualifies.\<close>

definition demo_feed :: "json_value json_api" where
  "demo_feed = document_api [(''feed'',
     JArray [demo_release ''v1.0.0'' True, demo_release ''v3.0.0'' False, demo_release ''v2.0.0'' True])]"

lemmas demo_feed_simps =
  demo_feed_def document_api_def demo_release_def demo_asset_def jlookup_def jelements_def

lemmas parse_simps =
  TagToSemVer_def strip_v_def ParseSemVer_def from_chars_u32_def is_digit_def decimal_value_def
  digit_value_def expect_dot_def ParsePrerelease_def final_version_def

definition demo_assets :: "u32 \<Rightarrow> string \<Rightarrow> ReleaseAssets" where
  "demo_assets x tag = \<lparr>ra_version = final_version x 0 0, ra_version_tag = tag,
     ra_manifest_url = ''u/update-manifest.json'', ra_signature_url = ''u/update-manifest.json.sig'',
     ra_portable_url = [], ra_installer_url = [], ra_releases_page_url = []\<rparr>"

lemma demo_candidates:
  "release_candidate demo_feed Stable (demo_release ''v1.0.0'' True) = Inr (Some (demo_assets 1 ''1.0.0''))"
  "release_candidate demo_feed Stable (demo_release ''v3.0.0'' False) = Inr None"
  "release_candidate demo_feed Stable (demo_release ''v2.0.0'' True) = Inr (Some (demo_assets 2 ''2.0.0''))"
  by (simp_all add: release_candidate_def release_urls_def no_urls_def take_asset_def demo_assets_def
      demo_feed_simps parse_simps EndsWith_def)

lemma demo_located: "LocateRelease demo_feed ''feed'' Stable = (Some (demo_assets 2 ''2.0.0''), [])"
proof -
  have items: "json_parse demo_feed ''feed'' = Inr (JArray [demo_release ''v1.0.0'' True,
      demo_release ''v3.0.0'' False, demo_release ''v2.0.0'' True])"
    "json_items demo_feed = jelements"
    by (simp_all add: demo_feed_def document_api_def)
  have page: "json_value_string demo_feed (demo_release tag b) ''html_url'' [] = Inr []" for tag b
    by (simp add: demo_feed_simps)
  have same: "a\<lparr>ra_releases_page_url := []\<rparr> = a" if "ra_releases_page_url a = []" for a :: ReleaseAssets
    using that by simp
  have "ra_releases_page_url (demo_assets x tag) = []" for x tag
    by (simp add: demo_assets_def)
  moreover have "semver_less (ra_version (demo_assets 1 ''1.0.0'')) (ra_version (demo_assets 2 ''2.0.0''))"
    by (simp add: demo_assets_def final_version_def semver_less_def)
  ultimately show ?thesis
    by (simp add: LocateRelease_def items jelements_def consider_release_def demo_candidates page same)
qed

theorem located_release_is_newest_witness:
  "fst (LocateRelease demo_feed ''feed'' Stable) = Some (demo_assets 2 ''2.0.0'')
    \<and> \<not> semver_less (final_version 2 0 0) (final_version 1 0 0)"
proof -
  have "\<exists>rels. json_parse demo_feed ''feed'' = Inr rels \<and>
      (\<forall>rel \<in> set (json_items demo_feed rels). \<forall>c. release_candidate demo_feed Stable rel = Inr (Some c) \<longrightarrow>
         \<not> semver_less (final_version 2 0 0) (ra_version c))"
    using located_release_is_newest [OF demo_located] by (auto simp: demo_assets_def)
  moreover have "json_parse demo_feed ''feed'' = Inr (JArray [demo_release ''v1.0.0'' True,
      demo_release ''v3.0.0'' False, demo_release ''v2.0.0'' True])" "json_items demo_feed = jelements"
    by (simp_all add: demo_feed_def document_api_def)
  ultimately show ?thesis
    by (auto simp: jelements_def demo_located demo_candidates) (simp add: demo_assets_def)
qed

section \<open>The window of release notes\<close>

text \<open>The note of a release that the channel shows.\<close>

definition noted :: "'j json_api \<Rightarrow> UpdateChannel \<Rightarrow> 'j \<Rightarrow> ReleaseNote \<Rightarrow> bool" where
  "noted api channel rel n \<longleftrightarrow>
     json_value_bool api rel ''draft'' False = Inr False \<and>
     (\<exists>pre. json_value_bool api rel ''prerelease'' False = Inr pre \<and> (pre \<longrightarrow> channel = Preview)) \<and>
     (\<exists>tag. json_value_string api rel ''tag_name'' [] = Inr tag \<and> TagToSemVer tag = Some (rn_version n)) \<and>
     json_value_string api rel ''body'' [] = Inr (rn_body_markdown n) \<and>
     json_value_string api rel ''html_url'' [] = Inr (rn_html_url n)"

lemma release_note_noted:
  assumes "release_note api channel in_range rel = Inr (Some n)"
  shows "noted api channel rel n \<and> in_range (rn_version n)"
  using assms by (auto simp: release_note_def noted_def bindE_Inr_iff split: if_splits option.splits)

lemma noted_release_note:
  assumes "noted api channel rel n" "in_range (rn_version n)"
  shows "release_note api channel in_range rel = Inr (Some n)"
proof -
  obtain pre tag where "json_value_bool api rel ''draft'' False = Inr False"
    and "json_value_bool api rel ''prerelease'' False = Inr pre" "\<not> (channel \<noteq> Preview \<and> pre)"
    and "json_value_string api rel ''tag_name'' [] = Inr tag" "TagToSemVer tag = Some (rn_version n)"
    and "json_value_string api rel ''body'' [] = Inr (rn_body_markdown n)"
    and "json_value_string api rel ''html_url'' [] = Inr (rn_html_url n)"
    using assms(1) by (auto simp: noted_def)
  then show ?thesis
    using assms(2) by (simp add: release_note_def)
qed

lemma add_note_set:
  assumes "add_note api channel in_range notes rel = Inr notes'"
  shows "set notes' = set notes \<union> {n. in_range (rn_version n) \<and> noted api channel rel n}"
proof -
  obtain c where c: "release_note api channel in_range rel = Inr c"
    and n': "notes' = (case c of None \<Rightarrow> notes | Some x \<Rightarrow> notes @ [x])"
    using assms by (auto simp: add_note_def bindE_Inr_iff)
  have "in_range (rn_version n) \<and> noted api channel rel n \<longleftrightarrow> c = Some n" for n
    using c release_note_noted [of api channel in_range rel n]
      noted_release_note [of api channel rel n in_range] by auto
  then show ?thesis
    using n' by (auto split: option.splits)
qed

lemma notes_collected:
  assumes "foldE (add_note api channel in_range) [] rels = Inr notes"
  shows "set notes = {n. in_range (rn_version n) \<and> (\<exists>rel \<in> set rels. noted api channel rel n)}"
  using assms
  by (rule foldE_invariant [where P = "\<lambda>ys ns.
      set ns = {n. in_range (rn_version n) \<and> (\<exists>rel \<in> set ys. noted api channel rel n)}"])
    (auto dest!: add_note_set)

lemma CollectNotesMatching_window:
  assumes "is_newest_first_sort srt" "json_parse api body = Inr rels"
    and "foldE (add_note api channel in_range) [] (json_items api rels) = Inr notes"
  shows "set (CollectNotesMatching api srt body channel in_range) =
      {n. in_range (rn_version n) \<and> (\<exists>rel \<in> set (json_items api rels). noted api channel rel n)}"
    and "sorted_wrt (\<lambda>a b. \<not> semver_less (rn_version a) (rn_version b))
      (CollectNotesMatching api srt body channel in_range)"
proof -
  have m: "mset (srt notes) = mset notes" and
    sorted: "sorted_wrt (\<lambda>a b. \<not> semver_less (rn_version a) (rn_version b)) (srt notes)"
    using assms(1) by (auto simp: is_newest_first_sort_def)
  have "CollectNotesMatching api srt body channel in_range = srt notes"
    using assms by (simp add: CollectNotesMatching_def)
  then show "set (CollectNotesMatching api srt body channel in_range) =
      {n. in_range (rn_version n) \<and> (\<exists>rel \<in> set (json_items api rels). noted api channel rel n)}"
    and "sorted_wrt (\<lambda>a b. \<not> semver_less (rn_version a) (rn_version b))
      (CollectNotesMatching api srt body channel in_range)"
    using notes_collected [OF assms(3)] sorted mset_eq_setD [OF m] by simp_all
qed

lemma notes_readable:
  assumes "\<forall>rel \<in> set rels. \<exists>n. release_note api channel in_range rel = Inr n"
  obtains collected where "foldE (add_note api channel in_range) [] rels = Inr collected"
proof -
  have "\<exists>notes. foldE (add_note api channel in_range) ns rels = Inr notes" for ns
    using assms
  proof (induction rels arbitrary: ns)
    case (Cons rel rels)
    then obtain n where "release_note api channel in_range rel = Inr n" by auto
    then show ?case
      using Cons by (simp add: add_note_def)
  qed simp
  then show ?thesis using that by blast
qed

text \<open>
  The notes shown for an update are exactly those of the non-draft releases visible on the
  channel whose version is above the running one and at most the offered one, newest first.
\<close>

theorem whats_new_window:
  assumes "is_newest_first_sort srt" "json_parse api body = Inr rels"
    and "\<forall>rel \<in> set (json_items api rels).
      \<exists>n. release_note api channel (\<lambda>v. semver_less lo v \<and> semver_le v hi) rel = Inr n"
  shows "set (CollectReleaseNotes api srt body lo hi channel) =
      {n. semver_less lo (rn_version n) \<and> semver_le (rn_version n) hi \<and>
         (\<exists>rel \<in> set (json_items api rels). noted api channel rel n)} \<and>
    sorted_wrt (\<lambda>a b. \<not> semver_less (rn_version a) (rn_version b))
      (CollectReleaseNotes api srt body lo hi channel)"
proof -
  obtain collected where "foldE (add_note api channel (\<lambda>v. semver_less lo v \<and> semver_le v hi)) []
      (json_items api rels) = Inr collected"
    using assms(3) by (rule notes_readable)
  from CollectNotesMatching_window [OF assms(1,2) this] show ?thesis
    by (simp add: CollectReleaseNotes_def)
qed

definition newest_first :: note_sort where
  "newest_first ns = rev (sort_key (\<lambda>n. semver_key (rn_version n)) ns)"

lemma newest_first_sorts: "is_newest_first_sort newest_first"
proof -
  have "sorted_wrt (\<lambda>a b. semver_key (rn_version a) \<le> semver_key (rn_version b))
      (sort_key (\<lambda>n. semver_key (rn_version n)) ns)" for ns :: "ReleaseNote list"
    using sorted_sort_key [of "\<lambda>n. semver_key (rn_version n)" ns] by (simp add: sorted_map)
  then show ?thesis
    by (auto simp: is_newest_first_sort_def newest_first_def sorted_wrt_rev semver_less_key not_less)
qed

definition demo_note :: "u32 \<Rightarrow> ReleaseNote" where
  "demo_note x = \<lparr>rn_version = final_version x 0 0, rn_body_markdown = ''notes'', rn_html_url = []\<rparr>"

theorem whats_new_window_witness:
  "demo_note 2 \<in> set (CollectReleaseNotes demo_feed newest_first ''feed''
      (final_version 1 0 0) (final_version 2 0 0) Stable)"
proof -
  have items: "json_parse demo_feed ''feed'' = Inr (JArray [demo_release ''v1.0.0'' True,
      demo_release ''v3.0.0'' False, demo_release ''v2.0.0'' True])"
    "json_items demo_feed = jelements"
    by (simp_all add: demo_feed_def document_api_def)
  have shown: "release_note demo_feed Stable r (demo_release ''v1.0.0'' True) =
        (if r (final_version 1 0 0) then Inr (Some (demo_note 1)) else Inr None)"
    "release_note demo_feed Stable r (demo_release ''v2.0.0'' True) =
        (if r (final_version 2 0 0) then Inr (Some (demo_note 2)) else Inr None)"
    "release_note demo_feed Stable r (demo_release ''v3.0.0'' False) =
        (if r (final_version 3 0 0) then Inr (Some (demo_note 3)) else Inr None)" for r
    by (simp_all add: release_note_def demo_note_def demo_feed_simps parse_simps)
  have "noted demo_feed Stable (demo_release ''v2.0.0'' True) (demo_note 2)"
    using shown(2) [of "\<lambda>_. True"] release_note_noted [of demo_feed Stable "\<lambda>_. True"] by simp
  moreover have "\<forall>rel \<in> set (json_items demo_feed (JArray [demo_release ''v1.0.0'' True,
      demo_release ''v3.0.0'' False, demo_release ''v2.0.0'' True])).
      \<exists>n. release_note demo_feed Stable (\<lambda>v. semver_less (final_version 1 0 0) v \<and>
        semver_le v (final_version 2 0 0)) rel = Inr n"
    by (simp add: items jelements_def shown)
  ultimately show ?thesis
    using whats_new_window [OF newest_first_sorts items(1)]
    by (simp add: items jelements_def) (simp add: demo_note_def semver_less_def semver_le_def final_version_def)
qed

section \<open>The offer\<close>

definition check_blocked :: "bool \<Rightarrow> CheckParams \<Rightarrow> bool" where
  "check_blocked official params \<longleftrightarrow>
     \<not> official \<or> (recording_guard params \<noteq> None \<and> recording_guard params \<noteq> Some NotBlocked)"

lemma CheckForUpdate_blocked:
  assumes "check_blocked official params"
  shows "\<exists>msg. CheckForUpdate official api srt get w params = (failed_check msg, w)"
  using assms
  by (auto simp: check_blocked_def CheckForUpdate_def split: option.splits UpdateBlockReason.splits)

lemma CheckForUpdate_open:
  assumes "\<not> check_blocked official params"
  shows "CheckForUpdate official api srt get w params = CheckAgainstFeed api srt get w params"
  using assms
  by (auto simp: check_blocked_def CheckForUpdate_def split: option.splits UpdateBlockReason.splits)

lemma failed_check_unavailable [simp]: "\<not> update_available (failed_check msg)" "check_failed (failed_check msg)"
  by (simp_all add: failed_check_def no_result_def)

lemma BuildCheckResult_offer:
  assumes "update_available (BuildCheckResult api srt body release params)"
  obtains a where "release = Some a" "DecideOffer (ra_version a) (ra_version_tag a) params \<noteq> NoOffer"
    "available_version (BuildCheckResult api srt body release params) = Some (ra_version a)"
    "available_version_raw (BuildCheckResult api srt body release params) = ra_version_tag a"
    "manifest_url (BuildCheckResult api srt body release params) = ra_manifest_url a"
    "manifest_signature_url (BuildCheckResult api srt body release params) = ra_signature_url a"
    "verification_reinstall (BuildCheckResult api srt body release params) \<longleftrightarrow>
       DecideOffer (ra_version a) (ra_version_tag a) params = VerificationReinstall"
  using assms
  by (cases release)
    (auto simp: BuildCheckResult_def with_offer_def with_anchor_def release_offer_def no_result_def
      split: if_splits)

lemma CheckAgainstFeed_offer:
  assumes "CheckAgainstFeed api srt get w params = (r, w')" "update_available r"
  obtains body a where "fst (FetchReleasesJson get w (api_base_url params)) = Inr body"
    "LocateRelease api body (check_channel params) = (Some a, [])"
    "r = BuildCheckResult api srt body (Some a) params"
proof -
  obtain f w1 where fetch: "FetchReleasesJson get w (api_base_url params) = (f, w1)"
    by fastforce
  obtain body where f: "f = Inr body"
    using assms fetch by (cases f) (auto simp: CheckAgainstFeed_def)
  obtain release err where loc: "LocateRelease api body (check_channel params) = (release, err)"
    by fastforce
  have r: "r = BuildCheckResult api srt body release params"
    using assms fetch f loc by (auto simp: CheckAgainstFeed_def split: if_splits)
  then obtain a where a: "release = Some a"
    using assms(2) BuildCheckResult_offer by metis
  then have "err = []"
    using loc LocateRelease_SomeD by metis
  then show ?thesis
    using that [of body a] fetch f loc r a by simp
qed

text \<open>
  C10: an unofficial build and a running or finalizing recording stop the check before any
  request. An update is only ever announced for the located release of the feed, with both URLs
  of its trust anchor; it is newer than the running version, or, in the verification mode only,
  byte-identical to it.
\<close>

theorem only_newer_releases_are_offered:
  assumes "CheckForUpdate official api srt get w params = (r, w')"
  shows "(check_blocked official params \<longrightarrow> w' = w \<and> check_failed r \<and> \<not> update_available r) \<and>
    (update_available r \<longrightarrow>
      (\<exists>body a. fst (FetchReleasesJson get w (api_base_url params)) = Inr body \<and>
        LocateRelease api body (check_channel params) = (Some a, []) \<and>
        available_version r = Some (ra_version a) \<and> available_version_raw r = ra_version_tag a \<and>
        manifest_url r = ra_manifest_url a \<and> manifest_signature_url r = ra_signature_url a \<and>
        manifest_url r \<noteq> [] \<and> manifest_signature_url r \<noteq> [] \<and>
        (if verification_reinstall r
         then allow_same_version_reinstall params \<and> ra_version_tag a = current_version_raw params \<and>
           ra_version_tag a \<noteq> []
         else semver_less (current_version params) (ra_version a))))"
proof (cases "check_blocked official params")
  case True
  then show ?thesis
    using CheckForUpdate_blocked [OF True, of api srt get w] assms by auto
next
  case False
  have "\<exists>body a. fst (FetchReleasesJson get w (api_base_url params)) = Inr body \<and>
        LocateRelease api body (check_channel params) = (Some a, []) \<and>
        available_version r = Some (ra_version a) \<and> available_version_raw r = ra_version_tag a \<and>
        manifest_url r = ra_manifest_url a \<and> manifest_signature_url r = ra_signature_url a \<and>
        manifest_url r \<noteq> [] \<and> manifest_signature_url r \<noteq> [] \<and>
        (if verification_reinstall r
         then allow_same_version_reinstall params \<and> ra_version_tag a = current_version_raw params \<and>
           ra_version_tag a \<noteq> []
         else semver_less (current_version params) (ra_version a))"
    if avail: "update_available r"
  proof -
    obtain body a where fetch: "fst (FetchReleasesJson get w (api_base_url params)) = Inr body"
      and loc: "LocateRelease api body (check_channel params) = (Some a, [])"
      and r: "r = BuildCheckResult api srt body (Some a) params"
      using assms avail False CheckAgainstFeed_offer CheckForUpdate_open by metis
    obtain rels where rels: "json_parse api body = Inr rels"
      using loc LocateRelease_SomeD by metis
    have "ra_manifest_url a \<noteq> []" "ra_signature_url a \<noteq> []"
      using LocateRelease_newest [OF rels loc] by (auto simp: newest_of_def qualifies_def)
    moreover obtain a' where "Some a = Some a'" and "DecideOffer (ra_version a') (ra_version_tag a') params \<noteq> NoOffer"
      and "available_version r = Some (ra_version a')" "available_version_raw r = ra_version_tag a'"
      and "manifest_url r = ra_manifest_url a'" "manifest_signature_url r = ra_signature_url a'"
      and "verification_reinstall r \<longleftrightarrow> DecideOffer (ra_version a') (ra_version_tag a') params = VerificationReinstall"
      using BuildCheckResult_offer avail r by metis
    ultimately show ?thesis
      using fetch loc by (auto simp: DecideOffer_def split: if_splits)
  qed
  with False show ?thesis
    by blast
qed

definition demo_params :: CheckParams where
  "demo_params = \<lparr>current_version = final_version 1 0 0, current_version_raw = ''1.0.0'',
     check_channel = Stable, recording_guard = Some NotBlocked, api_base_url = ''https://h/r'',
     allow_same_version_reinstall = False\<rparr>"

definition demo_get :: "nat https_get" where
  "demo_get w host path port = (Inr ''feed'', Suc w)"

lemma demo_check:
  "CheckForUpdate True demo_feed newest_first demo_get 0 demo_params =
     (BuildCheckResult demo_feed newest_first ''feed'' (Some (demo_assets 2 ''2.0.0'')) demo_params, 1)"
proof -
  have "FetchReleasesJson demo_get 0 ''https://h/r'' = (Inr ''feed'', 1)"
    by (simp add: FetchReleasesJson_def split_port_def demo_get_def)
  then show ?thesis
    by (simp add: CheckForUpdate_def CheckAgainstFeed_def demo_params_def demo_located)
qed

theorem only_newer_releases_are_offered_witness:
  "available_version (fst (CheckForUpdate True demo_feed newest_first demo_get 0 demo_params)) =
     Some (final_version 2 0 0)"
proof -
  have "update_available (BuildCheckResult demo_feed newest_first ''feed'' (Some (demo_assets 2 ''2.0.0'')) demo_params)"
    by (simp add: BuildCheckResult_def with_offer_def release_offer_def DecideOffer_def demo_params_def
        demo_assets_def semver_less_def final_version_def)
  moreover have "ra_version (demo_assets 2 ''2.0.0'') = final_version 2 0 0"
    by (simp add: demo_assets_def)
  moreover have "check_channel demo_params = Stable"
    by (simp add: demo_params_def)
  moreover have "fst (FetchReleasesJson demo_get 0 (api_base_url demo_params)) = Inr ''feed''"
    by (simp add: FetchReleasesJson_def split_port_def demo_get_def demo_params_def)
  ultimately show ?thesis
    using only_newer_releases_are_offered [OF demo_check] by (auto simp: demo_check demo_located)
qed

section \<open>The address of the feed\<close>

lemma decimal_value_foldl_mono: "n \<le> foldl (\<lambda>n c. n * 10 + digit_value c) n cs"
proof (induction cs arbitrary: n)
  case (Cons c cs)
  have "n \<le> n * 10 + digit_value c" by simp
  also have "\<dots> \<le> foldl (\<lambda>n c. n * 10 + digit_value c) (n * 10 + digit_value c) cs"
    by (rule Cons.IH)
  finally show ?case by simp
qed simp

lemma parse_port_digits_value:
  assumes "\<forall>c \<in> set cs. is_digit c"
  shows "parse_port_digits n cs = foldl (\<lambda>n c. n * 10 + digit_value c) n cs
    \<or> 65535 < parse_port_digits n cs \<and> 65535 < foldl (\<lambda>n c. n * 10 + digit_value c) n cs"
  using assms
proof (induction cs arbitrary: n)
  case (Cons c cs)
  then show ?case
    using decimal_value_foldl_mono [of "n * 10 + digit_value c" cs] by (auto simp: Let_def)
qed simp

lemma parse_port_to_string:
  "parse_port_digits 0 (to_string p) = p \<or> 65535 < parse_port_digits 0 (to_string p) \<and> 65535 < p"
  using parse_port_digits_value [OF to_string_digits [of p], of 0] decimal_value_to_string [of p]
  by (simp add: decimal_value_def)

lemma is_digit_not_separator: "is_digit c \<Longrightarrow> c \<noteq> CHR ''/'' \<and> c \<noteq> CHR '':''"
  by (auto simp: is_digit_def)

text \<open>
  The request goes to the host, port and path the address names, for the first page; a port
  out of range is refused and nothing is sent.
\<close>

theorem feed_address_is_requested:
  assumes "host \<noteq> []" "CHR ''/'' \<notin> set host" "CHR '':'' \<notin> set host"
    and "path = [] \<or> hd path = CHR ''/''"
  shows "FetchReleasesJson get w (''https://'' @ host @ '':'' @ to_string port @ path) =
    (if 0 < port \<and> port \<le> 65535
     then get w host ((if path = [] then ''/'' else path) @
            (if CHR ''?'' \<in> set path then ''&per_page=30'' else ''?per_page=30'')) (of_nat port)
     else (Inl ''invalid port in base URL'', w))"
proof -
  let ?authority = "host @ '':'' @ to_string port"
  have no_slash: "\<forall>c \<in> set ?authority. c \<noteq> CHR ''/''"
    using assms(2) to_string_digits [of port] is_digit_not_separator by auto
  have parts: "takeWhile (\<lambda>c. c \<noteq> CHR ''/'') (?authority @ path) = ?authority"
    "dropWhile (\<lambda>c. c \<noteq> CHR ''/'') (?authority @ path) = path"
    using no_slash assms(4) by (cases path; auto simp: takeWhile_append2 dropWhile_append2)+
  have no_colon: "\<And>c. c \<in> set host \<Longrightarrow> c \<noteq> CHR '':''"
    using assms(3) by auto
  have "takeWhile (\<lambda>c. c \<noteq> CHR '':'') ?authority = host"
    "dropWhile (\<lambda>c. c \<noteq> CHR '':'') ?authority = CHR '':'' # to_string port"
    using no_colon by (simp_all add: takeWhile_append2 dropWhile_append2)
  then have "split_port ?authority =
      (if 0 < port \<and> port \<le> 65535 then Inr (host, of_nat port) else Inl ''invalid port in base URL'')"
    using parse_port_to_string [of port] by (auto simp: split_port_def Let_def)
  then show ?thesis
    using parts assms(1) by (simp add: FetchReleasesJson_def first_page_def)
qed

theorem feed_address_is_requested_witness:
  "FetchReleasesJson (\<lambda>w host path port. (Inr (host @ path), port)) 0 ''https://h:8443/r?x'' =
     (Inr ''h/r?x&per_page=30'', 8443)"
proof -
  have "to_string 8443 = ''8443''"
    by (simp add: to_string.simps digit_char_def char_of_def bit_0)
  then show ?thesis
    using feed_address_is_requested [of "''h''" "''/r?x''" "\<lambda>w host path port. (Inr (host @ path), port)" 0 8443]
    by simp
qed

end
