(* ===== verification/UpdateManifest.thy ===== *)
theory UpdateManifest
  imports ReleaseGuarantees
begin

text \<open>
  The signed update manifest and the package it names:
  \<^verbatim>\<open>libs/update/src/manifest_io.cpp\<close>, \<^verbatim>\<open>package_verifier.cpp\<close>, the package selection of
  \<^verbatim>\<open>release_locator.cpp\<close> and the installation mode of \<^verbatim>\<open>install_mode_classify.cpp\<close>.

  The ed25519 verification (Monocypher) is a function of signature, message and key; the
  SHA-256 of a file (BCrypt) and the file system are functions on an arbitrary world.
\<close>

section \<open>The manifest\<close>

datatype PackageKind = KindInstaller | KindPortable

datatype InstallMode = Installed | Portable

record PackageEntry =
  pkg_kind :: PackageKind
  pkg_url :: string
  sha256_hex :: string

record UpdateManifest =
  mf_version :: SemVer
  mf_version_raw :: string
  minimum_accepted_version :: SemVer
  packages :: "PackageEntry list"

text \<open>An exception of the JSON library becomes the returned error text.\<close>

definition json_step :: "string + 'a \<Rightarrow> string + 'a" where
  "json_step m = (case m of Inl e \<Rightarrow> Inl (''json parse error: '' @ e) | Inr x \<Rightarrow> Inr x)"

definition string_at :: "'j json_api \<Rightarrow> 'j \<Rightarrow> string \<Rightarrow> string + string" where
  "string_at api j k = json_step (bindE (json_at api j k) (json_get_string api))"

definition version_at :: "'j json_api \<Rightarrow> 'j \<Rightarrow> string \<Rightarrow> string \<Rightarrow> string + SemVer \<times> string" where
  "version_at api j k complaint =
     bindE (string_at api j k) (\<lambda>s.
       case ParseSemVer s of None \<Rightarrow> Inl (complaint @ s) | Some v \<Rightarrow> Inr (v, s))"

definition package_kind :: "string \<Rightarrow> string + PackageKind" where
  "package_kind s =
     (if s = ''installer'' then Inr KindInstaller
      else if s = ''portable'' then Inr KindPortable
      else Inl (''unknown package kind: '' @ s))"

definition add_package ::
    "'j json_api \<Rightarrow> PackageEntry list \<Rightarrow> 'j \<Rightarrow> string + PackageEntry list" where
  "add_package api pkgs pkg =
     bindE (string_at api pkg ''kind'') (\<lambda>s.
     bindE (package_kind s) (\<lambda>kind.
     bindE (string_at api pkg ''url'') (\<lambda>url.
     bindE (string_at api pkg ''sha256'') (\<lambda>sha.
       if length sha \<noteq> 64 then Inl ''sha256 must be 64 hex chars''
       else Inr (pkgs @ [\<lparr>pkg_kind = kind, pkg_url = url, sha256_hex = sha\<rparr>])))))"

definition ParseManifest :: "'j json_api \<Rightarrow> string \<Rightarrow> string + UpdateManifest" where
  "ParseManifest api body =
     bindE (json_step (json_parse api body)) (\<lambda>j.
     bindE (version_at api j ''version'' ''invalid version: '') (\<lambda>(ver, raw).
     bindE (version_at api j ''minimum_accepted_version'' ''invalid minimum_accepted_version: '')
       (\<lambda>(minver, _).
     bindE (json_step (json_at api j ''packages'')) (\<lambda>pkgs.
     bindE (foldE (add_package api) [] (json_items api pkgs)) (\<lambda>entries.
       Inr \<lparr>mf_version = ver, mf_version_raw = raw, minimum_accepted_version = minver,
            packages = entries\<rparr>)))))"

definition IsDowngrade :: "UpdateManifest \<Rightarrow> SemVer \<Rightarrow> bool" where
  "IsDowngrade m current \<longleftrightarrow>
     semver_less (mf_version m) current \<or> semver_less (mf_version m) (minimum_accepted_version m)"

definition SelectPackage :: "UpdateManifest \<Rightarrow> InstallMode \<Rightarrow> PackageEntry option" where
  "SelectPackage m mode =
     find (\<lambda>pkg. pkg_kind pkg = (if mode = Installed then KindInstaller else KindPortable)) (packages m)"

section \<open>The detached signature\<close>

datatype VerifyResult =
  VerifyOk | ManifestSigInvalid | ManifestParseError | DowngradeBlocked | PackageHashMismatch | PackageNotFound

definition nibble :: "char \<Rightarrow> int" where
  "nibble c =
     (let n = of_char c :: int in
      if 48 \<le> n \<and> n \<le> 57 then n - 48
      else if 97 \<le> n \<and> n \<le> 102 then n - 97 + 10
      else if 65 \<le> n \<and> n \<le> 70 then n - 65 + 10
      else -1)"

definition hex_byte :: "int \<Rightarrow> int \<Rightarrow> u8" where
  "hex_byte hi lo = push_bit 4 (of_int hi) OR of_int lo"

fun hex_bytes :: "string \<Rightarrow> u8 list option" where
  "hex_bytes (h # l # s) =
     (if nibble h < 0 \<or> nibble l < 0 then None
      else map_option ((#) (hex_byte (nibble h) (nibble l))) (hex_bytes s))"
| "hex_bytes _ = Some []"

definition ParseHex64 :: "string \<Rightarrow> u8 list option" where
  "ParseHex64 hex = (if length hex \<noteq> 128 then None else hex_bytes hex)"

definition string_bytes :: "string \<Rightarrow> u8 list" where
  "string_bytes s = map (\<lambda>c. of_nat (of_char c)) s"

type_synonym ed25519 = "u8 list \<Rightarrow> u8 list \<Rightarrow> u8 list \<Rightarrow> bool"

definition VerifyManifestSignature :: "ed25519 \<Rightarrow> u8 list \<Rightarrow> string \<Rightarrow> string \<Rightarrow> VerifyResult" where
  "VerifyManifestSignature ed25519_verify pub_key raw_manifest signature_hex =
     (case ParseHex64 signature_hex of
        None \<Rightarrow> ManifestSigInvalid
      | Some sig \<Rightarrow>
          if ed25519_verify sig (string_bytes raw_manifest) pub_key then VerifyOk else ManifestSigInvalid)"

section \<open>The package file\<close>

text \<open>
  \<open>file_sha256\<close> is the lower-case digest or the empty string where reading or hashing fails.
\<close>

record 'w file_api =
  file_exists :: "'w \<Rightarrow> string \<Rightarrow> bool"
  file_sha256 :: "'w \<Rightarrow> string \<Rightarrow> string"
  file_remove :: "'w \<Rightarrow> string \<Rightarrow> 'w"

definition to_lower :: "char \<Rightarrow> char" where
  "to_lower c =
     (let n = of_char c :: nat in if 65 \<le> n \<and> n \<le> 90 then char_of (n + 32) else c)"

definition HexEqualNoCase :: "string \<Rightarrow> string \<Rightarrow> bool" where
  "HexEqualNoCase a b \<longleftrightarrow> map to_lower a = map to_lower b"

definition VerifyPackage :: "'w file_api \<Rightarrow> 'w \<Rightarrow> string \<Rightarrow> string \<Rightarrow> VerifyResult \<times> 'w" where
  "VerifyPackage api w path expected =
     (if \<not> file_exists api w path then (PackageNotFound, w)
      else
        let actual = file_sha256 api w path in
        if actual = [] then (PackageHashMismatch, file_remove api w path)
        else if \<not> HexEqualNoCase actual expected then (PackageHashMismatch, file_remove api w path)
        else (VerifyOk, w))"

text \<open>Through a handle that is already open: \<open>None\<close> is the null or invalid handle.\<close>

definition VerifyPackageHandle :: "('h \<Rightarrow> string) \<Rightarrow> 'h option \<Rightarrow> string \<Rightarrow> VerifyResult" where
  "VerifyPackageHandle sha256_of_handle handle expected =
     (case handle of
        None \<Rightarrow> PackageNotFound
      | Some h \<Rightarrow>
          let actual = sha256_of_handle h in
          if actual = [] then PackageHashMismatch
          else if \<not> HexEqualNoCase actual expected then PackageHashMismatch
          else VerifyOk)"

section \<open>The installation mode\<close>

text \<open>\<^verbatim>\<open>std::towlower\<close> is the parameter \<open>lower\<close>.\<close>

fun strip_trailing_separators :: "string \<Rightarrow> string" where
  "strip_trailing_separators s =
     (if s \<noteq> [] \<and> (List.last s = CHR 0x5C \<or> List.last s = CHR ''/'')
      then strip_trailing_separators (butlast s) else s)"

declare strip_trailing_separators.simps [simp del]

definition NormalizeDirForCompare :: "(char \<Rightarrow> char) \<Rightarrow> string \<Rightarrow> string" where
  "NormalizeDirForCompare lower path =
     map (\<lambda>c. if c = CHR ''/'' then CHR 0x5C else c) (map lower (strip_trailing_separators path))"

definition ClassifyInstallMode :: "(char \<Rightarrow> char) \<Rightarrow> string option \<Rightarrow> string \<Rightarrow> InstallMode" where
  "ClassifyInstallMode lower stamp running_exe_dir =
     (case stamp of
        None \<Rightarrow> Portable
      | Some dir \<Rightarrow>
          if dir = [] then Portable
          else if running_exe_dir = [] then Portable
          else if NormalizeDirForCompare lower dir = NormalizeDirForCompare lower running_exe_dir
          then Installed else Portable)"

section \<open>Guarantees\<close>

lemma hex_bytes_Some_iff:
  "even (length s) \<Longrightarrow> (\<exists>bs. hex_bytes s = Some bs) \<longleftrightarrow> (\<forall>c \<in> set s. 0 \<le> nibble c)"
  by (induction s rule: hex_bytes.induct) (auto simp: not_less)

lemma length_hex_bytes: "hex_bytes s = Some bs \<Longrightarrow> length bs = length s div 2"
  by (induction s arbitrary: bs rule: hex_bytes.induct) (auto split: if_splits)

definition hex_digit :: "u8 \<Rightarrow> char" where
  "hex_digit n = char_of (if unat n < 10 then 48 + unat n else 87 + unat n)"

definition hex_text :: "u8 list \<Rightarrow> string" where
  "hex_text bs = concat (map (\<lambda>b. [hex_digit (drop_bit 4 b), hex_digit (b AND 0xF)]) bs)"

lemma of_char_int: "m < 256 \<Longrightarrow> (of_char (char_of m :: char) :: int) = int m"
proof -
  assume "m < 256"
  then have "(of_char (char_of m :: char) :: nat) = m" by simp
  then show ?thesis
    using of_nat_of_char [of "char_of m", where 'a = int] by simp
qed

lemma nibble_char_of: "k < 16 \<Longrightarrow> nibble (char_of (if k < 10 then 48 + k else 87 + k)) = int k"
  using of_char_int [of "if k < 10 then 48 + k else 87 + k"]
  by (cases "k < 10") (simp_all add: nibble_def Let_def del: of_char_of)

lemma nibble_hex_digit: "unat n < 16 \<Longrightarrow> nibble (hex_digit n) = uint n"
  unfolding hex_digit_def by (subst nibble_char_of) (simp_all only: uint_nat)

lemma hex_byte_nibbles: "hex_byte (uint (drop_bit 4 b)) (uint (b AND 0xF)) = b"
proof -
  have mask: "(0xF :: u8) = mask 4"
    by (simp add: mask_eq_exp_minus_1)
  show ?thesis
    unfolding hex_byte_def mask by (rule bit_word_eqI) (auto simp: bit_simps simp flip: not_less)
qed

lemma nibble_bounds: "unat (drop_bit 4 (b :: u8)) < 16" "unat (b AND 0xF :: u8) < 16"
proof -
  have "unat b < 256"
    using unsigned_less [of b, where 'a = nat] by simp
  then show "unat (drop_bit 4 b) < 16"
    using unat_drop_bit_eq [of 4 b] by (simp add: drop_bit_eq_div)
  have "b AND 0xF \<le> 0xF"
    by (rule word_and_le1)
  then show "unat (b AND 0xF) < 16"
    by (simp add: word_le_nat_alt)
qed

lemma hex_bytes_hex_text: "hex_bytes (hex_text bs) = Some bs"
proof (induction bs)
  case Nil
  then show ?case by (simp add: hex_text_def)
next
  case (Cons b bs)
  moreover have "hex_text (b # bs) = hex_digit (drop_bit 4 b) # hex_digit (b AND 0xF) # hex_text bs"
    by (simp add: hex_text_def)
  ultimately show ?case
    by (simp add: nibble_hex_digit nibble_bounds hex_byte_nibbles)
qed

lemma length_hex_text: "length (hex_text bs) = 2 * length bs"
  by (induction bs) (simp_all add: hex_text_def)

text \<open>
  A manifest is accepted only under a signature file of exactly 128 hexadecimal digits,
  whose 64 bytes verify over the manifest's bytes as received; the 128-digit text of any
  64-byte signature that verifies is accepted.
\<close>

theorem signature_gate:
  "(VerifyManifestSignature ed25519_verify key body hex = VerifyOk \<longleftrightarrow>
      length hex = 128 \<and> (\<forall>c \<in> set hex. 0 \<le> nibble c) \<and>
      (\<exists>sig. length sig = 64 \<and> hex_bytes hex = Some sig \<and> ed25519_verify sig (string_bytes body) key)) \<and>
   (length sig = 64 \<longrightarrow>
      VerifyManifestSignature ed25519_verify key body (hex_text sig) =
        (if ed25519_verify sig (string_bytes body) key then VerifyOk else ManifestSigInvalid))"
proof -
  have "VerifyManifestSignature ed25519_verify key body hex = VerifyOk \<longleftrightarrow>
      length hex = 128 \<and> (\<forall>c \<in> set hex. 0 \<le> nibble c) \<and>
      (\<exists>sig. length sig = 64 \<and> hex_bytes hex = Some sig \<and> ed25519_verify sig (string_bytes body) key)"
    using hex_bytes_Some_iff [of hex] length_hex_bytes [of hex]
    by (auto simp: VerifyManifestSignature_def ParseHex64_def split: option.splits)
  then show ?thesis
    by (simp add: VerifyManifestSignature_def ParseHex64_def length_hex_text hex_bytes_hex_text)
qed

theorem signature_gate_witness:
  "VerifyManifestSignature (\<lambda>sig msg key. hd sig = 0xAB \<and> msg = [104]) [] ''h'' (hex_text (replicate 64 0xAB))
     = VerifyOk"
  using signature_gate [where sig = "replicate 64 0xAB" and body = "''h''" and key = "[]"
      and ed25519_verify = "\<lambda>sig msg key. hd sig = 0xAB \<and> msg = [104]"]
  by (simp add: string_bytes_def)

text \<open>
  A parsed manifest carries the version its raw text denotes, a minimum version, and
  packages whose digests have 64 characters; the package selected for an installation mode has
  the kind of that mode and is one of the manifest's.
\<close>

theorem parsed_manifest_is_well_formed:
  assumes "ParseManifest api body = Inr m"
  shows "ParseSemVer (mf_version_raw m) = Some (mf_version m) \<and> canonical (minimum_accepted_version m) \<and>
    (\<forall>pkg \<in> set (packages m). length (sha256_hex pkg) = 64) \<and>
    (\<forall>mode pkg. SelectPackage m mode = Some pkg \<longrightarrow> pkg \<in> set (packages m) \<and>
       pkg_kind pkg = (if mode = Installed then KindInstaller else KindPortable))"
proof -
  obtain j pkgs raw where
    version: "version_at api j ''version'' ''invalid version: '' = Inr (mf_version m, mf_version_raw m)"
    and minimum: "version_at api j ''minimum_accepted_version'' ''invalid minimum_accepted_version: '' =
      Inr (minimum_accepted_version m, raw)"
    and entries: "foldE (add_package api) [] (json_items api pkgs) = Inr (packages m)"
    using assms by (auto simp: ParseManifest_def bindE_Inr_iff)
  have "\<forall>pkg \<in> set (packages m). length (sha256_hex pkg) = 64"
    using entries by (rule foldE_invariant [where P = "\<lambda>_ ps. \<forall>p \<in> set ps. length (sha256_hex p) = 64"])
      (auto simp: add_package_def bindE_Inr_iff split: if_splits)
  moreover have "ParseSemVer (mf_version_raw m) = Some (mf_version m)" "ParseSemVer raw = Some (minimum_accepted_version m)"
    using version minimum by (auto simp: version_at_def bindE_Inr_iff split: option.splits)
  ultimately show ?thesis
    by (auto simp: SelectPackage_def find_Some_iff canonical_ParseSemVer)
qed

definition demo_manifest_api :: "json_value json_api" where
  "demo_manifest_api = document_api [(''m'', JObject [(''version'', JString ''1.2.0''),
     (''minimum_accepted_version'', JString ''1.0.0''),
     (''packages'', JArray [JObject [(''kind'', JString ''portable''), (''url'', JString ''u''),
        (''sha256'', JString (replicate 64 (CHR ''a'')))]])])]"

definition demo_manifest :: UpdateManifest where
  "demo_manifest = \<lparr>mf_version = final_version 1 2 0, mf_version_raw = ''1.2.0'',
     minimum_accepted_version = final_version 1 0 0,
     packages = [\<lparr>pkg_kind = KindPortable, pkg_url = ''u'', sha256_hex = replicate 64 (CHR ''a'')\<rparr>]\<rparr>"

lemma demo_manifest_parsed: "ParseManifest demo_manifest_api ''m'' = Inr demo_manifest"
  by (simp add: ParseManifest_def demo_manifest_api_def document_api_def version_at_def string_at_def
      json_step_def jlookup_def jelements_def add_package_def package_kind_def demo_manifest_def parse_simps)

theorem parsed_manifest_is_well_formed_witness:
  "ParseSemVer ''1.2.0'' = Some (mf_version demo_manifest)"
  using parsed_manifest_is_well_formed [OF demo_manifest_parsed] by (simp add: demo_manifest_def)

end
