(* ===== verification/SwapEngine.thy ===== *)
theory SwapEngine
  imports Paths
begin

text \<open>
  The staged directory swap, \<^verbatim>\<open>libs/update/src/swap_engine.cpp\<close>: renames with a bounded retry,
  the swap with its compensation, undo, repair of an interrupted swap, and the check of the
  installed version.

  The operating system is the record \<open>disk_api\<close> of functions over an arbitrary world:
  \<^verbatim>\<open>std::filesystem::exists\<close> and \<^verbatim>\<open>remove_all\<close>, \<^verbatim>\<open>MoveFileExW\<close> without flags (the Win32 error
  code, 0 on success), the sleep, and the two readers of the version resource. What the swap
  relies on is the locale \<open>sibling_disk\<close> of the theory \<open>SwapGuarantees\<close>.
\<close>

type_synonym win32 = u32

record 'w disk_api =
  path_exists :: "'w \<Rightarrow> string \<Rightarrow> bool"
  remove_all :: "'w \<Rightarrow> string \<Rightarrow> 'w"
  move_directory :: "'w \<Rightarrow> string \<Rightarrow> string \<Rightarrow> win32 \<times> 'w"
  sleep_for :: "'w \<Rightarrow> int \<Rightarrow> 'w"
  product_version_string :: "'w \<Rightarrow> string \<Rightarrow> string option"
  file_version :: "'w \<Rightarrow> string \<Rightarrow> SemVer option"

section \<open>Renames\<close>

definition IsTransientRenameError :: "win32 \<Rightarrow> bool" where
  "IsTransientRenameError e \<longleftrightarrow> e = 5 \<or> e = 32 \<or> e = 33"

text \<open>Durations are milliseconds. The two functions are \<open>None\<close> where the source leaves them empty.\<close>

record 'w RenameRetry =
  first_delay :: int
  max_delay :: int
  budget :: int
  rename_override :: "('w \<Rightarrow> string \<Rightarrow> string \<Rightarrow> win32 \<times> 'w) option"
  sleep_override :: "('w \<Rightarrow> int \<Rightarrow> 'w) option"

definition default_retry :: "'w RenameRetry" where
  "default_retry = \<lparr>first_delay = 50, max_delay = 800, budget = 5000, rename_override = None,
     sleep_override = None\<rparr>"

record RenameOutcome =
  rename_error :: win32
  rename_attempts :: u32

definition rename_ok :: "RenameOutcome \<Rightarrow> bool" where
  "rename_ok outcome \<longleftrightarrow> rename_error outcome = 0"

definition attempt_rename ::
    "'w disk_api \<Rightarrow> 'w RenameRetry \<Rightarrow> 'w \<Rightarrow> string \<Rightarrow> string \<Rightarrow> win32 \<times> 'w" where
  "attempt_rename api retry w src dst =
     (case rename_override retry of Some f \<Rightarrow> f w src dst | None \<Rightarrow> move_directory api w src dst)"

definition retry_sleep :: "'w disk_api \<Rightarrow> 'w RenameRetry \<Rightarrow> 'w \<Rightarrow> int \<Rightarrow> 'w" where
  "retry_sleep api retry w delay =
     (case sleep_override retry of Some f \<Rightarrow> f w delay | None \<Rightarrow> sleep_for api w delay)"

partial_function (option) RenameLoop ::
    "'w disk_api \<Rightarrow> 'w RenameRetry \<Rightarrow> string \<Rightarrow> string \<Rightarrow> 'w \<Rightarrow> u32 \<Rightarrow> int \<Rightarrow> int
     \<Rightarrow> (RenameOutcome \<times> 'w) option" where
  "RenameLoop api retry src dst w attempts delay remaining =
     (case attempt_rename api retry w src dst of (e, w) \<Rightarrow>
        if e = 0 \<or> \<not> IsTransientRenameError e \<or> remaining < delay
        then Some (\<lparr>rename_error = e, rename_attempts = attempts + 1\<rparr>, w)
        else RenameLoop api retry src dst (retry_sleep api retry w delay) (attempts + 1)
               (min (delay * 2) (max_delay retry)) (remaining - delay))"

definition RenameDirectory ::
    "'w disk_api \<Rightarrow> 'w RenameRetry \<Rightarrow> 'w \<Rightarrow> string \<Rightarrow> string \<Rightarrow> (RenameOutcome \<times> 'w) option" where
  "RenameDirectory api retry w src dst =
     RenameLoop api retry src dst w 0 (first_delay retry) (budget retry)"

section \<open>The plan\<close>

record SwapPlan =
  install_dir :: string
  staging_dir :: string
  backup_dir :: string
  target_version :: SemVer

definition trim_separators :: "string \<Rightarrow> string" where
  "trim_separators dir = rev (dropWhile is_separator (rev dir))"

definition MakeSwapPlan :: "string \<Rightarrow> SemVer \<Rightarrow> SwapPlan" where
  "MakeSwapPlan dir target =
     (let normalized = trim_separators dir in
      \<lparr>install_dir = normalized, staging_dir = normalized @ ''.new'', backup_dir = normalized @ ''.old'',
       target_version = target\<rparr>)"

definition exe_path :: "string \<Rightarrow> string" where
  "exe_path dir = dir @ [CHR 0x5C] @ ''exosnap.exe''"

section \<open>The swap\<close>

datatype SwapError =
  SwapNone | StagingMissing | BackupCollision | RenameOldFailed | RenameNewFailed | SwapRestoreFailed

text \<open>True if the path is gone afterwards.\<close>

definition RemoveTree :: "'w disk_api \<Rightarrow> 'w \<Rightarrow> string \<Rightarrow> bool \<times> 'w" where
  "RemoveTree api w dir =
     (if \<not> path_exists api w dir then (True, w)
      else let w = remove_all api w dir in (\<not> path_exists api w dir, w))"

definition rename_noting ::
    "'w disk_api \<Rightarrow> 'w RenameRetry \<Rightarrow> string \<Rightarrow> string \<Rightarrow> RenameOutcome option \<Rightarrow> 'w
     \<Rightarrow> (bool \<times> RenameOutcome option \<times> 'w) option" where
  "rename_noting api retry src dst failed w =
     map_option (\<lambda>(outcome, w). (rename_ok outcome, if rename_ok outcome then failed else Some outcome, w))
       (RenameDirectory api retry w src dst)"

text \<open>Step 4 and its compensation.\<close>

definition promote_staging ::
    "'w disk_api \<Rightarrow> SwapPlan \<Rightarrow> 'w RenameRetry \<Rightarrow> RenameOutcome option \<Rightarrow> 'w
     \<Rightarrow> (SwapError \<times> RenameOutcome option \<times> 'w) option" where
  "promote_staging api plan retry failed w =
     Option.bind (rename_noting api retry (staging_dir plan) (install_dir plan) failed w) (\<lambda>(ok, failed, w).
       if ok then Some (SwapNone, failed, w)
       else
         Option.bind (rename_noting api retry (backup_dir plan) (install_dir plan) failed w) (\<lambda>(ok, failed, w).
           if ok then Some (RenameNewFailed, failed, w) else Some (SwapRestoreFailed, failed, w)))"

text \<open>Steps 3 and 4.\<close>

definition exchange_trees ::
    "'w disk_api \<Rightarrow> SwapPlan \<Rightarrow> 'w RenameRetry \<Rightarrow> 'w \<Rightarrow> (SwapError \<times> RenameOutcome option \<times> 'w) option" where
  "exchange_trees api plan retry w =
     Option.bind (rename_noting api retry (install_dir plan) (backup_dir plan) None w) (\<lambda>(ok, failed, w).
       if \<not> ok then Some (RenameOldFailed, failed, w) else promote_staging api plan retry failed w)"

definition StageRename ::
    "'w disk_api \<Rightarrow> SwapPlan \<Rightarrow> 'w RenameRetry \<Rightarrow> 'w \<Rightarrow> (SwapError \<times> RenameOutcome option \<times> 'w) option" where
  "StageRename api plan retry w =
     (if \<not> path_exists api w (staging_dir plan) \<or> \<not> path_exists api w (exe_path (staging_dir plan))
      then Some (StagingMissing, None, w)
      else if path_exists api w (backup_dir plan)
      then (case RemoveTree api w (backup_dir plan) of (gone, w) \<Rightarrow>
              if \<not> gone then Some (BackupCollision, None, w) else exchange_trees api plan retry w)
      else exchange_trees api plan retry w)"

section \<open>Undo and repair\<close>

definition rename_back ::
    "'w disk_api \<Rightarrow> SwapPlan \<Rightarrow> 'w RenameRetry \<Rightarrow> 'w \<Rightarrow> (SwapError \<times> 'w) option" where
  "rename_back api plan retry w =
     map_option (\<lambda>(outcome, w). (if rename_ok outcome then SwapNone else SwapRestoreFailed, w))
       (RenameDirectory api retry w (backup_dir plan) (install_dir plan))"

definition RestoreBackup ::
    "'w disk_api \<Rightarrow> SwapPlan \<Rightarrow> 'w RenameRetry \<Rightarrow> 'w \<Rightarrow> (SwapError \<times> 'w) option" where
  "RestoreBackup api plan retry w =
     (if \<not> path_exists api w (backup_dir plan) then Some (SwapRestoreFailed, w)
      else if path_exists api w (install_dir plan)
      then (case RemoveTree api w (install_dir plan) of (gone, w) \<Rightarrow>
              if \<not> gone then Some (SwapRestoreFailed, w) else rename_back api plan retry w)
      else rename_back api plan retry w)"

definition CleanupBackup :: "'w disk_api \<Rightarrow> SwapPlan \<Rightarrow> 'w \<Rightarrow> bool \<times> 'w" where
  "CleanupBackup api plan w = RemoveTree api w (backup_dir plan)"

definition RepairOrphanedSwap :: "'w disk_api \<Rightarrow> SwapPlan \<Rightarrow> 'w \<Rightarrow> (bool \<times> 'w) option" where
  "RepairOrphanedSwap api plan w =
     (if path_exists api w (exe_path (install_dir plan)) then Some (True, w)
      else if \<not> path_exists api w (backup_dir plan) then Some (True, w)
      else map_option (\<lambda>(e, w). (e = SwapNone, w)) (RestoreBackup api plan default_retry w))"

section \<open>Version verification\<close>

definition InstalledVersionMatches :: "SemVer option \<Rightarrow> SemVer option \<Rightarrow> SemVer \<Rightarrow> bool" where
  "InstalledVersionMatches file_ver product_ver target =
     (case product_ver of
        Some v \<Rightarrow> v = target
      | None \<Rightarrow>
          if is_prerelease target then False
          else case file_ver of
            None \<Rightarrow> False
          | Some v \<Rightarrow> major v = major target \<and> minor v = minor target \<and> patch v = patch target)"

definition VerifyInstalledVersion :: "'w disk_api \<Rightarrow> SwapPlan \<Rightarrow> 'w \<Rightarrow> bool" where
  "VerifyInstalledVersion api plan w =
     (let exe = exe_path (install_dir plan) in
      if \<not> path_exists api w exe then False
      else InstalledVersionMatches (file_version api w exe)
             (Option.bind (product_version_string api w exe) ParseSemVer) (target_version plan))"

section \<open>Waits and windows\<close>

definition ClampTimeoutMs :: "int \<Rightarrow> u32" where
  "ClampTimeoutMs count =
     (if count \<le> 0 then 0
      else if 4294967294 < count then of_int 4294967294
      else of_int count)"

record 'h TopLevelWindow =
  handle :: 'h
  owner_pid :: u32
  title :: string

definition SelectWindowForProcess :: "'h TopLevelWindow list \<Rightarrow> u32 \<Rightarrow> string \<Rightarrow> 'h option" where
  "SelectWindowForProcess candidates target_pid target_title =
     map_option handle (find (\<lambda>c. owner_pid c = target_pid \<and> title c = target_title) candidates)"

end
