(* ===== verification/SwapGuarantees.thy ===== *)
theory SwapGuarantees
  imports SwapEngine
begin

text \<open>
  What the swap promises. The locale \<open>sibling_disk\<close> states the documented behaviour of the
  operating system on the three sibling directories of a plan, over a view \<open>tree\<close> of their
  contents; its laws also allow an operation to have no effect from some moment on, so every
  statement about the final state covers a process that is killed on the way.
\<close>

section \<open>The retry loop\<close>

definition terminating :: "'w RenameRetry \<Rightarrow> bool" where
  "terminating retry \<longleftrightarrow> 0 < first_delay retry \<and> 0 < max_delay retry"

definition production_retry :: "'w RenameRetry \<Rightarrow> bool" where
  "production_retry retry \<longleftrightarrow>
     terminating retry \<and> rename_override retry = None \<and> sleep_override retry = None"

lemma default_retry_production [simp]: "production_retry default_retry"
  by (simp add: production_retry_def terminating_def default_retry_def)

text \<open>
  The loop returns, because every sleep spends a positive part of the budget; an invariant of
  single attempts and sleeps, indexed by the remaining budget, holds at its end.
\<close>

lemma RenameLoop_returns:
  assumes "0 < max_delay retry" "0 < delay" "I remaining w"
    and attempt: "\<And>r v e v'. I r v \<Longrightarrow> attempt_rename api retry v src dst = (e, v') \<Longrightarrow> e \<noteq> 0 \<Longrightarrow> I r v'"
    and sleep: "\<And>r v d. I r v \<Longrightarrow> 0 < d \<Longrightarrow> d \<le> r \<Longrightarrow> I (r - d) (retry_sleep api retry v d)"
  shows "\<exists>outcome w' r. RenameLoop api retry src dst w attempts delay remaining = Some (outcome, w') \<and>
    (if rename_ok outcome then \<exists>v. I r v \<and> attempt_rename api retry v src dst = (0, w')
     else I r w')"
  using assms(1-3)
proof (induction "nat remaining" arbitrary: w attempts delay remaining rule: less_induct)
  case less
  obtain e w1 where step: "attempt_rename api retry w src dst = (e, w1)"
    by fastforce
  show ?case
  proof (cases "e = 0 \<or> \<not> IsTransientRenameError e \<or> remaining < delay")
    case True
    then have "RenameLoop api retry src dst w attempts delay remaining =
        Some (\<lparr>rename_error = e, rename_attempts = attempts + 1\<rparr>, w1)"
      by (subst RenameLoop.simps) (simp add: step)
    then show ?thesis
      using step less.prems attempt [of remaining w e w1] by (auto simp: rename_ok_def)
  next
    case False
    let ?w2 = "retry_sleep api retry w1 delay" and ?delay = "min (delay * 2) (max_delay retry)"
    have "RenameLoop api retry src dst w attempts delay remaining =
        RenameLoop api retry src dst ?w2 (attempts + 1) ?delay (remaining - delay)"
      using False by (subst RenameLoop.simps) (simp add: step)
    moreover have "I (remaining - delay) ?w2"
      using False step less.prems attempt [of remaining w e w1] sleep [of remaining w1 delay] by simp
    moreover have "nat (remaining - delay) < nat remaining" "0 < ?delay"
      using False less.prems by linarith+
    ultimately show ?thesis
      using less.hyps [of "remaining - delay" ?delay ?w2] less.prems(1) by simp
  qed
qed

lemma RenameDirectory_returns:
  assumes "terminating retry" "I (budget retry) w"
    and "\<And>r v e v'. I r v \<Longrightarrow> attempt_rename api retry v src dst = (e, v') \<Longrightarrow> e \<noteq> 0 \<Longrightarrow> I r v'"
    and "\<And>r v d. I r v \<Longrightarrow> 0 < d \<Longrightarrow> d \<le> r \<Longrightarrow> I (r - d) (retry_sleep api retry v d)"
  obtains outcome w' r where "RenameDirectory api retry w src dst = Some (outcome, w')"
    and "if rename_ok outcome then \<exists>v. I r v \<and> attempt_rename api retry v src dst = (0, w') else I r w'"
  using RenameLoop_returns [where I = I and api = api and retry = retry and src = src and dst = dst
      and w = w and attempts = 0 and delay = "first_delay retry" and remaining = "budget retry"] assms
  by (auto simp: terminating_def RenameDirectory_def)



section \<open>Three sibling directories\<close>

definition plan_dirs :: "SwapPlan \<Rightarrow> string set" where
  "plan_dirs plan = {install_dir plan, staging_dir plan, backup_dir plan}"

lemma plan_dirs_simps [simp]:
  "install_dir plan \<in> plan_dirs plan" "staging_dir plan \<in> plan_dirs plan" "backup_dir plan \<in> plan_dirs plan"
  by (simp_all add: plan_dirs_def)

definition moved ::
    "('w \<Rightarrow> string \<Rightarrow> 't option) \<Rightarrow> SwapPlan \<Rightarrow> string \<Rightarrow> string \<Rightarrow> 'w \<Rightarrow> 'w \<Rightarrow> bool" where
  "moved tree plan src dst w w' \<longleftrightarrow>
     tree w src \<noteq> None \<and> tree w dst = None \<and> tree w' dst = tree w src \<and> tree w' src = None \<and>
     (\<forall>d \<in> plan_dirs plan - {src, dst}. tree w' d = tree w d)"

definition same_trees :: "('w \<Rightarrow> string \<Rightarrow> 't option) \<Rightarrow> SwapPlan \<Rightarrow> 'w \<Rightarrow> 'w \<Rightarrow> bool" where
  "same_trees tree plan w w' \<longleftrightarrow> (\<forall>d \<in> plan_dirs plan. tree w' d = tree w d)"

lemma same_trees_dirs:
  assumes "same_trees tree plan w w'"
  shows "tree w' (install_dir plan) = tree w (install_dir plan)"
    "tree w' (staging_dir plan) = tree w (staging_dir plan)"
    "tree w' (backup_dir plan) = tree w (backup_dir plan)"
  using assms by (simp_all add: same_trees_def)

lemma same_trees_refl [simp]: "same_trees tree plan w w"
  by (simp add: same_trees_def)

text \<open>
  The operating system on the directories of a plan, as documented: existence reflects the
  trees, a recursive delete touches only its own tree (and may leave anything of it), and a move
  without flags either moves the whole tree to a free name or changes nothing.
\<close>

locale sibling_disk =
  fixes api :: "'w disk_api" and plan :: SwapPlan
    and tree :: "'w \<Rightarrow> string \<Rightarrow> 't option" and runnable :: "'t \<Rightarrow> bool"
  assumes distinct_dirs: "distinct [install_dir plan, staging_dir plan, backup_dir plan]"
    and exists_tree: "d \<in> plan_dirs plan \<Longrightarrow> path_exists api w d \<longleftrightarrow> tree w d \<noteq> None"
    and exists_exe: "d \<in> plan_dirs plan \<Longrightarrow>
      path_exists api w (exe_path d) \<longleftrightarrow> (\<exists>t. tree w d = Some t \<and> runnable t)"
    and remove_other: "d \<in> plan_dirs plan \<Longrightarrow> d' \<in> plan_dirs plan \<Longrightarrow> d' \<noteq> d \<Longrightarrow>
      tree (remove_all api w d) d' = tree w d'"
    and move_done: "src \<in> plan_dirs plan \<Longrightarrow> dst \<in> plan_dirs plan \<Longrightarrow>
      move_directory api w src dst = (0, w') \<Longrightarrow> moved tree plan src dst w w'"
    and move_failed: "src \<in> plan_dirs plan \<Longrightarrow> dst \<in> plan_dirs plan \<Longrightarrow>
      move_directory api w src dst = (e, w') \<Longrightarrow> e \<noteq> 0 \<Longrightarrow> same_trees tree plan w w'"
    and sleep_keeps: "same_trees tree plan w (sleep_for api w delay)"
begin

lemma dirs_differ [simp]:
  "install_dir plan \<noteq> staging_dir plan" "staging_dir plan \<noteq> install_dir plan"
  "install_dir plan \<noteq> backup_dir plan" "backup_dir plan \<noteq> install_dir plan"
  "staging_dir plan \<noteq> backup_dir plan" "backup_dir plan \<noteq> staging_dir plan"
  using distinct_dirs by auto

lemma moved_same: "same_trees tree plan w v \<Longrightarrow> src \<in> plan_dirs plan \<Longrightarrow> dst \<in> plan_dirs plan \<Longrightarrow>
    moved tree plan src dst v w' \<Longrightarrow> moved tree plan src dst w w'"
  by (simp add: moved_def same_trees_def)

lemma RenameDirectory_outcome:
  assumes "production_retry retry" "src \<in> plan_dirs plan" "dst \<in> plan_dirs plan"
  obtains outcome w' where "RenameDirectory api retry w src dst = Some (outcome, w')"
    and "if rename_ok outcome then moved tree plan src dst w w' else same_trees tree plan w w'"
proof -
  have retry: "attempt_rename api retry v src dst = move_directory api v src dst"
    "retry_sleep api retry v d = sleep_for api v d" for v d
    using assms(1) by (simp_all add: production_retry_def attempt_rename_def retry_sleep_def)
  have keep: "same_trees tree plan w v'"
    if "same_trees tree plan w v" "same_trees tree plan v v'" for v v'
    using that by (simp add: same_trees_def)
  obtain outcome w' r where ret: "RenameDirectory api retry w src dst = Some (outcome, w')"
    and "if rename_ok outcome then \<exists>v. same_trees tree plan w v \<and> attempt_rename api retry v src dst = (0, w')
      else same_trees tree plan w w'"
    by (rule RenameDirectory_returns [where I = "\<lambda>_. same_trees tree plan w" and api = api
          and retry = retry and w = w and src = src and dst = dst])
      (use assms retry move_failed sleep_keeps keep in \<open>auto simp: production_retry_def\<close>)
  then show ?thesis
    using that [OF ret] moved_same move_done retry assms by (auto split: if_splits)
qed

lemma rename_noting_outcome:
  assumes "production_retry retry" "src \<in> plan_dirs plan" "dst \<in> plan_dirs plan"
  obtains ok failed' w' where "rename_noting api retry src dst failed w = Some (ok, failed', w')"
    and "if ok then moved tree plan src dst w w' else same_trees tree plan w w'"
proof -
  obtain outcome v where "RenameDirectory api retry w src dst = Some (outcome, v)"
    and "if rename_ok outcome then moved tree plan src dst w v else same_trees tree plan w v"
    by (rule RenameDirectory_outcome [OF assms])
  then show ?thesis
    using that by (simp add: rename_noting_def)
qed

lemma RemoveTree_outcome:
  assumes "d \<in> plan_dirs plan" "RemoveTree api w d = (gone, w')"
  shows "gone \<longleftrightarrow> tree w' d = None" "\<forall>d' \<in> plan_dirs plan - {d}. tree w' d' = tree w d'"
  using assms remove_other by (auto simp: RemoveTree_def exists_tree Let_def split: if_splits)

lemma promote_staging_outcome:
  assumes "production_retry retry" "tree w (install_dir plan) = None"
    and "tree w (staging_dir plan) = Some new" "tree w (backup_dir plan) = Some old"
  obtains err failed' w' where "promote_staging api plan retry failed w = Some (err, failed', w')"
    and "err = SwapNone \<and> tree w' (install_dir plan) = Some new \<and> tree w' (backup_dir plan) = Some old \<and>
        tree w' (staging_dir plan) = None \<or>
      err = RenameNewFailed \<and> tree w' (install_dir plan) = Some old \<and> tree w' (backup_dir plan) = None \<and>
        tree w' (staging_dir plan) = Some new \<or>
      err = SwapRestoreFailed \<and> same_trees tree plan w w'"
proof -
  obtain ok f1 w1 where r1: "rename_noting api retry (staging_dir plan) (install_dir plan) failed w = Some (ok, f1, w1)"
    and s1: "if ok then moved tree plan (staging_dir plan) (install_dir plan) w w1 else same_trees tree plan w w1"
    by (rule rename_noting_outcome [OF assms(1), where src = "staging_dir plan" and dst = "install_dir plan"
            and failed = failed and w = w]) simp_all
  show ?thesis
  proof (cases ok)
    case True
    then show ?thesis
      using that [of SwapNone f1 w1] r1 s1 assms by (simp add: promote_staging_def moved_def)
  next
    case False
    obtain ok2 f2 w2 where r2: "rename_noting api retry (backup_dir plan) (install_dir plan) f1 w1 = Some (ok2, f2, w2)"
      and s2: "if ok2 then moved tree plan (backup_dir plan) (install_dir plan) w1 w2 else same_trees tree plan w1 w2"
      by (rule rename_noting_outcome [OF assms(1), where src = "backup_dir plan" and dst = "install_dir plan"
            and failed = f1 and w = w1]) simp_all
    have same: "same_trees tree plan w w1"
      using s1 False by simp
    show ?thesis
    proof (cases ok2)
      case True
      then show ?thesis
        using that [of RenameNewFailed f2 w2] False r1 r2 s2 same_trees_dirs [OF same] assms
        by (simp add: promote_staging_def moved_def)
    next
      case ok2: False
      then have "same_trees tree plan w w2"
        using s2 same by (simp add: same_trees_def)
      then show ?thesis
        using that [of SwapRestoreFailed f2 w2] False ok2 r1 r2 by (simp add: promote_staging_def)
    qed
  qed
qed

lemma exchange_trees_outcome:
  assumes "production_retry retry" "tree w (install_dir plan) = Some old"
    and "tree w (staging_dir plan) = Some new" "tree w (backup_dir plan) = None"
  obtains err failed' w' where "exchange_trees api plan retry w = Some (err, failed', w')"
    and "err = SwapNone \<and> tree w' (install_dir plan) = Some new \<and> tree w' (backup_dir plan) = Some old \<and>
        tree w' (staging_dir plan) = None \<or>
      (err = RenameNewFailed \<or> err = RenameOldFailed) \<and> tree w' (install_dir plan) = Some old \<and>
        tree w' (backup_dir plan) = None \<and> tree w' (staging_dir plan) = Some new \<or>
      err = SwapRestoreFailed \<and> tree w' (install_dir plan) = None \<and> tree w' (backup_dir plan) = Some old \<and>
        tree w' (staging_dir plan) = Some new"
proof -
  obtain ok f1 w1 where r1: "rename_noting api retry (install_dir plan) (backup_dir plan) None w = Some (ok, f1, w1)"
    and s1: "if ok then moved tree plan (install_dir plan) (backup_dir plan) w w1 else same_trees tree plan w w1"
    by (rule rename_noting_outcome [OF assms(1), where src = "install_dir plan" and dst = "backup_dir plan"
            and failed = None and w = w]) simp_all
  show ?thesis
  proof (cases ok)
    case False
    then show ?thesis
      using that [of RenameOldFailed f1 w1] r1 s1 same_trees_dirs [of tree plan w w1] assms
      by (simp add: exchange_trees_def)
  next
    case True
    then have w1: "tree w1 (install_dir plan) = None" "tree w1 (staging_dir plan) = Some new"
      "tree w1 (backup_dir plan) = Some old"
      using s1 assms by (simp_all add: moved_def)
    obtain err f2 w2 where "promote_staging api plan retry f1 w1 = Some (err, f2, w2)"
      and "err = SwapNone \<and> tree w2 (install_dir plan) = Some new \<and> tree w2 (backup_dir plan) = Some old \<and>
          tree w2 (staging_dir plan) = None \<or>
        err = RenameNewFailed \<and> tree w2 (install_dir plan) = Some old \<and> tree w2 (backup_dir plan) = None \<and>
          tree w2 (staging_dir plan) = Some new \<or>
        err = SwapRestoreFailed \<and> same_trees tree plan w1 w2"
      by (rule promote_staging_outcome [OF assms(1) w1])
    then show ?thesis
      using that [of err f2 w2] True r1 w1 same_trees_dirs [of tree plan w1 w2]
      by (auto simp: exchange_trees_def)
  qed
qed

lemma StageRename_outcome:
  assumes "production_retry retry" "tree w (install_dir plan) = Some old"
  shows "\<exists>err failed w'. StageRename api plan retry w = Some (err, failed, w') \<and>
    (case err of
       SwapNone \<Rightarrow> \<exists>new. tree w (staging_dir plan) = Some new \<and> runnable new \<and>
         tree w' (install_dir plan) = Some new \<and> tree w' (backup_dir plan) = Some old
     | SwapRestoreFailed \<Rightarrow> tree w' (install_dir plan) = None \<and> tree w' (backup_dir plan) = Some old
     | _ \<Rightarrow> tree w' (install_dir plan) = Some old)"
proof (cases "path_exists api w (staging_dir plan) \<and> path_exists api w (exe_path (staging_dir plan))")
  case False
  then show ?thesis
    using assms by (simp add: StageRename_def)
next
  case staged: True
  then obtain new where new: "tree w (staging_dir plan) = Some new" "runnable new"
    by (auto simp: exists_exe)
  have swap: "\<exists>err failed w'. exchange_trees api plan retry v = Some (err, failed, w') \<and>
    (case err of
       SwapNone \<Rightarrow> \<exists>new. tree w (staging_dir plan) = Some new \<and> runnable new \<and>
         tree w' (install_dir plan) = Some new \<and> tree w' (backup_dir plan) = Some old
     | SwapRestoreFailed \<Rightarrow> tree w' (install_dir plan) = None \<and> tree w' (backup_dir plan) = Some old
     | _ \<Rightarrow> tree w' (install_dir plan) = Some old)"
    if v: "tree v (install_dir plan) = Some old" "tree v (staging_dir plan) = Some new" "tree v (backup_dir plan) = None"
    for v
    by (rule exchange_trees_outcome [OF assms(1) v]) (use new in auto)
  show ?thesis
  proof (cases "path_exists api w (backup_dir plan)")
    case False
    then show ?thesis
      using swap [of w] staged new assms by (simp add: StageRename_def exists_tree)
  next
    case True
    obtain gone v where rm: "RemoveTree api w (backup_dir plan) = (gone, v)"
      by fastforce
    have v: "gone \<longleftrightarrow> tree v (backup_dir plan) = None" "tree v (install_dir plan) = Some old"
      "tree v (staging_dir plan) = Some new"
      using RemoveTree_outcome [OF _ rm] new assms by simp_all
    show ?thesis
    proof (cases gone)
      case False
      then show ?thesis
        using staged True rm v by (simp add: StageRename_def)
    next
      case gone: True
      then show ?thesis
        using swap [of v] staged True rm v by (simp add: StageRename_def)
    qed
  qed
qed

lemma RestoreBackup_outcome:
  assumes "production_retry retry" "tree w (backup_dir plan) = Some old"
  shows "\<exists>err w'. RestoreBackup api plan retry w = Some (err, w') \<and>
    (err = SwapNone \<and> tree w' (install_dir plan) = Some old \<and> tree w' (backup_dir plan) = None \<or>
     err = SwapRestoreFailed \<and> tree w' (backup_dir plan) = Some old)"
proof -
  have restored: "\<exists>err w'. rename_back api plan retry v = Some (err, w') \<and>
    (err = SwapNone \<and> tree w' (install_dir plan) = Some old \<and> tree w' (backup_dir plan) = None \<or>
     err = SwapRestoreFailed \<and> tree w' (backup_dir plan) = Some old)"
    if v: "tree v (backup_dir plan) = Some old"
    for v
  proof -
    obtain outcome w' where "RenameDirectory api retry v (backup_dir plan) (install_dir plan) = Some (outcome, w')"
      and "if rename_ok outcome then moved tree plan (backup_dir plan) (install_dir plan) v w'
        else same_trees tree plan v w'"
      by (rule RenameDirectory_outcome [OF assms(1), where src = "backup_dir plan"
            and dst = "install_dir plan" and w = v]) simp_all
    then show ?thesis
      using v by (auto simp: rename_back_def moved_def same_trees_def)
  qed
  show ?thesis
  proof (cases "path_exists api w (install_dir plan)")
    case False
    then show ?thesis
      using restored [of w] assms by (simp add: RestoreBackup_def exists_tree)
  next
    case True
    obtain gone v where rm: "RemoveTree api w (install_dir plan) = (gone, v)"
      by fastforce
    have v: "tree v (backup_dir plan) = Some old"
      using RemoveTree_outcome [OF _ rm] assms by simp
    then show ?thesis
      using restored [of v] True rm assms by (auto simp: RestoreBackup_def exists_tree)
  qed
qed

lemma RepairOrphanedSwap_outcome:
  "\<exists>ok w'. RepairOrphanedSwap api plan w = Some (ok, w') \<and>
    (if \<exists>t. tree w (install_dir plan) = Some t \<and> runnable t then ok \<and> w' = w
     else case tree w (backup_dir plan) of
       None \<Rightarrow> ok \<and> w' = w
     | Some old \<Rightarrow>
         if ok then tree w' (install_dir plan) = Some old \<and> tree w' (backup_dir plan) = None
         else tree w' (backup_dir plan) = Some old)"
proof (cases "path_exists api w (exe_path (install_dir plan))")
  case True
  then show ?thesis
    by (auto simp: RepairOrphanedSwap_def exists_exe)
next
  case broken: False
  show ?thesis
  proof (cases "tree w (backup_dir plan)")
    case None
    then show ?thesis
      using broken by (auto simp: RepairOrphanedSwap_def exists_exe exists_tree)
  next
    case (Some old)
    obtain err w' where "RestoreBackup api plan default_retry w = Some (err, w')"
      and "err = SwapNone \<and> tree w' (install_dir plan) = Some old \<and> tree w' (backup_dir plan) = None \<or>
        err = SwapRestoreFailed \<and> tree w' (backup_dir plan) = Some old"
      using RestoreBackup_outcome [OF default_retry_production Some] by blast
    then show ?thesis
      using broken Some by (auto simp: RepairOrphanedSwap_def exists_exe exists_tree)
  qed
qed

end

section \<open>A scripted disk\<close>

text \<open>
  The directories as a map, together with a script of the faults the operating system will
  raise: each rename takes the next error code (0, or an exhausted script, lets it succeed when
  the source exists and the destination does not), each delete the next answer whether a file
  is locked and stays. The laws hold for every script, so the statements above cover all of
  them.
\<close>

record package_tree =
  has_exe :: bool
  exe_version :: "string option"

record scripted_disk =
  dirs :: "string \<Rightarrow> package_tree option"
  rename_faults :: "win32 list"
  delete_faults :: "bool list"
  slept_ms :: int

definition is_exe_path :: "string \<Rightarrow> bool" where
  "is_exe_path p \<longleftrightarrow> drop (length p - 12) p = exe_path []"

definition dir_at :: "scripted_disk \<Rightarrow> string \<Rightarrow> package_tree option" where
  "dir_at w p = (if is_exe_path p then None else dirs w p)"

definition exe_at :: "scripted_disk \<Rightarrow> string \<Rightarrow> package_tree option" where
  "exe_at w p = (if is_exe_path p then dir_at w (take (length p - 12) p) else None)"

definition scripted_exists :: "scripted_disk \<Rightarrow> string \<Rightarrow> bool" where
  "scripted_exists w p \<longleftrightarrow> dir_at w p \<noteq> None \<or> (\<exists>t. exe_at w p = Some t \<and> has_exe t)"

definition scripted_move :: "scripted_disk \<Rightarrow> string \<Rightarrow> string \<Rightarrow> win32 \<times> scripted_disk" where
  "scripted_move w src dst =
     (let fault = (case rename_faults w of [] \<Rightarrow> 0 | e # _ \<Rightarrow> e);
          w = w\<lparr>rename_faults := drop 1 (rename_faults w)\<rparr> in
      if fault \<noteq> 0 then (fault, w)
      else case dir_at w src of
        None \<Rightarrow> (2, w)
      | Some t \<Rightarrow>
          if dir_at w dst \<noteq> None then (183, w) else (0, w\<lparr>dirs := (dirs w)(src := None, dst := Some t)\<rparr>))"

text \<open>A delete that meets a locked file has removed the executable and leaves the rest.\<close>

definition scripted_remove :: "scripted_disk \<Rightarrow> string \<Rightarrow> scripted_disk" where
  "scripted_remove w d =
     (let locked = (case delete_faults w of [] \<Rightarrow> False | b # _ \<Rightarrow> b) in
      w\<lparr>delete_faults := drop 1 (delete_faults w),
        dirs := (dirs w)(d := (if locked then map_option (has_exe_update (\<lambda>_. False)) (dirs w d) else None))\<rparr>)"

definition scripted_api :: "scripted_disk disk_api" where
  "scripted_api = \<lparr>
     path_exists = scripted_exists, remove_all = scripted_remove, move_directory = scripted_move,
     sleep_for = (\<lambda>w d. w\<lparr>slept_ms := slept_ms w + d\<rparr>),
     product_version_string = (\<lambda>w p. Option.bind (exe_at w p) exe_version),
     file_version = (\<lambda>w p. None)\<rparr>"

lemma scripted_api_simps [simp]:
  "path_exists scripted_api = scripted_exists" "remove_all scripted_api = scripted_remove"
  "move_directory scripted_api = scripted_move"
  by (simp_all add: scripted_api_def)

lemma is_exe_path_exe_path [simp]: "is_exe_path (exe_path d)"
  by (simp add: is_exe_path_def exe_path_def)

lemma exe_at_exe_path: "exe_at w (exe_path d) = dir_at w d"
  by (simp add: exe_at_def is_exe_path_def) (simp add: exe_path_def)

lemma not_exe_path: "s \<noteq> [] \<Longrightarrow> List.last s \<noteq> CHR ''e'' \<Longrightarrow> \<not> is_exe_path s"
proof
  assume "s \<noteq> []" "List.last s \<noteq> CHR ''e''" "is_exe_path s"
  then have "List.last (drop (length s - 12) s) = List.last (exe_path [])"
    by (simp add: is_exe_path_def)
  moreover have "List.last (drop (length s - 12) s) = List.last s"
    using \<open>s \<noteq> []\<close> by (simp add: last_drop)
  ultimately show False
    using \<open>List.last s \<noteq> CHR ''e''\<close> by (simp add: exe_path_def)
qed

lemma trim_app: "trim_separators (parent @ ''ExoSnap'') = parent @ ''ExoSnap''"
  by (simp add: trim_separators_def is_separator_def)

definition app_plan :: "string \<Rightarrow> SemVer \<Rightarrow> SwapPlan" where
  "app_plan parent target = MakeSwapPlan (parent @ ''ExoSnap'') target"

lemma app_plan_dirs:
  "install_dir (app_plan parent target) = parent @ ''ExoSnap''"
  "staging_dir (app_plan parent target) = parent @ ''ExoSnap.new''"
  "backup_dir (app_plan parent target) = parent @ ''ExoSnap.old''"
  by (simp_all add: app_plan_def MakeSwapPlan_def trim_app Let_def)

lemma app_plan_not_exe: "d \<in> plan_dirs (app_plan parent target) \<Longrightarrow> \<not> is_exe_path d"
  using not_exe_path [of "parent @ ''ExoSnap''"] not_exe_path [of "parent @ ''ExoSnap.new''"]
    not_exe_path [of "parent @ ''ExoSnap.old''"]
  by (auto simp: plan_dirs_def app_plan_dirs)

lemma scripted_moved:
  assumes "scripted_move w src dst = (0, w')" "src \<in> plan_dirs (app_plan parent target)"
    "dst \<in> plan_dirs (app_plan parent target)"
  shows "moved dir_at (app_plan parent target) src dst w w'"
proof -
  have "\<not> is_exe_path src" "\<not> is_exe_path dst"
    using assms app_plan_not_exe by blast+
  then show ?thesis
    using assms(1)
    by (auto simp: scripted_move_def moved_def dir_at_def Let_def split: if_splits option.splits)
qed

lemma scripted_move_failed:
  "scripted_move w src dst = (e, w') \<Longrightarrow> e \<noteq> 0 \<Longrightarrow> dirs w' = dirs w"
  by (auto simp: scripted_move_def Let_def split: if_splits option.splits)

interpretation app_install: sibling_disk scripted_api "app_plan parent target" dir_at has_exe
proof
  show "distinct [install_dir (app_plan parent target), staging_dir (app_plan parent target),
      backup_dir (app_plan parent target)]"
    by (simp add: app_plan_dirs)
next
  fix d w
  assume d: "d \<in> plan_dirs (app_plan parent target)"
  then show "path_exists scripted_api w d \<longleftrightarrow> dir_at w d \<noteq> None"
    by (simp add: scripted_exists_def exe_at_def app_plan_not_exe)
  show "path_exists scripted_api w (exe_path d) \<longleftrightarrow> (\<exists>t. dir_at w d = Some t \<and> has_exe t)"
    by (simp add: scripted_exists_def exe_at_exe_path) (simp add: dir_at_def)
qed (auto simp: dir_at_def scripted_remove_def Let_def same_trees_def scripted_api_def
    dest: scripted_moved scripted_move_failed)

section \<open>What the swap promises\<close>

text \<open>
  C12: a swap started on an installed tree always ends, and never loses it: the new version is
  live and the old one is the backup, or the old tree is live again, or, in the one case
  reported as a failed restore, it is intact in the backup directory. Errors that claim the
  installation untouched leave exactly the old tree in place.
\<close>

theorem swap_never_loses_the_install:
  assumes "sibling_disk api plan tree runnable" "production_retry retry"
    and "tree w (install_dir plan) = Some old"
  shows "\<exists>err failed w'. StageRename api plan retry w = Some (err, failed, w') \<and>
    (case err of
       SwapNone \<Rightarrow> \<exists>new. tree w (staging_dir plan) = Some new \<and> runnable new \<and>
         tree w' (install_dir plan) = Some new \<and> tree w' (backup_dir plan) = Some old
     | SwapRestoreFailed \<Rightarrow> tree w' (install_dir plan) = None \<and> tree w' (backup_dir plan) = Some old
     | _ \<Rightarrow> tree w' (install_dir plan) = Some old)"
  using assms by (intro sibling_disk.StageRename_outcome)

definition demo_disk :: "win32 list \<Rightarrow> scripted_disk" where
  "demo_disk faults = \<lparr>
     dirs = [''ExoSnap'' \<mapsto> \<lparr>has_exe = True, exe_version = Some ''1.0.0''\<rparr>,
             ''ExoSnap.new'' \<mapsto> \<lparr>has_exe = True, exe_version = Some ''2.0.0''\<rparr>],
     rename_faults = faults, delete_faults = [], slept_ms = 0\<rparr>"

lemma demo_installed:
  "dir_at (demo_disk faults) (install_dir (app_plan [] target)) =
     Some \<lparr>has_exe = True, exe_version = Some ''1.0.0''\<rparr>"
  by (simp add: app_plan_dirs dir_at_def is_exe_path_def exe_path_def demo_disk_def)

theorem swap_never_loses_the_install_witness:
  "\<exists>err failed w'. StageRename scripted_api (app_plan [] (final_version 2 0 0)) default_retry
      (demo_disk [0, 32, 5, 2]) = Some (err, failed, w')"
  using swap_never_loses_the_install
    [OF app_install.sibling_disk_axioms default_retry_production demo_installed] by blast

text \<open>
  C13: whatever became of a swap, killed at any moment or failed, the repair at the next start
  leaves the old or the new version runnable in the install directory, and if it reports
  failure, the old tree is still intact in the backup directory. The two processes may see the
  operating system behave differently.
\<close>

theorem interrupted_swap_is_repaired:
  assumes "sibling_disk api plan tree runnable" "sibling_disk api' plan tree runnable"
    and "production_retry retry" "tree w (install_dir plan) = Some old" "runnable old"
    and "StageRename api plan retry w = Some (err, failed, w')"
  shows "\<exists>ok v. RepairOrphanedSwap api' plan w' = Some (ok, v) \<and>
    (if ok then \<exists>t. tree v (install_dir plan) = Some t \<and> runnable t \<and>
         (t = old \<or> err = SwapNone \<and> tree w (staging_dir plan) = Some t)
     else err = SwapRestoreFailed \<and> tree v (backup_dir plan) = Some old)"
proof -
  have swapped: "case err of
       SwapNone \<Rightarrow> \<exists>new. tree w (staging_dir plan) = Some new \<and> runnable new \<and>
         tree w' (install_dir plan) = Some new \<and> tree w' (backup_dir plan) = Some old
     | SwapRestoreFailed \<Rightarrow> tree w' (install_dir plan) = None \<and> tree w' (backup_dir plan) = Some old
     | _ \<Rightarrow> tree w' (install_dir plan) = Some old"
    using sibling_disk.StageRename_outcome [OF assms(1,3,4)] assms(6) by auto
  obtain ok v where "RepairOrphanedSwap api' plan w' = Some (ok, v)"
    and "if \<exists>t. tree w' (install_dir plan) = Some t \<and> runnable t then ok \<and> v = w'
     else case tree w' (backup_dir plan) of
       None \<Rightarrow> ok \<and> v = w'
     | Some old \<Rightarrow>
         if ok then tree v (install_dir plan) = Some old \<and> tree v (backup_dir plan) = None
         else tree v (backup_dir plan) = Some old"
    using sibling_disk.RepairOrphanedSwap_outcome [OF assms(2)] by blast
  then show ?thesis
    using swapped assms(5) by (auto split: SwapError.splits)
qed

lemma demo_swap:
  "StageRename scripted_api (app_plan [] (final_version 2 0 0)) default_retry (demo_disk [0, 2, 2]) =
     Some (SwapRestoreFailed, Some \<lparr>rename_error = 2, rename_attempts = 1\<rparr>,
       (demo_disk [])\<lparr>dirs := (dirs (demo_disk []))(''ExoSnap'' := None,
          ''ExoSnap.old'' \<mapsto> \<lparr>has_exe = True, exe_version = Some ''1.0.0''\<rparr>)\<rparr>)"
  by (simp add: StageRename_def exchange_trees_def promote_staging_def rename_noting_def RenameDirectory_def
      RenameLoop.simps attempt_rename_def default_retry_def rename_ok_def IsTransientRenameError_def
      app_plan_dirs scripted_exists_def exe_at_exe_path scripted_move_def dir_at_def is_exe_path_def
      exe_path_def demo_disk_def exe_at_def fun_upd_twist)

theorem interrupted_swap_is_repaired_witness:
  "\<exists>ok v. RepairOrphanedSwap scripted_api (app_plan [] (final_version 2 0 0))
      ((demo_disk [])\<lparr>dirs := (dirs (demo_disk []))(''ExoSnap'' := None,
          ''ExoSnap.old'' \<mapsto> \<lparr>has_exe = True, exe_version = Some ''1.0.0''\<rparr>)\<rparr>) = Some (ok, v)"
  using interrupted_swap_is_repaired [OF app_install.sibling_disk_axioms app_install.sibling_disk_axioms
      default_retry_production demo_installed _ demo_swap] by auto

section \<open>The installed version\<close>

text \<open>
  A candidate counts as installed only if the product version names exactly it; the
  numeric file version can confirm a final release only, and never overrules the product
  version.
\<close>

lemma candidate_needs_its_full_identity:
  "InstalledVersionMatches file_ver product_ver target \<longleftrightarrow>
     product_ver = Some target \<or>
     product_ver = None \<and> \<not> is_prerelease target \<and>
       (\<exists>v. file_ver = Some v \<and> major v = major target \<and> minor v = minor target \<and> patch v = patch target)"
  by (auto simp: InstalledVersionMatches_def split: option.splits)

end
