(* ===== verification/ControlProtocol.thy ===== *)
theory ControlProtocol
  imports Prelude Complex_Main "HOL-Library.List_Lexorder" "HOL-Library.Char_ord"
begin

text \<open>
  The control channel shared by the application and the updater, \<^verbatim>\<open>libs/control\<close>: envelopes and
  request parsing (\<^verbatim>\<open>protocol.cpp\<close>), parameter validation and the command table
  (\<^verbatim>\<open>command_policy.cpp\<close>, \<^verbatim>\<open>command_policy.h\<close>), the session's dispatch
  (\<^verbatim>\<open>session.h\<close>) and the command-line options (\<^verbatim>\<open>options.cpp\<close>).

  A \<^verbatim>\<open>QJsonObject\<close> is a map from names to values, a \<^verbatim>\<open>QString\<close> a list of characters, a JSON
  number a rational. The text of a JSON document is read by Qt: the parameter \<open>from_json\<close>. The
  class template \<^verbatim>\<open>ControlSession\<close> calls virtual functions of its host; they are the fields of
  \<open>session_host\<close> over an arbitrary world.
\<close>

section \<open>JSON\<close>

datatype qjson =
  QUndefined
| QNull
| QBool bool
| QDouble rat
| QStr string
| QArr "qjson list"
| QObj "string \<Rightarrow> qjson option"

type_synonym qobject = "string \<Rightarrow> qjson option"

definition qvalue :: "qobject \<Rightarrow> string \<Rightarrow> qjson" where
  "qvalue obj k = (case obj k of None \<Rightarrow> QUndefined | Some v \<Rightarrow> v)"

definition qint :: "int \<Rightarrow> qjson" where
  "qint n = QDouble (of_int n)"

definition qstrings :: "string list \<Rightarrow> qjson" where
  "qstrings xs = QArr (map QStr xs)"

definition is_string :: "qjson \<Rightarrow> bool" where
  "is_string v = (case v of QStr _ \<Rightarrow> True | _ \<Rightarrow> False)"

definition string_of :: "qjson \<Rightarrow> string" where
  "string_of v = (case v of QStr s \<Rightarrow> s | _ \<Rightarrow> [])"

definition absent :: "qjson \<Rightarrow> bool" where
  "absent v = (case v of QUndefined \<Rightarrow> True | QNull \<Rightarrow> True | _ \<Rightarrow> False)"

definition is_object :: "qjson \<Rightarrow> bool" where
  "is_object v = (case v of QObj _ \<Rightarrow> True | _ \<Rightarrow> False)"

definition object_of :: "qjson \<Rightarrow> qobject" where
  "object_of v = (case v of QObj m \<Rightarrow> m | _ \<Rightarrow> Map.empty)"

definition is_bool :: "qjson \<Rightarrow> bool" where
  "is_bool v = (case v of QBool _ \<Rightarrow> True | _ \<Rightarrow> False)"

text \<open>\<^verbatim>\<open>static_cast<int>(double)\<close> drops the fraction.\<close>

definition truncate_rat :: "rat \<Rightarrow> int" where
  "truncate_rat x = (if 0 \<le> x then \<lfloor>x\<rfloor> else \<lceil>x\<rceil>)"

section \<open>Error codes\<close>

definition AllErrorCodes :: "string list" where
  "AllErrorCodes = sort
     [''malformed_request'', ''request_too_large'', ''protocol_version_mismatch'', ''run_id_mismatch'',
      ''handshake_required'', ''already_handshaken'', ''unknown_command'', ''invalid_params'',
      ''command_failed'', ''invalid_state'', ''blocked'', ''operation_failed'', ''unavailable'',
      ''dispatch_timeout'']"

definition ErrorCodeForProtocol :: "string \<Rightarrow> int \<Rightarrow> string" where
  "ErrorCodeForProtocol code protocol =
     (if 2 \<le> protocol then code
      else if code = ''invalid_state'' \<or> code = ''blocked'' \<or> code = ''operation_failed'' then ''command_failed''
      else code)"

definition IsSupportedProtocol :: "int \<Rightarrow> bool" where
  "IsSupportedProtocol version \<longleftrightarrow> 1 \<le> version \<and> version \<le> 2"

section \<open>Requests\<close>

record ParsedRequest =
  rq_protocol :: int
  rq_id :: string
  rq_command :: string
  rq_params :: qobject
  include_state :: bool

record ParseFailure =
  pf_id :: string
  pf_protocol :: int
  pf_code :: string
  pf_message :: string

text \<open>\<^verbatim>\<open>QString::number\<close> of an integer; \<open>show_int\<close> is the library's decimal printer.\<close>

definition RecoverId :: "(int \<Rightarrow> string) \<Rightarrow> qobject \<Rightarrow> string" where
  "RecoverId show_int obj =
     (case qvalue obj ''id'' of
        QStr s \<Rightarrow> s
      | QDouble x \<Rightarrow> show_int (truncate_rat x)
      | _ \<Rightarrow> [])"

definition parse_failure :: "string \<Rightarrow> int \<Rightarrow> string \<Rightarrow> string \<Rightarrow> ParseFailure + 'a" where
  "parse_failure i p c m = Inl \<lparr>pf_id = i, pf_protocol = p, pf_code = c, pf_message = m\<rparr>"

definition parse_protocol :: "(int \<Rightarrow> string) \<Rightarrow> string \<Rightarrow> qjson \<Rightarrow> ParseFailure + int" where
  "parse_protocol show_int rid v =
     (case v of
        QDouble x \<Rightarrow>
          (let requested = truncate_rat x in
           if \<not> IsSupportedProtocol requested
           then parse_failure rid 2 ''protocol_version_mismatch''
                  (''Server speaks protocol 1..2, client sent '' @ show_int requested)
           else Inr requested)
      | _ \<Rightarrow> parse_failure rid 2 ''malformed_request'' ''Request has no numeric \"protocol\" field'')"

definition parse_fields :: "string \<Rightarrow> int \<Rightarrow> qobject \<Rightarrow> ParseFailure + ParsedRequest" where
  "parse_fields rid requested obj =
     (let command = qvalue obj ''command''; params = qvalue obj ''params'';
          inc = qvalue obj ''includeState'' in
      if string_of command = []
      then parse_failure rid requested ''malformed_request'' ''Request has no non-empty string \"command\" field''
      else if \<not> absent params \<and> \<not> is_object params
      then parse_failure rid requested ''invalid_params'' ''\"params\" must be an object when present''
      else if \<not> absent inc \<and> \<not> is_bool inc
      then parse_failure rid requested ''invalid_params'' ''\"includeState\" must be a boolean when present''
      else Inr \<lparr>rq_protocol = requested, rq_id = rid, rq_command = string_of command,
                rq_params = object_of params,
                include_state = (2 \<le> requested \<and> inc = QBool True)\<rparr>)"

text \<open>\<open>from_json\<close> reads a document: \<open>Inl\<close> of the parse error or \<open>Inr\<close> of the value.\<close>

definition ParseRequest ::
    "(int \<Rightarrow> string) \<Rightarrow> (u8 list \<Rightarrow> string + qjson) \<Rightarrow> u8 list \<Rightarrow> ParseFailure + ParsedRequest" where
  "ParseRequest show_int from_json line =
     (if 64 * 1024 < length line
      then parse_failure [] 2 ''request_too_large'' ''Request exceeds 65536 bytes''
      else
        case from_json line of
          Inl e \<Rightarrow> parse_failure [] 2 ''malformed_request'' e
        | Inr (QObj obj) \<Rightarrow>
            bindE (parse_protocol show_int (RecoverId show_int obj) (qvalue obj ''protocol'')) (\<lambda>requested.
              parse_fields (RecoverId show_int obj) requested obj)
        | Inr _ \<Rightarrow> parse_failure [] 2 ''malformed_request'' ''Request is not a JSON object'')"

section \<open>Envelopes\<close>

record SuccessEnvelope =
  se_protocol :: int
  se_id :: string
  se_result :: qobject
  se_state_revision :: "u64 option"
  se_settled :: "bool option"
  se_state :: "qobject option"

record ErrorEnvelope =
  ee_protocol :: int
  ee_id :: string
  ee_code :: string
  ee_message :: string
  ee_requirements :: qobject
  ee_actual :: qobject
  ee_state_revision :: "u64 option"

definition put_opt :: "string \<Rightarrow> ('a \<Rightarrow> qjson) \<Rightarrow> 'a option \<Rightarrow> qobject \<Rightarrow> qobject" where
  "put_opt k f x obj = (case x of None \<Rightarrow> obj | Some v \<Rightarrow> obj(k \<mapsto> f v))"

definition qrevision :: "u64 \<Rightarrow> qjson" where
  "qrevision r = QDouble (of_nat (unat r))"

definition MakeSuccessResponse :: "SuccessEnvelope \<Rightarrow> qobject" where
  "MakeSuccessResponse e =
     put_opt ''state'' QObj (se_state e)
       (put_opt ''settled'' QBool (se_settled e)
         (put_opt ''stateRevision'' qrevision (se_state_revision e)
           [''protocol'' \<mapsto> qint (se_protocol e), ''id'' \<mapsto> QStr (se_id e), ''ok'' \<mapsto> QBool True,
            ''result'' \<mapsto> QObj (se_result e)]))"

definition error_object :: "ErrorEnvelope \<Rightarrow> qobject" where
  "error_object e =
     (let err = [''code'' \<mapsto> QStr (ErrorCodeForProtocol (ee_code e) (ee_protocol e)),
                 ''message'' \<mapsto> QStr (ee_message e)];
          err = (if 2 \<le> ee_protocol e \<and> ee_requirements e \<noteq> Map.empty
                 then err(''requires'' \<mapsto> QObj (ee_requirements e)) else err) in
      if 2 \<le> ee_protocol e \<and> ee_actual e \<noteq> Map.empty
      then err(''actual'' \<mapsto> QObj (ee_actual e)) else err)"

definition MakeErrorResponse :: "ErrorEnvelope \<Rightarrow> qobject" where
  "MakeErrorResponse e =
     put_opt ''stateRevision'' qrevision (ee_state_revision e)
       [''protocol'' \<mapsto> qint (ee_protocol e), ''id'' \<mapsto> QStr (ee_id e), ''ok'' \<mapsto> QBool False,
        ''error'' \<mapsto> QObj (error_object e)]"

definition MakeEvent :: "int \<Rightarrow> string \<Rightarrow> qobject \<Rightarrow> u64 option \<Rightarrow> qobject" where
  "MakeEvent protocol name data state_revision =
     put_opt ''stateRevision'' qrevision (if 2 \<le> protocol then state_revision else None)
       [''protocol'' \<mapsto> qint protocol, ''event'' \<mapsto> QStr name, ''data'' \<mapsto> QObj data]"

section \<open>The command table\<close>

record PreconditionVerdict =
  pv_code :: string
  pv_message :: string
  pv_requirements :: qobject
  pv_actual :: qobject

definition allowed :: "PreconditionVerdict \<Rightarrow> bool" where
  "allowed v \<longleftrightarrow> pv_code v = []"

definition Allowed :: PreconditionVerdict where
  "Allowed = \<lparr>pv_code = [], pv_message = [], pv_requirements = Map.empty, pv_actual = Map.empty\<rparr>"

definition Refuse :: "string \<Rightarrow> string \<Rightarrow> string \<Rightarrow> qjson \<Rightarrow> qjson \<Rightarrow> PreconditionVerdict" where
  "Refuse code message key required observed =
     \<lparr>pv_code = code, pv_message = message, pv_requirements = [key \<mapsto> required], pv_actual = [key \<mapsto> observed]\<rparr>"

record CommandParameter =
  cp_name :: string
  cp_type :: string
  cp_required :: bool
  cp_values :: "string list"

datatype Settle = NotApplicable | Synchronous | Asynchronous

record 's CommandDescriptor =
  cd_name :: string
  minimum_protocol :: int
  mutating :: bool
  idempotent :: bool
  cd_settle :: Settle
  cd_parameters :: "CommandParameter list"
  cd_precondition :: "('s \<Rightarrow> PreconditionVerdict) option"

definition join :: "string \<Rightarrow> string list \<Rightarrow> string" where
  "join sep xs = (case xs of [] \<Rightarrow> [] | y # ys \<Rightarrow> y @ concat (map (\<lambda>z. sep @ z) ys))"

definition quoted :: "string \<Rightarrow> string" where
  "quoted s = ''\"'' @ s @ ''\"''"

text \<open>The complaint about one parameter; \<open>None\<close> continues with the next.\<close>

definition validate_param :: "string \<Rightarrow> qobject \<Rightarrow> CommandParameter \<Rightarrow> string option" where
  "validate_param command_name params p =
     (let v = qvalue params (cp_name p) in
      if absent v then
        if \<not> cp_required p then None
        else Some (command_name @ '' requires a '' @ quoted (cp_name p) @ '' parameter'')
      else if cp_type p = ''string'' then
        if string_of v = [] then Some (quoted (cp_name p) @ '' must be a non-empty string'') else None
      else if cp_type p = ''int'' then
        (case v of QDouble _ \<Rightarrow> None | _ \<Rightarrow> Some (quoted (cp_name p) @ '' must be a number''))
      else if cp_type p = ''bool'' then
        (case v of QBool _ \<Rightarrow> None | _ \<Rightarrow> Some (quoted (cp_name p) @ '' must be a boolean''))
      else if cp_type p = ''enum'' then
        if \<not> is_string v \<or> string_of v \<notin> set (cp_values p)
        then Some (quoted (cp_name p) @ '' must be one of: '' @ join '', '' (cp_values p)) else None
      else None)"

fun ValidateParams :: "string \<Rightarrow> CommandParameter list \<Rightarrow> qobject \<Rightarrow> string option" where
  "ValidateParams command_name [] params = None"
| "ValidateParams command_name (p # ps) params =
     (case validate_param command_name params p of
        Some complaint \<Rightarrow> Some complaint
      | None \<Rightarrow> ValidateParams command_name ps params)"

definition FindCommandIn :: "'s CommandDescriptor list \<Rightarrow> string \<Rightarrow> 's CommandDescriptor option" where
  "FindCommandIn commands name = find (\<lambda>c. cd_name c = name) commands"

definition EvaluateIn :: "'s CommandDescriptor \<Rightarrow> 's \<Rightarrow> PreconditionVerdict" where
  "EvaluateIn command state =
     (case cd_precondition command of None \<Rightarrow> Allowed | Some f \<Rightarrow> f state)"

definition AvailableActionsIn :: "'s CommandDescriptor list \<Rightarrow> 's \<Rightarrow> string list" where
  "AvailableActionsIn commands state =
     sort (map cd_name (filter (\<lambda>c. mutating c \<and> allowed (EvaluateIn c state)) commands))"

definition CommandNamesForProtocolIn :: "'s CommandDescriptor list \<Rightarrow> int \<Rightarrow> string list" where
  "CommandNamesForProtocolIn commands protocol =
     sort (map cd_name (filter (\<lambda>c. minimum_protocol c \<le> protocol) commands))"

definition SettleName :: "Settle \<Rightarrow> string" where
  "SettleName s = (case s of Synchronous \<Rightarrow> ''synchronous'' | Asynchronous \<Rightarrow> ''asynchronous''
     | NotApplicable \<Rightarrow> ''none'')"

definition describe_parameter :: "CommandParameter \<Rightarrow> qjson" where
  "describe_parameter p =
     (let json = [''name'' \<mapsto> QStr (cp_name p), ''type'' \<mapsto> QStr (cp_type p), ''required'' \<mapsto> QBool (cp_required p)] in
      QObj (if cp_values p \<noteq> [] then json(''values'' \<mapsto> qstrings (cp_values p)) else json))"

definition DescribeParameters :: "CommandParameter list \<Rightarrow> qjson" where
  "DescribeParameters ps = QArr (map describe_parameter ps)"

definition describe_command :: "'s CommandDescriptor \<Rightarrow> qjson" where
  "describe_command c = QObj
     [''name'' \<mapsto> QStr (cd_name c), ''minimumProtocol'' \<mapsto> qint (minimum_protocol c),
      ''mutating'' \<mapsto> QBool (mutating c), ''idempotent'' \<mapsto> QBool (idempotent c),
      ''settle'' \<mapsto> QStr (SettleName (cd_settle c)), ''parameters'' \<mapsto> DescribeParameters (cd_parameters c)]"

definition DescribeCommandsIn :: "'s CommandDescriptor list \<Rightarrow> int \<Rightarrow> qobject" where
  "DescribeCommandsIn commands protocol =
     [''protocol'' \<mapsto> qint protocol, ''supportedProtocols'' \<mapsto> QArr [qint 1, qint 2],
      ''commands'' \<mapsto> QArr (map describe_command (filter (\<lambda>c. minimum_protocol c \<le> protocol) commands)),
      ''errorCodes'' \<mapsto> qstrings AllErrorCodes]"

section \<open>The session\<close>

record Outcome =
  oc_ok :: bool
  oc_result :: qobject
  oc_settled :: bool
  oc_code :: string
  oc_message :: string
  oc_requirements :: qobject
  oc_actual :: qobject

definition Succeeded :: "qobject \<Rightarrow> bool \<Rightarrow> Outcome" where
  "Succeeded result settled = \<lparr>oc_ok = True, oc_result = result, oc_settled = settled, oc_code = [],
     oc_message = [], oc_requirements = Map.empty, oc_actual = Map.empty\<rparr>"

definition FailedOutcome :: "string \<Rightarrow> string \<Rightarrow> qobject \<Rightarrow> qobject \<Rightarrow> Outcome" where
  "FailedOutcome code message req act = \<lparr>oc_ok = False, oc_result = Map.empty, oc_settled = False, oc_code = code,
     oc_message = message, oc_requirements = req, oc_actual = act\<rparr>"

record ('s, 'w) session_host =
  host_identity :: "'w \<Rightarrow> qobject"
  host_commands :: "'s CommandDescriptor list"
  host_events :: "int \<Rightarrow> string list"
  host_has_state :: "'w \<Rightarrow> bool"
  host_state :: "'w \<Rightarrow> 's"
  host_revision :: "'w \<Rightarrow> u64"
  host_state_json :: "'s \<Rightarrow> u64 \<Rightarrow> qobject"
  host_execute :: "'s CommandDescriptor \<Rightarrow> ParsedRequest \<Rightarrow> 'w \<Rightarrow> Outcome \<times> 'w"

record ControlSession =
  run_id :: string
  negotiated_protocol :: int
  handshake_complete :: bool
  poisoned :: bool

definition new_session :: "string \<Rightarrow> ControlSession" where
  "new_session rid = \<lparr>run_id = rid, negotiated_protocol = 1, handshake_complete = False, poisoned = False\<rparr>"

definition ResetSession :: "ControlSession \<Rightarrow> ControlSession" where
  "ResetSession s = s\<lparr>handshake_complete := False, poisoned := False, negotiated_protocol := 1\<rparr>"

definition error_response :: "int \<Rightarrow> string \<Rightarrow> string \<Rightarrow> string \<Rightarrow> qobject" where
  "error_response protocol rid code message =
     MakeErrorResponse \<lparr>ee_protocol = protocol, ee_id = rid, ee_code = code, ee_message = message,
       ee_requirements = Map.empty, ee_actual = Map.empty, ee_state_revision = None\<rparr>"

definition protocol_lists :: "int \<Rightarrow> qobject \<Rightarrow> qobject" where
  "protocol_lists protocol result =
     (if 2 \<le> protocol
      then result(''errorCodes'' \<mapsto> qstrings AllErrorCodes, ''supportedProtocols'' \<mapsto> QArr [qint 1, qint 2])
      else result)"

definition revision_for :: "int \<Rightarrow> ('s, 'w) session_host \<Rightarrow> 'w \<Rightarrow> u64 option" where
  "revision_for protocol host w = (if 2 \<le> protocol then Some (host_revision host w) else None)"

definition CapabilitiesPayload :: "'s CommandDescriptor list \<Rightarrow> (int \<Rightarrow> string list) \<Rightarrow> int \<Rightarrow> qobject" where
  "CapabilitiesPayload commands events protocol = protocol_lists protocol
     [''protocol'' \<mapsto> qint protocol,
      ''commands'' \<mapsto> qstrings (CommandNamesForProtocolIn commands protocol),
      ''events'' \<mapsto> qstrings (events protocol)]"

definition DescribePayload :: "'s CommandDescriptor list \<Rightarrow> (int \<Rightarrow> string list) \<Rightarrow> int \<Rightarrow> qobject" where
  "DescribePayload commands events protocol =
     (DescribeCommandsIn commands protocol)(''events'' \<mapsto> qstrings (events protocol))"

definition HandleHello ::
    "('s, 'w) session_host \<Rightarrow> 'w \<Rightarrow> ControlSession \<Rightarrow> ParsedRequest \<Rightarrow> qobject \<times> ControlSession" where
  "HandleHello host w s rq =
     (if handshake_complete s
      then (error_response (rq_protocol rq) (rq_id rq) ''already_handshaken''
              ''This connection has already completed its handshake'', s)
      else
        case qvalue (rq_params rq) ''runId'' of
          QStr rid \<Rightarrow>
            if rid \<noteq> run_id s
            then (error_response (rq_protocol rq) (rq_id rq) ''run_id_mismatch''
                    ''Run id does not match this process'', s\<lparr>poisoned := True\<rparr>)
            else
              (MakeSuccessResponse
                 \<lparr>se_protocol = rq_protocol rq, se_id = rq_id rq,
                  se_result = protocol_lists (rq_protocol rq)
                    ((if host_has_state host w then host_identity host w else Map.empty)
                     (''protocol'' \<mapsto> qint (rq_protocol rq), ''runId'' \<mapsto> QStr (run_id s),
                      ''commands'' \<mapsto> qstrings (CommandNamesForProtocolIn (host_commands host) (rq_protocol rq)),
                      ''events'' \<mapsto> qstrings (host_events host (rq_protocol rq)))),
                  se_state_revision = (if host_has_state host w then revision_for (rq_protocol rq) host w else None),
                  se_settled = None, se_state = None\<rparr>,
               s\<lparr>handshake_complete := True, negotiated_protocol := rq_protocol rq\<rparr>)
        | _ \<Rightarrow> (error_response (rq_protocol rq) (rq_id rq) ''invalid_params''
                  ''system.hello requires a string \"runId\" parameter'', s))"

text \<open>The refusal of a precondition, and the answer to a command that was executed.\<close>

definition refusal_response ::
    "('s, 'w) session_host \<Rightarrow> 'w \<Rightarrow> ParsedRequest \<Rightarrow> PreconditionVerdict \<Rightarrow> qobject" where
  "refusal_response host w rq verdict =
     MakeErrorResponse \<lparr>ee_protocol = rq_protocol rq, ee_id = rq_id rq, ee_code = pv_code verdict,
       ee_message = pv_message verdict, ee_requirements = pv_requirements verdict,
       ee_actual = pv_actual verdict, ee_state_revision = revision_for (rq_protocol rq) host w\<rparr>"

definition outcome_response ::
    "('s, 'w) session_host \<Rightarrow> 'w \<Rightarrow> ParsedRequest \<Rightarrow> 's CommandDescriptor \<Rightarrow> Outcome \<Rightarrow> qobject" where
  "outcome_response host w rq command outcome =
     (if \<not> oc_ok outcome
      then MakeErrorResponse \<lparr>ee_protocol = rq_protocol rq, ee_id = rq_id rq, ee_code = oc_code outcome,
             ee_message = oc_message outcome, ee_requirements = oc_requirements outcome,
             ee_actual = oc_actual outcome, ee_state_revision = revision_for (rq_protocol rq) host w\<rparr>
      else MakeSuccessResponse \<lparr>se_protocol = rq_protocol rq, se_id = rq_id rq, se_result = oc_result outcome,
             se_state_revision = revision_for (rq_protocol rq) host w,
             se_settled = (if 2 \<le> rq_protocol rq \<and> cd_settle command \<noteq> NotApplicable
                           then Some (oc_settled outcome) else None),
             se_state = (if include_state rq
                         then Some (host_state_json host (host_state host w) (host_revision host w)) else None)\<rparr>)"

definition run_command ::
    "('s, 'w) session_host \<Rightarrow> 'w \<Rightarrow> ParsedRequest \<Rightarrow> 's CommandDescriptor \<Rightarrow> qobject \<times> 'w" where
  "run_command host w rq command =
     (case ValidateParams (cd_name command) (cd_parameters command) (rq_params rq) of
        Some invalid \<Rightarrow> (error_response (rq_protocol rq) (rq_id rq) ''invalid_params'' invalid, w)
      | None \<Rightarrow>
          (let verdict = EvaluateIn command (host_state host w) in
           if \<not> allowed verdict then (refusal_response host w rq verdict, w)
           else case host_execute host command rq w of
             (outcome, w) \<Rightarrow> (outcome_response host w rq command outcome, w)))"

definition Dispatch ::
    "('s, 'w) session_host \<Rightarrow> ControlSession \<Rightarrow> ParsedRequest \<Rightarrow> 'w \<Rightarrow> qobject \<times> ControlSession \<times> 'w" where
  "Dispatch host s rq w =
     (if rq_command rq = ''system.hello''
      then (case HandleHello host w s rq of (resp, s) \<Rightarrow> (resp, s, w))
      else if \<not> handshake_complete s
      then (error_response (rq_protocol rq) (rq_id rq) ''handshake_required''
              ''system.hello must be the first command on a connection'', s, w)
      else if rq_protocol rq \<noteq> negotiated_protocol s
      then (error_response (negotiated_protocol s) (rq_id rq) ''protocol_version_mismatch''
              (''This connection negotiated protocol '' @
               (if negotiated_protocol s = 1 then ''1'' else ''2'') @ '' at its handshake''),
            s\<lparr>poisoned := True\<rparr>, w)
      else
        case FindCommandIn (host_commands host) (rq_command rq) of
          None \<Rightarrow> (error_response (rq_protocol rq) (rq_id rq) ''unknown_command''
                     (''Unknown command: '' @ rq_command rq), s, w)
        | Some command \<Rightarrow>
            if rq_protocol rq < minimum_protocol command
            then (error_response (rq_protocol rq) (rq_id rq) ''unknown_command''
                    (''Unknown command: '' @ rq_command rq), s, w)
            else if \<not> host_has_state host w
            then (error_response (rq_protocol rq) (rq_id rq) ''unavailable''
                    ''No application state is bound to this server'', s, w)
            else (case run_command host w rq command of (resp, w) \<Rightarrow> (resp, s, w)))"

section \<open>Options\<close>

record ControlOptions =
  co_requested :: bool
  co_run_id :: string
  co_error :: string

definition run_id_char :: "char \<Rightarrow> bool" where
  "run_id_char c \<longleftrightarrow>
     (let n = of_char c :: nat in
      48 \<le> n \<and> n \<le> 57 \<or> 65 \<le> n \<and> n \<le> 90 \<or> 97 \<le> n \<and> n \<le> 122 \<or> c = CHR ''.'' \<or> c = CHR ''_'' \<or> c = CHR ''-'')"

definition IsValidRunId :: "string \<Rightarrow> bool" where
  "IsValidRunId s \<longleftrightarrow> 8 \<le> length s \<and> length s \<le> 64 \<and> list_all run_id_char s"

definition ParseControlOptions :: "string list \<Rightarrow> string \<Rightarrow> ControlOptions" where
  "ParseControlOptions arguments option =
     (case dropWhile (\<lambda>a. a \<noteq> option) arguments of
        [] \<Rightarrow> \<lparr>co_requested = False, co_run_id = [], co_error = []\<rparr>
      | [_] \<Rightarrow> \<lparr>co_requested = True, co_run_id = [], co_error = option @ '' requires a run id argument''\<rparr>
      | _ # rid # _ \<Rightarrow>
          if \<not> IsValidRunId rid
          then \<lparr>co_requested = True, co_run_id = [],
                 co_error = option @ '' run id must be 8-64 characters of [A-Za-z0-9._-]''\<rparr>
          else \<lparr>co_requested = True, co_run_id = rid, co_error = []\<rparr>)"
definition PipeName :: "string \<Rightarrow> string \<Rightarrow> string" where
  "PipeName role rid =
     (let b = char_of (92 :: nat) in [b, b] @ ''.'' @ [b] @ ''pipe'' @ [b] @ ''ExoSnap.'' @ role @ ''.'' @ rid)"

end
