(* ===== verification/UpdateFlow.thy ===== *)
theory UpdateFlow
  imports ControlProtocol UpdateManifest
begin

text \<open>
  The updater's published state: the vocabulary and the failure tables
  (\<^verbatim>\<open>libs/update/src/update_flow_state.cpp\<close>) and the controller that turns the worker's signals
  into the published state and the content of the window (\<^verbatim>\<open>apps/updater/UpdaterController.cpp\<close>).
\<close>

section \<open>Vocabulary\<close>

datatype UpStep = StepDownload | StepCloseApp | StepInstall | StepVerify | StepLaunch | StepCount

datatype StepStatus = Queued | Working | StepIsDone | StepHasFailed

datatype FailureCase =
  DownloadFailed | VerifyDownloadFailed | VerifyReinstallMismatch | TargetVersionMismatch | HandoffRejected
| AppWontClose | InstallFailed | VerifyInstallFailed | RestoreHasFailed | VerifyInstallFailedMsi | LaunchFailed
| UacDeclined | MsiFailed | MsiRebootRequired

datatype UpdaterMode = Manual | AppHandoff

datatype UpdatePhase =
  PhIdle | Checking | PhUpToDate | UpdateAvailable | Downloading | ReadyToApply | WaitingForParent | Applying
| Verifying | Launching | RestartPending | RebootRequired | Completed | PhFailed | Cancelled

datatype InstallState = Intact | InstallRestored | StrandedInBackup | InstallUnknown

text \<open>The code compares steps by \<^verbatim>\<open>int(entry) <= int(UpStep::X)\<close>: the order of the enumeration.\<close>

definition step_index :: "UpStep \<Rightarrow> nat" where
  "step_index s = (case s of StepDownload \<Rightarrow> 0 | StepCloseApp \<Rightarrow> 1 | StepInstall \<Rightarrow> 2 | StepVerify \<Rightarrow> 3
     | StepLaunch \<Rightarrow> 4 | StepCount \<Rightarrow> 5)"

instantiation UpStep :: linorder
begin

definition less_eq_UpStep :: "UpStep \<Rightarrow> UpStep \<Rightarrow> bool" where
  "s \<le> t \<longleftrightarrow> step_index s \<le> step_index t"

definition less_UpStep :: "UpStep \<Rightarrow> UpStep \<Rightarrow> bool" where
  "s < t \<longleftrightarrow> step_index s < step_index t"

instance
proof
  fix s t :: UpStep
  show "s \<le> t \<Longrightarrow> t \<le> s \<Longrightarrow> s = t"
    by (cases s; cases t) (simp_all add: less_eq_UpStep_def step_index_def)
qed (auto simp: less_eq_UpStep_def less_UpStep_def)

end

section \<open>Names\<close>

definition UpStepName :: "UpStep \<Rightarrow> string" where
  "UpStepName s = (case s of StepDownload \<Rightarrow> ''download'' | StepCloseApp \<Rightarrow> ''closeApp''
     | StepInstall \<Rightarrow> ''install'' | StepVerify \<Rightarrow> ''verify'' | StepLaunch \<Rightarrow> ''launch'' | StepCount \<Rightarrow> '''')"

definition UpdaterModeName :: "UpdaterMode \<Rightarrow> string" where
  "UpdaterModeName m = (case m of Manual \<Rightarrow> ''manual'' | AppHandoff \<Rightarrow> ''appHandoff'')"

definition UpdatePhaseName :: "UpdatePhase \<Rightarrow> string" where
  "UpdatePhaseName p = (case p of PhIdle \<Rightarrow> ''idle'' | Checking \<Rightarrow> ''checking'' | PhUpToDate \<Rightarrow> ''upToDate''
     | UpdateAvailable \<Rightarrow> ''updateAvailable'' | Downloading \<Rightarrow> ''downloading'' | ReadyToApply \<Rightarrow> ''readyToApply''
     | WaitingForParent \<Rightarrow> ''waitingForParent'' | Applying \<Rightarrow> ''applying'' | Verifying \<Rightarrow> ''verifying''
     | Launching \<Rightarrow> ''launching'' | RestartPending \<Rightarrow> ''restartPending'' | RebootRequired \<Rightarrow> ''rebootRequired''
     | Completed \<Rightarrow> ''completed'' | PhFailed \<Rightarrow> ''failed'' | Cancelled \<Rightarrow> ''cancelled'')"

definition FailureCaseName :: "FailureCase \<Rightarrow> string" where
  "FailureCaseName c = (case c of DownloadFailed \<Rightarrow> ''downloadFailed''
     | VerifyDownloadFailed \<Rightarrow> ''verifyDownloadFailed'' | VerifyReinstallMismatch \<Rightarrow> ''verifyReinstallMismatch''
     | TargetVersionMismatch \<Rightarrow> ''targetVersionMismatch'' | HandoffRejected \<Rightarrow> ''handoffRejected''
     | AppWontClose \<Rightarrow> ''appWontClose'' | InstallFailed \<Rightarrow> ''installFailed''
     | VerifyInstallFailed \<Rightarrow> ''verifyInstallFailed'' | RestoreHasFailed \<Rightarrow> ''restoreFailed''
     | VerifyInstallFailedMsi \<Rightarrow> ''verifyInstallFailedMsi'' | LaunchFailed \<Rightarrow> ''launchFailed''
     | UacDeclined \<Rightarrow> ''uacDeclined'' | MsiFailed \<Rightarrow> ''msiFailed'' | MsiRebootRequired \<Rightarrow> ''msiRebootRequired'')"

definition InstallStateName :: "InstallState \<Rightarrow> string" where
  "InstallStateName s = (case s of Intact \<Rightarrow> ''intact'' | InstallRestored \<Rightarrow> ''restored''
     | StrandedInBackup \<Rightarrow> ''strandedInBackup'' | InstallUnknown \<Rightarrow> ''unknown'')"

section \<open>The failure tables\<close>

definition InstallStateForFailure :: "FailureCase \<Rightarrow> InstallState" where
  "InstallStateForFailure c = (case c of
       VerifyInstallFailed \<Rightarrow> InstallRestored
     | RestoreHasFailed \<Rightarrow> StrandedInBackup
     | VerifyInstallFailedMsi \<Rightarrow> InstallUnknown
     | _ \<Rightarrow> Intact)"

definition RetryEntryStep :: "FailureCase \<Rightarrow> UpStep" where
  "RetryEntryStep c = (case c of
       DownloadFailed \<Rightarrow> StepDownload | VerifyDownloadFailed \<Rightarrow> StepDownload
     | VerifyReinstallMismatch \<Rightarrow> StepDownload | TargetVersionMismatch \<Rightarrow> StepDownload
     | HandoffRejected \<Rightarrow> StepDownload
     | AppWontClose \<Rightarrow> StepCloseApp
     | LaunchFailed \<Rightarrow> StepLaunch
     | _ \<Rightarrow> StepInstall)"

definition RetryOffered :: "FailureCase \<Rightarrow> UpdaterMode \<Rightarrow> bool" where
  "RetryOffered c mode =
     (if mode = AppHandoff \<and> c = VerifyDownloadFailed then False
      else case c of
        VerifyReinstallMismatch \<Rightarrow> False | TargetVersionMismatch \<Rightarrow> False | HandoffRejected \<Rightarrow> False
      | LaunchFailed \<Rightarrow> False | MsiFailed \<Rightarrow> False | MsiRebootRequired \<Rightarrow> False
      | _ \<Rightarrow> True)"

definition PhaseForFailure :: "FailureCase \<Rightarrow> UpdatePhase" where
  "PhaseForFailure c = (case c of MsiRebootRequired \<Rightarrow> RebootRequired | LaunchFailed \<Rightarrow> RestartPending
     | _ \<Rightarrow> PhFailed)"

section \<open>The flow state\<close>

record UpdateFlowState =
  fl_mode :: UpdaterMode
  fl_phase :: UpdatePhase
  fl_install_mode :: InstallMode
  checks_enabled :: bool
  failure_case :: "FailureCase option"
  retry_entry_step :: "UpStep option"
  install_state :: InstallState
  fl_current_version :: string
  fl_target_version :: string
  update_transaction_id :: string
  downloaded_bytes :: u64
  total_bytes :: u64
  reboot_required :: bool

definition initial_flow :: UpdateFlowState where
  "initial_flow = \<lparr>fl_mode = Manual, fl_phase = PhIdle, fl_install_mode = Portable, checks_enabled = False,
     failure_case = None, retry_entry_step = None, install_state = Intact, fl_current_version = [],
     fl_target_version = [], update_transaction_id = [], downloaded_bytes = 0, total_bytes = 0,
     reboot_required = False\<rparr>"

definition terminal :: "UpdateFlowState \<Rightarrow> bool" where
  "terminal f \<longleftrightarrow> fl_phase f = Completed \<or> fl_phase f = PhFailed \<or> fl_phase f = RebootRequired \<or>
     fl_phase f = RestartPending \<or> fl_phase f = PhUpToDate \<or> fl_phase f = Cancelled"

section \<open>The controller\<close>

datatype PromptKind =
  PromptNone | PromptIdle | PromptUpToDate | PromptUpdateAvailable | PromptReadyToApply | PromptCancelled

datatype TerminalVariant = VariantNone | Success | Amber | Red | Green | VariantRebootRequired

text \<open>
  What the window shows. Texts are their UTF-8 bytes; the ring is the exact fraction the code
  computes in double precision.
\<close>

record UpdaterUiState =
  ui_steps :: "StepStatus list"
  ui_ring :: rat
  determinate :: bool
  status_line :: string
  variant :: TerminalVariant
  prompt :: PromptKind
  headline :: string
  detail_text :: string
  safety_text :: string
  primary_action :: string
  secondary_action :: string
  from_version :: string
  to_version :: string
  ui_reinstall :: bool
  manual :: bool

definition initial_ui :: UpdaterUiState where
  "initial_ui = \<lparr>ui_steps = replicate 5 Queued, ui_ring = 0, determinate = False, status_line = [],
     variant = VariantNone, prompt = PromptNone, headline = [], detail_text = [], safety_text = [],
     primary_action = [], secondary_action = [], from_version = [], to_version = [], ui_reinstall = False,
     manual = False\<rparr>"

record UpdaterController =
  ui :: UpdaterUiState
  flow :: UpdateFlowState

definition ellipsis :: string where
  "ellipsis = [char_of (0xE2 :: nat), char_of (0x80 :: nat), char_of (0xA6 :: nat)]"

definition em_dash :: string where
  "em_dash = [char_of (0xE2 :: nat), char_of (0x80 :: nat), char_of (0x94 :: nat)]"

definition new_controller :: "string \<Rightarrow> string \<Rightarrow> UpdaterController" where
  "new_controller from to = \<lparr>
     ui = initial_ui\<lparr>from_version := from, to_version := to, status_line := ''Preparing update'' @ ellipsis\<rparr>,
     flow = initial_flow\<lparr>fl_current_version := from, fl_target_version := to\<rparr>\<rparr>"

definition setVerificationReinstall :: "bool \<Rightarrow> UpdaterController \<Rightarrow> UpdaterController" where
  "setVerificationReinstall on c = c\<lparr>ui := (ui c)\<lparr>ui_reinstall := on\<rparr>\<rparr>"

definition setMode :: "UpdaterMode \<Rightarrow> UpdaterController \<Rightarrow> UpdaterController" where
  "setMode mode c = c\<lparr>flow := (flow c)\<lparr>fl_mode := mode\<rparr>, ui := (ui c)\<lparr>manual := (mode = Manual)\<rparr>\<rparr>"

definition setContext :: "InstallMode \<Rightarrow> bool \<Rightarrow> UpdaterController \<Rightarrow> UpdaterController" where
  "setContext mode enabled c = c\<lparr>flow := (flow c)\<lparr>fl_install_mode := mode, checks_enabled := enabled\<rparr>\<rparr>"

definition setUpdateTransactionId :: "string \<Rightarrow> UpdaterController \<Rightarrow> UpdaterController" where
  "setUpdateTransactionId tid c = c\<lparr>flow := (flow c)\<lparr>update_transaction_id := tid\<rparr>\<rparr>"

definition setPhase :: "UpdatePhase \<Rightarrow> UpdateFlowState \<Rightarrow> UpdateFlowState" where
  "setPhase phase f =
     (let f = f\<lparr>fl_phase := phase\<rparr> in
      if phase \<noteq> PhFailed \<and> phase \<noteq> RebootRequired \<and> phase \<noteq> RestartPending
      then f\<lparr>failure_case := None, retry_entry_step := None, install_state := Intact, reboot_required := False\<rparr>
      else f)"

definition step_end_weight :: "UpStep \<Rightarrow> rat" where
  "step_end_weight s = (case s of StepDownload \<Rightarrow> 55 / 100 | StepCloseApp \<Rightarrow> 62 / 100 | StepInstall \<Rightarrow> 85 / 100
     | StepVerify \<Rightarrow> 94 / 100 | StepLaunch \<Rightarrow> 1 | StepCount \<Rightarrow> 0)"

definition WorkingStatusLine :: "UpStep \<Rightarrow> string \<Rightarrow> bool \<Rightarrow> string" where
  "WorkingStatusLine s to reinstall =
     (let named = (to \<noteq> []) in
      case s of
        StepDownload \<Rightarrow>
          if reinstall then (if named then ''Downloading version '' @ to @ '' again'' @ ellipsis
                             else ''Downloading this version again'' @ ellipsis)
          else (if named then ''Downloading update '' @ to @ ellipsis else ''Downloading the update'' @ ellipsis)
      | StepCloseApp \<Rightarrow> ''Waiting for ExoSnap to close'' @ ellipsis
      | StepInstall \<Rightarrow>
          if reinstall then (if named then ''Reinstalling version '' @ to @ ellipsis
                             else ''Reinstalling this version'' @ ellipsis)
          else (if named then ''Swapping in version '' @ to @ ellipsis else ''Swapping in the new version'' @ ellipsis)
      | StepVerify \<Rightarrow> ''Checking signatures & file hashes'' @ ellipsis
      | StepLaunch \<Rightarrow> if named then ''Starting version '' @ to @ ellipsis else ''Starting ExoSnap'' @ ellipsis
      | StepCount \<Rightarrow> [])"

definition PhaseForStep :: "UpStep \<Rightarrow> UpdatePhase" where
  "PhaseForStep s = (case s of StepDownload \<Rightarrow> Downloading | StepCloseApp \<Rightarrow> WaitingForParent
     | StepInstall \<Rightarrow> Applying | StepVerify \<Rightarrow> Verifying | StepLaunch \<Rightarrow> Launching | StepCount \<Rightarrow> PhIdle)"

definition FailedStepFor :: "FailureCase \<Rightarrow> UpStep" where
  "FailedStepFor c = (case c of
       DownloadFailed \<Rightarrow> StepDownload | VerifyDownloadFailed \<Rightarrow> StepDownload
     | VerifyReinstallMismatch \<Rightarrow> StepDownload | TargetVersionMismatch \<Rightarrow> StepDownload
     | HandoffRejected \<Rightarrow> StepDownload
     | AppWontClose \<Rightarrow> StepCloseApp
     | InstallFailed \<Rightarrow> StepInstall | UacDeclined \<Rightarrow> StepInstall | MsiFailed \<Rightarrow> StepInstall
     | MsiRebootRequired \<Rightarrow> StepInstall
     | VerifyInstallFailed \<Rightarrow> StepVerify | RestoreHasFailed \<Rightarrow> StepVerify | VerifyInstallFailedMsi \<Rightarrow> StepVerify
     | LaunchFailed \<Rightarrow> StepLaunch)"

text \<open>What the worker and the process tell the controller.\<close>

datatype FlowSignal =
  SigIdle | SigCheckStarted | SigUpToDate | SigUpdateAvailable string | SigCheckBlocked string | SigCancelled
| SigReadyToApply | SigStepStarted UpStep | SigDownloadProgress u64 u64 | SigStepDone UpStep | SigAllDone
| SigFailed FailureCase string

text \<open>The six fields of the result card, set together.\<close>

definition card :: "TerminalVariant \<Rightarrow> string \<Rightarrow> string \<Rightarrow> string \<Rightarrow> string \<Rightarrow> string \<Rightarrow> UpdaterUiState \<Rightarrow> UpdaterUiState" where
  "card v h d s p q u = u\<lparr>variant := v, headline := h, detail_text := d, safety_text := s,
     primary_action := p, secondary_action := q\<rparr>"

definition onIdle :: "UpdaterController \<Rightarrow> UpdaterController" where
  "onIdle c = \<lparr>
     ui = card VariantNone ''Ready to check for updates'' ''Nothing is downloaded or installed until you say so.''
       ''Your installed version is unchanged.'' ''Check for updates'' ''Close''
       (initial_ui\<lparr>from_version := fl_current_version (flow c), manual := (fl_mode (flow c) = Manual),
          prompt := PromptIdle\<rparr>),
     flow = setPhase PhIdle ((flow c)\<lparr>fl_target_version := [], downloaded_bytes := 0, total_bytes := 0\<rparr>)\<rparr>"

definition onCheckStarted :: "UpdaterController \<Rightarrow> UpdaterController" where
  "onCheckStarted c = c\<lparr>
     ui := card VariantNone [] [] [] [] []
       ((ui c)\<lparr>prompt := PromptNone, determinate := False, ui_ring := 0,
          status_line := ''Checking for updates'' @ ellipsis\<rparr>),
     flow := setPhase Checking (flow c)\<rparr>"

definition onUpToDate :: "UpdaterController \<Rightarrow> UpdaterController" where
  "onUpToDate c = c\<lparr>
     ui := card VariantNone ''ExoSnap is up to date''
       (''Version '' @ from_version (ui c) @ '' is the newest release on this channel.'')
       ''Nothing was downloaded and nothing was changed.'' ''Check again'' ''Close''
       ((ui c)\<lparr>prompt := PromptUpToDate, status_line := [], to_version := []\<rparr>),
     flow := setPhase PhUpToDate ((flow c)\<lparr>fl_target_version := []\<rparr>)\<rparr>"

definition onUpdateAvailable :: "string \<Rightarrow> UpdaterController \<Rightarrow> UpdaterController" where
  "onUpdateAvailable v c = c\<lparr>
     ui := card VariantNone (''Version '' @ v @ '' is available'')
       ''The update is downloaded and verified before anything is replaced.''
       (''Your installed version '' @ from_version (ui c) @ '' stays in place until you apply it.'')
       ''Download update'' ''Close''
       ((ui c)\<lparr>prompt := PromptUpdateAvailable, status_line := [], to_version := v\<rparr>),
     flow := setPhase UpdateAvailable ((flow c)\<lparr>fl_target_version := v\<rparr>)\<rparr>"

definition onCheckBlocked :: "string \<Rightarrow> UpdaterController \<Rightarrow> UpdaterController" where
  "onCheckBlocked reason c = c\<lparr>
     ui := card VariantNone ''Update checks are turned off in this build'' reason
       ''Nothing was contacted, downloaded or changed.'' ''Close'' []
       ((ui c)\<lparr>prompt := PromptIdle, status_line := [], to_version := []\<rparr>),
     flow := setPhase PhIdle ((flow c)\<lparr>fl_target_version := []\<rparr>)\<rparr>"

definition onCancelled :: "UpdaterController \<Rightarrow> UpdaterController" where
  "onCancelled c =
     (let by_hand = (fl_mode (flow c) = Manual) in
      c\<lparr>
        ui := card VariantNone ''Update canceled'' ''The download was stopped and its partial files were discarded.''
          (if from_version (ui c) = [] then ''Nothing was installed and nothing was changed.''
           else ''Your current version '' @ from_version (ui c) @ '' is unchanged.'')
          (if by_hand then ''Check for updates'' else ''Close'') (if by_hand then ''Close'' else [])
          ((ui c)\<lparr>ui_steps := map (\<lambda>st. if st = Working then Queued else st) (ui_steps (ui c)),
             prompt := PromptCancelled, status_line := [], determinate := False, ui_ring := 0\<rparr>),
        flow := setPhase Cancelled (flow c)\<rparr>)"

definition onReadyToApply :: "UpdaterController \<Rightarrow> UpdaterController" where
  "onReadyToApply c = c\<lparr>
     ui := card VariantNone (''Version '' @ to_version (ui c) @ '' is ready to install'')
       ''The signed package was downloaded and its hash checked.''
       ''ExoSnap will close while the files are replaced.'' ''Install now'' ''Close''
       ((ui c)\<lparr>prompt := PromptReadyToApply, status_line := []\<rparr>),
     flow := setPhase ReadyToApply (flow c)\<rparr>"

definition onStepStarted :: "UpStep \<Rightarrow> UpdaterController \<Rightarrow> UpdaterController" where
  "onStepStarted s c =
     (if s = StepCount then c
      else c\<lparr>
        ui := (ui c)\<lparr>prompt := PromptNone, ui_steps := (ui_steps (ui c))[step_index s := Working],
          status_line := WorkingStatusLine s (to_version (ui c)) (ui_reinstall (ui c))\<rparr>,
        flow := setPhase (PhaseForStep s) (flow c)\<rparr>)"

definition onDownloadProgress :: "u64 \<Rightarrow> u64 \<Rightarrow> UpdaterController \<Rightarrow> UpdaterController" where
  "onDownloadProgress got all_bytes c =
     (let c = c\<lparr>flow := (flow c)\<lparr>downloaded_bytes := got, total_bytes := all_bytes\<rparr>\<rparr> in
      if all_bytes = 0 then c
      else c\<lparr>ui := (ui c)\<lparr>
        ui_ring := step_end_weight StepDownload *
          min 1 (max 0 (rat_of_nat (unat got) / rat_of_nat (unat all_bytes))),
        determinate := True\<rparr>\<rparr>)"

definition onStepDone :: "UpStep \<Rightarrow> UpdaterController \<Rightarrow> UpdaterController" where
  "onStepDone s c =
     (if s = StepCount then c
      else c\<lparr>ui := (ui c)\<lparr>ui_steps := (ui_steps (ui c))[step_index s := StepIsDone],
        ui_ring := step_end_weight s, determinate := True\<rparr>\<rparr>)"

definition onAllDone :: "UpdaterController \<Rightarrow> UpdaterController" where
  "onAllDone c = c\<lparr>
     ui := (ui c)\<lparr>ui_steps := map (\<lambda>_. StepIsDone) (ui_steps (ui c)), ui_ring := 1, determinate := True,
       variant := Success, prompt := PromptNone, status_line := []\<rparr>,
     flow := setPhase Completed (flow c)\<rparr>"

definition unchanged_and_works :: "string \<Rightarrow> string" where
  "unchanged_and_works v = ''Your current version '' @ v @ '' is unchanged and still works.''"

definition nothing_installed :: "string \<Rightarrow> string" where
  "nothing_installed v = ''Nothing was installed. Your current version '' @ v @ '' is unchanged.''"

definition failure_card :: "FailureCase \<Rightarrow> string \<Rightarrow> UpdateFlowState \<Rightarrow> UpdaterUiState \<Rightarrow> UpdaterUiState" where
  "failure_card fc detail f u = (case fc of
     DownloadFailed \<Rightarrow> card Amber ''Couldn't download the update'' ''Check your internet connection and try again.''
       (unchanged_and_works (from_version u)) ''Retry'' ''Close'' u
   | VerifyDownloadFailed \<Rightarrow> card Red ''Download verification failed''
       ''The downloaded files didn't match the signed release, so they were discarded.''
       (nothing_installed (from_version u))
       (if retry_entry_step f \<noteq> None then ''Re-download'' else ''Close'')
       (if retry_entry_step f \<noteq> None then ''Close'' else []) u
   | VerifyReinstallMismatch \<Rightarrow> card Red ''Verification reinstall unavailable''
       (''This check requires version '' @ from_version u @ '', but the signed release offers '' @
        (if detail = [] then ''another version'' else detail) @ ''.'')
       (nothing_installed (from_version u)) ''Close'' [] u
   | TargetVersionMismatch \<Rightarrow> card Red ''The offered version is no longer what the channel serves''
       (''ExoSnap offered version '' @ fl_target_version f @ '', but the signed release now names '' @
        (if detail = [] then ''another version'' else detail) @ ''.'')
       (nothing_installed (from_version u)) ''Close'' [] u
   | HandoffRejected \<Rightarrow> card Red ''This update couldn't be started''
       ''ExoSnap handed over an update this updater can't accept. Start the update again from ExoSnap.''
       (if from_version u = [] then ''Nothing was downloaded and nothing was changed.''
        else nothing_installed (from_version u)) ''Close'' [] u
   | AppWontClose \<Rightarrow> card Amber ''Couldn't close ExoSnap''
       (if manual u then ''Close ExoSnap, then try again.'' else ''Close the running app, then try the handoff again.'')
       (unchanged_and_works (from_version u)) ''Retry'' ''Close'' u
   | InstallFailed \<Rightarrow> card Amber ''Couldn't install the update''
       ''The new files couldn't be put in place. You can try again.''
       (unchanged_and_works (from_version u)) ''Retry'' ''Close'' u
   | VerifyInstallFailed \<Rightarrow> card Red ''Update verification failed''
       ''The installed files didn't match the signed release, so the swap was undone.''
       (''Your previous version '' @ from_version u @ '' was restored and is ready to run.'') ''Retry'' ''Close'' u
   | RestoreHasFailed \<Rightarrow> card Red ''Couldn't restore the previous version''
       ''The update failed and the automatic restore couldn't put the backup back in place.''
       (''Version '' @ from_version u @ '' is preserved in the backup folder but isn't ready to run.'')
       ''Retry'' ''Close'' u
   | VerifyInstallFailedMsi \<Rightarrow> card Red ''Couldn't confirm the installed version''
       ''Windows Installer finished, but ExoSnap couldn't verify the installed files.''
       (''Version '' @ from_version u @ '' may still be installed; no rollback is being claimed.'')
       ''Retry'' ''Close'' u
   | LaunchFailed \<Rightarrow> card Green (''Update complete '' @ em_dash @ '' version '' @ to_version u @ '' is ready'')
       ''The update was installed and verified, but the automatic restart didn't open.''
       (''Version '' @ to_version u @ '' is installed and can be started manually.'') ''Open ExoSnap'' ''Close'' u
   | UacDeclined \<Rightarrow> card Amber ''Administrator approval was canceled''
       ''Approve the Windows prompt when you retry the installation.''
       (unchanged_and_works (from_version u)) ''Retry'' ''Close'' u
   | MsiFailed \<Rightarrow> card Red ''Windows Installer couldn't apply the update''
       (''Windows Installer stopped with code '' @ (if detail = [] then ''unknown'' else detail) @ ''. Try again later.'')
       (''Your previous version '' @ from_version u @ '' is still usable.'') ''Close'' [] u
   | MsiRebootRequired \<Rightarrow> card VariantRebootRequired
       (''Update installed '' @ em_dash @ '' restart Windows to finish'')
       ''Windows Installer needs a system restart to complete the update.''
       (''Version '' @ from_version u @ '' keeps working until you restart Windows.'') ''Close'' [] u)"

definition failed_flow :: "FailureCase \<Rightarrow> UpdateFlowState \<Rightarrow> UpdateFlowState" where
  "failed_flow fc f = f\<lparr>
     fl_phase := PhaseForFailure fc,
     failure_case := Some fc,
     retry_entry_step := (if RetryOffered fc (fl_mode f) then Some (RetryEntryStep fc) else None),
     install_state := InstallStateForFailure fc,
     reboot_required := (fc = MsiRebootRequired)\<rparr>"

definition onFailure :: "FailureCase \<Rightarrow> string \<Rightarrow> UpdaterController \<Rightarrow> UpdaterController" where
  "onFailure fc detail c =
     (let u = (ui c)\<lparr>
            ui_steps := (ui_steps (ui c))[step_index (FailedStepFor fc) :=
              (if fc = MsiRebootRequired then StepIsDone else StepHasFailed)],
            status_line := [], prompt := PromptNone\<rparr>;
          f = failed_flow fc (flow c) in
      \<lparr>ui = failure_card fc detail f u, flow = f\<rparr>)"

definition on_signal :: "UpdaterController \<Rightarrow> FlowSignal \<Rightarrow> UpdaterController" where
  "on_signal c sig = (case sig of
       SigIdle \<Rightarrow> onIdle c
     | SigCheckStarted \<Rightarrow> onCheckStarted c
     | SigUpToDate \<Rightarrow> onUpToDate c
     | SigUpdateAvailable v \<Rightarrow> onUpdateAvailable v c
     | SigCheckBlocked reason \<Rightarrow> onCheckBlocked reason c
     | SigCancelled \<Rightarrow> onCancelled c
     | SigReadyToApply \<Rightarrow> onReadyToApply c
     | SigStepStarted s \<Rightarrow> onStepStarted s c
     | SigDownloadProgress got all_bytes \<Rightarrow> onDownloadProgress got all_bytes c
     | SigStepDone s \<Rightarrow> onStepDone s c
     | SigAllDone \<Rightarrow> onAllDone c
     | SigFailed fc detail \<Rightarrow> onFailure fc detail c)"

end
