(* ===== verification/ControlGuarantees.thy ===== *)
theory ControlGuarantees
  imports ControlProtocol
begin

text \<open>
  What the control channel promises: no command runs before a handshake with the right run id,
  outside the negotiated protocol or against its precondition; every answer names its request;
  and error codes are those of the negotiated dialect.
\<close>

section \<open>Requests\<close>

lemma set_AllErrorCodes: "set AllErrorCodes =
    {''malformed_request'', ''request_too_large'', ''protocol_version_mismatch'', ''run_id_mismatch'',
     ''handshake_required'', ''already_handshaken'', ''unknown_command'', ''invalid_params'',
     ''command_failed'', ''invalid_state'', ''blocked'', ''operation_failed'', ''unavailable'',
     ''dispatch_timeout''}"
  unfolding AllErrorCodes_def set_sort by simp

lemma string_of_value: "string_of (qvalue obj k) \<noteq> [] \<Longrightarrow> obj k = Some (QStr (string_of (qvalue obj k)))"
  by (auto simp: string_of_def qvalue_def split: option.splits qjson.splits)

lemma qvalue_bool: "qvalue obj k = QBool b \<longleftrightarrow> obj k = Some (QBool b)"
  by (auto simp: qvalue_def split: option.splits)

text \<open>
  A line is either answered with a failure carrying a known code, or it is a request of a
  supported protocol with a non-empty command; the state is asked for exactly when a protocol-2 request says
  so.
\<close>

theorem parsed_request_is_well_formed:
  "case ParseRequest show_int from_json line of
     Inl failure \<Rightarrow> pf_code failure \<in> set AllErrorCodes \<and> IsSupportedProtocol (pf_protocol failure)
   | Inr rq \<Rightarrow> IsSupportedProtocol (rq_protocol rq) \<and> rq_command rq \<noteq> [] \<and> length line \<le> 65536 \<and>
       (\<exists>obj. from_json line = Inr (QObj obj) \<and> obj ''command'' = Some (QStr (rq_command rq)) \<and>
          include_state rq = (rq_protocol rq = 2 \<and> obj ''includeState'' = Some (QBool True)))"
proof -
  have codes: "pf_code f \<in> set AllErrorCodes \<and> IsSupportedProtocol (pf_protocol f)"
    if "parse_fields rid p obj = Inl f" "IsSupportedProtocol p" for rid p obj f
    using that by (auto simp: parse_fields_def parse_failure_def Let_def set_AllErrorCodes split: if_splits)
  have fields: "IsSupportedProtocol (rq_protocol rq) \<and> rq_command rq \<noteq> [] \<and>
      obj ''command'' = Some (QStr (rq_command rq)) \<and>
      include_state rq = (rq_protocol rq = 2 \<and> obj ''includeState'' = Some (QBool True))"
    if "parse_fields rid p obj = Inr rq" "IsSupportedProtocol p" for rid p obj rq
  proof -
    have "string_of (qvalue obj ''command'') = rq_command rq" "rq_command rq \<noteq> []" "rq_protocol rq = p"
      and "include_state rq = (2 \<le> p \<and> obj ''includeState'' = Some (QBool True))"
      using that(1) by (simp_all add: qvalue_bool parse_fields_def parse_failure_def Let_def split: if_split_asm)
        auto
    then show ?thesis
      using that(2) string_of_value [of obj "''command''"] by (auto simp: IsSupportedProtocol_def)
  qed
  have protocol: "case parse_protocol show_int rid v of
      Inl f \<Rightarrow> pf_code f \<in> set AllErrorCodes \<and> IsSupportedProtocol (pf_protocol f)
    | Inr p \<Rightarrow> IsSupportedProtocol p" for rid v
    by (auto simp: parse_protocol_def parse_failure_def Let_def set_AllErrorCodes IsSupportedProtocol_def
        split: qjson.splits)
  show ?thesis
  proof (cases "from_json line")
    case (Inl e)
    then show ?thesis
      by (auto simp: ParseRequest_def parse_failure_def set_AllErrorCodes IsSupportedProtocol_def)
  next
    case (Inr v)
    show ?thesis
    proof (cases "\<exists>obj. v = QObj obj")
      case False
      then show ?thesis
        using Inr by (cases v)
          (auto simp: ParseRequest_def parse_failure_def set_AllErrorCodes IsSupportedProtocol_def)
    next
      case True
      then obtain obj where v: "v = QObj obj" by blast
      show ?thesis
        using Inr v codes fields
          protocol [of "RecoverId show_int obj" "qvalue obj ''protocol''"]
        by (cases "parse_protocol show_int (RecoverId show_int obj) (qvalue obj ''protocol'')")
          (auto simp: ParseRequest_def parse_failure_def set_AllErrorCodes IsSupportedProtocol_def split: sum.splits)
    qed
  qed
qed

section \<open>Connections\<close>

text \<open>The requests of a connection, in order.\<close>

fun serve ::
    "('s, 'w) session_host \<Rightarrow> ControlSession \<Rightarrow> ParsedRequest list \<Rightarrow> 'w \<Rightarrow> qobject list \<times> ControlSession \<times> 'w" where
  "serve host s [] w = ([], s, w)"
| "serve host s (rq # rqs) w =
     (case Dispatch host s rq w of (resp, s, w) \<Rightarrow>
        case serve host s rqs w of (resps, s, w) \<Rightarrow> (resp # resps, s, w))"

definition hello_for :: "string \<Rightarrow> ParsedRequest \<Rightarrow> bool" where
  "hello_for rid rq \<longleftrightarrow> rq_command rq = ''system.hello'' \<and> rq_params rq ''runId'' = Some (QStr rid)"

text \<open>A request that a session may hand to its host.\<close>

definition admissible :: "('s, 'w) session_host \<Rightarrow> ControlSession \<Rightarrow> ParsedRequest \<Rightarrow> 'w \<Rightarrow> bool" where
  "admissible host s rq w \<longleftrightarrow>
     handshake_complete s \<and> rq_protocol rq = negotiated_protocol s \<and> host_has_state host w \<and>
     (\<exists>command. FindCommandIn (host_commands host) (rq_command rq) = Some command \<and>
        minimum_protocol command \<le> rq_protocol rq \<and>
        ValidateParams (cd_name command) (cd_parameters command) (rq_params rq) = None \<and>
        allowed (EvaluateIn command (host_state host w)))"

lemma HandleHello_session:
  assumes "HandleHello host w s rq = (resp, s')"
  shows "run_id s' = run_id s"
    and "handshake_complete s' \<longleftrightarrow>
      handshake_complete s \<or> rq_params rq ''runId'' = Some (QStr (run_id s))"
    and "handshake_complete s \<Longrightarrow> s' = s"
    and "handshake_complete s' \<Longrightarrow> \<not> handshake_complete s \<Longrightarrow> negotiated_protocol s' = rq_protocol rq"
  using assms
  by (auto simp: HandleHello_def qvalue_def split: if_splits qjson.splits option.splits)

lemma Dispatch_world:
  assumes "Dispatch host s rq w = (resp, s', w')" "w' \<noteq> w"
  shows "admissible host s rq w"
  using assms
  by (auto simp: Dispatch_def run_command_def admissible_def Let_def
      split: if_splits option.splits prod.splits)

lemma Dispatch_session:
  assumes "Dispatch host s rq w = (resp, s', w')"
  shows "run_id s' = run_id s"
    and "handshake_complete s' \<longleftrightarrow> handshake_complete s \<or> hello_for (run_id s) rq"
    and "handshake_complete s \<Longrightarrow> negotiated_protocol s' = negotiated_protocol s"
proof -
  have "run_id s' = run_id s \<and> (handshake_complete s' \<longleftrightarrow> handshake_complete s \<or> hello_for (run_id s) rq) \<and>
      (handshake_complete s \<longrightarrow> negotiated_protocol s' = negotiated_protocol s)"
  proof (cases "rq_command rq = ''system.hello''")
    case True
    then have "HandleHello host w s rq = (resp, s')"
      using assms by (simp add: Dispatch_def split: prod.splits)
    then show ?thesis
      using HandleHello_session [of host w s rq resp s'] True by (auto simp: hello_for_def)
  next
    case False
    then have "s' = s \<or> s' = s\<lparr>poisoned := True\<rparr>"
      using assms
      by (auto simp: Dispatch_def split: if_split_asm option.split_asm prod.split_asm)
    then show ?thesis
      using False by (auto simp: hello_for_def)
  qed
  then show "run_id s' = run_id s"
    and "handshake_complete s' \<longleftrightarrow> handshake_complete s \<or> hello_for (run_id s) rq"
    and "handshake_complete s \<Longrightarrow> negotiated_protocol s' = negotiated_protocol s"
    by simp_all
qed


text \<open>A connection to try the statement on: one command, executed by counting.\<close>

definition demo_host :: "(unit, nat) session_host" where
  "demo_host = \<lparr>host_identity = (\<lambda>_. Map.empty),
     host_commands = [\<lparr>cd_name = ''go'', minimum_protocol = 1, mutating = True, idempotent = False,
       cd_settle = Synchronous, cd_parameters = [], cd_precondition = None\<rparr>],
     host_events = (\<lambda>_. []), host_has_state = (\<lambda>_. True), host_state = (\<lambda>_. ()), host_revision = of_nat,
     host_state_json = (\<lambda>_ _. Map.empty), host_execute = (\<lambda>_ _ w. (Succeeded Map.empty True, Suc w))\<rparr>"

definition demo_request :: "string \<Rightarrow> qobject \<Rightarrow> ParsedRequest" where
  "demo_request command params = \<lparr>rq_protocol = 1, rq_id = ''1'', rq_command = command, rq_params = params,
     include_state = False\<rparr>"

lemma demo_served:
  "\<exists>resps s. serve demo_host (new_session ''run'')
      [demo_request ''system.hello'' [''runId'' \<mapsto> QStr ''run''], demo_request ''go'' Map.empty] 0 = (resps, s, 1)"
  by (simp add: Dispatch_def HandleHello_def run_command_def demo_host_def demo_request_def new_session_def
      qvalue_def FindCommandIn_def EvaluateIn_def allowed_def Allowed_def)


section \<open>Answers\<close>

text \<open>What a session relies on: its host refuses and fails with codes of the closed set.\<close>

locale control_host =
  fixes host :: "('s, 'w) session_host"
  assumes verdict_codes: "command \<in> set (host_commands host) \<Longrightarrow>
      allowed (EvaluateIn command s) \<or> pv_code (EvaluateIn command s) \<in> set AllErrorCodes"
    and outcome_codes: "command \<in> set (host_commands host) \<Longrightarrow> host_execute host command rq w = (outcome, w') \<Longrightarrow>
      oc_ok outcome \<or> oc_code outcome \<in> set AllErrorCodes"

definition answer_ok :: "ParsedRequest \<Rightarrow> qobject \<Rightarrow> bool" where
  "answer_ok rq resp \<longleftrightarrow>
     resp ''id'' = Some (QStr (rq_id rq)) \<and>
     (resp ''ok'' = Some (QBool True) \<and> resp ''protocol'' = Some (qint (rq_protocol rq)) \<or>
      resp ''ok'' = Some (QBool False) \<and>
      (\<exists>err code p. resp ''error'' = Some (QObj err) \<and> resp ''protocol'' = Some (qint p) \<and>
         err ''code'' = Some (QStr code) \<and> code \<in> set AllErrorCodes \<and>
         (p < 2 \<longrightarrow> code \<notin> {''invalid_state'', ''blocked'', ''operation_failed''})))"

lemma ErrorCodeForProtocol_known:
  assumes "code \<in> set AllErrorCodes"
  shows "ErrorCodeForProtocol code p \<in> set AllErrorCodes"
    and "p < 2 \<Longrightarrow> ErrorCodeForProtocol code p \<notin> {''invalid_state'', ''blocked'', ''operation_failed''}"
  using assms by (auto simp: ErrorCodeForProtocol_def set_AllErrorCodes)

lemma MakeErrorResponse_answer:
  assumes "ee_id e = rq_id rq" "ee_code e \<in> set AllErrorCodes"
  shows "answer_ok rq (MakeErrorResponse e)"
proof -
  have "error_object e ''code'' = Some (QStr (ErrorCodeForProtocol (ee_code e) (ee_protocol e)))"
    by (simp add: error_object_def Let_def)
  moreover have "MakeErrorResponse e ''id'' = Some (QStr (rq_id rq))"
    "MakeErrorResponse e ''ok'' = Some (QBool False)"
    "MakeErrorResponse e ''error'' = Some (QObj (error_object e))"
    "MakeErrorResponse e ''protocol'' = Some (qint (ee_protocol e))"
    using assms by (simp_all add: MakeErrorResponse_def put_opt_def split: option.splits)
  ultimately show ?thesis
    using ErrorCodeForProtocol_known [OF assms(2)] by (auto simp: answer_ok_def)
qed

lemma MakeSuccessResponse_answer:
  assumes "se_id e = rq_id rq" "se_protocol e = rq_protocol rq"
  shows "answer_ok rq (MakeSuccessResponse e)"
  using assms by (simp add: answer_ok_def MakeSuccessResponse_def put_opt_def split: option.splits)

lemma error_response_answer:
  "code \<in> set AllErrorCodes \<Longrightarrow> answer_ok rq (error_response p (rq_id rq) code msg)"
  by (simp add: error_response_def MakeErrorResponse_answer)

lemma FindCommandIn_member: "FindCommandIn commands name = Some command \<Longrightarrow> command \<in> set commands"
  by (auto simp: FindCommandIn_def find_Some_iff)

context control_host
begin

lemma run_command_answer:
  assumes "command \<in> set (host_commands host)" "run_command host w rq command = (resp, w')"
  shows "answer_ok rq resp"
proof (cases "ValidateParams (cd_name command) (cd_parameters command) (rq_params rq)")
  case (Some invalid)
  then show ?thesis
    using assms by (auto simp: run_command_def set_AllErrorCodes intro!: error_response_answer)
next
  case None
  show ?thesis
  proof (cases "allowed (EvaluateIn command (host_state host w))")
    case False
    then show ?thesis
      using assms None verdict_codes [OF assms(1), of "host_state host w"]
      by (auto simp: run_command_def refusal_response_def Let_def intro!: MakeErrorResponse_answer)
  next
    case True
    obtain outcome w1 where run: "host_execute host command rq w = (outcome, w1)"
      by fastforce
    then have "resp = outcome_response host w1 rq command outcome"
      using assms None True by (auto simp: run_command_def)
    then show ?thesis
      using outcome_codes [OF assms(1) run]
      by (auto simp: outcome_response_def intro!: MakeErrorResponse_answer MakeSuccessResponse_answer)
  qed
qed

lemma HandleHello_answer: "HandleHello host w s rq = (resp, s') \<Longrightarrow> answer_ok rq resp"
  by (auto simp: HandleHello_def set_AllErrorCodes split: if_split_asm qjson.split_asm
      intro!: error_response_answer MakeSuccessResponse_answer)

lemma Dispatch_answer:
  assumes "Dispatch host s rq w = (resp, s', w')"
  shows "answer_ok rq resp"
proof (cases "rq_command rq = ''system.hello''")
  case True
  then show ?thesis
    using assms HandleHello_answer [of w s rq] by (auto simp: Dispatch_def split: prod.split_asm)
next
  case False
  then show ?thesis
    using assms run_command_answer
    by (auto simp: Dispatch_def set_AllErrorCodes split: if_split_asm option.split_asm prod.split_asm
        intro!: error_response_answer dest: FindCommandIn_member)
qed

end

end
