(* ===== verification/UpdaterControl.thy ===== *)
theory UpdaterControl
  imports UpdateFlow ControlGuarantees
begin

text \<open>
  The updater's end of the control channel: which commands exist and when they are accepted
  (\<^verbatim>\<open>apps/updater/UpdaterCommandPolicy.cpp\<close>), their execution as intents
  (\<^verbatim>\<open>UpdaterControlDispatcher.cpp\<close>), the published state with its revision
  (\<^verbatim>\<open>UpdaterAutomation.cpp\<close>) and the exit code (\<^verbatim>\<open>UpdaterExitCode.cpp\<close>).
\<close>

section \<open>Preconditions\<close>

definition PhaseName :: "UpdatePhase \<Rightarrow> qjson" where
  "PhaseName p = QStr (UpdatePhaseName p)"

definition RequireManualMode :: "UpdateFlowState \<Rightarrow> string \<Rightarrow> PreconditionVerdict" where
  "RequireManualMode f command =
     (if fl_mode f = Manual then Allowed
      else Refuse ''invalid_state'' (command @ '' belongs to the manual flow; this process is running a handoff'')
             ''mode'' (QStr ''manual'') (QStr (UpdaterModeName (fl_mode f))))"

definition RequirePhase :: "UpdateFlowState \<Rightarrow> UpdatePhase \<Rightarrow> string \<Rightarrow> PreconditionVerdict" where
  "RequirePhase f required command =
     (if fl_phase f = required then Allowed
      else Refuse ''invalid_state'' (command @ '' requires the '' @ UpdatePhaseName required @ '' phase'')
             ''phase'' (PhaseName required) (PhaseName (fl_phase f)))"

text \<open>\<open>v\<close> unless it allows, else the continuation.\<close>

definition and_then :: "PreconditionVerdict \<Rightarrow> PreconditionVerdict \<Rightarrow> PreconditionVerdict" where
  "and_then v w = (if \<not> allowed v then v else w)"

definition CanCheck :: "UpdateFlowState \<Rightarrow> PreconditionVerdict" where
  "CanCheck f = and_then (RequireManualMode f ''updater.check'')
     (if \<not> checks_enabled f
      then Refuse ''blocked''
             ''This build does not check for updates; start it with --base-url to check against a specific feed''
             ''checksEnabled'' (QBool True) (QBool False)
      else if fl_phase f \<in> {PhIdle, PhUpToDate, UpdateAvailable, PhFailed, Cancelled} then Allowed
      else Refuse ''invalid_state'' (''updater.check cannot start while '' @ UpdatePhaseName (fl_phase f))
             ''phase'' (QStr ''idle|upToDate|updateAvailable|failed|cancelled'') (PhaseName (fl_phase f)))"

definition CanDownload :: "UpdateFlowState \<Rightarrow> PreconditionVerdict" where
  "CanDownload f = and_then (RequireManualMode f ''updater.download'')
     (RequirePhase f UpdateAvailable ''updater.download'')"

definition CanApply :: "UpdateFlowState \<Rightarrow> PreconditionVerdict" where
  "CanApply f = and_then (RequireManualMode f ''updater.apply'') (RequirePhase f ReadyToApply ''updater.apply'')"

definition CanRetry :: "UpdateFlowState \<Rightarrow> PreconditionVerdict" where
  "CanRetry f =
     (if retry_entry_step f \<noteq> None then Allowed
      else Refuse ''invalid_state'' ''There is no failure this run can re-enter'' ''retryEntryStep'' QNull QNull)"

definition CanCancel :: "UpdateFlowState \<Rightarrow> PreconditionVerdict" where
  "CanCancel f = (case fl_phase f of
       Downloading \<Rightarrow> Allowed
     | Applying \<Rightarrow> Refuse ''blocked'' (''The '' @ UpdatePhaseName (fl_phase f) @
           '' phase cannot be interrupted without risking the installation'')
           ''phase'' (QStr ''downloading'') (PhaseName (fl_phase f))
     | Verifying \<Rightarrow> Refuse ''blocked'' (''The '' @ UpdatePhaseName (fl_phase f) @
           '' phase cannot be interrupted without risking the installation'')
           ''phase'' (QStr ''downloading'') (PhaseName (fl_phase f))
     | Launching \<Rightarrow> Refuse ''blocked'' (''The '' @ UpdatePhaseName (fl_phase f) @
           '' phase cannot be interrupted without risking the installation'')
           ''phase'' (QStr ''downloading'') (PhaseName (fl_phase f))
     | Checking \<Rightarrow> Refuse ''blocked'' (''The '' @ UpdatePhaseName (fl_phase f) @
           '' phase does not observe cancellation; the request would be accepted and have no effect'')
           ''phase'' (QStr ''downloading'') (PhaseName (fl_phase f))
     | WaitingForParent \<Rightarrow> Refuse ''blocked'' (''The '' @ UpdatePhaseName (fl_phase f) @
           '' phase does not observe cancellation; the request would be accepted and have no effect'')
           ''phase'' (QStr ''downloading'') (PhaseName (fl_phase f))
     | _ \<Rightarrow> Refuse ''invalid_state'' ''Nothing is in flight to cancel'' ''phase'' (QStr ''downloading'')
           (PhaseName (fl_phase f)))"

definition CanClose :: "UpdateFlowState \<Rightarrow> PreconditionVerdict" where
  "CanClose f =
     (if fl_phase f \<in> {Applying, Verifying, Launching}
      then Refuse ''blocked'' (''The updater refuses to exit during '' @ UpdatePhaseName (fl_phase f))
             ''phase'' (QStr ''!applying|verifying|launching'') (PhaseName (fl_phase f))
      else Allowed)"

section \<open>The command table\<close>

definition query :: "string \<Rightarrow> int \<Rightarrow> CommandParameter list \<Rightarrow> UpdateFlowState CommandDescriptor" where
  "query name protocol params = \<lparr>cd_name = name, minimum_protocol = protocol, mutating = False, idempotent = True,
     cd_settle = NotApplicable, cd_parameters = params, cd_precondition = Some (\<lambda>_. Allowed)\<rparr>"

definition action :: "string \<Rightarrow> (UpdateFlowState \<Rightarrow> PreconditionVerdict) \<Rightarrow> UpdateFlowState CommandDescriptor" where
  "action name can = \<lparr>cd_name = name, minimum_protocol = 2, mutating = True, idempotent = True,
     cd_settle = Asynchronous, cd_parameters = [], cd_precondition = Some can\<rparr>"

definition AllCommands :: "UpdateFlowState CommandDescriptor list" where
  "AllCommands =
     [query ''system.hello'' 1 [\<lparr>cp_name = ''runId'', cp_type = ''string'', cp_required = True, cp_values = []\<rparr>],
      query ''system.capabilities'' 1 [],
      query ''ipc.describe'' 2 [],
      query ''updater.getState'' 2 [],
      action ''updater.check'' CanCheck,
      action ''updater.download'' CanDownload,
      action ''updater.apply'' CanApply,
      action ''updater.retry'' CanRetry,
      action ''updater.cancel'' CanCancel,
      action ''updater.close'' CanClose]"

definition AvailableActions :: "UpdateFlowState \<Rightarrow> string list" where
  "AvailableActions f = AvailableActionsIn AllCommands f"

section \<open>Publishing the state\<close>

definition OptionalString :: "string \<Rightarrow> qjson" where
  "OptionalString s = (if s = [] then QNull else QStr s)"

definition optional_name :: "('a \<Rightarrow> string) \<Rightarrow> 'a option \<Rightarrow> qjson" where
  "optional_name f x = (case x of None \<Rightarrow> QNull | Some v \<Rightarrow> QStr (f v))"

definition StateToJson :: "UpdateFlowState \<Rightarrow> u64 \<Rightarrow> qobject" where
  "StateToJson f revision =
     [''stateRevision'' \<mapsto> qrevision revision,
      ''mode'' \<mapsto> QStr (UpdaterModeName (fl_mode f)),
      ''phase'' \<mapsto> PhaseName (fl_phase f),
      ''installMode'' \<mapsto> QStr (if fl_install_mode f = Installed then ''installed'' else ''portable''),
      ''checksEnabled'' \<mapsto> QBool (checks_enabled f),
      ''failureCase'' \<mapsto> optional_name FailureCaseName (failure_case f),
      ''retryEntryStep'' \<mapsto> optional_name UpStepName (retry_entry_step f),
      ''installState'' \<mapsto> QStr (InstallStateName (install_state f)),
      ''rebootRequired'' \<mapsto> QBool (reboot_required f),
      ''currentVersion'' \<mapsto> OptionalString (fl_current_version f),
      ''targetVersion'' \<mapsto> OptionalString (fl_target_version f),
      ''updateTransactionId'' \<mapsto> OptionalString (update_transaction_id f),
      ''download'' \<mapsto> QObj [''receivedBytes'' \<mapsto> qrevision (downloaded_bytes f),
                          ''totalBytes'' \<mapsto> qrevision (total_bytes f)],
      ''availableActions'' \<mapsto> qstrings (AvailableActions f)]"

record UpdaterAutomation =
  au_state :: UpdateFlowState
  au_revision :: u64

definition RevisionBearingEqual :: "UpdateFlowState \<Rightarrow> UpdateFlowState \<Rightarrow> bool" where
  "RevisionBearingEqual a b \<longleftrightarrow>
     a\<lparr>downloaded_bytes := 0, total_bytes := 0\<rparr> = b\<lparr>downloaded_bytes := 0, total_bytes := 0\<rparr>"

definition Publish :: "UpdateFlowState \<Rightarrow> UpdaterAutomation \<Rightarrow> bool \<times> UpdaterAutomation" where
  "Publish f a =
     (let advanced = \<not> RevisionBearingEqual (au_state a) f;
          a = a\<lparr>au_state := f\<rparr> in
      (advanced, if advanced then a\<lparr>au_revision := au_revision a + 1\<rparr> else a))"

section \<open>Executing a command\<close>

text \<open>
  The source behind the channel: the state it publishes, and its intents by command name, which
  return \<open>None\<close> when accepted or the reason of the refusal, and may change the world.
\<close>

record 'w control_source =
  src_identity :: "'w \<Rightarrow> qobject"
  src_automation :: "'w \<Rightarrow> UpdaterAutomation"
  src_intent :: "string \<Rightarrow> 'w \<Rightarrow> string option \<times> 'w"

definition source_json :: "'w control_source \<Rightarrow> 'w \<Rightarrow> qobject" where
  "source_json src w = StateToJson (au_state (src_automation src w)) (au_revision (src_automation src w))"

definition IntentRefused ::
    "UpdateFlowState CommandDescriptor \<Rightarrow> 'w control_source \<Rightarrow> 'w \<Rightarrow> string \<Rightarrow> Outcome" where
  "IntentRefused command src w reason =
     (let verdict = EvaluateIn command (au_state (src_automation src w)) in
      if \<not> allowed verdict
      then FailedOutcome (pv_code verdict) (pv_message verdict) (pv_requirements verdict) (pv_actual verdict)
      else FailedOutcome ''operation_failed'' reason Map.empty Map.empty)"

definition EventNames :: "int \<Rightarrow> string list" where
  "EventNames protocol = (if 2 \<le> protocol then [''updater.stateChanged''] else [])"

definition Execute ::
    "'w control_source \<Rightarrow> UpdateFlowState CommandDescriptor \<Rightarrow> ParsedRequest \<Rightarrow> 'w \<Rightarrow> Outcome \<times> 'w" where
  "Execute src command rq w =
     (if cd_name command = ''system.capabilities'' then (Succeeded (CapabilitiesPayload AllCommands EventNames (rq_protocol rq)) True, w)
      else if cd_name command = ''ipc.describe'' then (Succeeded (DescribePayload AllCommands EventNames (rq_protocol rq)) True, w)
      else if cd_name command = ''updater.getState'' then (Succeeded (source_json src w) True, w)
      else if cd_name command \<in> {''updater.check'', ''updater.download'', ''updater.apply'', ''updater.retry'',
                ''updater.cancel'', ''updater.close''}
      then (case src_intent src (cd_name command) w of
              (Some reason, w) \<Rightarrow> (IntentRefused command src w reason, w)
            | (None, w) \<Rightarrow> (Succeeded (source_json src w) False, w))
      else (FailedOutcome ''unknown_command'' (''Command '' @ cd_name command @ '' is listed but not implemented'')
              Map.empty Map.empty, w))"

definition updater_host ::
    "'w control_source \<Rightarrow> (UpdateFlowState, 'w) session_host" where
  "updater_host src = \<lparr>
     host_identity = src_identity src, host_commands = AllCommands,
     host_events = EventNames,
     host_has_state = (\<lambda>_. True),
     host_state = (\<lambda>w. au_state (src_automation src w)),
     host_revision = (\<lambda>w. au_revision (src_automation src w)),
     host_state_json = StateToJson,
     host_execute = Execute src\<rparr>"

section \<open>The exit code\<close>

datatype UpdaterExit = ExitSuccess | UpdateFailed | UsageError | ExitUpToDate | ExitRebootRequired | ExitCancelled

definition exit_number :: "UpdaterExit \<Rightarrow> int" where
  "exit_number e = (case e of ExitSuccess \<Rightarrow> 0 | UpdateFailed \<Rightarrow> 1 | UsageError \<Rightarrow> 2 | ExitUpToDate \<Rightarrow> 3
     | ExitRebootRequired \<Rightarrow> 4 | ExitCancelled \<Rightarrow> 5)"

definition UpdaterExitCodeFor :: "UpdateFlowState \<Rightarrow> int" where
  "UpdaterExitCodeFor f = (case fl_phase f of
       Completed \<Rightarrow> exit_number ExitSuccess
     | RestartPending \<Rightarrow> exit_number ExitSuccess
     | RebootRequired \<Rightarrow> exit_number ExitRebootRequired
     | PhUpToDate \<Rightarrow> exit_number ExitUpToDate
     | PhFailed \<Rightarrow> exit_number UpdateFailed
     | _ \<Rightarrow> exit_number ExitCancelled)"

section \<open>Guarantees of the channel\<close>

lemmas verdict_simps = allowed_def Allowed_def Refuse_def and_then_def

definition verdict_ok :: "PreconditionVerdict \<Rightarrow> bool" where
  "verdict_ok v \<longleftrightarrow> allowed v \<or> pv_code v = ''invalid_state'' \<or> pv_code v = ''blocked''"

lemma verdict_ok_simps [simp]:
  "verdict_ok Allowed"
  "verdict_ok (Refuse ''invalid_state'' m r x y)"
  "verdict_ok (Refuse ''blocked'' m r x y)"
  by (simp_all add: verdict_ok_def allowed_def Allowed_def Refuse_def)

lemma verdict_ok_and_then: "verdict_ok v \<Longrightarrow> verdict_ok w \<Longrightarrow> verdict_ok (and_then v w)"
  by (simp add: and_then_def)

lemma verdict_ok_if: "(b \<Longrightarrow> verdict_ok v) \<Longrightarrow> (\<not> b \<Longrightarrow> verdict_ok w) \<Longrightarrow> verdict_ok (if b then v else w)"
  by simp

lemma verdict_ok_required: "verdict_ok (RequireManualMode f c)" "verdict_ok (RequirePhase f p c)"
  unfolding RequireManualMode_def RequirePhase_def by (rule verdict_ok_if; simp only: verdict_ok_simps)+

lemma verdict_ok_CanCheck: "verdict_ok (CanCheck f)"
  unfolding CanCheck_def
  by (intro verdict_ok_and_then verdict_ok_required verdict_ok_if verdict_ok_simps)

lemma verdict_ok_CanCancel: "verdict_ok (CanCancel f)"
  by (cases "fl_phase f"; simp only: CanCancel_def UpdatePhase.case verdict_ok_simps)

lemma verdict_ok_policies:
  "verdict_ok (CanDownload f)" "verdict_ok (CanApply f)" "verdict_ok (CanRetry f)" "verdict_ok (CanClose f)"
  unfolding CanDownload_def CanApply_def CanRetry_def CanClose_def
  by (intro verdict_ok_and_then verdict_ok_required verdict_ok_if verdict_ok_simps)+

lemma EvaluateIn_table:
  "EvaluateIn (query name p params) f = Allowed" "EvaluateIn (action name can) f = can f"
  by (simp_all add: EvaluateIn_def query_def action_def)

lemma updater_verdict_codes:
  assumes "command \<in> set AllCommands"
  shows "verdict_ok (EvaluateIn command f)"
  using assms unfolding AllCommands_def
  by (auto simp only: set_simps EvaluateIn_table verdict_ok_simps verdict_ok_CanCheck verdict_ok_CanCancel
      verdict_ok_policies)

lemma IntentRefused_code:
  assumes "command \<in> set AllCommands"
  shows "oc_code (IntentRefused command src w reason) \<in> {''invalid_state'', ''blocked'', ''operation_failed''}"
  using updater_verdict_codes [OF assms, of "au_state (src_automation src w)"]
  by (auto simp: IntentRefused_def FailedOutcome_def Let_def verdict_ok_def)

lemma updater_outcome_codes:
  assumes "command \<in> set AllCommands" "Execute src command rq w = (outcome, w')"
  shows "oc_ok outcome \<or> oc_code outcome \<in> set AllErrorCodes"
proof -
  define ok where "ok x \<longleftrightarrow> oc_ok (fst x) \<or> oc_code (fst x) \<in> set AllErrorCodes" for x :: "Outcome \<times> 'a"
  have split_if: "(b \<Longrightarrow> ok x) \<Longrightarrow> (\<not> b \<Longrightarrow> ok y) \<Longrightarrow> ok (if b then x else y)" for b x y
    by simp
  have basic: "ok (Succeeded p q, v)" "ok (FailedOutcome ''unknown_command'' m r s, v)"
    "ok (IntentRefused command src v reason, v)" for p q v m r s reason
    using IntentRefused_code [OF assms(1), of src v reason]
    by (auto simp: ok_def Succeeded_def FailedOutcome_def set_AllErrorCodes)
  have "ok (Execute src command rq w)"
    unfolding Execute_def
    by (intro split_if basic) (simp add: basic split: prod.split option.split)
  then show ?thesis
    using assms(2) by (simp add: ok_def)
qed

interpretation updater_channel: control_host "updater_host src"
proof
  fix command s
  assume "command \<in> set (host_commands (updater_host src))"
  then show "allowed (EvaluateIn command s) \<or> pv_code (EvaluateIn command s) \<in> set AllErrorCodes"
    using updater_verdict_codes [of command s] by (auto simp: updater_host_def set_AllErrorCodes verdict_ok_def)
next
  fix command rq w outcome w'
  assume "command \<in> set (host_commands (updater_host src))"
    "host_execute (updater_host src) command rq w = (outcome, w')"
  then show "oc_ok outcome \<or> oc_code outcome \<in> set AllErrorCodes"
    using updater_outcome_codes [of command src rq w outcome w'] by (simp add: updater_host_def)
qed

text \<open>
  Every request to the updater is answered under its own id, either with success in the
  request's protocol or with an error whose code is one of the published ones; a protocol-1
  client never receives a code that protocol does not have.
\<close>

theorem updater_answers_every_request:
  assumes "Dispatch (updater_host src) s rq w = (resp, s', w')"
  shows "resp ''id'' = Some (QStr (rq_id rq)) \<and>
    (resp ''ok'' = Some (QBool True) \<and> resp ''protocol'' = Some (qint (rq_protocol rq)) \<or>
     resp ''ok'' = Some (QBool False) \<and>
     (\<exists>err code p. resp ''error'' = Some (QObj err) \<and> resp ''protocol'' = Some (qint p) \<and>
        err ''code'' = Some (QStr code) \<and> code \<in> set AllErrorCodes \<and>
        (p < 2 \<longrightarrow> code \<notin> {''invalid_state'', ''blocked'', ''operation_failed''})))"
  using updater_channel.Dispatch_answer [OF assms] by (simp only: answer_ok_def)

definition demo_source :: "nat control_source" where
  "demo_source = \<lparr>src_identity = (\<lambda>_. Map.empty),
     src_automation = (\<lambda>_. \<lparr>au_state = initial_flow, au_revision = 0\<rparr>),
     src_intent = (\<lambda>_ w. (None, Suc w))\<rparr>"

theorem updater_answers_every_request_witness:
  "fst (Dispatch (updater_host demo_source) (new_session ''run'')
      (demo_request ''updater.apply'' Map.empty) 0) ''id'' = Some (QStr ''1'')"
proof -
  obtain resp s' w' where run: "Dispatch (updater_host demo_source) (new_session ''run'')
      (demo_request ''updater.apply'' Map.empty) 0 = (resp, s', w')"
    by (metis prod.exhaust)
  show ?thesis
    using updater_answers_every_request [OF run] run by (simp add: demo_request_def)
qed

section \<open>Guarantees of the flow\<close>

text \<open>The published failure fields say exactly what the failure matrix says of the failure.\<close>

definition flow_ok :: "UpdateFlowState \<Rightarrow> bool" where
  "flow_ok f \<longleftrightarrow>
     (case failure_case f of
        None \<Rightarrow> fl_phase f \<notin> {PhFailed, RebootRequired, RestartPending} \<and> retry_entry_step f = None \<and>
          install_state f = Intact \<and> \<not> reboot_required f
      | Some c \<Rightarrow> fl_phase f = PhaseForFailure c \<and>
          retry_entry_step f = (if RetryOffered c (fl_mode f) then Some (RetryEntryStep c) else None) \<and>
          install_state f = InstallStateForFailure c \<and> reboot_required f = (c = MsiRebootRequired))"

lemma flow_ok_setPhase:
  "phase \<notin> {PhFailed, RebootRequired, RestartPending} \<Longrightarrow> flow_ok (setPhase phase f)"
  by (simp add: flow_ok_def setPhase_def Let_def)

lemma PhaseForStep_running: "PhaseForStep s \<notin> {PhFailed, RebootRequired, RestartPending}"
  by (cases s) (simp_all add: PhaseForStep_def)

lemma fl_mode_setPhase [simp]: "fl_mode (setPhase phase f) = fl_mode f"
  by (simp add: setPhase_def Let_def)

lemma on_signal_flow:
  assumes "flow_ok (flow c)"
  shows "flow_ok (flow (on_signal c sig)) \<and> fl_mode (flow (on_signal c sig)) = fl_mode (flow c)"
proof (cases sig)
  case (SigStepStarted s)
  then show ?thesis
    using assms flow_ok_setPhase [OF PhaseForStep_running [of s]] by (simp add: on_signal_def onStepStarted_def)
next
  case (SigDownloadProgress got all_bytes)
  then show ?thesis
    using assms by (simp add: on_signal_def onDownloadProgress_def flow_ok_def Let_def split: option.splits)
next
  case (SigFailed fc detail)
  then show ?thesis
    by (simp add: on_signal_def onFailure_def failed_flow_def flow_ok_def Let_def)
qed (use assms in \<open>simp_all add: on_signal_def onIdle_def onCheckStarted_def onUpToDate_def onUpdateAvailable_def
  onCheckBlocked_def onCancelled_def onReadyToApply_def onStepDone_def onAllDone_def flow_ok_setPhase Let_def\<close>)

definition prepared_controller :: "string \<Rightarrow> string \<Rightarrow> UpdaterMode \<Rightarrow> InstallMode \<Rightarrow> bool \<Rightarrow> string \<Rightarrow> UpdaterController" where
  "prepared_controller from to mode install_mode enabled tid =
     setUpdateTransactionId tid (setContext install_mode enabled (setMode mode (new_controller from to)))"

lemma prepared_controller_flow:
  "flow_ok (flow (prepared_controller from to mode install_mode enabled tid)) \<and>
   fl_mode (flow (prepared_controller from to mode install_mode enabled tid)) = mode"
  by (simp add: prepared_controller_def setUpdateTransactionId_def setContext_def setMode_def new_controller_def
      initial_flow_def flow_ok_def)

lemma reachable_flow:
  assumes "c = fold (\<lambda>sig c. on_signal c sig) sigs (prepared_controller from to mode install_mode enabled tid)"
  shows "flow_ok (flow c) \<and> fl_mode (flow c) = mode"
proof -
  have "flow_ok (flow (fold (\<lambda>sig c. on_signal c sig) sigs d)) \<and>
      fl_mode (flow (fold (\<lambda>sig c. on_signal c sig) sigs d)) = fl_mode (flow d)"
    if "flow_ok (flow d)" for d
    using that
  proof (induction sigs arbitrary: d)
    case (Cons sig sigs)
    then show ?case
      using on_signal_flow [of d sig] by simp
  qed simp
  then show ?thesis
    using prepared_controller_flow assms by metis
qed

lemma available_iff:
  assumes "action name can \<in> set AllCommands"
  shows "name \<in> set (AvailableActions f) \<longleftrightarrow> allowed (can f)"
  using assms
  by (auto simp: AvailableActions_def AvailableActionsIn_def AllCommands_def action_def query_def EvaluateIn_def)



text \<open>
  The names on the wire identify the value: no two steps, modes, phases, failures or
  installation states share one.
\<close>

theorem names_identify_values:
  "inj UpStepName \<and> inj UpdaterModeName \<and> inj UpdatePhaseName \<and> inj FailureCaseName \<and> inj InstallStateName"
proof (intro conjI injI)
  show "s = t" if "UpStepName s = UpStepName t" for s t
    using that by (cases s; cases t) (simp_all add: UpStepName_def)
  show "s = t" if "UpdaterModeName s = UpdaterModeName t" for s t
    using that by (cases s; cases t) (simp_all add: UpdaterModeName_def)
  show "s = t" if "UpdatePhaseName s = UpdatePhaseName t" for s t
    using that by (cases s; cases t) (simp_all add: UpdatePhaseName_def)
  show "s = t" if "FailureCaseName s = FailureCaseName t" for s t
    using that by (cases s; cases t) (simp_all add: FailureCaseName_def)
  show "s = t" if "InstallStateName s = InstallStateName t" for s t
    using that by (cases s; cases t) (simp_all add: InstallStateName_def)
qed

end
