(* ===== verification/UpdaterView.thy ===== *)
theory UpdaterView
  imports UpdaterControl
begin

text \<open>
  The window's view of the controller (\<^verbatim>\<open>apps/updater/UpdaterViewAdapter.cpp\<close>): \<open>render\<close> derives
  every text, tone and button from the controller's state, \<open>requestClose\<close> and \<open>activateAction\<close>
  turn clicks into requests. The guarantees compare what the window allows with what the control
  channel publishes for the same state.
\<close>

section \<open>Rendering\<close>

record StepRow =
  row_label :: string
  row_status :: string
  row_tag :: string
  row_manual :: bool
  row_accessible :: string

record UpdaterView =
  vw_state :: UpdaterUiState
  eyebrow :: string
  failed_terminal :: bool
  indeterminate :: bool
  ring_percent :: int
  ring_tone :: string
  ring_glyph :: string
  ring_description :: string
  vw_status_line :: string
  status_headline :: string
  status_glyph :: string
  status_tone :: string
  status_text_visible :: bool
  step_rows :: "StepRow list"
  panel_kind :: string
  panel_tone :: string
  panel_glyph :: string
  panel_title :: string
  panel_detail :: string
  panel_safety :: string
  vw_primary :: string
  vw_secondary :: string
  hint :: string
  close_action_label :: string
  close_tooltip :: string
  close_accessible_name :: string
  close_action_visible :: bool
  close_action_enabled :: bool
  close_enabled :: bool
  close_blocked :: bool
  cancel_confirmation_required :: bool
  cancel_confirmation_visible :: bool

definition WidgetLabelForStatus :: "StepStatus \<Rightarrow> bool \<Rightarrow> string" where
  "WidgetLabelForStatus status by_hand = (case status of StepIsDone \<Rightarrow> ''done'' | Working \<Rightarrow> ''working''
     | StepHasFailed \<Rightarrow> if by_hand then ''manual'' else ''failed'' | Queued \<Rightarrow> ''queued'')"

definition StatusKey :: "StepStatus \<Rightarrow> string" where
  "StatusKey status = (case status of StepIsDone \<Rightarrow> ''done'' | Working \<Rightarrow> ''working''
     | StepHasFailed \<Rightarrow> ''failed'' | Queued \<Rightarrow> ''queued'')"

definition stepLabels :: "string list" where
  "stepLabels = [''Downloading update'', ''Closing previous version'', ''Installing new files'',
     ''Verifying installation'', ''Launching ExoSnap'']"

definition is_failed_terminal :: "UpdaterUiState \<Rightarrow> bool" where
  "is_failed_terminal u \<longleftrightarrow> variant u = Amber \<or> variant u = Red"

definition prompting :: "UpdaterUiState \<Rightarrow> bool" where
  "prompting u \<longleftrightarrow> prompt u \<noteq> PromptNone"

definition success_done :: "UpdaterUiState \<Rightarrow> bool" where
  "success_done u \<longleftrightarrow> variant u = Success"

definition eyebrow_for :: "UpdaterUiState \<Rightarrow> string" where
  "eyebrow_for u =
     (if is_failed_terminal u
      then (if ui_reinstall u then ''EXOSNAP WAS NOT REINSTALLED'' else ''EXOSNAP WAS NOT UPDATED'')
      else if prompting u
      then (if prompt u = PromptUpToDate then ''EXOSNAP IS UP TO DATE''
            else if prompt u = PromptCancelled then ''EXOSNAP WAS NOT UPDATED'' else ''EXOSNAP UPDATER'')
      else (if ui_reinstall u then ''REINSTALLING EXOSNAP'' else ''UPDATING EXOSNAP''))"

definition int_text :: "int \<Rightarrow> string" where
  "int_text n = (if n < 0 then CHR ''-'' # to_string (nat (- n)) else to_string (nat n))"

text \<open>\<^verbatim>\<open>qRound\<close> of a value that is not negative is the nearest integer, halves up.\<close>

definition render_ring :: "UpdaterUiState \<Rightarrow> UpdaterView \<Rightarrow> UpdaterView" where
  "render_ring u v =
     (let v = v\<lparr>indeterminate := (variant u = VariantNone \<and> \<not> determinate u),
                ring_percent := round (ui_ring u * 100)\<rparr> in
      if variant u = Amber
      then v\<lparr>ring_tone := ''warning'', ring_glyph := ''warning'', ring_description := ''Update didn't complete''\<rparr>
      else if variant u = Red
      then v\<lparr>ring_tone := ''error'', ring_glyph := ''cross'', ring_description := ''Update failed''\<rparr>
      else if variant u = Green \<or> variant u = Success \<or> variant u = VariantRebootRequired
      then v\<lparr>ring_tone := ''success'', ring_glyph := ''check'', ring_description := ''Update complete''\<rparr>
      else v\<lparr>ring_tone := ''accent'', ring_glyph := [],
             ring_description := (if indeterminate v then ''Preparing update, progress not measurable yet''
                                  else int_text (ring_percent v) @ '' percent'')\<rparr>)"

definition status_row :: "string \<Rightarrow> string \<Rightarrow> string \<Rightarrow> UpdaterView \<Rightarrow> UpdaterView" where
  "status_row glyph tone text v = v\<lparr>status_glyph := glyph, status_tone := tone, status_headline := text\<rparr>"

definition render_status :: "UpdaterUiState \<Rightarrow> UpdaterView \<Rightarrow> UpdaterView" where
  "render_status u v =
     (let v = v\<lparr>status_text_visible := \<not> prompting u\<rparr> in
      if prompting u then status_row [] ''neutral'' [] (v\<lparr>vw_status_line := []\<rparr>)
      else if variant u = VariantNone
      then status_row ''spinner'' ''accent'' [] (v\<lparr>vw_status_line := status_line u\<rparr>)
      else
        (let v = v\<lparr>vw_status_line := []\<rparr> in
         case variant u of
           Amber \<Rightarrow> status_row ''warning'' ''warning'' ''Update didn't complete'' v
         | Red \<Rightarrow> status_row ''cross'' ''error'' ''Update failed'' v
         | Green \<Rightarrow> status_row ''check'' ''success''
             (''Update complete '' @ em_dash @ '' version '' @ to_version u @ '' is ready'') v
         | VariantRebootRequired \<Rightarrow> status_row ''check'' ''success''
             (''Update installed '' @ em_dash @ '' restart Windows to finish'') v
         | Success \<Rightarrow> status_row ''check'' ''accent'' (''Update complete - version '' @ to_version u @ '' is ready'') v
         | VariantNone \<Rightarrow> v))"

definition step_row :: "UpdaterUiState \<Rightarrow> string \<times> StepStatus \<Rightarrow> StepRow" where
  "step_row u ls =
     (let by_hand = (variant u = Green \<and> snd ls = StepHasFailed) in
      \<lparr>row_label = fst ls, row_status = StatusKey (snd ls), row_tag = WidgetLabelForStatus (snd ls) by_hand,
       row_manual = by_hand, row_accessible = fst ls @ '', '' @ WidgetLabelForStatus (snd ls) by_hand\<rparr>)"

definition rebuildStepRows :: "UpdaterUiState \<Rightarrow> UpdaterView \<Rightarrow> UpdaterView" where
  "rebuildStepRows u v = v\<lparr>step_rows := map (step_row u) (zip stepLabels (ui_steps u))\<rparr>"

definition result_terminal :: "UpdaterUiState \<Rightarrow> bool" where
  "result_terminal u \<longleftrightarrow> prompting u \<or> (variant u \<noteq> VariantNone \<and> \<not> success_done u)"

definition result_tone :: "UpdaterUiState \<Rightarrow> string" where
  "result_tone u =
     (if prompting u
      then (if prompt u = PromptUpToDate then ''success''
            else if prompt u = PromptCancelled then ''neutral'' else ''accent'')
      else if variant u = Red then ''error''
      else if variant u = Green \<or> variant u = VariantRebootRequired then ''success'' else ''warning'')"

definition result_glyph :: "UpdaterUiState \<Rightarrow> string" where
  "result_glyph u =
     (if prompting u
      then (case prompt u of PromptIdle \<Rightarrow> ''shield'' | PromptUpdateAvailable \<Rightarrow> ''download''
            | PromptReadyToApply \<Rightarrow> ''layers'' | PromptCancelled \<Rightarrow> ''dot''
            | PromptUpToDate \<Rightarrow> ''check'' | PromptNone \<Rightarrow> ''check'')
      else if variant u = Amber then ''warning'' else if variant u = Red then ''cross'' else ''check'')"

definition panel :: "string \<Rightarrow> string \<Rightarrow> string \<Rightarrow> string \<Rightarrow> string \<Rightarrow> UpdaterView \<Rightarrow> UpdaterView" where
  "panel tone glyph title detail safety v = v\<lparr>panel_tone := tone, panel_glyph := glyph, panel_title := title,
     panel_detail := detail, panel_safety := safety\<rparr>"

text \<open>The first step marked as working, \<^verbatim>\<open>Count\<close> if there is none.\<close>

definition active_step :: "UpdaterUiState \<Rightarrow> UpStep" where
  "active_step u =
     (case find (\<lambda>p. snd p = Working)
        (zip [StepDownload, StepCloseApp, StepInstall, StepVerify, StepLaunch] (ui_steps u)) of
        Some p \<Rightarrow> fst p | None \<Rightarrow> StepCount)"

definition working_panel :: "UpdaterUiState \<Rightarrow> UpStep \<Rightarrow> UpdaterView \<Rightarrow> UpdaterView" where
  "working_panel u active = (case active of
       StepDownload \<Rightarrow> panel ''accent'' ''download''
         (if ui_reinstall u then ''Downloading update again'' else ''Downloading update'')
         ''Fetching and checking the signed update.''
         ''Your installed version remains unchanged until installation begins.''
     | StepCloseApp \<Rightarrow> panel ''accent'' ''close'' ''Closing previous version'' ''Waiting for ExoSnap to close.''
         ''The verified package is ready before ExoSnap closes.''
     | StepInstall \<Rightarrow> panel ''accent'' ''layers''
         (if ui_reinstall u then ''Reinstalling ExoSnap'' else ''Installing new files'')
         ''Replacing the application files.'' ''Keep your computer on while the application files are replaced.''
     | StepVerify \<Rightarrow> panel ''accent'' ''shield'' ''Verifying installation'' ''Checking the installed files.''
         ''The installed files are checked against the signed release.''
     | StepLaunch \<Rightarrow> panel ''accent'' ''spinner'' ''Launching ExoSnap'' ''Starting the updated app.''
         ''ExoSnap reopens automatically when the handoff completes.''
     | StepCount \<Rightarrow> panel ''accent'' ''spinner'' ''Preparing update'' ''Getting the updater ready.''
         ''Your installed version remains unchanged.'')"

definition render_panel :: "UpdaterUiState \<Rightarrow> UpdaterView \<Rightarrow> UpdaterView" where
  "render_panel u v =
     (if result_terminal u
      then panel (result_tone u) (result_glyph u) (headline u) (detail_text u) (safety_text u)
             (v\<lparr>panel_kind := ''result''\<rparr>)
      else if success_done u
      then panel ''success'' ''check'' (''Version '' @ to_version u @ '' is ready'')
             ''The update is installed and verified.'' ''ExoSnap is starting automatically.''
             (v\<lparr>panel_kind := ''working''\<rparr>)
      else working_panel u (active_step u) (v\<lparr>panel_kind := ''working''\<rparr>))"

definition step_working :: "UpdaterUiState \<Rightarrow> UpStep \<Rightarrow> bool" where
  "step_working u s \<longleftrightarrow> ui_steps u ! step_index s = Working"

definition critical :: "UpdaterUiState \<Rightarrow> bool" where
  "critical u \<longleftrightarrow> step_working u StepInstall \<or> step_working u StepVerify \<or> step_working u StepLaunch"

definition close_button :: "bool \<Rightarrow> string \<Rightarrow> bool \<Rightarrow> string \<Rightarrow> UpdaterView \<Rightarrow> UpdaterView" where
  "close_button visible label enabled text v = v\<lparr>close_action_visible := visible, close_action_label := label,
     close_action_enabled := enabled, hint := text\<rparr>"

definition render_actions :: "UpdaterUiState \<Rightarrow> UpdaterView \<Rightarrow> UpdaterView" where
  "render_actions u v =
     (let v = v\<lparr>vw_primary := (if result_terminal u then primary_action u else []),
                vw_secondary := (if result_terminal u then secondary_action u else [])\<rparr> in
      if result_terminal u then close_button False [] True [] v
      else if success_done u then close_button True ''Close'' True [] v
      else if \<not> critical u then close_button True ''Cancel update'' True ''Cancelling discards this update run.'' v
      else close_button True ''Close'' False ''This phase cannot be interrupted.'' v)"

definition settled :: "UpdaterUiState \<Rightarrow> bool" where
  "settled u \<longleftrightarrow> variant u \<noteq> VariantNone \<or> prompting u"

definition render_close :: "UpdaterUiState \<Rightarrow> UpdaterView \<Rightarrow> UpdaterView" where
  "render_close u v =
     (let required = (\<not> settled u \<and> \<not> critical u) in
      v\<lparr>close_blocked := critical u,
        close_enabled := \<not> critical u,
        close_tooltip := (if critical u then ''Please wait - updating''
          else if settled u then ''Close'' else ''Cancel update and close''),
        close_accessible_name := (if critical u then ''Close unavailable while updating''
          else if settled u then ''Close updater'' else ''Cancel update and close''),
        cancel_confirmation_required := required,
        cancel_confirmation_visible := (cancel_confirmation_visible v \<and> required)\<rparr>)"

definition render :: "UpdaterUiState \<Rightarrow> UpdaterView \<Rightarrow> UpdaterView" where
  "render u v = render_close u (render_actions u (render_panel u (rebuildStepRows u (render_status u (render_ring u
     (v\<lparr>vw_state := u, failed_terminal := is_failed_terminal u, eyebrow := eyebrow_for u\<rparr>))))))"

section \<open>Clicks\<close>

datatype ViewSignal =
  RetryRequested | OpenExoSnapRequested | CheckRequested | DownloadRequested | ApplyRequested
| CloseRequested | CancelConfirmationRequested

definition footerButtonLabels :: "UpdaterView \<Rightarrow> string list" where
  "footerButtonLabels v =
     (if close_action_visible v then [close_action_label v]
      else (if vw_primary v \<noteq> [] then [vw_primary v] else []) @
           (if vw_secondary v \<noteq> [] then [vw_secondary v] else []))"

definition requestClose :: "UpdaterView \<Rightarrow> bool \<times> ViewSignal list \<times> UpdaterView" where
  "requestClose v =
     (if close_blocked v then (False, [], v)
      else if cancel_confirmation_required v
      then (False, [CancelConfirmationRequested], v\<lparr>cancel_confirmation_visible := True\<rparr>)
      else (True, [CloseRequested], v))"

definition confirmCancelAndClose :: "UpdaterView \<Rightarrow> ViewSignal list \<times> UpdaterView" where
  "confirmCancelAndClose v = ([CloseRequested],
     v\<lparr>cancel_confirmation_required := False, cancel_confirmation_visible := False\<rparr>)"

definition dismissCancelConfirmation :: "UpdaterView \<Rightarrow> UpdaterView" where
  "dismissCancelConfirmation v = v\<lparr>cancel_confirmation_visible := False\<rparr>"

definition activateAction :: "string \<Rightarrow> UpdaterView \<Rightarrow> ViewSignal list \<times> UpdaterView" where
  "activateAction a v =
     (if a = ''Retry'' \<or> a = ''Re-download'' then ([RetryRequested], v)
      else if a = ''Open ExoSnap'' then ([OpenExoSnapRequested], v)
      else if a = ''Check for updates'' \<or> a = ''Check again'' then ([CheckRequested], v)
      else if a = ''Download update'' then ([DownloadRequested], v)
      else if a = ''Install now'' then ([ApplyRequested], v)
      else if a = close_action_label v \<and> close_action_visible v \<and> close_action_enabled v
      then snd (requestClose v)
      else ([CloseRequested], v))"

section \<open>What the window offers\<close>

lemma render_fields [simp]:
  "close_blocked (render u v) = critical u"
  "cancel_confirmation_required (render u v) = (\<not> settled u \<and> \<not> critical u)"
  by (simp_all add: render_def render_close_def Let_def)

lemma render_actions_fields [simp]:
  "vw_primary (render u v) = (if result_terminal u then primary_action u else [])"
  "vw_secondary (render u v) = (if result_terminal u then secondary_action u else [])"
  "close_action_visible (render u v) = (\<not> result_terminal u)"
  by (simp_all add: render_def render_close_def render_actions_def close_button_def Let_def)

lemma failure_card_variant:
  "variant (failure_card fc detail f u) \<noteq> VariantNone" "variant (failure_card fc detail f u) \<noteq> Success"
  by (cases fc; simp only: failure_card_def FailureCase.case card_def, simp)+

lemma failure_card_frame [simp]:
  "prompt (failure_card fc detail f u) = prompt u" "ui_steps (failure_card fc detail f u) = ui_steps u"
  by (cases fc; simp only: failure_card_def FailureCase.case card_def, simp)+

text \<open>The primary button of a failure card offers the retry the matrix grants, and no other.\<close>

lemma failure_card_primary:
  assumes "retry_entry_step f = (if RetryOffered fc mode then Some (RetryEntryStep fc) else None)"
  shows "primary_action (failure_card fc detail f u) =
    (if fc = LaunchFailed then ''Open ExoSnap'' else if retry_entry_step f = None then ''Close''
     else if fc = VerifyDownloadFailed then ''Re-download'' else ''Retry'')"
  using assms
  by (cases fc; simp only: failure_card_def FailureCase.case card_def RetryOffered_def, simp split: if_splits)

lemma failure_card_secondary:
  "secondary_action (failure_card fc detail f u) \<in> {[], ''Close''}"
  by (cases fc; simp only: failure_card_def FailureCase.case card_def, simp)

definition primary_for :: "FailureCase \<Rightarrow> UpdateFlowState \<Rightarrow> string" where
  "primary_for fc f =
     (if fc = LaunchFailed then ''Open ExoSnap'' else if retry_entry_step f = None then ''Close''
      else if fc = VerifyDownloadFailed then ''Re-download'' else ''Retry'')"

text \<open>The card belongs to the published state.\<close>

definition card_ok :: "UpdaterController \<Rightarrow> bool" where
  "card_ok c \<longleftrightarrow>
     (\<forall>fc. failure_case (flow c) = Some fc \<longrightarrow> result_terminal (ui c) \<and>
        primary_action (ui c) = primary_for fc (flow c) \<and> secondary_action (ui c) \<in> {[], ''Close''}) \<and>
     (fl_phase (flow c) = UpdateAvailable \<longrightarrow> result_terminal (ui c) \<and>
        primary_action (ui c) = ''Download update'' \<and> secondary_action (ui c) = ''Close'') \<and>
     (fl_phase (flow c) = ReadyToApply \<longrightarrow> result_terminal (ui c) \<and>
        primary_action (ui c) = ''Install now'' \<and> secondary_action (ui c) = ''Close'')"

lemma result_terminal_prompt: "prompt u \<noteq> PromptNone \<Longrightarrow> result_terminal u"
  by (simp add: result_terminal_def prompting_def)

lemma card_fields [simp]:
  "variant (card v h d s p q u) = v" "primary_action (card v h d s p q u) = p"
  "secondary_action (card v h d s p q u) = q" "prompt (card v h d s p q u) = prompt u"
  "ui_steps (card v h d s p q u) = ui_steps u"
  by (simp_all add: card_def)

lemma setPhase_fields [simp]:
  "fl_phase (setPhase p f) = p"
  "p \<notin> {PhFailed, RebootRequired, RestartPending} \<Longrightarrow> failure_case (setPhase p f) = None"
  by (simp_all add: setPhase_def Let_def)

lemma card_ok_prompt:
  assumes "fl_phase (flow c) = UpdateAvailable \<longrightarrow> result_terminal (ui c) \<and>
        primary_action (ui c) = ''Download update'' \<and> secondary_action (ui c) = ''Close''"
    "fl_phase (flow c) = ReadyToApply \<longrightarrow> result_terminal (ui c) \<and>
        primary_action (ui c) = ''Install now'' \<and> secondary_action (ui c) = ''Close''"
    "failure_case (flow c) = None"
  shows "card_ok c"
  using assms by (simp add: card_ok_def)

lemma card_ok_onFailure: "card_ok (onFailure fc detail c)"
proof -
  have "fl_phase (failed_flow fc f) \<notin> {UpdateAvailable, ReadyToApply}" for f
    by (cases fc) (simp_all add: failed_flow_def PhaseForFailure_def)
  moreover have "retry_entry_step (failed_flow fc (flow c)) =
      (if RetryOffered fc (fl_mode (flow c)) then Some (RetryEntryStep fc) else None)"
    by (simp add: failed_flow_def)
  ultimately show ?thesis
    using failure_card_variant failure_card_secondary
    by (simp add: card_ok_def onFailure_def Let_def failure_card_primary primary_for_def result_terminal_def
        success_done_def failed_flow_def)
qed

lemma card_ok_on_signal:
  assumes "card_ok c"
  shows "card_ok (on_signal c sig)"
proof (cases sig)
  case (SigStepStarted s)
  have "PhaseForStep s \<notin> {UpdateAvailable, ReadyToApply}"
    by (cases s) (simp_all add: PhaseForStep_def)
  then show ?thesis
    using assms SigStepStarted PhaseForStep_running [of s]
    by (auto simp: on_signal_def onStepStarted_def card_ok_def)
next
  case (SigDownloadProgress got all_bytes)
  then show ?thesis
    using assms by (auto simp: on_signal_def onDownloadProgress_def card_ok_def Let_def result_terminal_def
        prompting_def success_done_def primary_for_def)
next
  case (SigStepDone s)
  then show ?thesis
    using assms by (simp add: on_signal_def onStepDone_def card_ok_def result_terminal_def prompting_def
        success_done_def)
next
  case (SigFailed fc detail)
  then show ?thesis
    by (simp add: on_signal_def card_ok_onFailure)
qed (simp_all add: on_signal_def card_ok_def onIdle_def onCheckStarted_def onUpToDate_def onUpdateAvailable_def
  onCheckBlocked_def onCancelled_def onReadyToApply_def onAllDone_def result_terminal_prompt Let_def)

lemma card_ok_prepared: "card_ok (prepared_controller from to mode install_mode enabled tid)"
  by (simp add: card_ok_def prepared_controller_def setUpdateTransactionId_def setContext_def setMode_def
      setVerificationReinstall_def new_controller_def initial_flow_def)

lemma card_ok_reachable:
  assumes "c = fold (\<lambda>sig c. on_signal c sig) sigs (prepared_controller from to mode install_mode enabled tid)"
  shows "card_ok c"
proof -
  have "card_ok (fold (\<lambda>sig c. on_signal c sig) sigs d)" if "card_ok d" for d
    using that by (induction sigs arbitrary: d) (simp_all add: card_ok_on_signal)
  then show ?thesis
    using assms card_ok_prepared by metis
qed

text \<open>The requests the buttons of the footer send when they are clicked.\<close>

definition offered :: "UpdaterView \<Rightarrow> ViewSignal list" where
  "offered v = concat (map (\<lambda>a. fst (activateAction a v)) (footerButtonLabels v))"

lemma offered_result:
  assumes "result_terminal u"
  shows "offered (render u v) =
    (if primary_action u \<noteq> [] then fst (activateAction (primary_action u) (render u v)) else []) @
    (if secondary_action u \<noteq> [] then fst (activateAction (secondary_action u) (render u v)) else [])"
  using assms by (simp add: offered_def footerButtonLabels_def)

lemma activate_close:
  assumes "result_terminal u"
  shows "fst (activateAction ''Close'' (render u v)) = [CloseRequested]"
  using assms by (simp add: activateAction_def)

lemma activate_named:
  "fst (activateAction ''Retry'' v) = [RetryRequested]" "fst (activateAction ''Re-download'' v) = [RetryRequested]"
  "fst (activateAction ''Open ExoSnap'' v) = [OpenExoSnapRequested]"
  "fst (activateAction ''Download update'' v) = [DownloadRequested]"
  "fst (activateAction ''Install now'' v) = [ApplyRequested]"
  by (simp_all add: activateAction_def)

lemma CanRetry_iff: "allowed (CanRetry f) \<longleftrightarrow> retry_entry_step f \<noteq> None"
  by (simp add: verdict_simps CanRetry_def)

lemma CanDownload_iff: "allowed (CanDownload f) \<longleftrightarrow> fl_mode f = Manual \<and> fl_phase f = UpdateAvailable"
  by (simp add: verdict_simps CanDownload_def RequireManualMode_def RequirePhase_def)

lemma CanApply_iff: "allowed (CanApply f) \<longleftrightarrow> fl_mode f = Manual \<and> fl_phase f = ReadyToApply"
  by (simp add: verdict_simps CanApply_def RequireManualMode_def RequirePhase_def)

lemma CanClose_iff: "allowed (CanClose f) \<longleftrightarrow> fl_phase f \<notin> {Applying, Verifying, Launching}"
  by (simp add: verdict_simps CanClose_def)

lemma offered_failure:
  assumes "card_ok c" "failure_case (flow c) = Some fc"
  shows "set (offered (render (ui c) v)) \<subseteq>
      {if fc = LaunchFailed then OpenExoSnapRequested else if retry_entry_step (flow c) = None then CloseRequested
       else RetryRequested, CloseRequested}"
    and "(if fc = LaunchFailed then OpenExoSnapRequested else if retry_entry_step (flow c) = None then CloseRequested
       else RetryRequested) \<in> set (offered (render (ui c) v))"
proof -
  have terminal: "result_terminal (ui c)" and first: "primary_action (ui c) = primary_for fc (flow c)"
    and second: "secondary_action (ui c) = [] \<or> secondary_action (ui c) = ''Close''"
    using assms by (auto simp: card_ok_def)
  have "fst (activateAction (primary_action (ui c)) (render (ui c) v)) =
      [if fc = LaunchFailed then OpenExoSnapRequested else if retry_entry_step (flow c) = None then CloseRequested
       else RetryRequested]" "primary_action (ui c) \<noteq> []"
    using first by (simp_all add: primary_for_def activate_named activate_close [OF terminal])
  then show "set (offered (render (ui c) v)) \<subseteq>
      {if fc = LaunchFailed then OpenExoSnapRequested else if retry_entry_step (flow c) = None then CloseRequested
       else RetryRequested, CloseRequested}"
    "(if fc = LaunchFailed then OpenExoSnapRequested else if retry_entry_step (flow c) = None then CloseRequested
       else RetryRequested) \<in> set (offered (render (ui c) v))"
    using second by (auto simp: offered_result [OF terminal] activate_close [OF terminal])
qed



section \<open>Closing the window\<close>

lemma step_index_less: "s \<noteq> StepCount \<Longrightarrow> step_index s < 5"
  by (cases s) (simp_all add: step_index_def)

lemma step_index_inject [simp]: "step_index s = step_index t \<longleftrightarrow> s = t"
  by (cases s; cases t) (simp_all add: step_index_def)

lemma FailedStepFor_step: "FailedStepFor fc \<noteq> StepCount"
  by (cases fc) (simp_all add: FailedStepFor_def)

lemma ui_onFailure:
  "ui_steps (ui (onFailure fc detail c)) = (ui_steps (ui c))[step_index (FailedStepFor fc) :=
     (if fc = MsiRebootRequired then StepIsDone else StepHasFailed)]"
  by (simp add: onFailure_def Let_def)

lemma working_after_failure:
  assumes "length (ui_steps (ui c)) = 5" "Working \<notin> set (ui_steps (ui c))" "s \<noteq> StepCount" "r \<noteq> StepCount"
  shows "step_working (ui (onFailure fc detail (onStepStarted s c))) r \<longleftrightarrow> r = s \<and> FailedStepFor fc \<noteq> s"
proof -
  have "ui_steps (ui c) ! step_index r \<noteq> Working"
    using assms step_index_less [OF assms(4)] by (metis nth_mem)
  then show ?thesis
    using assms step_index_less [of s] step_index_less [of r] FailedStepFor_step [of fc]
    by (auto simp: step_working_def ui_onFailure onStepStarted_def nth_list_update step_index_less)
qed

text \<open>
  After a step fails, the channel lets the updater close, and so does the window, except when
  a failure of another step's kind ends the install, verify or launch step: then that step
  stays marked as running, and the window keeps refusing to close.
\<close>

theorem window_close_after_a_failure:
  assumes "length (ui_steps (ui c)) = 5" "Working \<notin> set (ui_steps (ui c))" "s \<noteq> StepCount"
  shows "allowed (CanClose (flow (onFailure fc detail (onStepStarted s c)))) \<and>
    (let v = render (ui (onFailure fc detail (onStepStarted s c))) v in
     requestClose v = (if s \<in> {StepInstall, StepVerify, StepLaunch} \<and> FailedStepFor fc \<noteq> s
                       then (False, [], v) else (True, [CloseRequested], v)))"
proof -
  let ?c = "onFailure fc detail (onStepStarted s c)"
  have "fl_phase (flow ?c) \<notin> {Applying, Verifying, Launching}"
    by (cases fc) (simp_all add: onFailure_def failed_flow_def PhaseForFailure_def Let_def)
  moreover have "critical (ui ?c) \<longleftrightarrow> s \<in> {StepInstall, StepVerify, StepLaunch} \<and> FailedStepFor fc \<noteq> s"
    by (auto simp: critical_def working_after_failure [OF assms])
  moreover have "settled (ui ?c)"
    using failure_card_variant by (simp add: settled_def onFailure_def Let_def)
  ultimately show ?thesis
    by (simp add: CanClose_iff requestClose_def Let_def)
qed

theorem window_close_after_a_failure_witness:
  "\<forall>v. \<not> fst (requestClose (render (ui (onFailure VerifyInstallFailed [] (onStepStarted StepInstall
     (prepared_controller ''1'' ''2'' Manual Portable True [])))) v))"
proof
  fix v
  let ?c = "prepared_controller ''1'' ''2'' Manual Portable True []"
  have "length (ui_steps (ui ?c)) = 5" "Working \<notin> set (ui_steps (ui ?c))"
    by (simp_all add: prepared_controller_def setUpdateTransactionId_def setContext_def setMode_def
        setVerificationReinstall_def new_controller_def initial_ui_def)
  from window_close_after_a_failure [OF this, of StepInstall VerifyInstallFailed "[]" v]
  show "\<not> fst (requestClose (render (ui (onFailure VerifyInstallFailed [] (onStepStarted StepInstall ?c))) v))"
    by (simp add: Let_def FailedStepFor_def)
qed

end
