(* ===== verification/UpdaterWorker.thy ===== *)
theory UpdaterWorker
  imports UpdateFlow SwapEngine
begin

text \<open>
  The update pipeline, \<^verbatim>\<open>apps/updater/UpdaterWorker.cpp\<close>: resolve, fetch, gate, stage, close the
  running application, install (portable swap or MSI), verify, launch.

  The operating system and the libraries are the record \<open>system\<close> of functions over an arbitrary
  world \<open>'w\<close>. A step of the pipeline maps the state of the run to its next state and either a
  value or the signal with which the source leaves the step early; it is \<open>None\<close> only if a rename
  loop does not end. Signals that do not end the run are appended to \<open>sent\<close> where the source
  emits them.
\<close>

section \<open>Arguments and the system\<close>

record UpdaterArgs =
  ua_mode :: UpdaterMode
  ua_channel :: UpdateChannel
  ua_install_mode :: InstallMode
  ua_install_dir :: string
  ua_app_pid :: u32
  ua_current_version :: string
  ua_target_version :: string
  ua_update_transaction_id :: string
  ua_manifest_path :: string
  ua_manifest_signature_path :: string
  ua_base_url :: string
  ua_verify_reinstall :: bool

record ('w, 'j) system =
  disk :: "'w disk_api"
  json :: "'j json_api"
  note_order :: note_sort
  https :: "'w https_get"
  signature_check :: ed25519
  public_key :: "u8 list"
  official_build :: bool
  temp_directory :: "'w \<Rightarrow> string option"
  create_directories :: "'w \<Rightarrow> string \<Rightarrow> bool \<times> 'w"
  read_file :: "'w \<Rightarrow> string \<Rightarrow> string option"
  remove_file :: "'w \<Rightarrow> string \<Rightarrow> 'w"
  is_directory :: "'w \<Rightarrow> string \<Rightarrow> bool"
  directory_entries :: "'w \<Rightarrow> string \<Rightarrow> string list"
  DownloadToFile :: "'w \<Rightarrow> string \<Rightarrow> string \<Rightarrow> string option \<times> (int \<times> u64 \<times> u64) list \<times> 'w"
  ExtractZip :: "'w \<Rightarrow> string \<Rightarrow> string \<Rightarrow> string option \<times> 'w"
  cancel_requested :: "'w \<Rightarrow> bool"
  clear_cancel :: "'w \<Rightarrow> 'w"
  OpenPackageWriteLock :: "'w \<Rightarrow> string \<Rightarrow> nat option \<times> 'w"
  ClosePackageLock :: "'w \<Rightarrow> nat \<Rightarrow> 'w"
  handle_sha256 :: "'w \<Rightarrow> nat \<Rightarrow> string"
  top_level_windows :: "'w \<Rightarrow> nat TopLevelWindow list"
  post_handoff :: "'w \<Rightarrow> nat \<Rightarrow> 'w"
  WaitForProcessExit :: "'w \<Rightarrow> u32 \<Rightarrow> bool \<times> 'w"
  instance_mutex_present :: "'w \<Rightarrow> bool"
  wait_instance_mutex :: "'w \<Rightarrow> bool \<times> 'w"
  injected_uac_decline :: "'w \<Rightarrow> bool"
  shell_execute_runas :: "'w \<Rightarrow> string \<Rightarrow> (u32 + nat option) \<times> 'w"
  WaitForProcessOrCancel :: "'w \<Rightarrow> nat \<Rightarrow> bool \<times> 'w"
  process_exit_code :: "'w \<Rightarrow> nat \<Rightarrow> u32"
  ReadInstallPath :: "'w \<Rightarrow> string option"
  create_process :: "'w \<Rightarrow> string \<Rightarrow> string \<Rightarrow> bool \<times> 'w"

section \<open>Planning helpers\<close>

definition safe_component_char :: "char \<Rightarrow> bool" where
  "safe_component_char c =
     (let n = of_char c :: nat in
      48 \<le> n \<and> n \<le> 57 \<or> 97 \<le> n \<and> n \<le> 122 \<or> 65 \<le> n \<and> n \<le> 90 \<or> c = CHR ''-'' \<or> c = CHR ''_'')"

definition SanitizePathComponent :: "string \<Rightarrow> string" where
  "SanitizePathComponent v =
     (let out = map (\<lambda>c. if safe_component_char c then c else CHR ''.'') v in
      if list_all (\<lambda>c. c = CHR ''.'') out then ''handoff'' else out)"

definition kExeName :: string where
  "kExeName = ''exosnap.exe''"

definition ResolveStagedRoot :: "('w, 'j) system \<Rightarrow> 'w \<Rightarrow> string \<Rightarrow> string option" where
  "ResolveStagedRoot sys w extract_dir =
     (if \<not> is_directory sys w extract_dir then None
      else if path_exists (disk sys) w (path_join extract_dir kExeName) then Some extract_dir
      else
        case directory_entries sys w extract_dir of
          [entry] \<Rightarrow>
            if \<not> is_directory sys w entry then None
            else if \<not> path_exists (disk sys) w (path_join entry kExeName) then None
            else Some entry
        | _ \<Rightarrow> None)"

definition VersionsMatchExactly :: "string \<Rightarrow> string \<Rightarrow> bool" where
  "VersionsMatchExactly a b \<longleftrightarrow> a \<noteq> [] \<and> b \<noteq> [] \<and> a = b"

definition VerificationReinstallAccepts :: "bool \<Rightarrow> string \<Rightarrow> string \<Rightarrow> bool" where
  "VerificationReinstallAccepts verify_reinstall offered current =
     (if \<not> verify_reinstall then True else VersionsMatchExactly offered current)"

definition TargetVersionAccepts :: "string \<Rightarrow> string \<Rightarrow> bool" where
  "TargetVersionAccepts target offered =
     (if target = [] then True else VersionsMatchExactly offered target)"

definition BuildMsiexecParams :: "string \<Rightarrow> bool \<Rightarrow> string" where
  "BuildMsiexecParams msi_path reinstall =
     ''/i '' @ quoted msi_path @ '' /qn /norestart'' @
     (if reinstall then '' REINSTALL=ALL REINSTALLMODE=vomus'' else [])"

datatype MsiExitClass = MsiSuccess | MsiReboot | MsiError

definition ClassifyMsiExit :: "u32 \<Rightarrow> MsiExitClass" where
  "ClassifyMsiExit code = (if code = 0 then MsiSuccess else if code = 3010 then MsiReboot else MsiError)"

definition UpdateChecksEnabled :: "('w, 'j) system \<Rightarrow> UpdaterArgs \<Rightarrow> bool" where
  "UpdateChecksEnabled sys args \<longleftrightarrow> official_build sys \<or> ua_base_url args \<noteq> []"

definition LaunchExoSnapFrom :: "('w, 'j) system \<Rightarrow> 'w \<Rightarrow> string \<Rightarrow> bool \<times> 'w" where
  "LaunchExoSnapFrom sys w dir = create_process sys w (path_join dir kExeName) dir"

text \<open>The recursive delete of this file: true if the path is gone afterwards.\<close>

definition RemoveTreeW :: "('w, 'j) system \<Rightarrow> 'w \<Rightarrow> string \<Rightarrow> bool \<times> 'w" where
  "RemoveTreeW sys w dir =
     (let w = remove_all (disk sys) w dir in (\<not> path_exists (disk sys) w dir, w))"

definition RestoreFailedDetail :: "SwapPlan \<Rightarrow> string" where
  "RestoreFailedDetail plan =
     ''Restore failed - your previous version is at '' @ quoted (backup_dir plan) @ ''; the install path '' @
     quoted (install_dir plan) @ '' could not be put back.''"

section \<open>The state of a run\<close>

definition no_assets :: ReleaseAssets where
  "no_assets = \<lparr>ra_version = final_version 0 0 0, ra_version_tag = [], ra_manifest_url = [],
     ra_signature_url = [], ra_portable_url = [], ra_installer_url = [], ra_releases_page_url = []\<rparr>"

record UpdaterWorker =
  release :: ReleaseAssets
  have_release :: bool
  releases_json :: string
  manifest :: UpdateManifest
  swap_plan :: SwapPlan
  package_path :: string
  package_sha256 :: string
  launch_dir :: string
  download_dir :: string
  have_package :: bool
  locked_package :: "nat option"

definition new_worker :: UpdaterWorker where
  "new_worker = \<lparr>release = no_assets, have_release = False, releases_json = [],
     manifest = \<lparr>mf_version = final_version 0 0 0, mf_version_raw = [],
       minimum_accepted_version = final_version 0 0 0, packages = []\<rparr>,
     swap_plan = \<lparr>install_dir = [], staging_dir = [], backup_dir = [], target_version = final_version 0 0 0\<rparr>,
     package_path = [], package_sha256 = [], launch_dir = [], download_dir = [], have_package = False,
     locked_package = None\<rparr>"

text \<open>The signals: those the controller consumes, and the one its owner does.\<close>

datatype WorkerSignal = Flow FlowSignal | ReleaseResolved string

record 'w run_state =
  worker :: UpdaterWorker
  sent :: "WorkerSignal list"
  world :: 'w

type_synonym ('a, 'w) step = "'w run_state \<Rightarrow> ((FlowSignal + 'a) \<times> 'w run_state) option"

definition return_step :: "'a \<Rightarrow> ('a, 'w) step" where
  "return_step x s = Some (Inr x, s)"

definition leave :: "FlowSignal \<Rightarrow> ('a, 'w) step" where
  "leave sig s = Some (Inl sig, s)"

definition bindS :: "('a, 'w) step \<Rightarrow> ('a \<Rightarrow> ('b, 'w) step) \<Rightarrow> ('b, 'w) step" where
  "bindS m k s = (case m s of None \<Rightarrow> None | Some (Inl sig, s') \<Rightarrow> Some (Inl sig, s') | Some (Inr x, s') \<Rightarrow> k x s')"

definition emit :: "FlowSignal \<Rightarrow> (unit, 'w) step" where
  "emit sig s = Some (Inr (), s\<lparr>sent := sent s @ [Flow sig]\<rparr>)"

definition state_of :: "('w run_state \<Rightarrow> 'a) \<Rightarrow> ('a, 'w) step" where
  "state_of f s = Some (Inr (f s), s)"

definition set_worker :: "(UpdaterWorker \<Rightarrow> UpdaterWorker) \<Rightarrow> (unit, 'w) step" where
  "set_worker f s = Some (Inr (), s\<lparr>worker := f (worker s)\<rparr>)"

definition call :: "('w \<Rightarrow> 'a \<times> 'w) \<Rightarrow> ('a, 'w) step" where
  "call g s = (case g (world s) of (x, w) \<Rightarrow> Some (Inr x, s\<lparr>world := w\<rparr>))"

definition call_loop :: "('w \<Rightarrow> ('a \<times> 'w) option) \<Rightarrow> ('a, 'w) step" where
  "call_loop g s = (case g (world s) of None \<Rightarrow> None | Some (x, w) \<Rightarrow> Some (Inr x, s\<lparr>world := w\<rparr>))"

definition change :: "('w \<Rightarrow> 'w) \<Rightarrow> (unit, 'w) step" where
  "change g s = Some (Inr (), s\<lparr>world := g (world s)\<rparr>)"

definition require :: "bool \<Rightarrow> FailureCase \<Rightarrow> string \<Rightarrow> (unit, 'w) step" where
  "require b fc detail = (if b then return_step () else leave (SigFailed fc detail))"

text \<open>\<^verbatim>\<open>locked_package_.reset(handle)\<close>.\<close>

definition reset_lock :: "('w, 'j) system \<Rightarrow> nat option \<Rightarrow> (unit, 'w) step" where
  "reset_lock sys h =
     bindS (state_of (locked_package \<circ> worker)) (\<lambda>old.
     bindS (case old of None \<Rightarrow> return_step () | Some k \<Rightarrow> change (\<lambda>w. ClosePackageLock sys w k)) (\<lambda>_.
     set_worker (locked_package_update (\<lambda>_. h))))"

text \<open>The failed call was the one a requested cancellation interrupts.\<close>

definition abortedByCancel :: "('w, 'j) system \<Rightarrow> FailureCase \<Rightarrow> string \<Rightarrow> ('a, 'w) step" where
  "abortedByCancel sys fc detail =
     bindS (state_of (cancel_requested sys \<circ> world)) (\<lambda>c.
       leave (if c then SigCancelled else SigFailed fc detail))"

section \<open>Resolving the release\<close>

definition kDefaultReleasesUrl :: string where
  "kDefaultReleasesUrl = ''https://api.github.com/repos/Exoridus/exosnap/releases''"

text \<open>\<open>False\<close>: a readable feed without a release for this channel.\<close>

definition resolveRelease :: "('w, 'j) system \<Rightarrow> UpdaterArgs \<Rightarrow> (bool, 'w) step" where
  "resolveRelease sys args =
     bindS (call (\<lambda>w. FetchReleasesJson (https sys) w
       (if ua_base_url args = [] then kDefaultReleasesUrl else ua_base_url args))) (\<lambda>r.
     case r of
       Inl e \<Rightarrow> leave (SigFailed DownloadFailed e)
     | Inr body \<Rightarrow>
         bindS (set_worker (releases_json_update (\<lambda>_. body))) (\<lambda>_.
         case LocateRelease (json sys) body (ua_channel args) of
           (None, parse_error) \<Rightarrow>
             if parse_error \<noteq> [] then leave (SigFailed DownloadFailed parse_error) else return_step False
         | (Some a, _) \<Rightarrow>
             bindS (set_worker (\<lambda>wk. wk\<lparr>release := a, have_release := True\<rparr>)) (\<lambda>_. return_step True)))"

section \<open>Trust anchor, gates and package\<close>

definition enter_download_dir :: "('w, 'j) system \<Rightarrow> UpdaterArgs \<Rightarrow> (string, 'w) step" where
  "enter_download_dir sys args =
     bindS (state_of (temp_directory sys \<circ> world)) (\<lambda>temp.
     bindS (state_of (release \<circ> worker)) (\<lambda>rel.
     case temp of
       None \<Rightarrow> leave (SigFailed DownloadFailed ''No usable temp directory.'')
     | Some t \<Rightarrow>
         let dir = path_join (path_join t ''ExoSnapUpdate'')
               (if ua_mode args = AppHandoff then SanitizePathComponent (ua_target_version args)
                else SemVerToString (ra_version rel)) in
         bindS (call (\<lambda>w. create_directories sys w dir)) (\<lambda>created.
         bindS (require created DownloadFailed ''Can't create the download directory.'') (\<lambda>_.
         bindS (set_worker (download_dir_update (\<lambda>_. dir))) (\<lambda>_. return_step dir)))))"

definition handed_over :: "('w, 'j) system \<Rightarrow> string \<Rightarrow> string \<Rightarrow> (string, 'w) step" where
  "handed_over sys path complaint =
     bindS (state_of (\<lambda>s. read_file sys (world s) path)) (\<lambda>content.
       case content of None \<Rightarrow> leave (SigFailed HandoffRejected (complaint @ path)) | Some c \<Rightarrow> return_step c)"

definition fetch_text :: "('w, 'j) system \<Rightarrow> string \<Rightarrow> string \<Rightarrow> string \<Rightarrow> (string, 'w) step" where
  "fetch_text sys url path complaint =
     bindS (call (\<lambda>w. case DownloadToFile sys w url path of (err, _, w) \<Rightarrow> (err, w))) (\<lambda>err.
     case err of
       Some e \<Rightarrow> abortedByCancel sys DownloadFailed e
     | None \<Rightarrow>
         bindS (state_of (\<lambda>s. read_file sys (world s) path)) (\<lambda>content.
           case content of None \<Rightarrow> leave (SigFailed DownloadFailed complaint) | Some c \<Rightarrow> return_step c))"

definition trust_anchor :: "('w, 'j) system \<Rightarrow> UpdaterArgs \<Rightarrow> string \<Rightarrow> (string \<times> string, 'w) step" where
  "trust_anchor sys args dir =
     (if ua_mode args = AppHandoff then
        bindS (handed_over sys (ua_manifest_path args) ''The handoff names a manifest that cannot be read: '') (\<lambda>body.
        bindS (handed_over sys (ua_manifest_signature_path args)
                 ''The handoff names a manifest signature that cannot be read: '') (\<lambda>sig.
        return_step (body, sig)))
      else
        bindS (state_of (release \<circ> worker)) (\<lambda>rel.
        bindS (require (ra_manifest_url rel \<noteq> [] \<and> ra_signature_url rel \<noteq> []) DownloadFailed
                 ''The release carries no update manifest.'') (\<lambda>_.
        bindS (fetch_text sys (ra_manifest_url rel) (path_join dir ''update-manifest.json'')
                 ''Can't read the downloaded manifest.'') (\<lambda>body.
        bindS (fetch_text sys (ra_signature_url rel) (path_join dir ''update-manifest.json.sig'')
                 ''Can't read the manifest signature.'') (\<lambda>sig.
        return_step (body, sig))))))"

definition is_blank :: "char \<Rightarrow> bool" where
  "is_blank c \<longleftrightarrow> c = CHR '' '' \<or> c = CHR 0x09 \<or> c = CHR 0x0D \<or> c = CHR 0x0A"

definition trim_blanks :: "string \<Rightarrow> string" where
  "trim_blanks s = rev (dropWhile is_blank (rev (dropWhile is_blank s)))"

definition installed_version :: "UpdaterArgs \<Rightarrow> SemVer" where
  "installed_version args =
     (case ParseSemVer (ua_current_version args) of None \<Rightarrow> final_version 0 0 0 | Some v \<Rightarrow> v)"

text \<open>Everything the manifest must pass before a byte of the package is fetched.\<close>

definition gate_manifest ::
    "('w, 'j) system \<Rightarrow> UpdaterArgs \<Rightarrow> string \<Rightarrow> string \<Rightarrow> FlowSignal + UpdateManifest \<times> PackageEntry" where
  "gate_manifest sys args manifest_json signature_hex =
     (if VerifyManifestSignature (signature_check sys) (public_key sys) manifest_json signature_hex \<noteq> VerifyOk
      then Inl (SigFailed VerifyDownloadFailed ''Manifest signature invalid.'')
      else
        case ParseManifest (json sys) manifest_json of
          Inl e \<Rightarrow> Inl (SigFailed VerifyDownloadFailed e)
        | Inr m \<Rightarrow>
            if \<not> TargetVersionAccepts (ua_target_version args) (mf_version_raw m)
            then Inl (SigFailed TargetVersionMismatch (mf_version_raw m))
            else if IsDowngrade m (installed_version args)
            then Inl (SigFailed VerifyDownloadFailed (''The offered version '' @ SemVerToString (mf_version m) @
                   '' is below the installed version - downgrade blocked.''))
            else if \<not> VerificationReinstallAccepts (ua_verify_reinstall args) (mf_version_raw m)
                       (ua_current_version args)
            then Inl (SigFailed VerifyReinstallMismatch (mf_version_raw m))
            else
              case SelectPackage m (ua_install_mode args) of
                None \<Rightarrow> Inl (SigFailed DownloadFailed (''The update manifest has no '' @
                   (if ua_install_mode args = Portable then ''portable'' else ''installer'') @ '' package.''))
              | Some pkg \<Rightarrow> Inr (m, pkg))"

text \<open>
  The progress samples with their time since the start, in milliseconds: one is reported when 80
  ms have passed since the last report or the download is complete.
\<close>

fun throttled :: "int \<Rightarrow> (int \<times> u64 \<times> u64) list \<Rightarrow> (u64 \<times> u64) list" where
  "throttled reported [] = []"
| "throttled reported ((t, received, all_bytes) # samples) =
     (if 80 \<le> t - reported \<or> (all_bytes \<noteq> 0 \<and> all_bytes \<le> received)
      then (received, all_bytes) # throttled t samples else throttled reported samples)"

text \<open>The lock is held on success only; a mismatch deletes the file.\<close>

definition LockAndVerifyPackage :: "('w, 'j) system \<Rightarrow> string \<Rightarrow> (string option, 'w) step" where
  "LockAndVerifyPackage sys expected =
     bindS (reset_lock sys None) (\<lambda>_.
     bindS (state_of (package_path \<circ> worker)) (\<lambda>path.
     bindS (call (\<lambda>w. OpenPackageWriteLock sys w path)) (\<lambda>h.
     if h = None then return_step (Some ''Can't open the downloaded package for verification.'')
     else
       bindS (reset_lock sys h) (\<lambda>_.
       bindS (state_of (\<lambda>s. VerifyPackageHandle (handle_sha256 sys (world s)) h expected)) (\<lambda>verdict.
       if verdict \<noteq> VerifyOk then
         bindS (reset_lock sys None) (\<lambda>_.
         bindS (change (\<lambda>w. remove_file sys w path)) (\<lambda>_.
         return_step (Some ''SHA-256 mismatch - the file was deleted.'')))
       else return_step None)))))"

definition download_package :: "('w, 'j) system \<Rightarrow> UpdaterArgs \<Rightarrow> string \<Rightarrow> PackageEntry \<Rightarrow> (unit, 'w) step" where
  "download_package sys args dir pkg =
     (let path = path_join dir (if ua_install_mode args = Portable then ''package.zip'' else ''package.msi'') in
      bindS (reset_lock sys None) (\<lambda>_.
      bindS (call (\<lambda>w. case DownloadToFile sys w (pkg_url pkg) path of (err, samples, w) \<Rightarrow> ((err, samples), w)))
        (\<lambda>(err, samples).
      bindS (\<lambda>s. Some (Inr (), s\<lparr>sent := sent s @
          map (\<lambda>(r, n). Flow (SigDownloadProgress r n)) (throttled 0 samples)\<rparr>)) (\<lambda>_.
      case err of
        Some e \<Rightarrow> abortedByCancel sys DownloadFailed e
      | None \<Rightarrow>
          bindS (set_worker (\<lambda>wk. wk\<lparr>package_path := path, package_sha256 := sha256_hex pkg\<rparr>)) (\<lambda>_.
          bindS (LockAndVerifyPackage sys (sha256_hex pkg)) (\<lambda>complaint.
          case complaint of
            Some e \<Rightarrow> leave (SigFailed VerifyDownloadFailed e)
          | None \<Rightarrow> return_step ()))))))"

section \<open>Staging the portable package\<close>

datatype StageResult = Staged | StageFailed string | UnusablePackage string

text \<open>
  Descend into the only top-level folder: move it beside the staging directory, drop the
  wrapper, move it into place; a failure anywhere removes both.
\<close>

definition hoist_folder :: "('w, 'j) system \<Rightarrow> SwapPlan \<Rightarrow> string \<Rightarrow> 'w \<Rightarrow> StageResult \<times> 'w" where
  "hoist_folder sys plan folder w =
     (let hoist = staging_dir plan @ ''.hoist'';
          w = snd (RemoveTreeW sys w hoist);
          give_up = (\<lambda>w. (StageFailed ''Can't arrange the staged files next to the install directory.'',
             snd (RemoveTreeW sys (snd (RemoveTreeW sys w hoist)) (staging_dir plan)))) in
      case move_directory (disk sys) w folder hoist of (e, w) \<Rightarrow>
        if e \<noteq> 0 then give_up w
        else case RemoveTreeW sys w (staging_dir plan) of (gone, w) \<Rightarrow>
          if \<not> gone then give_up w
          else case move_directory (disk sys) w hoist (staging_dir plan) of (e, w) \<Rightarrow>
            if e \<noteq> 0 then give_up w else (Staged, w))"

definition StagePortablePackage :: "('w, 'j) system \<Rightarrow> SwapPlan \<Rightarrow> string \<Rightarrow> 'w \<Rightarrow> StageResult \<times> 'w" where
  "StagePortablePackage sys plan package w =
     (case RemoveTreeW sys w (staging_dir plan) of (gone, w) \<Rightarrow>
        if \<not> gone then (StageFailed ''Can't clear the staging directory.'', w)
        else case ExtractZip sys w package (staging_dir plan) of
          (Some e, w) \<Rightarrow> (StageFailed e, snd (RemoveTreeW sys w (staging_dir plan)))
        | (None, w) \<Rightarrow>
            (case ResolveStagedRoot sys w (staging_dir plan) of
               None \<Rightarrow> (UnusablePackage ''The downloaded package has an unexpected layout.'',
                        snd (RemoveTreeW sys w (staging_dir plan)))
             | Some folder \<Rightarrow>
                 if folder = staging_dir plan then (Staged, w) else hoist_folder sys plan folder w))"

text \<open>The two call sites treat the result the same way.\<close>

definition stage_package :: "('w, 'j) system \<Rightarrow> (unit, 'w) step" where
  "stage_package sys =
     bindS (state_of worker) (\<lambda>wk.
     bindS (call (StagePortablePackage sys (swap_plan wk) (package_path wk))) (\<lambda>result.
     case result of
       Staged \<Rightarrow> return_step ()
     | UnusablePackage e \<Rightarrow>
         bindS (set_worker (have_package_update (\<lambda>_. False))) (\<lambda>_. leave (SigFailed DownloadFailed e))
     | StageFailed e \<Rightarrow> leave (SigFailed InstallFailed e)))"

text \<open>From the accepted manifest to the staged package.\<close>

definition take_package ::
    "('w, 'j) system \<Rightarrow> UpdaterArgs \<Rightarrow> string \<Rightarrow> UpdateManifest \<Rightarrow> PackageEntry \<Rightarrow> (unit, 'w) step" where
  "take_package sys args dir m pkg =
     bindS (download_package sys args dir pkg) (\<lambda>_.
     bindS (set_worker (\<lambda>wk. wk\<lparr>manifest := m, have_package := True\<rparr>)) (\<lambda>_.
     bindS (if ua_install_mode args = Portable
            then bindS (set_worker (swap_plan_update (\<lambda>_. MakeSwapPlan (ua_install_dir args) (mf_version m))))
                   (\<lambda>_. stage_package sys)
            else return_step ()) (\<lambda>_.
     emit (SigStepDone StepDownload))))"

definition fetchAndStage :: "('w, 'j) system \<Rightarrow> UpdaterArgs \<Rightarrow> (unit, 'w) step" where
  "fetchAndStage sys args =
     bindS (state_of (have_release \<circ> worker)) (\<lambda>resolved.
     bindS (require (ua_mode args = AppHandoff \<or> resolved) DownloadFailed ''No release has been resolved yet.'') (\<lambda>_.
     bindS (enter_download_dir sys args) (\<lambda>dir.
     bindS (trust_anchor sys args dir) (\<lambda>(body, sig).
     case gate_manifest sys args body (trim_blanks sig) of
       Inl signal \<Rightarrow> leave signal
     | Inr (m, pkg) \<Rightarrow> take_package sys args dir m pkg))))"

definition runDownload :: "('w, 'j) system \<Rightarrow> UpdaterArgs \<Rightarrow> (unit, 'w) step" where
  "runDownload sys args =
     bindS (emit (SigStepStarted StepDownload)) (\<lambda>_.
     if ua_mode args = AppHandoff then fetchAndStage sys args
     else
       bindS (resolveRelease sys args) (\<lambda>found.
       if \<not> found
       then leave (SigFailed DownloadFailed ''No release with an update manifest found for this channel.'')
       else
         bindS (\<lambda>s. Some (Inr (), s\<lparr>sent := sent s @
             [ReleaseResolved (SemVerToString (ra_version (release (worker s))))]\<rparr>)) (\<lambda>_.
         fetchAndStage sys args)))"

section \<open>Closing the application\<close>

definition kAppWindowTitle :: string where
  "kAppWindowTitle = ''ExoSnap''"

definition post_close_request :: "('w, 'j) system \<Rightarrow> UpdaterArgs \<Rightarrow> 'w \<Rightarrow> 'w" where
  "post_close_request sys args w =
     (case SelectWindowForProcess (top_level_windows sys w) (ua_app_pid args) kAppWindowTitle of
        None \<Rightarrow> w | Some h \<Rightarrow> post_handoff sys w h)"

definition runCloseApp :: "('w, 'j) system \<Rightarrow> UpdaterArgs \<Rightarrow> (unit, 'w) step" where
  "runCloseApp sys args =
     bindS (emit (SigStepStarted StepCloseApp)) (\<lambda>_.
     bindS (if ua_app_pid args \<noteq> 0 then
              bindS (change (post_close_request sys args)) (\<lambda>_.
              bindS (call (\<lambda>w. WaitForProcessExit sys w (ua_app_pid args))) (\<lambda>gone.
              require gone AppWontClose []))
            else
              bindS (state_of (instance_mutex_present sys \<circ> world)) (\<lambda>running.
              require (\<not> running) AppWontClose [])) (\<lambda>_.
     emit (SigStepDone StepCloseApp)))"

section \<open>Installing\<close>

text \<open>The staged tree, staged again from the kept package if it is gone.\<close>

definition ensure_staged :: "('w, 'j) system \<Rightarrow> (unit, 'w) step" where
  "ensure_staged sys =
     bindS (state_of (\<lambda>s. path_exists (disk sys) (world s) (exe_path (staging_dir (swap_plan (worker s))))))
       (\<lambda>staged.
     if staged then return_step ()
     else
       bindS (state_of (\<lambda>s. package_path (worker s) = [] \<or>
                \<not> path_exists (disk sys) (world s) (package_path (worker s)))) (\<lambda>package_gone.
       if package_gone then
         bindS (set_worker (have_package_update (\<lambda>_. False))) (\<lambda>_.
         leave (SigFailed DownloadFailed ''The downloaded update is no longer available.''))
       else stage_package sys))"

definition swap_failure :: "SwapPlan \<Rightarrow> SwapError \<Rightarrow> FlowSignal option" where
  "swap_failure plan e = (case e of
       SwapNone \<Rightarrow> None
     | StagingMissing \<Rightarrow> Some (SigFailed InstallFailed ''The staged files are missing.'')
     | BackupCollision \<Rightarrow> Some (SigFailed InstallFailed ''A leftover backup directory could not be cleared.'')
     | RenameOldFailed \<Rightarrow> Some (SigFailed InstallFailed
         ''The current installation is in use and could not be moved.'')
     | RenameNewFailed \<Rightarrow> Some (SigFailed VerifyInstallFailed [])
     | SwapRestoreFailed \<Rightarrow> Some (SigFailed RestoreHasFailed (RestoreFailedDetail plan)))"

definition runInstallPortable :: "('w, 'j) system \<Rightarrow> (unit, 'w) step" where
  "runInstallPortable sys =
     bindS (emit (SigStepStarted StepInstall)) (\<lambda>_.
     bindS (state_of (swap_plan \<circ> worker)) (\<lambda>plan.
     bindS (call_loop (RepairOrphanedSwap (disk sys) plan)) (\<lambda>_.
     bindS (ensure_staged sys) (\<lambda>_.
     bindS (call_loop (\<lambda>w. map_option (\<lambda>(e, _, w). (e, w)) (StageRename (disk sys) plan default_retry w))) (\<lambda>e.
     case swap_failure plan e of
       Some signal \<Rightarrow> leave signal
     | None \<Rightarrow>
         bindS (set_worker (launch_dir_update (\<lambda>_. install_dir plan))) (\<lambda>_.
         emit (SigStepDone StepInstall)))))))"

definition elevate :: "('w, 'j) system \<Rightarrow> UpdaterArgs \<Rightarrow> (nat, 'w) step" where
  "elevate sys args =
     bindS (state_of (package_path \<circ> worker)) (\<lambda>path.
     bindS (call (\<lambda>w. shell_execute_runas sys w (BuildMsiexecParams path (ua_verify_reinstall args)))) (\<lambda>r.
     case r of
       Inl e \<Rightarrow> if e = 1223 then leave (SigFailed UacDeclined [])
                 else leave (SigFailed MsiFailed (to_string (unat e)))
     | Inr None \<Rightarrow> leave (SigFailed MsiFailed ''no process'')
     | Inr (Some process) \<Rightarrow> return_step process))"

definition runInstallMsi :: "('w, 'j) system \<Rightarrow> UpdaterArgs \<Rightarrow> (unit, 'w) step" where
  "runInstallMsi sys args =
     bindS (emit (SigStepStarted StepInstall)) (\<lambda>_.
     bindS (state_of worker) (\<lambda>wk.
     bindS (if locked_package wk \<noteq> None then return_step ()
            else bindS (LockAndVerifyPackage sys (package_sha256 wk)) (\<lambda>complaint.
                   case complaint of None \<Rightarrow> return_step () | Some e \<Rightarrow> leave (SigFailed MsiFailed e))) (\<lambda>_.
     bindS (state_of (injected_uac_decline sys \<circ> world)) (\<lambda>injected.
     bindS (require (\<not> injected) UacDeclined []) (\<lambda>_.
     bindS (elevate sys args) (\<lambda>process.
     bindS (call (\<lambda>w. WaitForProcessOrCancel sys w process)) (\<lambda>finished.
     if \<not> finished then abortedByCancel sys MsiFailed ''The installer did not finish in time.''
     else
       bindS (state_of (\<lambda>s. process_exit_code sys (world s) process)) (\<lambda>code.
       case ClassifyMsiExit code of
         MsiSuccess \<Rightarrow> emit (SigStepDone StepInstall)
       | MsiReboot \<Rightarrow> leave (SigFailed MsiRebootRequired [])
       | MsiError \<Rightarrow> leave (SigFailed MsiFailed (to_string (unat code)))))))))))"

section \<open>Verifying and launching\<close>

text \<open>Undo of the portable swap, reported.\<close>

definition put_back :: "('w, 'j) system \<Rightarrow> (unit, 'w) step" where
  "put_back sys =
     bindS (state_of (swap_plan \<circ> worker)) (\<lambda>plan.
     bindS (call_loop (RestoreBackup (disk sys) plan default_retry)) (\<lambda>restore.
     if restore = SwapRestoreFailed then leave (SigFailed RestoreHasFailed (RestoreFailedDetail plan))
     else leave (SigFailed VerifyInstallFailed [])))"

definition runVerify :: "('w, 'j) system \<Rightarrow> UpdaterArgs \<Rightarrow> (unit, 'w) step" where
  "runVerify sys args =
     bindS (emit (SigStepStarted StepVerify)) (\<lambda>_.
     bindS (state_of worker) (\<lambda>wk.
     bindS (if ua_install_mode args = Portable then
              bindS (state_of (\<lambda>s. VerifyInstalledVersion (disk sys) (swap_plan wk) (world s))) (\<lambda>ok.
              if \<not> ok then put_back sys
              else set_worker (launch_dir_update (\<lambda>_. install_dir (swap_plan wk))))
            else
              bindS (state_of (\<lambda>s. case ReadInstallPath sys (world s) of None \<Rightarrow> ua_install_dir args | Some p \<Rightarrow> p))
                (\<lambda>dir.
              if dir = []
              then leave (SigFailed VerifyInstallFailedMsi ''The installer did not record an install location.'')
              else
                let plan = MakeSwapPlan dir (mf_version (manifest wk)) in
                bindS (state_of (\<lambda>s. VerifyInstalledVersion (disk sys) plan (world s))) (\<lambda>ok.
                bindS (require ok VerifyInstallFailedMsi []) (\<lambda>_.
                set_worker (launch_dir_update (\<lambda>_. install_dir plan)))))) (\<lambda>_.
     emit (SigStepDone StepVerify))))"

definition clean_up :: "('w, 'j) system \<Rightarrow> UpdaterArgs \<Rightarrow> (unit, 'w) step" where
  "clean_up sys args =
     bindS (state_of worker) (\<lambda>wk.
     bindS (if ua_install_mode args = Portable
            then change (\<lambda>w. snd (CleanupBackup (disk sys) (swap_plan wk) w)) else return_step ()) (\<lambda>_.
     bindS (reset_lock sys None) (\<lambda>_.
     if download_dir wk = [] then return_step ()
     else change (\<lambda>w. snd (RemoveTreeW sys w (download_dir wk))))))"

definition runLaunch :: "('w, 'j) system \<Rightarrow> UpdaterArgs \<Rightarrow> (unit, 'w) step" where
  "runLaunch sys args =
     bindS (emit (SigStepStarted StepLaunch)) (\<lambda>_.
     bindS (state_of (launch_dir \<circ> worker)) (\<lambda>dir.
     bindS (call (\<lambda>w. LaunchExoSnapFrom sys w dir)) (\<lambda>launched.
     bindS (require launched LaunchFailed []) (\<lambda>_.
     bindS (call (wait_instance_mutex sys)) (\<lambda>up.
     if \<not> up then
       (if ua_install_mode args = Portable then put_back sys else leave (SigFailed LaunchFailed []))
     else
       bindS (clean_up sys args) (\<lambda>_.
       bindS (emit (SigStepDone StepLaunch)) (\<lambda>_. leave SigAllDone)))))))"

section \<open>The slots\<close>

definition run_from :: "('w, 'j) system \<Rightarrow> UpdaterArgs \<Rightarrow> UpStep \<Rightarrow> (unit, 'w) step" where
  "run_from sys args entry =
     bindS (if entry \<le> StepDownload then
              bindS (runDownload sys args) (\<lambda>_.
              if ua_mode args = Manual then leave SigReadyToApply else return_step ())
            else return_step ()) (\<lambda>_.
     bindS (if entry \<le> StepCloseApp then runCloseApp sys args else return_step ()) (\<lambda>_.
     bindS (if entry \<le> StepInstall
            then (if ua_install_mode args = Portable then runInstallPortable sys else runInstallMsi sys args)
            else return_step ()) (\<lambda>_.
     bindS (if entry \<le> StepVerify then runVerify sys args else return_step ()) (\<lambda>_.
     runLaunch sys args))))"

definition run_steps :: "('w, 'j) system \<Rightarrow> UpdaterArgs \<Rightarrow> UpStep \<Rightarrow> (unit, 'w) step" where
  "run_steps sys args entry =
     bindS (change (clear_cancel sys)) (\<lambda>_.
     bindS (state_of (have_package \<circ> worker)) (\<lambda>has_package.
     if entry \<noteq> StepDownload \<and> \<not> has_package then
       (if ua_mode args = Manual
        then leave (SigFailed DownloadFailed ''The verified update is no longer available.'')
        else run_from sys args StepDownload)
     else run_from sys args entry))"

definition check_steps :: "('w, 'j) system \<Rightarrow> UpdaterArgs \<Rightarrow> (unit, 'w) step" where
  "check_steps sys args =
     bindS (change (clear_cancel sys)) (\<lambda>_.
     bindS (emit SigCheckStarted) (\<lambda>_.
     if \<not> UpdateChecksEnabled sys args
     then leave (SigCheckBlocked
            ''This build does not check for updates. Pass --base-url to check against a specific feed.'')
     else
       bindS (resolveRelease sys args) (\<lambda>found.
       bindS (state_of worker) (\<lambda>wk.
       let result = BuildCheckResult (json sys) (note_order sys) (releases_json wk)
             (if found then Some (release wk) else None)
             \<lparr>current_version = installed_version args, current_version_raw = ua_current_version args,
               check_channel = ua_channel args, recording_guard = None, api_base_url = kDefaultReleasesUrl,
               allow_same_version_reinstall = ua_verify_reinstall args\<rparr> in
       if \<not> update_available result
       then bindS (set_worker (have_release_update (\<lambda>_. False))) (\<lambda>_. leave SigUpToDate)
       else leave (SigUpdateAvailable (available_version_raw result))))))"

definition download_steps :: "('w, 'j) system \<Rightarrow> UpdaterArgs \<Rightarrow> (unit, 'w) step" where
  "download_steps sys args =
     bindS (change (clear_cancel sys)) (\<lambda>_.
     bindS (emit (SigStepStarted StepDownload)) (\<lambda>_.
     bindS (fetchAndStage sys args) (\<lambda>_. leave SigReadyToApply)))"

text \<open>A slot ends by emitting the signal it left with.\<close>

definition slot :: "(unit, 'w) step \<Rightarrow> 'w run_state \<Rightarrow> 'w run_state option" where
  "slot m s = (case m s of
       None \<Rightarrow> None
     | Some (Inl sig, s) \<Rightarrow> Some (s\<lparr>sent := sent s @ [Flow sig]\<rparr>)
     | Some (Inr (), s) \<Rightarrow> Some s)"

definition run :: "('w, 'j) system \<Rightarrow> UpdaterArgs \<Rightarrow> UpStep \<Rightarrow> 'w run_state \<Rightarrow> 'w run_state option" where
  "run sys args entry = slot (run_steps sys args entry)"

definition check :: "('w, 'j) system \<Rightarrow> UpdaterArgs \<Rightarrow> 'w run_state \<Rightarrow> 'w run_state option" where
  "check sys args = slot (check_steps sys args)"

definition download :: "('w, 'j) system \<Rightarrow> UpdaterArgs \<Rightarrow> 'w run_state \<Rightarrow> 'w run_state option" where
  "download sys args = slot (download_steps sys args)"

definition apply_update :: "('w, 'j) system \<Rightarrow> UpdaterArgs \<Rightarrow> 'w run_state \<Rightarrow> 'w run_state option" where
  "apply_update sys args = run sys args StepCloseApp"

end
