(* ===== verification/UpdaterRuns.thy ===== *)
theory UpdaterRuns
  imports UpdaterWorker SwapGuarantees UpdaterView
begin

text \<open>
  What a run of the pipeline guarantees: it always ends, with exactly one outcome, after the
  signals of its steps (\<open>proper\<close>, \<open>final\<close>); it installs only what the gates let through; and the
  installation state it reports is the state on the disk.
\<close>

section \<open>Every slot ends with one outcome\<close>

definition outcome :: "FlowSignal \<Rightarrow> bool" where
  "outcome sig \<longleftrightarrow> (case sig of
       SigUpToDate \<Rightarrow> True | SigUpdateAvailable _ \<Rightarrow> True | SigCheckBlocked _ \<Rightarrow> True | SigCancelled \<Rightarrow> True
     | SigReadyToApply \<Rightarrow> True | SigAllDone \<Rightarrow> True | SigFailed _ _ \<Rightarrow> True | _ \<Rightarrow> False)"

lemma outcome_simps [simp]:
  "outcome SigUpToDate" "outcome (SigUpdateAvailable v)" "outcome (SigCheckBlocked v)" "outcome SigCancelled"
  "outcome SigReadyToApply" "outcome SigAllDone" "outcome (SigFailed fc d)"
  "\<not> outcome (SigStepStarted st)" "\<not> outcome (SigStepDone st)" "\<not> outcome (SigDownloadProgress r n)"
  "\<not> outcome SigCheckStarted" "\<not> outcome SigIdle"
  by (simp_all add: outcome_def)

definition progress_only :: "WorkerSignal list \<Rightarrow> bool" where
  "progress_only sigs \<longleftrightarrow> (\<forall>sig. Flow sig \<in> set sigs \<longrightarrow> \<not> outcome sig)"

lemma progress_only_simps [simp]:
  "progress_only []" "progress_only (xs @ ys) \<longleftrightarrow> progress_only xs \<and> progress_only ys"
  "progress_only [Flow sig] \<longleftrightarrow> \<not> outcome sig" "progress_only [ReleaseResolved v]"
  by (auto simp: progress_only_def)

definition extends :: "'w run_state \<Rightarrow> 'w run_state \<Rightarrow> bool" where
  "extends s s' \<longleftrightarrow> (\<exists>pre. sent s' = sent s @ pre \<and> progress_only pre)"

lemma extends_refl [intro]: "sent s' = sent s \<Longrightarrow> extends s s'"
  by (simp add: extends_def)

lemma extends_emit [intro]: "sent s' = sent s @ pre \<Longrightarrow> progress_only pre \<Longrightarrow> extends s s'"
  by (auto simp: extends_def)

lemma extends_trans: "extends s t \<Longrightarrow> extends t u \<Longrightarrow> extends s u"
  by (auto simp: extends_def)

definition proper :: "('a, 'w) step \<Rightarrow> bool" where
  "proper m \<longleftrightarrow> (\<forall>s. \<exists>r s'. m s = Some (r, s') \<and> extends s s' \<and> (\<forall>sig. r = Inl sig \<longrightarrow> outcome sig))"

definition final :: "('a, 'w) step \<Rightarrow> bool" where
  "final m \<longleftrightarrow> (\<forall>s. \<exists>sig s'. m s = Some (Inl sig, s') \<and> extends s s' \<and> outcome sig)"

named_theorems proper_rules

lemma properE:
  assumes "proper m"
  obtains r s' where "m s = Some (r, s')" "extends s s'" "\<forall>sig. r = Inl sig \<longrightarrow> outcome sig"
  using assms unfolding proper_def by blast

lemma final_proper: "final m \<Longrightarrow> proper m"
  unfolding final_def proper_def by fastforce

lemma proper_bind [proper_rules]:
  assumes "proper m" "\<And>x. proper (k x)"
  shows "proper (bindS m k)"
  unfolding proper_def
proof
  fix s
  obtain r t where m: "m s = Some (r, t)" "extends s t" "\<forall>sig. r = Inl sig \<longrightarrow> outcome sig"
    by (rule properE [OF assms(1)])
  show "\<exists>r s'. bindS m k s = Some (r, s') \<and> extends s s' \<and> (\<forall>sig. r = Inl sig \<longrightarrow> outcome sig)"
  proof (cases r)
    case (Inl sig)
    then show ?thesis
      using m by (simp add: bindS_def)
  next
    case (Inr x)
    obtain r' u where "k x t = Some (r', u)" "extends t u" "\<forall>sig. r' = Inl sig \<longrightarrow> outcome sig"
      by (rule properE [OF assms(2)])
    then show ?thesis
      using m Inr by (auto simp: bindS_def intro: extends_trans)
  qed
qed

lemma final_bind:
  assumes "proper m" "\<And>x. final (k x)"
  shows "final (bindS m k)"
  unfolding final_def
proof
  fix s
  obtain r t where m: "m s = Some (r, t)" "extends s t" "\<forall>sig. r = Inl sig \<longrightarrow> outcome sig"
    by (rule properE [OF assms(1)])
  show "\<exists>sig s'. bindS m k s = Some (Inl sig, s') \<and> extends s s' \<and> outcome sig"
  proof (cases r)
    case (Inl sig)
    then show ?thesis
      using m by (simp add: bindS_def)
  next
    case (Inr x)
    obtain sig u where "k x t = Some (Inl sig, u)" "extends t u" "outcome sig"
      using assms(2) by (metis final_def)
    then show ?thesis
      using m Inr by (auto simp: bindS_def intro: extends_trans)
  qed
qed

lemma proper_basic [proper_rules]:
  "proper (return_step x)" "outcome sig \<Longrightarrow> proper (leave sig)" "\<not> outcome sig \<Longrightarrow> proper (emit sig)"
  "proper (state_of f)" "proper (set_worker g)" "proper (change h)" "proper (call io)"
  "proper (require b fc detail)"
  by (auto simp: proper_def return_step_def leave_def emit_def state_of_def set_worker_def change_def call_def
      require_def split: prod.split)

lemma proper_append [proper_rules]:
  "(\<And>s. progress_only (f s)) \<Longrightarrow> proper (\<lambda>s. Some (Inr (), s\<lparr>sent := sent s @ f s\<rparr>))"
  by (auto simp: proper_def)

lemma proper_loop [proper_rules]: "(\<And>w. \<exists>x w'. io w = Some (x, w')) \<Longrightarrow> proper (call_loop io)"
  unfolding proper_def call_loop_def
proof
  fix s :: "'a run_state"
  assume "\<And>w. \<exists>x w'. io w = Some (x, w')"
  then obtain x w' where "io (world s) = Some (x, w')"
    by blast
  then show "\<exists>r s'. (case io (world s) of None \<Rightarrow> None | Some (x, w) \<Rightarrow> Some (Inr x, s\<lparr>world := w\<rparr>)) = Some (r, s') \<and>
      extends s s' \<and> (\<forall>sig. r = Inl sig \<longrightarrow> outcome sig)"
    by auto
qed

lemma proper_cases [proper_rules]:
  "(b \<Longrightarrow> proper m) \<Longrightarrow> (\<not> b \<Longrightarrow> proper n) \<Longrightarrow> proper (if b then m else n)"
  "(\<And>x. y = Some x \<Longrightarrow> proper (f x)) \<Longrightarrow> (y = None \<Longrightarrow> proper m) \<Longrightarrow> proper (case y of None \<Rightarrow> m | Some x \<Rightarrow> f x)"
  "(\<And>x. z = Inl x \<Longrightarrow> proper (g x)) \<Longrightarrow> (\<And>x. z = Inr x \<Longrightarrow> proper (h x)) \<Longrightarrow>
    proper (case z of Inl x \<Rightarrow> g x | Inr x \<Rightarrow> h x)"
  "(\<And>a b. p = (a, b) \<Longrightarrow> proper (q a b)) \<Longrightarrow> proper (case p of (a, b) \<Rightarrow> q a b)"
  by (auto split: option.split sum.split prod.split)

lemma final_leave: "outcome sig \<Longrightarrow> final (leave sig)"
  by (auto simp: final_def leave_def)

lemma final_if: "final m \<Longrightarrow> final n \<Longrightarrow> final (if b then m else n)"
  by simp

lemma reset_lock_proper [proper_rules]: "proper (reset_lock sys h)"
  unfolding reset_lock_def by (intro proper_rules)

lemma abortedByCancel_proper [proper_rules]: "proper (abortedByCancel sys fc detail)"
  unfolding abortedByCancel_def by (intro proper_rules) simp

lemma resolveRelease_proper [proper_rules]: "proper (resolveRelease sys args)"
  unfolding resolveRelease_def by (intro proper_rules; simp)

lemma enter_download_dir_proper [proper_rules]: "proper (enter_download_dir sys args)"
  unfolding enter_download_dir_def Let_def by (intro proper_rules; simp)

lemma handed_over_proper [proper_rules]: "proper (handed_over sys path complaint)"
  unfolding handed_over_def by (intro proper_rules; simp)

lemma fetch_text_proper [proper_rules]: "proper (fetch_text sys url path complaint)"
  unfolding fetch_text_def by (intro proper_rules; simp)

lemma trust_anchor_proper [proper_rules]: "proper (trust_anchor sys args dir)"
  unfolding trust_anchor_def by (intro proper_rules)

lemma LockAndVerifyPackage_proper [proper_rules]: "proper (LockAndVerifyPackage sys expected)"
  unfolding LockAndVerifyPackage_def by (intro proper_rules)

lemma download_package_proper [proper_rules]: "proper (download_package sys args dir pkg)"
  unfolding download_package_def Let_def
  by (intro proper_rules; auto simp: progress_only_def)

lemma stage_package_proper [proper_rules]: "proper (stage_package sys)"
proof -
  have "proper (case result of Staged \<Rightarrow> return_step ()
      | StageFailed e \<Rightarrow> leave (SigFailed InstallFailed e)
      | UnusablePackage e \<Rightarrow> bindS (set_worker f) (\<lambda>_. leave (SigFailed DownloadFailed e)))" for result f
    by (cases result) (auto intro!: proper_rules)
  then show ?thesis
    unfolding stage_package_def by (intro proper_rules)
qed

lemma gate_manifest_outcome: "gate_manifest sys args body sig = Inl signal \<Longrightarrow> outcome signal"
  by (auto simp: gate_manifest_def split: if_split_asm sum.split_asm option.split_asm)

lemma take_package_proper [proper_rules]: "proper (take_package sys args dir m pkg)"
  unfolding take_package_def by (intro proper_rules; simp)

lemma fetchAndStage_proper [proper_rules]: "proper (fetchAndStage sys args)"
  unfolding fetchAndStage_def by (intro proper_rules; simp add: gate_manifest_outcome)

lemma runDownload_proper [proper_rules]: "proper (runDownload sys args)"
  unfolding runDownload_def by (intro proper_rules; simp)

lemma runCloseApp_proper [proper_rules]: "proper (runCloseApp sys args)"
  unfolding runCloseApp_def by (intro proper_rules; simp)

lemma RenameDirectory_ends: "\<exists>x w'. RenameDirectory api default_retry w src dst = Some (x, w')"
  using RenameDirectory_returns [where I = "\<lambda>_ _. True" and retry = default_retry and api = api and w = w
      and src = src and dst = dst]
  by (metis default_retry_production production_retry_def)

lemma rename_noting_ends: "\<exists>ok f w'. rename_noting api default_retry src dst failed w = Some (ok, f, w')"
  using RenameDirectory_ends [of api w src dst] by (auto simp: rename_noting_def)

lemma promote_staging_ends: "\<exists>e f w'. promote_staging api plan default_retry failed w = Some (e, f, w')"
proof -
  obtain ok f w1 where "rename_noting api default_retry (staging_dir plan) (install_dir plan) failed w = Some (ok, f, w1)"
    by (metis rename_noting_ends)
  moreover obtain ok2 f2 w2 where
    "rename_noting api default_retry (backup_dir plan) (install_dir plan) f w1 = Some (ok2, f2, w2)"
    by (metis rename_noting_ends)
  ultimately show ?thesis
    by (simp add: promote_staging_def)
qed

lemma exchange_trees_ends: "\<exists>e f w'. exchange_trees api plan default_retry w = Some (e, f, w')"
proof -
  obtain ok f w1 where "rename_noting api default_retry (install_dir plan) (backup_dir plan) None w = Some (ok, f, w1)"
    by (metis rename_noting_ends)
  then show ?thesis
    using promote_staging_ends [of api plan f w1] by (simp add: exchange_trees_def)
qed

lemma StageRename_ends: "\<exists>e f w'. StageRename api plan default_retry w = Some (e, f, w')"
  using exchange_trees_ends by (auto simp: StageRename_def split: prod.split)

lemma RestoreBackup_ends: "\<exists>e w'. RestoreBackup api plan default_retry w = Some (e, w')"
proof -
  have "\<exists>e w'. rename_back api plan default_retry v = Some (e, w')" for v
    using RenameDirectory_ends [of api v "backup_dir plan" "install_dir plan"] by (auto simp: rename_back_def)
  then show ?thesis
    by (auto simp: RestoreBackup_def split: prod.split)
qed

lemma RepairOrphanedSwap_ends: "\<exists>ok w'. RepairOrphanedSwap api plan w = Some (ok, w')"
  using RestoreBackup_ends [of api plan w] by (auto simp: RepairOrphanedSwap_def)

lemma ensure_staged_proper [proper_rules]: "proper (ensure_staged sys)"
  unfolding ensure_staged_def by (intro proper_rules; simp)

lemma swap_failure_outcome: "swap_failure plan e = Some signal \<Longrightarrow> outcome signal"
  by (cases e) (auto simp: swap_failure_def)

lemma runInstallPortable_proper [proper_rules]: "proper (runInstallPortable sys)"
proof -
  have swap: "\<exists>x w'. map_option (\<lambda>(e, _, w). (e, w)) (StageRename api plan default_retry w) = Some (x, w')" for api plan w
    using StageRename_ends [of api plan w] by auto
  show ?thesis
    unfolding runInstallPortable_def
    by (intro proper_rules swap; simp add: RepairOrphanedSwap_ends swap_failure_outcome)
qed

lemma elevate_proper [proper_rules]: "proper (elevate sys args)"
  unfolding elevate_def by (intro proper_rules; simp)

lemma runInstallMsi_proper [proper_rules]: "proper (runInstallMsi sys args)"
proof -
  have "proper (case ClassifyMsiExit code of MsiSuccess \<Rightarrow> emit (SigStepDone StepInstall)
      | MsiReboot \<Rightarrow> leave (SigFailed MsiRebootRequired []) | MsiError \<Rightarrow> leave (SigFailed MsiFailed d))" for code d
    by (cases "ClassifyMsiExit code") (auto intro!: proper_rules)
  then show ?thesis
    unfolding runInstallMsi_def by (intro proper_rules; simp)
qed

lemma put_back_final: "final (put_back sys)"
  unfolding put_back_def
  by (intro final_bind final_if final_leave proper_rules; simp add: RestoreBackup_ends)

lemma put_back_proper [proper_rules]: "proper (put_back sys)"
  by (rule final_proper [OF put_back_final])

lemma runVerify_proper [proper_rules]: "proper (runVerify sys args)"
  unfolding runVerify_def Let_def by (intro proper_rules; simp)

lemma clean_up_proper [proper_rules]: "proper (clean_up sys args)"
  unfolding clean_up_def by (intro proper_rules)

lemma runLaunch_final: "final (runLaunch sys args)"
  unfolding runLaunch_def
  by (intro final_bind final_if final_leave put_back_final proper_rules; simp)

lemma run_from_final: "final (run_from sys args entry)"
  unfolding run_from_def
  by (intro final_bind runLaunch_final proper_rules; simp)

lemma run_steps_final: "final (run_steps sys args entry)"
  unfolding run_steps_def
  by (intro final_bind final_if final_leave run_from_final proper_rules; simp)

lemma check_steps_final: "final (check_steps sys args)"
  unfolding check_steps_def Let_def
  by (intro final_bind final_if final_leave proper_rules; simp)

lemma download_steps_final: "final (download_steps sys args)"
  unfolding download_steps_def
  by (intro final_bind final_leave proper_rules; simp)

text \<open>The slot returns, and its last signal is its only outcome.\<close>

definition ends_with_one_outcome :: "'w run_state \<Rightarrow> 'w run_state option \<Rightarrow> bool" where
  "ends_with_one_outcome s result \<longleftrightarrow>
     (\<exists>s' pre sig. result = Some s' \<and> sent s' = sent s @ pre @ [Flow sig] \<and> progress_only pre \<and> outcome sig)"

lemma slot_final:
  assumes "final m"
  shows "ends_with_one_outcome s (slot m s)"
proof -
  obtain sig s' pre where "m s = Some (Inl sig, s')" "sent s' = sent s @ pre" "progress_only pre" "outcome sig"
    using assms by (auto simp: final_def extends_def) metis
  then show ?thesis
    by (simp add: ends_with_one_outcome_def slot_def)
qed

lemma slots_end:
  "ends_with_one_outcome s (run sys args entry s)" "ends_with_one_outcome s (check sys args s)"
  "ends_with_one_outcome s (download sys args s)" "ends_with_one_outcome s (apply_update sys args s)"
  by (simp_all add: run_def check_def download_def apply_update_def slot_final run_steps_final check_steps_final
      download_steps_final)

section \<open>Triples\<close>

text \<open>From a state in \<open>P\<close> the step ends in \<open>Q\<close> with its value, or in \<open>E\<close> with its signal.\<close>

definition valid ::
    "('w run_state \<Rightarrow> bool) \<Rightarrow> ('a, 'w) step \<Rightarrow> ('a \<Rightarrow> 'w run_state \<Rightarrow> bool)
     \<Rightarrow> (FlowSignal \<Rightarrow> 'w run_state \<Rightarrow> bool) \<Rightarrow> bool" where
  "valid P m Q E \<longleftrightarrow> (\<forall>s. P s \<longrightarrow> (case m s of
       None \<Rightarrow> True | Some (Inl sig, s') \<Rightarrow> E sig s' | Some (Inr x, s') \<Rightarrow> Q x s'))"

lemma valid_bind:
  assumes "valid P m R E" "\<And>x. valid (R x) (k x) Q E"
  shows "valid P (bindS m k) Q E"
  using assms by (fastforce simp: valid_def bindS_def split: option.splits sum.splits)

lemma valid_weaken:
  assumes "valid P m Q E" "\<And>s. P' s \<Longrightarrow> P s" "\<And>x s. Q x s \<Longrightarrow> Q' x s"
  shows "valid P' m Q' E"
  using assms by (fastforce simp: valid_def split: option.splits sum.splits)

lemma valid_value: "valid P (state_of f) (\<lambda>x s. P s \<and> x = f s) E"
  by (simp add: valid_def state_of_def)

lemma valid_leave: "(\<And>s. P s \<Longrightarrow> E sig s) \<Longrightarrow> valid P (leave sig) Q E"
  by (simp add: valid_def leave_def)

lemma valid_assume: "(b \<Longrightarrow> valid P m Q E) \<Longrightarrow> valid (\<lambda>s. P s \<and> b) m Q E"
  by (auto simp: valid_def)

text \<open>An invariant of the state, with the exits it allows.\<close>

abbreviation keeps :: "('w run_state \<Rightarrow> bool) \<Rightarrow> (FlowSignal \<Rightarrow> 'w run_state \<Rightarrow> bool) \<Rightarrow> ('a, 'w) step \<Rightarrow> bool" where
  "keeps I E m \<equiv> valid I m (\<lambda>_. I) E"

named_theorems keeps_rules

lemma keeps_bind [keeps_rules]: "keeps I E m \<Longrightarrow> (\<And>x. keeps I E (k x)) \<Longrightarrow> keeps I E (bindS m k)"
  by (rule valid_bind)

lemma keeps_basic [keeps_rules]:
  "keeps I E (return_step x)" "keeps I E (state_of f)"
  "(\<And>s. I s \<Longrightarrow> E sig s) \<Longrightarrow> keeps I E (leave sig)"
  "(\<And>s. I s \<Longrightarrow> I (s\<lparr>sent := sent s @ [Flow sig2]\<rparr>)) \<Longrightarrow> keeps I E (emit sig2)"
  "(\<And>s. I s \<Longrightarrow> I (s\<lparr>worker := g (worker s)\<rparr>)) \<Longrightarrow> keeps I E (set_worker g)"
  "(\<And>s. I s \<Longrightarrow> I (s\<lparr>world := h (world s)\<rparr>)) \<Longrightarrow> keeps I E (change h)"
  "(\<And>s x w. I s \<Longrightarrow> io (world s) = (x, w) \<Longrightarrow> I (s\<lparr>world := w\<rparr>)) \<Longrightarrow> keeps I E (call io)"
  "(\<And>s. I s \<Longrightarrow> E (SigFailed fc detail) s) \<Longrightarrow> keeps I E (require b fc detail)"
  by (auto simp: valid_def return_step_def state_of_def leave_def emit_def set_worker_def change_def call_def
      require_def split: prod.splits)

lemma keeps_cases [keeps_rules]:
  "(b \<Longrightarrow> keeps I E m) \<Longrightarrow> (\<not> b \<Longrightarrow> keeps I E n) \<Longrightarrow> keeps I E (if b then m else n)"
  "(\<And>x. y = Some x \<Longrightarrow> keeps I E (f x)) \<Longrightarrow> (y = None \<Longrightarrow> keeps I E m) \<Longrightarrow>
    keeps I E (case y of None \<Rightarrow> m | Some x \<Rightarrow> f x)"
  "(\<And>x. z = Inl x \<Longrightarrow> keeps I E (g x)) \<Longrightarrow> (\<And>x. z = Inr x \<Longrightarrow> keeps I E (h x)) \<Longrightarrow>
    keeps I E (case z of Inl x \<Rightarrow> g x | Inr x \<Rightarrow> h x)"
  "(\<And>a b. p = (a, b) \<Longrightarrow> keeps I E (q a b)) \<Longrightarrow> keeps I E (case p of (a, b) \<Rightarrow> q a b)"
  by (auto split: option.split sum.split prod.split)

section \<open>The reported installation state\<close>

text \<open>
  The portable installation as the pipeline sees it: the disk of the swap, and every other call
  of the worker leaves the installed tree and its backup alone. \<open>matches t\<close> says that the
  version resource of the tree names the target version.
\<close>

definition same_install :: "('w \<Rightarrow> string \<Rightarrow> 't option) \<Rightarrow> SwapPlan \<Rightarrow> 'w \<Rightarrow> 'w \<Rightarrow> bool" where
  "same_install tree plan w w' \<longleftrightarrow>
     tree w' (install_dir plan) = tree w (install_dir plan) \<and> tree w' (backup_dir plan) = tree w (backup_dir plan)"

text \<open>
  The installation before the swap, and after it. \<open>apart d\<close> says that deleting the directory
  \<open>d\<close> does not touch the installation.
\<close>

definition installed ::
    "('w \<Rightarrow> string \<Rightarrow> 't option) \<Rightarrow> SwapPlan \<Rightarrow> (string \<Rightarrow> bool) \<Rightarrow> 't \<Rightarrow> 'w run_state \<Rightarrow> bool" where
  "installed tree plan apart old s \<longleftrightarrow>
     swap_plan (worker s) = plan \<and> apart (download_dir (worker s)) \<and>
     tree (world s) (install_dir plan) = Some old"

definition swapped ::
    "('w \<Rightarrow> string \<Rightarrow> 't option) \<Rightarrow> SwapPlan \<Rightarrow> (string \<Rightarrow> bool) \<Rightarrow> ('t \<Rightarrow> bool) \<Rightarrow> 't \<Rightarrow> 'w run_state \<Rightarrow> bool" where
  "swapped tree plan apart good old s \<longleftrightarrow>
     swap_plan (worker s) = plan \<and> apart (download_dir (worker s)) \<and>
     tree (world s) (backup_dir plan) = Some old \<and>
     (\<exists>new. tree (world s) (install_dir plan) = Some new \<and> good new)"

text \<open>What the outcome says of the installation, compared with the disk.\<close>

definition truthful ::
    "('w \<Rightarrow> string \<Rightarrow> 't option) \<Rightarrow> SwapPlan \<Rightarrow> ('t \<Rightarrow> bool) \<Rightarrow> 't \<Rightarrow> FlowSignal \<Rightarrow> 'w run_state \<Rightarrow> bool" where
  "truthful tree plan good old sig s \<longleftrightarrow>
     (let live = tree (world s) (install_dir plan); kept = tree (world s) (backup_dir plan) in
      case sig of
        SigAllDone \<Rightarrow> \<exists>new. live = Some new \<and> good new
      | SigFailed fc _ \<Rightarrow>
          if fc = LaunchFailed then \<exists>new. live = Some new \<and> good new
          else (case InstallStateForFailure fc of
                  Intact \<Rightarrow> live = Some old
                | InstallRestored \<Rightarrow> live = Some old
                | StrandedInBackup \<Rightarrow> kept = Some old
                | InstallUnknown \<Rightarrow> False)
      | _ \<Rightarrow> False)"

lemma installed_frame:
  "installed tree plan apart old s \<Longrightarrow> same_install tree plan (world s) w \<Longrightarrow> installed tree plan apart old (s\<lparr>world := w\<rparr>)"
  by (simp add: installed_def same_install_def)

lemma swapped_frame:
  "swapped tree plan apart good old s \<Longrightarrow> same_install tree plan (world s) w \<Longrightarrow>
    swapped tree plan apart good old (s\<lparr>world := w\<rparr>)"
  by (simp add: swapped_def same_install_def)

lemma state_frames [simp]:
  "installed tree plan apart old (s\<lparr>sent := x\<rparr>) = installed tree plan apart old s"
  "swapped tree plan apart good old (s\<lparr>sent := x\<rparr>) = swapped tree plan apart good old s"
  "swap_plan (f (worker s)) = swap_plan (worker s) \<Longrightarrow> download_dir (f (worker s)) = download_dir (worker s) \<Longrightarrow>
    installed tree plan apart old (s\<lparr>worker := f (worker s)\<rparr>) = installed tree plan apart old s"
  "swap_plan (f (worker s)) = swap_plan (worker s) \<Longrightarrow> download_dir (f (worker s)) = download_dir (worker s) \<Longrightarrow>
    swapped tree plan apart good old (s\<lparr>worker := f (worker s)\<rparr>) = swapped tree plan apart good old s"
  by (simp_all add: installed_def swapped_def)

lemma truthful_sent [simp]: "truthful tree plan good old sig (s\<lparr>sent := x\<rparr>) = truthful tree plan good old sig s"
  by (simp add: truthful_def)

lemma truthful_untouched:
  "installed tree plan apart old s \<Longrightarrow> fc \<in> {DownloadFailed, InstallFailed, AppWontClose, VerifyInstallFailed} \<Longrightarrow>
    truthful tree plan good old (SigFailed fc d) s"
  by (auto simp: truthful_def installed_def InstallStateForFailure_def)

locale portable_system = sibling_disk "disk sys" plan tree runnable
  for sys :: "('w, 'j) system" and plan :: SwapPlan and tree :: "'w \<Rightarrow> string \<Rightarrow> 't option" and runnable :: "'t \<Rightarrow> bool" +
  fixes matches :: "'t \<Rightarrow> bool" and apart :: "string \<Rightarrow> bool"
  assumes version_of_tree: "VerifyInstalledVersion (disk sys) plan w \<longleftrightarrow>
      (\<exists>t. tree w (install_dir plan) = Some t \<and> runnable t \<and> matches t)"
    and remove_apart: "apart d \<Longrightarrow> tree (remove_all (disk sys) w d) (install_dir plan) = tree w (install_dir plan)"
    and outside_calls:
      "same_install tree plan w (clear_cancel sys w)" "same_install tree plan w (post_handoff sys w h)"
      "same_install tree plan w (ClosePackageLock sys w h)"
      "same_install tree plan w (snd (WaitForProcessExit sys w pid))"
      "same_install tree plan w (snd (wait_instance_mutex sys w))"
      "same_install tree plan w (snd (create_process sys w exe dir))"
    and extract_keeps: "same_install tree plan w (snd (ExtractZip sys w package (staging_dir plan)))"
    and remove_hoist_keeps: "same_install tree plan w (remove_all (disk sys) w (staging_dir plan @ ''.hoist''))"
    and hoist_keeps: "folder \<in> set (directory_entries sys v (staging_dir plan)) \<Longrightarrow>
      same_install tree plan w (snd (move_directory (disk sys) w folder (staging_dir plan @ ''.hoist'')))"
    and promote_keeps:
      "same_install tree plan w (snd (move_directory (disk sys) w (staging_dir plan @ ''.hoist'') (staging_dir plan)))"
begin

lemma same_install_trans:
  "same_install tree plan u v \<Longrightarrow> same_install tree plan v w \<Longrightarrow> same_install tree plan u w"
  by (simp add: same_install_def)

lemma remove_staging_keeps: "same_install tree plan w (snd (RemoveTreeW sys w (staging_dir plan)))"
  by (simp add: same_install_def RemoveTreeW_def Let_def remove_other)

lemma remove_hoist_tree_keeps: "same_install tree plan w (snd (RemoveTreeW sys w (staging_dir plan @ ''.hoist'')))"
  using remove_hoist_keeps by (simp add: RemoveTreeW_def Let_def)

lemmas staging_keeps = remove_staging_keeps remove_hoist_tree_keeps promote_keeps extract_keeps

lemma hoist_folder_keeps:
  assumes "folder \<in> set (directory_entries sys v (staging_dir plan))"
  shows "same_install tree plan w (snd (hoist_folder sys plan folder w))"
proof -
  define h where "h = staging_dir plan @ ''.hoist''"
  obtain g0 w0 where r0: "RemoveTreeW sys w h = (g0, w0)" by fastforce
  obtain e1 w1 where r1: "move_directory (disk sys) w0 folder h = (e1, w1)" by fastforce
  obtain g2 w2 where r2: "RemoveTreeW sys w1 (staging_dir plan) = (g2, w2)" by fastforce
  obtain e3 w3 where r3: "move_directory (disk sys) w2 h (staging_dir plan) = (e3, w3)" by fastforce
  have w1: "same_install tree plan w w1"
    using remove_hoist_tree_keeps [of w] hoist_keeps [OF assms, of w0] r0 r1
    by (auto simp: h_def intro: same_install_trans)
  have w2: "same_install tree plan w w2"
    using w1 remove_staging_keeps [of w1] r2 by (auto intro: same_install_trans)
  have w3: "same_install tree plan w w3"
    using w2 promote_keeps [of w2] r3 by (auto simp: h_def intro: same_install_trans)
  have undo: "same_install tree plan w
      (snd (RemoveTreeW sys (snd (RemoveTreeW sys v h)) (staging_dir plan)))" if "same_install tree plan w v" for v
    using that remove_hoist_tree_keeps [of v] remove_staging_keeps [of "snd (RemoveTreeW sys v h)"]
    unfolding h_def by (blast intro: same_install_trans)
  show ?thesis
    using undo [OF w1] undo [OF w2] undo [OF w3] w3
    by (simp add: hoist_folder_def Let_def r0 r1 r2 r3 flip: h_def)
qed

lemma ResolveStagedRoot_entry:
  "ResolveStagedRoot sys w d = Some folder \<Longrightarrow> folder \<noteq> d \<Longrightarrow> folder \<in> set (directory_entries sys w d)"
  by (auto simp: ResolveStagedRoot_def split: if_splits list.splits)

lemma StagePortablePackage_keeps:
  assumes "StagePortablePackage sys plan package w = (result, w')"
  shows "same_install tree plan w w'"
proof -
  obtain gone w1 where r1: "RemoveTreeW sys w (staging_dir plan) = (gone, w1)" by fastforce
  obtain err w2 where r2: "ExtractZip sys w1 package (staging_dir plan) = (err, w2)" by fastforce
  have w1: "same_install tree plan w w1"
    using remove_staging_keeps [of w] r1 by simp
  have w2: "same_install tree plan w w2"
    using w1 extract_keeps [of w1 package] r2 by (auto intro: same_install_trans)
  have w3: "same_install tree plan w (snd (RemoveTreeW sys w2 (staging_dir plan)))"
    using w2 remove_staging_keeps [of w2] by (rule same_install_trans)
  have w4: "same_install tree plan w (snd (hoist_folder sys plan folder w2))"
    if "ResolveStagedRoot sys w2 (staging_dir plan) = Some folder" "folder \<noteq> staging_dir plan" for folder
    using w2 hoist_folder_keeps [OF ResolveStagedRoot_entry [OF that]] by (rule same_install_trans)
  show ?thesis
    using assms w1 w2 w3 w4
    by (auto simp: StagePortablePackage_def r1 r2 split: if_split_asm option.split_asm)
qed

lemma stage_package_keeps [keeps_rules]:
  "keeps (installed tree plan apart old) (truthful tree plan good old) (stage_package sys)"
proof -
  have result: "keeps (installed tree plan apart old) (truthful tree plan good old)
      (case result of Staged \<Rightarrow> return_step ()
      | StageFailed e \<Rightarrow> leave (SigFailed InstallFailed e)
      | UnusablePackage e \<Rightarrow> bindS (set_worker (have_package_update (\<lambda>_. False)))
          (\<lambda>_. leave (SigFailed DownloadFailed e)))" for result
    by (cases result) (auto intro!: keeps_rules truthful_untouched)
  have plan: "valid (\<lambda>s. installed tree plan apart old s \<and> wk = worker s)
      (call (StagePortablePackage sys (swap_plan wk) (package_path wk))) (\<lambda>_. installed tree plan apart old)
      (truthful tree plan good old)" for wk
    using StagePortablePackage_keeps
    by (auto simp: valid_def call_def installed_def same_install_def split: prod.splits)
  show ?thesis
    unfolding stage_package_def
    by (rule valid_bind [OF valid_value]) (rule valid_bind [OF plan result])
qed

lemma ensure_staged_keeps [keeps_rules]:
  "keeps (installed tree plan apart old) (truthful tree plan good old) (ensure_staged sys)"
  unfolding ensure_staged_def by (intro keeps_rules; simp add: truthful_untouched)

lemma runCloseApp_keeps [keeps_rules]:
  "keeps (installed tree plan apart old) (truthful tree plan good old) (runCloseApp sys args)"
proof -
  have "same_install tree plan w (post_close_request sys args w)" for w
    using outside_calls by (simp add: post_close_request_def same_install_def split: option.split)
  then show ?thesis
    unfolding runCloseApp_def using outside_calls(4)
    by (intro keeps_rules) (auto simp: truthful_untouched intro: installed_frame, metis installed_frame snd_conv)
qed

lemma call_loop_valid:
  assumes "\<And>s x w. P s \<Longrightarrow> io (world s) = Some (x, w) \<Longrightarrow> Q x (s\<lparr>world := w\<rparr>)"
  shows "valid P (call_loop io) Q E"
  using assms by (auto simp: valid_def call_loop_def split: option.splits)

lemma repair_keeps:
  assumes "runnable old"
  shows "keeps (installed tree plan apart old) E (call_loop (RepairOrphanedSwap (disk sys) plan))"
proof (rule call_loop_valid)
  fix s :: "'w run_state" and x w
  assume s: "installed tree plan apart old s" "RepairOrphanedSwap (disk sys) plan (world s) = Some (x, w)"
  then have "\<exists>t. tree (world s) (install_dir plan) = Some t \<and> runnable t"
    using assms by (simp add: installed_def)
  then have "w = world s"
    using s(2) by (simp add: RepairOrphanedSwap_def exists_exe)
  then show "installed tree plan apart old (s\<lparr>world := w\<rparr>)"
    using s(1) by simp
qed

lemma swap_valid:
  "valid (installed tree plan apart old)
     (call_loop (\<lambda>w. map_option (\<lambda>(e, _, w). (e, w)) (StageRename (disk sys) plan default_retry w)))
     (\<lambda>e s. case swap_failure plan e of
        None \<Rightarrow> swapped tree plan apart runnable old s
      | Some signal \<Rightarrow> swap_plan (worker s) = plan \<and> truthful tree plan good old signal s) E"
proof (rule call_loop_valid)
  fix s :: "'w run_state" and e w
  assume s: "installed tree plan apart old s"
    "map_option (\<lambda>(e, _, w). (e, w)) (StageRename (disk sys) plan default_retry (world s)) = Some (e, w)"
  then obtain failed where run: "StageRename (disk sys) plan default_retry (world s) = Some (e, failed, w)"
    by auto
  have "tree (world s) (install_dir plan) = Some old" "swap_plan (worker s) = plan" "apart (download_dir (worker s))"
    using s(1) by (simp_all add: installed_def)
  then show "case swap_failure plan e of
        None \<Rightarrow> swapped tree plan apart runnable old (s\<lparr>world := w\<rparr>)
      | Some signal \<Rightarrow> swap_plan (worker (s\<lparr>world := w\<rparr>)) = plan \<and> truthful tree plan good old signal (s\<lparr>world := w\<rparr>)"
    using StageRename_outcome [OF default_retry_production, of "world s" old] run
    by (cases e) (auto simp: swap_failure_def swapped_def truthful_def InstallStateForFailure_def)
qed

lemma keeps_state [keeps_rules]: "(\<And>x. keeps I E (k x)) \<Longrightarrow> keeps I E (bindS (state_of f) k)"
  by (intro keeps_rules)

lemma with_plan:
  assumes "\<And>s. P s \<Longrightarrow> swap_plan (worker s) = plan" "valid P (k plan) Q E"
  shows "valid P (bindS (state_of (swap_plan \<circ> worker)) k) Q E"
  using assms by (simp add: valid_def bindS_def state_of_def)

lemma runInstallPortable_valid:
  assumes "runnable old"
  shows "valid (installed tree plan apart old) (runInstallPortable sys) (\<lambda>_. swapped tree plan apart runnable old)
    (truthful tree plan good old)"
proof -
  have finish: "valid (\<lambda>s. case swap_failure plan e of
        None \<Rightarrow> swapped tree plan apart runnable old s
      | Some signal \<Rightarrow> swap_plan (worker s) = plan \<and> truthful tree plan good old signal s)
     (case swap_failure plan e of
        None \<Rightarrow> bindS (set_worker (launch_dir_update (\<lambda>_. install_dir plan))) (\<lambda>_. emit (SigStepDone StepInstall))
      | Some signal \<Rightarrow> leave signal)
     (\<lambda>_. swapped tree plan apart runnable old) (truthful tree plan good old)" for e
    by (cases "swap_failure plan e") (auto intro!: keeps_rules valid_leave)
  have emit: "keeps (installed tree plan apart old) (truthful tree plan good old) (emit (SigStepStarted StepInstall))"
    by (intro keeps_rules) simp
  have plan: "installed tree plan apart old s \<Longrightarrow> swap_plan (worker s) = plan" for s
    by (simp add: installed_def)
  show ?thesis
    unfolding runInstallPortable_def
    by (rule valid_bind [OF emit], rule with_plan [OF plan], assumption)
      (rule valid_bind [OF repair_keeps [OF assms]], rule valid_bind [OF ensure_staged_keeps],
        rule valid_bind [OF swap_valid finish])
qed

text \<open>The undo puts the old tree back or reports it in the backup directory.\<close>

lemma put_back_valid:
  "valid (swapped tree plan apart good old) (put_back sys) Q (truthful tree plan good' old)"
proof -
  have restore: "valid (swapped tree plan apart good old) (call_loop (RestoreBackup (disk sys) plan default_retry))
     (\<lambda>e s. e = SwapNone \<and> tree (world s) (install_dir plan) = Some old \<or>
        e = SwapRestoreFailed \<and> tree (world s) (backup_dir plan) = Some old) E" for E
  proof (rule call_loop_valid)
    fix s :: "'w run_state" and e w
    assume "swapped tree plan apart good old s" "RestoreBackup (disk sys) plan default_retry (world s) = Some (e, w)"
    then show "e = SwapNone \<and> tree (world (s\<lparr>world := w\<rparr>)) (install_dir plan) = Some old \<or>
        e = SwapRestoreFailed \<and> tree (world (s\<lparr>world := w\<rparr>)) (backup_dir plan) = Some old"
      using RestoreBackup_outcome [OF default_retry_production, of "world s" old] by (auto simp: swapped_def)
  qed
  show ?thesis
    unfolding put_back_def
    by (rule with_plan, simp add: swapped_def, rule valid_bind [OF restore])
      (auto simp: valid_def leave_def truthful_def InstallStateForFailure_def)
qed

lemma runVerify_valid:
  assumes "ua_install_mode args = Portable"
  shows "valid (swapped tree plan apart runnable old) (runVerify sys args)
    (\<lambda>_. swapped tree plan apart (\<lambda>t. runnable t \<and> matches t) old)
    (truthful tree plan (\<lambda>t. runnable t \<and> matches t) old)"
proof -
  let ?good = "\<lambda>t. runnable t \<and> matches t"
  have emit: "keeps (swapped tree plan apart runnable old) E (emit (SigStepStarted StepVerify))"
    "keeps (swapped tree plan apart ?good old) E (emit (SigStepDone StepVerify))" for E
    by (intro keeps_rules; simp)+
  have verdict: "valid (\<lambda>s. (swapped tree plan apart runnable old s \<and> wk = worker s) \<and>
        ok = VerifyInstalledVersion (disk sys) (swap_plan wk) (world s))
      (if \<not> ok then put_back sys else set_worker (launch_dir_update (\<lambda>_. install_dir (swap_plan wk))))
      (\<lambda>_. swapped tree plan apart ?good old) (truthful tree plan ?good old)" for wk ok
  proof (cases ok)
    case False
    then show ?thesis
      by simp (rule valid_weaken [OF put_back_valid], auto)
  next
    case True
    then show ?thesis
      using version_of_tree by (auto simp: valid_def set_worker_def swapped_def)
  qed
  show ?thesis
    unfolding runVerify_def using assms
    by (simp, intro valid_bind [OF emit(1)] valid_bind [OF valid_value] valid_bind [OF _ emit(2)])
      (rule verdict)
qed

lemma call_frame:
  assumes "\<And>w. same_install tree plan w (snd (io w))"
  shows "keeps (swapped tree plan apart good old) E (call io)"
  using assms by (intro keeps_rules swapped_frame) (metis snd_conv)+

lemma clean_up_valid:
  assumes "ua_install_mode args = Portable"
  shows "valid (swapped tree plan apart good old) (clean_up sys args)
    (\<lambda>_ s. \<exists>new. tree (world s) (install_dir plan) = Some new \<and> good new) E"
proof -
  define live where "live s \<longleftrightarrow> apart (download_dir (worker s)) \<and>
      (\<exists>new. tree (world s) (install_dir plan) = Some new \<and> good new)" for s :: "'w run_state"
  have cleanup: "valid (\<lambda>s. swapped tree plan apart good old s \<and> wk = worker s)
      (change (\<lambda>w. snd (CleanupBackup (disk sys) (swap_plan wk) w))) (\<lambda>_ s. live s \<and> wk = worker s) E" for wk
    by (auto simp: valid_def change_def swapped_def live_def CleanupBackup_def RemoveTree_def Let_def remove_other)
  have lock: "valid (\<lambda>s. live s \<and> download_dir (worker s) = d) (reset_lock sys None)
      (\<lambda>_ s. live s \<and> download_dir (worker s) = d) E" for d
    using outside_calls(3) unfolding reset_lock_def
    by (intro keeps_rules) (auto simp: live_def same_install_def)
  have remove: "valid (\<lambda>s. live s \<and> download_dir (worker s) = d)
      (if d = [] then return_step () else change (\<lambda>w. snd (RemoveTreeW sys w d)))
      (\<lambda>_ s. \<exists>new. tree (world s) (install_dir plan) = Some new \<and> good new) E" for d
    by (auto simp: valid_def return_step_def change_def live_def RemoveTreeW_def Let_def remove_apart)
  show ?thesis
    unfolding clean_up_def using assms
    by (simp, intro valid_bind [OF valid_value] valid_bind [OF cleanup])
      (rule valid_bind [OF _ remove], rule valid_weaken [OF lock], auto)
qed

lemma runLaunch_valid:
  assumes "ua_install_mode args = Portable"
  shows "valid (swapped tree plan apart good old) (runLaunch sys args) (\<lambda>_ _. False) (truthful tree plan good old)"
proof -
  have launch: "keeps (swapped tree plan apart good old) E (call (\<lambda>w. LaunchExoSnapFrom sys w d))"
    "keeps (swapped tree plan apart good old) E (call (wait_instance_mutex sys))" for d E
    using outside_calls by (auto simp: LaunchExoSnapFrom_def intro!: call_frame)
  have launched: "keeps (swapped tree plan apart good old) (truthful tree plan good old) (require b LaunchFailed [])" for b
    by (intro keeps_rules) (simp add: swapped_def truthful_def)
  have finish: "valid (\<lambda>s. \<exists>new. tree (world s) (install_dir plan) = Some new \<and> good new)
      (bindS (emit (SigStepDone StepLaunch)) (\<lambda>_. leave SigAllDone)) (\<lambda>_ _. False) (truthful tree plan good old)"
    by (auto simp: valid_def bindS_def emit_def leave_def truthful_def)
  have emit: "keeps (swapped tree plan apart good old) E (emit (SigStepStarted StepLaunch))" for E
    by (intro keeps_rules) simp
  have up: "valid (swapped tree plan apart good old)
      (if \<not> up then put_back sys
       else bindS (clean_up sys args) (\<lambda>_. bindS (emit (SigStepDone StepLaunch)) (\<lambda>_. leave SigAllDone)))
      (\<lambda>_ _. False) (truthful tree plan good old)" for up
    by (cases up) (simp_all add: put_back_valid valid_bind [OF clean_up_valid [OF assms] finish])
  show ?thesis
    unfolding runLaunch_def using assms
    by (simp, intro valid_bind [OF emit] keeps_state valid_bind [OF launch(1)] valid_bind [OF launched]
        valid_bind [OF launch(2)] up valid_bind [OF keeps_basic(2)])
qed

lemma apply_valid:
  assumes "ua_install_mode args = Portable" "entry = StepCloseApp \<or> entry = StepInstall" "runnable old"
  shows "valid (\<lambda>s. installed tree plan apart old s \<and> have_package (worker s)) (run_steps sys args entry)
    (\<lambda>_ _. False) (truthful tree plan (\<lambda>t. runnable t \<and> matches t) old)"
proof -
  let ?E = "truthful tree plan (\<lambda>t. runnable t \<and> matches t) old"
  have close: "keeps (installed tree plan apart old) ?E
      (if entry \<le> StepCloseApp then runCloseApp sys args else return_step ())"
    by (intro keeps_rules)
  have order: "\<not> entry \<le> StepDownload" "entry \<le> StepInstall" "entry \<le> StepVerify" "entry \<noteq> StepDownload"
    using assms(2) by (auto simp: less_eq_UpStep_def step_index_def)
  have pipeline: "valid (installed tree plan apart old) (run_from sys args entry) (\<lambda>_ _. False) ?E"
    unfolding run_from_def
    by (simp only: order assms(1) if_True if_False simp_thms, intro valid_bind [OF keeps_basic(1)] valid_bind [OF close]
        valid_bind [OF runInstallPortable_valid [OF assms(3)]] valid_bind [OF runVerify_valid [OF assms(1)]]
        runLaunch_valid [OF assms(1)])
  have clear: "valid (\<lambda>s. installed tree plan apart old s \<and> have_package (worker s)) (change (clear_cancel sys))
      (\<lambda>_ s. installed tree plan apart old s \<and> have_package (worker s)) ?E"
    using outside_calls(1) by (auto simp: valid_def change_def intro: installed_frame)
  have "valid (\<lambda>s. (installed tree plan apart old s \<and> have_package (worker s)) \<and> p = (have_package \<circ> worker) s)
      (if entry \<noteq> StepDownload \<and> \<not> p
       then if ua_mode args = Manual
            then leave (SigFailed DownloadFailed ''The verified update is no longer available.'')
            else run_from sys args StepDownload
       else run_from sys args entry) (\<lambda>_ _. False) ?E" for p
    by (cases p) (use order pipeline in \<open>auto simp: valid_def\<close>)
  then show ?thesis
    unfolding run_steps_def
    by (intro valid_bind [OF clear] valid_bind [OF valid_value])
qed

end

section \<open>The scripted machine\<close>

text \<open>
  The scripted disk with a package that unpacks to version 2.0.0, an application that closes and
  starts, and no network.
\<close>

definition demo_system :: "(scripted_disk, json_value) system" where
  "demo_system = \<lparr>
     disk = scripted_api, json = document_api [], note_order = id, https = (\<lambda>w _ _ _. (Inl ''offline'', w)),
     signature_check = (\<lambda>_ _ _. False), public_key = [], official_build = False,
     temp_directory = (\<lambda>_. Some ''T''), create_directories = (\<lambda>w _. (True, w)), read_file = (\<lambda>_ _. None),
     remove_file = (\<lambda>w _. w), is_directory = (\<lambda>w d. dir_at w d \<noteq> None), directory_entries = (\<lambda>_ _. []),
     DownloadToFile = (\<lambda>w _ _. (Some ''offline'', [], w)),
     ExtractZip = (\<lambda>w _ d. (None,
       w\<lparr>dirs := (dirs w)(d \<mapsto> \<lparr>has_exe = True, exe_version = Some ''2.0.0''\<rparr>)\<rparr>)),
     cancel_requested = (\<lambda>_. False), clear_cancel = id, OpenPackageWriteLock = (\<lambda>w _. (Some 1, w)),
     ClosePackageLock = (\<lambda>w _. w), handle_sha256 = (\<lambda>_ _. []), top_level_windows = (\<lambda>_. []),
     post_handoff = (\<lambda>w _. w), WaitForProcessExit = (\<lambda>w _. (True, w)), instance_mutex_present = (\<lambda>_. False),
     wait_instance_mutex = (\<lambda>w. (True, w)), injected_uac_decline = (\<lambda>_. False),
     shell_execute_runas = (\<lambda>w _. (Inl 1223, w)), WaitForProcessOrCancel = (\<lambda>w _. (True, w)),
     process_exit_code = (\<lambda>_ _. 0), ReadInstallPath = (\<lambda>_. None), create_process = (\<lambda>w _ _. (True, w))\<rparr>"

lemma demo_same_install:
  "dirs w' (parent @ ''ExoSnap'') = dirs w (parent @ ''ExoSnap'') \<Longrightarrow>
   dirs w' (parent @ ''ExoSnap.old'') = dirs w (parent @ ''ExoSnap.old'') \<Longrightarrow>
   same_install dir_at (app_plan parent target) w w'"
  by (simp add: same_install_def app_plan_dirs dir_at_def)

lemma scripted_move_elsewhere:
  "d \<noteq> src \<Longrightarrow> d \<noteq> dst \<Longrightarrow> dirs (snd (scripted_move w src dst)) d = dirs w d"
  by (simp add: scripted_move_def Let_def split: option.split)

text \<open>The version resource of the scripted disk is that of the tree.\<close>

definition names_version :: "SemVer \<Rightarrow> package_tree \<Rightarrow> bool" where
  "names_version target t \<longleftrightarrow> InstalledVersionMatches None (Option.bind (exe_version t) ParseSemVer) target"

lemma scripted_verify:
  "VerifyInstalledVersion scripted_api (app_plan parent target) w \<longleftrightarrow>
     (\<exists>t. dir_at w (install_dir (app_plan parent target)) = Some t \<and> has_exe t \<and> names_version target t)"
proof -
  have "path_exists scripted_api w (exe_path (install_dir (app_plan parent target))) \<longleftrightarrow>
      (\<exists>t. dir_at w (install_dir (app_plan parent target)) = Some t \<and> has_exe t)"
    by (rule app_install.exists_exe [OF plan_dirs_simps(1)])
  moreover have "target_version (app_plan parent target) = target"
    by (simp add: app_plan_def MakeSwapPlan_def Let_def)
  ultimately show ?thesis
    by (auto simp: VerifyInstalledVersion_def Let_def names_version_def scripted_api_def exe_at_exe_path)
qed

interpretation demo_install: portable_system demo_system "app_plan parent target" dir_at has_exe
  "names_version target" "\<lambda>d. d = ''T''"
proof -
  have disk: "disk demo_system = scripted_api"
    by (simp add: demo_system_def)
  show "portable_system demo_system (app_plan parent target) dir_at has_exe (names_version target) (\<lambda>d. d = ''T'')"
  proof (unfold_locales, unfold disk)
    fix d w
    show "d = ''T'' \<Longrightarrow> dir_at (remove_all scripted_api w d) (install_dir (app_plan parent target)) =
        dir_at w (install_dir (app_plan parent target))"
      by (auto simp: app_plan_dirs dir_at_def scripted_remove_def Let_def)
    show "VerifyInstalledVersion scripted_api (app_plan parent target) w \<longleftrightarrow>
        (\<exists>t. dir_at w (install_dir (app_plan parent target)) = Some t \<and> has_exe t \<and> names_version target t)"
      by (rule scripted_verify)
  qed (use app_install.distinct_dirs app_install.exists_tree app_install.exists_exe app_install.remove_other
      app_install.move_done app_install.move_failed app_install.sleep_keeps in
      \<open>auto simp: demo_system_def app_plan_dirs scripted_remove_def Let_def scripted_move_elsewhere
        intro!: demo_same_install\<close>)
qed

text \<open>
  C17: when a verified package is applied to a runnable portable installation, the outcome the
  updater reports is the state of the disk: after success the new, verified version is
  installed; where the failure is said to leave the installation intact or restored, the old
  tree stands in its place; where it is said to be stranded, the old tree is in the backup
  directory.
\<close>

theorem reported_state_is_true:
  assumes "portable_system sys plan tree runnable matches apart"
    and "ua_install_mode args = Portable" "entry = StepCloseApp \<or> entry = StepInstall"
    and "have_package (worker s)" "swap_plan (worker s) = plan" "apart (download_dir (worker s))"
    and "tree (world s) (install_dir plan) = Some old" "runnable old"
  shows "\<exists>s' signals sig. run sys args entry s = Some s' \<and> sent s' = signals @ [Flow sig] \<and>
    truthful tree plan (\<lambda>t. runnable t \<and> matches t) old sig s'"
proof -
  obtain sig s' where run: "run_steps sys args entry s = Some (Inl sig, s')"
    using run_steps_final [of sys args entry] unfolding final_def by blast
  moreover have "installed tree plan apart old s"
    using assms by (simp add: installed_def)
  ultimately have "truthful tree plan (\<lambda>t. runnable t \<and> matches t) old sig s'"
    using portable_system.apply_valid [OF assms(1-3,8)] assms(4) by (fastforce simp: valid_def)
  then show ?thesis
    using run by (simp add: run_def slot_def)
qed

definition staged_worker :: UpdaterWorker where
  "staged_worker = new_worker\<lparr>have_package := True, swap_plan := app_plan [] (final_version 2 0 0), download_dir := ''T''\<rparr>"

definition portable_args :: UpdaterArgs where
  "portable_args = \<lparr>ua_mode = Manual, ua_channel = Stable, ua_install_mode = Portable, ua_install_dir = ''ExoSnap'',
     ua_app_pid = 0, ua_current_version = ''1.0.0'', ua_target_version = [], ua_update_transaction_id = [], ua_manifest_path = [],
     ua_manifest_signature_path = [], ua_base_url = ''https://feed/x'', ua_verify_reinstall = False\<rparr>"

theorem reported_state_is_true_witness:
  "\<exists>s' signals sig. run demo_system portable_args StepCloseApp
      \<lparr>worker = staged_worker, sent = [], world = demo_disk [0, 2, 2]\<rparr> = Some s' \<and> sent s' = signals @ [Flow sig] \<and>
    truthful dir_at (app_plan [] (final_version 2 0 0))
      (\<lambda>t. has_exe t \<and> names_version (final_version 2 0 0) t) \<lparr>has_exe = True, exe_version = Some ''1.0.0''\<rparr> sig s'"
  by (rule reported_state_is_true [OF demo_install.portable_system_axioms])
    (simp_all add: portable_args_def staged_worker_def demo_installed)

section \<open>A failed repair\<close>

text \<open>
  The installation that \<open>reported_state_is_true\<close> asks for is needed. After a failed restore the old
  tree is in the backup directory only; if the repair at the start of the next install attempt
  fails, its result is ignored, the swap clears the backup as stale, finds nothing to move, and
  the failure reported is the one that counts as an intact installation.
\<close>

definition stranded_disk :: "win32 list \<Rightarrow> scripted_disk" where
  "stranded_disk faults = (demo_disk faults)\<lparr>dirs :=
     [''ExoSnap.old'' \<mapsto> \<lparr>has_exe = True, exe_version = Some ''1.0.0''\<rparr>,
      ''ExoSnap.new'' \<mapsto> \<lparr>has_exe = True, exe_version = Some ''2.0.0''\<rparr>]\<rparr>"

lemma stranded_repair:
  "RepairOrphanedSwap scripted_api (app_plan [] (final_version 2 0 0)) (stranded_disk [1392]) = Some (False, stranded_disk [])"
  by (simp add: RepairOrphanedSwap_def RestoreBackup_def rename_back_def RenameDirectory_def RenameLoop.simps
      attempt_rename_def default_retry_def rename_ok_def IsTransientRenameError_def app_plan_dirs scripted_exists_def
      exe_at_exe_path scripted_move_def dir_at_def is_exe_path_def exe_path_def demo_disk_def exe_at_def stranded_disk_def)

lemma stranded_swap:
  "StageRename scripted_api (app_plan [] (final_version 2 0 0)) default_retry (stranded_disk []) =
     Some (RenameOldFailed, Some \<lparr>rename_error = 2, rename_attempts = 1\<rparr>,
       (stranded_disk [])\<lparr>dirs := (dirs (stranded_disk []))(''ExoSnap.old'' := None)\<rparr>)"
  by (simp add: StageRename_def exchange_trees_def RemoveTree_def scripted_remove_def rename_noting_def
      RenameDirectory_def RenameLoop.simps
      attempt_rename_def default_retry_def rename_ok_def IsTransientRenameError_def app_plan_dirs scripted_exists_def
      exe_at_exe_path scripted_move_def dir_at_def is_exe_path_def exe_path_def demo_disk_def exe_at_def stranded_disk_def)

theorem failed_repair_loses_the_backup:
  "\<exists>s'. runInstallPortable demo_system \<lparr>worker = staged_worker, sent = [], world = stranded_disk [1392]\<rparr> =
       Some (Inl (SigFailed InstallFailed ''The current installation is in use and could not be moved.''), s') \<and>
     dir_at (world s') ''ExoSnap'' = None \<and> dir_at (world s') ''ExoSnap.old'' = None \<and>
     InstallStateForFailure InstallFailed = Intact"
proof -
  have staged: "scripted_exists (stranded_disk []) (exe_path (staging_dir (app_plan [] (final_version 2 0 0))))"
    by (simp add: scripted_exists_def exe_at_exe_path app_plan_dirs dir_at_def is_exe_path_def exe_path_def
        stranded_disk_def exe_at_def)
  have gone: "dir_at ((stranded_disk [])\<lparr>dirs := (dirs (stranded_disk []))(''ExoSnap.old'' := None)\<rparr>) d = None"
    if "d = ''ExoSnap'' \<or> d = ''ExoSnap.old''" for d
    using that by (auto simp: dir_at_def stranded_disk_def)
  have "disk demo_system = scripted_api" "swap_plan staged_worker = app_plan [] (final_version 2 0 0)"
    by (simp_all add: demo_system_def staged_worker_def)
  then show ?thesis
    by (simp add: runInstallPortable_def ensure_staged_def bindS_def emit_def state_of_def call_loop_def leave_def
        return_step_def stranded_repair stranded_swap staged swap_failure_def gone InstallStateForFailure_def)
qed

end
