(* ===== verification/UpdaterGates.thy ===== *)
theory UpdaterGates
  imports UpdaterRuns
begin

text \<open>
  What reaches the installation: whatever is called in whatever order, the install step starts
  only for a manifest that passed every gate of \<^verbatim>\<open>fetchAndStage\<close>.
\<close>

section \<open>Histories of calls\<close>

datatype SlotCall = CallCheck | CallDownload | CallRun UpStep

definition perform :: "('w, 'j) system \<Rightarrow> UpdaterArgs \<Rightarrow> SlotCall \<Rightarrow> 'w run_state \<Rightarrow> 'w run_state option" where
  "perform sys args c s = (case c of
       CallCheck \<Rightarrow> check sys args s | CallDownload \<Rightarrow> download sys args s | CallRun entry \<Rightarrow> run sys args entry s)"

fun history :: "('w, 'j) system \<Rightarrow> UpdaterArgs \<Rightarrow> SlotCall list \<Rightarrow> 'w run_state \<Rightarrow> 'w run_state option" where
  "history sys args [] s = Some s"
| "history sys args (c # cs) s = Option.bind (perform sys args c s) (history sys args cs)"

definition fresh_run :: "'w \<Rightarrow> 'w run_state" where
  "fresh_run w = \<lparr>worker = new_worker, sent = [], world = w\<rparr>"

section \<open>The gates hold\<close>

definition accepted :: "('w, 'j) system \<Rightarrow> UpdaterArgs \<Rightarrow> UpdateManifest \<Rightarrow> bool" where
  "accepted sys args m \<longleftrightarrow>
     (\<exists>body sig. VerifyManifestSignature (signature_check sys) (public_key sys) body sig = VerifyOk \<and>
        ParseManifest (json sys) body = Inr m) \<and>
     (ua_target_version args = [] \<or> mf_version_raw m = ua_target_version args) \<and>
     \<not> semver_less (mf_version m) (installed_version args) \<and>
     \<not> semver_less (mf_version m) (minimum_accepted_version m) \<and>
     (\<not> ua_verify_reinstall args \<or> mf_version_raw m = ua_current_version args) \<and>
     SelectPackage m (ua_install_mode args) \<noteq> None"

lemma gate_manifest_accepted:
  "gate_manifest sys args body sig = Inr (m, pkg) \<Longrightarrow> accepted sys args m"
  by (auto simp: gate_manifest_def accepted_def TargetVersionAccepts_def VerificationReinstallAccepts_def
      VersionsMatchExactly_def IsDowngrade_def split: if_split_asm sum.split_asm option.split_asm)

text \<open>The worker holds an accepted manifest and swaps towards its version.\<close>

definition trusted :: "('w, 'j) system \<Rightarrow> UpdaterArgs \<Rightarrow> UpdaterWorker \<Rightarrow> bool" where
  "trusted sys args wk \<longleftrightarrow> accepted sys args (manifest wk) \<and>
     (ua_install_mode args = Portable \<longrightarrow>
        swap_plan wk = MakeSwapPlan (ua_install_dir args) (mf_version (manifest wk)))"

definition install_started :: "'w run_state \<Rightarrow> bool" where
  "install_started s \<longleftrightarrow> Flow (SigStepStarted StepInstall) \<in> set (sent s)"

definition guarded :: "('w, 'j) system \<Rightarrow> UpdaterArgs \<Rightarrow> 'w run_state \<Rightarrow> bool" where
  "guarded sys args s \<longleftrightarrow> (have_package (worker s) \<or> install_started s \<longrightarrow> trusted sys args (worker s))"

abbreviation (input) trusts :: "('w, 'j) system \<Rightarrow> UpdaterArgs \<Rightarrow> 'w run_state \<Rightarrow> bool" where
  "trusts sys args s \<equiv> trusted sys args (worker s)"

lemmas guard_simps = guarded_def trusted_def install_started_def

lemma keeps_loop [keeps_rules]: "(\<And>s w. I s \<Longrightarrow> I (s\<lparr>world := w\<rparr>)) \<Longrightarrow> keeps I E (call_loop io)"
  by (auto simp: valid_def call_loop_def split: option.splits)

lemma keeps_append [keeps_rules]:
  "(\<And>s. I s \<Longrightarrow> I (s\<lparr>sent := sent s @ f s\<rparr>)) \<Longrightarrow> keeps I E (\<lambda>s. Some (Inr (), s\<lparr>sent := sent s @ f s\<rparr>))"
  by (simp add: valid_def)

text \<open>The invariants this section uses are kept by every step that leaves manifest and plan alone.\<close>

named_theorems guard_rules

lemma reset_lock_guard [guard_rules]:
  "keeps (guarded sys args) (\<lambda>_. guarded sys args) (reset_lock sys' h)"
  "keeps (trusts sys args) (\<lambda>_. guarded sys args) (reset_lock sys' h)"
  unfolding reset_lock_def by (intro keeps_rules; auto simp: guard_simps)+

lemma abortedByCancel_guard [guard_rules]:
  "keeps (guarded sys args) (\<lambda>_. guarded sys args) (abortedByCancel sys' fc d)"
  "keeps (trusts sys args) (\<lambda>_. guarded sys args) (abortedByCancel sys' fc d)"
  unfolding abortedByCancel_def by (intro keeps_rules; auto simp: guard_simps)+

lemma LockAndVerifyPackage_guard [guard_rules]:
  "keeps (guarded sys args) (\<lambda>_. guarded sys args) (LockAndVerifyPackage sys' e)"
  "keeps (trusts sys args) (\<lambda>_. guarded sys args) (LockAndVerifyPackage sys' e)"
  unfolding LockAndVerifyPackage_def by (intro keeps_rules guard_rules; auto simp: guard_simps)+

lemma resolveRelease_guard [guard_rules]:
  "keeps (guarded sys args) (\<lambda>_. guarded sys args) (resolveRelease sys args)"
  unfolding resolveRelease_def by (intro keeps_rules guard_rules; auto simp: guard_simps)

lemma enter_download_dir_guard [guard_rules]:
  "keeps (guarded sys args) (\<lambda>_. guarded sys args) (enter_download_dir sys args)"
  unfolding enter_download_dir_def Let_def by (intro keeps_rules guard_rules; auto simp: guard_simps)

lemma trust_anchor_guard [guard_rules]:
  "keeps (guarded sys args) (\<lambda>_. guarded sys args) (trust_anchor sys args dir)"
  unfolding trust_anchor_def handed_over_def fetch_text_def by (intro keeps_rules guard_rules; auto simp: guard_simps)

lemma download_package_guard [guard_rules]:
  "keeps (guarded sys args) (\<lambda>_. guarded sys args) (download_package sys args dir pkg)"
  unfolding download_package_def Let_def
  by (intro keeps_rules guard_rules; auto simp: guard_simps)

lemma stage_package_guard [guard_rules]:
  "keeps (trusts sys args) (\<lambda>_. guarded sys args) (stage_package sys)"
proof -
  have "keeps (trusts sys args) (\<lambda>_. guarded sys args)
      (case result of Staged \<Rightarrow> return_step ()
      | StageFailed e \<Rightarrow> leave (SigFailed InstallFailed e)
      | UnusablePackage e \<Rightarrow> bindS (set_worker (have_package_update (\<lambda>_. False)))
          (\<lambda>_. leave (SigFailed DownloadFailed e)))" for result
    by (cases result) (auto simp: guard_simps intro!: keeps_rules)
  then show ?thesis
    unfolding stage_package_def by (intro keeps_rules; auto simp: guard_simps)
qed

lemma take_manifest:
  assumes "accepted sys args m"
  shows "valid (guarded sys args)
    (bindS (set_worker (\<lambda>wk. wk\<lparr>manifest := m, have_package := True\<rparr>)) (\<lambda>_.
     bindS (if ua_install_mode args = Portable
            then bindS (set_worker (swap_plan_update (\<lambda>_. MakeSwapPlan (ua_install_dir args) (mf_version m))))
                   (\<lambda>_. stage_package sys)
            else return_step ()) (\<lambda>_.
     emit (SigStepDone StepDownload)))) (\<lambda>_. trusts sys args) (\<lambda>_. guarded sys args)"
proof -
  have stepped: "keeps (trusts sys args) E (emit (SigStepDone StepDownload))" for E
    by (intro keeps_rules) simp
  have taken: "valid (guarded sys args) (set_worker (\<lambda>wk. wk\<lparr>manifest := m, have_package := True\<rparr>))
      (\<lambda>_ s. manifest (worker s) = m) E" for E
    by (simp add: valid_def set_worker_def)
  have planned: "valid (\<lambda>s. manifest (worker s) = m)
      (set_worker (swap_plan_update (\<lambda>_. MakeSwapPlan (ua_install_dir args) (mf_version m))))
      (\<lambda>_. trusts sys args) E" for E
    using assms by (simp add: valid_def set_worker_def trusted_def)
  show ?thesis
  proof (cases "ua_install_mode args = Portable")
    case True
    then show ?thesis
      by (simp, intro valid_bind [OF taken] valid_bind [OF _ stepped])
        (rule valid_bind [OF planned stage_package_guard])
  next
    case False
    have "valid (\<lambda>s. manifest (worker s) = m) (return_step ()) (\<lambda>_. trusts sys args) E" for E
      using False assms by (simp add: valid_def return_step_def trusted_def)
    then show ?thesis
      using False by (simp, intro valid_bind [OF taken] valid_bind [OF _ stepped])
  qed
qed

lemma keeps_read: "(\<And>x. valid P (k x) Q E) \<Longrightarrow> valid P (bindS (state_of f) k) Q E"
  by (simp add: valid_def bindS_def state_of_def)

lemma take_package_guard:
  assumes "accepted sys args m"
  shows "valid (guarded sys args) (take_package sys args dir m pkg) (\<lambda>_. trusts sys args) (\<lambda>_. guarded sys args)"
  unfolding take_package_def by (rule valid_bind [OF download_package_guard take_manifest [OF assms]])

lemma fetchAndStage_guard:
  "valid (guarded sys args) (fetchAndStage sys args) (\<lambda>_. trusts sys args) (\<lambda>_. guarded sys args)"
proof -
  have "valid (guarded sys args)
      (case gate_manifest sys args body sig of
         Inl signal \<Rightarrow> leave signal | Inr (m, pkg) \<Rightarrow> take_package sys args dir m pkg)
      (\<lambda>_. trusts sys args) (\<lambda>_. guarded sys args)" for body sig dir
    using gate_manifest_accepted [of sys args body sig]
    by (auto split: sum.split intro!: valid_leave take_package_guard)
  moreover have "keeps (guarded sys args) (\<lambda>_. guarded sys args) (require b DownloadFailed d)" for b d
    by (intro keeps_rules)
  ultimately show ?thesis
    unfolding fetchAndStage_def
    by (intro keeps_read valid_bind [OF keeps_basic(2)] valid_bind [OF enter_download_dir_guard]
        valid_bind [OF trust_anchor_guard] valid_bind [where P = "guarded sys args" and R = "\<lambda>_. guarded sys args"])
      (auto split: prod.split)
qed

lemma runDownload_guard:
  "valid (guarded sys args) (runDownload sys args) (\<lambda>_. trusts sys args) (\<lambda>_. guarded sys args)"
proof -
  have started: "keeps (guarded sys args) (\<lambda>_. guarded sys args) (emit (SigStepStarted StepDownload))"
    by (intro keeps_rules; auto simp: guard_simps)
  have resolved: "keeps (guarded sys args) (\<lambda>_. guarded sys args) (\<lambda>s. Some (Inr (), s\<lparr>sent := sent s @
             [ReleaseResolved (SemVerToString (ra_version (release (worker s))))]\<rparr>))"
    by (intro keeps_rules; auto simp: guard_simps)
  have "valid (guarded sys args)
      (if \<not> found
       then leave (SigFailed DownloadFailed ''No release with an update manifest found for this channel.'')
       else bindS (\<lambda>s. Some (Inr (), s\<lparr>sent := sent s @
             [ReleaseResolved (SemVerToString (ra_version (release (worker s))))]\<rparr>)) (\<lambda>_. fetchAndStage sys args))
      (\<lambda>_. trusts sys args) (\<lambda>_. guarded sys args)" for found
    by (cases found) (auto intro: valid_leave valid_bind [OF resolved fetchAndStage_guard])
  then show ?thesis
    unfolding runDownload_def
    by (intro valid_bind [OF started]) (auto intro: fetchAndStage_guard valid_bind [OF resolveRelease_guard])
qed

text \<open>After the gates, nothing touches the manifest or the plan.\<close>

lemma runCloseApp_guard [guard_rules]:
  "keeps (trusts sys args) (\<lambda>_. guarded sys args) (runCloseApp sys args)"
  unfolding runCloseApp_def by (intro keeps_rules; auto simp: guard_simps)

lemma runInstallPortable_guard [guard_rules]:
  "keeps (trusts sys args) (\<lambda>_. guarded sys args) (runInstallPortable sys)"
  unfolding runInstallPortable_def ensure_staged_def
  by (intro keeps_rules guard_rules; auto simp: guard_simps)

lemma runInstallMsi_guard [guard_rules]:
  "keeps (trusts sys args) (\<lambda>_. guarded sys args) (runInstallMsi sys args)"
proof -
  have "keeps (trusts sys args) (\<lambda>_. guarded sys args)
      (case ClassifyMsiExit code of MsiSuccess \<Rightarrow> emit (SigStepDone StepInstall)
      | MsiReboot \<Rightarrow> leave (SigFailed MsiRebootRequired []) | MsiError \<Rightarrow> leave (SigFailed MsiFailed d))" for code d
    by (cases "ClassifyMsiExit code") (auto simp: guard_simps intro!: keeps_rules)
  then show ?thesis
    unfolding runInstallMsi_def elevate_def by (intro keeps_rules guard_rules; auto simp: guard_simps)
qed

lemma put_back_guard [guard_rules]: "keeps (trusts sys args) (\<lambda>_. guarded sys args) (put_back sys)"
  unfolding put_back_def by (intro keeps_rules; auto simp: guard_simps)

lemma runVerify_guard [guard_rules]: "keeps (trusts sys args) (\<lambda>_. guarded sys args) (runVerify sys args)"
  unfolding runVerify_def Let_def by (intro keeps_rules guard_rules; auto simp: guard_simps)

lemma runLaunch_guard [guard_rules]: "keeps (trusts sys args) (\<lambda>_. guarded sys args) (runLaunch sys args)"
  unfolding runLaunch_def clean_up_def by (intro keeps_rules guard_rules; auto simp: guard_simps)

lemma guarded_weaken:
  assumes "keeps (trusts sys args) (\<lambda>_. guarded sys args) m"
  shows "valid (trusts sys args) m (\<lambda>_. guarded sys args) (\<lambda>_. guarded sys args)"
  by (rule valid_weaken [OF assms]) (auto simp: guarded_def)

lemma run_from_trusted:
  assumes "\<not> entry \<le> StepDownload"
  shows "keeps (trusts sys args) (\<lambda>_. guarded sys args) (run_from sys args entry)"
  unfolding run_from_def if_not_P [OF assms] by (intro keeps_rules guard_rules)

lemma run_from_download:
  "valid (guarded sys args) (run_from sys args StepDownload) (\<lambda>_. guarded sys args) (\<lambda>_. guarded sys args)"
proof -
  have halt: "keeps (trusts sys args) (\<lambda>_. guarded sys args) (if b then leave SigReadyToApply else return_step ())" for b
    by (intro keeps_rules; auto simp: guard_simps)
  have rest: "keeps (trusts sys args) (\<lambda>_. guarded sys args)
      (bindS (if b1 then runCloseApp sys args else return_step ()) (\<lambda>_.
       bindS (if b2 then (if b3 then runInstallPortable sys else runInstallMsi sys args) else return_step ()) (\<lambda>_.
       bindS (if b4 then runVerify sys args else return_step ()) (\<lambda>_. runLaunch sys args))))" for b1 b2 b3 b4
    by (intro keeps_rules guard_rules)
  have "valid (guarded sys args)
      (bindS (runDownload sys args) (\<lambda>_. if ua_mode args = Manual then leave SigReadyToApply else return_step ()))
      (\<lambda>_. trusts sys args) (\<lambda>_. guarded sys args)"
    by (rule valid_bind [OF runDownload_guard halt])
  from valid_bind [OF this guarded_weaken [OF rest]] show ?thesis
    by (simp only: run_from_def order_refl if_True)
qed

lemma run_steps_guard:
  "valid (guarded sys args) (run_steps sys args entry) (\<lambda>_. guarded sys args) (\<lambda>_. guarded sys args)"
proof -
  have cleared: "keeps (guarded sys args) (\<lambda>_. guarded sys args) (change (clear_cancel sys))"
    by (intro keeps_rules; auto simp: guard_simps)
  have start: "valid (\<lambda>s. guarded sys args s \<and> p = (have_package \<circ> worker) s)
      (if entry \<noteq> StepDownload \<and> \<not> p
       then if ua_mode args = Manual
            then leave (SigFailed DownloadFailed ''The verified update is no longer available.'')
            else run_from sys args StepDownload
       else run_from sys args entry) (\<lambda>_. guarded sys args) (\<lambda>_. guarded sys args)" for p
  proof (cases "entry = StepDownload")
    case True
    have "valid (\<lambda>s. guarded sys args s \<and> p = (have_package \<circ> worker) s) (run_from sys args StepDownload)
        (\<lambda>_. guarded sys args) (\<lambda>_. guarded sys args)"
      by (rule valid_weaken [OF run_from_download]) auto
    then show ?thesis
      using True by simp
  next
    case False
    then have entry: "\<not> entry \<le> StepDownload"
      by (cases entry) (simp_all add: less_eq_UpStep_def step_index_def)
    show ?thesis
    proof (cases p)
      case True
      have "valid (\<lambda>s. guarded sys args s \<and> p = (have_package \<circ> worker) s) (run_from sys args entry)
          (\<lambda>_. guarded sys args) (\<lambda>_. guarded sys args)"
        by (rule valid_weaken [OF run_from_trusted [OF entry]]) (use True in \<open>auto simp: guarded_def\<close>)
      then show ?thesis
        using False True by simp
    next
      case no_package: False
      have "valid (\<lambda>s. guarded sys args s \<and> \<not> (have_package \<circ> worker) s) (run_from sys args StepDownload)
          (\<lambda>_. guarded sys args) (\<lambda>_. guarded sys args)"
        by (rule valid_weaken [OF run_from_download]) auto
      then show ?thesis
        using False no_package by (auto intro: valid_leave)
    qed
  qed
  show ?thesis
    unfolding run_steps_def by (rule valid_bind [OF cleared]) (rule valid_bind [OF valid_value start])
qed

lemma check_steps_guard: "keeps (guarded sys args) (\<lambda>_. guarded sys args) (check_steps sys args)"
  unfolding check_steps_def Let_def by (intro keeps_rules guard_rules; auto simp: guard_simps)

lemma download_steps_guard:
  "valid (guarded sys args) (download_steps sys args) (\<lambda>_. guarded sys args) (\<lambda>_. guarded sys args)"
proof -
  have started: "keeps (guarded sys args) (\<lambda>_. guarded sys args)
      (bindS (change (clear_cancel sys)) (\<lambda>_. emit (SigStepStarted StepDownload)))"
    by (intro keeps_rules; auto simp: guard_simps)
  have finish: "valid (trusts sys args) (leave SigReadyToApply) (\<lambda>_. guarded sys args) (\<lambda>_. guarded sys args)"
    by (rule valid_leave) (simp add: guarded_def)
  have "download_steps sys args =
      bindS (bindS (change (clear_cancel sys)) (\<lambda>_. emit (SigStepStarted StepDownload)))
        (\<lambda>_. bindS (fetchAndStage sys args) (\<lambda>_. leave SigReadyToApply))"
    by (rule ext) (simp add: download_steps_def bindS_def change_def emit_def)
  then show ?thesis
    by (simp only:) (intro valid_bind [OF started] valid_bind [OF fetchAndStage_guard finish])
qed

lemma slot_guard:
  assumes "valid (guarded sys args) m (\<lambda>_. guarded sys args) (\<lambda>_. guarded sys args)" "guarded sys args s"
    "slot m s = Some s'" "final m"
  shows "guarded sys args s'"
proof -
  obtain sig t where m: "m s = Some (Inl sig, t)" "outcome sig"
    using assms(4) unfolding final_def by blast
  then have "guarded sys args t" "s' = t\<lparr>sent := sent t @ [Flow sig]\<rparr>"
    using assms(1-3) by (auto simp: valid_def slot_def)
  then show ?thesis
    using m(2) by (auto simp: guard_simps)
qed

lemma perform_guard: "guarded sys args s \<Longrightarrow> perform sys args c s = Some s' \<Longrightarrow> guarded sys args s'"
  using slot_guard [OF run_steps_guard] slot_guard [OF check_steps_guard] slot_guard [OF download_steps_guard]
  by (cases c) (auto simp: perform_def run_def check_def download_def run_steps_final check_steps_final
      download_steps_final)

lemma history_guard: "history sys args cs s = Some s' \<Longrightarrow> guarded sys args s \<Longrightarrow> guarded sys args s'"
  by (induction cs arbitrary: s) (auto simp: bind_eq_Some_conv dest: perform_guard)

lemma fresh_guarded: "guarded sys args (fresh_run w)"
  by (simp add: guarded_def install_started_def fresh_run_def new_worker_def)

text \<open>
  C18: in any history of calls, the install step has started only if the worker holds a manifest
  that verified under the public key, parses, names the pinned version if one is pinned, is
  neither older than the running version nor below its own minimum, is the identical version in
  a verification reinstall, and carries a package for this installation; a portable swap then
  goes to exactly that version.
\<close>

theorem install_needs_every_gate:
  assumes "history sys args calls (fresh_run w) = Some s" "Flow (SigStepStarted StepInstall) \<in> set (sent s)"
  shows "accepted sys args (manifest (worker s)) \<and>
    (ua_install_mode args = Portable \<longrightarrow>
       swap_plan (worker s) = MakeSwapPlan (ua_install_dir args) (mf_version (manifest (worker s))))"
  using history_guard [OF assms(1) fresh_guarded] assms(2)
  by (simp add: guarded_def install_started_def trusted_def)

definition handoff_system :: "(scripted_disk, json_value) system" where
  "handoff_system = demo_system\<lparr>json := demo_manifest_api, signature_check := (\<lambda>_ _ _. True),
     read_file := (\<lambda>_ p. Some (if p = ''m'' then ''m'' else replicate 128 (CHR ''0''))),
     DownloadToFile := (\<lambda>w _ _. (None, [], w)), handle_sha256 := (\<lambda>_ _. replicate 64 (CHR ''a''))\<rparr>"

definition handoff_args :: UpdaterArgs where
  "handoff_args = portable_args\<lparr>ua_mode := AppHandoff, ua_target_version := ''1.2.0'', ua_manifest_path := ''m'',
     ua_manifest_signature_path := ''s''\<rparr>"

lemma zero_digits: "hex_bytes (replicate (2 * n) (CHR ''0'')) = Some (replicate n 0)"
  by (induction n) (simp_all add: nibble_def hex_byte_def)

lemma demo_gate:
  "gate_manifest handoff_system handoff_args ''m'' (replicate 128 (CHR ''0'')) =
     Inr (demo_manifest, \<lparr>pkg_kind = KindPortable, pkg_url = ''u'', sha256_hex = replicate 64 (CHR ''a'')\<rparr>)"
proof -
  have "hex_bytes (replicate 128 (CHR ''0'')) = Some (replicate 64 0)"
    using zero_digits [of 64] by simp
  then have "VerifyManifestSignature (\<lambda>_ _ _. True) k ''m'' (replicate 128 (CHR ''0'')) = VerifyOk" for k
    by (simp add: VerifyManifestSignature_def ParseHex64_def)
  moreover have "installed_version handoff_args = final_version 1 0 0"
    by (simp add: installed_version_def handoff_args_def portable_args_def parse_simps)
  ultimately show ?thesis
    by (simp add: gate_manifest_def handoff_system_def demo_manifest_parsed demo_manifest_def TargetVersionAccepts_def
        VersionsMatchExactly_def IsDowngrade_def VerificationReinstallAccepts_def SelectPackage_def handoff_args_def
        portable_args_def semver_less_def final_version_def)
qed

lemma trim_zeros: "trim_blanks (replicate n (CHR ''0'')) = replicate n (CHR ''0'')"
  by (cases n) (simp_all add: trim_blanks_def is_blank_def flip: replicate_Suc)

lemmas step_simps = bindS_def return_step_def leave_def emit_def state_of_def set_worker_def call_def change_def
  require_def

lemma handoff_system_simps:
  "disk handoff_system = scripted_api" "temp_directory handoff_system w = Some ''T''"
  "create_directories handoff_system w d = (True, w)"
  "read_file handoff_system w p = Some (if p = ''m'' then ''m'' else replicate 128 (CHR ''0''))"
  "DownloadToFile handoff_system w u d = (None, [], w)" "OpenPackageWriteLock handoff_system w d = (Some 1, w)"
  "ClosePackageLock handoff_system w h = w" "handle_sha256 handoff_system w = (\<lambda>_. replicate 64 (CHR ''a''))"
  "ExtractZip handoff_system w z d = (None, w\<lparr>dirs := (dirs w)(d \<mapsto> \<lparr>has_exe = True, exe_version = Some ''2.0.0''\<rparr>)\<rparr>)"
  "is_directory handoff_system w d \<longleftrightarrow> dir_at w d \<noteq> None" "clear_cancel handoff_system w = w"
  "\<not> instance_mutex_present handoff_system w"
  by (simp_all add: handoff_system_def demo_system_def)

lemma handoff_args_simps:
  "ua_mode handoff_args = AppHandoff" "ua_install_mode handoff_args = Portable" "ua_app_pid handoff_args = 0"
  "ua_manifest_path handoff_args = ''m''" "ua_manifest_signature_path handoff_args = ''s''"
  "ua_install_dir handoff_args = ''ExoSnap''"
  by (simp_all add: handoff_args_def portable_args_def)

lemma demo_locked:
  "VerifyPackageHandle (\<lambda>_. replicate 64 (CHR ''a'')) (Some h) (replicate 64 (CHR ''a'')) = VerifyOk"
  by (simp add: VerifyPackageHandle_def HexEqualNoCase_def)

lemma demo_downloaded:
  "\<exists>s'. download_package handoff_system handoff_args dir
      \<lparr>pkg_kind = KindPortable, pkg_url = ''u'', sha256_hex = replicate 64 (CHR ''a'')\<rparr> s = Some (Inr (), s') \<and>
    world s' = world s"
  by (simp add: download_package_def LockAndVerifyPackage_def reset_lock_def step_simps handoff_system_simps
      demo_locked split: option.split)

lemma staging_exe_path: "path_join (staging_dir (app_plan parent v)) kExeName = exe_path (staging_dir (app_plan parent v))"
  by (simp add: path_join_def app_plan_dirs kExeName_def exe_path_def is_separator_def)

lemma demo_staged:
  assumes "delete_faults w = []"
  shows "\<exists>w'. StagePortablePackage handoff_system (app_plan [] v) pkg w = (Staged, w')"
proof -
  let ?d = "staging_dir (app_plan [] v)"
  let ?w = "(scripted_remove w ?d)\<lparr>dirs := (dirs (scripted_remove w ?d))(?d \<mapsto> \<lparr>has_exe = True, exe_version = Some ''2.0.0''\<rparr>)\<rparr>"
  have no_exe: "\<not> is_exe_path ?d"
    by (rule app_plan_not_exe [OF plan_dirs_simps(2)])
  then have "\<not> scripted_exists (scripted_remove w ?d) ?d"
    using assms by (simp add: scripted_exists_def scripted_remove_def dir_at_def exe_at_def Let_def)
  moreover have "dir_at ?w ?d = Some \<lparr>has_exe = True, exe_version = Some ''2.0.0''\<rparr>"
    using no_exe by (simp add: dir_at_def)
  moreover from this have "scripted_exists ?w (exe_path ?d)"
    by (simp add: scripted_exists_def exe_at_exe_path)
  ultimately show ?thesis
    by (simp add: StagePortablePackage_def RemoveTreeW_def ResolveStagedRoot_def handoff_system_simps staging_exe_path
        Let_def)
qed

lemma demo_plan: "MakeSwapPlan ''ExoSnap'' v = app_plan [] v"
  by (simp add: app_plan_def)

lemma demo_taken:
  assumes "delete_faults (world s) = []"
  shows "\<exists>s'. take_package handoff_system handoff_args dir demo_manifest
      \<lparr>pkg_kind = KindPortable, pkg_url = ''u'', sha256_hex = replicate 64 (CHR ''a'')\<rparr> s = Some (Inr (), s')"
proof -
  obtain s2 where run: "download_package handoff_system handoff_args dir
      \<lparr>pkg_kind = KindPortable, pkg_url = ''u'', sha256_hex = replicate 64 (CHR ''a'')\<rparr> s = Some (Inr (), s2)"
    and s2: "world s2 = world s"
    using demo_downloaded by metis
  obtain w' where "StagePortablePackage handoff_system (app_plan [] (mf_version demo_manifest)) (package_path (worker s2))
      (world s) = (Staged, w')"
    using demo_staged assms by blast
  then show ?thesis
    by (simp add: take_package_def run stage_package_def step_simps s2 handoff_args_simps demo_plan)
qed

lemma demo_fetched:
  assumes "delete_faults (world s) = []"
  shows "\<exists>s'. runDownload handoff_system handoff_args s = Some (Inr (), s')"
  using assms
  by (simp add: runDownload_def fetchAndStage_def enter_download_dir_def trust_anchor_def handed_over_def
      step_simps handoff_system_simps handoff_args_simps demo_gate trim_zeros demo_taken Let_def)

lemma proper_grows: "proper m \<Longrightarrow> m s = Some (r, s') \<Longrightarrow> set (sent s) \<subseteq> set (sent s')"
  unfolding proper_def extends_def by (metis Pair_inject option.inject set_append Un_upper1)

lemma started_stays:
  assumes "\<And>x. proper (k x)" "bindS (emit sig) k s = Some (r, s')"
  shows "Flow sig \<in> set (sent s')"
  using assms(2) proper_grows [OF assms(1), of "()" "s\<lparr>sent := sent s @ [Flow sig]\<rparr>" r s']
  by (simp add: bindS_def emit_def)

lemma runInstallPortable_starts:
  assumes "runInstallPortable sys s = Some (r, s')"
  shows "Flow (SigStepStarted StepInstall) \<in> set (sent s')"
proof -
  have swap: "\<exists>x w'. map_option (\<lambda>(e, _, w). (e, w)) (StageRename api plan default_retry w) = Some (x, w')" for api plan w
    using StageRename_ends [of api plan w] by auto
  show ?thesis
    by (rule started_stays [OF _ assms [unfolded runInstallPortable_def]])
      (intro proper_rules swap; simp add: RepairOrphanedSwap_ends swap_failure_outcome)
qed

lemma install_reached:
  assumes "runDownload handoff_system handoff_args s = Some (Inr (), s1)"
    and "run_from handoff_system handoff_args StepDownload s = Some (r, s')"
  shows "Flow (SigStepStarted StepInstall) \<in> set (sent s')"
proof -
  define rest :: "unit \<Rightarrow> (unit, scripted_disk) step" where
    "rest = (\<lambda>_. bindS (if StepDownload \<le> StepVerify then runVerify handoff_system handoff_args else return_step ())
      (\<lambda>_. runLaunch handoff_system handoff_args))"
  have "proper (rest x)" for x
    unfolding rest_def by (intro proper_rules final_proper [OF runLaunch_final])
  moreover obtain s2 where close: "runCloseApp handoff_system handoff_args s1 = Some (Inr (), s2)"
    by (simp add: runCloseApp_def handoff_args_simps handoff_system_simps step_simps)
  have order: "StepDownload \<le> StepCloseApp" "StepDownload \<le> StepInstall"
    by (simp_all add: less_eq_UpStep_def step_index_def)
  have "bindS (runInstallPortable handoff_system) rest s2 = Some (r, s')"
    using assms(2) by (simp add: run_from_def order handoff_args_simps bindS_def [of _ _ s] bindS_def [of _ _ s1]
        assms(1) close return_step_def rest_def)
  ultimately show ?thesis
    using runInstallPortable_starts [of handoff_system s2] proper_grows [of "rest ()"]
    by (auto simp: bindS_def [of _ _ s2] split: option.splits sum.splits prod.splits)
qed

theorem install_needs_every_gate_witness:
  "\<exists>s. history handoff_system handoff_args [CallRun StepDownload] (fresh_run (demo_disk [2])) = Some s \<and>
     accepted handoff_system handoff_args (manifest (worker s))"
proof -
  let ?s0 = "fresh_run (demo_disk [2])"
  obtain s1 where fetched: "runDownload handoff_system handoff_args ?s0 = Some (Inr (), s1)"
    using demo_fetched [of ?s0] by (auto simp: fresh_run_def demo_disk_def)
  obtain sig s2 where run: "run_from handoff_system handoff_args StepDownload ?s0 = Some (Inl sig, s2)"
    using run_from_final [of handoff_system handoff_args StepDownload] unfolding final_def by blast
  have hist: "history handoff_system handoff_args [CallRun StepDownload] ?s0 = Some (s2\<lparr>sent := sent s2 @ [Flow sig]\<rparr>)"
    by (simp add: perform_def run_def slot_def run_steps_def step_simps handoff_system_simps run)
  show ?thesis
    using install_needs_every_gate [OF hist] install_reached [OF fetched run] hist by auto
qed

end
