(* ===== verification/UpdaterSession.thy ===== *)
theory UpdaterSession
  imports UpdaterGates
begin

text \<open>
  The updater process around the worker: the part of \<^verbatim>\<open>apps/updater/main.cpp\<close> that starts the
  worker's slots for the buttons and the control channel, guards against a second start, and
  hands the worker's signals to the controller.
\<close>

section \<open>The process\<close>

record UpdaterProcess =
  controller :: UpdaterController
  up_to_version :: string
  last_failure :: FailureCase
  in_flight :: bool

definition MakeController :: "('w, 'j) system \<Rightarrow> UpdaterArgs \<Rightarrow> string \<Rightarrow> UpdaterController" where
  "MakeController sys args target =
     setUpdateTransactionId (ua_update_transaction_id args)
       (setContext (ua_install_mode args) (UpdateChecksEnabled sys args)
         (setMode (if ua_mode args = Manual then Manual else AppHandoff)
           (setVerificationReinstall (ua_verify_reinstall args)
             (new_controller (ua_current_version args) target))))"

definition new_process :: "('w, 'j) system \<Rightarrow> UpdaterArgs \<Rightarrow> UpdaterProcess" where
  "new_process sys args = \<lparr>controller = MakeController sys args (ua_target_version args),
     up_to_version = ua_target_version args, last_failure = DownloadFailed, in_flight = False\<rparr>"

definition on_worker_signal ::
    "('w, 'j) system \<Rightarrow> UpdaterArgs \<Rightarrow> WorkerSignal \<Rightarrow> UpdaterProcess \<Rightarrow> UpdaterProcess" where
  "on_worker_signal sys args ws p = (case ws of
       ReleaseResolved v \<Rightarrow>
         if v = up_to_version p then p
         else p\<lparr>up_to_version := v, controller := onStepStarted StepDownload (MakeController sys args v)\<rparr>
     | Flow sig \<Rightarrow>
         (let p = (case sig of
                SigAllDone \<Rightarrow> p\<lparr>in_flight := False\<rparr>
              | SigFailed fc _ \<Rightarrow> p\<lparr>in_flight := False, last_failure := fc\<rparr>
              | SigCancelled \<Rightarrow> p\<lparr>in_flight := False\<rparr>
              | SigUpToDate \<Rightarrow> p\<lparr>in_flight := False, up_to_version := []\<rparr>
              | SigUpdateAvailable v \<Rightarrow> p\<lparr>in_flight := False, up_to_version := v\<rparr>
              | SigReadyToApply \<Rightarrow> p\<lparr>in_flight := False\<rparr>
              | SigCheckBlocked _ \<Rightarrow> p\<lparr>in_flight := False\<rparr>
              | _ \<Rightarrow> p) in
          p\<lparr>controller := on_signal (controller p) sig\<rparr>))"

section \<open>Intents\<close>

text \<open>An intent is refused while a slot runs; else the slot it queues.\<close>

definition start :: "SlotCall \<Rightarrow> UpdaterProcess \<Rightarrow> SlotCall option \<times> UpdaterProcess" where
  "start slot_call p = (if in_flight p then (None, p) else (Some slot_call, p\<lparr>in_flight := True\<rparr>))"

definition doCheck ::
    "('w, 'j) system \<Rightarrow> UpdaterArgs \<Rightarrow> UpdaterProcess \<Rightarrow> SlotCall option \<times> UpdaterProcess" where
  "doCheck sys args p =
     (if in_flight p then (None, p)
      else start CallCheck (p\<lparr>controller := MakeController sys args [], up_to_version := []\<rparr>))"

definition doRetry ::
    "('w, 'j) system \<Rightarrow> UpdaterArgs \<Rightarrow> UpdaterProcess \<Rightarrow> SlotCall option \<times> UpdaterProcess" where
  "doRetry sys args p =
     (if in_flight p then (None, p)
      else
        let entry = RetryEntryStep (last_failure p);
            c = fold onStepDone (filter (\<lambda>s. s < entry) [StepDownload, StepCloseApp, StepInstall, StepVerify, StepLaunch])
                  (MakeController sys args (up_to_version p)) in
        (Some (if ua_mode args = Manual \<and> entry \<le> StepDownload
               then (if up_to_version p \<noteq> [] then CallDownload else CallCheck)
               else CallRun entry),
         p\<lparr>controller := c, in_flight := True\<rparr>))"

datatype Intent = IntentCheck | IntentDownload | IntentApply | IntentRetry

definition intent ::
    "('w, 'j) system \<Rightarrow> UpdaterArgs \<Rightarrow> Intent \<Rightarrow> UpdaterProcess \<Rightarrow> SlotCall option \<times> UpdaterProcess" where
  "intent sys args i p = (case i of
       IntentCheck \<Rightarrow> doCheck sys args p
     | IntentDownload \<Rightarrow> start CallDownload p
     | IntentApply \<Rightarrow> start (CallRun StepCloseApp) p
     | IntentRetry \<Rightarrow> doRetry sys args p)"

text \<open>An accepted intent: the slot runs, and its signals arrive in the order it sent them.\<close>

definition serve_intent ::
    "('w, 'j) system \<Rightarrow> UpdaterArgs \<Rightarrow> Intent \<Rightarrow> UpdaterProcess \<times> 'w run_state
     \<Rightarrow> (UpdaterProcess \<times> 'w run_state) option" where
  "serve_intent sys args i ps =
     (case intent sys args i (fst ps) of
        (None, p) \<Rightarrow> Some (p, snd ps)
      | (Some c, p) \<Rightarrow>
          map_option (\<lambda>s'. (fold (on_worker_signal sys args) (drop (length (sent (snd ps))) (sent s')) p, s'))
            (perform sys args c (snd ps)))"

section \<open>Accepted intents end\<close>

definition settled_phase :: "UpdatePhase \<Rightarrow> bool" where
  "settled_phase ph \<longleftrightarrow> ph \<notin> {Checking, Downloading, WaitingForParent, Applying, Verifying, Launching}"

lemma outcome_settles:
  assumes "outcome sig"
  shows "\<not> in_flight (on_worker_signal sys args (Flow sig) p)"
    and "settled_phase (fl_phase (flow (controller (on_worker_signal sys args (Flow sig) p))))"
proof -
  have "PhaseForFailure fc \<in> {RebootRequired, RestartPending, PhFailed}" for fc
    by (cases fc) (simp_all add: PhaseForFailure_def)
  then have "settled_phase (PhaseForFailure fc)" for fc
    by (auto simp: settled_phase_def) (metis insertE singletonD UpdatePhase.distinct)+
  then show "settled_phase (fl_phase (flow (controller (on_worker_signal sys args (Flow sig) p))))"
    using assms
    by (cases sig; simp add: on_worker_signal_def on_signal_def onUpToDate_def onUpdateAvailable_def
      onCheckBlocked_def onCancelled_def onReadyToApply_def onAllDone_def onFailure_def failed_flow_def
      settled_phase_def Let_def)
  show "\<not> in_flight (on_worker_signal sys args (Flow sig) p)"
    using assms by (cases sig; simp add: on_worker_signal_def Let_def)
qed

lemma perform_ends: "ends_with_one_outcome s (perform sys args c s)"
  by (cases c) (simp_all add: perform_def slots_end)

lemma accepted_intent_queues:
  "\<not> in_flight p \<Longrightarrow> \<exists>c q. intent sys args i p = (Some c, q) \<and> in_flight q"
  "in_flight p \<Longrightarrow> intent sys args i p = (None, p)"
  by (cases i; simp add: intent_def doCheck_def doRetry_def start_def Let_def)+

text \<open>
  C19: every intent returns. One that arrives while a slot runs changes nothing; any other one
  ends with the guard cleared, the flow in a phase that waits for the user or has finished, and
  exactly one outcome signal, the last one sent.
\<close>

theorem accepted_intents_end:
  "\<exists>p' s' signals sig. serve_intent sys args i (p, s) = Some (p', s') \<and>
     (if in_flight p then p' = p \<and> s' = s
      else \<not> in_flight p' \<and> settled_phase (fl_phase (flow (controller p'))) \<and>
        sent s' = sent s @ signals @ [Flow sig] \<and> progress_only signals \<and> outcome sig)"
proof (cases "in_flight p")
  case True
  then show ?thesis
    by (simp add: serve_intent_def accepted_intent_queues)
next
  case False
  then obtain c q where queued: "intent sys args i p = (Some c, q)"
    using accepted_intent_queues(1) by metis
  obtain s' signals sig where ran: "perform sys args c s = Some s'"
    and sent: "sent s' = sent s @ signals @ [Flow sig]" "progress_only signals" "outcome sig"
    using perform_ends [of s sys args c] by (auto simp: ends_with_one_outcome_def)
  let ?q = "fold (on_worker_signal sys args) signals q"
  have "serve_intent sys args i (p, s) = Some (on_worker_signal sys args (Flow sig) ?q, s')"
    by (simp add: serve_intent_def queued ran sent(1))
  then show ?thesis
    using False sent outcome_settles [OF sent(3), of sys args ?q] by auto
qed

section \<open>A retry after a failed staging\<close>

text \<open>
  Staging that fails at the end of the download step is reported as \<open>InstallFailed\<close>, whose retry
  enters the install step: the application has not been asked to close, and in manual mode
  nobody has confirmed the installation.
\<close>

definition staging_failure :: FlowSignal where
  "staging_failure = SigFailed InstallFailed ''Can't clear the staging directory.''"

theorem staging_retry_skips_confirmation:
  "fst (intent sys args IntentRetry (on_worker_signal sys args (Flow staging_failure) p)) = Some (CallRun StepInstall)"
  by (simp add: intent_def doRetry_def on_worker_signal_def staging_failure_def RetryEntryStep_def Let_def
      less_eq_UpStep_def step_index_def)

end
