(* ===== verification/Capability.thy ===== *)
theory Capability
  imports Prelude
begin

text \<open>
  What can be recorded: the product's containers, codecs, chroma modes and bit depths, the
  compatibility registry (\<^verbatim>\<open>container_compat_registry.cpp\<close>), the capability set with its queries
  (\<^verbatim>\<open>capability_set.cpp\<close>) and the choice of a codec (\<^verbatim>\<open>codec_selection.cpp\<close>), all of
  \<^verbatim>\<open>src/libs/capability\<close>.

  The C++ functions end in a value for integers outside the enumeration; the datatypes have no such
  values, so these returns have no counterpart. A \<^verbatim>\<open>std::unordered_map\<close> is a partial function.
\<close>

section \<open>Values\<close>

datatype ContainerC = MatroskaC | Mp4C | WebMC
datatype VideoCodecC = Av1C | HevcC | H264C
datatype AudioCodecC = OpusC | AacC | PcmC | FlacC
datatype ChromaC = Cs420 | Cs422 | Cs444
datatype BitDepthC = Bit8 | Bit10
datatype ColorRangeC = Full | Limited

definition AllContainers :: "ContainerC list" where "AllContainers = [MatroskaC, Mp4C, WebMC]"
definition AllVideoCodecs :: "VideoCodecC list" where "AllVideoCodecs = [Av1C, HevcC, H264C]"
definition AllAudioCodecs :: "AudioCodecC list" where "AllAudioCodecs = [OpusC, AacC, PcmC, FlacC]"
definition AllChromaModes :: "ChromaC list" where "AllChromaModes = [Cs420, Cs422, Cs444]"
definition AllBitDepths :: "BitDepthC list" where "AllBitDepths = [Bit8, Bit10]"

definition container_name :: "ContainerC \<Rightarrow> string" where
  "container_name c = (case c of MatroskaC \<Rightarrow> ''Matroska'' | Mp4C \<Rightarrow> ''MP4'' | WebMC \<Rightarrow> ''WebM'')"

definition video_codec_name :: "VideoCodecC \<Rightarrow> string" where
  "video_codec_name v = (case v of Av1C \<Rightarrow> ''AV1 NVENC'' | HevcC \<Rightarrow> ''HEVC NVENC'' | H264C \<Rightarrow> ''H.264 NVENC'')"

definition audio_codec_name :: "AudioCodecC \<Rightarrow> string" where
  "audio_codec_name a = (case a of OpusC \<Rightarrow> ''Opus'' | AacC \<Rightarrow> ''AAC'' | PcmC \<Rightarrow> ''PCM'' | FlacC \<Rightarrow> ''FLAC'')"

definition chroma_name :: "ChromaC \<Rightarrow> string" where
  "chroma_name cs = (case cs of Cs420 \<Rightarrow> ''4:2:0'' | Cs422 \<Rightarrow> ''4:2:2'' | Cs444 \<Rightarrow> ''4:4:4'')"

definition bit_depth_name :: "BitDepthC \<Rightarrow> string" where
  "bit_depth_name b = (case b of Bit8 \<Rightarrow> ''8-bit'' | Bit10 \<Rightarrow> ''10-bit'')"

definition color_range_name :: "ColorRangeC \<Rightarrow> string" where
  "color_range_name r = (case r of Full \<Rightarrow> ''Full'' | Limited \<Rightarrow> ''Limited'')"

section \<open>Support levels\<close>

datatype SupportLevel = Available | ValidUnvalidated | NotImplemented | Invalid

record SupportAnnotation =
  level :: SupportLevel
  reason :: string

definition selectable_level :: "SupportLevel \<Rightarrow> bool" where
  "selectable_level l \<longleftrightarrow> l = Available \<or> l = ValidUnvalidated"

definition IsSelectable :: "SupportAnnotation \<Rightarrow> bool" where
  "IsSelectable a \<longleftrightarrow> selectable_level (level a)"

definition IsHardInvalid :: "SupportAnnotation \<Rightarrow> bool" where
  "IsHardInvalid a \<longleftrightarrow> level a = Invalid"

definition SeverityRank :: "SupportLevel \<Rightarrow> int" where
  "SeverityRank l = (case l of Available \<Rightarrow> 0 | ValidUnvalidated \<Rightarrow> 1 | NotImplemented \<Rightarrow> 2 | Invalid \<Rightarrow> 3)"

definition CombineAnnotations :: "SupportAnnotation \<Rightarrow> SupportAnnotation \<Rightarrow> SupportAnnotation" where
  "CombineAnnotations current candidate =
     (if SeverityRank (level current) < SeverityRank (level candidate) then candidate
      else if SeverityRank (level candidate) = SeverityRank (level current) \<and> reason current = [] then candidate
      else current)"

section \<open>The compatibility registry\<close>

datatype ContainerCompatLevel = Recommended | Allowed | Experimental | Fallback | Prohibited

definition compat_level_name :: "ContainerCompatLevel \<Rightarrow> string" where
  "compat_level_name l = (case l of Recommended \<Rightarrow> ''Recommended'' | Allowed \<Rightarrow> ''Allowed''
     | Experimental \<Rightarrow> ''Experimental'' | Fallback \<Rightarrow> ''Fallback'' | Prohibited \<Rightarrow> ''Prohibited'')"

definition IsContainerCompatSelectable :: "ContainerCompatLevel \<Rightarrow> bool" where
  "IsContainerCompatSelectable l \<longleftrightarrow> l = Recommended \<or> l = Allowed"

definition IsContainerCompatProhibited :: "ContainerCompatLevel \<Rightarrow> bool" where
  "IsContainerCompatProhibited l \<longleftrightarrow> l = Prohibited"

record ContainerCompatEntry =
  compat_level :: ContainerCompatLevel
  compat_reason :: string

definition entry :: "ContainerCompatLevel \<Rightarrow> string \<Rightarrow> ContainerCompatEntry" where
  "entry l r = \<lparr>compat_level = l, compat_reason = r\<rparr>"

text \<open>The dash and the apostrophe in messages, as UTF-8.\<close>

definition em_dash :: string where "em_dash = [CHR 0xE2, CHR 0x80, CHR 0x94]"
definition apostrophe :: string where "apostrophe = [CHR 0x27]"

definition query_mkv :: "VideoCodecC \<Rightarrow> AudioCodecC \<Rightarrow> ContainerCompatEntry" where
  "query_mkv v a =
     (case v of
       Av1C \<Rightarrow>
        (case a of
           OpusC \<Rightarrow> entry Recommended
           (''Primary validated MKV path: AV1 NVENC + Opus.'')
         | AacC \<Rightarrow> entry Recommended
           (''Validated MKV path: AV1 NVENC + AAC (M3.2).'')
         | PcmC \<Rightarrow> entry Allowed
           (''MKV + AV1 + PCM: uncompressed 16-bit signed little-endian PCM (A_PCM/INT/LIT). Large '' @
            ''files; lossless audio. Matroska-only (0.6.0 Audio v2).'')
         | FlacC \<Rightarrow> entry Allowed
           (''MKV + AV1 + FLAC: lossless FLAC (A_FLAC) via libFLAC. Smaller than PCM, still lossless. '' @
            ''Matroska-only (0.6.0 Audio v2).''))
     |       H264C \<Rightarrow>
        (case a of
           AacC \<Rightarrow> entry Recommended
           (''Validated MKV path: H.264 NVENC + AAC.'')
         | OpusC \<Rightarrow> entry Allowed
           (''MKV + H.264 + Opus: Matroska carries Opus natively and the Opus-in-MKV write path is '' @
            ''production-validated (AV1+Opus). A dedicated player-matrix pass for this exact pairing '' @
            ''is not yet on file (pair-specific compatibility is unvalidated).'')
         | PcmC \<Rightarrow> entry Allowed
           (''MKV + H.264 + PCM: uncompressed 16-bit signed little-endian PCM (A_PCM/INT/LIT). Large '' @
            ''files; lossless audio. Matroska-only (0.6.0 Audio v2).'')
         | FlacC \<Rightarrow> entry Allowed
           (''MKV + H.264 + FLAC: lossless FLAC (A_FLAC) via libFLAC. Smaller than PCM, still '' @
            ''lossless. Matroska-only (0.6.0 Audio v2).''))
     |       HevcC \<Rightarrow>
        (case a of
           AacC \<Rightarrow> entry Allowed
           (''MKV + HEVC + AAC: HEVC NVENC with Matroska V_MPEGH/ISO/HEVC (hvcC codec-private, '' @
            ''length-prefixed samples). Implemented in 0.7.0.'')
         | OpusC \<Rightarrow> entry Allowed
           (''MKV + HEVC + Opus: HEVC NVENC with Matroska V_MPEGH/ISO/HEVC (hvcC codec-private, '' @
            ''length-prefixed samples). Implemented in 0.7.0.'')
         | PcmC \<Rightarrow> entry Allowed
           (''MKV + HEVC + PCM: HEVC NVENC with Matroska V_MPEGH/ISO/HEVC (hvcC codec-private, '' @
            ''length-prefixed samples) + uncompressed PCM (A_PCM/INT/LIT). Implemented in 0.7.0.'')
         | FlacC \<Rightarrow> entry Allowed
           (''MKV + HEVC + FLAC: HEVC NVENC with Matroska V_MPEGH/ISO/HEVC (hvcC codec-private, '' @
            ''length-prefixed samples) + lossless FLAC (A_FLAC). Implemented in 0.7.0.'')))"

definition query_mp4 :: "VideoCodecC \<Rightarrow> AudioCodecC \<Rightarrow> ContainerCompatEntry" where
  "query_mp4 v a =
     (if a = OpusC then entry Prohibited
           (''Opus audio is not supported in MP4. Select AAC for MP4 recordings.'')
      else case v of
       H264C \<Rightarrow>
        (case a of
           AacC \<Rightarrow> entry Recommended
           (''Primary validated MP4 path: H.264 NVENC + AAC via remux-on-stop.'')
         | PcmC \<Rightarrow> entry Experimental
           (''MP4 + H.264 + PCM: libavformat writes an ipcm (ISO/IEC 23003-5) sample entry for '' @
            ''pcm_s16le/pcm_s24le/pcm_s32le in MP4 (confirmed via ffprobe codec_tag_string=ipcm). '' @
            ''ipcm has limited player support '' @
            em_dash @
            '' Windows Films & TV, QuickTime, and many NLEs do not play it. Deferred until a '' @
            ''broadly-compatible sample-entry mapping (e.g. sowt/in24) is validated; use MKV for PCM.'')
         | _ \<Rightarrow> entry Experimental
           (''MP4 + H.264 + FLAC: FLAC-in-MP4 not specified in this build (use MKV for FLAC).''))
     |       HevcC \<Rightarrow>
        (case a of
           AacC \<Rightarrow> entry Allowed
           (''MP4 + HEVC + AAC: HEVC recorded to a transient MKV and remuxed to MP4 with the '' @
            apostrophe @
            ''hvc1'' @
            apostrophe @
            '' sample-entry FourCC (parameter sets out-of-band in hvcC) for Apple/QuickTime/NLE '' @
            ''compatibility.'')
         | PcmC \<Rightarrow> entry Experimental
           (''MP4 + HEVC + PCM: not implemented (MP4 audio is AAC-only).'')
         | _ \<Rightarrow> entry Experimental
           (''MP4 + HEVC + FLAC: not implemented (MP4 audio is AAC-only).''))
     |       Av1C \<Rightarrow>
        (case a of
           AacC \<Rightarrow> entry Experimental
           (''MP4 + AV1 + AAC: deferred; AV1-in-MP4 container support not yet validated.'')
         | PcmC \<Rightarrow> entry Experimental
           (''MP4 + AV1 + PCM: not implemented.'')
         | _ \<Rightarrow> entry Experimental
           (''MP4 + AV1 + FLAC: not implemented.'')))"

definition query_webm :: "VideoCodecC \<Rightarrow> AudioCodecC \<Rightarrow> ContainerCompatEntry" where
  "query_webm v a =
     (if v = H264C \<or> v = HevcC then entry Prohibited
           (''WebM supports only AV1 in ExoSnap'' @
            apostrophe @
            ''s product matrix. H.264 and HEVC are prohibited in WebM.'')
      else case a of
        OpusC \<Rightarrow> entry Recommended
           (''Primary validated WebM path: AV1 NVENC + Opus.'')
      | AacC \<Rightarrow> entry Prohibited
           (''WebM does not support AAC. Use Opus for WebM recordings.'')
      | PcmC \<Rightarrow> entry Prohibited
           (''WebM does not support PCM. Use Opus for WebM recordings.'')
      | FlacC \<Rightarrow> entry Prohibited
           (''WebM does not support FLAC. Use Opus for WebM recordings.''))"

definition Query :: "ContainerC \<Rightarrow> VideoCodecC \<Rightarrow> AudioCodecC \<Rightarrow> ContainerCompatEntry" where
  "Query c v a = (case c of MatroskaC \<Rightarrow> query_mkv v a | Mp4C \<Rightarrow> query_mp4 v a | WebMC \<Rightarrow> query_webm v a)"

definition PreferredAudioCodec :: "ContainerC \<Rightarrow> AudioCodecC" where
  "PreferredAudioCodec c = (case c of MatroskaC \<Rightarrow> OpusC | Mp4C \<Rightarrow> AacC | WebMC \<Rightarrow> OpusC)"

definition PreferredVideoCodec :: "ContainerC \<Rightarrow> VideoCodecC" where
  "PreferredVideoCodec c = (case c of MatroskaC \<Rightarrow> Av1C | Mp4C \<Rightarrow> H264C | WebMC \<Rightarrow> Av1C)"

definition IsWorkingCombo :: "ContainerCompatLevel \<Rightarrow> bool" where
  "IsWorkingCombo l \<longleftrightarrow> l = Recommended \<or> l = Allowed"

fun first_working_audio :: "ContainerC \<Rightarrow> VideoCodecC \<Rightarrow> AudioCodecC \<Rightarrow> AudioCodecC list \<Rightarrow> AudioCodecC option" where
  "first_working_audio c v a [] = None"
| "first_working_audio c v a (x # xs) =
     (if x = a then first_working_audio c v a xs
      else if IsWorkingCombo (compat_level (Query c v x)) then Some x
      else first_working_audio c v a xs)"

definition ReconcileCodecs :: "ContainerC \<Rightarrow> VideoCodecC \<times> AudioCodecC \<Rightarrow> VideoCodecC \<times> AudioCodecC" where
  "ReconcileCodecs c va =
     (let (v, a) = va in
      if IsWorkingCombo (compat_level (Query c v a)) then (v, a)
      else case first_working_audio c v a [AacC, OpusC, PcmC, FlacC] of
        Some x \<Rightarrow> (v, x)
      | None \<Rightarrow> (PreferredVideoCodec c, PreferredAudioCodec c))"

section \<open>The capability set\<close>

record NvencAdvancedEncodeFacts =
  adv_max_bframes :: int
  adv_bframe_ref_mode :: int
  adv_lookahead :: bool
  adv_temporal_aq :: bool

record NvidiaRuntimeFacts =
  nvenc_dll_present :: bool
  nvenc_api_version_valid :: bool
  nvenc_api_version :: u32
  nv_adapter_name :: string
  nvenc_codec_probed :: bool
  nvenc_av1 :: bool
  nvenc_hevc :: bool
  nvenc_h264 :: bool
  nvenc_yuv444_h264 :: bool
  nvenc_yuv444_hevc :: bool
  nvenc_adv_h264 :: NvencAdvancedEncodeFacts
  nvenc_adv_hevc :: NvencAdvancedEncodeFacts
  nvenc_adv_av1 :: NvencAdvancedEncodeFacts

record AdapterIdentity =
  id_adapter_luid :: u64
  id_vendor_id :: u32
  id_driver_version :: string

text \<open>The facts about the operating system and the displays play no part in what can be selected.\<close>

record RuntimeCapabilitySnapshot =
  snap_adapter :: AdapterIdentity
  snap_nvidia :: NvidiaRuntimeFacts
  snap_webcam_available :: bool

type_synonym ComboKey = "ContainerC \<times> VideoCodecC \<times> AudioCodecC \<times> ChromaC \<times> BitDepthC"

record BFrameCapability =
  bf_annotation :: SupportAnnotation
  bf_max_bframes :: int
  bf_ref_mode :: int

record ResolutionConstraint =
  max_width :: u32
  max_height :: u32
  must_be_even :: bool

record CapabilitySet =
  gpu_adapter_name :: string
  cap_nvenc_dll_present :: bool
  mf_webcam_available :: bool
  probed :: bool
  runtime :: RuntimeCapabilitySnapshot
  containers :: "ContainerC \<rightharpoonup> SupportAnnotation"
  video_codecs :: "VideoCodecC \<rightharpoonup> SupportAnnotation"
  audio_codecs :: "AudioCodecC \<rightharpoonup> SupportAnnotation"
  chroma_modes :: "ChromaC \<rightharpoonup> SupportAnnotation"
  bit_depths :: "BitDepthC \<rightharpoonup> SupportAnnotation"
  hdr10_native :: "VideoCodecC \<rightharpoonup> SupportAnnotation"
  chroma444 :: "VideoCodecC \<rightharpoonup> SupportAnnotation"
  bframe_capability :: "VideoCodecC \<rightharpoonup> BFrameCapability"
  lookahead :: "VideoCodecC \<rightharpoonup> SupportAnnotation"
  temporal_aq :: "VideoCodecC \<rightharpoonup> SupportAnnotation"
  combo_overrides :: "ComboKey \<rightharpoonup> SupportAnnotation"
  resolution_constraint :: ResolutionConstraint

definition annotation :: "SupportLevel \<Rightarrow> string \<Rightarrow> SupportAnnotation" where
  "annotation l r = \<lparr>level = l, reason = r\<rparr>"

definition LookupAnnotation :: "('k \<rightharpoonup> SupportAnnotation) \<Rightarrow> 'k \<Rightarrow> string \<Rightarrow> SupportAnnotation" where
  "LookupAnnotation m k dimension =
     (case m k of None \<Rightarrow> annotation Invalid (''Missing capability annotation for '' @ dimension) | Some a \<Rightarrow> a)"

definition RegistryEntryToSupportAnnotation :: "ContainerCompatEntry \<Rightarrow> SupportAnnotation" where
  "RegistryEntryToSupportAnnotation e =
     annotation (case compat_level e of Recommended \<Rightarrow> Available | Allowed \<Rightarrow> ValidUnvalidated
       | Experimental \<Rightarrow> NotImplemented | Fallback \<Rightarrow> NotImplemented | Prohibited \<Rightarrow> Invalid) (compat_reason e)"

definition BaseContainerVideoAudioAnnotation :: "ContainerC \<Rightarrow> VideoCodecC \<Rightarrow> AudioCodecC \<Rightarrow> SupportAnnotation" where
  "BaseContainerVideoAudioAnnotation c v a = RegistryEntryToSupportAnnotation (Query c v a)"

definition StaticMatrixAnnotation ::
    "ContainerC \<Rightarrow> VideoCodecC \<Rightarrow> AudioCodecC \<Rightarrow> ChromaC \<Rightarrow> BitDepthC \<Rightarrow> SupportAnnotation" where
  "StaticMatrixAnnotation c v a cs bd =
     (let base = BaseContainerVideoAudioAnnotation c v a in
      if level base = Invalid then base
      else if cs = Cs422 then annotation NotImplemented ''4:2:2 chroma is not implemented.''
      else if cs = Cs444 \<and> v = Av1C
      then annotation NotImplemented ''AV1 NVENC is 4:2:0 only; use H.264 or HEVC for 4:4:4.''
      else if cs = Cs444 \<and> bd = Bit10
      then annotation NotImplemented ''4:4:4 is 8-bit only; 10-bit 4:4:4 is not implemented.''
      else if bd = Bit10 \<and> v \<noteq> HevcC \<and> v \<noteq> Av1C
      then annotation NotImplemented ''10-bit requires the HEVC or AV1 codec; H.264 is 8-bit only.''
      else base)"

definition QueryContainer :: "CapabilitySet \<Rightarrow> ContainerC \<Rightarrow> SupportAnnotation" where
  "QueryContainer caps c = LookupAnnotation (containers caps) c ''container''"

definition QueryVideoCodec :: "CapabilitySet \<Rightarrow> VideoCodecC \<Rightarrow> SupportAnnotation" where
  "QueryVideoCodec caps v = LookupAnnotation (video_codecs caps) v ''video codec''"

definition QueryAudioCodec :: "CapabilitySet \<Rightarrow> AudioCodecC \<Rightarrow> SupportAnnotation" where
  "QueryAudioCodec caps a = LookupAnnotation (audio_codecs caps) a ''audio codec''"

definition QueryChroma :: "CapabilitySet \<Rightarrow> ChromaC \<Rightarrow> SupportAnnotation" where
  "QueryChroma caps cs = LookupAnnotation (chroma_modes caps) cs ''chroma mode''"

definition QueryBitDepth :: "CapabilitySet \<Rightarrow> BitDepthC \<Rightarrow> SupportAnnotation" where
  "QueryBitDepth caps bd = LookupAnnotation (bit_depths caps) bd ''bit depth''"

definition QueryHdr10Native :: "CapabilitySet \<Rightarrow> VideoCodecC \<Rightarrow> SupportAnnotation" where
  "QueryHdr10Native caps v = LookupAnnotation (hdr10_native caps) v ''HDR10-native codec''"

definition QueryChroma444 :: "CapabilitySet \<Rightarrow> VideoCodecC \<Rightarrow> SupportAnnotation" where
  "QueryChroma444 caps v = LookupAnnotation (chroma444 caps) v ''4:4:4 codec''"

definition QueryBFrames :: "CapabilitySet \<Rightarrow> VideoCodecC \<Rightarrow> BFrameCapability" where
  "QueryBFrames caps v = (case bframe_capability caps v of
       None \<Rightarrow> \<lparr>bf_annotation = annotation Invalid ''no B-frame capability data for this codec'',
         bf_max_bframes = 0, bf_ref_mode = 0\<rparr>
     | Some b \<Rightarrow> b)"

definition QueryLookahead :: "CapabilitySet \<Rightarrow> VideoCodecC \<Rightarrow> SupportAnnotation" where
  "QueryLookahead caps v = LookupAnnotation (lookahead caps) v ''lookahead''"

definition QueryTemporalAq :: "CapabilitySet \<Rightarrow> VideoCodecC \<Rightarrow> SupportAnnotation" where
  "QueryTemporalAq caps v = LookupAnnotation (temporal_aq caps) v ''temporal AQ''"

datatype RateControlMode = ConstantQuality | VariableBitrate | ConstantBitrate | Lossless

definition QueryRateControlMode :: "RateControlMode \<Rightarrow> SupportAnnotation" where
  "QueryRateControlMode m = (case m of
       ConstantQuality \<Rightarrow> annotation Available (''NVENC CQP '' @ em_dash @ '' quality-target, encoder chooses bitrate.'')
     | VariableBitrate \<Rightarrow> annotation Available (''NVENC VBR '' @ em_dash @ '' encoder targets a bitrate, quality varies.'')
     | ConstantBitrate \<Rightarrow> annotation Available (''NVENC CBR '' @ em_dash @ '' strict bitrate, quality managed by encoder.'')
     | Lossless \<Rightarrow> annotation NotImplemented ''Lossless encoding is not yet implemented. Hidden in UI.'')"

text \<open>Every dimension can only make the combination worse; an override has the last word.\<close>

definition combined_dimensions ::
    "CapabilitySet \<Rightarrow> ContainerC \<Rightarrow> VideoCodecC \<Rightarrow> AudioCodecC \<Rightarrow> ChromaC \<Rightarrow> BitDepthC \<Rightarrow> SupportAnnotation" where
  "combined_dimensions caps c v a cs bd =
     (let r = StaticMatrixAnnotation c v a cs bd;
          r = CombineAnnotations r (QueryContainer caps c);
          r = CombineAnnotations r (QueryVideoCodec caps v);
          r = CombineAnnotations r (QueryAudioCodec caps a);
          r = CombineAnnotations r (QueryChroma caps cs);
          r = CombineAnnotations r (QueryBitDepth caps bd) in
      if cs = Cs444 then CombineAnnotations r (QueryChroma444 caps v) else r)"

definition QueryCombo ::
    "CapabilitySet \<Rightarrow> ContainerC \<Rightarrow> VideoCodecC \<Rightarrow> AudioCodecC \<Rightarrow> ChromaC \<Rightarrow> BitDepthC \<Rightarrow> SupportAnnotation" where
  "QueryCombo caps c v a cs bd = (case combo_overrides caps (c, v, a, cs, bd) of
       Some x \<Rightarrow> x | None \<Rightarrow> combined_dimensions caps c v a cs bd)"

section \<open>Choice of a codec\<close>

fun first_available :: "CapabilitySet \<Rightarrow> ContainerC \<Rightarrow> VideoCodecC list \<Rightarrow> VideoCodecC option" where
  "first_available caps c [] = None"
| "first_available caps c (v # vs) =
     (if \<not> IsSelectable (QueryVideoCodec caps v) then first_available caps c vs
      else if IsContainerCompatProhibited (compat_level (Query c v (PreferredAudioCodec c)))
      then first_available caps c vs
      else Some v)"

definition BestAvailableVideoCodec :: "CapabilitySet \<Rightarrow> ContainerC \<Rightarrow> VideoCodecC option" where
  "BestAvailableVideoCodec caps c = first_available caps c [Av1C, HevcC, H264C]"

definition VisibleVideoCodecLabel :: "VideoCodecC \<Rightarrow> string" where
  "VisibleVideoCodecLabel v = (case v of Av1C \<Rightarrow> ''AV1'' | HevcC \<Rightarrow> ''HEVC'' | H264C \<Rightarrow> ''H.264'')"

section \<open>Facts\<close>

lemma level_annotation [simp]: "level (annotation l r) = l" "reason (annotation l r) = r"
  by (simp_all add: annotation_def)

lemma compat_level_entry [simp]: "compat_level (entry l r) = l"
  by (simp add: entry_def)

text \<open>The table of levels, with the messages left out.\<close>

lemma compat_levels:
  "compat_level (Query MatroskaC v a) = (if v = Av1C \<and> a \<in> {OpusC, AacC} \<or> v = H264C \<and> a = AacC then Recommended else Allowed)"
  "compat_level (Query Mp4C v a) =
     (if a = OpusC then Prohibited else if a = AacC \<and> v = H264C then Recommended
      else if a = AacC \<and> v = HevcC then Allowed else Experimental)"
  "compat_level (Query WebMC v a) = (if v = Av1C \<and> a = OpusC then Recommended else Prohibited)"
  by (cases v; cases a; simp add: Query_def query_mkv_def query_mp4_def query_webm_def)+

end
