(* ===== verification/CapabilityBuilder.thy ===== *)
theory CapabilityBuilder
  imports Capability
begin

text \<open>
  How the capability set is made (\<^verbatim>\<open>capability_builder.cpp\<close>): a static baseline, lowered by what
  the machine lacks. The probe of the machine (\<^verbatim>\<open>runtime_query.cpp\<close>: DXGI, the NVENC library, Media
  Foundation) is outside; its result, the snapshot, is an argument. The last section shows what a
  selectable combination tells about the machine.
\<close>

section \<open>The baseline\<close>

definition no_adv :: NvencAdvancedEncodeFacts where
  "no_adv = \<lparr>adv_max_bframes = 0, adv_bframe_ref_mode = 0, adv_lookahead = False, adv_temporal_aq = False\<rparr>"

definition no_nvidia :: NvidiaRuntimeFacts where
  "no_nvidia = \<lparr>nvenc_dll_present = False, nvenc_api_version_valid = False, nvenc_api_version = 0,
     nv_adapter_name = [], nvenc_codec_probed = False, nvenc_av1 = False, nvenc_hevc = False,
     nvenc_h264 = False, nvenc_yuv444_h264 = False, nvenc_yuv444_hevc = False, nvenc_adv_h264 = no_adv,
     nvenc_adv_hevc = no_adv, nvenc_adv_av1 = no_adv\<rparr>"

definition no_snapshot :: RuntimeCapabilitySnapshot where
  "no_snapshot = \<lparr>snap_adapter = \<lparr>id_adapter_luid = 0, id_vendor_id = 0, id_driver_version = []\<rparr>,
     snap_nvidia = no_nvidia, snap_webcam_available = False\<rparr>"

definition default_resolution_constraint :: ResolutionConstraint where
  "default_resolution_constraint = \<lparr>max_width = 0, max_height = 0, must_be_even = True\<rparr>"

definition baseline_video :: "VideoCodecC \<rightharpoonup> SupportAnnotation" where
  "baseline_video =
     [Av1C \<mapsto> annotation Available ''Validated NVENC AV1 path.'',
      HevcC \<mapsto> annotation ValidUnvalidated
        (''HEVC NVENC + Matroska V_MPEGH/ISO/HEVC implemented in 0.7.0; '' @
         ''not yet validated on recording hardware.''),
      H264C \<mapsto> annotation Available ''Validated NVENC H.264 path.'']"

definition baseline_audio :: "AudioCodecC \<rightharpoonup> SupportAnnotation" where
  "baseline_audio =
     [OpusC \<mapsto> annotation Available ''Opus encoder implemented via libopus (static); M4 Phase 3.'',
      AacC \<mapsto> annotation Available
        (''AAC-LC via FFmpeg'' @ apostrophe @ ''s bundled native encoder (LGPL); always available.''),
      PcmC \<mapsto> annotation Available ''Uncompressed S16LE PCM (A_PCM/INT/LIT); Matroska-only (0.6.0 Audio v2).'',
      FlacC \<mapsto> annotation Available ''Lossless FLAC (A_FLAC) via libFLAC; Matroska-only (0.6.0 Audio v2).'']"

definition baseline_containers :: "ContainerC \<rightharpoonup> SupportAnnotation" where
  "baseline_containers =
     [MatroskaC \<mapsto> annotation Available ''Primary validated container.'',
      Mp4C \<mapsto> annotation Available ''Validated MP4 H.264+AAC path.'',
      WebMC \<mapsto> annotation Available ''Primary validated WebM container.'']"

definition baseline_chroma :: "ChromaC \<rightharpoonup> SupportAnnotation" where
  "baseline_chroma =
     [Cs420 \<mapsto> annotation Available ''Validated chroma mode.'',
      Cs422 \<mapsto> annotation NotImplemented ''4:2:2 path is not implemented.'',
      Cs444 \<mapsto> annotation ValidUnvalidated
        ''4:4:4 (8-bit H.264/HEVC) implemented; not yet validated on recording hardware.'']"

definition baseline_chroma444 :: "VideoCodecC \<rightharpoonup> SupportAnnotation" where
  "baseline_chroma444 =
     [H264C \<mapsto> annotation ValidUnvalidated
        ''H.264 High 4:4:4 Predictive (8-bit); not yet validated on recording hardware.'',
      HevcC \<mapsto> annotation ValidUnvalidated
        ''HEVC Range Extensions 4:4:4 (8-bit); not yet validated on recording hardware.'',
      Av1C \<mapsto> annotation NotImplemented ''AV1 NVENC is 4:2:0 only; use H.264 or HEVC for 4:4:4.'']"

definition baseline_depths :: "BitDepthC \<rightharpoonup> SupportAnnotation" where
  "baseline_depths =
     [Bit8 \<mapsto> annotation Available ''Validated bit depth.'',
      Bit10 \<mapsto> annotation ValidUnvalidated
        (''10-bit HEVC/AV1 via NVENC Main10/P010 implemented in 0.7.0 '' @
         ''(SDR BT.709); not yet validated on recording hardware. '' @
         ''Requires HEVC or AV1; H.264 is 8-bit only.'')]"

definition baseline_hdr10 :: "VideoCodecC \<rightharpoonup> SupportAnnotation" where
  "baseline_hdr10 =
     [Av1C \<mapsto> annotation Available ''AV1 carries native HDR10 (10-bit/P010, PQ/BT.2020).'',
      HevcC \<mapsto> annotation Available ''HEVC Main10 carries native HDR10 (10-bit/P010, PQ/BT.2020).'',
      H264C \<mapsto> annotation NotImplemented
        ''H.264 has no 10-bit/HDR10 path (8-bit only). Use HEVC or AV1 for HDR10.'']"

definition unprobed_bframes :: BFrameCapability where
  "unprobed_bframes = \<lparr>bf_annotation = annotation NotImplemented ''B-frame support not yet probed on this hardware.'',
     bf_max_bframes = 0, bf_ref_mode = 0\<rparr>"

definition BuildStaticValidatedBaseline :: CapabilitySet where
  "BuildStaticValidatedBaseline =
     \<lparr>gpu_adapter_name = ''validated-baseline-static'', cap_nvenc_dll_present = True, mf_webcam_available = True,
      probed = False, runtime = no_snapshot, containers = baseline_containers, video_codecs = baseline_video,
      audio_codecs = baseline_audio, chroma_modes = baseline_chroma, bit_depths = baseline_depths,
      hdr10_native = baseline_hdr10, chroma444 = baseline_chroma444,
      bframe_capability = (\<lambda>v. if v \<in> set AllVideoCodecs then Some unprobed_bframes else None),
      lookahead = (\<lambda>v. if v \<in> set AllVideoCodecs
        then Some (annotation NotImplemented ''Lookahead support not yet probed on this hardware.'') else None),
      temporal_aq = (\<lambda>v. if v \<in> set AllVideoCodecs
        then Some (annotation NotImplemented ''Temporal-AQ support not yet probed on this hardware.'') else None),
      combo_overrides = (\<lambda>_. None), resolution_constraint = default_resolution_constraint\<rparr>"

section \<open>What the machine takes away\<close>

definition downgrade_if_unsupported ::
    "'k \<Rightarrow> bool \<Rightarrow> string \<Rightarrow> ('k \<rightharpoonup> SupportAnnotation) \<Rightarrow> ('k \<rightharpoonup> SupportAnnotation)" where
  "downgrade_if_unsupported codec supported why m =
     (if supported then m
      else case m codec of
        None \<Rightarrow> m(codec \<mapsto> annotation NotImplemented why)
      | Some a \<Rightarrow> if IsSelectable a then m(codec \<mapsto> annotation NotImplemented why) else m)"

definition ApplyNvencCodecSupport :: "NvidiaRuntimeFacts \<Rightarrow> CapabilitySet \<Rightarrow> CapabilitySet" where
  "ApplyNvencCodecSupport facts caps =
     (if \<not> nvenc_codec_probed facts then caps
      else caps\<lparr>video_codecs :=
        downgrade_if_unsupported H264C (nvenc_h264 facts) ''This GPU does not support H.264 NVENC encoding.''
        (downgrade_if_unsupported HevcC (nvenc_hevc facts) ''This GPU does not support HEVC (H.265) NVENC encoding.''
        (downgrade_if_unsupported Av1C (nvenc_av1 facts)
          (''This GPU does not support AV1 NVENC encoding '' @
           ''(NVIDIA Ada Lovelace / RTX 40 series or newer is required).'')
          (video_codecs caps)))\<rparr>)"

definition ApplyNvencYuv444Support :: "NvidiaRuntimeFacts \<Rightarrow> CapabilitySet \<Rightarrow> CapabilitySet" where
  "ApplyNvencYuv444Support facts caps =
     (if \<not> nvenc_codec_probed facts then caps
      else caps\<lparr>chroma444 :=
        downgrade_if_unsupported HevcC (nvenc_yuv444_hevc facts)
          ''This GPU does not support HEVC 4:4:4 (YUV444) NVENC encoding.''
        (downgrade_if_unsupported H264C (nvenc_yuv444_h264 facts)
          ''This GPU does not support H.264 4:4:4 (YUV444) NVENC encoding.'' (chroma444 caps))\<rparr>)"

definition probed_reason :: string where
  "probed_reason = ''Probed on this GPU/driver; not yet validated by ExoSnap'' @ apostrophe @ ''s own encode path.''"

definition probed_annotation :: "bool \<Rightarrow> string \<Rightarrow> SupportAnnotation" where
  "probed_annotation supported why =
     annotation (if supported then ValidUnvalidated else NotImplemented) (if supported then probed_reason else why)"

definition apply_advanced ::
    "VideoCodecC \<Rightarrow> bool \<Rightarrow> NvencAdvancedEncodeFacts \<Rightarrow> CapabilitySet \<Rightarrow> CapabilitySet" where
  "apply_advanced codec advertised adv caps =
     (if \<not> advertised then caps
      else caps\<lparr>
        bframe_capability := (bframe_capability caps)(codec \<mapsto>
          \<lparr>bf_annotation = probed_annotation (adv_max_bframes adv > 0) ''GPU/driver reports 0 max B-frames for this codec.'',
           bf_max_bframes = adv_max_bframes adv, bf_ref_mode = adv_bframe_ref_mode adv\<rparr>),
        lookahead := (lookahead caps)(codec \<mapsto>
          probed_annotation (adv_lookahead adv) ''GPU/driver does not report lookahead support for this codec.''),
        temporal_aq := (temporal_aq caps)(codec \<mapsto>
          probed_annotation (adv_temporal_aq adv) ''GPU/driver does not report Temporal-AQ support for this codec.'')\<rparr>)"

definition ApplyNvencAdvancedEncodeSupport :: "NvidiaRuntimeFacts \<Rightarrow> CapabilitySet \<Rightarrow> CapabilitySet" where
  "ApplyNvencAdvancedEncodeSupport facts caps =
     (if \<not> nvenc_codec_probed facts then caps
      else apply_advanced Av1C (nvenc_av1 facts) (nvenc_adv_av1 facts)
        (apply_advanced HevcC (nvenc_hevc facts) (nvenc_adv_hevc facts)
        (apply_advanced H264C (nvenc_h264 facts) (nvenc_adv_h264 facts) caps)))"

definition nvenc_usable :: "NvidiaRuntimeFacts \<Rightarrow> bool" where
  "nvenc_usable facts \<longleftrightarrow> nvenc_dll_present facts \<and> nvenc_api_version_valid facts"

definition nvenc_reason :: string where
  "nvenc_reason = ''NVIDIA NVENC is not available on this system. '' @
     ''Install a supported NVIDIA driver or switch to a non-NVENC recording profile.''"

definition nvenc_missing :: "CapabilitySet \<Rightarrow> CapabilitySet" where
  "nvenc_missing caps =
     (let denied = annotation NotImplemented nvenc_reason in
      caps\<lparr>video_codecs := (video_codecs caps)(Av1C \<mapsto> denied, H264C \<mapsto> denied, HevcC \<mapsto> denied),
           bit_depths := (bit_depths caps)(Bit10 \<mapsto> denied),
           combo_overrides := (combo_overrides caps)(
             (MatroskaC, Av1C, AacC, Cs420, Bit8) \<mapsto> denied,
             (MatroskaC, H264C, AacC, Cs420, Bit8) \<mapsto> denied,
             (Mp4C, H264C, AacC, Cs420, Bit8) \<mapsto> denied)\<rparr>)"

definition BuildEffectiveCapabilities :: "RuntimeCapabilitySnapshot \<Rightarrow> CapabilitySet" where
  "BuildEffectiveCapabilities snapshot =
     (let facts = snap_nvidia snapshot;
          caps = BuildStaticValidatedBaseline\<lparr>runtime := snapshot, gpu_adapter_name := nv_adapter_name facts,
            cap_nvenc_dll_present := nvenc_dll_present facts, mf_webcam_available := snap_webcam_available snapshot\<rparr>;
          caps = (if \<not> nvenc_dll_present facts \<or> \<not> nvenc_api_version_valid facts then nvenc_missing caps else caps)
      in ApplyNvencAdvancedEncodeSupport facts (ApplyNvencYuv444Support facts (ApplyNvencCodecSupport facts caps)))"

text \<open>\<^verbatim>\<open>BuildFromHardwareQuery\<close>, with the result of \<^verbatim>\<open>QueryRuntimeFacts\<close> as its argument.\<close>

definition BuildFromHardwareQuery :: "RuntimeCapabilitySnapshot \<Rightarrow> CapabilitySet" where
  "BuildFromHardwareQuery snapshot = (BuildEffectiveCapabilities snapshot)\<lparr>probed := True\<rparr>"

section \<open>The key of the cache\<close>

definition kCapabilityCacheSchemaVersion :: int where "kCapabilityCacheSchemaVersion = 3"

record CapabilityCacheKey =
  ck_adapter_luid :: u64
  ck_driver_version :: string
  ck_app_version :: string
  ck_schema_version :: int

definition BuildCapabilityCacheKey :: "AdapterIdentity \<Rightarrow> string \<Rightarrow> CapabilityCacheKey" where
  "BuildCapabilityCacheKey identity app_version =
     \<lparr>ck_adapter_luid = id_adapter_luid identity, ck_driver_version = id_driver_version identity,
      ck_app_version = app_version, ck_schema_version = kCapabilityCacheSchemaVersion\<rparr>"

section \<open>What the maps say\<close>

definition codec_encodable :: "NvidiaRuntimeFacts \<Rightarrow> VideoCodecC \<Rightarrow> bool" where
  "codec_encodable facts v = (case v of Av1C \<Rightarrow> nvenc_av1 facts | HevcC \<Rightarrow> nvenc_hevc facts | H264C \<Rightarrow> nvenc_h264 facts)"

definition codec_encodes444 :: "NvidiaRuntimeFacts \<Rightarrow> VideoCodecC \<Rightarrow> bool" where
  "codec_encodes444 facts v =
     (case v of Av1C \<Rightarrow> False | HevcC \<Rightarrow> nvenc_yuv444_hevc facts | H264C \<Rightarrow> nvenc_yuv444_h264 facts)"

lemma IsSelectable_annotation [simp]: "IsSelectable (annotation l r) = selectable_level l"
  by (simp add: IsSelectable_def)

lemma selectable_level_simps [simp]:
  "selectable_level Available" "selectable_level ValidUnvalidated"
  "\<not> selectable_level NotImplemented" "\<not> selectable_level Invalid"
  by (simp_all add: selectable_level_def)

text \<open>A missing entry is not selectable.\<close>

definition selectable_at :: "('k \<rightharpoonup> SupportAnnotation) \<Rightarrow> 'k \<Rightarrow> bool" where
  "selectable_at m k = (case m k of None \<Rightarrow> False | Some a \<Rightarrow> IsSelectable a)"

lemma selectable_LookupAnnotation [simp]: "IsSelectable (LookupAnnotation m k d) = selectable_at m k"
  by (simp add: LookupAnnotation_def selectable_at_def split: option.split)

lemma selectable_at_downgrade [simp]:
  "selectable_at (downgrade_if_unsupported c ok why m) k \<longleftrightarrow> selectable_at m k \<and> (k = c \<longrightarrow> ok)"
  by (auto simp: selectable_at_def downgrade_if_unsupported_def split: option.splits)

lemma selectable_at_upd [simp]:
  "selectable_at (m(k \<mapsto> a)) k' = (if k' = k then IsSelectable a else selectable_at m k')"
  by (simp add: selectable_at_def)

lemma selectable_at_empty [simp]: "\<not> selectable_at (\<lambda>_. None) k"
  by (simp add: selectable_at_def)

lemma selectable_baseline [simp]:
  "selectable_at baseline_video v" "selectable_at baseline_audio a" "selectable_at baseline_containers c"
  "selectable_at baseline_chroma cs \<longleftrightarrow> cs \<noteq> Cs422" "selectable_at baseline_chroma444 v \<longleftrightarrow> v \<noteq> Av1C"
  "selectable_at baseline_depths bd"
  subgoal by (cases v; simp add: baseline_video_def)
  subgoal by (cases a; simp add: baseline_audio_def)
  subgoal by (cases c; simp add: baseline_containers_def)
  subgoal by (cases cs; simp add: baseline_chroma_def)
  subgoal by (cases v; simp add: baseline_chroma444_def)
  subgoal by (cases bd; simp add: baseline_depths_def)
  done

text \<open>The steps leave each other's maps alone.\<close>

lemma advanced_keeps [simp]:
  "video_codecs (ApplyNvencAdvancedEncodeSupport f caps) = video_codecs caps"
  "chroma444 (ApplyNvencAdvancedEncodeSupport f caps) = chroma444 caps"
  "audio_codecs (ApplyNvencAdvancedEncodeSupport f caps) = audio_codecs caps"
  "containers (ApplyNvencAdvancedEncodeSupport f caps) = containers caps"
  "chroma_modes (ApplyNvencAdvancedEncodeSupport f caps) = chroma_modes caps"
  "bit_depths (ApplyNvencAdvancedEncodeSupport f caps) = bit_depths caps"
  "combo_overrides (ApplyNvencAdvancedEncodeSupport f caps) = combo_overrides caps"
  "resolution_constraint (ApplyNvencAdvancedEncodeSupport f caps) = resolution_constraint caps"
  by (simp_all add: ApplyNvencAdvancedEncodeSupport_def apply_advanced_def)

lemma yuv444_keeps [simp]:
  "video_codecs (ApplyNvencYuv444Support f caps) = video_codecs caps"
  "audio_codecs (ApplyNvencYuv444Support f caps) = audio_codecs caps"
  "containers (ApplyNvencYuv444Support f caps) = containers caps"
  "chroma_modes (ApplyNvencYuv444Support f caps) = chroma_modes caps"
  "bit_depths (ApplyNvencYuv444Support f caps) = bit_depths caps"
  "combo_overrides (ApplyNvencYuv444Support f caps) = combo_overrides caps"
  "resolution_constraint (ApplyNvencYuv444Support f caps) = resolution_constraint caps"
  by (simp_all add: ApplyNvencYuv444Support_def)

lemma codec_support_keeps [simp]:
  "chroma444 (ApplyNvencCodecSupport f caps) = chroma444 caps"
  "audio_codecs (ApplyNvencCodecSupport f caps) = audio_codecs caps"
  "containers (ApplyNvencCodecSupport f caps) = containers caps"
  "chroma_modes (ApplyNvencCodecSupport f caps) = chroma_modes caps"
  "bit_depths (ApplyNvencCodecSupport f caps) = bit_depths caps"
  "combo_overrides (ApplyNvencCodecSupport f caps) = combo_overrides caps"
  "resolution_constraint (ApplyNvencCodecSupport f caps) = resolution_constraint caps"
  by (simp_all add: ApplyNvencCodecSupport_def)

lemma selectable_codec_support [simp]:
  "selectable_at (video_codecs (ApplyNvencCodecSupport f caps)) v \<longleftrightarrow>
     selectable_at (video_codecs caps) v \<and> (nvenc_codec_probed f \<longrightarrow> codec_encodable f v)"
  by (cases v) (auto simp: ApplyNvencCodecSupport_def codec_encodable_def)

lemma selectable_yuv444_support [simp]:
  "selectable_at (chroma444 (ApplyNvencYuv444Support f caps)) v \<longleftrightarrow>
     selectable_at (chroma444 caps) v \<and> (nvenc_codec_probed f \<longrightarrow> v = Av1C \<or> codec_encodes444 f v)"
  by (cases v) (auto simp: ApplyNvencYuv444Support_def codec_encodes444_def)

lemma nvenc_missing_maps [simp]:
  "containers (nvenc_missing caps) = containers caps" "audio_codecs (nvenc_missing caps) = audio_codecs caps"
  "chroma_modes (nvenc_missing caps) = chroma_modes caps" "chroma444 (nvenc_missing caps) = chroma444 caps"
  "resolution_constraint (nvenc_missing caps) = resolution_constraint caps"
  "\<not> selectable_at (video_codecs (nvenc_missing caps)) v"
  "selectable_at (bit_depths (nvenc_missing caps)) bd \<longleftrightarrow> bd \<noteq> Bit10 \<and> selectable_at (bit_depths caps) bd"
  by (cases v; cases bd; simp add: nvenc_missing_def Let_def)+

text \<open>Each dimension of the effective set, by what the snapshot says.\<close>

lemma baseline_maps [simp]:
  "containers BuildStaticValidatedBaseline = baseline_containers"
  "video_codecs BuildStaticValidatedBaseline = baseline_video"
  "audio_codecs BuildStaticValidatedBaseline = baseline_audio"
  "chroma_modes BuildStaticValidatedBaseline = baseline_chroma"
  "bit_depths BuildStaticValidatedBaseline = baseline_depths"
  "chroma444 BuildStaticValidatedBaseline = baseline_chroma444"
  "combo_overrides BuildStaticValidatedBaseline = (\<lambda>_. None)"
  "resolution_constraint BuildStaticValidatedBaseline = default_resolution_constraint"
  by (simp_all add: BuildStaticValidatedBaseline_def)

text \<open>The set before the per-GPU steps.\<close>

definition gated_baseline :: "RuntimeCapabilitySnapshot \<Rightarrow> CapabilitySet" where
  "gated_baseline snapshot =
     (let facts = snap_nvidia snapshot;
          caps = BuildStaticValidatedBaseline\<lparr>runtime := snapshot, gpu_adapter_name := nv_adapter_name facts,
            cap_nvenc_dll_present := nvenc_dll_present facts, mf_webcam_available := snap_webcam_available snapshot\<rparr>
      in if nvenc_usable facts then caps else nvenc_missing caps)"

lemma effective_gated:
  "BuildEffectiveCapabilities snapshot = ApplyNvencAdvancedEncodeSupport (snap_nvidia snapshot)
     (ApplyNvencYuv444Support (snap_nvidia snapshot)
       (ApplyNvencCodecSupport (snap_nvidia snapshot) (gated_baseline snapshot)))"
  by (auto simp: BuildEffectiveCapabilities_def gated_baseline_def Let_def nvenc_usable_def)

lemma gated_maps [simp]:
  "containers (gated_baseline snapshot) = baseline_containers"
  "audio_codecs (gated_baseline snapshot) = baseline_audio"
  "chroma_modes (gated_baseline snapshot) = baseline_chroma"
  "chroma444 (gated_baseline snapshot) = baseline_chroma444"
  "resolution_constraint (gated_baseline snapshot) = default_resolution_constraint"
  "selectable_at (video_codecs (gated_baseline snapshot)) v \<longleftrightarrow> nvenc_usable (snap_nvidia snapshot)"
  "selectable_at (bit_depths (gated_baseline snapshot)) bd \<longleftrightarrow> bd = Bit8 \<or> nvenc_usable (snap_nvidia snapshot)"
  by (cases bd; simp add: gated_baseline_def Let_def)+

lemma nvenc_missing_overrides:
  "combo_overrides caps = (\<lambda>_. None) \<Longrightarrow> combo_overrides (nvenc_missing caps) k = Some x \<Longrightarrow> \<not> IsSelectable x"
  by (auto simp: nvenc_missing_def Let_def split: if_splits)

lemma effective_overrides:
  assumes "combo_overrides (BuildEffectiveCapabilities snapshot) k = Some x"
  shows "\<not> nvenc_usable (snap_nvidia snapshot)" "\<not> IsSelectable x"
  using assms by (auto simp: effective_gated gated_baseline_def Let_def split: if_splits
      dest: nvenc_missing_overrides[rotated])

lemma effective_selectable:
  fixes snapshot :: RuntimeCapabilitySnapshot
  defines "caps \<equiv> BuildEffectiveCapabilities snapshot" and "f \<equiv> snap_nvidia snapshot"
  shows "IsSelectable (QueryContainer caps c)"
    "IsSelectable (QueryAudioCodec caps a)"
    "IsSelectable (QueryChroma caps cs) \<longleftrightarrow> cs \<noteq> Cs422"
    "IsSelectable (QueryBitDepth caps bd) \<longleftrightarrow> bd = Bit8 \<or> nvenc_usable f"
    "IsSelectable (QueryVideoCodec caps v) \<longleftrightarrow> nvenc_usable f \<and> (nvenc_codec_probed f \<longrightarrow> codec_encodable f v)"
    "IsSelectable (QueryChroma444 caps v) \<longleftrightarrow> v \<noteq> Av1C \<and> (nvenc_codec_probed f \<longrightarrow> codec_encodes444 f v)"
  by (auto simp: caps_def f_def effective_gated QueryContainer_def QueryAudioCodec_def
      QueryChroma_def QueryBitDepth_def QueryVideoCodec_def QueryChroma444_def)

lemma effective_resolution [simp]:
  "resolution_constraint (BuildEffectiveCapabilities snapshot) = default_resolution_constraint"
  by (simp add: effective_gated)

section \<open>A combination is as good as its worst dimension\<close>

lemma SeverityRank_inj: "SeverityRank l = SeverityRank l' \<longleftrightarrow> l = l'"
  by (cases l; cases l'; simp add: SeverityRank_def)

lemma selectable_rank: "selectable_level l \<longleftrightarrow> SeverityRank l \<le> 1"
  by (cases l; simp add: SeverityRank_def)

lemma rank_Combine [simp]:
  "SeverityRank (level (CombineAnnotations a b)) = max (SeverityRank (level a)) (SeverityRank (level b))"
  by (auto simp: CombineAnnotations_def)

lemma selectable_Combine [simp]: "IsSelectable (CombineAnnotations a b) \<longleftrightarrow> IsSelectable a \<and> IsSelectable b"
  by (simp add: IsSelectable_def selectable_rank)

text \<open>The dimensions that count for a combination.\<close>

definition dimensions ::
    "CapabilitySet \<Rightarrow> ContainerC \<Rightarrow> VideoCodecC \<Rightarrow> AudioCodecC \<Rightarrow> ChromaC \<Rightarrow> BitDepthC \<Rightarrow> SupportAnnotation list" where
  "dimensions caps c v a cs bd =
     [StaticMatrixAnnotation c v a cs bd, QueryContainer caps c, QueryVideoCodec caps v, QueryAudioCodec caps a,
      QueryChroma caps cs, QueryBitDepth caps bd] @ (if cs = Cs444 then [QueryChroma444 caps v] else [])"

lemma combined_fold:
  "combined_dimensions caps c v a cs bd =
     foldl CombineAnnotations (StaticMatrixAnnotation c v a cs bd) (List.tl (dimensions caps c v a cs bd))"
  by (simp add: combined_dimensions_def Let_def dimensions_def)

lemma rank_fold:
  "SeverityRank (level (foldl CombineAnnotations a as)) = Max (insert (SeverityRank (level a)) ((SeverityRank \<circ> level) ` set as))"
proof (induction as arbitrary: a)
  case (Cons b as)
  have "Max (insert (max x y) S) = Max (insert x (insert y S))" if "finite S" for x y :: int and S
    using that by (cases "S = {}") (simp_all add: max.assoc)
  then show ?case by (simp add: Cons.IH)
qed simp

lemma selectable_fold:
  "IsSelectable (foldl CombineAnnotations a as) \<longleftrightarrow> IsSelectable a \<and> list_all IsSelectable as"
  by (induction as arbitrary: a) auto

lemma selectable_combined:
  "IsSelectable (combined_dimensions caps c v a cs bd) \<longleftrightarrow> list_all IsSelectable (dimensions caps c v a cs bd)"
  by (simp add: combined_fold selectable_fold dimensions_def)

text \<open>The static matrix, by what it lets through.\<close>

definition static_ok :: "ContainerC \<Rightarrow> VideoCodecC \<Rightarrow> AudioCodecC \<Rightarrow> ChromaC \<Rightarrow> BitDepthC \<Rightarrow> bool" where
  "static_ok c v a cs bd \<longleftrightarrow>
     IsContainerCompatSelectable (compat_level (Query c v a)) \<and> cs \<noteq> Cs422 \<and>
     (cs = Cs444 \<longrightarrow> v \<noteq> Av1C \<and> bd = Bit8) \<and> (bd = Bit10 \<longrightarrow> v \<noteq> H264C)"

lemma level_registry:
  "selectable_level (level (RegistryEntryToSupportAnnotation e)) \<longleftrightarrow> IsContainerCompatSelectable (compat_level e)"
  "level (RegistryEntryToSupportAnnotation e) = Invalid \<longleftrightarrow> compat_level e = Prohibited"
  by (cases "compat_level e"; simp add: RegistryEntryToSupportAnnotation_def IsContainerCompatSelectable_def)+

lemma selectable_static: "IsSelectable (StaticMatrixAnnotation c v a cs bd) \<longleftrightarrow> static_ok c v a cs bd"
  using level_registry[of "Query c v a"]
  by (cases v; cases cs; cases bd;
      auto simp: StaticMatrixAnnotation_def Let_def BaseContainerVideoAudioAnnotation_def static_ok_def
        IsSelectable_def IsContainerCompatSelectable_def)

text \<open>Exactly which combinations the effective set lets through.\<close>

definition machine_ok :: "NvidiaRuntimeFacts \<Rightarrow> VideoCodecC \<Rightarrow> ChromaC \<Rightarrow> bool" where
  "machine_ok f v cs \<longleftrightarrow> nvenc_usable f \<and>
     (nvenc_codec_probed f \<longrightarrow> codec_encodable f v \<and> (cs = Cs444 \<longrightarrow> codec_encodes444 f v))"

theorem effective_combo:
  "IsSelectable (QueryCombo (BuildEffectiveCapabilities snapshot) c v a cs bd) \<longleftrightarrow>
     static_ok c v a cs bd \<and> machine_ok (snap_nvidia snapshot) v cs"
proof (cases "combo_overrides (BuildEffectiveCapabilities snapshot) (c, v, a, cs, bd)")
  case None
  then show ?thesis
    by (auto simp: QueryCombo_def selectable_combined dimensions_def effective_selectable selectable_static
        machine_ok_def static_ok_def)
next
  case (Some x)
  then show ?thesis
    using effective_overrides[OF Some] by (simp add: QueryCombo_def machine_ok_def)
qed

end
