(* ===== verification/FramePacing.thy ===== *)
theory FramePacing
  imports Prelude
begin

text \<open>
  The pacing of captured frames: which frame a slot of the output takes, how a clock that fell behind catches up,
  when a still screen is composited again (\<^verbatim>\<open>frame_pacing.cpp\<close>, \<^verbatim>\<open>frame_pacing.h\<close>), the ring of captures the video
  thread keeps between its source and these choices (\<^verbatim>\<open>video_thread.cpp\<close>), and the gaps of an audio source
  (\<^verbatim>\<open>discontinuity_gap.h\<close>).

  Times are raw readings of the performance counter. A texture is a number; what was copied into it is the present
  time of the frame it shows.
\<close>

section \<open>Choosing a frame for a slot\<close>

definition kMinRing :: nat where "kMinRing = 4"
definition kMaxRing :: nat where "kMaxRing = 12"
definition kFallbackRing :: nat where "kFallbackRing = 8"

definition ComputePacingRingSize :: "u32 \<Rightarrow> u32 \<Rightarrow> nat" where
  "ComputePacingRingSize monitor_refresh_hz output_fps =
     (if monitor_refresh_hz = 0 \<or> output_fps = 0 then kFallbackRing
      else let ratio = unat ((monitor_refresh_hz + output_fps - 1) div output_fps)
           in max kMinRing (min kMaxRing (ratio + 2)))"

definition ComputeCatchUpSkip :: "u64 \<Rightarrow> u64 \<Rightarrow> u64 \<Rightarrow> u64" where
  "ComputeCatchUpSkip lag_100ns frame_interval_100ns max_catch_up_frames =
     (if frame_interval_100ns = 0 then 0
      else let frames_behind = lag_100ns div frame_interval_100ns in
        if frames_behind \<le> max_catch_up_frames then 0 else frames_behind - max_catch_up_frames)"

datatype FramePacingMode = Smooth | Newest

record PacingDecision =
  pd_emit :: bool
  pd_index :: nat
  pd_newly_dropped :: u32

definition duplicate :: PacingDecision where
  "duplicate = \<lparr>pd_emit = False, pd_index = 0, pd_newly_dropped = 0\<rparr>"

text \<open>The first entry newer than the last emitted one, or the size of the ring.\<close>

fun first_fresh :: "u64 \<Rightarrow> u64 list \<Rightarrow> nat" where
  "first_fresh last_emitted [] = 0"
| "first_fresh last_emitted (q # ring) = (if last_emitted < q then 0 else Suc (first_fresh last_emitted ring))"

definition slot_distance :: "u64 \<Rightarrow> u64 \<Rightarrow> u64" where
  "slot_distance slot_qpc p = (if slot_qpc \<le> p then p - slot_qpc else slot_qpc - p)"

text \<open>The loop over the fresh entries, from position \<open>i\<close> on.\<close>

fun nearest :: "u64 \<Rightarrow> u64 list \<Rightarrow> nat \<Rightarrow> u64 \<Rightarrow> nat \<Rightarrow> nat" where
  "nearest slot_qpc [] i best_dist chosen = chosen"
| "nearest slot_qpc (p # rest) i best_dist chosen =
     (if slot_distance slot_qpc p < best_dist then nearest slot_qpc rest (Suc i) (slot_distance slot_qpc p) i
      else nearest slot_qpc rest (Suc i) best_dist chosen)"

definition SelectFrameForSlot :: "u64 list \<Rightarrow> u64 \<Rightarrow> u64 \<Rightarrow> FramePacingMode \<Rightarrow> PacingDecision" where
  "SelectFrameForSlot ring slot_qpc last_emitted mode =
     (let first = first_fresh last_emitted ring in
      if first = length ring then duplicate
      else
        let chosen = (if mode = Newest then length ring - 1 else nearest slot_qpc (drop first ring) first (- 1) first)
        in \<lparr>pd_emit = True, pd_index = chosen, pd_newly_dropped = of_nat (chosen - first)\<rparr>)"

section \<open>Frames that repeat\<close>

definition ShouldRecompositeHeldScreen :: "bool \<Rightarrow> bool \<Rightarrow> bool \<Rightarrow> bool \<Rightarrow> bool" where
  "ShouldRecompositeHeldScreen has_fresh_source od_holding dynamic_overlay_changed has_held_screen =
     (if has_fresh_source then False
      else if od_holding \<or> \<not> has_held_screen then False
      else dynamic_overlay_changed)"

datatype CfrTickDropCause = DropPacing | DropProcessingFailure

definition ClassifyCfrTickDrop :: "bool \<Rightarrow> bool \<Rightarrow> CfrTickDropCause" where
  "ClassifyCfrTickDrop had_source_frame reference_storage_available =
     (if had_source_frame then DropProcessingFailure
      else if reference_storage_available then DropPacing else DropProcessingFailure)"

section \<open>The ring of captures\<close>

record capture_ring =
  ring_tex :: "nat list"
  ring_qpc :: "u64 list"
  ringHead :: nat
  lastEmittedPresentQpc :: u64
  droppedFrames :: u64
  odCapturedTex :: nat
  tex_shows :: "nat \<Rightarrow> u64"

text \<open>A desktop present: the oldest place of the ring is written; a frame nobody took is a drop.\<close>

definition ring_present :: "u64 \<Rightarrow> capture_ring \<Rightarrow> capture_ring" where
  "ring_present present_qpc r =
     (let entry = ring_qpc r ! ringHead r;
          r = (if entry \<noteq> 0 \<and> lastEmittedPresentQpc r < entry then r\<lparr>droppedFrames := droppedFrames r + 1\<rparr> else r)
      in r\<lparr>tex_shows := (tex_shows r)(ring_tex r ! ringHead r := present_qpc), ring_qpc := (ring_qpc r)[ringHead r := present_qpc],
           ringHead := Suc (ringHead r) mod length (ring_qpc r)\<rparr>)"

text \<open>The places of the ring from the oldest on, and those of them that hold a frame.\<close>

definition live_slots :: "capture_ring \<Rightarrow> nat list" where
  "live_slots r = filter (\<lambda>phys. ring_qpc r ! phys \<noteq> 0)
     (map (\<lambda>i. (ringHead r + i) mod length (ring_qpc r)) [0..<length (ring_qpc r)])"

definition AdoptEmittedAsHeldScreen :: "nat \<Rightarrow> capture_ring \<Rightarrow> capture_ring" where
  "AdoptEmittedAsHeldScreen phys r =
     r\<lparr>ring_tex := (ring_tex r)[phys := odCapturedTex r], odCapturedTex := ring_tex r ! phys\<rparr>"

text \<open>One slot of the output: the present time of the frame it takes, if it takes a new one.\<close>

definition ring_tick :: "u64 \<Rightarrow> capture_ring \<Rightarrow> u64 option \<times> capture_ring" where
  "ring_tick slot_qpc r =
     (let live = live_slots r;
          presents = map (\<lambda>phys. ring_qpc r ! phys) live;
          dec = SelectFrameForSlot presents slot_qpc (lastEmittedPresentQpc r) Smooth;
          r = r\<lparr>droppedFrames := droppedFrames r + ucast (pd_newly_dropped dec)\<rparr>
      in if pd_emit dec then
           let emitted = presents ! pd_index dec;
               r = r\<lparr>lastEmittedPresentQpc := emitted,
                     ring_qpc := map (\<lambda>q. if q \<noteq> 0 \<and> q \<le> emitted then 0 else q) (ring_qpc r)\<rparr>
           in (Some emitted, AdoptEmittedAsHeldScreen (live ! pd_index dec) r)
         else (None, r))"

datatype capture_event = DesktopPresent u64 | OutputSlot u64

text \<open>The frames emitted over a run of presents and slots, and the ring it leaves.\<close>

fun run_ring :: "capture_event list \<Rightarrow> capture_ring \<Rightarrow> u64 list \<times> capture_ring" where
  "run_ring [] r = ([], r)"
| "run_ring (e # events) r = (case e of
       DesktopPresent q \<Rightarrow> run_ring events (ring_present q r)
     | OutputSlot slot \<Rightarrow>
         (case ring_tick slot r of (emitted, r) \<Rightarrow>
            (case run_ring events r of (rest, r) \<Rightarrow>
               ((case emitted of None \<Rightarrow> rest | Some q \<Rightarrow> q # rest), r))))"

text \<open>The ring at the start of a session; the held screen shows the first frame, taken before the ring existed.\<close>

definition start_ring :: "nat \<Rightarrow> u64 \<Rightarrow> capture_ring" where
  "start_ring n first_frame =
     \<lparr>ring_tex = [0..<n], ring_qpc = replicate n 0, ringHead = 0, lastEmittedPresentQpc = 0, droppedFrames = 0,
      odCapturedTex = n, tex_shows = (\<lambda>_. 0)(n := first_frame)\<rparr>"

section \<open>Catching up\<close>

record cfr_clock =
  cfr_frame_idx :: u64
  next_tick_100ns :: u64
  sustainedLagTicks :: u32
  skipped_frames :: u64

definition resync :: "u64 \<Rightarrow> u64 \<Rightarrow> u32 \<Rightarrow> u64 \<Rightarrow> cfr_clock \<Rightarrow> cfr_clock" where
  "resync frame_interval_100ns kMaxCatchUpFrames kSustainedLagResyncTicks elapsed_100ns c =
     (let lag = (if next_tick_100ns c < elapsed_100ns then elapsed_100ns - next_tick_100ns c else 0);
          c = (if kMaxCatchUpFrames * frame_interval_100ns < lag
               then c\<lparr>sustainedLagTicks := sustainedLagTicks c + 1\<rparr> else c\<lparr>sustainedLagTicks := 0\<rparr>)
      in if kSustainedLagResyncTicks \<le> sustainedLagTicks c then
           let skip = ComputeCatchUpSkip lag frame_interval_100ns kMaxCatchUpFrames;
               c = (if 0 < skip
                    then c\<lparr>cfr_frame_idx := cfr_frame_idx c + skip,
                           next_tick_100ns := next_tick_100ns c + skip * frame_interval_100ns,
                           skipped_frames := skipped_frames c + skip\<rparr>
                    else c)
           in c\<lparr>sustainedLagTicks := 0\<rparr>
         else c)"

section \<open>Gaps of an audio source\<close>

definition kMaxDiscontinuityGapSeconds :: u64 where "kMaxDiscontinuityGapSeconds = 10"

definition IsReportableDiscontinuity :: "bool \<Rightarrow> u32 \<Rightarrow> bool" where
  "IsReportableDiscontinuity discontinuity gap_frames \<longleftrightarrow> discontinuity \<and> 0 < gap_frames"

definition ComputeDiscontinuityGapFrames :: "bool \<Rightarrow> bool \<Rightarrow> u64 \<Rightarrow> u64 \<Rightarrow> u32 \<Rightarrow> u32" where
  "ComputeDiscontinuityGapFrames discontinuity have_expected expected position sample_rate =
     (if \<not> discontinuity \<or> \<not> have_expected then 0
      else if position \<le> expected then 0
      else let gap = position - expected; max_gap = kMaxDiscontinuityGapSeconds * ucast sample_rate
           in ucast (if gap < max_gap then gap else max_gap))"

definition ScaleDiscontinuityGapFrames :: "u32 \<Rightarrow> u32 \<Rightarrow> u32 \<Rightarrow> u32" where
  "ScaleDiscontinuityGapFrames gap_frames from_rate to_rate =
     (if gap_frames = 0 \<or> from_rate = 0 \<or> from_rate = to_rate then gap_frames
      else ucast ((ucast gap_frames * ucast to_rate + ucast from_rate div 2) div (ucast from_rate :: u64)))"

text \<open>A source follows the position of its device from packet to packet.\<close>

record device_track =
  device_position_tracked :: bool
  expected_device_position :: u64

definition track_packet :: "u32 \<Rightarrow> bool \<Rightarrow> u64 \<Rightarrow> u32 \<Rightarrow> device_track \<Rightarrow> (bool \<times> u32) \<times> device_track" where
  "track_packet sample_rate flag position num_frames t =
     (let gap = ComputeDiscontinuityGapFrames flag (device_position_tracked t) (expected_device_position t) position sample_rate
      in ((IsReportableDiscontinuity flag gap, gap),
          t\<lparr>device_position_tracked := True, expected_device_position := position + ucast num_frames\<rparr>))"

fun track_packets :: "u32 \<Rightarrow> (bool \<times> u64 \<times> u32) list \<Rightarrow> device_track \<Rightarrow> u32 list \<times> device_track" where
  "track_packets sample_rate [] t = ([], t)"
| "track_packets sample_rate ((flag, position, num_frames) # packets) t =
     (case track_packet sample_rate flag position num_frames t of
        ((_, gap), t) \<Rightarrow> (case track_packets sample_rate packets t of (gaps, t) \<Rightarrow> (gap # gaps, t)))"

end
