(* ===== verification/Resolver.thy ===== *)
theory Resolver
  imports CapabilityBuilder Versions FramePacing
begin

text \<open>
  The settings resolver (\<^verbatim>\<open>resolver.cpp\<close>): a requested change is applied and the rest of the
  configuration follows, a whole configuration is validated with fallbacks, and the rules that need
  no capabilities reconcile an output format. The options a page shows (\<^verbatim>\<open>option_query.cpp\<close>) preview
  these changes.
\<close>

section \<open>Configuration and result\<close>

datatype HdrMode = HdrOff | TonemapSdr | Hdr10

record UserRecorderConfig =
  u_container :: ContainerC
  u_video_codec :: VideoCodecC
  u_audio_codec :: AudioCodecC
  u_chroma :: ChromaC
  u_bit_depth :: BitDepthC
  u_color_range :: ColorRangeC
  u_output_width :: u32
  u_output_height :: u32
  u_frame_rate_num :: u32
  u_frame_rate_den :: u32
  u_frame_pacing :: FramePacingMode
  u_hdr_mode :: HdrMode

definition default_user_config :: UserRecorderConfig where
  "default_user_config = \<lparr>u_container = MatroskaC, u_video_codec = Av1C, u_audio_codec = OpusC, u_chroma = Cs420,
     u_bit_depth = Bit8, u_color_range = Limited, u_output_width = 0, u_output_height = 0,
     u_frame_rate_num = 60, u_frame_rate_den = 1, u_frame_pacing = Smooth, u_hdr_mode = TonemapSdr\<rparr>"

record Adjustment =
  adj_field :: string
  adj_from :: string
  adj_to :: string
  adj_reason :: string

record Warning =
  warn_code :: string
  warn_message :: string

record InvalidReason =
  inv_field :: string
  inv_message :: string

record ResolveResult =
  rr_succeeded :: bool
  resolved_config :: UserRecorderConfig
  adjustments :: "Adjustment list"
  warnings :: "Warning list"
  invalidity :: "InvalidReason list"

definition result_for :: "UserRecorderConfig \<Rightarrow> ResolveResult" where
  "result_for cfg = \<lparr>rr_succeeded = False, resolved_config = cfg, adjustments = [], warnings = [], invalidity = []\<rparr>"

datatype RequestedChange =
  ForContainer ContainerC
| ForVideoCodec VideoCodecC
| ForAudioCodec AudioCodecC
| ForChroma ChromaC
| ForBitDepth BitDepthC
| ForResolution u32 u32

definition QueryResolvedCombo :: "CapabilitySet \<Rightarrow> UserRecorderConfig \<Rightarrow> SupportAnnotation" where
  "QueryResolvedCombo caps cfg =
     QueryCombo caps (u_container cfg) (u_video_codec cfg) (u_audio_codec cfg) (u_chroma cfg) (u_bit_depth cfg)"

definition or_message :: "string \<Rightarrow> string \<Rightarrow> string" where
  "or_message why otherwise = (if why = [] then otherwise else why)"

definition AddWarningForUnvalidated :: "SupportAnnotation \<Rightarrow> ResolveResult \<Rightarrow> ResolveResult" where
  "AddWarningForUnvalidated a r =
     (if level a = ValidUnvalidated
      then r\<lparr>warnings := warnings r @ [\<lparr>warn_code = ''combo.valid_unvalidated'', warn_message =
             or_message (reason a) ''Selected combination is valid but not validated on this system.''\<rparr>]\<rparr>
      else r)"

definition AddInvalid :: "string \<Rightarrow> string \<Rightarrow> ResolveResult \<Rightarrow> ResolveResult" where
  "AddInvalid field message r =
     r\<lparr>rr_succeeded := False, invalidity := invalidity r @ [\<lparr>inv_field = field, inv_message = message\<rparr>]\<rparr>"

definition AddAdjustment :: "string \<Rightarrow> string \<Rightarrow> string \<Rightarrow> string \<Rightarrow> ResolveResult \<Rightarrow> ResolveResult" where
  "AddAdjustment field from_value to_value why r =
     r\<lparr>adjustments := adjustments r @ [\<lparr>adj_field = field, adj_from = from_value, adj_to = to_value, adj_reason = why\<rparr>]\<rparr>"

section \<open>Validation of the resolution\<close>

definition resolution_complaint :: "ResolutionConstraint \<Rightarrow> UserRecorderConfig \<Rightarrow> (string \<times> string) option" where
  "resolution_complaint constraint cfg =
     (let width = u_output_width cfg; height = u_output_height cfg in
      if u_frame_rate_num cfg = 0 \<or> u_frame_rate_den cfg = 0
      then Some (''frame_rate'', ''frame_rate_num and frame_rate_den must both be non-zero.'')
      else if (width = 0) \<noteq> (height = 0)
      then Some (if width = 0 then ''output_width'' else ''output_height'',
        ''Output width and height must both be zero or both be non-zero.'')
      else if max_width constraint \<noteq> 0 \<and> max_width constraint < width
      then Some (''output_width'', ''Requested width exceeds maximum supported width.'')
      else if max_height constraint \<noteq> 0 \<and> max_height constraint < height
      then Some (''output_height'', ''Requested height exceeds maximum supported height.'')
      else if must_be_even constraint \<and> width \<noteq> 0 \<and> width mod 2 \<noteq> 0
      then Some (''output_width'', ''Width must be even when non-zero.'')
      else if must_be_even constraint \<and> height \<noteq> 0 \<and> height mod 2 \<noteq> 0
      then Some (''output_height'', ''Height must be even when non-zero.'')
      else None)"

definition ValidateResolution :: "CapabilitySet \<Rightarrow> UserRecorderConfig \<Rightarrow> ResolveResult \<Rightarrow> bool \<times> ResolveResult" where
  "ValidateResolution caps cfg r =
     (case resolution_complaint (resolution_constraint caps) cfg of
        None \<Rightarrow> (True, r)
      | Some (field, message) \<Rightarrow> (False, AddInvalid field message r))"

definition FinalizeSelectableResult :: "CapabilitySet \<Rightarrow> string \<Rightarrow> ResolveResult \<Rightarrow> ResolveResult" where
  "FinalizeSelectableResult caps field r =
     (let (ok, r) = ValidateResolution caps (resolved_config r) r;
          combo = QueryResolvedCombo caps (resolved_config r) in
      if \<not> ok then r
      else if \<not> IsSelectable combo
      then AddInvalid field (or_message (reason combo) ''The requested configuration is not selectable.'') r
      else AddWarningForUnvalidated combo (r\<lparr>rr_succeeded := True\<rparr>))"

section \<open>Fallbacks\<close>

text \<open>An early return with the reason is on the left. \<open>combo\<close> is queried again after each change.\<close>

definition fall_back_chroma :: "CapabilitySet \<Rightarrow> ResolveResult \<Rightarrow> ResolveResult + ResolveResult" where
  "fall_back_chroma caps r =
     (let cfg = resolved_config r in
      if \<not> IsSelectable (QueryResolvedCombo caps cfg) \<and> u_chroma cfg \<noteq> Cs420
      then if \<not> IsSelectable (QueryChroma caps Cs420)
           then Inl (AddInvalid ''chroma'' ''Fallback chroma 4:2:0 is not selectable.'' r)
           else Inr ((AddAdjustment ''chroma'' (chroma_name (u_chroma cfg)) (chroma_name Cs420)
             ''Adjusted to supported chroma for selected video codec.'' r)\<lparr>resolved_config := cfg\<lparr>u_chroma := Cs420\<rparr>\<rparr>)
      else Inr r)"

definition fall_back_depth :: "CapabilitySet \<Rightarrow> ResolveResult \<Rightarrow> ResolveResult + ResolveResult" where
  "fall_back_depth caps r =
     (let cfg = resolved_config r in
      if \<not> IsSelectable (QueryResolvedCombo caps cfg) \<and> u_bit_depth cfg \<noteq> Bit8
      then if \<not> IsSelectable (QueryBitDepth caps Bit8)
           then Inl (AddInvalid ''bit_depth'' ''Fallback bit depth 8-bit is not selectable.'' r)
           else Inr ((AddAdjustment ''bit_depth'' (bit_depth_name (u_bit_depth cfg)) (bit_depth_name Bit8)
             ''Adjusted to supported bit depth for selected video codec.'' r)\<lparr>resolved_config := cfg\<lparr>u_bit_depth := Bit8\<rparr>\<rparr>)
      else Inr r)"

text \<open>A container first asks for its preferred audio codec, then for both preferred codecs.\<close>

definition change_container :: "CapabilitySet \<Rightarrow> ContainerC \<Rightarrow> ResolveResult \<Rightarrow> ResolveResult" where
  "change_container caps c r =
     (let cfg = resolved_config r;
          preferred_audio = PreferredAudioCodec c;
          preferred_video = PreferredVideoCodec c;
          audio_candidate = cfg\<lparr>u_audio_codec := preferred_audio\<rparr>;
          candidate = cfg\<lparr>u_video_codec := preferred_video, u_audio_codec := preferred_audio\<rparr>;
          audio_why = ''Adjusted audio codec to preferred for selected container.''
      in if IsSelectable (QueryResolvedCombo caps cfg) then FinalizeSelectableResult caps ''container'' r
      else if u_audio_codec cfg \<noteq> preferred_audio \<and> IsSelectable (QueryResolvedCombo caps audio_candidate)
      then FinalizeSelectableResult caps ''container''
             ((AddAdjustment ''audio_codec'' (audio_codec_name (u_audio_codec cfg)) (audio_codec_name preferred_audio)
                ''Adjusted to preferred codec for selected container.'' r)\<lparr>resolved_config := audio_candidate\<rparr>)
      else if u_video_codec cfg \<noteq> preferred_video \<and> IsSelectable (QueryResolvedCombo caps candidate)
      then let r = AddAdjustment ''video_codec'' (video_codec_name (u_video_codec cfg)) (video_codec_name preferred_video)
                     ''Adjusted video codec to preferred for selected container.'' r;
               r = (if u_audio_codec cfg \<noteq> preferred_audio
                    then AddAdjustment ''audio_codec'' (audio_codec_name (u_audio_codec cfg))
                      (audio_codec_name preferred_audio) audio_why r
                    else r)
           in FinalizeSelectableResult caps ''container'' (r\<lparr>resolved_config := candidate\<rparr>)
      else AddInvalid ''container'' ''Container requires codec fallback, but no selectable combination was found.'' r)"

definition change_video :: "CapabilitySet \<Rightarrow> ResolveResult \<Rightarrow> ResolveResult" where
  "change_video caps r =
     (case fall_back_chroma caps r of
        Inl r \<Rightarrow> r
      | Inr r \<Rightarrow> (case fall_back_depth caps r of
          Inl r \<Rightarrow> r
        | Inr r \<Rightarrow>
            (let combo = QueryResolvedCombo caps (resolved_config r);
                 (ok, checked) = ValidateResolution caps (resolved_config r) r in
             if \<not> IsSelectable combo
             then AddInvalid ''video_codec''
               (or_message (reason combo) ''Requested video codec combination is not selectable.'') r
             else if \<not> ok then checked
             else AddWarningForUnvalidated combo (checked\<lparr>rr_succeeded := True\<rparr>))))"

definition apply_change :: "RequestedChange \<Rightarrow> UserRecorderConfig \<Rightarrow> UserRecorderConfig" where
  "apply_change change cfg = (case change of
       ForContainer c \<Rightarrow> cfg\<lparr>u_container := c\<rparr>
     | ForVideoCodec v \<Rightarrow> cfg\<lparr>u_video_codec := v\<rparr>
     | ForAudioCodec a \<Rightarrow> cfg\<lparr>u_audio_codec := a\<rparr>
     | ForChroma cs \<Rightarrow> cfg\<lparr>u_chroma := cs\<rparr>
     | ForBitDepth bd \<Rightarrow> cfg\<lparr>u_bit_depth := bd\<rparr>
     | ForResolution w h \<Rightarrow> cfg\<lparr>u_output_width := w, u_output_height := h\<rparr>)"

definition ResolveChange :: "CapabilitySet \<Rightarrow> UserRecorderConfig \<Rightarrow> RequestedChange \<Rightarrow> ResolveResult" where
  "ResolveChange caps current change =
     (let r = result_for (apply_change change current) in
      case change of
        ForContainer c \<Rightarrow> change_container caps c r
      | ForVideoCodec v \<Rightarrow> change_video caps r
      | ForAudioCodec a \<Rightarrow> FinalizeSelectableResult caps ''audio_codec'' r
      | ForChroma cs \<Rightarrow> FinalizeSelectableResult caps ''chroma'' r
      | ForBitDepth bd \<Rightarrow> FinalizeSelectableResult caps ''bit_depth'' r
      | ForResolution w h \<Rightarrow> FinalizeSelectableResult caps ''resolution'' r)"

section \<open>Validation of a configuration\<close>

text \<open>The audio fallback works on a candidate of its own, with the chroma and the bit depth it may
  have to lower; nothing of it is kept unless the candidate is selectable.\<close>

definition candidate_chroma :: "CapabilitySet \<Rightarrow> UserRecorderConfig \<Rightarrow> UserRecorderConfig option" where
  "candidate_chroma caps candidate =
     (if \<not> IsSelectable (QueryResolvedCombo caps candidate) \<and> u_chroma candidate \<noteq> Cs420
      then if IsSelectable (QueryChroma caps Cs420) then Some (candidate\<lparr>u_chroma := Cs420\<rparr>) else None
      else Some candidate)"

definition candidate_depth :: "CapabilitySet \<Rightarrow> UserRecorderConfig \<Rightarrow> UserRecorderConfig option" where
  "candidate_depth caps candidate =
     (if \<not> IsSelectable (QueryResolvedCombo caps candidate) \<and> u_bit_depth candidate \<noteq> Bit8
      then if IsSelectable (QueryBitDepth caps Bit8) then Some (candidate\<lparr>u_bit_depth := Bit8\<rparr>) else None
      else Some candidate)"

definition accept_candidate :: "UserRecorderConfig \<Rightarrow> ResolveResult \<Rightarrow> ResolveResult" where
  "accept_candidate candidate r =
     (let cfg = resolved_config r;
          r = AddAdjustment ''audio_codec'' (audio_codec_name (u_audio_codec cfg))
                (audio_codec_name (u_audio_codec candidate)) ''Adjusted to preferred codec for selected container.'' r;
          r = (if u_chroma candidate \<noteq> u_chroma cfg
               then AddAdjustment ''chroma'' (chroma_name (u_chroma cfg)) (chroma_name Cs420)
                 ''Adjusted to supported chroma while validating profile.'' r
               else r);
          r = (if u_bit_depth candidate \<noteq> u_bit_depth cfg
               then AddAdjustment ''bit_depth'' (bit_depth_name (u_bit_depth cfg)) (bit_depth_name Bit8)
                 ''Adjusted to supported bit depth while validating profile.'' r
               else r)
      in r\<lparr>resolved_config := candidate\<rparr>)"

definition fall_back_audio :: "CapabilitySet \<Rightarrow> ResolveResult \<Rightarrow> ResolveResult + ResolveResult" where
  "fall_back_audio caps r =
     (let cfg = resolved_config r;
          v_ann = QueryVideoCodec caps (u_video_codec cfg);
          preferred = PreferredAudioCodec (u_container cfg)
      in if IsSelectable (QueryResolvedCombo caps cfg) then Inr r
      else if \<not> IsSelectable v_ann
      then Inl (AddInvalid ''video_codec''
        (or_message (reason v_ann) ''Selected video codec is not available on this system.'') r)
      else if u_audio_codec cfg = preferred then Inr r
      else case candidate_chroma caps (cfg\<lparr>u_audio_codec := preferred\<rparr>) of
        None \<Rightarrow> Inl (AddInvalid ''chroma'' ''Fallback chroma 4:2:0 is not selectable.'' r)
      | Some candidate \<Rightarrow> (case candidate_depth caps candidate of
          None \<Rightarrow> Inl (AddInvalid ''bit_depth'' ''Fallback bit depth 8-bit is not selectable.'' r)
        | Some candidate \<Rightarrow>
            if IsSelectable (QueryResolvedCombo caps candidate) then Inr (accept_candidate candidate r)
            else Inl (AddInvalid ''audio_codec''
              (''Container requires audio fallback, but preferred codec is not selectable: '' @
               reason (QueryResolvedCombo caps candidate)) r)))"

definition ValidateConfig :: "CapabilitySet \<Rightarrow> UserRecorderConfig \<Rightarrow> ResolveResult" where
  "ValidateConfig caps cfg =
     (let (ok, r) = ValidateResolution caps cfg (result_for cfg) in
      if \<not> ok then r
      else case fall_back_audio caps r of
        Inl r \<Rightarrow> r
      | Inr r \<Rightarrow> (case fall_back_chroma caps r of
          Inl r \<Rightarrow> r
        | Inr r \<Rightarrow> (case fall_back_depth caps r of
            Inl r \<Rightarrow> r
          | Inr r \<Rightarrow>
              (let combo = QueryResolvedCombo caps (resolved_config r) in
               if \<not> IsSelectable combo
               then AddInvalid ''config'' (or_message (reason combo) ''Configuration is not selectable.'') r
               else AddWarningForUnvalidated combo (r\<lparr>rr_succeeded := True\<rparr>)))))"

section \<open>Reconciliation without capabilities\<close>

definition CodecSupports10Bit :: "VideoCodecC \<Rightarrow> bool" where
  "CodecSupports10Bit v \<longleftrightarrow> v = HevcC \<or> v = Av1C"

definition CodecSupportsChroma444 :: "VideoCodecC \<Rightarrow> bool" where
  "CodecSupportsChroma444 v \<longleftrightarrow> v = H264C \<or> v = HevcC"

record OutputFormatRequest =
  q_container :: ContainerC
  q_video_codec :: VideoCodecC
  q_audio_codec :: AudioCodecC
  q_bit_depth :: BitDepthC
  q_chroma :: ChromaC
  q_cfr :: bool

record OutputFormatReconciliation =
  resolved :: OutputFormatRequest
  codecs_adjusted :: bool
  bit_depth_demoted :: bool
  chroma_snapped :: bool
  cfr_forced :: bool

definition ReconcileOutputFormat :: "OutputFormatRequest \<Rightarrow> OutputFormatReconciliation" where
  "ReconcileOutputFormat request =
     (let (v, a) = ReconcileCodecs (q_container request) (q_video_codec request, q_audio_codec request);
          adjusted = (v \<noteq> q_video_codec request \<or> a \<noteq> q_audio_codec request);
          request = request\<lparr>q_video_codec := v, q_audio_codec := a\<rparr>;
          demoted = (q_bit_depth request = Bit10 \<and> \<not> CodecSupports10Bit (q_video_codec request));
          request = (if demoted then request\<lparr>q_bit_depth := Bit8\<rparr> else request);
          snapped = (q_chroma request = Cs444 \<and>
            (\<not> CodecSupportsChroma444 (q_video_codec request) \<or> q_bit_depth request \<noteq> Bit8));
          request = (if snapped then request\<lparr>q_chroma := Cs420\<rparr> else request);
          forced = (q_container request = Mp4C \<and> \<not> q_cfr request);
          request = (if forced then request\<lparr>q_cfr := True\<rparr> else request)
      in \<lparr>resolved = request, codecs_adjusted = adjusted, bit_depth_demoted = demoted,
          chroma_snapped = snapped, cfr_forced = forced\<rparr>)"

section \<open>Options\<close>

record OptionEntry =
  opt_label :: string
  opt_level :: SupportLevel
  opt_selectable :: bool
  opt_reason :: string
  opt_warnings :: "Warning list"

definition BuildEntry :: "CapabilitySet \<Rightarrow> string \<Rightarrow> ResolveResult \<Rightarrow> OptionEntry" where
  "BuildEntry caps label preview =
     (let a = QueryResolvedCombo caps (resolved_config preview);
          why = (if \<not> rr_succeeded preview \<and> invalidity preview \<noteq> []
                 then inv_message (hd (invalidity preview)) else reason a)
      in \<lparr>opt_label = label, opt_level = level a, opt_selectable = rr_succeeded preview \<and> IsSelectable a,
          opt_reason = or_message why ''No annotation reason provided.'', opt_warnings = warnings preview\<rparr>)"

definition GetContainerOptions :: "CapabilitySet \<Rightarrow> UserRecorderConfig \<Rightarrow> OptionEntry list" where
  "GetContainerOptions caps cfg =
     map (\<lambda>c. BuildEntry caps (container_name c) (ResolveChange caps cfg (ForContainer c))) AllContainers"

definition GetVideoCodecOptions :: "CapabilitySet \<Rightarrow> UserRecorderConfig \<Rightarrow> OptionEntry list" where
  "GetVideoCodecOptions caps cfg =
     map (\<lambda>v. BuildEntry caps (video_codec_name v) (ResolveChange caps cfg (ForVideoCodec v))) AllVideoCodecs"

definition GetAudioCodecOptions :: "CapabilitySet \<Rightarrow> UserRecorderConfig \<Rightarrow> OptionEntry list" where
  "GetAudioCodecOptions caps cfg =
     map (\<lambda>a. BuildEntry caps (audio_codec_name a) (ResolveChange caps cfg (ForAudioCodec a))) AllAudioCodecs"

definition GetChromaOptions :: "CapabilitySet \<Rightarrow> UserRecorderConfig \<Rightarrow> OptionEntry list" where
  "GetChromaOptions caps cfg =
     map (\<lambda>cs. BuildEntry caps (chroma_name cs) (ResolveChange caps cfg (ForChroma cs))) AllChromaModes"

definition GetBitDepthOptions :: "CapabilitySet \<Rightarrow> UserRecorderConfig \<Rightarrow> OptionEntry list" where
  "GetBitDepthOptions caps cfg =
     map (\<lambda>bd. BuildEntry caps (bit_depth_name bd) (ResolveChange caps cfg (ForBitDepth bd))) AllBitDepths"

record BackendTuningControl =
  bt_backend :: string
  bt_key :: string
  bt_choices :: "(int \<times> string) list"

definition GetBackendTuningControls :: "CapabilitySet \<Rightarrow> BackendTuningControl list" where
  "GetBackendTuningControls caps =
     (if id_vendor_id (snap_adapter (runtime caps)) \<noteq> 0x10DE then []
      else [\<lparr>bt_backend = ''nvenc'', bt_key = ''preset'',
             bt_choices = map (\<lambda>i. (int i, ''P'' @ to_string (i + 1))) [0..<7]\<rparr>])"

end
