(* ===== verification/ResolverGuarantees.thy ===== *)
theory ResolverGuarantees
  imports Resolver
begin

text \<open>
  What the resolver promises: a successful answer is selectable and has a valid resolution, its
  adjustments are exactly the differences from what was asked, the asked value is kept, and validating
  the answer again changes nothing.
\<close>

section \<open>An explained answer\<close>

definition selectable_config :: "CapabilitySet \<Rightarrow> UserRecorderConfig \<Rightarrow> bool" where
  "selectable_config caps cfg \<longleftrightarrow> IsSelectable (QueryResolvedCombo caps cfg)"

definition resolution_ok :: "CapabilitySet \<Rightarrow> UserRecorderConfig \<Rightarrow> bool" where
  "resolution_ok caps cfg \<longleftrightarrow> resolution_complaint (resolution_constraint caps) cfg = None"

text \<open>The differences between two configurations, in the order in which the resolver reports them.\<close>

definition difference :: "string \<Rightarrow> ('k \<Rightarrow> string) \<Rightarrow> 'k \<Rightarrow> 'k \<Rightarrow> (string \<times> string \<times> string) list" where
  "difference field name_of x y = (if x = y then [] else [(field, name_of x, name_of y)])"

definition format_differences :: "UserRecorderConfig \<Rightarrow> UserRecorderConfig \<Rightarrow> (string \<times> string \<times> string) list" where
  "format_differences asked cfg =
     difference ''video_codec'' video_codec_name (u_video_codec asked) (u_video_codec cfg) @
     difference ''audio_codec'' audio_codec_name (u_audio_codec asked) (u_audio_codec cfg) @
     difference ''chroma'' chroma_name (u_chroma asked) (u_chroma cfg) @
     difference ''bit_depth'' bit_depth_name (u_bit_depth asked) (u_bit_depth cfg)"

definition changes :: "ResolveResult \<Rightarrow> (string \<times> string \<times> string) list" where
  "changes r = map (\<lambda>a. (adj_field a, adj_from a, adj_to a)) (adjustments r)"

text \<open>Only the codecs, the chroma mode and the bit depth are ever adjusted.\<close>

definition same_rest :: "UserRecorderConfig \<Rightarrow> UserRecorderConfig \<Rightarrow> bool" where
  "same_rest asked cfg \<longleftrightarrow> cfg = asked\<lparr>u_video_codec := u_video_codec cfg, u_audio_codec := u_audio_codec cfg,
     u_chroma := u_chroma cfg, u_bit_depth := u_bit_depth cfg\<rparr>"

definition explained :: "UserRecorderConfig \<Rightarrow> ResolveResult \<Rightarrow> bool" where
  "explained asked r \<longleftrightarrow>
     changes r = format_differences asked (resolved_config r) \<and> same_rest asked (resolved_config r)"

definition open_result :: "ResolveResult \<Rightarrow> bool" where
  "open_result r \<longleftrightarrow> \<not> rr_succeeded r \<and> invalidity r = [] \<and> warnings r = []"

definition unvalidated_warning :: "SupportAnnotation \<Rightarrow> Warning list" where
  "unvalidated_warning a =
     (if level a = ValidUnvalidated
      then [\<lparr>warn_code = ''combo.valid_unvalidated'', warn_message =
        or_message (reason a) ''Selected combination is valid but not validated on this system.''\<rparr>]
      else [])"

definition settled :: "CapabilitySet \<Rightarrow> UserRecorderConfig \<Rightarrow> ResolveResult \<Rightarrow> bool" where
  "settled caps asked r \<longleftrightarrow> explained asked r \<and>
     (if rr_succeeded r
      then selectable_config caps (resolved_config r) \<and> resolution_ok caps (resolved_config r) \<and>
        invalidity r = [] \<and> warnings r = unvalidated_warning (QueryResolvedCombo caps (resolved_config r))
      else length (invalidity r) = 1 \<and> warnings r = [])"

section \<open>The steps\<close>

lemma difference_simps [simp]:
  "difference field nm x x = []" "x \<noteq> y \<Longrightarrow> difference field nm x y = [(field, nm x, nm y)]"
  by (simp_all add: difference_def)

lemma same_rest_iff:
  "same_rest asked cfg \<longleftrightarrow>
     u_container cfg = u_container asked \<and> u_color_range cfg = u_color_range asked \<and>
     u_output_width cfg = u_output_width asked \<and> u_output_height cfg = u_output_height asked \<and>
     u_frame_rate_num cfg = u_frame_rate_num asked \<and> u_frame_rate_den cfg = u_frame_rate_den asked \<and>
     u_frame_pacing cfg = u_frame_pacing asked \<and> u_hdr_mode cfg = u_hdr_mode asked"
  by (cases cfg; cases asked) (auto simp: same_rest_def)

lemma same_rest_refl [simp]: "same_rest cfg cfg"
  by (simp add: same_rest_iff)

lemma start_explained [simp]: "explained cfg (result_for cfg)" "open_result (result_for cfg)"
  "resolved_config (result_for cfg) = cfg"
  by (simp_all add: explained_def result_for_def changes_def format_differences_def same_rest_iff open_result_def)

lemma invalid_settles: "explained asked r \<Longrightarrow> open_result r \<Longrightarrow> settled caps asked (AddInvalid field message r)"
  by (simp add: settled_def AddInvalid_def explained_def changes_def open_result_def)

lemma validate_resolution_eq:
  "ValidateResolution caps cfg r =
     (if resolution_ok caps cfg then (True, r)
      else (False, case resolution_complaint (resolution_constraint caps) cfg of
        None \<Rightarrow> r | Some (field, message) \<Rightarrow> AddInvalid field message r))"
  by (auto simp: ValidateResolution_def resolution_ok_def split: option.split)

lemma complaint_settles:
  assumes "\<not> resolution_ok caps cfg" "explained asked r" "open_result r"
  shows "settled caps asked (case resolution_complaint (resolution_constraint caps) cfg of
    None \<Rightarrow> r | Some (field, message) \<Rightarrow> AddInvalid field message r)"
  using assms by (auto simp: resolution_ok_def intro: invalid_settles split: option.split)

lemma success_settles:
  assumes "explained asked r" "open_result r" "selectable_config caps (resolved_config r)"
    "resolution_ok caps (resolved_config r)"
  shows "settled caps asked
    (AddWarningForUnvalidated (QueryResolvedCombo caps (resolved_config r)) (r\<lparr>rr_succeeded := True\<rparr>))"
  using assms
  by (auto simp: settled_def AddWarningForUnvalidated_def explained_def changes_def open_result_def unvalidated_warning_def)

lemma keeps_config [simp]:
  "resolved_config (AddInvalid field message r) = resolved_config r"
  "resolved_config (AddWarningForUnvalidated a r) = resolved_config r"
  "resolved_config (AddAdjustment f x y why r) = resolved_config r"
  "rr_succeeded (AddWarningForUnvalidated a r) = rr_succeeded r"
  "rr_succeeded (AddInvalid field message r) = False"
  by (simp_all add: AddInvalid_def AddWarningForUnvalidated_def AddAdjustment_def)

lemma finalize_config [simp]: "resolved_config (FinalizeSelectableResult caps field r) = resolved_config r"
  by (auto simp: FinalizeSelectableResult_def validate_resolution_eq Let_def split: option.split)

lemma finalize_settles:
  "explained asked r \<Longrightarrow> open_result r \<Longrightarrow> settled caps asked (FinalizeSelectableResult caps field r)"
  using complaint_settles[of caps "resolved_config r" asked r] success_settles[of asked r caps]
    invalid_settles[of asked r]
  by (simp add: FinalizeSelectableResult_def validate_resolution_eq Let_def selectable_config_def)

text \<open>An adjustment is explained when the fields behind it in the order are still as asked.\<close>

lemma open_adjust [simp]: "open_result (AddAdjustment f x y why r) = open_result r"
  "open_result (r\<lparr>resolved_config := cfg\<rparr>) = open_result r"
  by (simp_all add: AddAdjustment_def open_result_def)

lemma changes_adjust [simp]:
  "changes (AddAdjustment f x y why r) = changes r @ [(f, x, y)]"
  "changes (r\<lparr>resolved_config := cfg\<rparr>) = changes r"
  by (simp_all add: AddAdjustment_def changes_def)

lemma fall_back_chroma_cases:
  assumes "explained asked r" "open_result r" "u_chroma (resolved_config r) = u_chroma asked"
    "u_bit_depth (resolved_config r) = u_bit_depth asked"
  shows "case fall_back_chroma caps r of
      Inl r' \<Rightarrow> settled caps asked r' \<and> resolved_config r' = resolved_config r \<and> \<not> rr_succeeded r'
    | Inr r' \<Rightarrow> explained asked r' \<and> open_result r' \<and> u_bit_depth (resolved_config r') = u_bit_depth asked \<and>
        u_video_codec (resolved_config r') = u_video_codec (resolved_config r)"
  using assms invalid_settles[OF assms(1,2)]
  by (auto simp: fall_back_chroma_def Let_def explained_def format_differences_def same_rest_iff)

lemma fall_back_depth_cases:
  assumes "explained asked r" "open_result r" "u_bit_depth (resolved_config r) = u_bit_depth asked"
  shows "case fall_back_depth caps r of
      Inl r' \<Rightarrow> settled caps asked r' \<and> resolved_config r' = resolved_config r \<and> \<not> rr_succeeded r'
    | Inr r' \<Rightarrow> explained asked r' \<and> open_result r' \<and>
        u_video_codec (resolved_config r') = u_video_codec (resolved_config r)"
  using assms invalid_settles[OF assms(1,2)]
  by (auto simp: fall_back_depth_def Let_def explained_def format_differences_def same_rest_iff)

lemma no_fall_back [simp]:
  "selectable_config caps (resolved_config r) \<Longrightarrow> fall_back_chroma caps r = Inr r"
  "selectable_config caps (resolved_config r) \<Longrightarrow> fall_back_depth caps r = Inr r"
  "selectable_config caps (resolved_config r) \<Longrightarrow> fall_back_audio caps r = Inr r"
  by (simp_all add: fall_back_chroma_def fall_back_depth_def fall_back_audio_def Let_def selectable_config_def)

section \<open>A change\<close>

lemma change_container_settles:
  assumes "explained asked r" "open_result r" "resolved_config r = asked"
  shows "settled caps asked (change_container caps c r)"
  using assms
  by (auto simp: change_container_def Let_def intro!: finalize_settles invalid_settles)
     (simp_all add: explained_def format_differences_def same_rest_iff)

lemma change_video_settles:
  assumes "explained asked r" "open_result r" "resolved_config r = asked"
  shows "settled caps asked (change_video caps r)"
    and "u_video_codec (resolved_config (change_video caps r)) = u_video_codec asked"
proof -
  have "settled caps asked (change_video caps r) \<and>
    u_video_codec (resolved_config (change_video caps r)) = u_video_codec asked"
  proof (cases "fall_back_chroma caps r")
    case (Inl r')
    then show ?thesis
      using fall_back_chroma_cases[OF assms(1,2), of caps] assms(3) by (simp add: change_video_def)
  next
    case (Inr r')
    have r': "explained asked r'" "open_result r'" "u_bit_depth (resolved_config r') = u_bit_depth asked"
      "u_video_codec (resolved_config r') = u_video_codec asked"
      using Inr fall_back_chroma_cases[OF assms(1,2), of caps] assms(3) by simp_all
    show ?thesis
    proof (cases "fall_back_depth caps r'")
      case Inl2: (Inl r2)
      then show ?thesis
        using Inr fall_back_depth_cases[OF r'(1-3), of caps] r'(4) by (simp add: change_video_def)
    next
      case Inr2: (Inr r2)
      have r2: "explained asked r2" "open_result r2" "u_video_codec (resolved_config r2) = u_video_codec asked"
        using Inr2 fall_back_depth_cases[OF r'(1-3), of caps] r'(4) by simp_all
      then show ?thesis
        using Inr Inr2 complaint_settles[OF _ r2(1,2), of caps "resolved_config r2"]
          success_settles[OF r2(1,2), of caps] invalid_settles[OF r2(1,2), of caps]
        by (auto simp: change_video_def Let_def validate_resolution_eq selectable_config_def split: option.split)
    qed
  qed
  then show "settled caps asked (change_video caps r)"
    and "u_video_codec (resolved_config (change_video caps r)) = u_video_codec asked"
    by simp_all
qed

lemma change_settles: "settled caps (apply_change change current) (ResolveChange caps current change)"
  by (cases change)
     (simp_all add: ResolveChange_def change_container_settles change_video_settles finalize_settles)

lemma settled_same_rest: "settled caps asked r \<Longrightarrow> same_rest asked (resolved_config r)"
  by (simp add: settled_def explained_def)

text \<open>The value asked for is in the answer.\<close>

lemma change_kept:
  "apply_change change (resolved_config (ResolveChange caps current change)) =
     resolved_config (ResolveChange caps current change)"
proof (cases change)
  case (ForContainer c)
  have "same_rest (apply_change change current) (resolved_config (ResolveChange caps current change))"
    by (rule settled_same_rest[OF change_settles])
  then show ?thesis
    using ForContainer by (simp add: same_rest_iff apply_change_def)
next
  case (ForVideoCodec v)
  have "u_video_codec (resolved_config (ResolveChange caps current change)) = v"
    using ForVideoCodec change_video_settles(2)[of "apply_change change current" "result_for (apply_change change current)"]
    by (simp add: ResolveChange_def apply_change_def)
  then show ?thesis
    using ForVideoCodec by (simp add: apply_change_def)
qed (simp_all add: ResolveChange_def apply_change_def)

section \<open>Validation\<close>

lemma validate_accepts:
  assumes "selectable_config caps cfg" "resolution_ok caps cfg"
  shows "ValidateConfig caps cfg =
    AddWarningForUnvalidated (QueryResolvedCombo caps cfg) ((result_for cfg)\<lparr>rr_succeeded := True\<rparr>)"
  using assms by (simp add: ValidateConfig_def validate_resolution_eq) (simp add: selectable_config_def)

lemma candidate_steps:
  "candidate_chroma caps cfg = Some cfg' \<Longrightarrow> same_rest cfg cfg' \<and> u_video_codec cfg' = u_video_codec cfg \<and>
     u_audio_codec cfg' = u_audio_codec cfg \<and> u_bit_depth cfg' = u_bit_depth cfg \<and> u_chroma cfg' \<in> {u_chroma cfg, Cs420}"
  "candidate_depth caps cfg = Some cfg' \<Longrightarrow> same_rest cfg cfg' \<and> u_video_codec cfg' = u_video_codec cfg \<and>
     u_audio_codec cfg' = u_audio_codec cfg \<and> u_chroma cfg' = u_chroma cfg \<and> u_bit_depth cfg' \<in> {u_bit_depth cfg, Bit8}"
  by (auto simp: candidate_chroma_def candidate_depth_def same_rest_iff split: if_splits)

lemma accept_explained:
  assumes "explained asked r" "resolved_config r = asked" "same_rest asked candidate"
    "u_video_codec candidate = u_video_codec asked" "u_audio_codec candidate \<noteq> u_audio_codec asked"
    "u_chroma candidate \<in> {u_chroma asked, Cs420}" "u_bit_depth candidate \<in> {u_bit_depth asked, Bit8}"
  shows "explained asked (accept_candidate candidate r)"
  using assms by (auto simp: accept_candidate_def Let_def explained_def format_differences_def same_rest_iff)

lemma accept_open [simp]: "open_result (accept_candidate candidate r) = open_result r"
  "resolved_config (accept_candidate candidate r) = candidate"
  by (simp_all add: accept_candidate_def Let_def)

lemma fall_back_audio_cases:
  assumes "explained asked r" "open_result r" "resolved_config r = asked"
  shows "case fall_back_audio caps r of
      Inl r' \<Rightarrow> settled caps asked r' \<and> resolved_config r' = asked
    | Inr r' \<Rightarrow> explained asked r' \<and> open_result r' \<and> same_rest asked (resolved_config r') \<and>
        (r' = r \<or> selectable_config caps (resolved_config r'))"
proof -
  have candidate: "explained asked (accept_candidate y r) \<and> same_rest asked y"
    if "candidate_chroma caps (asked\<lparr>u_audio_codec := p\<rparr>) = Some x" "candidate_depth caps x = Some y"
      "u_audio_codec asked \<noteq> p" for p x y
    using candidate_steps(1)[OF that(1)] candidate_steps(2)[OF that(2)] that(3) assms
    by (auto intro!: accept_explained simp: same_rest_iff)
  show ?thesis
    using assms invalid_settles[OF assms(1,2), of caps]
    by (auto simp: fall_back_audio_def Let_def selectable_config_def candidate split: option.split)
qed

lemma validate_settles: "settled caps cfg (ValidateConfig caps cfg)"
proof (cases "resolution_ok caps cfg")
  case False
  then show ?thesis
    using complaint_settles[OF False start_explained(1,2)] by (simp add: ValidateConfig_def validate_resolution_eq)
next
  case True
  let ?r = "result_for cfg"
  note audio = fall_back_audio_cases[OF start_explained(1,2,3), of caps cfg]
  have kept: "resolution_ok caps c" if "same_rest cfg c" for c
    using True that by (simp add: resolution_ok_def resolution_complaint_def same_rest_iff)
  show ?thesis
  proof (cases "fall_back_audio caps ?r")
    case (Inl r')
    then show ?thesis
      using audio True by (simp add: ValidateConfig_def validate_resolution_eq)
  next
    case (Inr r1)
    then consider "selectable_config caps (resolved_config r1)" | "r1 = ?r"
      using audio by auto
    then show ?thesis
    proof cases
      case 1
      then show ?thesis
        using Inr audio True kept success_settles[of cfg r1 caps]
        by (simp add: ValidateConfig_def validate_resolution_eq) (simp add: selectable_config_def)
    next
      case 2
      show ?thesis
      proof (cases "fall_back_chroma caps ?r")
        case Inl3: (Inl r3)
        then show ?thesis
          using Inr 2 fall_back_chroma_cases[of cfg ?r caps] True
          by (simp add: ValidateConfig_def validate_resolution_eq)
      next
        case Inr3: (Inr r3)
        have r3: "explained cfg r3" "open_result r3" "u_bit_depth (resolved_config r3) = u_bit_depth cfg"
          using Inr3 fall_back_chroma_cases[of cfg ?r caps] by simp_all
        show ?thesis
          using Inr 2 Inr3 True fall_back_depth_cases[OF r3, of caps] kept
            success_settles[of cfg _ caps] invalid_settles[of cfg _ caps]
          by (cases "fall_back_depth caps r3")
             (auto simp: ValidateConfig_def validate_resolution_eq Let_def selectable_config_def explained_def)
      qed
    qed
  qed
qed

lemma settled_success:
  assumes "settled caps asked r" "rr_succeeded r"
  shows "selectable_config caps (resolved_config r)" "resolution_ok caps (resolved_config r)"
  using assms by (simp_all add: settled_def)

text \<open>Validating a successful answer accepts it as it is.\<close>

lemma answer_validates:
  assumes "settled caps asked r" "rr_succeeded r"
  shows "ValidateConfig caps (resolved_config r) = r\<lparr>adjustments := []\<rparr>"
  using validate_accepts[OF settled_success[OF assms]] assms
  by (cases r)
     (auto simp: settled_def result_for_def AddWarningForUnvalidated_def unvalidated_warning_def)

section \<open>Options\<close>

lemma entry_selectable:
  "settled caps asked r \<Longrightarrow> opt_selectable (BuildEntry caps label r) = rr_succeeded r"
  by (auto simp: BuildEntry_def Let_def settled_def selectable_config_def)

end
