(* ===== verification/FormatTranslation.thy ===== *)
theory FormatTranslation
  imports ResolverGuarantees MuxThread
begin

text \<open>
  From the settings to the engine: the translation of a validated configuration
  (\<^verbatim>\<open>libs/capability/src/translation.cpp\<close>) and the engine's own check of what it is asked to record
  (\<^verbatim>\<open>RecorderSession::Validate\<close>, \<^verbatim>\<open>libs/engine/src/recorder_session.cpp\<close>). The last sections show that the
  three places that decide about formats agree.
\<close>

section \<open>The engine's configuration\<close>

datatype EngineChroma = Core420 | Core444
datatype EngineBitDepth = Core8 | Core10
datatype EngineColorRange = RangeUnspecified | RangeLimited | RangeFull
datatype CaptureKind = Monitor | Window

record CaptureRegion =
  reg_x :: int
  reg_y :: int
  reg_width :: int
  reg_height :: int

definition kMinDimension :: int where "kMinDimension = 64"

definition region_IsValid :: "CaptureRegion \<Rightarrow> bool" where
  "region_IsValid r \<longleftrightarrow> kMinDimension \<le> reg_width r \<and> kMinDimension \<le> reg_height r"

text \<open>What \<^verbatim>\<open>Validate\<close> reads of a configuration, and what the translation sets.\<close>

record 'f SessionConfig =
  sc_output_path :: string
  sc_target_kind :: CaptureKind
  sc_target_id :: u64
  sc_crop_region :: "CaptureRegion option"
  sc_container :: Container
  sc_video_codec :: VideoCodec
  sc_audio_codec :: AudioCodec
  sc_chroma :: EngineChroma
  sc_bit_depth :: EngineBitDepth
  sc_color_range :: EngineColorRange
  sc_color_bits :: u32
  sc_hdr_mode :: HdrMode
  sc_audio_sample_rate :: u32
  sc_audio_channels :: u32
  sc_audio_bit_depth :: u32
  sc_audio_pcm_float :: bool
  sc_flac_compression_level :: int
  sc_frame_rate_num :: u32
  sc_frame_rate_den :: u32
  sc_output_width :: u32
  sc_output_height :: u32
  sc_audio_track_plan :: "'f ResolvedAudioTrack list"
  sc_record_audio :: bool
  sc_audio_target_process_id :: "u32 option"

definition default_session_config :: "'f SessionConfig" where
  "default_session_config =
     \<lparr>sc_output_path = [], sc_target_kind = Monitor, sc_target_id = 0, sc_crop_region = None,
      sc_container = WebM, sc_video_codec = Av1, sc_audio_codec = CodecOpus, sc_chroma = Core420,
      sc_bit_depth = Core8, sc_color_range = RangeLimited, sc_color_bits = 8, sc_hdr_mode = TonemapSdr,
      sc_audio_sample_rate = 48000, sc_audio_channels = 2, sc_audio_bit_depth = 16, sc_audio_pcm_float = False,
      sc_flac_compression_level = 5, sc_frame_rate_num = 60, sc_frame_rate_den = 1, sc_output_width = 0,
      sc_output_height = 0, sc_audio_track_plan = [], sc_record_audio = True, sc_audio_target_process_id = None\<rparr>"

section \<open>Translation\<close>

definition bit_depth_ok :: "UserRecorderConfig \<Rightarrow> bool" where
  "bit_depth_ok cfg \<longleftrightarrow> u_bit_depth cfg = Bit8 \<or> (u_bit_depth cfg = Bit10 \<and> CodecSupports10Bit (u_video_codec cfg))"

definition chroma_ok :: "UserRecorderConfig \<Rightarrow> bool" where
  "chroma_ok cfg \<longleftrightarrow> u_chroma cfg = Cs420 \<or>
     (u_chroma cfg = Cs444 \<and> CodecSupportsChroma444 (u_video_codec cfg) \<and> u_bit_depth cfg = Bit8)"

text \<open>The allow-list, each entry with what the engine is given.\<close>

definition allow_list :: "((ContainerC \<times> VideoCodecC \<times> AudioCodecC) \<times> (Container \<times> VideoCodec \<times> AudioCodec)) list" where
  "allow_list =
     [((WebMC, Av1C, OpusC), (WebM, Av1, CodecOpus)),
      ((MatroskaC, Av1C, OpusC), (Matroska, Av1, CodecOpus)),
      ((MatroskaC, H264C, AacC), (Matroska, H264, CodecAac)),
      ((MatroskaC, H264C, OpusC), (Matroska, H264, CodecOpus)),
      ((MatroskaC, Av1C, PcmC), (Matroska, Av1, CodecPcm)),
      ((MatroskaC, H264C, PcmC), (Matroska, H264, CodecPcm)),
      ((MatroskaC, Av1C, FlacC), (Matroska, Av1, CodecFlac)),
      ((MatroskaC, H264C, FlacC), (Matroska, H264, CodecFlac)),
      ((MatroskaC, HevcC, AacC), (Matroska, Hevc, CodecAac)),
      ((MatroskaC, HevcC, OpusC), (Matroska, Hevc, CodecOpus)),
      ((MatroskaC, HevcC, PcmC), (Matroska, Hevc, CodecPcm)),
      ((MatroskaC, HevcC, FlacC), (Matroska, Hevc, CodecFlac)),
      ((Mp4C, H264C, AacC), (Mp4, H264, CodecAac)),
      ((Mp4C, HevcC, AacC), (Mp4, Hevc, CodecAac)),
      ((MatroskaC, Av1C, AacC), (Matroska, Av1, CodecAac))]"

definition translated_format :: "UserRecorderConfig \<Rightarrow> (Container \<times> VideoCodec \<times> AudioCodec) option" where
  "translated_format cfg =
     (if chroma_ok cfg \<and> bit_depth_ok cfg
      then map_of allow_list (u_container cfg, u_video_codec cfg, u_audio_codec cfg) else None)"

definition translation_message :: string where
  "translation_message =
     ''Only WebM+AV1+Opus, Matroska+AV1+(AAC|Opus|PCM|FLAC), Matroska+H264+(AAC|Opus|PCM|FLAC), '' @
     ''Matroska+HEVC+(AAC|Opus|PCM|FLAC), or MP4+(H264|HEVC)+AAC, with 4:2:0 8-bit '' @
     ''(or 10-bit with HEVC/AV1) or 4:4:4 8-bit with H.264/HEVC, '' @
     ''can be translated to recorder_core.''"

text \<open>The exception's message on the left; the second component is the validation handed back.\<close>

definition ToRecorderCoreConfig ::
    "UserRecorderConfig \<Rightarrow> CapabilitySet \<Rightarrow> (string + 'f SessionConfig) \<times> ResolveResult" where
  "ToRecorderCoreConfig config caps =
     (let r = ValidateConfig caps config;
          final_config = resolved_config r
      in if \<not> rr_succeeded r
      then (Inl (''Configuration validation failed.'' @
             (if invalidity r \<noteq> [] then '' '' @ inv_message (hd (invalidity r)) else [])), r)
      else case translated_format final_config of
        None \<Rightarrow> (Inl translation_message, AddInvalid ''translation'' translation_message r)
      | Some (c, v, a) \<Rightarrow>
          (Inr (default_session_config\<lparr>
             sc_chroma := (if u_chroma final_config = Cs444 then Core444 else Core420),
             sc_bit_depth := (if u_bit_depth final_config = Bit10 then Core10 else Core8),
             sc_color_range := (if u_color_range final_config = Limited then RangeLimited else RangeFull),
             sc_color_bits := (if u_bit_depth final_config = Bit10 then 10 else 8),
             sc_hdr_mode := u_hdr_mode final_config,
             sc_frame_rate_num := u_frame_rate_num final_config,
             sc_frame_rate_den := u_frame_rate_den final_config,
             sc_output_width := u_output_width final_config,
             sc_output_height := u_output_height final_config,
             sc_container := c, sc_video_codec := v, sc_audio_codec := a\<rparr>), r))"

section \<open>The engine's check\<close>

definition E_NOTIMPL :: u32 where "E_NOTIMPL = 0x80004001"
definition ERROR_PATH_NOT_FOUND :: u32 where "ERROR_PATH_NOT_FOUND = 3"

definition refuse :: "u32 \<Rightarrow> string \<Rightarrow> SessionFailure option" where
  "refuse code detail = Some \<lparr>error_code = code, error_phase = PhasePrepare, error_detail = detail\<rparr>"

fun first_refusal :: "SessionFailure option list \<Rightarrow> SessionFailure option" where
  "first_refusal [] = None"
| "first_refusal (Some f # rest) = Some f"
| "first_refusal (None # rest) = first_refusal rest"

definition path_refusal :: "(string \<Rightarrow> bool) \<Rightarrow> 'f SessionConfig \<Rightarrow> SessionFailure option" where
  "path_refusal dir_exists config =
     (let parent = path_parent (sc_output_path config) in
      if sc_output_path config = [] then refuse E_INVALIDARG ''output_path is empty''
      else if parent \<noteq> [] \<and> \<not> dir_exists parent
      then refuse (HRESULT_FROM_WIN32 ERROR_PATH_NOT_FOUND) (''output directory does not exist: '' @ parent)
      else None)"

definition video_refusal :: "'f SessionConfig \<Rightarrow> SessionFailure option" where
  "video_refusal config =
     (let v = sc_video_codec config in
      case sc_container config of
        Mp4 \<Rightarrow> if v \<noteq> H264 \<and> v \<noteq> Hevc
          then refuse E_NOTIMPL ''Container::Mp4 requires VideoCodec::H264 or VideoCodec::Hevc'' else None
      | WebM \<Rightarrow> if v \<noteq> Av1 then refuse E_NOTIMPL ''Container::WebM requires VideoCodec::Av1'' else None
      | Matroska \<Rightarrow> if v \<noteq> Av1 \<and> v \<noteq> H264 \<and> v \<noteq> Hevc
          then refuse E_NOTIMPL (''Container::Matroska requires VideoCodec::Av1, VideoCodec::H264, '' @ ''or VideoCodec::Hevc'')
          else None)"

definition audio_refusal :: "'f SessionConfig \<Rightarrow> SessionFailure option" where
  "audio_refusal config =
     (let c = sc_container config; a = sc_audio_codec config in
      if c = Mp4
      then if a \<noteq> CodecAac
           then refuse E_INVALIDARG (''Container::Mp4 requires AudioCodec::Aac; '' @
             ''PCM is deferred (ipcm sample entry, limited player support), '' @ ''Opus and FLAC are not valid for MP4'')
           else None
      else case a of
        CodecOpus \<Rightarrow> None
      | CodecAac \<Rightarrow> if c = WebM
          then refuse E_INVALIDARG ''AudioCodec::Aac is not valid for Container::WebM; use AudioCodec::Opus'' else None
      | CodecPcm \<Rightarrow> if c \<noteq> Matroska
          then refuse E_INVALIDARG (''AudioCodec::Pcm is only valid for Container::Matroska (MKV); '' @
            ''WebM and MP4 cannot carry PCM audio in this build'') else None
      | CodecFlac \<Rightarrow> if c \<noteq> Matroska
          then refuse E_INVALIDARG (''AudioCodec::Flac is only valid for Container::Matroska (MKV); '' @
            ''WebM and MP4 cannot carry A_FLAC in this build'') else None)"

definition audio_format_refusal :: "'f SessionConfig \<Rightarrow> SessionFailure option" where
  "audio_format_refusal config =
     (let a = sc_audio_codec config; rate = sc_audio_sample_rate config; depth = sc_audio_bit_depth config in
      if sc_audio_channels config \<noteq> 1 \<and> sc_audio_channels config \<noteq> 2
      then refuse E_INVALIDARG ''audio_channels must be 1 (mono) or 2 (stereo)''
      else if rate \<noteq> 44100 \<and> rate \<noteq> 48000 \<and> rate \<noteq> 96000
      then refuse E_INVALIDARG ''audio_sample_rate must be 44100, 48000, or 96000 Hz''
      else if a = CodecOpus \<and> rate \<noteq> 48000
      then refuse E_INVALIDARG ''AudioCodec::Opus requires audio_sample_rate == 48000 Hz''
      else if a = CodecPcm \<and> depth \<noteq> 16 \<and> depth \<noteq> 24 \<and> depth \<noteq> 32
      then refuse E_INVALIDARG ''AudioCodec::Pcm requires audio_bit_depth in {16, 24, 32}''
      else if a = CodecFlac \<and> depth \<noteq> 16 \<and> depth \<noteq> 24
      then refuse E_INVALIDARG ''AudioCodec::Flac requires audio_bit_depth in {16, 24}''
      else if a = CodecFlac \<and> (sc_flac_compression_level config < 0 \<or> 8 < sc_flac_compression_level config)
      then refuse E_INVALIDARG ''flac_compression_level must be in [0, 8]''
      else if sc_audio_pcm_float config \<and> a \<noteq> CodecPcm
      then refuse E_INVALIDARG ''audio_pcm_float requires AudioCodec::Pcm''
      else if sc_audio_pcm_float config \<and> depth \<noteq> 32
      then refuse E_INVALIDARG ''audio_pcm_float requires audio_bit_depth == 32''
      else None)"

definition picture_refusal :: "'f SessionConfig \<Rightarrow> SessionFailure option" where
  "picture_refusal config =
     (let v = sc_video_codec config in
      if sc_chroma config = Core444 \<and> v \<noteq> H264 \<and> v \<noteq> Hevc
      then refuse E_NOTIMPL (''ChromaSubsampling::Cs444 requires VideoCodec::H264 or VideoCodec::Hevc '' @ ''(AV1 NVENC is 4:2:0 only)'')
      else if sc_chroma config = Core444 \<and> sc_bit_depth config \<noteq> Core8
      then refuse E_NOTIMPL ''ChromaSubsampling::Cs444 is 8-bit only''
      else if sc_bit_depth config = Core10 \<and> v \<noteq> Hevc \<and> v \<noteq> Av1
      then refuse E_NOTIMPL (''BitDepth::Bit10 requires VideoCodec::Hevc or VideoCodec::Av1 '' @ ''(H.264 is 8-bit only)'')
      else None)"

definition IsEncoderAlignedSize :: "u32 \<Rightarrow> u32 \<Rightarrow> bool" where
  "IsEncoderAlignedSize w h \<longleftrightarrow> 2 \<le> w \<and> 2 \<le> h \<and> w mod 2 = 0 \<and> h mod 2 = 0"

definition geometry_refusal :: "'f SessionConfig \<Rightarrow> SessionFailure option" where
  "geometry_refusal config =
     (let w = sc_output_width config; h = sc_output_height config in
      if sc_frame_rate_num config = 0 \<or> sc_frame_rate_den config = 0
      then refuse E_INVALIDARG ''frame_rate_num and frame_rate_den must be non-zero''
      else if (w = 0) \<noteq> (h = 0)
      then refuse E_INVALIDARG ''output_width and output_height must both be zero or both be non-zero''
      else if (w \<noteq> 0 \<or> h \<noteq> 0) \<and> \<not> IsEncoderAlignedSize w h
      then refuse E_INVALIDARG ''output_width and output_height must be positive even encoder dimensions''
      else None)"

definition kMissingAudioTargetProcess :: string where
  "kMissingAudioTargetProcess =
     ''Application audio needs a window that is still running. The selected window is gone, '' @
     ''or no window was resolved. Choose the capture source again.''"

definition needs_process :: "AudioSourceKind \<Rightarrow> bool" where
  "needs_process k \<longleftrightarrow> k = SourceApp \<or> k = SourceSys"

definition no_process :: "'f SessionConfig \<Rightarrow> bool" where
  "no_process config \<longleftrightarrow> sc_audio_target_process_id config = None \<or> sc_audio_target_process_id config = Some 0"

definition track_refusal :: "'f SessionConfig \<Rightarrow> 'f ResolvedAudioTrack \<Rightarrow> SessionFailure option" where
  "track_refusal config t =
     (if length (sources t) < 1 \<or> 3 < length (sources t)
      then refuse E_NOTIMPL ''Audio tracks must contain between 1 and 3 sources.''
      else if list_ex needs_process (sources t) \<and> no_process config
      then refuse E_INVALIDARG kMissingAudioTargetProcess
      else None)"

definition tracks_refusal :: "'f SessionConfig \<Rightarrow> SessionFailure option" where
  "tracks_refusal config =
     (let tracks = sc_audio_track_plan config;
          bad_indices = DescribeInvalidTrackIndices tracks kMaxAudioTracks
      in if \<not> sc_record_audio config then None
      else if kMaxAudioTracks < length tracks
      then refuse E_INVALIDARG ''audio_track_plan: max 3 audio tracks supported''
      else if bad_indices \<noteq> [] then refuse E_INVALIDARG bad_indices
      else first_refusal (map (track_refusal config) tracks))"

definition int_to_string :: "int \<Rightarrow> string" where
  "int_to_string i = (if i < 0 then ''-'' @ to_string (nat (- i)) else to_string (nat i))"

definition target_refusal :: "'f SessionConfig \<Rightarrow> SessionFailure option" where
  "target_refusal config =
     (if sc_target_kind config = Monitor \<and> sc_target_id config = 0
      then refuse E_INVALIDARG ''CaptureTarget::Kind::Monitor requires a non-zero native_id''
      else if sc_target_kind config = Window \<and> sc_target_id config = 0
      then refuse E_INVALIDARG ''CaptureTarget::Kind::Window requires a non-zero native_id''
      else case sc_crop_region config of
        None \<Rightarrow> None
      | Some r \<Rightarrow>
          if sc_target_kind config \<noteq> Monitor
          then refuse E_INVALIDARG ''crop_region requires CaptureTarget::Kind::Monitor''
          else if \<not> region_IsValid r
          then refuse E_INVALIDARG (''crop_region dimensions too small: '' @ int_to_string (reg_width r) @ ''x'' @
            int_to_string (reg_height r) @ '' (minimum '' @ int_to_string kMinDimension @ ''x'' @
            int_to_string kMinDimension @ '')'')
          else None)"

text \<open>The first refusal in the order of the code; \<open>None\<close> is the answer that the configuration is valid.\<close>

definition Validate :: "(string \<Rightarrow> bool) \<Rightarrow> 'f SessionConfig \<Rightarrow> SessionFailure option" where
  "Validate dir_exists config =
     first_refusal [path_refusal dir_exists config, video_refusal config, audio_refusal config,
       audio_format_refusal config, picture_refusal config, geometry_refusal config, tracks_refusal config,
       target_refusal config]"

section \<open>The three gates agree\<close>

lemma first_refusal_None [simp]: "first_refusal fs = None \<longleftrightarrow> list_all (\<lambda>f. f = None) fs"
  by (induction fs rule: first_refusal.induct) simp_all

lemma refuse_simps [simp]: "refuse code detail \<noteq> None" "refuse code detail = None \<longleftrightarrow> False"
  by (simp_all add: refuse_def)

lemma working_level [simp]: "IsWorkingCombo l = IsContainerCompatSelectable l"
  by (simp add: IsWorkingCombo_def IsContainerCompatSelectable_def)

text \<open>Which combinations of codecs a container takes.\<close>

definition container_takes :: "ContainerC \<Rightarrow> VideoCodecC \<Rightarrow> AudioCodecC \<Rightarrow> bool" where
  "container_takes c v a \<longleftrightarrow> (case c of
       MatroskaC \<Rightarrow> True | Mp4C \<Rightarrow> v \<noteq> Av1C \<and> a = AacC | WebMC \<Rightarrow> v = Av1C \<and> a = OpusC)"

lemma registry_takes: "IsContainerCompatSelectable (compat_level (Query c v a)) \<longleftrightarrow> container_takes c v a"
  by (cases c; cases v; cases a; simp add: compat_levels container_takes_def IsContainerCompatSelectable_def)

definition core_container :: "ContainerC \<Rightarrow> Container" where
  "core_container c = (case c of MatroskaC \<Rightarrow> Matroska | Mp4C \<Rightarrow> Mp4 | WebMC \<Rightarrow> WebM)"

definition core_video :: "VideoCodecC \<Rightarrow> VideoCodec" where
  "core_video v = (case v of Av1C \<Rightarrow> Av1 | HevcC \<Rightarrow> Hevc | H264C \<Rightarrow> H264)"

definition core_audio :: "AudioCodecC \<Rightarrow> AudioCodec" where
  "core_audio a = (case a of OpusC \<Rightarrow> CodecOpus | AacC \<Rightarrow> CodecAac | PcmC \<Rightarrow> CodecPcm | FlacC \<Rightarrow> CodecFlac)"

lemma allow_list_takes:
  "map_of allow_list (c, v, a) =
     (if container_takes c v a then Some (core_container c, core_video v, core_audio a) else None)"
  by (cases c; cases v; cases a;
      simp add: allow_list_def container_takes_def core_container_def core_video_def core_audio_def)

lemma engine_takes:
  "video_refusal config = None \<and> audio_refusal config = None \<longleftrightarrow> container_takes c v a"
  if "sc_container config = core_container c" "sc_video_codec config = core_video v" "sc_audio_codec config = core_audio a"
  using that by (cases c; cases v; cases a;
      simp add: video_refusal_def audio_refusal_def Let_def container_takes_def core_container_def core_video_def core_audio_def)

definition picture_takes :: "VideoCodecC \<Rightarrow> ChromaC \<Rightarrow> BitDepthC \<Rightarrow> bool" where
  "picture_takes v cs bd \<longleftrightarrow> cs \<noteq> Cs422 \<and> (cs = Cs444 \<longrightarrow> v \<noteq> Av1C \<and> bd = Bit8) \<and> (bd = Bit10 \<longrightarrow> v \<noteq> H264C)"

lemma translation_picture:
  "chroma_ok cfg \<and> bit_depth_ok cfg \<longleftrightarrow> picture_takes (u_video_codec cfg) (u_chroma cfg) (u_bit_depth cfg)"
  by (cases "u_video_codec cfg"; cases "u_chroma cfg"; cases "u_bit_depth cfg";
      simp add: chroma_ok_def bit_depth_ok_def picture_takes_def CodecSupports10Bit_def CodecSupportsChroma444_def)

lemma static_takes: "static_ok c v a cs bd \<longleftrightarrow> container_takes c v a \<and> picture_takes v cs bd"
  by (auto simp: static_ok_def registry_takes picture_takes_def)

lemma translated_static:
  "translated_format cfg =
     (if static_ok (u_container cfg) (u_video_codec cfg) (u_audio_codec cfg) (u_chroma cfg) (u_bit_depth cfg)
      then Some (core_container (u_container cfg), core_video (u_video_codec cfg), core_audio (u_audio_codec cfg))
      else None)"
  by (auto simp: translated_format_def translation_picture[symmetric] allow_list_takes static_takes)

definition core_chroma :: "ChromaC \<Rightarrow> EngineChroma" where
  "core_chroma cs = (if cs = Cs444 then Core444 else Core420)"

definition core_depth :: "BitDepthC \<Rightarrow> EngineBitDepth" where
  "core_depth bd = (if bd = Bit10 then Core10 else Core8)"

lemma engine_picture:
  "picture_refusal config = None \<longleftrightarrow> picture_takes v cs bd"
  if "sc_video_codec config = core_video v" "sc_chroma config = core_chroma cs" "sc_bit_depth config = core_depth bd"
    "cs \<noteq> Cs422"
  using that by (cases v; cases cs; cases bd;
      simp add: picture_refusal_def Let_def picture_takes_def core_video_def core_chroma_def core_depth_def)

section \<open>Every accepted configuration translates\<close>

lemma effective_static:
  assumes "selectable_config (BuildEffectiveCapabilities snapshot) cfg"
  shows "static_ok (u_container cfg) (u_video_codec cfg) (u_audio_codec cfg) (u_chroma cfg) (u_bit_depth cfg)"
  using assms by (simp add: selectable_config_def QueryResolvedCombo_def effective_combo)

lemma even_aligned: "w mod 2 = 0" "w \<noteq> 0 \<Longrightarrow> 2 \<le> w" if "even w" for w :: u32
proof -
  show "w mod 2 = 0"
    using that by (simp add: even_iff_mod_2_eq_zero)
  show "2 \<le> w" if "w \<noteq> 0"
  proof (rule ccontr)
    assume "\<not> 2 \<le> w"
    then have "unat w < 2"
      by (simp add: word_le_nat_alt)
    moreover have "unat w \<noteq> 0"
      using \<open>w \<noteq> 0\<close> by (simp add: unat_eq_0)
    ultimately have "of_nat (unat w) = (1 :: u32)"
      by (simp add: less_2_cases_iff)
    then show False
      using \<open>even w\<close> by simp
  qed
qed

lemma resolution_geometry:
  assumes "resolution_ok caps cfg" "must_be_even (resolution_constraint caps)"
    "sc_frame_rate_num config = u_frame_rate_num cfg" "sc_frame_rate_den config = u_frame_rate_den cfg"
    "sc_output_width config = u_output_width cfg" "sc_output_height config = u_output_height cfg"
  shows "geometry_refusal config = None"
  using assms even_aligned[of "u_output_width cfg"] even_aligned[of "u_output_height cfg"]
  by (auto simp: resolution_ok_def resolution_complaint_def geometry_refusal_def Let_def IsEncoderAlignedSize_def
      split: if_splits)

lemma translation_accepts:
  fixes snapshot :: RuntimeCapabilitySnapshot
  defines "caps \<equiv> BuildEffectiveCapabilities snapshot"
  assumes "rr_succeeded (ValidateConfig caps cfg)"
  obtains config :: "'f SessionConfig" where "ToRecorderCoreConfig cfg caps = (Inr config, ValidateConfig caps cfg)"
    "sc_container config = core_container (u_container cfg)"
    "sc_video_codec config = core_video (u_video_codec (resolved_config (ValidateConfig caps cfg)))"
    "sc_audio_codec config = core_audio (u_audio_codec (resolved_config (ValidateConfig caps cfg)))"
    "sc_chroma config = core_chroma (u_chroma (resolved_config (ValidateConfig caps cfg)))"
    "sc_bit_depth config = core_depth (u_bit_depth (resolved_config (ValidateConfig caps cfg)))"
    "list_all (\<lambda>f. f = None) [video_refusal config, audio_refusal config, audio_format_refusal config,
       picture_refusal config, geometry_refusal config, tracks_refusal config]"
proof -
  let ?r = "ValidateConfig caps cfg"
  let ?c = "resolved_config ?r"
  have settled: "settled caps cfg ?r"
    by (rule validate_settles)
  have rest: "same_rest cfg ?c"
    by (rule settled_same_rest[OF settled])
  have static: "static_ok (u_container ?c) (u_video_codec ?c) (u_audio_codec ?c) (u_chroma ?c) (u_bit_depth ?c)"
    using settled_success(1)[OF settled assms(2)] effective_static unfolding caps_def by blast
  have resolution: "resolution_ok caps ?c" "must_be_even (resolution_constraint caps)"
    using settled_success(2)[OF settled assms(2)] by (simp_all add: caps_def default_resolution_constraint_def)
  define config :: "'f SessionConfig" where "config = (case fst (ToRecorderCoreConfig cfg caps) of Inr x \<Rightarrow> x)"
  have eq: "ToRecorderCoreConfig cfg caps = (Inr config, ?r)"
    and fields: "sc_container config = core_container (u_container ?c)" "sc_video_codec config = core_video (u_video_codec ?c)"
      "sc_audio_codec config = core_audio (u_audio_codec ?c)" "sc_chroma config = core_chroma (u_chroma ?c)"
      "sc_bit_depth config = core_depth (u_bit_depth ?c)"
      "sc_frame_rate_num config = u_frame_rate_num ?c" "sc_frame_rate_den config = u_frame_rate_den ?c"
      "sc_output_width config = u_output_width ?c" "sc_output_height config = u_output_height ?c"
      "sc_audio_sample_rate config = 48000" "sc_audio_channels config = 2" "sc_audio_bit_depth config = 16"
      "\<not> sc_audio_pcm_float config" "sc_flac_compression_level config = 5" "sc_audio_track_plan config = []"
    using assms(2) static
    by (simp_all add: config_def ToRecorderCoreConfig_def Let_def translated_static core_chroma_def core_depth_def
        default_session_config_def)
  have "video_refusal config = None \<and> audio_refusal config = None"
    using static engine_takes[OF fields(1-3)] by (simp add: static_takes)
  moreover have "picture_refusal config = None"
    using static engine_picture[OF fields(2,4,5)] by (simp add: static_takes picture_takes_def)
  moreover have "geometry_refusal config = None"
    by (rule resolution_geometry[OF resolution fields(6-9)])
  moreover have "audio_format_refusal config = None"
    using fields(10-14) by (simp add: audio_format_refusal_def Let_def)
  moreover have "tracks_refusal config = None"
    using fields(15) by (simp add: tracks_refusal_def Let_def DescribeInvalidTrackIndices_def)
  ultimately show thesis
    using that[OF eq _ fields(2-5)] fields(1) rest by (simp add: same_rest_iff)
qed

end
