(* ===== verification/AudioPlan.thy ===== *)
theory AudioPlan
  imports FormatTranslation
begin

text \<open>
  From the audio page to the engine (\<^verbatim>\<open>libs/capability/src/audio_ui_state.cpp\<close>): the plan of tracks with
  its encoding parameters and the preview of the tracks. The last section shows that the engine's
  check of a plan is never surprised by it.
\<close>

section \<open>State and plan\<close>

datatype MicChannelMode = MicAuto | PreserveStereo | MonoMix | LeftToStereo | RightToStereo
datatype OpusFrameDuration = Ms20 | Ms10 | Ms5 | Ms2_5
datatype CaptureTargetKind = WindowTarget | DisplayTarget

text \<open>The parameters that pass through unchanged.\<close>

record 'f AudioParameters =
  p_mic_channel_mode :: MicChannelMode
  p_mic_device_id :: "string option"
  p_mic_gain_linear :: 'f
  p_audio_bitrate_kbps :: u32
  p_opus_frame_duration :: OpusFrameDuration
  p_opus_complexity :: int
  p_limiter_enabled :: bool
  p_limiter_ceiling_db :: 'f
  p_clock_slaving_enabled :: bool
  p_mic_hpf_enabled :: bool
  p_mic_hpf_cutoff_hz :: 'f
  p_mic_gate_enabled :: bool
  p_mic_gate_threshold_db :: 'f
  p_mic_agc_enabled :: bool
  p_mic_agc_target_db :: 'f
  p_mic_rnnoise_enabled :: bool
  p_audio_sample_rate :: u32
  p_audio_channels :: u32
  p_audio_bit_depth :: u32
  p_audio_pcm_float :: bool
  p_flac_compression_level :: int

record 'f AudioUiState =
  ui_target_kind :: CaptureTargetKind
  ui_source_rows :: "'f AudioSourceRow list"
  ui_selected_window_pid :: "u32 option"
  ui_parameters :: "'f AudioParameters"

record 'f AudioPlanResult =
  ap_record_audio :: bool
  ap_plan :: "'f ResolvedAudioTrack list"
  ap_audio_target_process_id :: "u32 option"
  ap_parameters :: "'f AudioParameters"

definition row_on :: "AudioSourceKind list \<Rightarrow> 'f AudioSourceRow \<Rightarrow> bool" where
  "row_on kinds r \<longleftrightarrow> row_kind r \<in> set kinds \<and> row_enabled r"

definition IsAppEnabled :: "'f AudioUiState \<Rightarrow> bool" where
  "IsAppEnabled s = list_ex (row_on [SourceApp]) (ui_source_rows s)"

definition IsSysEnabled :: "'f AudioUiState \<Rightarrow> bool" where
  "IsSysEnabled s = list_ex (row_on [SourceSys, SourceSystemOutput]) (ui_source_rows s)"

definition IsMicEnabled :: "'f AudioUiState \<Rightarrow> bool" where
  "IsMicEnabled s = list_ex (row_on [SourceMic]) (ui_source_rows s)"

definition BuildAudioPlan :: "'f gain_model \<Rightarrow> 'f AudioUiState \<Rightarrow> 'f AudioPlanResult" where
  "BuildAudioPlan gm s =
     (let window_target = (ui_target_kind s = WindowTarget);
          plan = ResolveAudioTracks gm (NormalizeSourceRowsForTarget (ui_source_rows s) window_target);
          plan_needs_pid = list_ex (\<lambda>t. list_ex needs_process (sources t)) plan
      in \<lparr>ap_record_audio = (plan \<noteq> []), ap_plan = plan,
          ap_audio_target_process_id = (if window_target \<and> plan_needs_pid then ui_selected_window_pid s else None),
          ap_parameters = ui_parameters s\<rparr>)"

record AudioTrackPreview =
  pv_track_number :: u32
  pv_source_key :: string
  pv_display_label :: string

definition source_label :: "AudioSourceKind \<Rightarrow> string \<times> string" where
  "source_label k = (case k of
       SourceApp \<Rightarrow> (''app'', ''Application Audio'')
     | SourceSys \<Rightarrow> (''sys'', ''Other System Audio'')
     | SourceMic \<Rightarrow> (''mic'', ''Microphone'')
     | SourceSystemOutput \<Rightarrow> (''system_output'', ''System Audio''))"

definition preview_track :: "nat \<times> 'f ResolvedAudioTrack \<Rightarrow> AudioTrackPreview" where
  "preview_track it =
     (let (i, t) = it;
          (key, label) = (if 1 < length (sources t) then (''merged'', ''Mixed Audio'') else source_label (hd (sources t)))
      in \<lparr>pv_track_number = of_nat (i + 1), pv_source_key = key, pv_display_label = label\<rparr>)"

definition BuildAudioTrackPreview :: "'f AudioPlanResult \<Rightarrow> AudioTrackPreview list" where
  "BuildAudioTrackPreview r =
     (if \<not> ap_record_audio r then []
      else map preview_track (filter (\<lambda>(i, t). sources t \<noteq> []) (List.enumerate 0 (ap_plan r))))"

section \<open>The engine takes the plan\<close>

text \<open>The session configuration with the plan in it.\<close>

definition with_plan :: "'f AudioPlanResult \<Rightarrow> 'f SessionConfig \<Rightarrow> 'f SessionConfig" where
  "with_plan r config = config\<lparr>sc_record_audio := ap_record_audio r, sc_audio_track_plan := ap_plan r,
     sc_audio_target_process_id := ap_audio_target_process_id r,
     sc_audio_sample_rate := p_audio_sample_rate (ap_parameters r), sc_audio_channels := p_audio_channels (ap_parameters r),
     sc_audio_bit_depth := p_audio_bit_depth (ap_parameters r), sc_audio_pcm_float := p_audio_pcm_float (ap_parameters r),
     sc_flac_compression_level := p_flac_compression_level (ap_parameters r)\<rparr>"

lemma first_refusal_same:
  "set fs \<subseteq> {None, Some f} \<Longrightarrow> first_refusal fs = (if Some f \<in> set fs then Some f else None)"
  by (induction fs rule: first_refusal.induct) auto

lemma resolved_bounds:
  assumes "plan_ok tracks"
  shows "length tracks \<le> length (concat (map sources tracks))"
    and "t \<in> set tracks \<Longrightarrow> 1 \<le> length (sources t) \<and> length (sources t) \<le> length (concat (map sources tracks))"
proof -
  have nonempty: "1 \<le> length (sources t)" if "t \<in> set tracks" for t
    using assms that by (auto simp: plan_ok_def Suc_le_eq)
  then show "length tracks \<le> length (concat (map sources tracks))"
  proof (induction tracks)
    case (Cons t tracks)
    then have "1 \<le> length (sources t)" "length tracks \<le> length (concat (map sources tracks))"
      by simp_all
    then show ?case by simp
  qed simp
  show "1 \<le> length (sources t) \<and> length (sources t) \<le> length (concat (map sources tracks))" if "t \<in> set tracks"
    using nonempty[OF that] that by (auto simp: length_concat comp_def intro: member_le_sum_list)
qed

lemma resolved_plan:
  "plan_ok (ResolveAudioTracks gm rows)"
  "concat (map sources (ResolveAudioTracks gm rows)) = map row_kind (filter row_enabled rows)"
  using resolve_rows_plan [of "[]" gm rows] by (auto simp: ResolveAudioTracks_def plan_ok_def)

lemma plan_needs_process:
  fixes rows :: "'b AudioSourceRow list"
  shows "list_ex (\<lambda>t. list_ex needs_process (sources t)) (ResolveAudioTracks gm rows) \<longleftrightarrow>
     list_ex (row_on [SourceApp, SourceSys]) rows"
proof -
  have "list_ex (\<lambda>t. list_ex needs_process (sources t)) tracks = list_ex needs_process (concat (map sources tracks))"
    for tracks :: "'b ResolvedAudioTrack list"
    by (auto simp: list_ex_iff)
  from this[of "ResolveAudioTracks gm rows"] show ?thesis
    unfolding resolved_plan(2) by (auto simp: list_ex_iff row_on_def needs_process_def)
qed

lemma normalized_display:
  "\<not> list_ex (row_on [SourceApp, SourceSys]) (NormalizeSourceRowsForTarget rows False)"
  by (auto simp: list_ex_iff row_on_def dest: targets_without_a_window)

lemma plan_taken:
  fixes s :: "'f AudioUiState"
  defines "rows \<equiv> NormalizeSourceRowsForTarget (ui_source_rows s) (ui_target_kind s = WindowTarget)"
  assumes few: "length (filter row_enabled rows) \<le> kMaxAudioTracks"
  shows "tracks_refusal (with_plan (BuildAudioPlan gm s) config) =
    (if ui_target_kind s = WindowTarget \<and> list_ex (row_on [SourceApp, SourceSys]) (ui_source_rows s) \<and>
        (ui_selected_window_pid s = None \<or> ui_selected_window_pid s = Some 0)
     then refuse E_INVALIDARG kMissingAudioTargetProcess else None)"
proof -
  let ?plan = "ResolveAudioTracks gm rows"
  let ?config = "with_plan (BuildAudioPlan gm s) config"
  have plan: "sc_audio_track_plan ?config = ?plan" "sc_record_audio ?config \<longleftrightarrow> ?plan \<noteq> []"
    by (simp_all add: with_plan_def BuildAudioPlan_def Let_def rows_def)
  have pid: "sc_audio_target_process_id ?config = (if ui_target_kind s = WindowTarget \<and>
      list_ex (row_on [SourceApp, SourceSys]) rows then ui_selected_window_pid s else None)"
    by (simp add: with_plan_def BuildAudioPlan_def Let_def rows_def plan_needs_process)
  have bounds: "length ?plan \<le> kMaxAudioTracks"
    "t \<in> set ?plan \<Longrightarrow> 1 \<le> length (sources t) \<and> length (sources t) \<le> 3" for t
    using resolved_bounds[OF resolved_plan(1)[of gm rows]] few
    by (simp_all add: resolved_plan kMaxAudioTracks_def order_trans[of _ "length (filter row_enabled rows)"])
  have each: "track_refusal ?config t = (if list_ex needs_process (sources t) \<and> no_process ?config
      then refuse E_INVALIDARG kMissingAudioTargetProcess else None)" if "t \<in> set ?plan" for t
    using bounds(2)[OF that] by (auto simp: track_refusal_def)
  let ?all = "map (track_refusal ?config) ?plan"
  obtain f where f: "refuse E_INVALIDARG kMissingAudioTargetProcess = Some f"
    by (simp add: refuse_def)
  have "set ?all \<subseteq> {None, Some f}"
    using each f by auto
  moreover have "Some f \<in> set ?all \<longleftrightarrow> list_ex (row_on [SourceApp, SourceSys]) rows \<and> no_process ?config"
  proof -
    have "(\<exists>t \<in> set ?plan. list_ex needs_process (sources t)) \<longleftrightarrow> list_ex (row_on [SourceApp, SourceSys]) rows"
      by (simp only: plan_needs_process[of gm rows, symmetric] list_ex_iff[of "\<lambda>t. list_ex needs_process (sources t)"])
    then show ?thesis
      using each f by (auto simp: image_iff split: if_splits)
  qed
  ultimately have "first_refusal ?all = (if list_ex (row_on [SourceApp, SourceSys]) rows \<and> no_process ?config
      then refuse E_INVALIDARG kMissingAudioTargetProcess else None)"
    using first_refusal_same[of ?all f] f by simp
  moreover have "DescribeInvalidTrackIndices ?plan kMaxAudioTracks = []"
    by (rule plan_ok_accepted[OF resolved_plan(1) bounds(1)])
  ultimately have "tracks_refusal ?config = (if list_ex (row_on [SourceApp, SourceSys]) rows \<and> no_process ?config
      then refuse E_INVALIDARG kMissingAudioTargetProcess else None)"
    using plan bounds(1) plan_needs_process[of gm rows] by (auto simp: tracks_refusal_def Let_def)
  moreover have "ui_target_kind s \<noteq> WindowTarget \<Longrightarrow> \<not> list_ex (row_on [SourceApp, SourceSys]) rows"
    using normalized_display by (simp add: rows_def)
  moreover have "ui_target_kind s = WindowTarget \<Longrightarrow> rows = ui_source_rows s"
    by (simp add: rows_def NormalizeSourceRowsForTarget_def)
  ultimately show ?thesis
    using pid by (auto simp: no_process_def)
qed

end
