(* ===== verification/EncoderDevice.thy ===== *)
theory EncoderDevice
  imports ResolverGuarantees
begin

text \<open>
  Which adapter encodes: the preference and its checks (\<^verbatim>\<open>engine/encoder_device.h\<close>), the candidates, their
  resolution and the capability set of one adapter (\<^verbatim>\<open>encoder_device_resolver.cpp\<close>), and the resolution
  handed to a session (\<^verbatim>\<open>QuickApplication::resolveEncoderDeviceFor\<close>). Enumerating and probing the adapters
  (DXGI, NVENC) is outside; their results are arguments. A LUID is the 64-bit pattern of the packed value.
\<close>

section \<open>Adapters\<close>

datatype AdapterVendor = Nvidia | Amd | Intel | OtherVendor
datatype AdapterKind = Discrete | Integrated | UnknownKind
datatype EncoderBackend = NoBackend | Nvenc

record AdapterInfo =
  ad_name :: string
  ad_vendor :: AdapterVendor
  ad_kind :: AdapterKind
  ad_vendor_id :: u32
  ad_device_id :: u32
  ad_luid :: u64
  ad_dedicated_bytes :: u64
  ad_shared_bytes :: u64
  ad_subsystem_id :: u32

definition ClassifyVendor :: "u32 \<Rightarrow> AdapterVendor" where
  "ClassifyVendor i =
     (if i = 0x10DE then Nvidia else if i = 0x1002 \<or> i = 0x1022 then Amd else if i = 0x8086 then Intel else OtherVendor)"

definition PackAdapterLuid :: "u32 \<Rightarrow> u32 \<Rightarrow> u64" where
  "PackAdapterLuid high_part low_part = push_bit 32 (ucast high_part) OR ucast low_part"

definition ClassifyKind :: "u64 \<Rightarrow> u64 \<Rightarrow> AdapterKind" where
  "ClassifyKind dedicated shared_bytes =
     (if dedicated = 0 \<and> shared_bytes = 0 then UnknownKind
      else if 512 * 1024 * 1024 \<le> dedicated then Discrete else Integrated)"

record AdapterEncoderCapability =
  ac_probed :: bool
  ac_backend_label :: string
  ac_provenance :: string
  ac_h264 :: bool
  ac_hevc :: bool
  ac_av1 :: bool
  ac_yuv444_h264 :: bool
  ac_yuv444_hevc :: bool

definition EncoderBackendLabelForVendor :: "AdapterVendor \<Rightarrow> string" where
  "EncoderBackendLabelForVendor v = (if v = Nvidia then ''NVENC'' else [])"

definition ImplementedEncoderBackendForVendorId :: "u32 \<Rightarrow> EncoderBackend" where
  "ImplementedEncoderBackendForVendorId i = (if i = 0x10DE then Nvenc else NoBackend)"

section \<open>Preference and assignment\<close>

record EncoderDeviceFingerprint =
  fp_vendor_id :: u32
  fp_device_id :: u32
  fp_subsystem_id :: u32
  fp_name :: string

definition no_fingerprint :: EncoderDeviceFingerprint where
  "no_fingerprint = \<lparr>fp_vendor_id = 0, fp_device_id = 0, fp_subsystem_id = 0, fp_name = []\<rparr>"

definition SameHardwareIdentity :: "EncoderDeviceFingerprint \<Rightarrow> EncoderDeviceFingerprint \<Rightarrow> bool" where
  "SameHardwareIdentity a b \<longleftrightarrow>
     fp_vendor_id a = fp_vendor_id b \<and> fp_device_id a = fp_device_id b \<and> fp_subsystem_id a = fp_subsystem_id b"

datatype EncoderDevicePreference = Auto | Explicit EncoderDeviceFingerprint

record PipelineAdapterIdentity =
  pa_known :: bool
  pa_luid :: u64
  pa_vendor_id :: u32
  pa_backend :: EncoderBackend
  pa_device :: EncoderDeviceFingerprint

definition unknown_adapter :: PipelineAdapterIdentity where
  "unknown_adapter = \<lparr>pa_known = False, pa_luid = 0, pa_vendor_id = 0, pa_backend = NoBackend, pa_device = no_fingerprint\<rparr>"

record PipelineAdapterAssignment =
  as_capture :: PipelineAdapterIdentity
  as_processing :: PipelineAdapterIdentity
  as_encoder :: PipelineAdapterIdentity

datatype CaptureSurfaceTransport = TransportUnknown | SameAdapter | CrossAdapterUnsupported | CrossAdapterShared

definition CaptureSurfaceTransportFor ::
    "PipelineAdapterIdentity \<Rightarrow> PipelineAdapterIdentity \<Rightarrow> CaptureSurfaceTransport" where
  "CaptureSurfaceTransportFor capture processing =
     (if \<not> pa_known capture \<or> \<not> pa_known processing then TransportUnknown
      else if pa_luid capture = pa_luid processing then SameAdapter else CrossAdapterUnsupported)"

record PipelineAssignmentFacts =
  pf_assignment :: PipelineAdapterAssignment
  pf_processing_executable :: bool
  pf_processing_reason :: string
  pf_encoder_executable :: bool
  pf_encoder_reason :: string
  pf_transport :: CaptureSurfaceTransport

text \<open>A verdict with its reason, empty when it is positive.\<close>

type_synonym verdict = "bool \<times> string"

definition ValidatePipelineAssignment :: "PipelineAssignmentFacts \<Rightarrow> verdict" where
  "ValidatePipelineAssignment facts =
     (let a = pf_assignment facts in
      if \<not> pa_known (as_capture a) then (False, ''The capture adapter is not identified yet.'')
      else if \<not> pa_known (as_processing a) then (False, ''The selected processing device could not be resolved.'')
      else if \<not> pa_known (as_encoder a) then (False, ''The selected encoder device could not be resolved.'')
      else if pf_transport facts \<noteq> SameAdapter \<and> pf_transport facts \<noteq> CrossAdapterShared
      then (False, ''The selected processing device is on a different adapter than the capture source; '' @
                   ''cross-adapter transport is not implemented.'')
      else if \<not> pf_processing_executable facts
      then (False, or_message (pf_processing_reason facts) ''The selected processing device cannot run the pipeline.'')
      else if \<not> pf_encoder_executable facts
      then (False, or_message (pf_encoder_reason facts) ''The selected encoder device cannot execute the requested format.'')
      else (True, []))"

record ResolvedEncoderDevice =
  rd_valid :: bool
  rd_adapter_luid :: u64
  rd_vendor_id :: u32
  rd_backend :: EncoderBackend
  rd_device :: EncoderDeviceFingerprint
  rd_reason :: string

definition no_device :: ResolvedEncoderDevice where
  "no_device = \<lparr>rd_valid = False, rd_adapter_luid = 0, rd_vendor_id = 0, rd_backend = NoBackend,
     rd_device = no_fingerprint, rd_reason = []\<rparr>"

text \<open>The engine's check when the capture device is known.\<close>

definition ValidateEncoderDeviceForCapture :: "EncoderDevicePreference \<Rightarrow> ResolvedEncoderDevice \<Rightarrow> u64 \<Rightarrow> verdict" where
  "ValidateEncoderDeviceForCapture preference rdev capture_adapter_luid =
     (if preference \<noteq> Auto \<and> \<not> rd_valid rdev
      then (False, or_message (rd_reason rdev) ''the selected encoder device could not be resolved'')
      else if rd_valid rdev \<and>
        CaptureSurfaceTransportFor (unknown_adapter\<lparr>pa_known := True, pa_luid := capture_adapter_luid\<rparr>)
          (unknown_adapter\<lparr>pa_known := True, pa_luid := rd_adapter_luid rdev\<rparr>) \<noteq> SameAdapter
      then (False, ''the selected encoder device is on a different adapter than the capture source; '' @
                   ''cross-adapter encoding is not implemented'')
      else (True, []))"

section \<open>Candidates\<close>

record EncoderDeviceRequest =
  req_video_codec :: VideoCodecC
  req_chroma :: ChromaC
  req_bit_depth :: BitDepthC

record EncoderDeviceCandidate =
  ca_adapter :: AdapterInfo
  ca_capability :: AdapterEncoderCapability
  ca_backend :: EncoderBackend
  ca_supports_request :: bool
  ca_unavailable_reason :: string

definition usable :: "EncoderDeviceCandidate \<Rightarrow> bool" where
  "usable c \<longleftrightarrow> ca_backend c \<noteq> NoBackend \<and> ca_supports_request c"

definition CodecSupported :: "AdapterEncoderCapability \<Rightarrow> VideoCodecC \<Rightarrow> bool" where
  "CodecSupported cap v = (case v of Av1C \<Rightarrow> ac_av1 cap | HevcC \<Rightarrow> ac_hevc cap | H264C \<Rightarrow> ac_h264 cap)"

definition ChromaSupported :: "AdapterEncoderCapability \<Rightarrow> VideoCodecC \<Rightarrow> ChromaC \<Rightarrow> bool" where
  "ChromaSupported cap v cs = (case cs of
       Cs420 \<Rightarrow> True
     | Cs444 \<Rightarrow> (if v = H264C then ac_yuv444_h264 cap else if v = HevcC then ac_yuv444_hevc cap else False)
     | Cs422 \<Rightarrow> False)"

definition UnavailableReason ::
    "EncoderBackend \<Rightarrow> AdapterEncoderCapability \<Rightarrow> EncoderDeviceRequest \<Rightarrow> string" where
  "UnavailableReason backend cap request =
     (let v = req_video_codec request in
      if backend = NoBackend then ''No encoder backend is implemented for this adapter in this build.''
      else if \<not> ac_probed cap
      then or_message (ac_provenance cap) ''The encoder capability probe did not complete on this adapter.''
      else if \<not> CodecSupported cap v then video_codec_name v @ '' is not supported by this encoder on this adapter.''
      else if req_chroma request = Cs444 then ''4:4:4 is not supported for '' @ video_codec_name v @ '' on this adapter.''
      else if req_chroma request = Cs422 then ''4:2:2 chroma is not implemented.''
      else ''This adapter cannot execute the requested format.'')"

definition candidate_for :: "EncoderDeviceRequest \<Rightarrow> AdapterInfo \<times> AdapterEncoderCapability \<Rightarrow> EncoderDeviceCandidate" where
  "candidate_for request ac =
     (let (adapter, cap) = ac;
          backend = ImplementedEncoderBackendForVendorId (ad_vendor_id adapter);
          supports = (backend \<noteq> NoBackend \<and> ac_probed cap \<and> CodecSupported cap (req_video_codec request) \<and>
            ChromaSupported cap (req_video_codec request) (req_chroma request))
      in \<lparr>ca_adapter = adapter, ca_capability = cap, ca_backend = backend, ca_supports_request = supports,
          ca_unavailable_reason = (if supports then [] else UnavailableReason backend cap request)\<rparr>)"

definition BuildEncoderDeviceCandidates ::
    "AdapterInfo list \<Rightarrow> AdapterEncoderCapability list \<Rightarrow> EncoderDeviceRequest \<Rightarrow> EncoderDeviceCandidate list" where
  "BuildEncoderDeviceCandidates adapters capabilities request =
     map (candidate_for request) (List.zip adapters capabilities)"

definition FingerprintFromAdapter :: "AdapterInfo \<Rightarrow> EncoderDeviceFingerprint" where
  "FingerprintFromAdapter a = \<lparr>fp_vendor_id = ad_vendor_id a, fp_device_id = ad_device_id a,
     fp_subsystem_id = ad_subsystem_id a, fp_name = ad_name a\<rparr>"

definition IdentityFromCandidate :: "EncoderDeviceCandidate \<Rightarrow> PipelineAdapterIdentity" where
  "IdentityFromCandidate c = \<lparr>pa_known = True, pa_luid = ad_luid (ca_adapter c),
     pa_vendor_id = ad_vendor_id (ca_adapter c), pa_backend = ca_backend c,
     pa_device = FingerprintFromAdapter (ca_adapter c)\<rparr>"

definition FindCandidateByLuid :: "EncoderDeviceCandidate list \<Rightarrow> u64 \<Rightarrow> EncoderDeviceCandidate option" where
  "FindCandidateByLuid candidates luid =
     (if luid = 0 then None else find (\<lambda>c. ad_luid (ca_adapter c) = luid) candidates)"

section \<open>Resolution\<close>

record EncoderDeviceResolution =
  er_resolved :: bool
  deferred_to_capture :: bool
  candidate_index :: "nat option"
  er_reason :: string
  er_assignment :: PipelineAdapterAssignment
  er_validation :: verdict

definition no_resolution :: EncoderDeviceResolution where
  "no_resolution = \<lparr>er_resolved = False, deferred_to_capture = False, candidate_index = None, er_reason = [],
     er_assignment = \<lparr>as_capture = unknown_adapter, as_processing = unknown_adapter, as_encoder = unknown_adapter\<rparr>,
     er_validation = (False, [])\<rparr>"

definition PopulateAssignment ::
    "EncoderDeviceCandidate \<Rightarrow> EncoderDeviceCandidate list \<Rightarrow> u64 \<Rightarrow> bool \<Rightarrow> EncoderDeviceResolution \<Rightarrow>
     EncoderDeviceResolution" where
  "PopulateAssignment selected candidates capture_adapter_luid capture_adapter_known result =
     (let capture = (if capture_adapter_known
            then (case FindCandidateByLuid candidates capture_adapter_luid of
                Some c \<Rightarrow> IdentityFromCandidate c
              | None \<Rightarrow> (as_capture (er_assignment result))\<lparr>pa_known := True, pa_luid := capture_adapter_luid\<rparr>)
            else as_capture (er_assignment result));
          assignment = \<lparr>as_capture = capture, as_processing = IdentityFromCandidate selected,
            as_encoder = IdentityFromCandidate selected\<rparr>
      in result\<lparr>er_assignment := assignment,
           er_validation := ValidatePipelineAssignment \<lparr>pf_assignment = assignment,
             pf_processing_executable = usable selected, pf_processing_reason = ca_unavailable_reason selected,
             pf_encoder_executable = usable selected, pf_encoder_reason = ca_unavailable_reason selected,
             pf_transport = CaptureSurfaceTransportFor capture (IdentityFromCandidate selected)\<rparr>\<rparr>)"

definition matching_indices :: "EncoderDeviceCandidate list \<Rightarrow> EncoderDeviceFingerprint \<Rightarrow> nat list" where
  "matching_indices candidates device =
     filter (\<lambda>i. SameHardwareIdentity (FingerprintFromAdapter (ca_adapter (candidates ! i))) device) [0..<length candidates]"

definition resolve_explicit ::
    "EncoderDeviceCandidate list \<Rightarrow> EncoderDeviceFingerprint \<Rightarrow> u64 \<Rightarrow> bool \<Rightarrow> EncoderDeviceResolution" where
  "resolve_explicit candidates device capture_adapter_luid capture_adapter_known =
     (case matching_indices candidates device of
        [] \<Rightarrow> no_resolution\<lparr>er_reason := ''The selected encoder device is not present on this system.''\<rparr>
      | i # rest \<Rightarrow>
          if rest \<noteq> []
          then no_resolution\<lparr>er_reason := ''Multiple adapters match the selected encoder device and cannot be told apart. '' @
                 ''Choose Auto or select the device again.''\<rparr>
          else let selected = candidates ! i;
                   result = PopulateAssignment selected candidates capture_adapter_luid capture_adapter_known
                     (no_resolution\<lparr>candidate_index := Some i\<rparr>)
               in if \<not> usable selected then result\<lparr>er_reason := ca_unavailable_reason selected\<rparr>
                  else if capture_adapter_known
                  then result\<lparr>er_resolved := fst (er_validation result), er_reason := snd (er_validation result)\<rparr>
                  else result\<lparr>er_resolved := True\<rparr>)"

definition resolve_auto :: "EncoderDeviceCandidate list \<Rightarrow> u64 \<Rightarrow> bool \<Rightarrow> EncoderDeviceResolution" where
  "resolve_auto candidates capture_adapter_luid capture_adapter_known =
     (if \<not> capture_adapter_known
      then no_resolution\<lparr>deferred_to_capture := True,
             er_reason := ''Auto uses the capture adapter; it is resolved when recording starts.''\<rparr>
      else case find (\<lambda>i. ad_luid (ca_adapter (candidates ! i)) = capture_adapter_luid) [0..<length candidates] of
        None \<Rightarrow> no_resolution\<lparr>er_reason := ''No encoder-capable device matches the capture source.''\<rparr>
      | Some i \<Rightarrow>
          let result = PopulateAssignment (candidates ! i) candidates capture_adapter_luid True
                (no_resolution\<lparr>candidate_index := Some i\<rparr>)
          in if \<not> fst (er_validation result) then result\<lparr>er_reason := snd (er_validation result)\<rparr>
             else result\<lparr>er_resolved := True\<rparr>)"

definition ResolveEncoderDevice ::
    "EncoderDeviceCandidate list \<Rightarrow> EncoderDevicePreference \<Rightarrow> u64 \<Rightarrow> bool \<Rightarrow> EncoderDeviceResolution" where
  "ResolveEncoderDevice candidates preference capture_adapter_luid capture_adapter_known = (case preference of
       Explicit device \<Rightarrow> resolve_explicit candidates device capture_adapter_luid capture_adapter_known
     | Auto \<Rightarrow> resolve_auto candidates capture_adapter_luid capture_adapter_known)"

text \<open>What a session is given: \<open>capture\<close> is the LUID of the target's adapter, when it is known.\<close>

definition no_capability :: AdapterEncoderCapability where
  "no_capability = \<lparr>ac_probed = False, ac_backend_label = [], ac_provenance = [], ac_h264 = False, ac_hevc = False,
     ac_av1 = False, ac_yuv444_h264 = False, ac_yuv444_hevc = False\<rparr>"

definition session_device :: "EncoderDeviceCandidate list \<Rightarrow> EncoderDeviceResolution \<Rightarrow> ResolvedEncoderDevice" where
  "session_device candidates resolution =
     (let device = (case candidate_index resolution of
          None \<Rightarrow> no_device
        | Some i \<Rightarrow> if i < length candidates
            then let c = candidates ! i in
              no_device\<lparr>rd_valid := er_resolved resolution, rd_adapter_luid := ad_luid (ca_adapter c),
                rd_vendor_id := ad_vendor_id (ca_adapter c), rd_backend := ca_backend c,
                rd_device := FingerprintFromAdapter (ca_adapter c)\<rparr>
            else no_device)
      in device\<lparr>rd_reason := er_reason resolution\<rparr>)"

definition resolveEncoderDeviceFor ::
    "AdapterInfo list \<Rightarrow> AdapterEncoderCapability list \<Rightarrow> EncoderDeviceRequest \<Rightarrow> EncoderDevicePreference \<Rightarrow>
     u64 option \<Rightarrow> ResolvedEncoderDevice" where
  "resolveEncoderDeviceFor adapters scanned request preference capture =
     (let capabilities = (if length scanned \<noteq> length adapters then replicate (length adapters) no_capability else scanned);
          candidates = BuildEncoderDeviceCandidates adapters capabilities request
      in if adapters = [] then no_device\<lparr>rd_reason := ''The encoder-device scan has not completed yet.''\<rparr>
      else session_device candidates (ResolveEncoderDevice candidates preference
        (case capture of None \<Rightarrow> 0 | Some luid \<Rightarrow> luid) (capture \<noteq> None)))"

section \<open>The capability set of one adapter\<close>

definition deny_all :: "string \<Rightarrow> (VideoCodecC \<rightharpoonup> SupportAnnotation) \<Rightarrow> (VideoCodecC \<rightharpoonup> SupportAnnotation)" where
  "deny_all why m = foldl (\<lambda>m v. m(v \<mapsto> annotation NotImplemented why)) m AllVideoCodecs"

definition adapter_facts :: "AdapterEncoderCapability \<Rightarrow> NvidiaRuntimeFacts \<Rightarrow> NvidiaRuntimeFacts" where
  "adapter_facts cap facts = facts\<lparr>nvenc_codec_probed := ac_probed cap, nvenc_h264 := ac_h264 cap,
     nvenc_hevc := ac_hevc cap, nvenc_av1 := ac_av1 cap, nvenc_yuv444_h264 := ac_yuv444_h264 cap,
     nvenc_yuv444_hevc := ac_yuv444_hevc cap\<rparr>"

definition erase_denied_overrides :: "CapabilitySet \<Rightarrow> CapabilitySet" where
  "erase_denied_overrides caps = caps\<lparr>combo_overrides :=
     (\<lambda>(c, v, a, cs, bd). if IsSelectable (QueryVideoCodec caps v) then combo_overrides caps (c, v, a, cs, bd) else None)\<rparr>"

definition CapabilitySetForAdapter ::
    "CapabilitySet \<Rightarrow> AdapterInfo \<Rightarrow> AdapterEncoderCapability \<Rightarrow> CapabilitySet" where
  "CapabilitySetForAdapter base adapter cap =
     (let why = ''No encoder backend is implemented for this adapter in this build.'';
          snapshot = runtime base;
          snapshot = snapshot\<lparr>snap_adapter := (snap_adapter snapshot)\<lparr>id_adapter_luid := ad_luid adapter,
            id_vendor_id := ad_vendor_id adapter\<rparr>\<rparr>;
          caps = base\<lparr>gpu_adapter_name := ad_name adapter, runtime := snapshot\<rparr>
      in erase_denied_overrides
        (if ad_vendor adapter \<noteq> Nvidia
         then caps\<lparr>video_codecs := deny_all why (video_codecs caps), chroma444 := deny_all why (chroma444 caps)\<rparr>
         else let facts = adapter_facts cap (snap_nvidia snapshot) in
           ApplyNvencYuv444Support facts (ApplyNvencCodecSupport facts
             (caps\<lparr>runtime := snapshot\<lparr>snap_nvidia := facts\<rparr>\<rparr>))))"

section \<open>No redirection\<close>

lemma matching_iff:
  "i \<in> set (matching_indices candidates device) \<longleftrightarrow> i < length candidates \<and>
     SameHardwareIdentity (FingerprintFromAdapter (ca_adapter (candidates ! i))) device"
  by (auto simp: matching_indices_def)

lemma find_least: "find P [0..<n] = Some i \<Longrightarrow> i < n \<and> P i"
  by (metis find_Some_iff diff_zero length_upt nth_upt plus_nat.add_0)

lemma populate_keeps [simp]:
  "candidate_index (PopulateAssignment c cs luid known r) = candidate_index r"
  "er_resolved (PopulateAssignment c cs luid known r) = er_resolved r"
  "as_encoder (er_assignment (PopulateAssignment c cs luid known r)) = IdentityFromCandidate c"
  "as_processing (er_assignment (PopulateAssignment c cs luid known r)) = IdentityFromCandidate c"
  by (simp_all add: PopulateAssignment_def Let_def)

lemma find_luid: "FindCandidateByLuid candidates luid = Some c \<Longrightarrow> ad_luid (ca_adapter c) = luid"
  by (auto simp: FindCandidateByLuid_def find_Some_iff split: if_splits)

text \<open>The capture role carries the capture adapter's LUID, so a positive verdict says that both are one adapter.\<close>

lemma populate_verdict:
  assumes "fst (er_validation (PopulateAssignment c candidates luid True r))"
  shows "usable c \<and> ad_luid (ca_adapter c) = luid"
  using assms find_luid[of candidates luid]
  by (auto simp: PopulateAssignment_def Let_def ValidatePipelineAssignment_def CaptureSurfaceTransportFor_def
      IdentityFromCandidate_def split: if_splits option.splits)

definition chosen :: "EncoderDeviceCandidate list \<Rightarrow> EncoderDeviceResolution \<Rightarrow> nat \<Rightarrow> bool" where
  "chosen candidates r i \<longleftrightarrow> candidate_index r = Some i \<and> i < length candidates \<and> usable (candidates ! i) \<and>
     as_encoder (er_assignment r) = IdentityFromCandidate (candidates ! i) \<and>
     as_processing (er_assignment r) = IdentityFromCandidate (candidates ! i)"

lemma auto_resolves:
  assumes "er_resolved (resolve_auto candidates luid known)"
  obtains i where "chosen candidates (resolve_auto candidates luid known) i" "known"
    "ad_luid (ca_adapter (candidates ! i)) = luid"
proof -
  have known: "known"
    using assms by (auto simp: resolve_auto_def no_resolution_def split: if_splits)
  obtain i where find: "find (\<lambda>i. ad_luid (ca_adapter (candidates ! i)) = luid) [0..<length candidates] = Some i"
    using assms known by (auto simp: resolve_auto_def no_resolution_def split: option.splits)
  have i: "i < length candidates" "ad_luid (ca_adapter (candidates ! i)) = luid"
    using find_least[OF find] by simp_all
  have verdict: "fst (er_validation (PopulateAssignment (candidates ! i) candidates luid True
      (no_resolution\<lparr>candidate_index := Some i\<rparr>)))"
    using assms known find by (auto simp: resolve_auto_def Let_def no_resolution_def split: if_splits)
  show thesis
    using that[of i] known find i verdict populate_verdict[OF verdict]
    by (simp add: chosen_def resolve_auto_def Let_def)
qed

lemma explicit_resolves:
  assumes "er_resolved (resolve_explicit candidates device luid known)"
  obtains i where "chosen candidates (resolve_explicit candidates device luid known) i"
    "matching_indices candidates device = [i]" "known \<longrightarrow> ad_luid (ca_adapter (candidates ! i)) = luid"
proof -
  obtain i where matches: "matching_indices candidates device = [i]"
    using assms by (auto simp: resolve_explicit_def no_resolution_def split: list.splits if_splits)
  let ?p = "PopulateAssignment (candidates ! i) candidates luid known (no_resolution\<lparr>candidate_index := Some i\<rparr>)"
  have i: "i < length candidates"
    using matching_iff[of i candidates device] matches by simp
  have use: "usable (candidates ! i)" "known \<longrightarrow> fst (er_validation ?p)"
    using assms matches by (auto simp: resolve_explicit_def Let_def no_resolution_def split: if_splits)
  show thesis
    using that[of i] matches i use populate_verdict[of "candidates ! i" candidates luid]
    by (cases known) (auto simp: chosen_def resolve_explicit_def Let_def)
qed

lemma unique_match:
  assumes "matching_indices candidates device = [i]" "j < length candidates"
    "SameHardwareIdentity (FingerprintFromAdapter (ca_adapter (candidates ! j))) device"
  shows "j = i"
  using matching_iff[of j candidates device] assms by simp

section \<open>The capability view\<close>

lemma selectable_deny_all [simp]: "\<not> selectable_at (deny_all why m) v"
  by (cases v) (simp_all add: deny_all_def AllVideoCodecs_def)

lemma adapter_facts_codec [simp]:
  "nvenc_codec_probed (adapter_facts cap f) = ac_probed cap"
  "codec_encodable (adapter_facts cap f) v = CodecSupported cap v"
  by (cases v; simp add: adapter_facts_def codec_encodable_def CodecSupported_def)+

lemma erase_keeps [simp]:
  "video_codecs (erase_denied_overrides caps) = video_codecs caps"
  "containers (erase_denied_overrides caps) = containers caps"
  by (simp_all add: erase_denied_overrides_def)

lemma adapter_view_codecs:
  "IsSelectable (QueryVideoCodec (CapabilitySetForAdapter base adapter cap) v) \<longleftrightarrow>
     ad_vendor adapter = Nvidia \<and> IsSelectable (QueryVideoCodec base v) \<and> (ac_probed cap \<longrightarrow> CodecSupported cap v)"
  by (auto simp: CapabilitySetForAdapter_def Let_def QueryVideoCodec_def)

end
