(* ===== verification/CapabilityProperties.thy ===== *)
theory CapabilityProperties
  imports AudioPlan EncoderDevice
begin

text \<open>
  The properties of the settings: what can be selected can be recorded, the resolver's answers are
  sound, the layers that decide about formats agree, and the chosen GPU is never replaced by another.
\<close>

section \<open>Selectable means recordable\<close>

text \<open>
  C27: In the capability set built from a snapshot of the machine, a combination is selectable exactly when
  the container takes the codecs, chroma and bit depth are supported for the codec, NVENC is present with a
  valid API, and, once a probe has run, the GPU encodes the codec (and its 4:4:4 when that is asked for).
\<close>

lemma selectable_means_recordable:
  "IsSelectable (QueryCombo (BuildEffectiveCapabilities snapshot) c v a cs bd) \<longleftrightarrow>
     container_takes c v a \<and> picture_takes v cs bd \<and> machine_ok (snap_nvidia snapshot) v cs"
  by (simp add: effective_combo static_takes conj_assoc)

text \<open>
  Without an override, the level of a combination is the worst of its dimensions: no good dimension
  hides a bad one.
\<close>

lemma combination_is_its_worst_dimension:
  assumes "combo_overrides caps (c, v, a, cs, bd) = None"
  shows "SeverityRank (level (QueryCombo caps c v a cs bd)) =
    Max (set (map (\<lambda>d. SeverityRank (level d)) (dimensions caps c v a cs bd)))"
proof -
  have first: "dimensions caps c v a cs bd = StaticMatrixAnnotation c v a cs bd # List.tl (dimensions caps c v a cs bd)"
    by (simp add: dimensions_def)
  show ?thesis
    by (subst first) (simp only: QueryCombo_def assms option.case combined_fold rank_fold list.map list.set set_map comp_def)
qed

lemma combination_is_its_worst_dimension_witness:
  "SeverityRank (level (QueryCombo BuildStaticValidatedBaseline MatroskaC HevcC AacC Cs420 Bit8)) =
    Max (set (map (\<lambda>d. SeverityRank (level d)) (dimensions BuildStaticValidatedBaseline MatroskaC HevcC AacC Cs420 Bit8)))"
  by (rule combination_is_its_worst_dimension) simp

text \<open>
  The best available codec asks less of a codec than the registry: it only rules out prohibited pairs. On a GPU
  with AV1 it answers AV1 for MP4, which no audio codec makes selectable.
\<close>

lemma best_codec_need_not_be_selectable:
  assumes "nvenc_usable (snap_nvidia snapshot)" "nvenc_codec_probed (snap_nvidia snapshot)" "nvenc_av1 (snap_nvidia snapshot)"
  shows "BestAvailableVideoCodec (BuildEffectiveCapabilities snapshot) Mp4C = Some Av1C"
    and "\<not> IsSelectable (QueryCombo (BuildEffectiveCapabilities snapshot) Mp4C Av1C a cs bd)"
  using assms
  by (simp_all add: BestAvailableVideoCodec_def effective_selectable codec_encodable_def PreferredAudioCodec_def
      compat_levels IsContainerCompatProhibited_def effective_combo static_takes container_takes_def)

section \<open>The resolver\<close>

text \<open>
  C28: A change the resolver accepts keeps the value asked for; the resulting configuration is selectable and
  its resolution valid; the adjustments are exactly the differences from what was asked, in the order video
  codec, audio codec, chroma, bit depth, and nothing else differs. Validating the result accepts it unchanged.
\<close>

lemma resolver_answers_are_sound:
  assumes "rr_succeeded (ResolveChange caps current change)"
  shows "let r = ResolveChange caps current change; asked = apply_change change current; cfg = resolved_config r in
    apply_change change cfg = cfg \<and> selectable_config caps cfg \<and> resolution_ok caps cfg \<and> invalidity r = [] \<and>
    changes r = format_differences asked cfg \<and> same_rest asked cfg \<and>
    ValidateConfig caps cfg = r\<lparr>adjustments := []\<rparr>"
  using change_settles[of caps change current] change_kept[of change caps current] assms
    answer_validates[OF change_settles assms]
  by (simp add: Let_def settled_def explained_def)

definition demo_facts :: NvidiaRuntimeFacts where
  "demo_facts = no_nvidia\<lparr>nvenc_dll_present := True, nvenc_api_version_valid := True, nvenc_codec_probed := True,
     nvenc_hevc := True, nvenc_h264 := True\<rparr>"

definition demo_caps :: CapabilitySet where
  "demo_caps = BuildEffectiveCapabilities (no_snapshot\<lparr>snap_nvidia := demo_facts\<rparr>)"

definition demo_hevc :: UserRecorderConfig where
  "demo_hevc = default_user_config\<lparr>u_video_codec := HevcC\<rparr>"

lemma demo_selectable:
  "IsSelectable (QueryResolvedCombo demo_caps cfg) \<longleftrightarrow>
     container_takes (u_container cfg) (u_video_codec cfg) (u_audio_codec cfg) \<and>
     picture_takes (u_video_codec cfg) (u_chroma cfg) (u_bit_depth cfg) \<and> u_video_codec cfg \<noteq> Av1C \<and> u_chroma cfg \<noteq> Cs444"
  by (cases "u_video_codec cfg"; cases "u_chroma cfg";
      simp add: QueryResolvedCombo_def demo_caps_def effective_combo static_takes machine_ok_def nvenc_usable_def
        demo_facts_def no_nvidia_def no_snapshot_def codec_encodable_def codec_encodes444_def)

lemma demo_resolution:
  assumes "u_output_width cfg = 0" "u_output_height cfg = 0" "u_frame_rate_num cfg = 60" "u_frame_rate_den cfg = 1"
  shows "resolution_ok demo_caps cfg"
  using assms by (simp add: resolution_ok_def resolution_complaint_def Let_def demo_caps_def default_resolution_constraint_def)

lemma finalize_succeeds:
  "IsSelectable (QueryResolvedCombo caps (resolved_config r)) \<Longrightarrow> resolution_ok caps (resolved_config r) \<Longrightarrow>
     rr_succeeded (FinalizeSelectableResult caps field r)"
  by (simp add: FinalizeSelectableResult_def validate_resolution_eq Let_def)

lemma demo_change:
  "rr_succeeded (ResolveChange demo_caps demo_hevc (ForContainer Mp4C))"
  "u_audio_codec (resolved_config (ResolveChange demo_caps demo_hevc (ForContainer Mp4C))) = AacC"
  unfolding ResolveChange_def change_container_def Let_def
  by (simp_all add: demo_selectable apply_change_def container_takes_def picture_takes_def demo_resolution
      PreferredAudioCodec_def finalize_succeeds demo_hevc_def default_user_config_def)

lemma resolver_answers_are_sound_witness:
  "let r = ResolveChange demo_caps demo_hevc (ForContainer Mp4C) in
     u_audio_codec (resolved_config r) = AacC \<and> u_container (resolved_config r) = Mp4C \<and>
     selectable_config demo_caps (resolved_config r) \<and>
     ValidateConfig demo_caps (resolved_config r) = r\<lparr>adjustments := []\<rparr>"
  using resolver_answers_are_sound[OF demo_change(1)] demo_change(2)
  by (simp add: Let_def same_rest_iff apply_change_def)

text \<open>
  An option is offered as selectable exactly when choosing it succeeds, and the entries are the options of
  the page in their order.
\<close>

lemma offered_options_can_be_chosen:
  "map opt_selectable (GetContainerOptions caps cfg) = map (\<lambda>c. rr_succeeded (ResolveChange caps cfg (ForContainer c))) AllContainers"
  "map opt_selectable (GetVideoCodecOptions caps cfg) = map (\<lambda>v. rr_succeeded (ResolveChange caps cfg (ForVideoCodec v))) AllVideoCodecs"
  "map opt_selectable (GetAudioCodecOptions caps cfg) = map (\<lambda>a. rr_succeeded (ResolveChange caps cfg (ForAudioCodec a))) AllAudioCodecs"
  "map opt_selectable (GetChromaOptions caps cfg) = map (\<lambda>cs. rr_succeeded (ResolveChange caps cfg (ForChroma cs))) AllChromaModes"
  "map opt_selectable (GetBitDepthOptions caps cfg) = map (\<lambda>bd. rr_succeeded (ResolveChange caps cfg (ForBitDepth bd))) AllBitDepths"
  by (simp_all add: GetContainerOptions_def GetVideoCodecOptions_def GetAudioCodecOptions_def GetChromaOptions_def
      GetBitDepthOptions_def entry_selectable[OF change_settles])

section \<open>The engine takes what the settings accept\<close>

lemma refusals_of_format:
  fixes config :: "'f SessionConfig"
  fixes path kind target
  defines "c \<equiv> config\<lparr>sc_output_path := path, sc_target_kind := kind, sc_target_id := target\<rparr>"
  shows "video_refusal c = video_refusal config" "audio_refusal c = audio_refusal config"
    "audio_format_refusal c = audio_format_refusal config" "picture_refusal c = picture_refusal config"
    "geometry_refusal c = geometry_refusal config" "tracks_refusal c = tracks_refusal config"
proof -
  have "track_refusal c t = track_refusal config t" for t
    by (simp add: c_def track_refusal_def no_process_def)
  then have "track_refusal c = track_refusal config"
    by (rule ext)
  then show "tracks_refusal c = tracks_refusal config"
    by (simp add: c_def tracks_refusal_def Let_def)
qed (simp_all add: c_def video_refusal_def audio_refusal_def audio_format_refusal_def picture_refusal_def geometry_refusal_def
    Let_def cong: if_cong split del: if_split)

lemma accepted_refusal:
  assumes "list_all (\<lambda>f. f = None) [video_refusal config, audio_refusal config, audio_format_refusal config,
       picture_refusal config, geometry_refusal config, tracks_refusal config]"
    "sc_crop_region config = None" "target \<noteq> 0"
  shows "Validate dir_exists (config\<lparr>sc_output_path := path, sc_target_kind := kind, sc_target_id := target\<rparr>) =
    path_refusal dir_exists (config\<lparr>sc_output_path := path\<rparr>)"
proof -
  let ?c = "config\<lparr>sc_output_path := path, sc_target_kind := kind, sc_target_id := target\<rparr>"
  have "video_refusal ?c = None" "audio_refusal ?c = None" "audio_format_refusal ?c = None"
    "picture_refusal ?c = None" "geometry_refusal ?c = None" "tracks_refusal ?c = None"
    using assms(1) by (simp_all only: refusals_of_format list.pred_inject simp_thms)
  moreover have "target_refusal ?c = None"
    using assms(2,3) by (simp add: target_refusal_def)
  moreover have "path_refusal dir_exists ?c = path_refusal dir_exists (config\<lparr>sc_output_path := path\<rparr>)"
    by (simp add: path_refusal_def)
  ultimately show ?thesis
    by (cases "path_refusal dir_exists (config\<lparr>sc_output_path := path\<rparr>)") (simp_all add: Validate_def)
qed


definition demo_mp4 :: UserRecorderConfig where
  "demo_mp4 = default_user_config\<lparr>u_container := Mp4C, u_video_codec := HevcC, u_audio_codec := AacC\<rparr>"

lemma demo_mp4_valid: "rr_succeeded (ValidateConfig demo_caps demo_mp4)"
  by (subst validate_accepts)
     (simp_all add: selectable_config_def demo_selectable demo_resolution demo_mp4_def default_user_config_def
       container_takes_def picture_takes_def)


text \<open>
  The three places that decide about formats agree: the static matrix of the capability set, the allow-list
  of the translation, and the engine's check of the translated values accept the same combinations.
\<close>

lemma format_gates_agree:
  assumes "sc_container config = core_container (u_container cfg)" "sc_video_codec config = core_video (u_video_codec cfg)"
    "sc_audio_codec config = core_audio (u_audio_codec cfg)" "sc_chroma config = core_chroma (u_chroma cfg)"
    "sc_bit_depth config = core_depth (u_bit_depth cfg)" "u_chroma cfg \<noteq> Cs422"
  shows "(IsSelectable (StaticMatrixAnnotation (u_container cfg) (u_video_codec cfg) (u_audio_codec cfg) (u_chroma cfg)
        (u_bit_depth cfg)) \<longleftrightarrow> translated_format cfg \<noteq> None) \<and>
    (translated_format cfg \<noteq> None \<longleftrightarrow>
      video_refusal config = None \<and> audio_refusal config = None \<and> picture_refusal config = None)"
  using engine_takes[OF assms(1-3)] engine_picture[OF assms(2,4,5,6)]
  by (auto simp: selectable_static translated_static static_takes)

lemma format_gates_agree_witness:
  "translated_format demo_mp4 \<noteq> None \<and> \<not> IsSelectable (StaticMatrixAnnotation Mp4C Av1C AacC Cs420 Bit8) \<and>
   video_refusal (default_session_config\<lparr>sc_container := Mp4\<rparr>) \<noteq> (None :: SessionFailure option)"
  using format_gates_agree[of "default_session_config\<lparr>sc_container := Mp4, sc_video_codec := Hevc, sc_audio_codec := CodecAac\<rparr>" demo_mp4]
    format_gates_agree[of "default_session_config\<lparr>sc_container := Mp4, sc_audio_codec := CodecAac\<rparr>" "demo_mp4\<lparr>u_video_codec := Av1C\<rparr>"]
  by (simp add: demo_mp4_def default_user_config_def default_session_config_def core_container_def core_video_def
      core_audio_def core_chroma_def core_depth_def video_refusal_def audio_refusal_def picture_refusal_def Let_def)

section \<open>Reconciliation\<close>

lemma reconcile_table:
  "ReconcileCodecs c (v, a) =
     (if container_takes c v a then (v, a)
      else case c of Mp4C \<Rightarrow> (if v = Av1C then H264C else v, AacC) | WebMC \<Rightarrow> (Av1C, OpusC) | MatroskaC \<Rightarrow> (v, a))"
  by (cases c; cases v; cases a;
      simp add: ReconcileCodecs_def registry_takes container_takes_def PreferredVideoCodec_def PreferredAudioCodec_def)

lemma reconcile_takes:
  "container_takes c (fst (ReconcileCodecs c (v, a))) (snd (ReconcileCodecs c (v, a)))"
  by (cases c; cases v; cases a; simp add: reconcile_table container_takes_def)

lemma reconcile_accepted: "container_takes c v a \<Longrightarrow> ReconcileCodecs c (v, a) = (v, a)"
  by (simp add: reconcile_table)

text \<open>What the rules ask of a format.\<close>

definition format_settled :: "OutputFormatRequest \<Rightarrow> bool" where
  "format_settled q \<longleftrightarrow> container_takes (q_container q) (q_video_codec q) (q_audio_codec q) \<and>
     (q_bit_depth q = Bit10 \<longrightarrow> CodecSupports10Bit (q_video_codec q)) \<and>
     (q_chroma q = Cs444 \<longrightarrow> CodecSupportsChroma444 (q_video_codec q) \<and> q_bit_depth q = Bit8) \<and>
     (q_container q = Mp4C \<longrightarrow> q_cfr q)"

lemma reconcile_settles: "format_settled (resolved (ReconcileOutputFormat q))"
  using reconcile_takes[of "q_container q" "q_video_codec q" "q_audio_codec q"]
  by (cases "q_bit_depth q") (auto simp: ReconcileOutputFormat_def Let_def format_settled_def split: prod.split)

lemma settled_fixed:
  "format_settled q \<Longrightarrow> ReconcileOutputFormat q = \<lparr>resolved = q, codecs_adjusted = False, bit_depth_demoted = False,
     chroma_snapped = False, cfr_forced = False\<rparr>"
  by (auto simp: ReconcileOutputFormat_def Let_def format_settled_def reconcile_accepted)

text \<open>
  Reconciling an output format gives one that the static matrix accepts (4:2:2 apart, which no rule
  touches), with constant frame rate in MP4, in the container asked for; reconciling it again changes nothing;
  and the flags tell exactly which fields were changed.
\<close>

lemma reconciliation_settles:
  "let o1 = ReconcileOutputFormat q; r = resolved o1 in
     q_container r = q_container q \<and>
     IsSelectable (StaticMatrixAnnotation (q_container r) (q_video_codec r) (q_audio_codec r)
       (if q_chroma r = Cs422 then Cs420 else q_chroma r) (q_bit_depth r)) \<and>
     (if q_container r = Mp4C then q_cfr r else True) \<and>
     ReconcileOutputFormat r = \<lparr>resolved = r, codecs_adjusted = False, bit_depth_demoted = False,
       chroma_snapped = False, cfr_forced = False\<rparr> \<and>
     codecs_adjusted o1 = ((q_video_codec r, q_audio_codec r) \<noteq> (q_video_codec q, q_audio_codec q)) \<and>
     bit_depth_demoted o1 = (q_bit_depth r \<noteq> q_bit_depth q) \<and>
     chroma_snapped o1 = (q_chroma r \<noteq> q_chroma q) \<and> cfr_forced o1 = (q_cfr r \<noteq> q_cfr q)"
proof -
  let ?r = "resolved (ReconcileOutputFormat q)"
  have settled: "format_settled ?r"
    by (rule reconcile_settles)
  have "IsSelectable (StaticMatrixAnnotation (q_container ?r) (q_video_codec ?r) (q_audio_codec ?r)
       (if q_chroma ?r = Cs422 then Cs420 else q_chroma ?r) (q_bit_depth ?r))"
    using settled by (cases "q_video_codec ?r")
      (auto simp: selectable_static static_takes format_settled_def picture_takes_def CodecSupports10Bit_def CodecSupportsChroma444_def)
  moreover have "if q_container ?r = Mp4C then q_cfr ?r else True"
    using settled by (auto simp: format_settled_def)
  moreover have "q_container ?r = q_container q"
    "codecs_adjusted (ReconcileOutputFormat q) = ((q_video_codec ?r, q_audio_codec ?r) \<noteq> (q_video_codec q, q_audio_codec q))"
    "bit_depth_demoted (ReconcileOutputFormat q) = (q_bit_depth ?r \<noteq> q_bit_depth q)"
    "chroma_snapped (ReconcileOutputFormat q) = (q_chroma ?r \<noteq> q_chroma q)"
    "cfr_forced (ReconcileOutputFormat q) = (q_cfr ?r \<noteq> q_cfr q)"
    by (auto simp: ReconcileOutputFormat_def Let_def split: prod.split)
  ultimately show ?thesis
    using settled_fixed[OF settled] by (simp only: Let_def simp_thms)
qed

section \<open>The encoder\<close>

lemma usable_candidate:
  "usable (candidate_for request (a, cap)) \<longleftrightarrow> ImplementedEncoderBackendForVendorId (ad_vendor_id a) \<noteq> NoBackend \<and>
     ac_probed cap \<and> CodecSupported cap (req_video_codec request) \<and>
     ChromaSupported cap (req_video_codec request) (req_chroma request)"
  by (auto simp: usable_def candidate_for_def Let_def)

lemma candidate_for_adapter [simp]: "ca_adapter (candidate_for request (a, cap)) = a"
  by (simp add: candidate_for_def Let_def)

lemma device_of_resolution:
  assumes "chosen candidates r i" "er_resolved r"
  shows "rd_valid (session_device candidates r)" "rd_adapter_luid (session_device candidates r) = ad_luid (ca_adapter (candidates ! i))"
    "rd_device (session_device candidates r) = FingerprintFromAdapter (ca_adapter (candidates ! i))"
  using assms by (simp_all add: session_device_def chosen_def Let_def)

lemma valid_device_resolved: "rd_valid (session_device candidates r) \<Longrightarrow> er_resolved r"
  by (auto simp: session_device_def Let_def no_device_def split: option.splits if_splits)

text \<open>What the adapter at a position can do for a request.\<close>

definition adapter_serves :: "AdapterInfo list \<Rightarrow> AdapterEncoderCapability list \<Rightarrow> EncoderDeviceRequest \<Rightarrow> nat \<Rightarrow> bool" where
  "adapter_serves adapters scanned request i \<longleftrightarrow> i < length adapters \<and> length scanned = length adapters \<and>
     ImplementedEncoderBackendForVendorId (ad_vendor_id (adapters ! i)) \<noteq> NoBackend \<and> ac_probed (scanned ! i) \<and>
     CodecSupported (scanned ! i) (req_video_codec request) \<and>
     ChromaSupported (scanned ! i) (req_video_codec request) (req_chroma request)"

lemma usable_serves:
  fixes adapters scanned
  defines "capabilities \<equiv> if length scanned \<noteq> length adapters then replicate (length adapters) no_capability else scanned"
  assumes "i < length (BuildEncoderDeviceCandidates adapters capabilities request)"
    "usable (BuildEncoderDeviceCandidates adapters capabilities request ! i)"
  shows "adapter_serves adapters scanned request i"
  using assms by (auto simp: BuildEncoderDeviceCandidates_def adapter_serves_def usable_candidate no_capability_def split: if_splits)

lemma built_adapters:
  "length capabilities = length adapters \<Longrightarrow> i < length adapters \<Longrightarrow>
     ca_adapter (BuildEncoderDeviceCandidates adapters capabilities request ! i) = adapters ! i"
  "length capabilities = length adapters \<Longrightarrow> length (BuildEncoderDeviceCandidates adapters capabilities request) = length adapters"
  by (simp_all add: BuildEncoderDeviceCandidates_def)

text \<open>Where a valid device comes from.\<close>

definition device_origin ::
    "AdapterInfo list \<Rightarrow> AdapterEncoderCapability list \<Rightarrow> EncoderDeviceRequest \<Rightarrow> EncoderDevicePreference \<Rightarrow>
     u64 option \<Rightarrow> ResolvedEncoderDevice \<Rightarrow> nat \<Rightarrow> bool" where
  "device_origin adapters scanned request preference capture device i \<longleftrightarrow>
     adapter_serves adapters scanned request i \<and> rd_adapter_luid device = ad_luid (adapters ! i) \<and>
     (capture = None \<or> capture = Some (ad_luid (adapters ! i))) \<and> (preference = Auto \<longrightarrow> capture \<noteq> None) \<and>
     (\<forall>wanted. preference = Explicit wanted \<longrightarrow>
       {j. j < length adapters \<and> SameHardwareIdentity (FingerprintFromAdapter (adapters ! j)) wanted} = {i})"

lemma resolved_device:
  assumes "rd_valid (resolveEncoderDeviceFor adapters scanned request preference capture)"
  shows "\<exists>i. device_origin adapters scanned request preference capture
    (resolveEncoderDeviceFor adapters scanned request preference capture) i"
proof -
  define capabilities where
    "capabilities = (if length scanned \<noteq> length adapters then replicate (length adapters) no_capability else scanned)"
  define candidates where "candidates = BuildEncoderDeviceCandidates adapters capabilities request"
  define luid where "luid = (case capture of None \<Rightarrow> 0 | Some l \<Rightarrow> l)"
  define known where "known \<longleftrightarrow> capture \<noteq> None"
  define r where "r = ResolveEncoderDevice candidates preference luid known"
  have eq: "resolveEncoderDeviceFor adapters scanned request preference capture = session_device candidates r"
    using assms by (auto simp: resolveEncoderDeviceFor_def Let_def candidates_def capabilities_def r_def luid_def
        known_def no_device_def split: if_splits)
  have len: "length capabilities = length adapters"
    by (simp add: capabilities_def)
  have resolved: "er_resolved r"
    using assms eq valid_device_resolved by simp
  have "\<exists>i. chosen candidates r i \<and> (known \<longrightarrow> ad_luid (ca_adapter (candidates ! i)) = luid) \<and>
      (preference = Auto \<longrightarrow> known) \<and> (\<forall>device. preference = Explicit device \<longrightarrow> matching_indices candidates device = [i])"
  proof (cases preference)
    case Auto
    then have r: "r = resolve_auto candidates luid known"
      by (simp add: r_def ResolveEncoderDevice_def)
    obtain i where "chosen candidates r i" "known" "ad_luid (ca_adapter (candidates ! i)) = luid"
      using resolved unfolding r by (rule auto_resolves)
    then show ?thesis
      using Auto by auto
  next
    case (Explicit device)
    then have r: "r = resolve_explicit candidates device luid known"
      by (simp add: r_def ResolveEncoderDevice_def)
    obtain i where "chosen candidates r i" "matching_indices candidates device = [i]"
      "known \<longrightarrow> ad_luid (ca_adapter (candidates ! i)) = luid"
      using resolved unfolding r by (rule explicit_resolves)
    then show ?thesis
      using Explicit by auto
  qed
  then obtain i where i: "chosen candidates r i" "known \<longrightarrow> ad_luid (ca_adapter (candidates ! i)) = luid"
    "preference = Auto \<longrightarrow> known" "\<forall>device. preference = Explicit device \<longrightarrow> matching_indices candidates device = [i]"
    by blast
  have i': "i < length adapters" "ca_adapter (candidates ! j) = adapters ! j" if "j < length adapters" for j
    using i(1) built_adapters[OF len, where request=request] that by (auto simp: chosen_def candidates_def)
  have bound: "i < length adapters"
    using i(1) built_adapters(2)[OF len, of request] by (simp add: chosen_def candidates_def)
  have serves: "adapter_serves adapters scanned request i"
    using i(1) usable_serves[of i adapters scanned request] by (simp add: chosen_def candidates_def capabilities_def)
  have luids: "rd_adapter_luid (resolveEncoderDeviceFor adapters scanned request preference capture) = ad_luid (adapters ! i)"
    "capture = None \<or> capture = Some (ad_luid (adapters ! i))"
    using device_of_resolution(2)[OF i(1) resolved] i(2) i'(2)[OF bound] eq
    by (auto simp: luid_def known_def split: option.splits)
  have "{j. j < length adapters \<and> SameHardwareIdentity (FingerprintFromAdapter (adapters ! j)) device} = {i}"
    if "preference = Explicit device" for device
  proof -
    have "j = i \<longleftrightarrow> j < length adapters \<and> SameHardwareIdentity (FingerprintFromAdapter (adapters ! j)) device" for j
      using i(4) that matching_iff[of j candidates device] i'(2)[of j] bound built_adapters(2)[OF len, of request]
      by (cases "j < length adapters") (auto simp: candidates_def)
    then show ?thesis
      by auto
  qed
  moreover have "preference = Auto \<longrightarrow> capture \<noteq> None"
    using i(3) known_def by blast
  ultimately show ?thesis
    using serves luids unfolding device_origin_def by blast
qed

text \<open>
  C30: When the engine accepts the device a session was given, the encoder runs on the adapter that captures; an
  explicit choice is the one adapter in the machine with the chosen identity, it has a backend and its own probe
  supports the requested codec and chroma. No other GPU is ever substituted.
\<close>

lemma encoder_is_never_redirected:
  fixes adapters scanned request preference capture actual
  defines "device \<equiv> resolveEncoderDeviceFor adapters scanned request preference capture"
  assumes "fst (ValidateEncoderDeviceForCapture preference device actual)"
  shows "case preference of
      Auto \<Rightarrow> rd_valid device \<longrightarrow> rd_adapter_luid device = actual \<and> capture = Some actual
    | Explicit wanted \<Rightarrow> rd_valid device \<and> rd_adapter_luid device = actual \<and>
        (\<exists>i. adapter_serves adapters scanned request i \<and> ad_luid (adapters ! i) = actual \<and>
          {j. j < length adapters \<and> SameHardwareIdentity (FingerprintFromAdapter (adapters ! j)) wanted} = {i})"
proof -
  have same: "rd_adapter_luid device = actual" if "rd_valid device"
    using assms(2) that by (auto simp: ValidateEncoderDeviceForCapture_def CaptureSurfaceTransportFor_def split: if_splits)
  have origin: "\<exists>i. device_origin adapters scanned request preference capture device i" if "rd_valid device"
    using resolved_device that unfolding device_def by blast
  show ?thesis
  proof (cases preference)
    case Auto
    then show ?thesis
      using same origin by (auto simp: device_origin_def)
  next
    case (Explicit wanted)
    then have valid: "rd_valid device"
      using assms(2) by (auto simp: ValidateEncoderDeviceForCapture_def split: if_splits)
    then obtain i where "device_origin adapters scanned request preference capture device i"
      using origin by blast
    then have "\<exists>i. adapter_serves adapters scanned request i \<and> ad_luid (adapters ! i) = actual \<and>
        {j. j < length adapters \<and> SameHardwareIdentity (FingerprintFromAdapter (adapters ! j)) wanted} = {i}"
      using same[OF valid] Explicit unfolding device_origin_def by metis
    then show ?thesis
      using Explicit valid same[OF valid] by simp
  qed
qed

definition demo_adapter :: "u32 \<Rightarrow> u64 \<Rightarrow> AdapterInfo" where
  "demo_adapter device luid = \<lparr>ad_name = ''GPU'', ad_vendor = Nvidia, ad_kind = Discrete, ad_vendor_id = 0x10DE,
     ad_device_id = device, ad_luid = luid, ad_dedicated_bytes = 0, ad_shared_bytes = 0, ad_subsystem_id = 1\<rparr>"

definition demo_capability :: AdapterEncoderCapability where
  "demo_capability = no_capability\<lparr>ac_probed := True, ac_hevc := True\<rparr>"

definition demo_device :: "u64 option \<Rightarrow> ResolvedEncoderDevice" where
  "demo_device = resolveEncoderDeviceFor [demo_adapter 5 9, demo_adapter 6 8] [demo_capability, demo_capability]
     \<lparr>req_video_codec = HevcC, req_chroma = Cs420, req_bit_depth = Bit8\<rparr>
     (Explicit (FingerprintFromAdapter (demo_adapter 6 8)))"

lemma demo_candidate:
  "usable (candidate_for \<lparr>req_video_codec = HevcC, req_chroma = Cs420, req_bit_depth = Bit8\<rparr> (demo_adapter d l, demo_capability))"
  by (simp add: usable_candidate demo_adapter_def ImplementedEncoderBackendForVendorId_def demo_capability_def
      CodecSupported_def ChromaSupported_def)

lemma demo_same:
  "SameHardwareIdentity (FingerprintFromAdapter (demo_adapter d l)) (FingerprintFromAdapter (demo_adapter d' l')) \<longleftrightarrow> d = d'"
  "ad_luid (demo_adapter d l) = l"
  by (simp_all add: SameHardwareIdentity_def FingerprintFromAdapter_def demo_adapter_def)

lemma demo_built:
  "BuildEncoderDeviceCandidates [demo_adapter 5 9, demo_adapter 6 8] [demo_capability, demo_capability] request =
     [candidate_for request (demo_adapter 5 9, demo_capability), candidate_for request (demo_adapter 6 8, demo_capability)]"
  by (simp add: BuildEncoderDeviceCandidates_def)

lemma demo_match:
  "matching_indices [candidate_for request (demo_adapter 5 9, demo_capability), candidate_for request (demo_adapter 6 8, demo_capability)]
     (FingerprintFromAdapter (demo_adapter 6 8)) = [1]"
  by (simp add: matching_indices_def demo_same upt_rec)

lemma demo_verdict:
  assumes "usable c"
  shows "fst (er_validation (PopulateAssignment c cs luid True r)) \<longleftrightarrow>
    pa_luid (as_capture (er_assignment (PopulateAssignment c cs luid True r))) = ad_luid (ca_adapter c)"
  using assms by (auto simp: PopulateAssignment_def Let_def ValidatePipelineAssignment_def CaptureSurfaceTransportFor_def
      IdentityFromCandidate_def split: option.split)

lemma populate_capture:
  "pa_luid (as_capture (er_assignment (PopulateAssignment c cs luid True r))) = luid"
  by (auto simp: PopulateAssignment_def Let_def IdentityFromCandidate_def dest: find_luid split: option.split)

lemma demo_device_valid: "rd_valid (demo_device (Some 8))" "rd_adapter_luid (demo_device (Some 8)) = 8" "\<not> rd_valid (demo_device (Some 9))"
  by (simp_all add: demo_device_def resolveEncoderDeviceFor_def demo_built ResolveEncoderDevice_def resolve_explicit_def
      demo_match demo_candidate demo_verdict populate_capture demo_same session_device_def Let_def no_resolution_def)

lemma encoder_is_never_redirected_witness:
  "rd_valid (demo_device (Some 8)) \<and> rd_adapter_luid (demo_device (Some 8)) = 8 \<and> \<not> rd_valid (demo_device (Some 9))"
proof -
  have "fst (ValidateEncoderDeviceForCapture (Explicit (FingerprintFromAdapter (demo_adapter 6 8))) (demo_device (Some 8)) 8)"
    using demo_device_valid by (simp add: ValidateEncoderDeviceForCapture_def CaptureSurfaceTransportFor_def)
  then show ?thesis
    using encoder_is_never_redirected[of "Explicit (FingerprintFromAdapter (demo_adapter 6 8))"] demo_device_valid(3)
    unfolding demo_device_def by fastforce
qed

text \<open>
  The capability view of one adapter offers a video codec exactly when the adapter is from a vendor with a
  backend, the set it is derived from offers the codec, and the adapter's own probe, if there is one, supports it.
\<close>

lemma adapter_view_offers_both:
  "IsSelectable (QueryVideoCodec (CapabilitySetForAdapter base adapter cap) v) \<longleftrightarrow>
     ad_vendor adapter = Nvidia \<and> IsSelectable (QueryVideoCodec base v) \<and> (\<not> ac_probed cap \<or> CodecSupported cap v)"
  by (auto simp: adapter_view_codecs)

section \<open>Audio\<close>

text \<open>
  A plan with at most three enabled sources is taken by the engine; the one refusal left is a window whose
  process is unknown although application or other-system audio is enabled. A display target never needs a process.
\<close>

lemma audio_plans_are_taken:
  assumes "length (filter row_enabled (NormalizeSourceRowsForTarget (ui_source_rows s) (ui_target_kind s = WindowTarget))) \<le> kMaxAudioTracks"
  shows "tracks_refusal (with_plan (BuildAudioPlan gm s) config) =
    (if ui_target_kind s = WindowTarget \<and> list_ex (row_on [SourceApp, SourceSys]) (ui_source_rows s) \<and>
        (ui_selected_window_pid s = None \<or> ui_selected_window_pid s = Some 0)
     then refuse E_INVALIDARG kMissingAudioTargetProcess else None)"
  by (rule plan_taken[OF assms])

definition demo_row :: "AudioSourceKind \<Rightarrow> bool AudioSourceRow" where
  "demo_row k = \<lparr>row_kind = k, row_enabled = True, merge_with_above = True, gain_db = True, row_muted = False\<rparr>"

lemma audio_plans_are_taken_witness:
  "tracks_refusal (with_plan (BuildAudioPlan \<lparr>to_linear = id, silence = False\<rparr>
      \<lparr>ui_target_kind = DisplayTarget, ui_source_rows = [demo_row SourceApp, demo_row SourceMic, demo_row SourceSys],
       ui_selected_window_pid = None, ui_parameters = undefined\<rparr>) default_session_config) = None"
  by (subst audio_plans_are_taken)
     (simp_all add: NormalizeSourceRowsForTarget_def demo_row_def kMaxAudioTracks_def)

end
