(* ===== verification/SessionPolicies.thy ===== *)
theory SessionPolicies
  imports PacketRouting
begin

text \<open>
  How a recording ends: the waits of the shutdown (\<^verbatim>\<open>finalize_join_policy.h\<close>, \<^verbatim>\<open>worker_join.h\<close>), the cause
  of a session without frames (\<^verbatim>\<open>session_outcome.h\<close>), the time a recording lasted and the skew of its
  streams (\<^verbatim>\<open>session_stats_collector.cpp\<close>, \<^verbatim>\<open>session_stats.h\<close>), and the result
  \<open>RecorderSession::Record\<close> assembles from them (\<^verbatim>\<open>recorder_session.cpp\<close>).

  Answers of the operating system (the outcome of a wait, the clock, a byte count read from a worker) are
  arguments. Durations stay in nanoseconds where the code divides them into a \<open>double\<close>.
\<close>

section \<open>Waiting for the file to be finalized\<close>

datatype FinalizeWaitDecision = KeepWaiting | StalledAbort

record FinalizeProgressTracker =
  m_stall_window_ms :: u64
  m_hard_cap_ms :: u64
  m_seeded :: bool
  m_start_ms :: u64
  m_last_progress_ms :: u64
  m_last_bytes :: u64

definition new_tracker :: "u64 \<Rightarrow> u64 \<Rightarrow> FinalizeProgressTracker" where
  "new_tracker stall_window_ms hard_cap_ms =
     \<lparr>m_stall_window_ms = stall_window_ms, m_hard_cap_ms = hard_cap_ms, m_seeded = False,
      m_start_ms = 0, m_last_progress_ms = 0, m_last_bytes = 0\<rparr>"

definition ElapsedSince :: "u64 \<Rightarrow> u64 \<Rightarrow> u64" where
  "ElapsedSince earlier_ms now_ms = (if earlier_ms < now_ms then now_ms - earlier_ms else 0)"

definition Observe :: "u64 \<Rightarrow> u64 \<Rightarrow> FinalizeProgressTracker \<Rightarrow> FinalizeWaitDecision \<times> FinalizeProgressTracker" where
  "Observe bytes_now now_ms t =
     (if \<not> m_seeded t then
        (KeepWaiting, t\<lparr>m_seeded := True, m_start_ms := now_ms, m_last_bytes := bytes_now, m_last_progress_ms := now_ms\<rparr>)
      else
        let t = (if m_last_bytes t < bytes_now then t\<lparr>m_last_progress_ms := now_ms\<rparr> else t);
            t = t\<lparr>m_last_bytes := bytes_now\<rparr>
        in if 0 < m_hard_cap_ms t \<and> m_hard_cap_ms t \<le> ElapsedSince (m_start_ms t) now_ms then (StalledAbort, t)
           else if m_stall_window_ms t \<le> ElapsedSince (m_last_progress_ms t) now_ms then (StalledAbort, t)
           else (KeepWaiting, t))"

text \<open>One round of the wait: what the wait said, the bytes committed so far, and the time.\<close>

datatype WaitResult = WaitSignaled | WaitTimeout | WaitFailed u32

record finalize_poll =
  fp_wait :: WaitResult
  fp_bytes :: u64
  fp_elapsed_ms :: u64

datatype FinalizeEnd = FinalizeJoined | FinalizeStalledOut | FinalizeWaitFailed u32

definition kFinalizeStallWindowMs :: u64 where "kFinalizeStallWindowMs = 30000"
definition kFinalizeHardCapMs :: u64 where "kFinalizeHardCapMs = 0"

text \<open>\<open>None\<close>: still waiting after these rounds.\<close>

fun wait_for_finalize :: "FinalizeProgressTracker \<Rightarrow> finalize_poll list \<Rightarrow> FinalizeEnd option" where
  "wait_for_finalize t [] = None"
| "wait_for_finalize t (p # polls) =
     (case fp_wait p of
        WaitSignaled \<Rightarrow> Some FinalizeJoined
      | WaitFailed e \<Rightarrow> Some (FinalizeWaitFailed e)
      | WaitTimeout \<Rightarrow>
          (case Observe (fp_bytes p) (fp_elapsed_ms p) t of
             (StalledAbort, _) \<Rightarrow> Some FinalizeStalledOut
           | (KeepWaiting, t) \<Rightarrow> wait_for_finalize t polls))"

section \<open>Waiting for the producers\<close>

record WorkerJoinResult =
  all_signaled :: bool
  signaled :: "bool list"
  wait_failed :: bool
  last_error :: u32

text \<open>
  Before a stop: each round reads the stop token and, when it is not set, waits for all workers at once.
  \<open>None\<close>: still recording.
\<close>

fun await_stop :: "(bool \<times> WaitResult) list \<Rightarrow> u32 option option" where
  "await_stop [] = None"
| "await_stop ((stop, w) # rounds) =
     (if stop then Some None
      else case w of WaitTimeout \<Rightarrow> await_stop rounds | WaitFailed e \<Rightarrow> Some (Some e) | WaitSignaled \<Rightarrow> Some None)"

definition failed_wait :: "nat \<Rightarrow> u32 \<Rightarrow> WorkerJoinResult" where
  "failed_wait n e = \<lparr>all_signaled = False, signaled = replicate n False, wait_failed = True, last_error = e\<rparr>"

definition WaitForWorkersThenJoin ::
    "nat \<Rightarrow> (bool \<times> WaitResult) list \<Rightarrow> WaitResult \<Rightarrow> (nat \<Rightarrow> WaitResult) \<Rightarrow> WorkerJoinResult option" where
  "WaitForWorkersThenJoin handles rounds join_wait probe =
     (if handles = 0 then Some \<lparr>all_signaled = True, signaled = [], wait_failed = False, last_error = 0\<rparr>
      else case await_stop rounds of
        None \<Rightarrow> None
      | Some (Some e) \<Rightarrow> Some (failed_wait handles e)
      | Some None \<Rightarrow>
          (case join_wait of
             WaitFailed e \<Rightarrow> Some (failed_wait handles e)
           | _ \<Rightarrow>
               let sig = map (\<lambda>i. probe i = WaitSignaled) [0..<handles]
               in Some \<lparr>all_signaled = (\<forall>s \<in> set sig. s), signaled = sig, wait_failed = False, last_error = 0\<rparr>))"

datatype ShutdownFault = NoFault | WorkerHang | FinalizeStalled

definition ClassifyShutdownFault :: "bool \<Rightarrow> bool \<Rightarrow> ShutdownFault" where
  "ClassifyShutdownFault producers_joined finalize_completed =
     (if \<not> producers_joined then WorkerHang else if \<not> finalize_completed then FinalizeStalled else NoFault)"

section \<open>A session without frames\<close>

datatype TargetKind = KindMonitor | KindWindow
datatype CaptureBackend = BackendDefault | BackendWindowsGraphicsCapture
datatype EffectiveCaptureBackend = DxgiOutputDuplication | WindowsGraphicsCapture

definition ResolveCaptureBackend :: "TargetKind \<Rightarrow> CaptureBackend \<Rightarrow> EffectiveCaptureBackend" where
  "ResolveCaptureBackend target_kind requested =
     (if target_kind = KindMonitor \<and> requested = BackendDefault then DxgiOutputDuplication else WindowsGraphicsCapture)"

definition CaptureBackendProseName :: "EffectiveCaptureBackend \<Rightarrow> string" where
  "CaptureBackendProseName backend =
     (if backend = DxgiOutputDuplication then ''DXGI desktop duplication'' else ''Windows Graphics Capture'')"

datatype MissingCaptureCause = NothingMissing | StoppedBeforeCapture | NoFramesDelivered

definition ClassifyMissingCapture :: "bool \<Rightarrow> u64 \<Rightarrow> bool \<Rightarrow> MissingCaptureCause" where
  "ClassifyMissingCapture has_recorded_cause frames_captured stopped_before_start =
     (if has_recorded_cause \<or> 0 < frames_captured then NothingMissing
      else if stopped_before_start then StoppedBeforeCapture else NoFramesDelivered)"

section \<open>Durations\<close>

record SessionStats =
  video_frames_captured :: u64
  output_file_bytes :: u64
  video_duration_ns :: u64
  audio_duration_ns :: u64
  aligned_audio_duration_ns :: "u64 list"
  elapsed_ns :: int
  duration_skew_ns :: u64

definition ns_apart :: "u64 \<Rightarrow> u64 \<Rightarrow> u64" where
  "ns_apart vd ad = (if ad < vd then vd - ad else ad - vd)"

text \<open>The skew against the audio the muxer wrote; \<open>None\<close> is \<open>available = false\<close>.\<close>

fun worst_skew :: "u64 \<Rightarrow> u64 option \<Rightarrow> u64 list \<Rightarrow> u64 option" where
  "worst_skew vd worst [] = worst"
| "worst_skew vd worst (audio_end # rest) =
     (if audio_end = 0 then worst_skew vd worst rest
      else let skew = ns_apart vd audio_end in
        worst_skew vd (case worst of None \<Rightarrow> Some skew | Some w \<Rightarrow> if w < skew then Some skew else Some w) rest)"

definition ComputeDurationSkew :: "u64 \<Rightarrow> u64 list \<Rightarrow> u64 option" where
  "ComputeDurationSkew vd aligned = (if vd = 0 then None else worst_skew vd None aligned)"

text \<open>The skew of the final result.\<close>

definition with_result_skew :: "SessionStats \<Rightarrow> SessionStats" where
  "with_result_skew st =
     (if 0 < video_duration_ns st \<and> 0 < audio_duration_ns st
      then st\<lparr>duration_skew_ns := ns_apart (video_duration_ns st) (audio_duration_ns st)\<rparr> else st)"

text \<open>
  The stats collector books the time a session spends paused: at every tick it sees whether the session is
  paused, and a window still open at the end is closed where the capture ended. Times are nanoseconds of one
  monotonic clock.
\<close>

record pause_clock =
  paused_since :: "int option"
  paused_ns :: int

definition AccumulatePause :: "bool \<Rightarrow> int \<Rightarrow> pause_clock \<Rightarrow> pause_clock" where
  "AccumulatePause paused now c =
     (case paused_since c of
        None \<Rightarrow> if paused then c\<lparr>paused_since := Some now\<rparr> else c
      | Some since \<Rightarrow>
          if paused then c else c\<lparr>paused_ns := paused_ns c + (now - since), paused_since := None\<rparr>)"

definition close_pause :: "int \<Rightarrow> int \<Rightarrow> pause_clock \<Rightarrow> pause_clock" where
  "close_pause capture_end_ns now c =
     (case paused_since c of
        None \<Rightarrow> c
      | Some since \<Rightarrow>
          let end_ns = (if 0 < capture_end_ns then capture_end_ns else now) in
          (if since < end_ns then c\<lparr>paused_ns := paused_ns c + (end_ns - since)\<rparr> else c)\<lparr>paused_since := None\<rparr>)"

text \<open>The ticks of the collector (what it saw, and when), then its \<open>Stop\<close>.\<close>

definition collect_pauses :: "(bool \<times> int) list \<Rightarrow> int \<Rightarrow> int \<Rightarrow> int" where
  "collect_pauses ticks capture_end_ns now =
     paused_ns (close_pause capture_end_ns now
       (fold (\<lambda>(paused, at). AccumulatePause paused at) ticks \<lparr>paused_since = None, paused_ns = 0\<rparr>))"

definition captured_time :: "int \<Rightarrow> int \<Rightarrow> int \<Rightarrow> int \<Rightarrow> int" where
  "captured_time wall_start recorded_end now paused =
     (let wall_end = (if recorded_end \<noteq> 0 then recorded_end else now);
          captured = wall_end - wall_start - paused
      in if 0 < captured then captured else 0)"

section \<open>The result of a recording\<close>

record RecorderResult =
  res_succeeded :: bool
  res_error_code :: u32
  res_error_phase :: ErrorPhase
  res_error_detail :: string
  res_stats :: SessionStats

record session_joins =
  video_joined :: bool
  audio_joined :: "bool list"
  mux_joined :: bool
  finalize_stalled :: bool

definition E_ABORT :: u32 where "E_ABORT = 0x80004004"
definition ERROR_TIMEOUT :: u32 where "ERROR_TIMEOUT = 1460"

definition recorded_outcome :: "SessionFailure option \<Rightarrow> SessionStats \<Rightarrow> RecorderResult" where
  "recorded_outcome recorded st = (case recorded of
       Some f \<Rightarrow> \<lparr>res_succeeded = False, res_error_code = error_code f, res_error_phase = error_phase f,
                  res_error_detail = error_detail f, res_stats = st\<rparr>
     | None \<Rightarrow> \<lparr>res_succeeded = True, res_error_code = 0, res_error_phase = PhaseNone, res_error_detail = [],
                res_stats = st\<rparr>)"

definition join_word :: "bool \<Rightarrow> string" where "join_word joined = (if joined then ''ok'' else ''TIMEOUT'')"

definition hang_detail :: "session_joins \<Rightarrow> string" where
  "hang_detail j =
     '' [worker hang: v='' @ join_word (video_joined j) @
     concat (map (\<lambda>(i, joined). '' a'' @ to_string i @ ''='' @ join_word joined) (List.enumerate 0 (audio_joined j))) @
     '' m='' @ (if mux_joined j then ''ok'' else if finalize_stalled j then ''STALLED'' else ''TIMEOUT'') @ '']''"

definition stall_detail :: "session_joins \<Rightarrow> string" where
  "stall_detail j =
     '' [finalize '' @ (if finalize_stalled j then ''stalled'' else ''incomplete'') @
     '': no byte progress for '' @ to_string (unat kFinalizeStallWindowMs) @ '' ms]''"

definition producers_joined :: "session_joins \<Rightarrow> bool" where
  "producers_joined j \<longleftrightarrow> video_joined j \<and> list_all (\<lambda>joined. joined) (audio_joined j)"

definition with_shutdown_fault :: "session_joins \<Rightarrow> RecorderResult \<Rightarrow> RecorderResult" where
  "with_shutdown_fault j r =
     (let fault = ClassifyShutdownFault (producers_joined j) (mux_joined j) in
      if fault = NoFault then r
      else
        let r = (if res_error_detail r = []
                 then r\<lparr>res_succeeded := False, res_error_code := HRESULT_FROM_WIN32 ERROR_TIMEOUT,
                        res_error_phase := PhaseShutdown\<rparr> else r)
        in r\<lparr>res_error_detail := res_error_detail r @ (if fault = WorkerHang then hang_detail j else stall_detail j)\<rparr>)"

definition ApplyMissingCaptureOutcome ::
    "MissingCaptureCause \<Rightarrow> EffectiveCaptureBackend \<Rightarrow> RecorderResult \<Rightarrow> RecorderResult" where
  "ApplyMissingCaptureOutcome cause backend r = (case cause of
       NothingMissing \<Rightarrow> r
     | StoppedBeforeCapture \<Rightarrow>
         r\<lparr>res_succeeded := False, res_error_code := E_ABORT, res_error_phase := PhasePrepare,
           res_error_detail := ''The recording was stopped before capture started; nothing was recorded.''\<rparr>
     | NoFramesDelivered \<Rightarrow>
         r\<lparr>res_succeeded := False, res_error_code := E_FAIL, res_error_phase := PhaseVideoCapture,
           res_error_detail := ''The capture delivered no frames before the recording stopped (backend: '' @
             CaptureBackendProseName backend @ '').''\<rparr>)"

definition with_missing_capture :: "bool \<Rightarrow> EffectiveCaptureBackend \<Rightarrow> RecorderResult \<Rightarrow> RecorderResult" where
  "with_missing_capture stopped_before_start backend r =
     ApplyMissingCaptureOutcome
       (ClassifyMissingCapture (\<not> res_succeeded r) (video_frames_captured (res_stats r)) stopped_before_start) backend r"

definition with_output_rule :: "RecorderResult \<Rightarrow> RecorderResult" where
  "with_output_rule r =
     (if res_succeeded r \<and> output_file_bytes (res_stats r) = 0
      then r\<lparr>res_succeeded := False, res_error_code := E_FAIL, res_error_phase := PhaseMux,
             res_error_detail := (if res_error_detail r = [] then ''Mux completed without writing output file''
                                  else res_error_detail r)\<rparr>
      else r)"

text \<open>What \<open>Record\<close> returns, once the waits are over and the statistics are in.\<close>

definition build_result ::
    "SessionFailure option \<Rightarrow> session_joins \<Rightarrow> bool \<Rightarrow> EffectiveCaptureBackend \<Rightarrow> int \<Rightarrow> SessionStats \<Rightarrow> RecorderResult" where
  "build_result recorded j stopped_before_start backend captured st =
     (let r = recorded_outcome recorded (st\<lparr>elapsed_ns := captured\<rparr>);
          r = with_shutdown_fault j r;
          r = with_missing_capture stopped_before_start backend r;
          r = with_output_rule r
      in r\<lparr>res_stats := with_result_skew (res_stats r)\<rparr>)"

text \<open>The waits behind a result: the producers' wait, then the wait for the muxer.\<close>

definition joins_of :: "nat \<Rightarrow> WorkerJoinResult \<Rightarrow> FinalizeEnd \<Rightarrow> session_joins" where
  "joins_of audio_workers jr finalize =
     \<lparr>video_joined = signaled jr ! 0, audio_joined = map (\<lambda>i. signaled jr ! Suc i) [0..<audio_workers],
      mux_joined = (finalize = FinalizeJoined), finalize_stalled = (finalize = FinalizeStalledOut)\<rparr>"

definition producer_wait_failure :: "WorkerJoinResult \<Rightarrow> shared \<Rightarrow> shared" where
  "producer_wait_failure jr s =
     (if wait_failed jr
      then record_failure (HRESULT_FROM_WIN32 (last_error jr)) PhaseShutdown
             ''WaitForMultipleObjects failed during producer join'' s else s)"

definition finalize_wait_failure :: "FinalizeEnd \<Rightarrow> shared \<Rightarrow> shared" where
  "finalize_wait_failure finalize s = (case finalize of
       FinalizeWaitFailed e \<Rightarrow>
         record_failure (HRESULT_FROM_WIN32 e) PhaseShutdown ''WaitForSingleObject failed during finalize wait'' s
     | _ \<Rightarrow> s)"

end
