(* ===== verification/RecorderSession.thy ===== *)
theory RecorderSession
  imports SessionPolicies
begin

text \<open>
  \<open>RecorderSession\<close> (\<^verbatim>\<open>recorder_session.cpp\<close>): the state its workers share (\<open>SessionState\<close> in
  \<^verbatim>\<open>session_internal.h\<close>), the commands that reach a running recording, the callback gate of one recording
  (\<^verbatim>\<open>session_callback_gate.h\<close>) and the stages of one call of \<open>Record\<close>.

  A \<open>SessionState\<close> is reached through shared pointers: the session object keeps a list of every state it ever
  made, and a pointer is an index into it. A worker that was abandoned keeps its own.
\<close>

section \<open>The state shared with the workers\<close>

record SessionState =
  ss_shared :: shared
  capture_end_ns :: int
  caller_stop_requested :: bool
  stop_event :: bool
  pause_requested :: bool
  audio_mute_mask :: u32
  ss_paused_ns :: int
  measured_max_cll_nits :: u32
  measured_max_fall_nits :: u32
  size_split_armed :: bool
  mux_bytes_written :: u64
  snapshot_requested :: bool
  snapshot_callback :: "nat option"
  ss_stats :: SessionStats
  encode_width :: u32
  encode_height :: u32
  video_epoch_qpc_100ns :: u64
  audio_epoch_qpc_100ns :: "u64 list"
  webcam_overlay_sequence :: u64

definition kMuxQueuePacketLimit :: nat where "kMuxQueuePacketLimit = 2048"
definition kMuxQueueByteLimit :: nat where "kMuxQueueByteLimit = 256 * 1024 * 1024"

definition no_codec_data :: CodecPrivateData where
  "no_codec_data =
     \<lparr>av1_codec_private = [], av1_ready = False, h264_sps_pps = [], h264_ready = False, hevc_vps_sps_pps = [],
      hevc_ready = False, audio_codec_private = replicate kMaxAudioTracks \<lparr>slot_bytes = [], slot_delay_samples = 0\<rparr>,
      audio_track_ready = replicate kMaxAudioTracks False\<rparr>"

definition no_stats :: SessionStats where
  "no_stats = \<lparr>video_frames_captured = 0, output_file_bytes = 0, video_duration_ns = 0, audio_duration_ns = 0,
     aligned_audio_duration_ns = [0, 0, 0], elapsed_ns = 0, duration_skew_ns = 0\<rparr>"

definition fresh_shared :: shared where
  "fresh_shared = \<lparr>split_request = 0, mux_queue = [], mux_queue_bytes = 0,
     mux_queue_packet_limit = kMuxQueuePacketLimit, mux_queue_byte_limit = kMuxQueueByteLimit, video_premux = [],
     audio_premux = [], codec_private_data = no_codec_data, audio_tracks_expected = 0, session_failure = None,
     stop_requested = False\<rparr>"

definition fresh_state :: SessionState where
  "fresh_state = \<lparr>ss_shared = fresh_shared, capture_end_ns = 0, caller_stop_requested = False, stop_event = False,
     pause_requested = False, audio_mute_mask = 0, ss_paused_ns = 0, measured_max_cll_nits = 0,
     measured_max_fall_nits = 0, size_split_armed = False, mux_bytes_written = 0, snapshot_requested = False,
     snapshot_callback = None, ss_stats = no_stats, encode_width = 0, encode_height = 0, video_epoch_qpc_100ns = 0,
     audio_epoch_qpc_100ns = replicate kMaxAudioTracks 0, webcam_overlay_sequence = 0\<rparr>"

definition NoteCaptureEnded :: "int \<Rightarrow> SessionState \<Rightarrow> SessionState" where
  "NoteCaptureEnded now s = (if capture_end_ns s = 0 then s\<lparr>capture_end_ns := now\<rparr> else s)"

definition RequestCleanStop :: "int \<Rightarrow> SessionState \<Rightarrow> SessionState" where
  "RequestCleanStop now s =
     (let s = NoteCaptureEnded now s
      in s\<lparr>ss_shared := (ss_shared s)\<lparr>stop_requested := True\<rparr>, stop_event := True\<rparr>)"

text \<open>\<open>RecordFailure\<close> with all a stop carries; \<^const>\<open>record_failure\<close> is its part on the shared queue state.\<close>

definition fail_session :: "int \<Rightarrow> u32 \<Rightarrow> ErrorPhase \<Rightarrow> string \<Rightarrow> SessionState \<Rightarrow> SessionState" where
  "fail_session now hr phase detail s =
     RequestCleanStop now (s\<lparr>ss_shared := record_failure hr phase detail (ss_shared s)\<rparr>)"

definition HasFailure :: "SessionState \<Rightarrow> bool" where
  "HasFailure s \<longleftrightarrow> session_failure (ss_shared s) \<noteq> None"

definition ResetForNewRecording :: "SessionState \<Rightarrow> SessionState" where
  "ResetForNewRecording s =
     s\<lparr>capture_end_ns := 0, caller_stop_requested := False, pause_requested := False, audio_mute_mask := 0,
       ss_paused_ns := 0, size_split_armed := False, mux_bytes_written := 0, snapshot_requested := False,
       snapshot_callback := None, ss_stats := no_stats, encode_width := 0, encode_height := 0,
       video_epoch_qpc_100ns := 0, audio_epoch_qpc_100ns := replicate (length (audio_epoch_qpc_100ns s)) 0,
       ss_shared := (ss_shared s)\<lparr>split_request := 0, session_failure := None, video_premux := [],
         audio_premux := [], codec_private_data := no_codec_data, mux_queue := [], mux_queue_bytes := 0\<rparr>\<rparr>"

definition ResetStopRequestedForNewSession :: "bool \<Rightarrow> SessionState \<Rightarrow> SessionState" where
  "ResetStopRequestedForNewSession pre_stop s =
     s\<lparr>ss_shared := (ss_shared s)\<lparr>stop_requested := pre_stop\<rparr>, stop_event := pre_stop\<rparr>"

section \<open>The gate of one recording's callbacks\<close>

record SessionCallbackGate =
  gate_open :: bool
  in_flight :: nat

definition open_gate :: SessionCallbackGate where "open_gate = \<lparr>gate_open = True, in_flight = 0\<rparr>"

text \<open>A worker enters the gate to run a callback, and leaves it; \<open>None\<close>: the gate is closed, nothing runs.\<close>

definition enter_gate :: "SessionCallbackGate \<Rightarrow> SessionCallbackGate option" where
  "enter_gate g = (if gate_open g then Some (g\<lparr>in_flight := Suc (in_flight g)\<rparr>) else None)"

definition leave_gate :: "SessionCallbackGate \<Rightarrow> SessionCallbackGate" where
  "leave_gate g = g\<lparr>in_flight := in_flight g - 1\<rparr>"

text \<open>\<open>idle\<close>: the calls in flight ended within the bound.\<close>

definition close_gate :: "bool \<Rightarrow> SessionCallbackGate \<Rightarrow> bool \<times> SessionCallbackGate" where
  "close_gate idle g = (in_flight g = 0 \<or> idle, g\<lparr>gate_open := False\<rparr>)"

section \<open>The session object\<close>

record Impl =
  im_states :: "SessionState list"
  im_state :: nat
  workers_leaked :: bool
  pending_stop :: PendingStopTracker
  active_request :: RecordRequestId
  im_gates :: "SessionCallbackGate list"
  im_gate :: "nat option"
  recording :: bool

definition new_impl :: Impl where
  "new_impl = \<lparr>im_states = [fresh_state], im_state = 0, workers_leaked = False,
     pending_stop = \<lparr>pending = False, pending_request = kUnscopedRecordRequest\<rparr>,
     active_request = kUnscopedRecordRequest, im_gates = [], im_gate = None, recording = False\<rparr>"

definition on_state :: "nat \<Rightarrow> (SessionState \<Rightarrow> SessionState) \<Rightarrow> Impl \<Rightarrow> Impl" where
  "on_state i f m = m\<lparr>im_states := (im_states m)[i := f (im_states m ! i)]\<rparr>"

definition current_state :: "Impl \<Rightarrow> SessionState" where "current_state m = im_states m ! im_state m"

definition StateForRequest :: "RecordRequestId \<Rightarrow> Impl \<Rightarrow> nat option" where
  "StateForRequest request_id m =
     (if \<not> RecordRequestMatches (active_request m) request_id then None else Some (im_state m))"

definition Stop :: "int \<Rightarrow> RecordRequestId \<Rightarrow> Impl \<Rightarrow> Impl" where
  "Stop now request_id m =
     (if recording m \<and> \<not> RecordRequestMatches (active_request m) request_id then m
      else
        let m = m\<lparr>pending_stop := NoteStop (recording m) request_id (pending_stop m)\<rparr>
        in on_state (im_state m)
             (\<lambda>s. RequestCleanStop now (s\<lparr>pause_requested := False, caller_stop_requested := True\<rparr>)) m)"

definition Pause :: "RecordRequestId \<Rightarrow> Impl \<Rightarrow> Impl" where
  "Pause request_id m =
     (if \<not> RecordRequestMatches (active_request m) request_id then m
      else on_state (im_state m) (\<lambda>s. s\<lparr>pause_requested := True\<rparr>) m)"

definition Resume :: "RecordRequestId \<Rightarrow> Impl \<Rightarrow> Impl" where
  "Resume request_id m =
     (if \<not> RecordRequestMatches (active_request m) request_id then m
      else on_state (im_state m) (\<lambda>s. s\<lparr>pause_requested := False\<rparr>) m)"

definition mute_bits :: "AudioSourceKind \<Rightarrow> bool \<Rightarrow> u32 \<Rightarrow> u32" where
  "mute_bits kind muted muted_bits =
     (if muted then muted_bits OR AudioSourceKindBit kind else muted_bits AND NOT (AudioSourceKindBit kind))"

definition SetAudioSourceMuted :: "AudioSourceKind \<Rightarrow> bool \<Rightarrow> RecordRequestId \<Rightarrow> Impl \<Rightarrow> Impl" where
  "SetAudioSourceMuted kind muted request_id m = (case StateForRequest request_id m of
       None \<Rightarrow> m
     | Some st \<Rightarrow> on_state st (\<lambda>s. s\<lparr>audio_mute_mask := mute_bits kind muted (audio_mute_mask s)\<rparr>) m)"

definition RequestSegment :: "SplitTriggerSource \<Rightarrow> RecordRequestId \<Rightarrow> Impl \<Rightarrow> bool \<times> Impl" where
  "RequestSegment source request_id m =
     (let (taken, s) = RequestSplit source request_id (recording m) (active_request m) (ss_shared (current_state m))
      in (taken, if taken then on_state (im_state m) (\<lambda>st. st\<lparr>ss_shared := s\<rparr>) m else m))"

definition RequestFrameSnapshot :: "RecordRequestId \<Rightarrow> Impl \<Rightarrow> Impl" where
  "RequestFrameSnapshot request_id m =
     (if \<not> RecordRequestMatches (active_request m) request_id \<or> im_gate m = None then m
      else on_state (im_state m)
        (\<lambda>s. if snapshot_requested s then s else s\<lparr>snapshot_callback := im_gate m, snapshot_requested := True\<rparr>) m)"

section \<open>The stages of a recording\<close>

text \<open>A configuration that does not validate: a stop aimed at this call dies with it.\<close>

definition refuse_recording :: "RecordRequestId \<Rightarrow> Impl \<Rightarrow> Impl" where
  "refuse_recording request_id m = m\<lparr>pending_stop := snd (Consume request_id (pending_stop m))\<rparr>"

text \<open>The locked section: a fresh state behind an abandoned worker, then the reset. Returns \<open>pre_stop\<close>.\<close>

definition prepare_recording :: "RecordRequestId \<Rightarrow> nat \<Rightarrow> Impl \<Rightarrow> bool \<times> Impl" where
  "prepare_recording request_id tracks m =
     (let m = (if workers_leaked m
               then m\<lparr>im_states := im_states m @ [fresh_state], im_state := length (im_states m), workers_leaked := False\<rparr>
               else m);
          (pre_stop, tracker) = Consume request_id (pending_stop m);
          m = m\<lparr>active_request := request_id, pending_stop := tracker,
                im_gates := im_gates m @ [open_gate], im_gate := Some (length (im_gates m))\<rparr>;
          m = on_state (im_state m)
                (\<lambda>s. let s = ResetStopRequestedForNewSession pre_stop (ResetForNewRecording s)
                     in s\<lparr>ss_shared := (ss_shared s)\<lparr>audio_tracks_expected := tracks\<rparr>\<rparr>) m
      in (pre_stop, m))"

definition fail_prepare :: "Impl \<Rightarrow> Impl" where "fail_prepare m = m\<lparr>recording := False\<rparr>"

definition start_workers :: "Impl \<Rightarrow> Impl" where "start_workers m = m\<lparr>recording := True\<rparr>"

text \<open>
  After the waits: the leak is noted, a snapshot nobody served is answered, the gate is closed.
\<close>

definition drop_snapshot :: "SessionState \<Rightarrow> SessionState" where
  "drop_snapshot s = s\<lparr>snapshot_callback := None, snapshot_requested := False\<rparr>"

definition end_recording :: "bool \<Rightarrow> bool \<Rightarrow> Impl \<Rightarrow> Impl" where
  "end_recording any_leaked idle m =
     (let m = m\<lparr>recording := False\<rparr>;
          m = (if any_leaked then m\<lparr>workers_leaked := True\<rparr> else m);
          m = on_state (im_state m) drop_snapshot m
      in case im_gate m of
           None \<Rightarrow> m
         | Some g \<Rightarrow> m\<lparr>im_gates := (im_gates m)[g := snd (close_gate idle (im_gates m ! g))]\<rparr>)"

definition finish_recording :: "Impl \<Rightarrow> Impl" where
  "finish_recording m = m\<lparr>pending_stop := Clear (pending_stop m), active_request := kUnscopedRecordRequest\<rparr>"

definition any_leaked :: "session_joins \<Rightarrow> bool" where
  "any_leaked j \<longleftrightarrow> \<not> video_joined j \<or> \<not> mux_joined j \<or> (\<exists>joined \<in> set (audio_joined j). \<not> joined)"

section \<open>Callers, workers and the call of Record side by side\<close>

datatype session_command =
    CmdStop int RecordRequestId
  | CmdPause RecordRequestId
  | CmdResume RecordRequestId
  | CmdMute AudioSourceKind bool RecordRequestId
  | CmdSplit SplitTriggerSource RecordRequestId
  | CmdSnapshot RecordRequestId

definition give_command :: "session_command \<Rightarrow> Impl \<Rightarrow> Impl" where
  "give_command c m = (case c of
       CmdStop now r \<Rightarrow> Stop now r m
     | CmdPause r \<Rightarrow> Pause r m
     | CmdResume r \<Rightarrow> Resume r m
     | CmdMute kind muted r \<Rightarrow> SetAudioSourceMuted kind muted r m
     | CmdSplit source r \<Rightarrow> snd (RequestSegment source r m)
     | CmdSnapshot r \<Rightarrow> RequestFrameSnapshot r m)"

text \<open>Where the one call of \<open>Record\<close> stands; it carries \<open>pre_stop\<close>.\<close>

datatype record_call = NoCall | Preparing bool | Capturing bool | Closing bool

record worker =
  w_state :: nat
  w_gate :: nat

text \<open>
  \<open>workers\<close>: one entry for each recording of which a worker still runs, with the state and the gate it was given.
  \<open>given\<close>: the commands since the recording was prepared, each with whether the recording was on by then.
  \<open>raised\<close>: a worker of this recording raised the stop token.
  \<open>entered\<close>: the gates through which callbacks reached the caller, each with the gate of the call at that time.
\<close>

record session =
  impl :: Impl
  call :: record_call
  workers :: "worker set"
  given :: "(session_command \<times> bool) list"
  raised :: bool
  entered :: "(nat \<times> nat option) list"

definition idle_session :: session where
  "idle_session = \<lparr>impl = new_impl, call = NoCall, workers = {}, given = [], raised = False, entered = []\<rparr>"

text \<open>
  What a worker does to its state leaves the caller's controls alone; a stop and the first failure stay.
\<close>

definition worker_change :: "SessionState \<Rightarrow> SessionState \<Rightarrow> bool" where
  "worker_change s s' \<longleftrightarrow>
     (stop_requested (ss_shared s) \<longrightarrow> stop_requested (ss_shared s')) \<and>
     caller_stop_requested s' = caller_stop_requested s \<and> pause_requested s' = pause_requested s \<and>
     audio_mute_mask s' = audio_mute_mask s \<and>
     (HasFailure s \<longrightarrow> session_failure (ss_shared s') = session_failure (ss_shared s)) \<and>
     (capture_end_ns s \<noteq> 0 \<longrightarrow> capture_end_ns s' = capture_end_ns s)"

text \<open>The workers of the recording under way.\<close>

definition own :: "session \<Rightarrow> worker \<Rightarrow> bool" where
  "own c w \<longleftrightarrow> (case call c of Capturing _ \<Rightarrow> im_gate (impl c) = Some (w_gate w) | _ \<Rightarrow> False)"

inductive session_step :: "session \<Rightarrow> session \<Rightarrow> bool" where
  step_command: "session_step c (c\<lparr>impl := give_command cmd (impl c), given := given c @ [(cmd, recording (impl c))]\<rparr>)"
| step_refused: "call c = NoCall \<Longrightarrow> session_step c (c\<lparr>impl := refuse_recording r (impl c)\<rparr>)"
| step_prepared: "call c = NoCall \<Longrightarrow> prepare_recording r tracks (impl c) = (pre_stop, m) \<Longrightarrow>
    session_step c (c\<lparr>impl := m, call := Preparing pre_stop, given := [], raised := False\<rparr>)"
| step_unprepared: "call c = Preparing pre_stop \<Longrightarrow> session_step c (c\<lparr>impl := fail_prepare (impl c), call := NoCall\<rparr>)"
| step_started: "call c = Preparing pre_stop \<Longrightarrow> im_gate (impl c) = Some g \<Longrightarrow>
    session_step c (c\<lparr>impl := start_workers (impl c), call := Capturing pre_stop,
      workers := insert \<lparr>w_state = im_state (impl c), w_gate = g\<rparr> (workers c)\<rparr>)"
| step_worker: "w \<in> workers c \<Longrightarrow> worker_change (im_states (impl c) ! w_state w) s' \<Longrightarrow>
    session_step c (c\<lparr>impl := on_state (w_state w) (\<lambda>_. s') (impl c),
      raised := (raised c \<or> own c w \<and> stop_requested (ss_shared s') \<and>
        \<not> stop_requested (ss_shared (im_states (impl c) ! w_state w)))\<rparr>)"
| step_callback: "w \<in> workers c \<Longrightarrow> enter_gate (im_gates (impl c) ! w_gate w) = Some g \<Longrightarrow>
    session_step c (c\<lparr>impl := (impl c)\<lparr>im_gates := (im_gates (impl c))[w_gate w := g]\<rparr>,
      entered := entered c @ [(w_gate w, if call c = NoCall then None else im_gate (impl c))]\<rparr>)"
| step_callback_done: "w \<in> workers c \<Longrightarrow>
    session_step c (c\<lparr>impl := (impl c)\<lparr>im_gates :=
      (im_gates (impl c))[w_gate w := leave_gate (im_gates (impl c) ! w_gate w)]\<rparr>\<rparr>)"
| step_exit: "w \<in> workers c \<Longrightarrow> session_step c (c\<lparr>workers := workers c - {w}\<rparr>)"
| step_ended: "call c = Capturing pre_stop \<Longrightarrow>
    (leaked = False \<Longrightarrow> \<forall>w \<in> workers c. \<not> own c w) \<Longrightarrow>
    session_step c (c\<lparr>impl := end_recording leaked idle (impl c), call := Closing pre_stop\<rparr>)"
| step_returned: "call c = Closing pre_stop \<Longrightarrow>
    session_step c (c\<lparr>impl := finish_recording (impl c), call := NoCall\<rparr>)"

definition session_reachable :: "session \<Rightarrow> bool" where
  "session_reachable c \<longleftrightarrow> session_step\<^sup>*\<^sup>* idle_session c"

inductive_simps session_step_simps: "session_step c c'"

section \<open>The controls a recording's commands amount to\<close>

record controls =
  ctl_stop :: bool
  ctl_pause :: bool
  ctl_muted :: u32

definition controls_of :: "SessionState \<Rightarrow> controls" where
  "controls_of s = \<lparr>ctl_stop = caller_stop_requested s, ctl_pause = pause_requested s, ctl_muted = audio_mute_mask s\<rparr>"

text \<open>
  The specification: a command counts when it names the recording; a stop counts, whatever it names, while the
  recording is not on (its workers not started, or already waited for).
\<close>

definition control :: "RecordRequestId \<Rightarrow> controls \<Rightarrow> session_command \<times> bool \<Rightarrow> controls" where
  "control r ctl entry = (case entry of (cmd, started) \<Rightarrow> (case cmd of
       CmdStop _ q \<Rightarrow> if \<not> started \<or> RecordRequestMatches r q then ctl\<lparr>ctl_stop := True, ctl_pause := False\<rparr> else ctl
     | CmdPause q \<Rightarrow> if RecordRequestMatches r q then ctl\<lparr>ctl_pause := True\<rparr> else ctl
     | CmdResume q \<Rightarrow> if RecordRequestMatches r q then ctl\<lparr>ctl_pause := False\<rparr> else ctl
     | CmdMute kind muted q \<Rightarrow>
         if RecordRequestMatches r q then ctl\<lparr>ctl_muted := mute_bits kind muted (ctl_muted ctl)\<rparr> else ctl
     | _ \<Rightarrow> ctl))"

definition commanded :: "RecordRequestId \<Rightarrow> (session_command \<times> bool) list \<Rightarrow> controls" where
  "commanded r cmds = foldl (control r) \<lparr>ctl_stop = False, ctl_pause = False, ctl_muted = 0\<rparr> cmds"

end
