(* ===== verification/SessionGuarantees.thy ===== *)
theory SessionGuarantees
  imports RecorderSession
begin

text \<open>
  What the lemmas about a recording session show: the wait for the muxer against its specification; the result
  of a recording against the order of its causes; what a command and a stage of \<open>Record\<close> change; and the
  invariant that keeps an abandoned worker away from the recordings that follow its own.
\<close>

section \<open>The wait for the muxer\<close>

text \<open>
  The specification, over the samples taken so far, newest first: the time of the last one that saw more bytes
  than the one before it, or of the first of all.
\<close>

fun growth_time :: "(u64 \<times> u64) list \<Rightarrow> u64" where
  "growth_time [] = 0"
| "growth_time [s] = snd s"
| "growth_time (s # s' # older) = (if fst s' < fst s then snd s else growth_time (s' # older))"

definition stalled :: "u64 \<Rightarrow> (u64 \<times> u64) list \<Rightarrow> bool" where
  "stalled window samples \<longleftrightarrow> 2 \<le> length samples \<and> window \<le> ElapsedSince (growth_time samples) (snd (hd samples))"

definition sample_of :: "finalize_poll \<Rightarrow> u64 \<times> u64" where "sample_of p = (fp_bytes p, fp_elapsed_ms p)"

definition decisive :: "u64 \<Rightarrow> (u64 \<times> u64) list \<Rightarrow> finalize_poll list \<Rightarrow> nat \<Rightarrow> bool" where
  "decisive window past polls k \<longleftrightarrow>
     fp_wait (polls ! k) \<noteq> WaitTimeout \<or> stalled window (rev (map sample_of (take (Suc k) polls)) @ past)"

definition end_of :: "WaitResult \<Rightarrow> FinalizeEnd" where
  "end_of w = (case w of
     WaitSignaled \<Rightarrow> FinalizeJoined | WaitFailed e \<Rightarrow> FinalizeWaitFailed e | WaitTimeout \<Rightarrow> FinalizeStalledOut)"

definition finalize_end :: "u64 \<Rightarrow> (u64 \<times> u64) list \<Rightarrow> finalize_poll list \<Rightarrow> FinalizeEnd option" where
  "finalize_end window past polls =
     map_option (\<lambda>k. end_of (fp_wait (polls ! k))) (List.find (decisive window past polls) [0..<length polls])"

definition tracker_of :: "u64 \<Rightarrow> (u64 \<times> u64) list \<Rightarrow> FinalizeProgressTracker" where
  "tracker_of window samples =
     \<lparr>m_stall_window_ms = window, m_hard_cap_ms = 0, m_seeded = (samples \<noteq> []),
      m_start_ms = (if samples = [] then 0 else snd (List.last samples)), m_last_progress_ms = growth_time samples,
      m_last_bytes = (if samples = [] then 0 else fst (hd samples))\<rparr>"

lemma Observe_tracker:
  "Observe b now (tracker_of w samples) =
     (if stalled w ((b, now) # samples) then StalledAbort else KeepWaiting, tracker_of w ((b, now) # samples))"
  by (cases samples) (auto simp: Observe_def tracker_of_def stalled_def Let_def)

lemma find_shift: "List.find P (map f xs) = map_option f (List.find (P \<circ> f) xs)"
  by (induction xs) auto

lemma finalize_end_Cons:
  "finalize_end w past (p # polls) =
     (if fp_wait p \<noteq> WaitTimeout \<or> stalled w (sample_of p # past) then Some (end_of (fp_wait p))
      else finalize_end w (sample_of p # past) polls)"
proof -
  have range: "[0..<length (p # polls)] = 0 # map Suc [0..<length polls]"
    by (simp add: map_Suc_upt upt_conv_Cons del: upt_Suc)
  have "decisive w past (p # polls) \<circ> Suc = decisive w (sample_of p # past) polls"
    by (auto simp: decisive_def fun_eq_iff)
  then show ?thesis
    unfolding finalize_end_def range by (auto simp: find_shift decisive_def option.map_comp comp_def)
qed

lemma wait_for_finalize_end: "wait_for_finalize (tracker_of w past) polls = finalize_end w past polls"
proof (induction polls arbitrary: past)
  case Nil
  then show ?case by (simp add: finalize_end_def)
next
  case (Cons p polls)
  then show ?case
    by (cases "fp_wait p") (auto simp: finalize_end_Cons Observe_tracker sample_of_def end_of_def)
qed

lemma new_tracker_of: "new_tracker w 0 = tracker_of w []"
  by (simp add: new_tracker_def tracker_of_def)

lemma ElapsedSince_unat: "unat (ElapsedSince a b) = unat b - unat a"
  by (auto simp: ElapsedSince_def unat_sub word_less_nat_alt word_le_nat_alt)

text \<open>No growth since a sample, and a window has gone by: the wait is over.\<close>

lemma silent_growth:
  assumes "\<forall>i < n. fst (samples ! i) \<le> fst (samples ! Suc i)" "n < length samples"
  shows "growth_time samples = growth_time (drop n samples)"
  using assms
proof (induction samples arbitrary: n rule: growth_time.induct)
  case (3 s s' older)
  show ?case
  proof (cases n)
    case (Suc m)
    have "fst s \<le> fst s'" using "3.prems" Suc by force
    moreover have "growth_time (s' # older) = growth_time (drop m (s' # older))"
      using "3.prems" Suc calculation by (intro "3.IH") force+
    ultimately show ?thesis using Suc by (simp add: leD)
  qed simp
qed auto

lemma growth_time_member: "samples \<noteq> [] \<Longrightarrow> growth_time samples \<in> snd ` set samples"
  by (induction samples rule: growth_time.induct) auto

lemma ElapsedSince_antimono: "a \<le> b \<Longrightarrow> ElapsedSince b now \<le> ElapsedSince a now"
  by (simp add: word_le_nat_alt ElapsedSince_unat)

lemma silent_finalize_is_abandoned:
  assumes silent: "\<And>m. i \<le> m \<Longrightarrow> m < k \<Longrightarrow> fp_bytes (polls ! Suc m) \<le> fp_bytes (polls ! m)"
    and times: "sorted (map fp_elapsed_ms polls)" "i < k" "k < length polls"
    and window: "w \<le> ElapsedSince (fp_elapsed_ms (polls ! i)) (fp_elapsed_ms (polls ! k))"
  shows "finalize_end w [] polls \<noteq> None"
proof -
  define samples where "samples = rev (map sample_of (take (Suc k) polls))"
  have len: "length samples = Suc k" using times by (simp add: samples_def)
  have nth: "samples ! j = sample_of (polls ! (k - j))" if "j \<le> k" for j
    using that times by (simp add: samples_def rev_nth)
  have "growth_time samples = growth_time (drop (k - i) samples)"
  proof (rule silent_growth)
    show "\<forall>j < k - i. fst (samples ! j) \<le> fst (samples ! Suc j)"
    proof (intro allI impI)
      fix j assume "j < k - i"
      then show "fst (samples ! j) \<le> fst (samples ! Suc j)"
        using silent [of "k - Suc j"] by (simp add: nth sample_of_def Suc_diff_Suc)
    qed
  qed (use len times in simp)
  moreover have "drop (k - i) samples \<noteq> []" using len times by simp
  ultimately have "growth_time samples \<in> snd ` set (drop (k - i) samples)"
    using growth_time_member by metis
  then obtain j where j: "j < length (drop (k - i) samples)" "growth_time samples = snd (drop (k - i) samples ! j)"
    by (auto simp: in_set_conv_nth)
  then have "growth_time samples = fp_elapsed_ms (polls ! (i - j))" "j \<le> i"
    using len times by (auto simp: nth sample_of_def)
  then have "growth_time samples \<le> fp_elapsed_ms (polls ! i)"
    using times by (simp add: sorted_nth_mono [of "map fp_elapsed_ms polls" "i - j" i, simplified])
  then have "w \<le> ElapsedSince (growth_time samples) (fp_elapsed_ms (polls ! k))"
    using window ElapsedSince_antimono order_trans by blast
  moreover have "hd samples = sample_of (polls ! k)"
    using nth [of 0] len by (cases samples) auto
  ultimately have "decisive w [] polls k"
    using len times by (simp add: decisive_def stalled_def samples_def [symmetric] sample_of_def)
  then show ?thesis
    using times by (auto simp: finalize_end_def find_None_iff)
qed

lemma only_a_stall_abandons:
  assumes "finalize_end w [] polls = Some FinalizeStalledOut"
  shows "\<exists>k < length polls. stalled w (rev (map sample_of (take (Suc k) polls)))"
proof -
  obtain k where k: "List.find (decisive w [] polls) [0..<length polls] = Some k"
    "end_of (fp_wait (polls ! k)) = FinalizeStalledOut"
    using assms by (auto simp: finalize_end_def)
  then have "decisive w [] polls k" "k < length polls"
    by (auto simp: find_Some_iff)
  moreover have "fp_wait (polls ! k) = WaitTimeout"
    using k by (cases "fp_wait (polls ! k)") (auto simp: end_of_def)
  ultimately show ?thesis by (auto simp: decisive_def)
qed

section \<open>The result\<close>

text \<open>The causes in the order they are reported.\<close>

datatype Cause = CauseRecorded SessionFailure | CauseHang | CauseStall | CauseStoppedEarly | CauseNoFrames
| CauseNoOutput | CauseNone

definition cause_of :: "SessionFailure option \<Rightarrow> session_joins \<Rightarrow> bool \<Rightarrow> SessionStats \<Rightarrow> Cause" where
  "cause_of recorded j stopped_before_start st = (case recorded of
       Some f \<Rightarrow> CauseRecorded f
     | None \<Rightarrow>
         if \<not> producers_joined j then CauseHang
         else if \<not> mux_joined j then CauseStall
         else if video_frames_captured st = 0 then if stopped_before_start then CauseStoppedEarly else CauseNoFrames
         else if output_file_bytes st = 0 then CauseNoOutput
         else CauseNone)"

definition verdict_of :: "Cause \<Rightarrow> bool \<times> u32 \<times> ErrorPhase" where
  "verdict_of cause = (case cause of
       CauseRecorded f \<Rightarrow> (False, error_code f, error_phase f)
     | CauseHang \<Rightarrow> (False, HRESULT_FROM_WIN32 ERROR_TIMEOUT, PhaseShutdown)
     | CauseStall \<Rightarrow> (False, HRESULT_FROM_WIN32 ERROR_TIMEOUT, PhaseShutdown)
     | CauseStoppedEarly \<Rightarrow> (False, E_ABORT, PhasePrepare)
     | CauseNoFrames \<Rightarrow> (False, E_FAIL, PhaseVideoCapture)
     | CauseNoOutput \<Rightarrow> (False, E_FAIL, PhaseMux)
     | CauseNone \<Rightarrow> (True, 0, PhaseNone))"

definition result_verdict :: "RecorderResult \<Rightarrow> bool \<times> u32 \<times> ErrorPhase" where
  "result_verdict r = (res_succeeded r, res_error_code r, res_error_phase r)"

definition has_text :: "SessionFailure option \<Rightarrow> bool" where
  "has_text recorded \<longleftrightarrow> (case recorded of Some f \<Rightarrow> error_detail f \<noteq> [] | None \<Rightarrow> True)"

lemmas result_steps = build_result_def recorded_outcome_def with_shutdown_fault_def ClassifyShutdownFault_def
  with_missing_capture_def ClassifyMissingCapture_def ApplyMissingCaptureOutcome_def with_output_rule_def

lemma verdict_cause:
  assumes "has_text recorded"
  shows "result_verdict (build_result recorded j stopped backend captured st) = verdict_of (cause_of recorded j stopped st)"
proof (cases recorded)
  case None
  then show ?thesis
    by (simp add: result_steps result_verdict_def verdict_of_def cause_of_def Let_def word_greater_zero_iff)
next
  case (Some f)
  then show ?thesis using assms
    by (simp add: result_steps result_verdict_def verdict_of_def cause_of_def Let_def has_text_def)
qed

lemma hang_detail_not_empty [simp]: "hang_detail j \<noteq> []" "stall_detail j \<noteq> []"
  by (simp_all add: hang_detail_def stall_detail_def)

text \<open>A recording that failed says why.\<close>

lemma failure_has_detail:
  assumes "has_text recorded" "\<not> res_succeeded (build_result recorded j stopped backend captured st)"
  shows "res_error_detail (build_result recorded j stopped backend captured st) \<noteq> []"
  using assms
  by (cases recorded) (auto simp: result_steps Let_def has_text_def split: if_splits)

text \<open>The skew of the result compares the picture with the encoder's own clock, not with what was written.\<close>

lemma result_skew_reads_the_epoch_offset:
  "\<exists>st. ComputeDurationSkew (video_duration_ns st) (aligned_audio_duration_ns st) = Some 0 \<and>
     duration_skew_ns (with_result_skew st) = 200000000"
  by (rule exI [of _ "no_stats\<lparr>video_duration_ns := 10000000000, audio_duration_ns := 9800000000,
        aligned_audio_duration_ns := [10000000000, 0, 0]\<rparr>"])
    (simp add: ComputeDurationSkew_def with_result_skew_def no_stats_def ns_apart_def)

end
