(* ===== verification/SessionInterleaving.thy ===== *)
theory SessionInterleaving
  imports SessionGuarantees
begin

text \<open>
  Callers, workers and the call of \<open>Record\<close> side by side: what each step changes, and the invariants of every
  reachable session.
\<close>

section \<open>What a command changes\<close>

lemma on_state_frame [simp]:
  "im_state (on_state i f m) = im_state m" "workers_leaked (on_state i f m) = workers_leaked m"
  "pending_stop (on_state i f m) = pending_stop m" "active_request (on_state i f m) = active_request m"
  "im_gates (on_state i f m) = im_gates m" "im_gate (on_state i f m) = im_gate m"
  "recording (on_state i f m) = recording m" "length (im_states (on_state i f m)) = length (im_states m)"
  by (simp_all add: on_state_def)

lemma on_state_nth [simp]:
  "i < length (im_states m) \<Longrightarrow> im_states (on_state i f m) ! i = f (im_states m ! i)"
  "i \<noteq> j \<Longrightarrow> im_states (on_state i f m) ! j = im_states m ! j"
  by (simp_all add: on_state_def)

lemmas command_defs = give_command_def Stop_def Pause_def Resume_def SetAudioSourceMuted_def StateForRequest_def
  RequestSegment_def RequestFrameSnapshot_def

lemma give_command_frame [simp]:
  "im_state (give_command cmd m) = im_state m" "workers_leaked (give_command cmd m) = workers_leaked m"
  "active_request (give_command cmd m) = active_request m" "im_gates (give_command cmd m) = im_gates m"
  "im_gate (give_command cmd m) = im_gate m" "recording (give_command cmd m) = recording m"
  "length (im_states (give_command cmd m)) = length (im_states m)"
  by (cases cmd; auto simp: command_defs Let_def split: option.splits prod.splits)+

lemma give_command_other: "j \<noteq> im_state m \<Longrightarrow> im_states (give_command cmd m) ! j = im_states m ! j"
  by (cases cmd) (auto simp: command_defs on_state_def Let_def split: option.splits prod.splits)

definition stop_counts :: "RecordRequestId \<Rightarrow> session_command \<times> bool \<Rightarrow> bool" where
  "stop_counts r entry = (case entry of
       (CmdStop _ q, started) \<Rightarrow> \<not> started \<or> RecordRequestMatches r q | _ \<Rightarrow> False)"

lemma RequestCleanStop_controls [simp]:
  "controls_of (RequestCleanStop now s) = controls_of s"
  "stop_requested (ss_shared (RequestCleanStop now s))"
  by (simp_all add: RequestCleanStop_def NoteCaptureEnded_def controls_of_def Let_def)

lemma RequestSplit_keeps:
  "RequestSplit source q rec r s = (taken, s') \<Longrightarrow> stop_requested s' = stop_requested s"
  by (auto simp: RequestSplit_def split: if_splits)

lemma command_controls:
  assumes "im_state m < length (im_states m)"
  shows "controls_of (current_state (give_command cmd m)) =
      control (active_request m) (controls_of (current_state m)) (cmd, recording m)"
  using assms
  by (cases cmd)
    (auto simp: command_defs current_state_def control_def Let_def controls_of_def RequestCleanStop_def
      NoteCaptureEnded_def split: option.splits prod.splits if_splits)

lemma command_stop:
  assumes "im_state m < length (im_states m)"
  shows "stop_requested (ss_shared (current_state (give_command cmd m))) \<longleftrightarrow>
      stop_requested (ss_shared (current_state m)) \<or> stop_counts (active_request m) (cmd, recording m)"
  using assms
  by (cases cmd)
    (auto simp: command_defs current_state_def stop_counts_def Let_def RequestSplit_keeps
      split: option.splits prod.splits if_splits)

lemma commanded_snoc [simp]: "commanded r (cmds @ [entry]) = control r (commanded r cmds) entry"
  by (simp add: commanded_def)

lemma commanded_Nil: "commanded r [] = \<lparr>ctl_stop = False, ctl_pause = False, ctl_muted = 0\<rparr>"
  by (simp add: commanded_def)

lemma ctl_stop_control: "ctl_stop (control r ctl entry) \<longleftrightarrow> ctl_stop ctl \<or> stop_counts r entry"
  by (cases entry; cases "fst entry") (auto simp: control_def stop_counts_def)

section \<open>What the stages change\<close>

lemma worker_change_controls: "worker_change s s' \<Longrightarrow> controls_of s' = controls_of s"
  by (simp add: worker_change_def controls_of_def)

lemma prepared:
  assumes "prepare_recording r tracks m = (pre_stop, m')" "im_state m < length (im_states m)"
  shows "im_state m' < length (im_states m')" "\<not> workers_leaked m'" "active_request m' = r"
    "im_gates m' = im_gates m @ [open_gate]" "im_gate m' = Some (length (im_gates m))" "recording m' = recording m"
    "controls_of (current_state m') = commanded r []"
    "stop_requested (ss_shared (current_state m')) = pre_stop"
    "length (im_states m) \<le> length (im_states m')"
    "im_state m' = (if workers_leaked m then length (im_states m) else im_state m)"
    "pre_stop = fst (Consume r (pending_stop m))"
  using assms
  by (auto simp: prepare_recording_def Let_def current_state_def controls_of_def commanded_Nil
      ResetStopRequestedForNewSession_def ResetForNewRecording_def split: prod.splits if_splits)

lemma end_recording_frame [simp]:
  "im_state (end_recording leaked idle m) = im_state m"
  "workers_leaked (end_recording leaked idle m) = (leaked \<or> workers_leaked m)"
  "active_request (end_recording leaked idle m) = active_request m"
  "im_gate (end_recording leaked idle m) = im_gate m"
  "length (im_states (end_recording leaked idle m)) = length (im_states m)"
  "length (im_gates (end_recording leaked idle m)) = length (im_gates m)"
  by (simp_all add: end_recording_def Let_def split: option.splits)

lemma end_recording_controls:
  "im_state m < length (im_states m) \<Longrightarrow>
   controls_of (current_state (end_recording leaked idle m)) = controls_of (current_state m)"
  by (simp add: end_recording_def Let_def current_state_def drop_snapshot_def controls_of_def split: option.splits)

lemma end_recording_gates:
  assumes "im_gate m = Some g" "g < length (im_gates m)"
  shows "gate_open (im_gates (end_recording leaked idle m) ! j) \<longleftrightarrow> gate_open (im_gates m ! j) \<and> j \<noteq> g"
  using assms
  by (cases "j = g") (auto simp: end_recording_def Let_def close_gate_def)

section \<open>The invariants\<close>

lemma own_iff: "own c w \<longleftrightarrow> (\<exists>pre. call c = Capturing pre) \<and> im_gate (impl c) = Some (w_gate w)"
  by (simp add: own_def split: record_call.splits)

definition underway :: "session \<Rightarrow> bool" where
  "underway c \<longleftrightarrow> (\<exists>pre. call c = Preparing pre \<or> call c = Capturing pre)"

definition session_inv :: "session \<Rightarrow> bool" where
  "session_inv c \<longleftrightarrow>
     im_state (impl c) < length (im_states (impl c)) \<and>
     (\<forall>w \<in> workers c. w_state w < length (im_states (impl c)) \<and> w_gate w < length (im_gates (impl c))) \<and>
     (\<forall>g. im_gate (impl c) = Some g \<longrightarrow> g < length (im_gates (impl c))) \<and>
     (underway c \<longrightarrow> \<not> workers_leaked (impl c) \<and> im_gate (impl c) \<noteq> None) \<and>
     (\<forall>w \<in> workers c. \<not> own c w \<longrightarrow>
        \<not> gate_open (im_gates (impl c) ! w_gate w) \<and>
        (w_state w = im_state (impl c) \<longrightarrow> workers_leaked (impl c))) \<and>
     (\<forall>w \<in> workers c. own c w \<longrightarrow> w_state w = im_state (impl c)) \<and>
     (\<forall>pre. call c = Preparing pre \<longrightarrow> (\<forall>w \<in> workers c. im_gate (impl c) \<noteq> Some (w_gate w))) \<and>
     (call c \<noteq> NoCall \<longrightarrow> controls_of (current_state (impl c)) = commanded (active_request (impl c)) (given c)) \<and>
     (\<forall>pre. call c = Preparing pre \<or> call c = Capturing pre \<longrightarrow>
        (stop_requested (ss_shared (current_state (impl c))) \<longleftrightarrow>
           pre \<or> ctl_stop (commanded (active_request (impl c)) (given c)) \<or> raised c)) \<and>
     (\<forall>(g, now) \<in> set (entered c). now = Some g)"

lemma session_invI:
  assumes "im_state (impl c) < length (im_states (impl c))"
    and "\<And>w. w \<in> workers c \<Longrightarrow> w_state w < length (im_states (impl c)) \<and> w_gate w < length (im_gates (impl c))"
    and "\<And>g. im_gate (impl c) = Some g \<Longrightarrow> g < length (im_gates (impl c))"
    and "underway c \<Longrightarrow> \<not> workers_leaked (impl c) \<and> im_gate (impl c) \<noteq> None"
    and "\<And>w. w \<in> workers c \<Longrightarrow> \<not> own c w \<Longrightarrow> \<not> gate_open (im_gates (impl c) ! w_gate w)"
    and "\<And>w. w \<in> workers c \<Longrightarrow> \<not> own c w \<Longrightarrow> w_state w = im_state (impl c) \<Longrightarrow> workers_leaked (impl c)"
    and "\<And>w. w \<in> workers c \<Longrightarrow> own c w \<Longrightarrow> w_state w = im_state (impl c)"
    and "call c \<noteq> NoCall \<Longrightarrow> controls_of (current_state (impl c)) = commanded (active_request (impl c)) (given c)"
    and "\<And>pre. call c = Preparing pre \<or> call c = Capturing pre \<Longrightarrow>
        stop_requested (ss_shared (current_state (impl c))) \<longleftrightarrow>
           pre \<or> ctl_stop (commanded (active_request (impl c)) (given c)) \<or> raised c"
    and "\<And>g now. (g, now) \<in> set (entered c) \<Longrightarrow> now = Some g"
    and "\<And>w pre. call c = Preparing pre \<Longrightarrow> w \<in> workers c \<Longrightarrow> im_gate (impl c) \<noteq> Some (w_gate w)"
  shows "session_inv c"
  unfolding session_inv_def using assms by blast

lemma session_invD:
  assumes "session_inv c"
  shows "im_state (impl c) < length (im_states (impl c))"
    and "w \<in> workers c \<Longrightarrow> w_state w < length (im_states (impl c))"
    and "w \<in> workers c \<Longrightarrow> w_gate w < length (im_gates (impl c))"
    and "im_gate (impl c) = Some g \<Longrightarrow> g < length (im_gates (impl c))"
    and "underway c \<Longrightarrow> \<not> workers_leaked (impl c) \<and> im_gate (impl c) \<noteq> None"
    and "w \<in> workers c \<Longrightarrow> \<not> own c w \<Longrightarrow> \<not> gate_open (im_gates (impl c) ! w_gate w)"
    and "w \<in> workers c \<Longrightarrow> \<not> own c w \<Longrightarrow> w_state w = im_state (impl c) \<Longrightarrow> workers_leaked (impl c)"
    and "w \<in> workers c \<Longrightarrow> own c w \<Longrightarrow> w_state w = im_state (impl c)"
    and "call c \<noteq> NoCall \<Longrightarrow> controls_of (current_state (impl c)) = commanded (active_request (impl c)) (given c)"
    and "call c = Preparing pre \<or> call c = Capturing pre \<Longrightarrow>
        stop_requested (ss_shared (current_state (impl c))) \<longleftrightarrow>
           pre \<or> ctl_stop (commanded (active_request (impl c)) (given c)) \<or> raised c"
    and "(g, now) \<in> set (entered c) \<Longrightarrow> now = Some g"
    and "call c = Preparing pre \<Longrightarrow> w \<in> workers c \<Longrightarrow> im_gate (impl c) \<noteq> Some (w_gate w)"
  using assms unfolding session_inv_def by blast+

lemma inv_new: "session_inv idle_session"
  by (rule session_invI) (auto simp: idle_session_def new_impl_def underway_def)

lemma inv_command:
  assumes "session_inv c"
  shows "session_inv (c\<lparr>impl := give_command cmd (impl c), given := given c @ [(cmd, recording (impl c))]\<rparr>)"
  using session_invD [OF assms]
  by (intro session_invI)
    (simp_all add: own_iff underway_def command_controls command_stop ctl_stop_control, blast+)

lemma inv_refused:
  assumes "session_inv c"
  shows "session_inv (c\<lparr>impl := refuse_recording r (impl c)\<rparr>)"
  using session_invD [OF assms]
  by (intro session_invI) (simp_all add: own_iff underway_def refuse_recording_def current_state_def)

lemma inv_unprepared:
  assumes "session_inv c" "call c = Preparing pre_stop"
  shows "session_inv (c\<lparr>impl := fail_prepare (impl c), call := NoCall\<rparr>)"
  using session_invD [OF assms(1)] assms(2)
  by (intro session_invI) (simp_all add: own_iff underway_def fail_prepare_def current_state_def)

lemma inv_prepared:
  assumes inv: "session_inv c" and prep: "prepare_recording r tracks (impl c) = (pre_stop, m)" and idle: "call c = NoCall"
  shows "session_inv (c\<lparr>impl := m, call := Preparing pre_stop, given := [], raised := False\<rparr>)"
proof -
  note D = session_invD [OF inv]
  note P = prepared [OF prep D(1)]
  show ?thesis
  proof (rule session_invI, goal_cases)
    case (2 w)
    then have "w \<in> workers c" by simp
    then show ?case using D(2,3) [of w] P(4,9) by auto
  next
    case (5 w)
    then have w: "w \<in> workers c" by simp
    then have "\<not> gate_open (im_gates (impl c) ! w_gate w)" using D(6) idle by (simp add: own_iff)
    then show ?case using D(3) [OF w] P(4) by (simp add: nth_append)
  next
    case (6 w)
    then have w: "w \<in> workers c" by simp
    then have "w_state w = im_state (impl c) \<Longrightarrow> workers_leaked (impl c)" "w_state w < length (im_states (impl c))"
      using D(2,7) idle by (auto simp: own_iff)
    then show ?case using 6 P(10) by (auto split: if_splits)
  next
    case (11 w pre)
    then show ?case using D(3) [of w] P(5) by auto
  qed (use P D in \<open>auto simp: own_iff underway_def commanded_Nil\<close>)
qed

lemma inv_started:
  assumes inv: "session_inv c" and call: "call c = Preparing pre_stop" and gate: "im_gate (impl c) = Some g"
  shows "session_inv (c\<lparr>impl := start_workers (impl c), call := Capturing pre_stop,
      workers := insert \<lparr>w_state = im_state (impl c), w_gate = g\<rparr> (workers c)\<rparr>)"
proof -
  note D = session_invD [OF inv]
  have foreign: "\<not> own c w" for w using call by (simp add: own_iff)
  have away: "w_state w \<noteq> im_state (impl c)" if "w \<in> workers c" for w
    using D(5,7) that foreign call by (auto simp: underway_def)
  have held: "w_gate w \<noteq> g" if "w \<in> workers c" for w
    using D(12) [OF call that] gate by auto
  show ?thesis
  proof (rule session_invI, goal_cases)
    case (7 w)
    then have "w_gate w = g" using gate by (simp add: own_iff start_workers_def)
    moreover have "w = \<lparr>w_state = im_state (impl c), w_gate = g\<rparr> \<or> w \<in> workers c" using 7 by simp
    ultimately have "w = \<lparr>w_state = im_state (impl c), w_gate = g\<rparr>" using held by blast
    then show ?case by (simp add: start_workers_def)
  next
    case (9 pre)
    then show ?case using D(10) [of pre] call by (simp add: start_workers_def current_state_def)
  qed (use D foreign away call gate in \<open>auto simp: own_iff underway_def start_workers_def current_state_def\<close>)
qed

lemma inv_worker:
  assumes inv: "session_inv c" and w: "w \<in> workers c" and change: "worker_change (im_states (impl c) ! w_state w) s'"
  shows "session_inv (c\<lparr>impl := on_state (w_state w) (\<lambda>_. s') (impl c),
      raised := (raised c \<or> own c w \<and> stop_requested (ss_shared s') \<and>
        \<not> stop_requested (ss_shared (im_states (impl c) ! w_state w)))\<rparr>)"
    (is "session_inv ?c'")
proof -
  note D = session_invD [OF inv]
  have same: "controls_of (current_state (impl ?c')) = controls_of (current_state (impl c))"
    using D(1) worker_change_controls [OF change]
    by (cases "w_state w = im_state (impl c)") (auto simp: current_state_def)
  have stop: "stop_requested (ss_shared (current_state (impl ?c'))) \<longleftrightarrow>
      pre \<or> ctl_stop (commanded (active_request (impl ?c')) (given ?c')) \<or> raised ?c'"
    if call: "call c = Preparing pre \<or> call c = Capturing pre" for pre
  proof (cases "own c w")
    case True
    then have "w_state w = im_state (impl c)" using D(8) [OF w] by simp
    then show ?thesis
      using True D(1) D(10) [OF call] change by (auto simp: current_state_def worker_change_def)
  next
    case False
    then have "w_state w \<noteq> im_state (impl c)"
      using D(5) D(7) [OF w False] call by (auto simp: underway_def)
    then show ?thesis
      using False D(10) [OF call] by (auto simp: current_state_def)
  qed
  show ?thesis
    by (rule session_invI)
      (use D same stop in \<open>auto simp: own_iff underway_def\<close>)
qed

lemma gate_open_update:
  "j < length gates \<Longrightarrow> gate_open g = gate_open (gates ! j) \<Longrightarrow> gate_open (gates[j := g] ! i) = gate_open (gates ! i)"
  by (cases "i = j") auto

lemma enter_gate_open: "enter_gate g = Some g' \<Longrightarrow> gate_open g \<and> gate_open g'"
  by (auto simp: enter_gate_def split: if_splits)

lemma leave_gate_open [simp]: "gate_open (leave_gate g) = gate_open g"
  by (simp add: leave_gate_def)

lemma inv_gates:
  assumes inv: "session_inv c" and w: "w \<in> workers c" and same: "gate_open g = gate_open (im_gates (impl c) ! w_gate w)"
  shows "session_inv (c\<lparr>impl := (impl c)\<lparr>im_gates := (im_gates (impl c))[w_gate w := g]\<rparr>\<rparr>)"
proof -
  note D = session_invD [OF inv]
  note keep = gate_open_update [where gates = "im_gates (impl c)", OF D(3) [OF w] same]
  show ?thesis
    by (rule session_invI) (use D keep in \<open>auto simp: own_iff underway_def current_state_def\<close>)
qed

lemma inv_entered:
  assumes "session_inv c" "now = Some g"
  shows "session_inv (c\<lparr>entered := entered c @ [(g, now)]\<rparr>)"
  using session_invD [OF assms(1)] assms(2)
  by (intro session_invI) (auto simp: own_iff underway_def)

lemma inv_exit:
  assumes "session_inv c"
  shows "session_inv (c\<lparr>workers := workers c - {w}\<rparr>)"
  using session_invD [OF assms]
  by (intro session_invI) (auto simp: own_iff underway_def)

lemma inv_ended:
  assumes inv: "session_inv c" and call: "call c = Capturing pre_stop"
    and joined: "leaked = False \<Longrightarrow> \<forall>w \<in> workers c. \<not> own c w"
  shows "session_inv (c\<lparr>impl := end_recording leaked idle (impl c), call := Closing pre_stop\<rparr>)"
proof -
  note D = session_invD [OF inv]
  obtain g where g: "im_gate (impl c) = Some g" using D(5) call by (auto simp: underway_def)
  note gates = end_recording_gates [OF g D(4) [OF g]]
  show ?thesis
  proof (rule session_invI, goal_cases)
    case (5 w)
    then show ?case using D(6) [of w] call g by (auto simp: own_iff gates)
  next
    case (6 w)
    then show ?case using D(7) [of w] joined call g by (cases leaked) (auto simp: own_iff)
  next
    case 8
    then show ?case using D(1) D(9) call by (simp add: end_recording_controls)
  qed (use D call in \<open>auto simp: own_iff underway_def\<close>)
qed

lemma inv_returned:
  assumes "session_inv c" "call c = Closing pre_stop"
  shows "session_inv (c\<lparr>impl := finish_recording (impl c), call := NoCall\<rparr>)"
  using session_invD [OF assms(1)] assms(2)
  by (intro session_invI) (simp_all add: own_iff underway_def finish_recording_def current_state_def)

lemma inv_step: "session_step c c' \<Longrightarrow> session_inv c \<Longrightarrow> session_inv c'"
proof (induction rule: session_step.induct)
  case (step_callback w c g)
  note D = session_invD [OF step_callback.prems]
  have "own c w" using D(6) [OF step_callback.hyps(1)] enter_gate_open [OF step_callback.hyps(2)] by blast
  then have now: "(if call c = NoCall then None else im_gate (impl c)) = Some (w_gate w)" by (auto simp: own_iff)
  have "gate_open g = gate_open (im_gates (impl c) ! w_gate w)" using enter_gate_open [OF step_callback.hyps(2)] by simp
  from inv_entered [OF inv_gates [OF step_callback.prems step_callback.hyps(1) this] now]
  show ?case by simp
qed (auto intro: inv_command inv_refused inv_prepared inv_unprepared inv_started inv_worker inv_gates inv_exit
    inv_ended inv_returned)

lemma reachable_session_inv: "session_reachable c \<Longrightarrow> session_inv c"
proof -
  assume "session_reachable c"
  then have "session_step\<^sup>*\<^sup>* idle_session c" by (simp add: session_reachable_def)
  then show ?thesis by (induction rule: rtranclp_induct) (auto intro: inv_new inv_step)
qed

lemma session_reachable_idle: "session_reachable idle_session"
  by (simp add: session_reachable_def)

lemma session_reachable_step: "session_reachable c \<Longrightarrow> session_step c c' \<Longrightarrow> session_reachable c'"
  by (simp add: session_reachable_def rtranclp.rtrancl_into_rtrancl)

section \<open>What a recording inherits\<close>

text \<open>
  A state used again starts like a fresh one, but for the queue bounds, the counter of webcam updates and the
  measured light levels.
\<close>

lemma reset_is_fresh:
  assumes "length (audio_epoch_qpc_100ns s) = kMaxAudioTracks"
  shows "ResetStopRequestedForNewSession pre_stop (ResetForNewRecording s) =
    ResetStopRequestedForNewSession pre_stop
      (fresh_state\<lparr>measured_max_cll_nits := measured_max_cll_nits s, measured_max_fall_nits := measured_max_fall_nits s,
        webcam_overlay_sequence := webcam_overlay_sequence s,
        ss_shared := fresh_shared\<lparr>mux_queue_packet_limit := mux_queue_packet_limit (ss_shared s),
          mux_queue_byte_limit := mux_queue_byte_limit (ss_shared s),
          audio_tracks_expected := audio_tracks_expected (ss_shared s)\<rparr>\<rparr>)"
  using assms
  by (simp add: ResetStopRequestedForNewSession_def ResetForNewRecording_def fresh_state_def fresh_shared_def)

text \<open>The levels of one recording stand when the next one starts.\<close>

lemma levels_outlive_their_recording:
  assumes "prepare_recording r tracks m = (pre_stop, m')" "\<not> workers_leaked m" "im_state m < length (im_states m)"
  shows "measured_max_cll_nits (current_state m') = measured_max_cll_nits (current_state m)"
    "measured_max_fall_nits (current_state m') = measured_max_fall_nits (current_state m)"
  using assms
  by (auto simp: prepare_recording_def Let_def current_state_def ResetStopRequestedForNewSession_def
      ResetForNewRecording_def split: prod.splits)

text \<open>
  A stop for another recording, given while this one prepares, ends it; and one given between a stop and the
  recording that stop names takes its place.
\<close>

lemma stray_stop_in_preparation:
  assumes "\<not> recording m" "im_state m < length (im_states m)"
  shows "stop_requested (ss_shared (current_state (Stop now q m)))"
  using assms by (simp add: Stop_def Let_def current_state_def)

lemma pending_stop_is_displaced:
  assumes "\<not> recording m" "\<not> RecordRequestMatches r q"
  shows "\<not> fst (Consume r (pending_stop (Stop later q (Stop now r m))))"
  using assms by (simp add: Stop_def Let_def NoteStop_def Consume_def)

end
