(* ===== verification/PacingGuarantees.thy ===== *)
theory PacingGuarantees
  imports FramePacing
begin

text \<open>
  What the lemmas about pacing show: the choice for a slot is the fresh frame nearest to it; the ring of captures
  is a queue whose frames are each emitted, dropped or still there; the held screen shows the last emitted frame;
  a resynchronised clock is one budget behind; the gaps of an audio source are the frames its device lost.
\<close>

section \<open>The frame nearest to a slot\<close>

lemma nearest_from:
  "(nearest slot ring i best chosen = chosen \<and> (\<forall>p \<in> set ring. best \<le> slot_distance slot p)) \<or>
   (\<exists>k < length ring. nearest slot ring i best chosen = i + k \<and> slot_distance slot (ring ! k) < best \<and>
      (\<forall>p \<in> set ring. slot_distance slot (ring ! k) \<le> slot_distance slot p))"
proof (induction ring arbitrary: i best chosen)
  case (Cons p rest)
  show ?case
  proof (cases "slot_distance slot p < best")
    case True
    from Cons [of "Suc i" "slot_distance slot p" i] show ?thesis
    proof
      assume "nearest slot rest (Suc i) (slot_distance slot p) i = i \<and>
        (\<forall>p' \<in> set rest. slot_distance slot p \<le> slot_distance slot p')"
      then show ?thesis using True by (intro disjI2 exI [of _ 0]) simp
    next
      assume "\<exists>k < length rest. nearest slot rest (Suc i) (slot_distance slot p) i = Suc i + k \<and>
        slot_distance slot (rest ! k) < slot_distance slot p \<and>
        (\<forall>p' \<in> set rest. slot_distance slot (rest ! k) \<le> slot_distance slot p')"
      then obtain k where "k < length rest" "nearest slot rest (Suc i) (slot_distance slot p) i = Suc i + k"
        "slot_distance slot (rest ! k) < slot_distance slot p"
        "\<forall>p' \<in> set rest. slot_distance slot (rest ! k) \<le> slot_distance slot p'" by blast
      then show ?thesis using True by (intro disjI2 exI [of _ "Suc k"]) (auto dest: less_trans)
    qed
  next
    case False
    from Cons [of "Suc i" best chosen] show ?thesis
    proof
      assume "nearest slot rest (Suc i) best chosen = chosen \<and> (\<forall>p' \<in> set rest. best \<le> slot_distance slot p')"
      then show ?thesis using False by (simp add: not_less leD)
    next
      assume "\<exists>k < length rest. nearest slot rest (Suc i) best chosen = Suc i + k \<and>
        slot_distance slot (rest ! k) < best \<and>
        (\<forall>p' \<in> set rest. slot_distance slot (rest ! k) \<le> slot_distance slot p')"
      then obtain k where "k < length rest" "nearest slot rest (Suc i) best chosen = Suc i + k"
        "slot_distance slot (rest ! k) < best"
        "\<forall>p' \<in> set rest. slot_distance slot (rest ! k) \<le> slot_distance slot p'" by blast
      then show ?thesis using False by (intro disjI2 exI [of _ "Suc k"]) (auto simp: not_less leD)
    qed
  qed
qed simp

lemma first_fresh_le: "first_fresh e ring \<le> length ring"
  by (induction ring) auto

lemma first_fresh_stale: "i < first_fresh e ring \<Longrightarrow> ring ! i \<le> e"
  by (induction ring arbitrary: i) (auto simp: nth_Cons' not_less split: if_splits)

lemma first_fresh_fresh: "first_fresh e ring < length ring \<Longrightarrow> e < ring ! first_fresh e ring"
  by (induction ring) (auto split: if_splits)

lemma select_nearest:
  assumes "pd_emit (SelectFrameForSlot ring slot e Smooth)"
  defines "k \<equiv> pd_index (SelectFrameForSlot ring slot e Smooth)"
  shows "first_fresh e ring \<le> k" "k < length ring"
    "\<And>i. first_fresh e ring \<le> i \<Longrightarrow> i < length ring \<Longrightarrow> slot_distance slot (ring ! k) \<le> slot_distance slot (ring ! i)"
    "pd_newly_dropped (SelectFrameForSlot ring slot e Smooth) = of_nat (k - first_fresh e ring)"
proof -
  define f where "f = first_fresh e ring"
  have f: "f < length ring"
    using assms(1) first_fresh_le [of e ring] by (auto simp: SelectFrameForSlot_def duplicate_def Let_def f_def split: if_splits)
  have k: "k = nearest slot (drop f ring) f (- 1) f"
    using f by (simp add: k_def SelectFrameForSlot_def Let_def flip: f_def)
  show "pd_newly_dropped (SelectFrameForSlot ring slot e Smooth) = of_nat (k - first_fresh e ring)"
    using f by (simp add: k_def SelectFrameForSlot_def Let_def flip: f_def)
  have best: "\<exists>j < length (drop f ring). k = f + j \<and>
      (\<forall>p \<in> set (drop f ring). slot_distance slot (drop f ring ! j) \<le> slot_distance slot p)"
    using nearest_from [of slot "drop f ring" f "- 1" f]
  proof
    assume a: "nearest slot (drop f ring) f (- 1) f = f \<and> (\<forall>p \<in> set (drop f ring). - 1 \<le> slot_distance slot p)"
    then have "\<forall>p \<in> set (drop f ring). slot_distance slot p = - 1" by (auto intro: order.antisym)
    then show ?thesis using a f k by (intro exI [of _ 0]) auto
  next
    assume "\<exists>j < length (drop f ring). nearest slot (drop f ring) f (- 1) f = f + j \<and>
      slot_distance slot (drop f ring ! j) < - 1 \<and>
      (\<forall>p \<in> set (drop f ring). slot_distance slot (drop f ring ! j) \<le> slot_distance slot p)"
    then show ?thesis using k by blast
  qed
  then obtain j where j: "j < length ring - f" "k = f + j"
    "\<forall>p \<in> set (drop f ring). slot_distance slot (ring ! k) \<le> slot_distance slot p" using f by auto
  show "first_fresh e ring \<le> k" "k < length ring" using j by (auto simp: f_def)
  fix i assume "first_fresh e ring \<le> i" "i < length ring"
  then have "ring ! i \<in> set (drop f ring)"
    using f by (auto simp: f_def in_set_conv_nth intro: exI [of _ "i - first_fresh e ring"])
  then show "slot_distance slot (ring ! k) \<le> slot_distance slot (ring ! i)" using j by blast
qed

lemma select_emits: "pd_emit (SelectFrameForSlot ring slot e mode) \<longleftrightarrow> first_fresh e ring < length ring"
  using first_fresh_le [of e ring] by (auto simp: SelectFrameForSlot_def duplicate_def Let_def)

lemma select_duplicate: "\<not> pd_emit (SelectFrameForSlot ring slot e mode) \<Longrightarrow> pd_newly_dropped (SelectFrameForSlot ring slot e mode) = 0"
  by (auto simp: SelectFrameForSlot_def duplicate_def Let_def split: if_splits)

section \<open>The ring is a queue\<close>

definition queue_of :: "capture_ring \<Rightarrow> u64 list" where "queue_of r = rotate (ringHead r) (ring_qpc r)"

definition waiting :: "capture_ring \<Rightarrow> u64 list" where "waiting r = filter (\<lambda>q. q \<noteq> 0) (queue_of r)"

definition ring_inv :: "capture_ring \<Rightarrow> bool" where
  "ring_inv r \<longleftrightarrow>
     ringHead r < length (ring_qpc r) \<and> length (ring_tex r) = length (ring_qpc r) \<and>
     length (ring_qpc r) < 2 ^ 32 \<and> distinct (odCapturedTex r # ring_tex r) \<and>
     sorted_wrt (<) (waiting r) \<and> (\<forall>q \<in> set (waiting r). lastEmittedPresentQpc r < q) \<and>
     (\<forall>i < length (ring_qpc r). ring_qpc r ! i \<noteq> 0 \<longrightarrow> tex_shows r (ring_tex r ! i) = ring_qpc r ! i)"

lemma rotate_write:
  assumes "h < length xs"
  shows "rotate (Suc h mod length xs) (xs[h := x]) = tl (rotate h xs) @ [x]"
proof -
  have "rotate h xs = drop h xs @ take h xs" using assms by (simp add: rotate_drop_take)
  then have tail: "tl (rotate h xs) = drop (Suc h) xs @ take h xs"
    using assms by (simp add: drop_Suc tl_drop)
  have turn: "rotate (Suc h mod length xs) (xs[h := x]) = rotate (Suc h) (xs[h := x])"
    by (metis length_list_update rotate_conv_mod)
  have "xs[h := x] = (take h xs @ [x]) @ drop (Suc h) xs"
    using assms by (simp add: upd_conv_take_nth_drop)
  then have "rotate (Suc h) (xs[h := x]) = rotate (Suc h) ((take h xs @ [x]) @ drop (Suc h) xs)" by simp
  also have "rotate (Suc h) ((take h xs @ [x]) @ drop (Suc h) xs) = drop (Suc h) xs @ take h xs @ [x]"
    using rotate_append [of "take h xs @ [x]" "drop (Suc h) xs"] assms by simp
  finally show ?thesis by (simp add: tail turn)
qed

lemma hd_rotate: "h < length xs \<Longrightarrow> hd (rotate h xs) = xs ! h"
  by (simp add: rotate_drop_take hd_drop_conv_nth)

lemma set_queue [simp]: "set (queue_of r) = set (ring_qpc r)" by (simp add: queue_of_def)

lemma live_presents: "map (\<lambda>phys. ring_qpc r ! phys) (live_slots r) = waiting r"
proof -
  have "map (\<lambda>phys. ring_qpc r ! phys) (map (\<lambda>i. (ringHead r + i) mod length (ring_qpc r)) [0..<length (ring_qpc r)]) =
      queue_of r"
    unfolding queue_of_def by (rule nth_equalityI) (simp_all add: nth_rotate)
  then show ?thesis
    by (simp only: waiting_def live_slots_def filter_map comp_def flip: \<open>_ = queue_of r\<close>)
qed

lemma live_slot: "phys \<in> set (live_slots r) \<Longrightarrow> phys < length (ring_qpc r) \<and> ring_qpc r ! phys \<noteq> 0"
  by (auto simp: live_slots_def intro!: mod_less_divisor)

lemma length_live [simp]: "length (live_slots r) = length (waiting r)"
  by (metis live_presents length_map)

lemma waiting_short: "length (waiting r) \<le> length (ring_qpc r)"
  by (metis waiting_def queue_of_def length_filter_le length_rotate)

lemma ring_present_step:
  assumes inv: "ring_inv r" and q: "\<forall>p \<in> set (waiting r). p < q" "lastEmittedPresentQpc r < q"
  defines "r' \<equiv> ring_present q r"
  shows "ring_inv r'" "lastEmittedPresentQpc r' = lastEmittedPresentQpc r" "odCapturedTex r' = odCapturedTex r"
    "tex_shows r' (odCapturedTex r) = tex_shows r (odCapturedTex r)" "set (waiting r') \<subseteq> insert q (set (waiting r))"
    "1 + of_nat (length (waiting r)) + droppedFrames r = of_nat (length (waiting r')) + droppedFrames r'"
proof -
  have head: "ringHead r < length (ring_qpc r)" "q \<noteq> 0" using inv q(2) by (auto simp: ring_inv_def)
  have keeps: "lastEmittedPresentQpc r' = lastEmittedPresentQpc r" "odCapturedTex r' = odCapturedTex r"
    "ring_tex r' = ring_tex r" "ring_qpc r' = (ring_qpc r)[ringHead r := q]"
    "ringHead r' = Suc (ringHead r) mod length (ring_qpc r)"
    "tex_shows r' = (tex_shows r)(ring_tex r ! ringHead r := q)"
    by (simp_all add: r'_def ring_present_def Let_def)
  then show "lastEmittedPresentQpc r' = lastEmittedPresentQpc r" "odCapturedTex r' = odCapturedTex r" by simp_all
  have queue: "queue_of r' = tl (queue_of r) @ [q]"
    using rotate_write [OF head(1), of q] by (simp add: queue_of_def keeps)
  have split: "queue_of r = ring_qpc r ! ringHead r # tl (queue_of r)"
    using head(1) by (metis queue_of_def hd_rotate list.collapse rotate_is_Nil_conv length_0_conv not_less0)
  have wait: "waiting r' = filter (\<lambda>q. q \<noteq> 0) (tl (queue_of r)) @ [q]"
    using head(2) by (simp add: waiting_def queue)
  have old: "waiting r = (if ring_qpc r ! ringHead r \<noteq> 0 then [ring_qpc r ! ringHead r] else []) @
      filter (\<lambda>q. q \<noteq> 0) (tl (queue_of r))"
    by (subst waiting_def, subst split) simp
  show "set (waiting r') \<subseteq> insert q (set (waiting r))" unfolding wait old by auto
  have away: "odCapturedTex r \<noteq> ring_tex r ! ringHead r"
    using inv head by (auto simp: ring_inv_def in_set_conv_nth)
  then show "tex_shows r' (odCapturedTex r) = tex_shows r (odCapturedTex r)" by (simp add: keeps)
  have "\<forall>i < length (ring_qpc r). ring_qpc r' ! i \<noteq> 0 \<longrightarrow> tex_shows r' (ring_tex r' ! i) = ring_qpc r' ! i"
  proof (intro allI impI)
    fix i assume i: "i < length (ring_qpc r)" "ring_qpc r' ! i \<noteq> 0"
    show "tex_shows r' (ring_tex r' ! i) = ring_qpc r' ! i"
    proof (cases "i = ringHead r")
      case False
      then have "ring_tex r ! i \<noteq> ring_tex r ! ringHead r"
        using inv head i by (auto simp: ring_inv_def nth_eq_iff_index_eq)
      then show ?thesis using False i inv by (simp add: keeps ring_inv_def)
    qed (use head in \<open>simp add: keeps\<close>)
  qed
  moreover have "sorted_wrt (<) (waiting r')"
    using inv q unfolding wait old by (auto simp: ring_inv_def old sorted_wrt_append split: if_splits)
  moreover have "\<forall>p \<in> set (waiting r'). lastEmittedPresentQpc r < p"
    using inv q unfolding wait by (auto simp: ring_inv_def old)
  moreover have "ringHead r' < length (ring_qpc r')" using head by (auto simp: keeps intro!: mod_less_divisor)
  ultimately show "ring_inv r'" using inv by (simp add: ring_inv_def keeps)
  have "droppedFrames r' = droppedFrames r + (if ring_qpc r ! ringHead r \<noteq> 0 then 1 else 0)"
    using inv old by (auto simp: r'_def ring_present_def Let_def ring_inv_def)
  then show "1 + of_nat (length (waiting r)) + droppedFrames r = of_nat (length (waiting r')) + droppedFrames r'"
    by (simp add: wait old)
qed

lemma fresh_queue: "\<forall>q \<in> set ring. e < q \<Longrightarrow> first_fresh e ring = 0"
  by (cases ring) auto

lemma drop_emitted:
  assumes "sorted_wrt (<) ring" "k < length ring"
  shows "filter (\<lambda>q. \<not> q \<le> ring ! k) ring = drop (Suc k) (ring :: 'a :: linorder list)"
  using assms
proof (induction ring arbitrary: k)
  case (Cons p ring)
  show ?case
  proof (cases k)
    case 0
    then show ?thesis using Cons.prems by (simp add: filter_id_conv not_le)
  next
    case (Suc j)
    then have "p < ring ! j" using Cons.prems by simp
    then show ?thesis using Suc Cons by (simp add: less_imp_le)
  qed
qed simp

lemma ring_tick_step:
  assumes inv: "ring_inv r" and tick: "ring_tick slot r = (emitted, r')"
  shows "case emitted of
      None \<Rightarrow> r' = r
    | Some q \<Rightarrow> q \<in> set (waiting r) \<and> lastEmittedPresentQpc r < q \<and> lastEmittedPresentQpc r' = q \<and> ring_inv r' \<and>
        tex_shows r' (odCapturedTex r') = q \<and> set (waiting r') \<subseteq> set (waiting r) \<and>
        of_nat (length (waiting r)) + droppedFrames r = 1 + of_nat (length (waiting r')) + droppedFrames r'"
proof -
  define dec where "dec = SelectFrameForSlot (waiting r) slot (lastEmittedPresentQpc r) Smooth"
  have fresh: "first_fresh (lastEmittedPresentQpc r) (waiting r) = 0"
    using inv by (intro fresh_queue) (simp add: ring_inv_def)
  show ?thesis
  proof (cases "pd_emit dec")
    case False
    then have "pd_newly_dropped dec = 0" by (simp add: dec_def select_duplicate)
    then show ?thesis using tick False
      by (auto simp: ring_tick_def Let_def live_presents simp flip: dec_def)
  next
    case True
    define k where "k = pd_index dec"
    define q where "q = waiting r ! k"
    define phys where "phys = live_slots r ! k"
    have k: "k < length (waiting r)" "pd_newly_dropped dec = of_nat k"
      using select_nearest(2,4) [of "waiting r" slot "lastEmittedPresentQpc r"] True fresh
      by (simp_all add: dec_def k_def)
    have phys: "phys < length (ring_qpc r)" "ring_qpc r ! phys = q"
    proof -
      have "phys \<in> set (live_slots r)" using k by (simp add: phys_def)
      then show "phys < length (ring_qpc r)" using live_slot by blast
      have "map (\<lambda>phys. ring_qpc r ! phys) (live_slots r) ! k = ring_qpc r ! phys" using k by (simp add: phys_def)
      then show "ring_qpc r ! phys = q" by (simp add: live_presents q_def)
    qed
    define zap where "zap = (\<lambda>p. if p \<noteq> 0 \<and> p \<le> q then 0 else p)"
    have step: "emitted = Some q" "lastEmittedPresentQpc r' = q" "ring_qpc r' = map zap (ring_qpc r)"
      "ringHead r' = ringHead r" "ring_tex r' = (ring_tex r)[phys := odCapturedTex r]"
      "odCapturedTex r' = ring_tex r ! phys" "tex_shows r' = tex_shows r"
      "droppedFrames r' = droppedFrames r + ucast (pd_newly_dropped dec)"
      using tick True
      by (auto simp: ring_tick_def Let_def live_presents AdoptEmittedAsHeldScreen_def zap_def q_def k_def phys_def
          simp flip: dec_def)
    have member: "q \<in> set (waiting r)" using k by (simp add: q_def)
    then have newer: "lastEmittedPresentQpc r < q" using inv by (simp add: ring_inv_def)
    have "filter (\<lambda>p. p \<noteq> 0) (map zap xs) = filter (\<lambda>p. \<not> p \<le> q) (filter (\<lambda>p. p \<noteq> 0) xs)" for xs
      by (induction xs) (auto simp: zap_def)
    then have wait: "waiting r' = drop (Suc k) (waiting r)"
      using drop_emitted [of "waiting r" k] inv k
      by (simp add: waiting_def queue_of_def step rotate_map ring_inv_def q_def)
    have "q \<noteq> 0" using newer by auto
    then have shown: "tex_shows r (ring_tex r ! phys) = q" using inv phys by (simp add: ring_inv_def)
    have count: "of_nat (length (waiting r)) = 1 + of_nat (length (waiting r')) + (of_nat k :: u64)"
      using k by (simp add: wait of_nat_diff)
    have "k < 2 ^ 32" using k waiting_short [of r] inv by (auto simp: ring_inv_def)
    then have "ucast (of_nat k :: u32) = (of_nat k :: u64)" by (simp add: unsigned_of_nat take_bit_nat_eq_self)
    then have dropped: "of_nat (length (waiting r)) + droppedFrames r = 1 + of_nat (length (waiting r')) + droppedFrames r'"
      using count by (simp add: step k)
    have lens: "length (ring_tex r) = length (ring_qpc r)" "distinct (odCapturedTex r # ring_tex r)"
      using inv by (auto simp: ring_inv_def)
    have away: "\<And>i. i < length (ring_qpc r) \<Longrightarrow> i \<noteq> phys \<Longrightarrow> ring_tex r ! i \<noteq> ring_tex r ! phys"
      using lens phys by (auto simp: nth_eq_iff_index_eq)
    have "distinct (odCapturedTex r' # ring_tex r')"
      using lens phys away
      by (auto simp: step distinct_list_update in_set_conv_nth nth_list_update split: if_splits)
    moreover have "tex_shows r' (ring_tex r' ! i) = ring_qpc r' ! i" if "i < length (ring_qpc r)" "ring_qpc r' ! i \<noteq> 0" for i
    proof -
      have "i \<noteq> phys" "ring_qpc r' ! i = ring_qpc r ! i"
        using that phys by (auto simp: step zap_def split: if_splits)
      then show ?thesis using that inv by (simp add: step ring_inv_def)
    qed
    moreover have "\<forall>p \<in> set (waiting r'). q < p"
      using inv k by (auto simp: wait q_def ring_inv_def in_set_conv_nth sorted_wrt_iff_nth_less)
    moreover have "sorted_wrt (<) (waiting r')" using inv by (simp add: wait ring_inv_def sorted_wrt_drop)
    ultimately have "ring_inv r'" using inv lens by (simp add: ring_inv_def step)
    then show ?thesis using member newer shown dropped
      by (simp add: step wait set_drop_subset)
  qed
qed

section \<open>A run of the ring\<close>

fun presented :: "capture_event list \<Rightarrow> u64 list" where
  "presented [] = []"
| "presented (DesktopPresent q # events) = q # presented events"
| "presented (OutputSlot slot # events) = presented events"

lemma count_through:
  fixes d :: u64
  assumes "a + w + d = b + w' + d'" "p + w' + d' = e + w2 + d2"
  shows "a + p + w + d = b + e + w2 + d2"
proof -
  have "a + p + w + d = p + (a + w + d)" by (simp add: ac_simps)
  also have "\<dots> = p + (b + w' + d')" by (simp only: assms(1))
  also have "\<dots> = b + (p + w' + d')" by (simp add: ac_simps)
  also have "\<dots> = b + (e + w2 + d2)" by (simp only: assms(2))
  finally show ?thesis by (simp add: ac_simps)
qed

text \<open>The emitted frames in order, and the frame on the held screen.\<close>

lemma run_ring_step:
  assumes "run_ring events r = (emitted, r')" "ring_inv r" "sorted_wrt (<) (presented events)"
    "\<forall>q \<in> set (presented events). lastEmittedPresentQpc r < q \<and> (\<forall>p \<in> set (waiting r). p < q)"
  shows "of_nat (length (presented events)) + of_nat (length (waiting r)) + droppedFrames r =
      of_nat (length emitted) + of_nat (length (waiting r')) + droppedFrames r' \<and>
    sorted_wrt (<) (lastEmittedPresentQpc r # emitted) \<and> set emitted \<subseteq> set (waiting r) \<union> set (presented events) \<and>
    tex_shows r' (odCapturedTex r') = (if emitted = [] then tex_shows r (odCapturedTex r) else List.last emitted) \<and>
    ring_inv r'"
  using assms
proof (induction events arbitrary: r emitted)
  case (Cons e events)
  show ?case
  proof (cases e)
    case (DesktopPresent q)
    have pre: "\<forall>p \<in> set (waiting r). p < q" "lastEmittedPresentQpc r < q"
      using Cons.prems DesktopPresent by auto
    note P = ring_present_step [OF Cons.prems(2) pre]
    have "\<forall>s \<in> set (presented events). lastEmittedPresentQpc (ring_present q r) < s \<and>
        (\<forall>p \<in> set (waiting (ring_present q r)). p < s)"
      using Cons.prems DesktopPresent P(2,5) by auto
    moreover have "run_ring events (ring_present q r) = (emitted, r')" using Cons.prems DesktopPresent by simp
    ultimately have
      "of_nat (length (presented events)) + of_nat (length (waiting (ring_present q r))) + droppedFrames (ring_present q r) =
        of_nat (length emitted) + of_nat (length (waiting r')) + droppedFrames r' \<and>
       sorted_wrt (<) (lastEmittedPresentQpc r # emitted) \<and>
       set emitted \<subseteq> set (waiting (ring_present q r)) \<union> set (presented events) \<and>
       tex_shows r' (odCapturedTex r') = (if emitted = [] then tex_shows r (odCapturedTex r) else List.last emitted) \<and>
       ring_inv r'"
      using Cons.IH [of "ring_present q r" emitted] Cons.prems DesktopPresent P by simp
    moreover from this have "of_nat (length (presented (e # events))) + of_nat (length (waiting r)) + droppedFrames r =
        of_nat (length emitted) + of_nat (length (waiting r')) + droppedFrames r'"
      using count_through [of 1 "of_nat (length (waiting r))" "droppedFrames r" 0
          "of_nat (length (waiting (ring_present q r)))" "droppedFrames (ring_present q r)"] P(6) DesktopPresent
      by simp
    ultimately show ?thesis using P(5) DesktopPresent by auto
  next
    case (OutputSlot slot)
    obtain out r1 where tick: "ring_tick slot r = (out, r1)" by force
    obtain rest where rest: "run_ring events r1 = (rest, r')"
      "emitted = (case out of None \<Rightarrow> rest | Some q \<Rightarrow> q # rest)"
      using Cons.prems OutputSlot tick by (auto split: prod.splits)
    note T = ring_tick_step [OF Cons.prems(2) tick]
    show ?thesis
    proof (cases out)
      case None
      then show ?thesis using Cons.IH [of r rest] Cons.prems OutputSlot T rest by simp
    next
      case (Some q)
      with T have q: "q \<in> set (waiting r)" "lastEmittedPresentQpc r < q" "lastEmittedPresentQpc r1 = q" "ring_inv r1"
        "tex_shows r1 (odCapturedTex r1) = q" "set (waiting r1) \<subseteq> set (waiting r)"
        "of_nat (length (waiting r)) + droppedFrames r = 1 + of_nat (length (waiting r1)) + droppedFrames r1"
        by simp_all
      have "\<forall>s \<in> set (presented events). lastEmittedPresentQpc r1 < s \<and> (\<forall>p \<in> set (waiting r1). p < s)"
        using Cons.prems OutputSlot q by auto
      from Cons.IH [OF rest(1) q(4) _ this] Cons.prems OutputSlot have IH:
        "of_nat (length (presented events)) + of_nat (length (waiting r1)) + droppedFrames r1 =
          of_nat (length rest) + of_nat (length (waiting r')) + droppedFrames r'"
        "sorted_wrt (<) (q # rest)" "set rest \<subseteq> set (waiting r1) \<union> set (presented events)"
        "tex_shows r' (odCapturedTex r') = (if rest = [] then q else List.last rest)" "ring_inv r'"
        using q by simp_all
      have "emitted = q # rest" using rest Some by simp
      moreover have "of_nat (length (presented (e # events))) + of_nat (length (waiting r)) + droppedFrames r =
          of_nat (length (q # rest)) + of_nat (length (waiting r')) + droppedFrames r'"
        using count_through [of 0 "of_nat (length (waiting r))" "droppedFrames r" 1
            "of_nat (length (waiting r1))" "droppedFrames r1"] q(7) IH(1) OutputSlot by simp
      ultimately show ?thesis using IH q OutputSlot by auto
    qed
  qed
qed simp

lemma start_ring_inv:
  assumes "0 < n" "n < 2 ^ 32"
  shows "ring_inv (start_ring n f)" "waiting (start_ring n f) = []"
proof -
  have "queue_of (start_ring n f) = replicate n 0" by (simp add: queue_of_def start_ring_def)
  then show "waiting (start_ring n f) = []" by (simp add: waiting_def)
  then show "ring_inv (start_ring n f)" using assms by (simp add: ring_inv_def start_ring_def)
qed

section \<open>The clock\<close>

text \<open>What is skipped leaves the clock one budget of frames behind, and less than a frame more.\<close>

lemma skip_leaves_one_budget:
  assumes "ComputeCatchUpSkip lag interval budget = skip" "0 < skip"
  shows "unat lag = unat skip * unat interval + unat budget * unat interval + unat lag mod unat interval"
    "unat lag mod unat interval < unat interval"
proof -
  have i: "interval \<noteq> 0" and behind: "budget < lag div interval" and skip: "skip = lag div interval - budget"
    using assms by (auto simp: ComputeCatchUpSkip_def Let_def not_le split: if_splits)
  have "unat budget \<le> unat lag div unat interval"
    using behind by (simp add: word_less_nat_alt unat_div)
  then have "unat skip + unat budget = unat lag div unat interval"
    using behind by (simp add: skip unat_sub word_less_nat_alt unat_div word_le_nat_alt)
  then have "unat lag = (unat skip + unat budget) * unat interval + unat lag mod unat interval"
    by (metis div_mult_mod_eq)
  then show "unat lag = unat skip * unat interval + unat budget * unat interval + unat lag mod unat interval"
    by (simp add: add_mult_distrib)
  show "unat lag mod unat interval < unat interval" using i by (simp add: unat_gt_0)
qed

section \<open>Gaps\<close>

text \<open>A device that only loses frames where it says so, and at most ten seconds at once.\<close>

fun honest_device :: "u32 \<Rightarrow> u64 \<Rightarrow> (bool \<times> u64 \<times> u32) list \<Rightarrow> bool" where
  "honest_device rate expected [] \<longleftrightarrow> True"
| "honest_device rate expected ((flag, position, n) # packets) \<longleftrightarrow>
     expected \<le> position \<and> (expected < position \<longrightarrow> flag) \<and> unat position \<le> unat expected + 10 * unat rate \<and>
     unat position + unat n < 2 ^ 64 \<and> honest_device rate (position + ucast n) packets"

lemma unat_widened [simp]: "unat (ucast (x :: u32) :: u64) = unat x"
  by transfer (simp add: take_bit_take_bit)

lemma gap_is_the_jump:
  assumes "e \<le> p" "e < p \<longrightarrow> flag" "unat p \<le> unat e + 10 * unat rate" "10 * unat rate < 2 ^ 32"
  shows "unat e + unat (ComputeDiscontinuityGapFrames flag True e p rate) = unat p"
proof (cases "e < p")
  case True
  have small: "unat (p - e) = unat p - unat e" using True by (simp add: unat_sub word_less_nat_alt word_le_nat_alt)
  have max: "unat (kMaxDiscontinuityGapSeconds * ucast rate) = 10 * unat rate"
    using assms(4) by (simp add: kMaxDiscontinuityGapSeconds_def unat_word_ariths)
  have "unat (if p - e < kMaxDiscontinuityGapSeconds * ucast rate then p - e
      else kMaxDiscontinuityGapSeconds * ucast rate) = unat p - unat e"
    using assms(3) True by (auto simp: word_less_nat_alt small max)
  then have "unat (ComputeDiscontinuityGapFrames flag True e p rate) = (unat p - unat e) mod 2 ^ 32"
    using assms(2) True by (simp add: ComputeDiscontinuityGapFrames_def Let_def unsigned_ucast_eq take_bit_eq_mod)
  then show ?thesis using True assms(3,4) by (simp add: word_less_nat_alt)
next
  case False
  then have "e = p" using assms(1) by simp
  then show ?thesis by (simp add: ComputeDiscontinuityGapFrames_def)
qed

lemma gaps_are_the_lost_frames:
  assumes "honest_device rate (expected_device_position t) packets" "device_position_tracked t" "10 * unat rate < 2 ^ 32"
    "track_packets rate packets t = (gaps, t')"
  shows "unat (expected_device_position t') =
      unat (expected_device_position t) + (\<Sum>(_, _, n) \<leftarrow> packets. unat n) + (\<Sum>gap \<leftarrow> gaps. unat gap)"
  using assms
proof (induction packets arbitrary: t gaps)
  case (Cons packet packets)
  obtain flag p n where packet: "packet = (flag, p, n)" by (cases packet)
  define gap where "gap = ComputeDiscontinuityGapFrames flag True (expected_device_position t) p rate"
  define t1 where "t1 = t\<lparr>device_position_tracked := True, expected_device_position := p + ucast n\<rparr>"
  obtain rest where rest: "track_packets rate packets t1 = (rest, t')" "gaps = gap # rest"
    using Cons.prems by (auto simp: packet track_packet_def Let_def gap_def t1_def split: prod.splits)
  have jump: "unat (expected_device_position t) + unat gap = unat p"
    unfolding gap_def using Cons.prems by (intro gap_is_the_jump) (auto simp: packet)
  have next': "unat (p + ucast n) = unat p + unat n"
    using Cons.prems by (simp add: packet unat_word_ariths)
  have "unat (expected_device_position t') = unat (expected_device_position t1) +
      (\<Sum>(_, _, n) \<leftarrow> packets. unat n) + (\<Sum>gap \<leftarrow> rest. unat gap)"
    using Cons.prems rest by (intro Cons.IH) (auto simp: packet t1_def)
  then show ?case using jump by (simp add: packet rest t1_def next')
qed simp

text \<open>Without the reset at a reconnect, a position of the new device reads as frames lost by the old one.\<close>

lemma stale_position_is_a_gap:
  "ComputeDiscontinuityGapFrames True True 1000 (1000 + 480000) 48000 = 480000"
  "ComputeDiscontinuityGapFrames True False 1000 (1000 + 480000) 48000 = 0"
  by (simp_all add: ComputeDiscontinuityGapFrames_def kMaxDiscontinuityGapSeconds_def Let_def)

end
