(* ===== verification/SessionProperties.thy ===== *)
theory SessionProperties
  imports SessionInterleaving PacingGuarantees
begin

text \<open>
  The properties of a recording session and of its pacing: the cause a result reports, the wait for the muxer,
  the isolation of abandoned workers, the commands a recording obeys, and the frames of a capture.
\<close>

section \<open>The result\<close>



text \<open>
  A failure on record with an empty text is not protected: a shutdown fault then replaces its code and phase.
\<close>

lemma unexplained_failure_is_replaced:
  "result_verdict (build_result (Some \<lparr>error_code = E_FAIL, error_phase = PhaseMux, error_detail = []\<rparr>)
     \<lparr>video_joined = True, audio_joined = [], mux_joined = False, finalize_stalled = True\<rparr> False
     DxgiOutputDuplication 0 no_stats) = (False, HRESULT_FROM_WIN32 ERROR_TIMEOUT, PhaseShutdown)"
  by (simp add: result_steps result_verdict_def producers_joined_def Let_def)

section \<open>The wait for the muxer\<close>

text \<open> The wait for the muxer ends at the first round at which the wait itself ends or fails, or no sample has
  seen more bytes than the one before it for a whole stall window; a stall is reported for this reason only.\<close>

theorem finalize_wait_follows_progress:
  "wait_for_finalize (new_tracker kFinalizeStallWindowMs kFinalizeHardCapMs) polls =
     finalize_end kFinalizeStallWindowMs [] polls"
  by (simp add: kFinalizeHardCapMs_def new_tracker_of wait_for_finalize_end)

text \<open> A muxer that writes nothing more is given up: when the samples show no growth from round \<open>i\<close> on and
  round \<open>k\<close> is a stall window later, the wait is over by then.\<close>

theorem silent_muxer_is_given_up:
  assumes "\<And>m. i \<le> m \<Longrightarrow> m < k \<Longrightarrow> fp_bytes (polls ! Suc m) \<le> fp_bytes (polls ! m)"
    and "sorted (map fp_elapsed_ms polls)" "i < k" "k < length polls"
    and "kFinalizeStallWindowMs \<le> ElapsedSince (fp_elapsed_ms (polls ! i)) (fp_elapsed_ms (polls ! k))"
  shows "wait_for_finalize (new_tracker kFinalizeStallWindowMs kFinalizeHardCapMs) polls \<noteq> None"
  using silent_finalize_is_abandoned [OF assms]
  by (simp add: kFinalizeHardCapMs_def new_tracker_of wait_for_finalize_end)

definition demo_poll :: "u64 \<Rightarrow> u64 \<Rightarrow> finalize_poll" where
  "demo_poll b t = \<lparr>fp_wait = WaitTimeout, fp_bytes = b, fp_elapsed_ms = t\<rparr>"

theorem silent_muxer_is_given_up_witness:
  "wait_for_finalize (new_tracker kFinalizeStallWindowMs kFinalizeHardCapMs)
     [demo_poll 10 250, demo_poll 20 500, demo_poll 20 30500] \<noteq> None"
proof (rule silent_muxer_is_given_up [of 1 2])
  fix m :: nat
  assume "1 \<le> m" "m < 2"
  then have "m = 1" by simp
  then show "fp_bytes ([demo_poll 10 250, demo_poll 20 500, demo_poll 20 30500] ! Suc m) \<le>
      fp_bytes ([demo_poll 10 250, demo_poll 20 500, demo_poll 20 30500] ! m)"
    by (simp add: demo_poll_def)
qed (simp_all add: demo_poll_def kFinalizeStallWindowMs_def ElapsedSince_def)

section \<open>Abandoned workers\<close>

text \<open> C32: While a recording is prepared or under way, a worker left over from an earlier one holds another session
  state, and its gate runs no callback.\<close>

theorem abandoned_workers_are_cut_off:
  assumes "session_reachable c" "underway c" "w \<in> workers c" "\<not> own c w"
  shows "w_state w \<noteq> im_state (impl c) \<and> enter_gate (im_gates (impl c) ! w_gate w) = None"
proof -
  note D = session_invD [OF reachable_session_inv [OF assms(1)]]
  have "\<not> gate_open (im_gates (impl c) ! w_gate w)" using D(6) assms by blast
  moreover have "w_state w \<noteq> im_state (impl c)" using D(5,7) assms by blast
  ultimately show ?thesis by (simp add: enter_gate_def)
qed

definition demo_prepare :: "RecordRequestId \<Rightarrow> session \<Rightarrow> session" where
  "demo_prepare r c = c\<lparr>impl := snd (prepare_recording r 1 (impl c)), call := Preparing (fst (prepare_recording r 1 (impl c))),
     given := [], raised := False\<rparr>"

definition demo_begin :: "nat \<Rightarrow> session \<Rightarrow> session" where
  "demo_begin g c = c\<lparr>impl := start_workers (impl c), call := Capturing False,
     workers := insert \<lparr>w_state = im_state (impl c), w_gate = g\<rparr> (workers c)\<rparr>"

definition demo_command :: "session_command \<Rightarrow> session \<Rightarrow> session" where
  "demo_command cmd c = c\<lparr>impl := give_command cmd (impl c), given := given c @ [(cmd, recording (impl c))]\<rparr>"

definition demo_recording :: session where "demo_recording = demo_begin 0 (demo_prepare 7 idle_session)"

definition demo_abandoned :: session where
  "demo_abandoned = demo_recording\<lparr>impl := end_recording True True (impl demo_recording), call := Closing False\<rparr>"

definition demo_leaked :: session where
  "demo_leaked = demo_abandoned\<lparr>impl := finish_recording (impl demo_abandoned), call := NoCall\<rparr>"

definition demo_after_leak :: session where "demo_after_leak = demo_prepare 8 demo_leaked"

lemmas demo_session_defs = demo_prepare_def demo_begin_def demo_recording_def demo_abandoned_def demo_leaked_def
  demo_after_leak_def  idle_session_def new_impl_def prepare_recording_def Consume_def kUnscopedRecordRequest_def

lemma demo_prepared: "session_reachable c \<Longrightarrow> call c = NoCall \<Longrightarrow> session_reachable (demo_prepare r c)"
  unfolding demo_prepare_def by (erule session_reachable_step) (rule step_prepared, simp_all)

lemma demo_recording_reachable: "session_reachable demo_recording"
proof -
  have "session_reachable (demo_prepare 7 idle_session)"
    by (rule demo_prepared [OF session_reachable_idle]) (simp add: idle_session_def)
  then show ?thesis unfolding demo_recording_def demo_begin_def
    by (rule session_reachable_step) (rule step_started, simp_all add: demo_session_defs Let_def)
qed

lemma demo_leaked_reachable: "session_reachable demo_leaked"
proof -
  have "session_step demo_recording demo_abandoned"
    unfolding demo_abandoned_def by (rule step_ended) (simp_all add: demo_recording_def demo_begin_def)
  then have "session_reachable demo_abandoned"
    by (rule session_reachable_step [OF demo_recording_reachable])
  then show ?thesis
    unfolding demo_leaked_def by (rule session_reachable_step) (rule step_returned [where pre_stop = False], simp add: demo_abandoned_def)
qed

theorem abandoned_workers_are_cut_off_witness:
  "w_state \<lparr>w_state = 0, w_gate = 0\<rparr> \<noteq> im_state (impl demo_after_leak) \<and>
   enter_gate (im_gates (impl demo_after_leak) ! w_gate \<lparr>w_state = 0, w_gate = 0\<rparr>) = None"
proof (rule abandoned_workers_are_cut_off)
  show "session_reachable demo_after_leak"
    unfolding demo_after_leak_def by (rule demo_prepared [OF demo_leaked_reachable]) (simp add: demo_leaked_def)
  show "underway demo_after_leak" by (simp add: underway_def demo_after_leak_def demo_prepare_def)
  show "\<lparr>w_state = 0, w_gate = 0\<rparr> \<in> workers demo_after_leak"
    by (simp add: demo_session_defs Let_def on_state_def)
  show "\<not> own demo_after_leak \<lparr>w_state = 0, w_gate = 0\<rparr>"
    by (simp add: own_iff demo_after_leak_def demo_prepare_def)
qed

text \<open>A callback that reached the caller came through the gate of the recording under way.\<close>

lemma callbacks_reach_their_own_caller:
  "session_reachable c \<Longrightarrow> (g, now) \<in> set (entered c) \<Longrightarrow> now = Some g"
  using session_invD(11) [OF reachable_session_inv] by blast

section \<open>The commands of a recording\<close>



text \<open>A stop that names the recording, given while it runs, is in force until it ends.\<close>

lemma stop_is_in_force:
  assumes "session_reachable c" "call c = Capturing pre_stop" "(CmdStop now q, started) \<in> set (given c)"
    "RecordRequestMatches (active_request (impl c)) q"
  shows "stop_requested (ss_shared (current_state (impl c)))"
proof -
  have "(\<exists>entry \<in> set entries. stop_counts r entry) \<Longrightarrow> ctl_stop (commanded r entries)" for r entries
    by (induction entries rule: rev_induct) (auto simp: ctl_stop_control)
  moreover have "stop_counts (active_request (impl c)) (CmdStop now q, started)"
    using assms(4) by (simp add: stop_counts_def)
  ultimately have "ctl_stop (commanded (active_request (impl c)) (given c))" using assms(3) by blast
  then show ?thesis
    using session_invD(10) [OF reachable_session_inv [OF assms(1)]] assms(2) by simp
qed

section \<open>The frames of a capture\<close>


definition demo_events :: "capture_event list" where
  "demo_events = [DesktopPresent 10, DesktopPresent 20, DesktopPresent 30, OutputSlot 21, OutputSlot 40, DesktopPresent 50]"


text \<open> C35: The output moves forward: the frames emitted are strictly newer from slot to slot and each was presented;
  and the held screen, composited again while the screen stands still, shows the last of them.\<close>

theorem output_moves_forward:
  assumes "run_ring events (start_ring n first_frame) = (emitted, r)" "0 < n" "n < 2 ^ 32"
    and "sorted_wrt (<) (0 # presented events)"
  shows "sorted_wrt (<) emitted \<and> set emitted \<subseteq> set (presented events) \<and>
    tex_shows r (odCapturedTex r) = (if emitted = [] then first_frame else List.last emitted)"
  using run_ring_step [OF assms(1)] start_ring_inv [OF assms(2,3), of first_frame] assms(4)
  by (simp add: start_ring_def)

theorem output_moves_forward_witness:
  "sorted_wrt (<) (fst (run_ring demo_events (start_ring 3 5))) \<and>
   set (fst (run_ring demo_events (start_ring 3 5))) \<subseteq> set (presented demo_events) \<and>
   tex_shows (snd (run_ring demo_events (start_ring 3 5))) (odCapturedTex (snd (run_ring demo_events (start_ring 3 5)))) =
     (if fst (run_ring demo_events (start_ring 3 5)) = [] then 5
      else List.last (fst (run_ring demo_events (start_ring 3 5))))"
  by (rule output_moves_forward [of demo_events 3 5]) (simp_all add: demo_events_def)

end
