(* ===== verification/Handoff.thy ===== *)
theory Handoff
  imports UpdaterSession ControlProtocol
begin

text \<open>
  The document the application hands to the updater (\<^verbatim>\<open>libs/update_handoff/src/handoff.cpp\<close>), the marks an
  installation leaves in the registry (\<^verbatim>\<open>libs/update/src/install_mode_detector.cpp\<close>), and the checks that bind
  the one to the other.

  The JSON reader and writer, the path functions of Qt, the files, the version resource of an executable
  and the registry are the fields of \<open>handoff_env\<close>, over an arbitrary world.
\<close>

section \<open>The document\<close>

definition kHandoffVersion :: int where "kHandoffVersion = 1"

record UpdateHandoff =
  hd_version :: int
  hd_transaction_id :: string
  hd_target_version :: string
  hd_current_version :: string
  hd_manifest_path :: string
  hd_signature_path :: string
  hd_install_mode :: InstallMode
  hd_install_dir :: string
  hd_app_pid :: u32
  hd_verify_reinstall :: bool

definition new_handoff :: UpdateHandoff where
  "new_handoff = \<lparr>hd_version = kHandoffVersion, hd_transaction_id = [], hd_target_version = [], hd_current_version = [],
     hd_manifest_path = [], hd_signature_path = [], hd_install_mode = Portable, hd_install_dir = [], hd_app_pid = 0,
     hd_verify_reinstall = False\<rparr>"

datatype HandoffRejection = FileUnreadable | MalformedJson | UnsupportedVersion | MissingField | InvalidField

definition HandoffRejectionName :: "HandoffRejection \<Rightarrow> string" where
  "HandoffRejectionName r = (case r of
       FileUnreadable \<Rightarrow> ''fileUnreadable'' | MalformedJson \<Rightarrow> ''malformedJson''
     | UnsupportedVersion \<Rightarrow> ''unsupportedVersion'' | MissingField \<Rightarrow> ''missingField'' | InvalidField \<Rightarrow> ''invalidField'')"

datatype InstallContextRejection = PathNotAbsolute | DirectoryMissing | ExecutableMissing | VersionUnreadable
| VersionMismatch | RegistryMismatch

definition InstallContextRejectionName :: "InstallContextRejection \<Rightarrow> string" where
  "InstallContextRejectionName r = (case r of
       PathNotAbsolute \<Rightarrow> ''pathNotAbsolute'' | DirectoryMissing \<Rightarrow> ''directoryMissing''
     | ExecutableMissing \<Rightarrow> ''executableMissing'' | VersionUnreadable \<Rightarrow> ''versionUnreadable''
     | VersionMismatch \<Rightarrow> ''versionMismatch'' | RegistryMismatch \<Rightarrow> ''registryMismatch'')"

type_synonym 'a loaded = "(HandoffRejection \<times> string) + 'a"

text \<open>A value of a registry key, and what \<^verbatim>\<open>RegOpenKeyEx\<close> finds: no key, or one with its values.\<close>

datatype RegistryValue = RegDword u32 | RegSz string | RegOther

datatype RegistryHive = HKLM | HKCU

record 'w handoff_env =
  he_from_json :: "string \<Rightarrow> string + qjson"
  he_to_json :: "qobject \<Rightarrow> string"
  he_show :: "rat \<Rightarrow> string"
  he_absolute :: "string \<Rightarrow> bool"
  he_clean :: "string \<Rightarrow> string"
  he_native :: "string \<Rightarrow> string"
  he_lower :: "string \<Rightarrow> string"
  he_lower_char :: "char \<Rightarrow> char"
  he_file_path :: "string \<Rightarrow> string \<Rightarrow> string"
  he_module_path :: "string option"
  he_app_dir :: string
  he_read :: "'w \<Rightarrow> string \<Rightarrow> string + string"
  he_save :: "string \<Rightarrow> string \<Rightarrow> 'w \<Rightarrow> string option \<times> 'w"
  he_exists :: "'w \<Rightarrow> string \<Rightarrow> bool"
  he_is_dir :: "'w \<Rightarrow> string \<Rightarrow> bool"
  he_product_version :: "'w \<Rightarrow> string \<Rightarrow> string option"
  he_registry :: "'w \<Rightarrow> RegistryHive \<Rightarrow> string \<Rightarrow> (string \<Rightarrow> RegistryValue option) option"

section \<open>Writing and reading it\<close>

definition handoff_object :: "UpdateHandoff \<Rightarrow> qobject" where
  "handoff_object h =
     [''handoffVersion'' \<mapsto> qint (hd_version h), ''updateTransactionId'' \<mapsto> QStr (hd_transaction_id h),
      ''targetVersion'' \<mapsto> QStr (hd_target_version h), ''currentVersion'' \<mapsto> QStr (hd_current_version h),
      ''manifestPath'' \<mapsto> QStr (hd_manifest_path h), ''manifestSignaturePath'' \<mapsto> QStr (hd_signature_path h),
      ''installMode'' \<mapsto> QStr (if hd_install_mode h = Installed then ''installed'' else ''portable''),
      ''installDir'' \<mapsto> QStr (hd_install_dir h), ''appPid'' \<mapsto> qint (uint (hd_app_pid h)),
      ''verifyReinstall'' \<mapsto> QBool (hd_verify_reinstall h)]"

definition SerializeUpdateHandoff :: "'w handoff_env \<Rightarrow> UpdateHandoff \<Rightarrow> string" where
  "SerializeUpdateHandoff env h = he_to_json env (handoff_object h)"

definition TakeRequiredString :: "qobject \<Rightarrow> string \<Rightarrow> string loaded" where
  "TakeRequiredString obj field = (case qvalue obj field of
       QUndefined \<Rightarrow> Inl (MissingField, field)
     | QNull \<Rightarrow> Inl (MissingField, field)
     | QStr text \<Rightarrow> if text = [] then Inl (MissingField, field @ '' is empty'') else Inr text
     | _ \<Rightarrow> Inl (InvalidField, field @ '' is not a string''))"

text \<open>\<^verbatim>\<open>QJsonValue::toInt\<close>: the default, unless the number is an integer of 32 bits.\<close>

definition qto_int :: "qjson \<Rightarrow> int \<Rightarrow> int" where
  "qto_int v fallback = (case v of
       QDouble x \<Rightarrow> if x = of_int \<lfloor>x\<rfloor> \<and> - (2 ^ 31) \<le> \<lfloor>x\<rfloor> \<and> \<lfloor>x\<rfloor> < 2 ^ 31 then \<lfloor>x\<rfloor> else fallback
     | _ \<Rightarrow> fallback)"

definition show_int :: "int \<Rightarrow> string" where
  "show_int i = (if i < 0 then ''-'' @ to_string (nat (- i)) else to_string (nat i))"

definition check_version :: "qobject \<Rightarrow> unit loaded" where
  "check_version obj = (case qvalue obj ''handoffVersion'' of
       QDouble x \<Rightarrow>
         (let v = qto_int (QDouble x) (- 1) in
          if v \<noteq> kHandoffVersion
          then Inl (UnsupportedVersion, ''handoffVersion '' @ show_int v @ '' is not supported (this build reads '' @
                 show_int kHandoffVersion @ '')'')
          else Inr ())
     | _ \<Rightarrow> Inl (UnsupportedVersion, ''handoffVersion is absent or not a number''))"

definition quote :: string where "quote = [char_of (39 :: nat)]"

definition take_install_mode :: "qobject \<Rightarrow> InstallMode loaded" where
  "take_install_mode obj =
     bindE (TakeRequiredString obj ''installMode'') (\<lambda>mode.
       if mode = ''installed'' then Inr Installed
       else if mode = ''portable'' then Inr Portable
       else Inl (InvalidField, ''installMode '' @ quote @ mode @ quote @ '' (expected installed|portable)''))"

definition take_pid :: "(rat \<Rightarrow> string) \<Rightarrow> qobject \<Rightarrow> u32 loaded" where
  "take_pid show_number obj = (case qvalue obj ''appPid'' of
       QDouble x \<Rightarrow>
         if x \<le> 0 \<or> 4294967295 < x then Inl (InvalidField, ''appPid '' @ show_number x @ '' is not a running process id'')
         else Inr (of_int (truncate_rat x))
     | _ \<Rightarrow> Inl (MissingField, ''appPid''))"

definition take_verify :: "qobject \<Rightarrow> bool loaded" where
  "take_verify obj = (case qvalue obj ''verifyReinstall'' of
       QBool verify \<Rightarrow> Inr verify
     | _ \<Rightarrow> Inl (MissingField, ''verifyReinstall''))"

definition absolute_paths :: "'w handoff_env \<Rightarrow> UpdateHandoff \<Rightarrow> UpdateHandoff loaded" where
  "absolute_paths env h =
     (if \<not> he_absolute env (hd_manifest_path h) \<or> \<not> he_absolute env (hd_signature_path h)
      then Inl (InvalidField, ''manifest paths must be absolute'')
      else if \<not> he_absolute env (hd_install_dir h) then Inl (InvalidField, ''installDir must be absolute'')
      else Inr h)"

definition parse_handoff_object :: "'w handoff_env \<Rightarrow> qobject \<Rightarrow> UpdateHandoff loaded" where
  "parse_handoff_object env obj =
     bindE (check_version obj) (\<lambda>_.
     bindE (TakeRequiredString obj ''updateTransactionId'') (\<lambda>transaction_id.
     bindE (TakeRequiredString obj ''targetVersion'') (\<lambda>target.
     bindE (TakeRequiredString obj ''currentVersion'') (\<lambda>current.
     bindE (TakeRequiredString obj ''manifestPath'') (\<lambda>manifest.
     bindE (TakeRequiredString obj ''manifestSignaturePath'') (\<lambda>signature.
     bindE (TakeRequiredString obj ''installDir'') (\<lambda>dir.
     bindE (take_install_mode obj) (\<lambda>mode.
     bindE (take_pid (he_show env) obj) (\<lambda>pid.
     bindE (take_verify obj) (\<lambda>verify.
     absolute_paths env \<lparr>hd_version = kHandoffVersion, hd_transaction_id = transaction_id, hd_target_version = target,
       hd_current_version = current, hd_manifest_path = manifest, hd_signature_path = signature,
       hd_install_mode = mode, hd_install_dir = dir, hd_app_pid = pid, hd_verify_reinstall = verify\<rparr>))))))))))"

definition ParseUpdateHandoff :: "'w handoff_env \<Rightarrow> string \<Rightarrow> UpdateHandoff loaded" where
  "ParseUpdateHandoff env content = (case he_from_json env content of
       Inl complaint \<Rightarrow> Inl (MalformedJson, complaint)
     | Inr v \<Rightarrow>
         if \<not> is_object v then Inl (MalformedJson, ''the document is not a JSON object'')
         else parse_handoff_object env (object_of v))"

definition LoadUpdateHandoff :: "'w handoff_env \<Rightarrow> 'w \<Rightarrow> string \<Rightarrow> UpdateHandoff loaded" where
  "LoadUpdateHandoff env w path = (case he_read env w path of
       Inl complaint \<Rightarrow> Inl (FileUnreadable, path @ '': '' @ complaint)
     | Inr content \<Rightarrow> ParseUpdateHandoff env content)"

text \<open>\<^verbatim>\<open>QSaveFile\<close> is the atomic write: an error leaves the destination alone.\<close>

definition WriteUpdateHandoffAtomically ::
    "'w handoff_env \<Rightarrow> string \<Rightarrow> UpdateHandoff \<Rightarrow> 'w \<Rightarrow> (bool \<times> string) \<times> 'w" where
  "WriteUpdateHandoffAtomically env path h w =
     (case he_save env path (SerializeUpdateHandoff env h) w of
        (None, w) \<Rightarrow> ((True, []), w)
      | (Some complaint, w) \<Rightarrow> ((False, path @ '': '' @ complaint), w))"

definition text_of :: "string option \<Rightarrow> string" where
  "text_of v = (case v of None \<Rightarrow> [] | Some s \<Rightarrow> s)"

section \<open>What an installation leaves in the registry\<close>

definition back_slash :: char where "back_slash = char_of (92 :: nat)"

definition kKeyPaths :: "string list" where
  "kKeyPaths = [''Software'' @ [back_slash] @ ''ExoSnap'', ''Software'' @ [back_slash] @ ''Codexo'' @ [back_slash] @ ''ExoSnap'']"

text \<open>A text value is held as it is stored: one without any byte counts as absent, and \<^verbatim>\<open>wcslen\<close> ends it at
  its first NUL.\<close>

definition ReadStringValue :: "(string \<Rightarrow> RegistryValue option) \<Rightarrow> string \<Rightarrow> string option" where
  "ReadStringValue key name = (case key name of
       Some (RegSz stored) \<Rightarrow>
         if stored = [] then None else Some (takeWhile (\<lambda>c. c \<noteq> char_of (0 :: nat)) stored)
     | _ \<Rightarrow> None)"

fun stamp_among :: "(string \<Rightarrow> (string \<Rightarrow> RegistryValue option) option) \<Rightarrow> string list \<Rightarrow> string option" where
  "stamp_among open_key [] = None"
| "stamp_among open_key (path # paths) = (case open_key path of
       None \<Rightarrow> stamp_among open_key paths
     | Some key \<Rightarrow>
         if key ''installed'' = Some (RegDword 1) then Some (text_of (ReadStringValue key ''InstallPath''))
         else stamp_among open_key paths)"

definition ReadStamp :: "'w handoff_env \<Rightarrow> 'w \<Rightarrow> RegistryHive \<Rightarrow> string option" where
  "ReadStamp env w hive = stamp_among (he_registry env w hive) kKeyPaths"

definition or_else :: "'a option \<Rightarrow> 'a option \<Rightarrow> 'a option" where
  "or_else a b = (case a of None \<Rightarrow> b | Some _ \<Rightarrow> a)"

definition RunningExecutableDir :: "'w handoff_env \<Rightarrow> string" where
  "RunningExecutableDir env = (case he_module_path env of
       None \<Rightarrow> []
     | Some path \<Rightarrow>
         if \<exists>c \<in> set path. c = back_slash \<or> c = CHR ''/''
         then rev (drop 1 (dropWhile (\<lambda>c. c \<noteq> back_slash \<and> c \<noteq> CHR ''/'') (rev path)))
         else [])"

definition DetectInstallMode :: "'w handoff_env \<Rightarrow> 'w \<Rightarrow> InstallMode" where
  "DetectInstallMode env w =
     ClassifyInstallMode (he_lower_char env) (or_else (ReadStamp env w HKLM) (ReadStamp env w HKCU))
       (RunningExecutableDir env)"

fun path_among :: "(string \<Rightarrow> (string \<Rightarrow> RegistryValue option) option) \<Rightarrow> string list \<Rightarrow> string option" where
  "path_among open_key [] = None"
| "path_among open_key (path # paths) =
     or_else (case open_key path of None \<Rightarrow> None | Some key \<Rightarrow> ReadStringValue key ''InstallPath'')
       (path_among open_key paths)"

text \<open>\<^verbatim>\<open>ReadInstallPath\<close>.\<close>

definition recorded_install_path :: "'w handoff_env \<Rightarrow> 'w \<Rightarrow> string option" where
  "recorded_install_path env w =
     or_else (path_among (he_registry env w HKLM) kKeyPaths) (path_among (he_registry env w HKCU) kKeyPaths)"

section \<open>The installation it names\<close>

record InstallContextFacts =
  cf_path_is_absolute :: bool
  cf_directory_exists :: bool
  cf_executable_exists :: bool
  cf_executable_version :: string
  cf_claimed_version :: string
  cf_install_mode :: InstallMode
  cf_install_dir :: string
  cf_registry_dir :: string

definition CanonicalDir :: "'w handoff_env \<Rightarrow> string \<Rightarrow> string" where
  "CanonicalDir env path = (if path = [] then [] else he_lower env (he_native env (he_clean env path)))"

text \<open>\<open>None\<close>: nothing speaks against the installation.\<close>

definition ValidateInstallContext :: "'w handoff_env \<Rightarrow> InstallContextFacts \<Rightarrow> InstallContextRejection option" where
  "ValidateInstallContext env facts =
     (if \<not> cf_path_is_absolute facts then Some PathNotAbsolute
      else if \<not> cf_directory_exists facts then Some DirectoryMissing
      else if \<not> cf_executable_exists facts then Some ExecutableMissing
      else if cf_executable_version facts = [] then Some VersionUnreadable
      else if cf_executable_version facts \<noteq> cf_claimed_version facts then Some VersionMismatch
      else if cf_install_mode facts = Installed \<and> cf_registry_dir facts \<noteq> [] \<and>
        CanonicalDir env (cf_registry_dir facts) \<noteq> CanonicalDir env (cf_install_dir facts) then Some RegistryMismatch
      else None)"

definition measure_context :: "'w handoff_env \<Rightarrow> 'w \<Rightarrow> UpdateHandoff \<Rightarrow> InstallContextFacts" where
  "measure_context env w h =
     (let exe = he_file_path env (hd_install_dir h) ''exosnap.exe'';
          exe_exists = he_exists env w exe
      in \<lparr>cf_path_is_absolute = he_absolute env (hd_install_dir h),
          cf_directory_exists = (he_exists env w (hd_install_dir h) \<and> he_is_dir env w (hd_install_dir h)),
          cf_executable_exists = exe_exists,
          cf_executable_version = (if exe_exists then text_of (he_product_version env w (he_native env exe)) else []),
          cf_claimed_version = hd_current_version h, cf_install_mode = hd_install_mode h,
          cf_install_dir = hd_install_dir h,
          cf_registry_dir = (if hd_install_mode h = Installed then text_of (recorded_install_path env w) else [])\<rparr>)"

definition ValidateInstallContextOnDisk ::
    "'w handoff_env \<Rightarrow> 'w \<Rightarrow> UpdateHandoff \<Rightarrow> (InstallContextRejection \<times> string) option" where
  "ValidateInstallContextOnDisk env w h =
     (let facts = measure_context env w h in
      map_option (\<lambda>r. (r, InstallContextRejectionName r @ '' (installDir=\"'' @ hd_install_dir h @ ''\", claimed=\"'' @
        cf_claimed_version facts @ ''\", measured=\"'' @
        (if cf_executable_version facts = [] then ''<unreadable>'' else cf_executable_version facts) @ ''\")''))
        (ValidateInstallContext env facts))"

definition HandoffAssetsPresent :: "'w handoff_env \<Rightarrow> 'w \<Rightarrow> UpdateHandoff \<Rightarrow> string option" where
  "HandoffAssetsPresent env w h =
     map_option (\<lambda>path. ''the handoff names \"'' @ path @ ''\", which does not exist'')
       (List.find (\<lambda>path. \<not> he_exists env w path) [hd_manifest_path h, hd_signature_path h])"

section \<open>Guarantees\<close>

lemma TakeRequiredString_Inr: "TakeRequiredString obj field = Inr s \<longleftrightarrow> obj field = Some (QStr s) \<and> s \<noteq> []"
  by (cases "obj field"; cases "the (obj field)") (auto simp: TakeRequiredString_def qvalue_def)

lemma take_written_mode:
  "obj ''installMode'' = Some (QStr (if mode = Installed then ''installed'' else ''portable'')) \<Longrightarrow>
   take_install_mode obj = Inr mode"
  by (cases mode) (simp_all add: take_install_mode_def TakeRequiredString_def qvalue_def)

lemma take_written_pid:
  fixes n :: int
  assumes "obj ''appPid'' = Some (qint n)" "0 < n" "n < 2 ^ 32"
  shows "take_pid show_number obj = Inr (of_int n)"
proof -
  have "n \<le> 4294967295"
    using assms(3) by simp
  then have "(of_int n :: rat) \<le> of_int 4294967295"
    by (subst of_int_le_iff)
  then show ?thesis
    using assms(1,2) by (simp add: take_pid_def qvalue_def qint_def truncate_rat_def not_less)
qed

lemma ValidateInstallContext_None:
  "ValidateInstallContext env facts = None \<longleftrightarrow>
   cf_path_is_absolute facts \<and> cf_directory_exists facts \<and> cf_executable_exists facts \<and>
   cf_executable_version facts \<noteq> [] \<and> cf_executable_version facts = cf_claimed_version facts \<and>
   (cf_install_mode facts = Installed \<longrightarrow> cf_registry_dir facts \<noteq> [] \<longrightarrow>
      CanonicalDir env (cf_registry_dir facts) = CanonicalDir env (cf_install_dir facts))"
  by (auto simp: ValidateInstallContext_def)

lemma ValidateInstallContextOnDisk_None:
  "ValidateInstallContextOnDisk env w h = None \<longleftrightarrow> ValidateInstallContext env (measure_context env w h) = None"
  by (simp add: ValidateInstallContextOnDisk_def Let_def)

lemma HandoffAssetsPresent_None:
  "HandoffAssetsPresent env w h = None \<longleftrightarrow>
   he_exists env w (hd_manifest_path h) \<and> he_exists env w (hd_signature_path h)"
  by (simp add: HandoffAssetsPresent_def)

text \<open>What a document has to say for the reader to take it.\<close>

definition complete_handoff :: "'w handoff_env \<Rightarrow> UpdateHandoff \<Rightarrow> bool" where
  "complete_handoff env h \<longleftrightarrow> hd_version h = kHandoffVersion \<and>
     [] \<notin> {hd_transaction_id h, hd_target_version h, hd_current_version h, hd_manifest_path h, hd_signature_path h,
       hd_install_dir h} \<and>
     he_absolute env (hd_manifest_path h) \<and> he_absolute env (hd_signature_path h) \<and> he_absolute env (hd_install_dir h)"

lemma parsed_handoff_is_complete:
  assumes "ParseUpdateHandoff env content = Inr h"
  shows "complete_handoff env h"
  using assms
  by (auto simp: ParseUpdateHandoff_def parse_handoff_object_def bindE_Inr_iff TakeRequiredString_Inr
      absolute_paths_def complete_handoff_def split: sum.splits if_splits)

lemma written_strings:
  assumes "complete_handoff env h"
  shows "TakeRequiredString (handoff_object h) ''updateTransactionId'' = Inr (hd_transaction_id h)"
    and "TakeRequiredString (handoff_object h) ''targetVersion'' = Inr (hd_target_version h)"
    and "TakeRequiredString (handoff_object h) ''currentVersion'' = Inr (hd_current_version h)"
    and "TakeRequiredString (handoff_object h) ''manifestPath'' = Inr (hd_manifest_path h)"
    and "TakeRequiredString (handoff_object h) ''manifestSignaturePath'' = Inr (hd_signature_path h)"
    and "TakeRequiredString (handoff_object h) ''installDir'' = Inr (hd_install_dir h)"
  using assms by (auto simp: TakeRequiredString_Inr handoff_object_def complete_handoff_def)

lemma parse_written_handoff:
  assumes "complete_handoff env h" "hd_app_pid h \<noteq> 0"
  shows "parse_handoff_object env (handoff_object h) = Inr h"
proof -
  have pid: "0 < uint (hd_app_pid h)" "uint (hd_app_pid h) < 2 ^ 32"
    using assms(2) uint_lt2p [of "hd_app_pid h"] uint_ge_0 [of "hd_app_pid h"]
    by (auto simp: less_le unsigned_eq_0_iff)
  then have "take_pid (he_show env) (handoff_object h) = Inr (hd_app_pid h)"
    using take_written_pid [of "handoff_object h" "uint (hd_app_pid h)"]
    by (simp add: handoff_object_def)
  moreover have "take_install_mode (handoff_object h) = Inr (hd_install_mode h)"
    by (rule take_written_mode) (simp add: handoff_object_def)
  moreover have "check_version (handoff_object h) = Inr ()" if "hd_version h = kHandoffVersion"
    using that by (simp add: check_version_def qvalue_def handoff_object_def qint_def qto_int_def kHandoffVersion_def)
  moreover have "take_verify (handoff_object h) = Inr (hd_verify_reinstall h)"
    by (simp add: take_verify_def qvalue_def handoff_object_def)
  ultimately show ?thesis
    using assms(1) written_strings [OF assms(1)]
    by (simp add: parse_handoff_object_def absolute_paths_def complete_handoff_def)
qed

text \<open>
  What the round trip needs of Qt: the reader of JSON takes back what the writer made of this document, and a
  save that reports no error leaves the content it was given.
\<close>

definition reads_back :: "'w handoff_env \<Rightarrow> UpdateHandoff \<Rightarrow> bool" where
  "reads_back env h \<longleftrightarrow> he_from_json env (he_to_json env (handoff_object h)) = Inr (QObj (handoff_object h))"

definition saves_whole :: "'w handoff_env \<Rightarrow> bool" where
  "saves_whole env \<longleftrightarrow>
     (\<forall>path text w w'. he_save env path text w = (None, w') \<longrightarrow> he_read env w' path = Inr text)"

text \<open>An installation of 1.0.0, with a document for it; and a world that is the last file written.\<close>

definition demo_handoff :: UpdateHandoff where
  "demo_handoff = new_handoff\<lparr>hd_transaction_id := ''u-1'', hd_target_version := ''2.0.0'', hd_current_version := ''1.0.0'',
     hd_manifest_path := ''/m'', hd_signature_path := ''/s'', hd_install_dir := ''/x'', hd_app_pid := 7\<rparr>"

definition demo_machine ::
    "('w \<Rightarrow> string \<Rightarrow> string + string) \<Rightarrow> (string \<Rightarrow> string \<Rightarrow> 'w \<Rightarrow> string option \<times> 'w) \<Rightarrow> string \<Rightarrow> 'w handoff_env" where
  "demo_machine read save version = \<lparr>
     he_from_json = (\<lambda>text. if text = ''document'' then Inr (QObj (handoff_object demo_handoff)) else Inl ''illegal value''),
     he_to_json = (\<lambda>_. ''document''), he_show = (\<lambda>_. []), he_absolute = (\<lambda>p. take 1 p = ''/''), he_clean = id,
     he_native = id, he_lower = id, he_lower_char = id, he_file_path = (\<lambda>d f. d @ ''/'' @ f), he_module_path = None,
     he_app_dir = ''/x'', he_read = read, he_save = save,
     he_exists = (\<lambda>_ p. p \<in> {''/m'', ''/s'', ''/x'', ''/x/exosnap.exe''}), he_is_dir = (\<lambda>_ p. p = ''/x''),
     he_product_version = (\<lambda>_ _. Some version), he_registry = (\<lambda>_ _ _. None)\<rparr>"

definition demo_handoff_env :: "(string \<times> string) option handoff_env" where
  "demo_handoff_env = demo_machine
     (\<lambda>w p. case w of Some (q, text) \<Rightarrow> if p = q then Inr text else Inl ''absent'' | None \<Rightarrow> Inl ''absent'')
     (\<lambda>p text _. (None, Some (p, text))) ''1.0.0''"

lemma demo_complete: "complete_handoff demo_handoff_env demo_handoff" "hd_app_pid demo_handoff \<noteq> 0"
  by (simp_all add: complete_handoff_def demo_handoff_def new_handoff_def demo_handoff_env_def demo_machine_def)

lemma demo_faithful: "reads_back demo_handoff_env demo_handoff" "saves_whole demo_handoff_env"
  by (simp_all add: reads_back_def saves_whole_def demo_handoff_env_def demo_machine_def)

text \<open>
  C36: the updater reads from the file exactly the document the application wrote there, field by field,
  whenever the document is complete and the write reported success.
\<close>

theorem handoff_survives_the_launch:
  assumes "complete_handoff env h" "hd_app_pid h \<noteq> 0" "reads_back env h" "saves_whole env"
    and "WriteUpdateHandoffAtomically env path h w = ((True, complaint), w')"
  shows "LoadUpdateHandoff env w' path = Inr h"
proof -
  have "he_save env path (SerializeUpdateHandoff env h) w = (None, w')"
    using assms(5) by (auto simp: WriteUpdateHandoffAtomically_def split: prod.splits option.splits)
  then have "he_read env w' path = Inr (SerializeUpdateHandoff env h)"
    using assms(4) by (simp add: saves_whole_def)
  then show ?thesis
    using assms(3) parse_written_handoff [OF assms(1,2)]
    by (simp add: LoadUpdateHandoff_def ParseUpdateHandoff_def SerializeUpdateHandoff_def reads_back_def is_object_def
      object_of_def)
qed

theorem handoff_survives_the_launch_witness:
  "LoadUpdateHandoff demo_handoff_env (Some (''/h'', ''document'')) ''/h'' = Inr demo_handoff"
  using handoff_survives_the_launch [OF demo_complete demo_faithful, of "''/h''" None "[]"]
  by (simp add: WriteUpdateHandoffAtomically_def SerializeUpdateHandoff_def demo_handoff_env_def demo_machine_def)

text \<open>A number between zero and one passes for a process id, and becomes process 0.\<close>

lemma fractional_pid_is_taken:
  "take_pid show_number [''appPid'' \<mapsto> QDouble (1 / 2)] = Inr 0"
proof -
  have "\<lfloor>1 / 2 :: rat\<rfloor> = 0"
    by (simp add: floor_eq_iff)
  then show ?thesis
    by (simp add: take_pid_def qvalue_def truncate_rat_def)
qed

end
