(* ===== verification/UpdaterStart.thy ===== *)
theory UpdaterStart
  imports Handoff UpdaterView
begin

text \<open>
  How the updater process learns what it is doing: its command line (\<^verbatim>\<open>apps/updater/UpdaterArgs.cpp\<close>), the
  document of the launcher, or what it measures itself, and the state it opens in (\<^verbatim>\<open>apps/updater/main.cpp\<close>
  up to the event loop).
\<close>

section \<open>The command line\<close>

record UpdaterCommandLine =
  cl_handoff_path :: string
  cl_channel :: UpdateChannel
  cl_base_url :: string
  cl_preview_state :: string

definition new_command_line :: UpdaterCommandLine where
  "new_command_line = \<lparr>cl_handoff_path = [], cl_channel = Stable, cl_base_url = [], cl_preview_state = []\<rparr>"

definition kApplyHandoffOption :: string where "kApplyHandoffOption = ''--apply-handoff''"

definition kUpdaterControl :: string where "kUpdaterControl = ''--automation-control''"

definition PreviewStateNames :: "string list" where
  "PreviewStateNames = [''idle'', ''checking'', ''available'', ''ready'', ''uptodate'', ''cancelled'', ''download'',
     ''progress'', ''verifying'', ''success'', ''amber'', ''red'', ''green'', ''reboot'', ''reinstall'', ''long'']"

definition IsKnownPreviewState :: "string \<Rightarrow> bool" where
  "IsKnownPreviewState value \<longleftrightarrow> value \<in> set PreviewStateNames"

datatype FlagError = MissingValue string | InvalidValue string string | UnknownArgument string

text \<open>Every flag takes one value; the scan starts behind the executable.\<close>

definition take_flag :: "string \<Rightarrow> string \<Rightarrow> UpdaterCommandLine \<Rightarrow> FlagError + UpdaterCommandLine" where
  "take_flag flag value cl =
     (if flag = kApplyHandoffOption then Inr (cl\<lparr>cl_handoff_path := value\<rparr>)
      else if flag = ''--channel'' then
        (if value = ''stable'' then Inr (cl\<lparr>cl_channel := Stable\<rparr>)
         else if value = ''preview'' then Inr (cl\<lparr>cl_channel := Preview\<rparr>)
         else Inl (InvalidValue flag value))
      else if flag = ''--base-url'' then Inr (cl\<lparr>cl_base_url := value\<rparr>)
      else if IsKnownPreviewState value then Inr (cl\<lparr>cl_preview_state := value\<rparr>)
      else Inl (InvalidValue flag value))"

definition known_flags :: "string list" where
  "known_flags = [kApplyHandoffOption, ''--channel'', ''--base-url'', ''--preview-state'']"

fun scan_flags :: "string list \<Rightarrow> UpdaterCommandLine \<Rightarrow> FlagError + UpdaterCommandLine" where
  "scan_flags [] cl = Inr cl"
| "scan_flags [flag] cl =
     (if flag \<in> set known_flags then Inl (MissingValue flag) else Inl (UnknownArgument flag))"
| "scan_flags (flag # value # rest) cl =
     (if flag \<in> set known_flags then bindE (take_flag flag value cl) (scan_flags rest)
      else Inl (UnknownArgument flag))"

definition ParseUpdaterCommandLine :: "string list \<Rightarrow> FlagError + UpdaterCommandLine" where
  "ParseUpdaterCommandLine argv = scan_flags (drop 1 argv) new_command_line"

fun WithoutControlOption :: "string list \<Rightarrow> string list" where
  "WithoutControlOption [] = []"
| "WithoutControlOption (a # rest) =
     (if a = kUpdaterControl then WithoutControlOption (drop 1 rest) else a # WithoutControlOption rest)"

section \<open>The run\<close>

record StartArgs = UpdaterArgs +
  sa_handoff_path :: string
  sa_preview_state :: string

definition no_args :: StartArgs where
  "no_args = \<lparr>ua_mode = Manual, ua_channel = Stable, ua_install_mode = Portable, ua_install_dir = [], ua_app_pid = 0,
     ua_current_version = [], ua_target_version = [], ua_update_transaction_id = [], ua_manifest_path = [],
     ua_manifest_signature_path = [], ua_base_url = [], ua_verify_reinstall = False, sa_handoff_path = [],
     sa_preview_state = []\<rparr>"

definition ArgsFromHandoff :: "UpdateHandoff \<Rightarrow> UpdaterCommandLine \<Rightarrow> StartArgs" where
  "ArgsFromHandoff h cl = no_args\<lparr>ua_mode := AppHandoff, ua_install_mode := hd_install_mode h,
     ua_install_dir := hd_install_dir h, ua_app_pid := hd_app_pid h, ua_current_version := hd_current_version h,
     ua_target_version := hd_target_version h, ua_update_transaction_id := hd_transaction_id h,
     ua_manifest_path := hd_manifest_path h, ua_manifest_signature_path := hd_signature_path h,
     sa_handoff_path := cl_handoff_path cl, ua_verify_reinstall := hd_verify_reinstall h,
     sa_preview_state := cl_preview_state cl\<rparr>"

definition ArgsForManualStart :: "UpdaterCommandLine \<Rightarrow> StartArgs" where
  "ArgsForManualStart cl = no_args\<lparr>ua_mode := Manual, ua_channel := cl_channel cl, ua_base_url := cl_base_url cl,
     sa_preview_state := cl_preview_state cl\<rparr>"

record ManualContext =
  mc_install_mode :: InstallMode
  mc_install_dir :: string

definition ResolveManualContext :: "'w handoff_env \<Rightarrow> InstallMode \<Rightarrow> string \<Rightarrow> string \<Rightarrow> ManualContext" where
  "ResolveManualContext env detected registry_path exe_dir =
     (if detected = Installed \<and> registry_path \<noteq> []
      then \<lparr>mc_install_mode = detected, mc_install_dir = he_clean env registry_path\<rparr>
      else \<lparr>mc_install_mode = detected, mc_install_dir = he_clean env exe_dir\<rparr>)"

definition ReadInstalledVersion :: "'w handoff_env \<Rightarrow> 'w \<Rightarrow> string \<Rightarrow> string" where
  "ReadInstalledVersion env w dir =
     (if dir = [] then []
      else
        let exe = he_file_path env dir ''exosnap.exe'' in
        if \<not> he_exists env w exe then [] else text_of (he_product_version env w (he_native env exe)))"

definition FillManualContext :: "'w handoff_env \<Rightarrow> 'w \<Rightarrow> StartArgs \<Rightarrow> StartArgs" where
  "FillManualContext env w args =
     (let context = ResolveManualContext env (DetectInstallMode env w) (text_of (recorded_install_path env w))
            (he_app_dir env) in
      args\<lparr>ua_install_mode := mc_install_mode context, ua_install_dir := mc_install_dir context,
        ua_current_version := ReadInstalledVersion env w (mc_install_dir context)\<rparr>)"

text \<open>The evidence for a refusal; empty when the operation may proceed.\<close>

definition AcceptHandoff :: "'w handoff_env \<Rightarrow> 'w \<Rightarrow> string \<Rightarrow> UpdaterCommandLine \<Rightarrow> string \<times> StartArgs" where
  "AcceptHandoff env w path cl = (case LoadUpdateHandoff env w path of
       Inl (rejection, detail) \<Rightarrow>
         (HandoffRejectionName rejection @ '' ('' @ path @ ''): '' @ detail, no_args\<lparr>ua_mode := AppHandoff\<rparr>)
     | Inr h \<Rightarrow>
         (case HandoffAssetsPresent env w h of
            Some detail \<Rightarrow> (detail, ArgsFromHandoff h cl)
          | None \<Rightarrow>
              (case ValidateInstallContextOnDisk env w h of
                 Some (_, detail) \<Rightarrow> (detail, ArgsFromHandoff h cl)
               | None \<Rightarrow> ([], ArgsFromHandoff h cl))))"

section \<open>The state it opens in\<close>

definition resolve_args :: "'w handoff_env \<Rightarrow> 'w \<Rightarrow> UpdaterCommandLine \<Rightarrow> string \<times> StartArgs" where
  "resolve_args env w cl =
     (if cl_handoff_path cl \<noteq> [] then AcceptHandoff env w (cl_handoff_path cl) cl
      else ([], FillManualContext env w (ArgsForManualStart cl)))"

definition open_process ::
    "('w, 'j) system \<Rightarrow> UpdaterArgs \<Rightarrow> string \<Rightarrow> UpdaterProcess \<times> SlotCall option" where
  "open_process sys args rejection =
     (let p = new_process sys args in
      if rejection \<noteq> []
      then (p\<lparr>last_failure := HandoffRejected,
              controller := onFailure HandoffRejected rejection (controller p)\<rparr>, None)
      else if ua_mode args = Manual then (p\<lparr>controller := onIdle (controller p)\<rparr>, None)
      else (p\<lparr>controller := onStepStarted StepDownload (controller p), in_flight := True\<rparr>,
            Some (CallRun StepDownload)))"

datatype StartOutcome =
  StartRefused UpdaterExit
| PreviewOnly
| Opened StartArgs UpdaterProcess "SlotCall option"

text \<open>
  A preview renders one canned state and leaves; it is asked for before anything else is parsed. The window
  always loads, and so does the channel when it is asked for.
\<close>

definition start_updater ::
    "('w, 'j) system \<Rightarrow> 'w handoff_env \<Rightarrow> 'w \<Rightarrow> string list \<Rightarrow> StartOutcome" where
  "start_updater sys env w argv =
     (if ''--preview-state'' \<in> set argv
      then
        (case dropWhile (\<lambda>a. a \<noteq> ''--preview-state'') argv of
           _ # which # _ \<Rightarrow> if IsKnownPreviewState which then PreviewOnly else StartRefused UsageError
         | _ \<Rightarrow> StartRefused UsageError)
      else
        let options = ParseControlOptions argv kUpdaterControl in
        if co_requested options \<and> co_error options \<noteq> [] then StartRefused UsageError
        else
          (case ParseUpdaterCommandLine (WithoutControlOption argv) of
             Inl _ \<Rightarrow> StartRefused UsageError
           | Inr cl \<Rightarrow>
               (case resolve_args env w cl of
                  (rejection, args) \<Rightarrow>
                    (case open_process sys (UpdaterArgs.truncate args) rejection of
                       (p, queued) \<Rightarrow> Opened args p queued))))"

section \<open>Guarantees\<close>

lemma scan_flags_preview:
  "scan_flags argv cl = Inr cl' \<Longrightarrow> cl_preview_state cl = [] \<or> IsKnownPreviewState (cl_preview_state cl) \<Longrightarrow>
   cl_preview_state cl' = [] \<or> IsKnownPreviewState (cl_preview_state cl')"
  by (induction argv cl rule: scan_flags.induct) (auto simp: bindE_Inr_iff take_flag_def split: if_splits)

text \<open>What a handed-over document has to be proven by before the run starts.\<close>

definition proven_handoff :: "'w handoff_env \<Rightarrow> 'w \<Rightarrow> UpdateHandoff \<Rightarrow> bool" where
  "proven_handoff env w h \<longleftrightarrow>
     complete_handoff env h \<and> he_exists env w (hd_manifest_path h) \<and> he_exists env w (hd_signature_path h) \<and>
     he_is_dir env w (hd_install_dir h) \<and> he_exists env w (he_file_path env (hd_install_dir h) ''exosnap.exe'') \<and>
     he_product_version env w (he_native env (he_file_path env (hd_install_dir h) ''exosnap.exe'')) =
       Some (hd_current_version h) \<and>
     (hd_install_mode h = Installed \<longrightarrow>
       (\<forall>dir. recorded_install_path env w = Some dir \<longrightarrow> dir \<noteq> [] \<longrightarrow>
          CanonicalDir env dir = CanonicalDir env (hd_install_dir h)))"

lemma text_of_eq: "text_of v = s \<longleftrightarrow> v = Some s \<or> v = None \<and> s = []"
  by (auto simp: text_of_def split: option.splits)

lemma accepted_install_is_proven:
  assumes "complete_handoff env h" "HandoffAssetsPresent env w h = None" "ValidateInstallContextOnDisk env w h = None"
  shows "proven_handoff env w h"
proof -
  let ?exe = "he_file_path env (hd_install_dir h) ''exosnap.exe''"
  have facts: "he_is_dir env w (hd_install_dir h)" "he_exists env w ?exe" "hd_current_version h \<noteq> []"
    "text_of (he_product_version env w (he_native env ?exe)) = hd_current_version h"
    "hd_install_mode h = Installed \<Longrightarrow> text_of (recorded_install_path env w) \<noteq> [] \<Longrightarrow>
      CanonicalDir env (text_of (recorded_install_path env w)) = CanonicalDir env (hd_install_dir h)"
    using assms(3)
    by (auto simp: ValidateInstallContextOnDisk_None ValidateInstallContext_None measure_context_def Let_def
      split: if_splits)
  moreover have "he_product_version env w (he_native env ?exe) = Some (hd_current_version h)"
    using facts(3,4) by (auto simp: text_of_eq)
  ultimately show ?thesis
    using assms(1,2) by (auto simp: proven_handoff_def HandoffAssetsPresent_None text_of_def)
qed

lemma refusal_details:
  "HandoffAssetsPresent env w h \<noteq> Some []" "ValidateInstallContextOnDisk env w h \<noteq> Some (r, [])"
  by (auto simp: HandoffAssetsPresent_def ValidateInstallContextOnDisk_def Let_def)

lemma no_refusal:
  "(case a of Some d \<Rightarrow> (d, x) | None \<Rightarrow> (case v of Some (_, d) \<Rightarrow> (d, x) | None \<Rightarrow> ([], x))) = ([], y) \<Longrightarrow>
   a \<noteq> Some [] \<Longrightarrow> (\<And>r. v \<noteq> Some (r, [])) \<Longrightarrow> a = None \<and> v = None \<and> y = x"
  by (auto split: option.splits prod.splits)

lemma accept_mode: "ua_mode (snd (AcceptHandoff env w path cl)) = AppHandoff"
  by (simp add: AcceptHandoff_def ArgsFromHandoff_def no_args_def split: sum.split prod.split option.split)

lemma accepted_handoff:
  assumes "AcceptHandoff env w path cl = ([], args)"
  shows "\<exists>h. LoadUpdateHandoff env w path = Inr h \<and> proven_handoff env w h \<and> args = ArgsFromHandoff h cl"
proof (cases "LoadUpdateHandoff env w path")
  case (Inl r)
  then show ?thesis
    using assms by (cases r) (simp add: AcceptHandoff_def)
next
  case (Inr h)
  moreover have "HandoffAssetsPresent env w h = None \<and> ValidateInstallContextOnDisk env w h = None \<and>
      args = ArgsFromHandoff h cl"
  proof (rule no_refusal)
    show "(case HandoffAssetsPresent env w h of Some d \<Rightarrow> (d, ArgsFromHandoff h cl)
      | None \<Rightarrow> (case ValidateInstallContextOnDisk env w h of Some (_, d) \<Rightarrow> (d, ArgsFromHandoff h cl)
          | None \<Rightarrow> ([], ArgsFromHandoff h cl))) = ([], args)"
      using assms by (simp only: AcceptHandoff_def Inr sum.case)
  qed (rule refusal_details)+
  moreover have "complete_handoff env h"
    using Inr by (auto simp: LoadUpdateHandoff_def split: sum.splits intro: parsed_handoff_is_complete)
  ultimately show ?thesis
    by (simp add: accepted_install_is_proven)
qed

lemma start_updater_opened:
  assumes "start_updater sys env w argv = Opened args p queued"
  obtains cl rejection where "ParseUpdaterCommandLine (WithoutControlOption argv) = Inr cl"
    and "resolve_args env w cl = (rejection, args)"
    and "open_process sys (UpdaterArgs.truncate args) rejection = (p, queued)"
  using assms by (auto simp: start_updater_def Let_def split: if_splits list.splits sum.splits prod.splits)

lemma truncate_mode: "ua_mode (UpdaterArgs.truncate args) = ua_mode args"
  by (simp add: UpdaterArgs.truncate_def)

lemma manual_context_mode: "ua_mode (FillManualContext env w (ArgsForManualStart cl)) = Manual"
  by (simp add: FillManualContext_def ArgsForManualStart_def no_args_def Let_def)

text \<open>
  C37: a run starts work by itself only for a document that was read completely and proven: its manifest and
  signature exist, the directory it names is an installation whose executable reports the claimed version,
  and the registry does not know that installation elsewhere; it installs exactly what that document says.
\<close>

theorem self_started_run_is_proven:
  assumes "start_updater sys env w argv = Opened args p (Some slot_call)"
  shows "slot_call = CallRun StepDownload \<and>
    (\<exists>h cl. LoadUpdateHandoff env w (cl_handoff_path cl) = Inr h \<and> proven_handoff env w h \<and>
       args = ArgsFromHandoff h cl)"
proof -
  obtain cl rejection where resolved: "resolve_args env w cl = (rejection, args)"
    and opened: "open_process sys (UpdaterArgs.truncate args) rejection = (p, Some slot_call)"
    by (rule start_updater_opened [OF assms])
  have begun: "rejection = []" "ua_mode args \<noteq> Manual" "slot_call = CallRun StepDownload"
    using opened by (auto simp: open_process_def Let_def truncate_mode split: if_splits)
  then have "AcceptHandoff env w (cl_handoff_path cl) cl = ([], args)"
    using resolved by (auto simp: resolve_args_def manual_context_mode split: if_splits)
  from accepted_handoff [OF this] show ?thesis
    using begun(3) by auto
qed

definition demo_start_env :: "string \<Rightarrow> 'w handoff_env" where
  "demo_start_env = demo_machine (\<lambda>_ _. Inr ''document'') (\<lambda>_ _ w. (Some ''write protected'', w))"

lemma demo_loads: "LoadUpdateHandoff (demo_start_env version) w ''/h'' = Inr demo_handoff"
proof -
  have "complete_handoff (demo_start_env version) demo_handoff"
    by (simp add: complete_handoff_def demo_handoff_def new_handoff_def demo_start_env_def demo_machine_def)
  then show ?thesis
    using parse_written_handoff [of "demo_start_env version" demo_handoff] demo_complete(2)
    by (simp add: LoadUpdateHandoff_def ParseUpdateHandoff_def is_object_def object_of_def demo_start_env_def demo_machine_def)
qed

lemma demo_accepted: "fst (AcceptHandoff (demo_start_env ''1.0.0'') w ''/h'' cl) = []"
proof -
  have "HandoffAssetsPresent (demo_start_env ''1.0.0'') w demo_handoff = None"
    by (simp add: HandoffAssetsPresent_None demo_handoff_def new_handoff_def demo_start_env_def demo_machine_def)
  moreover have "ValidateInstallContextOnDisk (demo_start_env ''1.0.0'') w demo_handoff = None"
    by (simp add: ValidateInstallContextOnDisk_None ValidateInstallContext_None measure_context_def Let_def text_of_def
      demo_handoff_def new_handoff_def demo_start_env_def demo_machine_def)
  ultimately show ?thesis
    by (simp add: AcceptHandoff_def demo_loads)
qed

lemma demo_opens:
  "start_updater demo_system env w [''updater'', ''--apply-handoff'', ''/h''] =
     (case AcceptHandoff env w ''/h'' (new_command_line\<lparr>cl_handoff_path := ''/h''\<rparr>) of
        (rejection, args) \<Rightarrow>
          (case open_process demo_system (UpdaterArgs.truncate args) rejection of (p, queued) \<Rightarrow> Opened args p queued))"
proof -
  let ?argv = "[''updater'', ''--apply-handoff'', ''/h'']"
  have "ParseUpdaterCommandLine (WithoutControlOption ?argv) = Inr (new_command_line\<lparr>cl_handoff_path := ''/h''\<rparr>)"
    by (simp add: ParseUpdaterCommandLine_def kUpdaterControl_def known_flags_def kApplyHandoffOption_def take_flag_def)
  moreover have "\<not> co_requested (ParseControlOptions ?argv kUpdaterControl)"
    by (simp add: ParseControlOptions_def kUpdaterControl_def)
  ultimately show ?thesis
    by (simp add: start_updater_def resolve_args_def Let_def del: WithoutControlOption.simps)
qed

lemma demo_launch:
  "\<exists>args p. start_updater demo_system (demo_start_env ''1.0.0'') w [''updater'', ''--apply-handoff'', ''/h''] =
     Opened args p (Some (CallRun StepDownload))"
proof -
  obtain args where args: "AcceptHandoff (demo_start_env ''1.0.0'') w ''/h'' (new_command_line\<lparr>cl_handoff_path := ''/h''\<rparr>) = ([], args)"
    using demo_accepted by (metis prod.collapse)
  then have "ua_mode args = AppHandoff"
    using accept_mode [of "demo_start_env ''1.0.0''" w] by (metis snd_conv)
  then show ?thesis
    using args by (simp add: demo_opens open_process_def truncate_mode Let_def)
qed

theorem self_started_run_is_proven_witness:
  "\<exists>args p h cl. start_updater demo_system (demo_start_env ''1.0.0'') (demo_disk []) [''updater'', ''--apply-handoff'', ''/h''] =
       Opened args p (Some (CallRun StepDownload)) \<and>
     proven_handoff (demo_start_env ''1.0.0'') (demo_disk []) h \<and> args = ArgsFromHandoff h cl"
  using demo_launch self_started_run_is_proven by metis

lemma refused_check: "fl_mode f = AppHandoff \<Longrightarrow> \<not> allowed (CanCheck f)"
  by (simp add: CanCheck_def RequireManualMode_def verdict_simps)

text \<open>The executable of the installation is older than the document says.\<close>

lemma demo_refusal: "fst (AcceptHandoff (demo_start_env ''0.9.0'') w ''/h'' cl) \<noteq> []"
proof
  assume "fst (AcceptHandoff (demo_start_env ''0.9.0'') w ''/h'' cl) = []"
  then obtain h where "LoadUpdateHandoff (demo_start_env ''0.9.0'') w ''/h'' = Inr h" "proven_handoff (demo_start_env ''0.9.0'') w h"
    using accepted_handoff by (metis prod.collapse)
  then have "h = demo_handoff" "proven_handoff (demo_start_env ''0.9.0'') w demo_handoff"
    using demo_loads [of "''0.9.0''" w] by simp_all
  then show False
    by (simp add: proven_handoff_def demo_start_env_def demo_machine_def demo_handoff_def new_handoff_def)
qed

text \<open>
  C38: a refused document is the end of its run: no work is queued, the failure is published and decides the
  exit code, the window offers nothing but to close, and the channel refuses every command that would start
  work.
\<close>

theorem refused_handoff_is_final:
  assumes "start_updater sys env w argv = Opened args p queued" "last_failure p = HandoffRejected"
  shows "queued = None \<and> \<not> in_flight p \<and> failure_case (flow (controller p)) = Some HandoffRejected \<and>
    UpdaterExitCodeFor (flow (controller p)) = exit_number UpdateFailed \<and>
    set (offered (render (ui (controller p)) v)) = {CloseRequested} \<and>
    \<not> allowed (CanRetry (flow (controller p))) \<and> \<not> allowed (CanCheck (flow (controller p))) \<and>
    \<not> allowed (CanDownload (flow (controller p))) \<and> \<not> allowed (CanApply (flow (controller p)))"
proof -
  obtain cl rejection where resolved: "resolve_args env w cl = (rejection, args)"
    and "open_process sys (UpdaterArgs.truncate args) rejection = (p, queued)"
    by (rule start_updater_opened [OF assms(1)])
  then have "rejection \<noteq> []" and opened: "queued = None" "\<not> in_flight p"
      "controller p = onFailure HandoffRejected rejection (MakeController sys (UpdaterArgs.truncate args) (ua_target_version args))"
    using assms(2) by (auto simp: open_process_def new_process_def Let_def UpdaterArgs.truncate_def split: if_splits)
  then have "ua_mode args = AppHandoff"
    using resolved accept_mode [of env w "cl_handoff_path cl" cl] by (auto simp: resolve_args_def split: if_splits)
  then have "fl_mode (flow (controller p)) = AppHandoff"
    by (simp add: opened(3) onFailure_def failed_flow_def MakeController_def setUpdateTransactionId_def setContext_def
      setMode_def truncate_mode Let_def)
  moreover have flow: "fl_phase (flow (controller p)) = PhFailed" "failure_case (flow (controller p)) = Some HandoffRejected"
      "retry_entry_step (flow (controller p)) = None"
    by (simp_all add: opened(3) onFailure_def failed_flow_def PhaseForFailure_def RetryOffered_def Let_def)
  moreover have "set (offered (render (ui (controller p)) v)) = {CloseRequested}"
    using offered_failure [OF _ flow(2), of v] flow(3) by (auto simp: opened(3) card_ok_onFailure)
  ultimately show ?thesis
    using opened(1,2)
    by (simp add: UpdaterExitCodeFor_def CanRetry_iff CanDownload_iff CanApply_iff refused_check)
qed

theorem refused_handoff_is_final_witness:
  "\<exists>args p. start_updater demo_system (demo_start_env ''0.9.0'') (demo_disk []) [''updater'', ''--apply-handoff'', ''/h''] =
       Opened args p None \<and> failure_case (flow (controller p)) = Some HandoffRejected"
proof -
  obtain rejection args where "AcceptHandoff (demo_start_env ''0.9.0'') (demo_disk []) ''/h''
      (new_command_line\<lparr>cl_handoff_path := ''/h''\<rparr>) = (rejection, args)" "rejection \<noteq> []"
    using demo_refusal by (metis prod.collapse)
  then obtain p where p: "start_updater demo_system (demo_start_env ''0.9.0'') (demo_disk []) [''updater'', ''--apply-handoff'', ''/h''] =
      Opened args p None" "last_failure p = HandoffRejected"
    by (simp add: demo_opens open_process_def Let_def)
  show ?thesis
    using p(1) refused_handoff_is_final [OF p] by blast
qed

text \<open>An empty path makes the option count as not given: the run is a manual one.\<close>

lemma empty_handoff_path_is_manual:
  "ParseUpdaterCommandLine [exe, kApplyHandoffOption, []] = Inr new_command_line"
  "ua_mode (snd (resolve_args env w new_command_line)) = Manual"
  by (simp_all add: ParseUpdaterCommandLine_def known_flags_def take_flag_def new_command_line_def resolve_args_def
    manual_context_mode)

end
