(* ===== verification/FilenamePattern.thy ===== *)
theory FilenamePattern
  imports Capability "HOL-Library.Sublist"
begin

text \<open>
  Names of recordings: the pattern the user enters (\<^verbatim>\<open>app/models/OutputPathPolicy.cpp\<close>), and the path
  a pattern is rendered to (\<^verbatim>\<open>app/models/FilenameBuilder.cpp\<close>).

  Texts are UTF-16 units. The character classes of the C library, the clock, the environment variables and
  \<^verbatim>\<open>path::is_absolute\<close> are the fields of \<open>naming_env\<close>.
\<close>

section \<open>Texts\<close>

type_synonym wtext = "u16 list"

definition wide :: "string \<Rightarrow> wtext" where
  "wide = map of_char"

definition wchar :: "char \<Rightarrow> u16" where
  "wchar = of_char"

record 't naming_env =
  iswspace :: "u16 \<Rightarrow> bool"
  iswalpha :: "u16 \<Rightarrow> bool"
  towlower :: "u16 \<Rightarrow> u16"
  towupper :: "u16 \<Rightarrow> u16"
  localtime :: "int \<Rightarrow> 't"
  wcsftime :: "'t \<Rightarrow> string \<Rightarrow> wtext option"
  environment_value :: "wtext \<Rightarrow> wtext option"
  path_is_absolute :: "wtext \<Rightarrow> bool"

definition IsPatternPathSeparator :: "u16 \<Rightarrow> bool" where
  "IsPatternPathSeparator c \<longleftrightarrow> c = 0x2F \<or> c = 0x5C"

definition trim_both :: "(u16 \<Rightarrow> bool) \<Rightarrow> wtext \<Rightarrow> wtext" where
  "trim_both p s = rev (dropWhile p (rev (dropWhile p s)))"

fun split_on :: "(u16 \<Rightarrow> bool) \<Rightarrow> wtext \<Rightarrow> wtext list" where
  "split_on p [] = [[]]"
| "split_on p (c # s) =
     (if p c then [] # split_on p s
      else (case split_on p s of seg # segs \<Rightarrow> (c # seg) # segs | [] \<Rightarrow> [[c]]))"

fun join_with :: "u16 \<Rightarrow> wtext list \<Rightarrow> wtext" where
  "join_with c [] = []"
| "join_with c [s] = s"
| "join_with c (s # segs) = s @ c # join_with c segs"

section \<open>What the user may enter\<close>

definition Trim :: "'t naming_env \<Rightarrow> wtext \<Rightarrow> wtext" where
  "Trim env = trim_both (iswspace env)"

definition kAllowedEnvNames :: "string list" where
  "kAllowedEnvNames = [''USERPROFILE'', ''APPDATA'', ''LOCALAPPDATA'', ''PUBLIC'', ''TEMP'', ''TMP'']"

definition IsAllowedEnvName :: "'t naming_env \<Rightarrow> wtext \<Rightarrow> bool" where
  "IsAllowedEnvName env name \<longleftrightarrow> map (towupper env) name \<in> set (map wide kAllowedEnvNames)"

datatype OutputFolderPolicyResult = FolderAccepted | FolderEmptyInput | FolderInvalidPath | NotAbsolutePath
| FolderUnsupportedEnvironmentVariable | FolderUnsupportedExpression

datatype FilenamePatternPolicyResult = PatternOk | PatternEmptyInput | ParentTraversalSegment | AbsolutePath
| UnsupportedEnvironmentVariable | UnsupportedHomeAlias | UnsupportedExpression

function ExpandAllowedEnvironmentVariables :: "'t naming_env \<Rightarrow> wtext \<Rightarrow> OutputFolderPolicyResult + wtext" where
  "ExpandAllowedEnvironmentVariables env s =
     (case s of
        [] \<Rightarrow> Inr []
      | c # rest \<Rightarrow>
          if c \<noteq> 0x25 then map_sum id ((#) c) (ExpandAllowedEnvironmentVariables env rest)
          else if 0x25 \<notin> set rest then Inl FolderInvalidPath
          else
            let name = takeWhile (\<lambda>d. d \<noteq> 0x25) rest in
            if \<not> IsAllowedEnvName env name then Inl FolderUnsupportedEnvironmentVariable
            else
              (case environment_value env name of
                 None \<Rightarrow> Inl FolderInvalidPath
               | Some value \<Rightarrow>
                   map_sum id ((@) value) (ExpandAllowedEnvironmentVariables env (drop (length name + 1) rest))))"
  by pat_completeness auto
termination
  by (relation "measure (\<lambda>(env, s). length s)") auto

declare ExpandAllowedEnvironmentVariables.simps [simp del]

definition home_alias :: "wtext \<Rightarrow> bool" where
  "home_alias s \<longleftrightarrow> prefix [0x7E, 0x2F] s \<or> prefix [0x7E, 0x5C] s"

definition ExpandHomeAlias :: "'t naming_env \<Rightarrow> wtext \<Rightarrow> OutputFolderPolicyResult + wtext" where
  "ExpandHomeAlias env s =
     (if \<not> home_alias s then Inr s
      else
        (case environment_value env (wide ''USERPROFILE'') of
           None \<Rightarrow> Inl FolderInvalidPath
         | Some profile \<Rightarrow>
             (let rest = drop 2 s in
              Inr (if rest = [] then profile
                else if profile \<noteq> [] \<and> \<not> IsPatternPathSeparator (List.last profile) then profile @ 0x5C # rest
                else profile @ rest))))"

definition IsDriveAbsolutePath :: "'t naming_env \<Rightarrow> wtext \<Rightarrow> bool" where
  "IsDriveAbsolutePath env s \<longleftrightarrow> (case s of
       a # b # c # _ \<Rightarrow> iswalpha env a \<and> b = 0x3A \<and> IsPatternPathSeparator c
     | _ \<Rightarrow> False)"

definition IsUncPath :: "wtext \<Rightarrow> bool" where
  "IsUncPath s \<longleftrightarrow> prefix [0x5C, 0x5C] s \<or> prefix [0x2F, 0x2F] s"

definition IsAbsoluteWindowsPath :: "'t naming_env \<Rightarrow> wtext \<Rightarrow> bool" where
  "IsAbsoluteWindowsPath env s \<longleftrightarrow> IsDriveAbsolutePath env s \<or> IsUncPath s \<or> path_is_absolute env s"

text \<open>\<^verbatim>\<open>resolved_path\<close>, of which the text is kept, and \<^verbatim>\<open>entered_input\<close>.\<close>

definition NormalizeOutputFolderInput :: "'t naming_env \<Rightarrow> wtext \<Rightarrow> OutputFolderPolicyResult + (wtext \<times> wtext)" where
  "NormalizeOutputFolderInput env raw =
     (let trimmed = Trim env raw in
      if trimmed = [] then Inl FolderEmptyInput
      else if 0x24 \<in> set trimmed then Inl FolderUnsupportedExpression
      else
        bindE (ExpandHomeAlias env trimmed) (\<lambda>home.
        bindE (ExpandAllowedEnvironmentVariables env home) (\<lambda>expanded.
          if \<not> IsAbsoluteWindowsPath env expanded then Inl NotAbsolutePath
          else if expanded = [] then Inl FolderInvalidPath
          else Inr (expanded, trimmed))))"

function NormalizePatternPrefix :: "wtext \<Rightarrow> wtext" where
  "NormalizePatternPrefix s =
     (if prefix [0x2E, 0x2F] s \<or> prefix [0x2E, 0x5C] s then NormalizePatternPrefix (drop 2 s)
      else if s \<noteq> [] \<and> IsPatternPathSeparator (hd s) then NormalizePatternPrefix (tl s)
      else s)"
  by pat_completeness auto
termination
  by (relation "measure length") (auto simp: prefix_def)

declare NormalizePatternPrefix.simps [simp del]

definition SplitBySlash :: "wtext \<Rightarrow> wtext list" where
  "SplitBySlash = split_on (\<lambda>c. c = 0x2F)"

definition dot :: wtext where "dot = [0x2E]"

definition dot_dot :: wtext where "dot_dot = [0x2E, 0x2E]"

text \<open>The segments in order: empty ones and dots are left out, a parent segment ends the scan.\<close>

fun keep_segments :: "wtext list \<Rightarrow> FilenamePatternPolicyResult + wtext list" where
  "keep_segments [] = Inr []"
| "keep_segments (s # segs) =
     (if s = [] \<or> s = dot then keep_segments segs
      else if s = dot_dot then Inl ParentTraversalSegment
      else map_sum id ((#) s) (keep_segments segs))"

definition NormalizeFilenamePatternInput :: "'t naming_env \<Rightarrow> wtext \<Rightarrow> FilenamePatternPolicyResult + wtext" where
  "NormalizeFilenamePatternInput env raw =
     (let trimmed = Trim env raw in
      if trimmed = [] then Inl PatternEmptyInput
      else if 0x25 \<in> set trimmed then Inl UnsupportedEnvironmentVariable
      else if 0x24 \<in> set trimmed then Inl UnsupportedExpression
      else if home_alias trimmed then Inl UnsupportedHomeAlias
      else
        let slashed = map (\<lambda>c. if c = 0x5C then 0x2F else c) trimmed in
        if IsDriveAbsolutePath env slashed \<or> IsUncPath slashed then Inl AbsolutePath
        else
          bindE (keep_segments (SplitBySlash (NormalizePatternPrefix slashed))) (\<lambda>segs.
            if segs = [] then Inl PatternEmptyInput else Inr (join_with 0x2F segs)))"

definition kSupportedTokens :: "string list" where
  "kSupportedTokens = [''datetime'', ''date'', ''time'', ''timestamp'', ''YYYY'', ''YY'', ''MM'', ''DD'', ''hh'', ''mm'',
     ''ss'', ''app'', ''title'', ''process'', ''target'', ''profile'', ''container'', ''video'', ''audio'']"

definition ContainsSupportedFilenameToken :: "wtext \<Rightarrow> bool" where
  "ContainsSupportedFilenameToken s \<longleftrightarrow> list_ex (\<lambda>t. sublist (0x7B # wide t @ [0x7D]) s) kSupportedTokens"

definition OutputFolderPolicyMessage :: "OutputFolderPolicyResult \<Rightarrow> string" where
  "OutputFolderPolicyMessage r = (case r of
       FolderAccepted \<Rightarrow> [] | FolderEmptyInput \<Rightarrow> ''Output folder is required.''
     | FolderInvalidPath \<Rightarrow> ''Output folder path is invalid.''
     | NotAbsolutePath \<Rightarrow> ''Output folder must resolve to an absolute Windows path.''
     | FolderUnsupportedEnvironmentVariable \<Rightarrow>
         ''Only allowlisted environment variables are supported in output folder.''
     | FolderUnsupportedExpression \<Rightarrow> ''Shell expressions are not supported in output folder.'')"

definition FilenamePatternPolicyMessage :: "FilenamePatternPolicyResult \<Rightarrow> string" where
  "FilenamePatternPolicyMessage r = (case r of
       PatternOk \<Rightarrow> [] | PatternEmptyInput \<Rightarrow> ''Filename pattern is required.''
     | ParentTraversalSegment \<Rightarrow> ''Filename pattern must not contain '' @ [CHR 0x27] @ ''..'' @ [CHR 0x27] @ '' segments.''
     | AbsolutePath \<Rightarrow> ''Filename pattern must stay relative to output folder.''
     | UnsupportedEnvironmentVariable \<Rightarrow> ''Environment variables are not allowed in filename pattern.''
     | UnsupportedHomeAlias \<Rightarrow> ''Home alias is not allowed in filename pattern.''
     | UnsupportedExpression \<Rightarrow> ''Shell expressions are not allowed in filename pattern.'')"

end
