(* ===== verification/FilenameBuilder.thy ===== *)
theory FilenameBuilder
  imports FilenamePattern Versions
begin

text \<open>
  Rendering a pattern to the path of a recording (\<^verbatim>\<open>app/models/FilenameBuilder.cpp\<close>): tokens, cleaning of the
  segments, and the folder the path must stay in. Paths are the elements \<^verbatim>\<open>std::filesystem\<close> iterates over.
\<close>

section \<open>Characters and segments\<close>

definition kMissingTokenSentinel :: u16 where "kMissingTokenSentinel = 0xE000"

definition ContainerExtension :: "ContainerC \<Rightarrow> wtext" where
  "ContainerExtension c = (case c of MatroskaC \<Rightarrow> wide ''.mkv'' | Mp4C \<Rightarrow> wide ''.mp4'' | WebMC \<Rightarrow> wide ''.webm'')"

definition IsInvalidWindowsFilenameChar :: "u16 \<Rightarrow> bool" where
  "IsInvalidWindowsFilenameChar c \<longleftrightarrow> c < 32 \<or> c \<in> {0x3C, 0x3E, 0x3A, 0x22, 0x2F, 0x5C, 0x7C, 0x3F, 0x2A}"

definition IsCleanupSeparator :: "'t naming_env \<Rightarrow> u16 \<Rightarrow> bool" where
  "IsCleanupSeparator env c \<longleftrightarrow>
     c \<in> {0x7C, 0x2E, 0x2C, 0x3A, 0x3B, 0x5F, 0x2D, 0x2F, 0x5C} \<or> iswspace env c"

definition IsTrimSeparator :: "'t naming_env \<Rightarrow> u16 \<Rightarrow> bool" where
  "IsTrimSeparator env c \<longleftrightarrow> c \<in> {0x7C, 0x2E, 0x2C, 0x3A, 0x3B, 0x5F, 0x2D} \<or> iswspace env c"

definition TrimSegment :: "'t naming_env \<Rightarrow> wtext \<Rightarrow> wtext" where
  "TrimSegment env = trim_both (IsTrimSeparator env)"

definition IsWindowsReservedDeviceName :: "'t naming_env \<Rightarrow> wtext \<Rightarrow> bool" where
  "IsWindowsReservedDeviceName env segment =
     (let stem = takeWhile (\<lambda>c. c \<noteq> 0x2E) segment; low = map (towlower env) (take 3 stem) in
      length stem = 3 \<and> low \<in> set (map wide [''con'', ''prn'', ''aux'', ''nul'']) \<or>
      length stem = 4 \<and> low \<in> set (map wide [''com'', ''lpt'']) \<and> 0x31 \<le> stem ! 3 \<and> stem ! 3 \<le> 0x39)"

definition SanitizeReservedDeviceName :: "'t naming_env \<Rightarrow> wtext \<Rightarrow> wtext" where
  "SanitizeReservedDeviceName env s = (if IsWindowsReservedDeviceName env s then s @ [0x5F, 0x31] else s)"

definition replace_invalid :: "wtext \<Rightarrow> wtext" where
  "replace_invalid = map (\<lambda>c. if IsInvalidWindowsFilenameChar c then 0x5F else c)"

section \<open>Tokens\<close>

definition SafeStrftime :: "'t naming_env \<Rightarrow> 't \<Rightarrow> string \<Rightarrow> string \<Rightarrow> wtext" where
  "SafeStrftime env tm format fallback = (case wcsftime env tm format of Some s \<Rightarrow> s | None \<Rightarrow> wide fallback)"

definition BuildDateTimeToken :: "'t naming_env \<Rightarrow> 't \<Rightarrow> wtext" where
  "BuildDateTimeToken env tm = SafeStrftime env tm ''%Y-%m-%d_%H-%M-%S'' ''1970-01-01_00-00-00''"

definition BuildFallbackBaseName :: "'t naming_env \<Rightarrow> int \<Rightarrow> wtext" where
  "BuildFallbackBaseName env timestamp = wide ''recording_'' @ BuildDateTimeToken env (localtime env timestamp)"

definition SanitizeTokenValue :: "'t naming_env \<Rightarrow> wtext \<Rightarrow> wtext" where
  "SanitizeTokenValue env v = TrimSegment env (replace_invalid v)"

record FilenameTargetContext =
  fc_target_name :: wtext
  fc_app_name :: wtext
  fc_process_name :: wtext
  fc_window_title :: wtext
  fc_profile_name :: wtext
  fc_video_codec :: VideoCodecC
  fc_audio_codec :: AudioCodecC

definition no_target_context :: FilenameTargetContext where
  "no_target_context = \<lparr>fc_target_name = [], fc_app_name = [], fc_process_name = [], fc_window_title = [],
     fc_profile_name = [], fc_video_codec = H264C, fc_audio_codec = AacC\<rparr>"

definition ContainerToken :: "ContainerC \<Rightarrow> string" where
  "ContainerToken c = (case c of MatroskaC \<Rightarrow> ''mkv'' | Mp4C \<Rightarrow> ''mp4'' | WebMC \<Rightarrow> ''webm'')"

definition VideoCodecToken :: "VideoCodecC \<Rightarrow> string" where
  "VideoCodecToken c = (case c of H264C \<Rightarrow> ''h264'' | HevcC \<Rightarrow> ''hevc'' | Av1C \<Rightarrow> ''av1'')"

definition AudioCodecToken :: "AudioCodecC \<Rightarrow> string" where
  "AudioCodecToken c = (case c of AacC \<Rightarrow> ''aac'' | OpusC \<Rightarrow> ''opus'' | PcmC \<Rightarrow> ''pcm'' | FlacC \<Rightarrow> ''flac'')"

definition decimal_text :: "int \<Rightarrow> wtext" where
  "decimal_text i = wide (if i < 0 then ''-'' @ to_string (nat (- i)) else to_string (nat i))"

text \<open>\<open>None\<close>: no known token. The tokens in the order of the code.\<close>

definition token_table ::
    "'t naming_env \<Rightarrow> int \<Rightarrow> ContainerC \<Rightarrow> FilenameTargetContext \<Rightarrow> (string \<times> wtext) list" where
  "token_table env timestamp container context =
     (let tm = localtime env timestamp; part = SafeStrftime env tm in
      [(''date'', part ''%Y-%m-%d'' ''1970-01-01''), (''time'', part ''%H-%M-%S'' ''00-00-00''),
       (''datetime'', BuildDateTimeToken env tm), (''timestamp'', decimal_text timestamp),
       (''YYYY'', part ''%Y'' ''1970''), (''YY'', part ''%y'' ''70''), (''MM'', part ''%m'' ''01''),
       (''DD'', part ''%d'' ''01''), (''hh'', part ''%H'' ''00''), (''mm'', part ''%M'' ''00''),
       (''ss'', part ''%S'' ''00''), (''app'', fc_app_name context), (''title'', fc_window_title context),
       (''process'', fc_process_name context), (''target'', fc_target_name context),
       (''profile'', fc_profile_name context), (''container'', wide (ContainerToken container)),
       (''video'', wide (VideoCodecToken (fc_video_codec context))),
       (''audio'', wide (AudioCodecToken (fc_audio_codec context)))])"

definition ResolveKnownToken ::
    "'t naming_env \<Rightarrow> int \<Rightarrow> ContainerC \<Rightarrow> FilenameTargetContext \<Rightarrow> wtext \<Rightarrow> wtext option" where
  "ResolveKnownToken env timestamp container context name =
     map_option snd (List.find (\<lambda>(t, _). name = wide t) (token_table env timestamp container context))"

section \<open>Rendering a segment\<close>

definition PreferredSeparatorFromRun :: "'t naming_env \<Rightarrow> wtext \<Rightarrow> u16" where
  "PreferredSeparatorFromRun env run =
     (case List.find (\<lambda>c. \<not> iswspace env c) (rev run) of
        Some c \<Rightarrow> c
      | None \<Rightarrow> if run = [] then 0 else hd run)"

text \<open>\<open>done\<close> is the text written so far; a sentinel takes the separators around it with it.\<close>

function collapse_from :: "'t naming_env \<Rightarrow> wtext \<Rightarrow> wtext \<Rightarrow> wtext" where
  "collapse_from env written [] = written"
| "collapse_from env written (c # s) =
     (if c \<noteq> kMissingTokenSentinel then collapse_from env (written @ [c]) s
      else
        let left_run = rev (takeWhile (IsCleanupSeparator env) (rev written));
            kept = rev (dropWhile (IsCleanupSeparator env) (rev written));
            s' = dropWhile (\<lambda>d. d = kMissingTokenSentinel) s;
            right_run = takeWhile (IsCleanupSeparator env) s';
            rest = dropWhile (IsCleanupSeparator env) s';
            join_char = (if left_run \<noteq> [] then PreferredSeparatorFromRun env left_run
              else if right_run \<noteq> [] then PreferredSeparatorFromRun env right_run else 0) in
        if kept = [] \<or> rest = [] then collapse_from env kept rest
        else collapse_from env (if join_char \<noteq> 0 then kept @ [join_char] else kept) rest)"
  by pat_completeness auto
termination
proof (relation "measure (\<lambda>(env, written, s). length s)")
  have "length (dropWhile p (dropWhile q s)) < Suc (length s)" for p q :: "u16 \<Rightarrow> bool" and s
    using length_dropWhile_le [of p "dropWhile q s"] length_dropWhile_le [of q s] by linarith
  then show "\<And>env written c s x xa xb xc xd xe. \<not> c \<noteq> kMissingTokenSentinel \<Longrightarrow>
      x = rev (takeWhile (IsCleanupSeparator env) (rev written)) \<Longrightarrow>
      xa = rev (dropWhile (IsCleanupSeparator env) (rev written)) \<Longrightarrow>
      xb = dropWhile (\<lambda>d. d = kMissingTokenSentinel) s \<Longrightarrow>
      xc = takeWhile (IsCleanupSeparator env) xb \<Longrightarrow>
      xd = dropWhile (IsCleanupSeparator env) xb \<Longrightarrow>
      xe = (if x \<noteq> [] then PreferredSeparatorFromRun env x
            else if xc \<noteq> [] then PreferredSeparatorFromRun env xc else 0) \<Longrightarrow>
      xa = [] \<or> xd = [] \<Longrightarrow>
      ((env, xa, xd), env, written, c # s) \<in> measure (\<lambda>(env, written, s). length s)"
    by simp
qed (auto simp: le_imp_less_Suc length_dropWhile_le intro!: le_less_trans [OF length_dropWhile_le])

definition CollapseMissingTokenSeparators :: "'t naming_env \<Rightarrow> wtext \<Rightarrow> wtext" where
  "CollapseMissingTokenSeparators env s = collapse_from env [] s"

function expand_tokens :: "'t naming_env \<Rightarrow> (wtext \<Rightarrow> wtext option) \<Rightarrow> wtext \<Rightarrow> wtext" where
  "expand_tokens env resolve [] = []"
| "expand_tokens env resolve (c # s) =
     (if c \<noteq> 0x7B \<or> 0x7D \<notin> set s then c # expand_tokens env resolve s
      else
        let name = takeWhile (\<lambda>d. d \<noteq> 0x7D) s; rest = drop (length name + 1) s in
        (case resolve name of
           None \<Rightarrow> c # name @ 0x7D # expand_tokens env resolve rest
         | Some value \<Rightarrow>
             (let text = SanitizeTokenValue env value in
              (if text = [] then [kMissingTokenSentinel] else text) @ expand_tokens env resolve rest)))"
  by pat_completeness auto
termination
  by (relation "measure (\<lambda>(env, resolve, s). length s)") auto

definition RenderPatternSegment :: "'t naming_env \<Rightarrow> (wtext \<Rightarrow> wtext option) \<Rightarrow> wtext \<Rightarrow> wtext" where
  "RenderPatternSegment env resolve segment =
     SanitizeReservedDeviceName env
       (TrimSegment env
         (replace_invalid
           (filter (\<lambda>c. c \<noteq> kMissingTokenSentinel)
             (CollapseMissingTokenSeparators env (expand_tokens env resolve segment)))))"

section \<open>The path\<close>

definition effective_pattern :: "'t naming_env \<Rightarrow> wtext \<Rightarrow> wtext" where
  "effective_pattern env pattern = (case NormalizeFilenamePatternInput env pattern of
       Inr normalized \<Rightarrow> normalized
     | Inl _ \<Rightarrow> wide ''recording_{datetime}'')"

definition BuildRelativeSegments ::
    "'t naming_env \<Rightarrow> wtext \<Rightarrow> int \<Rightarrow> ContainerC \<Rightarrow> FilenameTargetContext \<Rightarrow> wtext list" where
  "BuildRelativeSegments env pattern timestamp container context =
     (let resolve = ResolveKnownToken env timestamp container context;
          segs = filter (\<lambda>s. s \<noteq> [] \<and> s \<noteq> dot \<and> s \<noteq> dot_dot)
            (map (RenderPatternSegment env resolve) (split_on IsPatternPathSeparator (effective_pattern env pattern))) in
      if segs = [] then [BuildFallbackBaseName env timestamp] else segs)"

text \<open>
  The elements of a path: root name and root directory, if any, and the names behind them; a separator at
  the end is an empty last name.
\<close>

record path_elements =
  root_elements :: "wtext list"
  names :: "wtext list"

definition slash :: wtext where "slash = [0x5C]"

definition BuildRelativePath ::
    "'t naming_env \<Rightarrow> wtext \<Rightarrow> ContainerC \<Rightarrow> int \<Rightarrow> FilenameTargetContext \<Rightarrow> wtext list" where
  "BuildRelativePath env pattern container timestamp context =
     (let segs = BuildRelativeSegments env pattern timestamp container context in
      butlast segs @ [List.last segs @ ContainerExtension container])"

text \<open>\<^verbatim>\<open>operator/\<close> with a relative path.\<close>

definition append_names :: "path_elements \<Rightarrow> wtext list \<Rightarrow> path_elements" where
  "append_names p segs = p\<lparr>names := (if names p \<noteq> [] \<and> List.last (names p) = [] then butlast (names p) else names p) @ segs\<rparr>"

text \<open>
  \<^verbatim>\<open>lexically_normal\<close>: the names kept so far, the last one first, and whether the text ends with a separator.
\<close>

definition normal_step :: "bool \<Rightarrow> wtext \<Rightarrow> wtext list \<times> bool \<Rightarrow> wtext list \<times> bool" where
  "normal_step rooted s st =
     (let kept = fst st in
      if s = [] \<or> s = dot then (kept, True)
      else if s \<noteq> dot_dot then (s # kept, False)
      else if kept = [] then (if rooted then ([], True) else ([dot_dot], False))
      else if hd kept = dot_dot then (dot_dot # kept, False)
      else (tl kept, True))"

definition normal_names :: "bool \<Rightarrow> wtext list \<Rightarrow> wtext list" where
  "normal_names rooted segs =
     (let st = fold (normal_step rooted) segs ([], False); kept = fst st in
      rev kept @ (if snd st \<and> kept \<noteq> [] \<and> hd kept \<noteq> dot_dot then [[]] else []))"

definition has_root_directory :: "path_elements \<Rightarrow> bool" where
  "has_root_directory p \<longleftrightarrow> root_elements p \<noteq> [] \<and> List.last (root_elements p) = slash"

definition empty_path :: "path_elements \<Rightarrow> bool" where
  "empty_path p \<longleftrightarrow> root_elements p = [] \<and> names p = []"

definition lexically_normal :: "path_elements \<Rightarrow> path_elements" where
  "lexically_normal p =
     (let q = p\<lparr>names := normal_names (has_root_directory p) (names p)\<rparr> in
      if \<not> empty_path p \<and> empty_path q then q\<lparr>names := [dot]\<rparr> else q)"

definition elements :: "path_elements \<Rightarrow> wtext list" where
  "elements p = root_elements p @ names p"

definition PathElementEqualCaseInsensitive :: "'t naming_env \<Rightarrow> wtext \<Rightarrow> wtext \<Rightarrow> bool" where
  "PathElementEqualCaseInsensitive env a b \<longleftrightarrow> map (towlower env) a = map (towlower env) b"

fun starts_with_elements :: "'t naming_env \<Rightarrow> wtext list \<Rightarrow> wtext list \<Rightarrow> bool" where
  "starts_with_elements env candidate [] = True"
| "starts_with_elements env [] (f # folder) = False"
| "starts_with_elements env (c # candidate) (f # folder) =
     (PathElementEqualCaseInsensitive env c f \<and> starts_with_elements env candidate folder)"

definition IsPathUnderFolder :: "'t naming_env \<Rightarrow> path_elements \<Rightarrow> path_elements \<Rightarrow> bool" where
  "IsPathUnderFolder env candidate folder \<longleftrightarrow>
     \<not> empty_path folder \<and> starts_with_elements env (elements candidate) (elements folder)"

definition BuildOutputPath ::
    "'t naming_env \<Rightarrow> path_elements \<Rightarrow> wtext \<Rightarrow> ContainerC \<Rightarrow> int \<Rightarrow> FilenameTargetContext \<Rightarrow> path_elements" where
  "BuildOutputPath env folder pattern container timestamp context =
     (let normal = lexically_normal folder;
          candidate = lexically_normal (append_names normal (BuildRelativePath env pattern container timestamp context)) in
      if IsPathUnderFolder env candidate normal then candidate
      else lexically_normal (append_names normal
             (BuildRelativePath env (wide ''recording_{datetime}'') container timestamp no_target_context)))"

end
