(* ===== verification/NamingGuarantees.thy ===== *)
theory NamingGuarantees
  imports FilenameBuilder
begin

text \<open>
  What the naming of recordings promises: every name is one Windows accepts, and the file lies in the folder of
  the user, under the names the pattern asks for.
\<close>

section \<open>Trimmed texts\<close>

lemma trim_both_set: "set (trim_both p s) \<subseteq> set s"
  by (auto simp: trim_both_def dest!: set_dropWhileD)

lemma trim_both_edges:
  assumes "trim_both p s \<noteq> []"
  shows "\<not> p (hd (trim_both p s))" "\<not> p (List.last (trim_both p s))"
proof -
  define t where "t = dropWhile p s"
  define u where "u = dropWhile p (rev t)"
  have shape: "trim_both p s = rev u" and u: "u \<noteq> []" "rev t = takeWhile p (rev t) @ u"
    using assms by (simp_all add: trim_both_def t_def u_def)
  then have "t = rev u @ rev (takeWhile p (rev t))"
    by (metis rev_append rev_rev_ident)
  then have "hd t = hd (rev u)" "t \<noteq> []"
    using u(1) by (metis hd_append2 rev_is_Nil_conv, metis append_is_Nil_conv rev_is_Nil_conv)
  then show "\<not> p (hd (trim_both p s))"
    using shape hd_dropWhile [of p s] by (simp add: t_def)
  show "\<not> p (List.last (trim_both p s))"
    using shape u(1) hd_dropWhile [of p "rev t"] by (simp add: u_def last_rev)
qed

section \<open>Names Windows accepts\<close>

definition valid_text :: "wtext \<Rightarrow> bool" where
  "valid_text = list_all (\<lambda>c. \<not> IsInvalidWindowsFilenameChar c)"

text \<open>A name: not empty, without the characters Windows reserves, and without a separator, dot or space at its edges.\<close>

definition name_ok :: "'t naming_env \<Rightarrow> wtext \<Rightarrow> bool" where
  "name_ok env s \<longleftrightarrow>
     s \<noteq> [] \<and> valid_text s \<and> \<not> IsTrimSeparator env (hd s) \<and> \<not> IsTrimSeparator env (List.last s)"

definition wide_digit :: "u16 \<Rightarrow> bool" where
  "wide_digit c \<longleftrightarrow> 0x30 \<le> c \<and> c \<le> 0x39"

text \<open>
  The C library: digits and letters are no white space, and the numeric conversions of a date give digits
  between the separators of the format.
\<close>

definition plain_library :: "'t naming_env \<Rightarrow> bool" where
  "plain_library env \<longleftrightarrow>
     (\<forall>c. wide_digit c \<or> c = 0x72 \<longrightarrow> \<not> iswspace env c) \<and>
     (\<forall>tm s. wcsftime env tm ''%Y-%m-%d_%H-%M-%S'' = Some s \<longrightarrow>
        s \<noteq> [] \<and> list_all (\<lambda>c. wide_digit c \<or> c = 0x2D \<or> c = 0x5F) s \<and> wide_digit (List.last s))"

lemma digit_no_separator:
  assumes "plain_library env" "wide_digit c \<or> c = 0x72"
  shows "\<not> IsTrimSeparator env c"
  using assms by (auto simp: plain_library_def IsTrimSeparator_def wide_digit_def)

lemma valid_replaced: "valid_text (replace_invalid s)"
proof -
  have "\<not> IsInvalidWindowsFilenameChar 0x5F"
    by (simp add: IsInvalidWindowsFilenameChar_def)
  then show ?thesis
    by (auto simp: valid_text_def replace_invalid_def list_all_iff)
qed

lemma valid_trimmed: "valid_text s \<Longrightarrow> valid_text (TrimSegment env s)"
  using trim_both_set by (fastforce simp: valid_text_def TrimSegment_def list_all_iff)

lemma rendered_name:
  assumes "plain_library env" "RenderPatternSegment env resolve segment \<noteq> []"
  shows "name_ok env (RenderPatternSegment env resolve segment)"
proof -
  obtain s where r: "RenderPatternSegment env resolve segment = SanitizeReservedDeviceName env (TrimSegment env s)"
    and "valid_text s"
    using valid_replaced unfolding RenderPatternSegment_def by blast
  define t where "t = TrimSegment env s"
  have t: "valid_text t" "t \<noteq> [] \<Longrightarrow> \<not> IsTrimSeparator env (hd t) \<and> \<not> IsTrimSeparator env (List.last t)"
    using valid_trimmed [OF \<open>valid_text s\<close>] trim_both_edges [of "IsTrimSeparator env" s]
    by (simp_all add: t_def TrimSegment_def)
  have "t \<noteq> []"
    using assms(2) r by (auto simp: t_def SanitizeReservedDeviceName_def IsWindowsReservedDeviceName_def Let_def split: if_splits)
  moreover have "\<not> IsTrimSeparator env 0x31"
    by (rule digit_no_separator [OF assms(1)]) (simp add: wide_digit_def)
  moreover have "valid_text [0x5F, 0x31]"
    by (simp add: valid_text_def IsInvalidWindowsFilenameChar_def)
  ultimately show ?thesis
    using t r by (auto simp: name_ok_def SanitizeReservedDeviceName_def valid_text_def simp flip: t_def)
qed

lemma digit_valid: "wide_digit c \<Longrightarrow> \<not> IsInvalidWindowsFilenameChar c"
  by (auto simp: wide_digit_def IsInvalidWindowsFilenameChar_def word_le_nat_alt word_less_nat_alt)

lemma fallback_name:
  assumes "plain_library env"
  shows "name_ok env (BuildFallbackBaseName env timestamp)"
proof -
  define s where "s = BuildDateTimeToken env (localtime env timestamp)"
  have s: "s \<noteq> []" "list_all (\<lambda>c. wide_digit c \<or> c = 0x2D \<or> c = 0x5F) s" "wide_digit (List.last s)"
    using assms
    by (auto simp: s_def BuildDateTimeToken_def SafeStrftime_def plain_library_def wide_def wide_digit_def split: option.split)
  have "valid_text s"
    using s(2) unfolding valid_text_def
    by (rule list.pred_mono_strong) (auto simp: digit_valid, simp_all add: IsInvalidWindowsFilenameChar_def)
  moreover have "valid_text (wide ''recording_'')" "hd (wide ''recording_'') = 0x72" "wide ''recording_'' \<noteq> []"
    by (simp_all add: valid_text_def wide_def IsInvalidWindowsFilenameChar_def)
  ultimately show ?thesis
    using s(1) digit_no_separator [OF assms] s(3)
    by (auto simp: name_ok_def BuildFallbackBaseName_def valid_text_def simp flip: s_def)
qed

lemma built_names_ok:
  assumes "plain_library env"
  shows "list_all (name_ok env) (BuildRelativeSegments env pattern timestamp container context)"
  using rendered_name [OF assms] fallback_name [OF assms]
  by (auto simp: BuildRelativeSegments_def Let_def list_all_iff)

section \<open>Paths\<close>

definition plain_name :: "wtext \<Rightarrow> bool" where
  "plain_name s \<longleftrightarrow> s \<notin> {[], dot, dot_dot}"

lemma name_ok_plain: "name_ok env s \<Longrightarrow> plain_name s"
  by (auto simp: name_ok_def plain_name_def dot_def dot_dot_def IsTrimSeparator_def)

lemma extended_name_plain: "plain_name (s @ ContainerExtension c)"
  by (cases c) (auto simp: plain_name_def dot_def dot_dot_def ContainerExtension_def wide_def dest: arg_cong [of _ _ length])

lemma plain_step: "plain_name s \<Longrightarrow> normal_step rooted s st = (s # fst st, False)"
  by (simp add: normal_step_def plain_name_def Let_def)

lemma fold_plain:
  "list_all plain_name segs \<Longrightarrow> segs \<noteq> [] \<Longrightarrow> fold (normal_step rooted) segs st = (rev segs @ fst st, False)"
proof (induction segs rule: rev_induct)
  case (snoc s segs)
  then have "fst (fold (normal_step rooted) segs st) = rev segs @ fst st"
    by (cases "segs = []") simp_all
  then show ?case
    using snoc.prems by (simp add: plain_step)
qed simp

lemma fold_rooted:
  "list_all plain_name (fst st) \<Longrightarrow> list_all plain_name (fst (fold (normal_step True) segs st))"
proof (induction segs arbitrary: st)
  case (Cons s segs)
  have "list_all plain_name (fst (normal_step True s st))"
    using Cons.prems by (cases "fst st") (auto simp: normal_step_def plain_name_def Let_def list_all_iff)
  then show ?case
    using Cons.IH by simp
qed simp

text \<open>A rooted path in normal form: plain names, then perhaps a separator.\<close>

lemma normal_rooted:
  obtains kept where "list_all plain_name kept" "normal_names True segs = kept \<or> kept \<noteq> [] \<and> normal_names True segs = kept @ [[]]"
proof
  let ?kept = "fst (fold (normal_step True) segs ([], False))"
  show "list_all plain_name (rev ?kept)"
    using fold_rooted [of "([], False)" segs] by (simp add: list_all_iff)
  show "normal_names True segs = rev ?kept \<or> rev ?kept \<noteq> [] \<and> normal_names True segs = rev ?kept @ [[]]"
    by (auto simp: normal_names_def Let_def)
qed

lemma normal_plain: "list_all plain_name segs \<Longrightarrow> normal_names rooted segs = segs"
  by (cases "segs = []") (simp_all add: normal_names_def fold_plain Let_def)

lemma lexically_normal_rooted:
  "has_root_directory p \<Longrightarrow> lexically_normal p = p\<lparr>names := normal_names True (names p)\<rparr>"
  by (simp add: lexically_normal_def empty_path_def has_root_directory_def Let_def)

lemma starts_with_append: "starts_with_elements env (f @ x) f"
  by (induction f) (simp_all add: PathElementEqualCaseInsensitive_def)

lemma starts_with_trailing: "x \<noteq> [] \<Longrightarrow> hd x \<noteq> [] \<Longrightarrow> \<not> starts_with_elements env (f @ x) (f @ [[]])"
  by (induction f) (cases x; simp add: PathElementEqualCaseInsensitive_def)+

lemma relative_path_plain:
  assumes "plain_library env"
  shows "list_all plain_name (BuildRelativePath env pattern container timestamp context)"
  using built_names_ok [OF assms, of "pattern" timestamp container "context"] extended_name_plain
  by (auto simp: BuildRelativePath_def Let_def list_all_iff intro: name_ok_plain dest!: in_set_butlastD)

lemma relative_path_not_empty: "BuildRelativePath env pattern container timestamp context \<noteq> []"
  by (simp add: BuildRelativePath_def Let_def)


lemma normal_again:
  assumes "has_root_directory p" "list_all plain_name segs"
  shows "lexically_normal (p\<lparr>names := segs\<rparr>) = p\<lparr>names := segs\<rparr>"
  using assms by (simp add: lexically_normal_def has_root_directory_def empty_path_def normal_plain Let_def)

text \<open>A folder on a drive, a blank as the only white space, and a clock that stands still.\<close>

definition demo_naming :: "unit naming_env" where
  "demo_naming = \<lparr>iswspace = (\<lambda>c. c = 0x20), iswalpha = (\<lambda>c. c = 0x43), towlower = id, towupper = id,
     localtime = (\<lambda>_. ()), wcsftime = (\<lambda>_ _. Some (wide ''2026-01-02_03-04-05'')), environment_value = (\<lambda>_. None),
     path_is_absolute = (\<lambda>_. False)\<rparr>"

lemma demo_plain: "plain_library demo_naming"
  by (auto simp: plain_library_def demo_naming_def wide_def wide_digit_def)



text \<open>When the text of the folder ends with a separator, the pattern and its tokens are ignored.\<close>

lemma trailing_separator_drops_the_pattern:
  assumes "plain_library env" "has_root_directory folder" "names (lexically_normal folder) \<noteq> []"
    and "List.last (names (lexically_normal folder)) = []"
  shows "BuildOutputPath env folder pattern container timestamp context =
    BuildOutputPath env folder pattern' container timestamp context'"
proof -
  define normal where "normal = lexically_normal folder"
  obtain kept where kept: "list_all plain_name kept" "names normal = kept @ [[]]"
    using assms(2-4) by (auto simp: normal_def lexically_normal_rooted plain_name_def list_all_iff
      intro: normal_rooted [of "names folder"])
  have "\<not> IsPathUnderFolder env (lexically_normal (append_names normal rel)) normal"
    if "rel \<noteq> []" "list_all plain_name rel" for rel
  proof -
    have "lexically_normal (append_names normal rel) = normal\<lparr>names := kept @ rel\<rparr>"
      using normal_again [OF assms(2), of "kept @ rel"] kept that
      by (simp add: append_names_def normal_def lexically_normal_rooted [OF assms(2)])
    moreover have "hd rel \<noteq> []"
      using that by (cases rel) (simp_all add: plain_name_def)
    ultimately show ?thesis
      using starts_with_trailing [OF that(1), of env "root_elements normal @ kept"] kept(2)
      by (simp add: IsPathUnderFolder_def elements_def)
  qed
  then have "\<not> IsPathUnderFolder env
      (lexically_normal (append_names normal (BuildRelativePath env pt container timestamp ctx))) normal" for pt ctx
    using relative_path_plain [OF assms(1)] relative_path_not_empty by blast
  then show ?thesis
    by (simp add: BuildOutputPath_def Let_def flip: normal_def)
qed

text \<open>A reserved name before a dot stays reserved: the addition goes behind the dot.\<close>

lemma reserved_stem_survives:
  assumes "IsWindowsReservedDeviceName env s" "0x2E \<in> set s"
  shows "IsWindowsReservedDeviceName env (SanitizeReservedDeviceName env s)"
proof -
  have "takeWhile (\<lambda>c. c \<noteq> 0x2E) (s @ x) = takeWhile (\<lambda>c. c \<noteq> 0x2E) s" for x
    using assms(2) by (auto simp: takeWhile_append1)
  then show ?thesis
    using assms(1) by (simp add: SanitizeReservedDeviceName_def IsWindowsReservedDeviceName_def)
qed

section \<open>Accepted patterns\<close>

lemma split_on_join:
  "segs \<noteq> [] \<Longrightarrow> list_all (\<lambda>s. c \<notin> set s) segs \<Longrightarrow> split_on (\<lambda>d. d = c) (join_with c segs) = segs"
proof (induction segs rule: join_with.induct)
  case (2 c s)
  then show ?case
    by (induction s) auto
next
  case (3 c s t segs)
  have "split_on (\<lambda>d. d = c) (s @ c # r) = s # split_on (\<lambda>d. d = c) r" if "c \<notin> set s" for r
    using that by (induction s) auto
  then show ?case
    using 3 by simp
qed simp

lemma split_on_parts: "list_all (\<lambda>s. c \<notin> set s) (split_on (\<lambda>d. d = c) s)"
  by (induction s) (auto split: list.split)

lemma map_sum_Inr: "map_sum id f m = Inr y \<longleftrightarrow> (\<exists>x. m = Inr x \<and> y = f x)"
  by (cases m) auto

lemma kept_segments:
  "keep_segments segs = Inr kept \<Longrightarrow> list_all plain_name kept \<and> set kept \<subseteq> set segs"
  by (induction segs arbitrary: kept) (auto simp: plain_name_def map_sum_Inr split: if_splits)

lemma accepted_pattern_is_relative:
  assumes "NormalizeFilenamePatternInput env raw = Inr q"
  shows "list_all plain_name (SplitBySlash q)"
proof -
  obtain s segs where kept: "keep_segments (SplitBySlash s) = Inr segs" "segs \<noteq> []" "q = join_with 0x2F segs"
    using assms by (auto simp: NormalizeFilenamePatternInput_def Let_def bindE_Inr_iff split: if_splits)
  then have "list_all (\<lambda>s. 0x2F \<notin> set s) segs"
    using kept_segments [OF kept(1)] split_on_parts [of "0x2F" s] by (auto simp: SplitBySlash_def list_all_iff)
  then show ?thesis
    using kept kept_segments [OF kept(1)] by (simp add: SplitBySlash_def split_on_join)
qed

text \<open>What stands behind a leading dot is not looked at again: a drive is accepted as a name.\<close>

lemma drive_behind_a_dot:
  "NormalizeFilenamePatternInput demo_naming (wide ''C:/x'') = Inl AbsolutePath"
  "NormalizeFilenamePatternInput demo_naming (wide ''./C:/x'') = Inr (wide ''C:/x'')"
  by (simp_all add: NormalizeFilenamePatternInput_def Trim_def trim_both_def demo_naming_def wide_def home_alias_def
    IsDriveAbsolutePath_def IsUncPath_def IsPatternPathSeparator_def NormalizePatternPrefix.simps SplitBySlash_def dot_def
    dot_dot_def Let_def)

end
