(* ===== verification/Notifications.thy ===== *)
theory Notifications
  imports Prelude
begin

text \<open>
  The transient toasts of the application (\<^verbatim>\<open>app/notifications/NotificationManager.cpp\<close>,
  \<^verbatim>\<open>NotificationNames.cpp\<close>): which events become visible, for how long, and when the timer that takes
  them away is armed.

  Every reading of the clock is an argument; the announcements to the hub, the window and the tray are kept
  in order. The one-shot timer is the time it is due.
\<close>

section \<open>Events\<close>

datatype NotificationType =
  LowStorage | Saved | UnexpectedStop | RecoveryAvailable | NewUpdateAvailable | FramesDropped | SettingsRepaired
| PresetSwitched | OverlayOmitted | HotkeyConflict | SettingsSaveFailed | AudioDefaultDeviceChanged | AudioSourceDegraded
| CaptureActionFailed | FrameCaptured | RecoveryProtectionUnavailable | SettingsLoadFailed | PresetTransferFailed
| WindowCaptureStalled | ElevationRequired

datatype NotificationAction =
  NoAction | OpenFolder | OpenRecovery | ChangeFolder | ShowFile | Discard | OpenUpdate | EditAction | RelaunchElevated
| OpenDiagnostics | UndoPresetSwitch | OpenHotkeys | SendReport

record NotificationEvent =
  ne_type :: NotificationType
  ne_title :: string
  ne_body :: string
  ne_action :: NotificationAction
  ne_action_payload :: string
  ne_secondary_action :: NotificationAction
  ne_sequence :: u64
  ne_synthetic :: bool

definition hasAction :: "NotificationEvent \<Rightarrow> bool" where
  "hasAction e \<longleftrightarrow> ne_action e \<noteq> NoAction \<or> ne_secondary_action e \<noteq> NoAction"

definition AdvisoryStatusForType :: "NotificationType \<Rightarrow> string" where
  "AdvisoryStatusForType t =
     (if t \<in> {Saved, FrameCaptured} then ''success''
      else if t \<in> {LowStorage, UnexpectedStop, SettingsSaveFailed, CaptureActionFailed, PresetTransferFailed} then ''error''
      else if t \<in> {NewUpdateAvailable, PresetSwitched} then ''info''
      else ''caution'')"

section \<open>Names\<close>

definition kTypeNames :: "(NotificationType \<times> string) list" where
  "kTypeNames = [(LowStorage, ''lowStorage''), (Saved, ''saved''), (UnexpectedStop, ''unexpectedStop''),
     (RecoveryAvailable, ''recoveryAvailable''), (NewUpdateAvailable, ''updateAvailable''),
     (FramesDropped, ''framesDropped''), (SettingsRepaired, ''settingsRepaired''), (PresetSwitched, ''presetSwitched''),
     (OverlayOmitted, ''overlayOmitted''), (HotkeyConflict, ''hotkeyConflict''),
     (SettingsSaveFailed, ''settingsSaveFailed''), (AudioDefaultDeviceChanged, ''audioDefaultDeviceChanged''),
     (AudioSourceDegraded, ''audioSourceDegraded''), (CaptureActionFailed, ''captureActionFailed''),
     (FrameCaptured, ''frameCaptured''), (RecoveryProtectionUnavailable, ''recoveryProtectionUnavailable''),
     (SettingsLoadFailed, ''settingsLoadFailed''), (PresetTransferFailed, ''presetTransferFailed''),
     (WindowCaptureStalled, ''windowCaptureStalled''), (ElevationRequired, ''elevationRequired'')]"

definition kActionNames :: "(NotificationAction \<times> string) list" where
  "kActionNames = [(NoAction, ''none''), (OpenFolder, ''openFolder''), (OpenRecovery, ''openRecovery''),
     (ChangeFolder, ''changeFolder''), (ShowFile, ''showFile''), (Discard, ''discard''), (OpenUpdate, ''openUpdate''),
     (EditAction, ''edit''), (RelaunchElevated, ''relaunchElevated''), (OpenDiagnostics, ''openDiagnostics''),
     (UndoPresetSwitch, ''undoPresetSwitch''), (OpenHotkeys, ''openHotkeys''), (SendReport, ''sendReport'')]"

definition table_name :: "('a \<times> string) list \<Rightarrow> 'a \<Rightarrow> string" where
  "table_name table v = (case map_of table v of Some s \<Rightarrow> s | None \<Rightarrow> [])"

text \<open>\<open>fold_case\<close> is the case folding of Qt.\<close>

definition table_value :: "(string \<Rightarrow> string) \<Rightarrow> ('a \<times> string) list \<Rightarrow> string \<Rightarrow> 'a option" where
  "table_value fold_case table name =
     map_option fst (List.find (\<lambda>(_, s). fold_case name = fold_case s) table)"

definition NotificationTypeName :: "NotificationType \<Rightarrow> string" where
  "NotificationTypeName = table_name kTypeNames"

definition NotificationActionName :: "NotificationAction \<Rightarrow> string" where
  "NotificationActionName = table_name kActionNames"

definition ParseNotificationType :: "(string \<Rightarrow> string) \<Rightarrow> string \<Rightarrow> NotificationType option" where
  "ParseNotificationType fold_case = table_value fold_case kTypeNames"

definition ParseNotificationAction :: "(string \<Rightarrow> string) \<Rightarrow> string \<Rightarrow> NotificationAction option" where
  "ParseNotificationAction fold_case = table_value fold_case kActionNames"

section \<open>The visible set\<close>

definition kDwellBrief :: int where "kDwellBrief = 5000"

definition kDwellAction :: int where "kDwellAction = 10000"

definition DismissIntervalMs :: "NotificationType \<Rightarrow> int" where
  "DismissIntervalMs t =
     (if t \<in> {LowStorage, AudioSourceDegraded, WindowCaptureStalled} then 0
      else if t \<in> {FrameCaptured, AudioDefaultDeviceChanged, SettingsRepaired, OverlayOmitted, PresetSwitched}
      then kDwellBrief
      else kDwellAction)"

definition IsStanding :: "NotificationType \<Rightarrow> bool" where
  "IsStanding t \<longleftrightarrow> DismissIntervalMs t = 0"

datatype Announcement = EventRecorded NotificationEvent | ActionableEventShown | VisibleSetChanged

record NotificationManager =
  visible_events :: "NotificationEvent list"
  visible_shown_at :: "int list"
  next_sequence :: u64
  timer_due :: "int option"
  toasts_enabled :: bool
  announced :: "Announcement list"

definition new_notifications :: NotificationManager where
  "new_notifications = \<lparr>visible_events = [], visible_shown_at = [], next_sequence = 1, timer_due = None,
     toasts_enabled = True, announced = []\<rparr>"

definition announce :: "Announcement \<Rightarrow> NotificationManager \<Rightarrow> NotificationManager" where
  "announce a m = m\<lparr>announced := announced m @ [a]\<rparr>"

definition insert_at :: "nat \<Rightarrow> 'a \<Rightarrow> 'a list \<Rightarrow> 'a list" where
  "insert_at i x xs = take i xs @ x # drop i xs"

definition remove_at :: "nat \<Rightarrow> 'a list \<Rightarrow> 'a list" where
  "remove_at i xs = take i xs @ drop (Suc i) xs"

text \<open>The earliest time a visible event expires; the delay passes through an \<^verbatim>\<open>int\<close>.\<close>

definition expiries :: "NotificationManager \<Rightarrow> int list" where
  "expiries m = map (\<lambda>(e, t). t + DismissIntervalMs (ne_type e))
     (filter (\<lambda>(e, t). 0 < DismissIntervalMs (ne_type e)) (zip (visible_events m) (visible_shown_at m)))"

definition rescheduleTimer :: "int \<Rightarrow> NotificationManager \<Rightarrow> NotificationManager" where
  "rescheduleTimer now m =
     (if expiries m = [] then m\<lparr>timer_due := None\<rparr>
      else m\<lparr>timer_due := Some (now + signed (of_int (max 0 (Min (set (expiries m)) - now)) :: 32 word))\<rparr>)"

definition trailing_timed :: "NotificationManager \<Rightarrow> bool" where
  "trailing_timed m \<longleftrightarrow> visible_events m \<noteq> [] \<and> \<not> IsStanding (ne_type (List.last (visible_events m)))"

definition show_event :: "NotificationEvent \<Rightarrow> int \<Rightarrow> NotificationManager \<Rightarrow> NotificationManager" where
  "show_event e shown_at m =
     (if IsStanding (ne_type e)
      then
        let i = (if trailing_timed m then length (visible_events m) - 1 else length (visible_events m)) in
        m\<lparr>visible_events := insert_at i e (visible_events m), visible_shown_at := insert_at i shown_at (visible_shown_at m)\<rparr>
      else
        let m = (if trailing_timed m
              then m\<lparr>visible_events := butlast (visible_events m), visible_shown_at := butlast (visible_shown_at m)\<rparr>
              else m) in
        m\<lparr>visible_events := visible_events m @ [e], visible_shown_at := visible_shown_at m @ [shown_at]\<rparr>)"

text \<open>The clock is read when the event is shown and when the timer is set.\<close>

definition EnqueueToast :: "int \<Rightarrow> int \<Rightarrow> NotificationEvent \<Rightarrow> NotificationManager \<Rightarrow> u64 \<times> NotificationManager" where
  "EnqueueToast shown_at now event m =
     (let n = next_sequence m;
          e = event\<lparr>ne_sequence := n\<rparr>;
          m = announce (EventRecorded e) (m\<lparr>next_sequence := n + 1\<rparr>) in
      if ne_type e = PresetSwitched \<or> \<not> toasts_enabled m then (n, m)
      else
        let m = show_event e shown_at m;
            m = (if hasAction e then announce ActionableEventShown m else m) in
        (n, announce VisibleSetChanged (rescheduleTimer now m)))"

definition Dismiss :: "int \<Rightarrow> u64 \<Rightarrow> NotificationManager \<Rightarrow> NotificationManager" where
  "Dismiss now n m =
     (case List.find (\<lambda>i. ne_sequence (visible_events m ! i) = n) [0..<length (visible_events m)] of
        None \<Rightarrow> m
      | Some i \<Rightarrow>
          announce VisibleSetChanged
            (rescheduleTimer now
              (m\<lparr>visible_events := remove_at i (visible_events m), visible_shown_at := remove_at i (visible_shown_at m)\<rparr>)))"

definition SetToastsEnabled :: "int \<Rightarrow> bool \<Rightarrow> NotificationManager \<Rightarrow> NotificationManager" where
  "SetToastsEnabled now enabled m =
     (let m = m\<lparr>toasts_enabled := enabled\<rparr> in
      if \<not> enabled \<and> visible_events m \<noteq> []
      then announce VisibleSetChanged (rescheduleTimer now (m\<lparr>visible_events := [], visible_shown_at := []\<rparr>))
      else m)"

definition ShownAtMs :: "u64 \<Rightarrow> NotificationManager \<Rightarrow> int" where
  "ShownAtMs n m =
     (case List.find (\<lambda>(e, _). ne_sequence e = n) (zip (visible_events m) (visible_shown_at m)) of
        Some (_, t) \<Rightarrow> t
      | None \<Rightarrow> - 1)"

definition expired :: "int \<Rightarrow> NotificationEvent \<times> int \<Rightarrow> bool" where
  "expired now toast = (case toast of (e, t) \<Rightarrow>
     0 < DismissIntervalMs (ne_type e) \<and> t + DismissIntervalMs (ne_type e) \<le> now)"

text \<open>The timer fires once: it is no longer armed when its handler runs.\<close>

definition onTimerFired :: "int \<Rightarrow> int \<Rightarrow> NotificationManager \<Rightarrow> NotificationManager" where
  "onTimerFired now later m =
     (let toasts = zip (visible_events m) (visible_shown_at m);
          kept = filter (\<lambda>t. \<not> expired now t) toasts;
          m = rescheduleTimer later (m\<lparr>timer_due := None, visible_events := map fst kept, visible_shown_at := map snd kept\<rparr>) in
      if length kept \<noteq> length toasts then announce VisibleSetChanged m else m)"

section \<open>Histories\<close>

text \<open>What the application does, at times that do not go back; the timer may also wake up early.\<close>

inductive notified :: "NotificationManager \<Rightarrow> int \<Rightarrow> bool" where
  notified_new: "notified new_notifications now"
| notified_enqueue: "notified m before_t \<Longrightarrow> before_t \<le> shown_at \<Longrightarrow> shown_at \<le> now \<Longrightarrow>
    notified (snd (EnqueueToast shown_at now e m)) now"
| notified_dismiss: "notified m before_t \<Longrightarrow> before_t \<le> now \<Longrightarrow> notified (Dismiss now n m) now"
| notified_switch: "notified m before_t \<Longrightarrow> before_t \<le> now \<Longrightarrow> notified (SetToastsEnabled now enabled m) now"
| notified_timer: "notified m before_t \<Longrightarrow> timer_due m = Some due \<Longrightarrow> before_t \<le> now \<Longrightarrow> now \<le> later \<Longrightarrow>
    notified (onTimerFired now later m) later"

end
