(* ===== verification/NotificationGuarantees.thy ===== *)
theory NotificationGuarantees
  imports Notifications
begin

text \<open>
  What the toasts promise in every history: at most one timed toast, behind the standing ones, and a timer
  that is armed for it and takes it away.
\<close>

section \<open>The shape of the visible set\<close>

definition standing_event :: "NotificationEvent \<Rightarrow> bool" where
  "standing_event e \<longleftrightarrow> IsStanding (ne_type e)"

text \<open>Behind the standing toasts there is at most one that is timed.\<close>

definition stacked :: "NotificationManager \<Rightarrow> bool" where
  "stacked m \<longleftrightarrow>
     length (visible_shown_at m) = length (visible_events m) \<and> list_all standing_event (butlast (visible_events m))"

definition shown_by :: "int \<Rightarrow> NotificationManager \<Rightarrow> bool" where
  "shown_by t m \<longleftrightarrow> list_all (\<lambda>s. s \<le> t) (visible_shown_at m)"

text \<open>When the one timed toast expires.\<close>

definition last_expiry :: "NotificationManager \<Rightarrow> int" where
  "last_expiry m = List.last (visible_shown_at m) + DismissIntervalMs (ne_type (List.last (visible_events m)))"

definition armed :: "int \<Rightarrow> NotificationManager \<Rightarrow> bool" where
  "armed t m \<longleftrightarrow> (case timer_due m of
       None \<Rightarrow> \<not> trailing_timed m
     | Some due \<Rightarrow> trailing_timed m \<and> last_expiry m \<le> due \<and> due \<le> t + kDwellAction)"

lemma dwell_bounds: "0 \<le> DismissIntervalMs t" "DismissIntervalMs t \<le> kDwellAction"
  by (simp_all add: DismissIntervalMs_def kDwellBrief_def kDwellAction_def)

lemma timed_iff: "0 < DismissIntervalMs (ne_type e) \<longleftrightarrow> \<not> standing_event e"
  using dwell_bounds(1) [of "ne_type e"] by (auto simp: standing_event_def IsStanding_def)

lemma stacked_cases:
  assumes "stacked m"
  obtains (none) "visible_events m = []" "visible_shown_at m = []"
  | (some) es e ts t where "visible_events m = es @ [e]" "visible_shown_at m = ts @ [t]" "length ts = length es"
      "list_all standing_event es"
proof (cases "visible_events m" rule: rev_cases)
  case Nil
  then show ?thesis
    using assms none by (simp add: stacked_def)
next
  case (snoc es e)
  then show ?thesis
    using assms some by (cases "visible_shown_at m" rule: rev_cases) (auto simp: stacked_def)
qed

lemma standing_not_timed:
  "length ts = length es \<Longrightarrow> list_all standing_event es \<Longrightarrow>
   filter (\<lambda>(e, t). 0 < DismissIntervalMs (ne_type e)) (zip es ts) = []"
  by (auto simp: filter_empty_conv timed_iff list_all_iff dest: set_zip_leftD)

lemma expiries_stacked: "stacked m \<Longrightarrow> expiries m = (if trailing_timed m then [last_expiry m] else [])"
  by (erule stacked_cases)
    (simp_all add: expiries_def trailing_timed_def last_expiry_def standing_not_timed, simp_all add: timed_iff standing_event_def)

lemma signed_delay: "0 \<le> x \<Longrightarrow> x \<le> kDwellAction \<Longrightarrow> signed (of_int x :: 32 word) = x"
  by (simp add: kDwellAction_def signed_of_int signed_take_bit_int_eq_self)

lemma reschedule_fields:
  "visible_events (rescheduleTimer now m) = visible_events m"
  "visible_shown_at (rescheduleTimer now m) = visible_shown_at m"
  "toasts_enabled (rescheduleTimer now m) = toasts_enabled m"
  by (simp_all add: rescheduleTimer_def)

lemma same_view:
  assumes "visible_events m' = visible_events m" "visible_shown_at m' = visible_shown_at m"
  shows "stacked m' = stacked m" "shown_by t m' = shown_by t m" "trailing_timed m' = trailing_timed m"
    "last_expiry m' = last_expiry m"
  using assms by (simp_all add: stacked_def shown_by_def trailing_timed_def last_expiry_def)

lemma rescheduled_armed:
  assumes "stacked m" "shown_by now m"
  shows "armed now (rescheduleTimer now m)"
proof (cases "trailing_timed m")
  case True
  have "List.last (visible_shown_at m) \<le> now"
    using assms(1) by (rule stacked_cases) (use True assms(2) in \<open>auto simp: trailing_timed_def shown_by_def\<close>)
  then have "last_expiry m \<le> now + kDwellAction"
    using dwell_bounds(2) [of "ne_type (List.last (visible_events m))"] by (simp add: last_expiry_def)
  then have "signed (of_int (max 0 (last_expiry m - now)) :: 32 word) = max 0 (last_expiry m - now)"
    by (intro signed_delay) (auto simp: kDwellAction_def)
  then have "timer_due (rescheduleTimer now m) = Some (max now (last_expiry m))"
    using True by (simp add: rescheduleTimer_def expiries_stacked [OF assms(1)])
  then show ?thesis
    using True \<open>last_expiry m \<le> now + kDwellAction\<close>
    by (simp add: armed_def same_view [OF reschedule_fields(1,2)] kDwellAction_def)
next
  case False
  then show ?thesis
    by (simp add: armed_def rescheduleTimer_def expiries_stacked [OF assms(1)] trailing_timed_def)
qed

section \<open>Histories\<close>

definition toasts_ok :: "int \<Rightarrow> NotificationManager \<Rightarrow> bool" where
  "toasts_ok t m \<longleftrightarrow> stacked m \<and> shown_by t m \<and> armed t m"

lemma rescheduled_ok: "stacked m \<Longrightarrow> shown_by now m \<Longrightarrow> toasts_ok now (rescheduleTimer now m)"
  by (simp add: toasts_ok_def rescheduled_armed same_view [OF reschedule_fields(1,2)])

lemma toasts_ok_cong:
  "visible_events m' = visible_events m \<Longrightarrow> visible_shown_at m' = visible_shown_at m \<Longrightarrow> timer_due m' = timer_due m \<Longrightarrow>
   toasts_ok t m' = toasts_ok t m"
  by (simp add: toasts_ok_def armed_def same_view [of m' m] split: option.split)

lemma announced_ok: "toasts_ok t (announce a m) = toasts_ok t m"
  by (rule toasts_ok_cong) (simp_all add: announce_def)

lemma ok_later: "toasts_ok t m \<Longrightarrow> t \<le> t' \<Longrightarrow> toasts_ok t' m"
  by (fastforce simp: toasts_ok_def shown_by_def armed_def list_all_iff split: option.splits)

lemma show_event_stacked:
  assumes "stacked m" "shown_by t m" "t \<le> shown_at"
  shows "stacked (show_event e shown_at m) \<and> shown_by shown_at (show_event e shown_at m)"
  using assms(1)
proof (rule stacked_cases)
  assume "visible_events m = []" "visible_shown_at m = []"
  then show ?thesis
    by (simp add: show_event_def stacked_def shown_by_def trailing_timed_def insert_at_def)
next
  fix es e' ts t'
  assume m: "visible_events m = es @ [e']" "visible_shown_at m = ts @ [t']" "length ts = length es" "list_all standing_event es"
  moreover have "list_all (\<lambda>s. s \<le> shown_at) (ts @ [t'])"
    using assms(2,3) m(2) by (auto simp: shown_by_def list_all_iff)
  ultimately show ?thesis
    by (auto simp: show_event_def stacked_def shown_by_def trailing_timed_def insert_at_def standing_event_def butlast_append Let_def)
qed

lemma remove_at_snoc: "i < length xs \<Longrightarrow> remove_at i (xs @ [x]) = remove_at i xs @ [x]" "remove_at (length xs) (xs @ [x]) = xs"
  by (simp_all add: remove_at_def)

lemma set_remove_at: "set (remove_at i xs) \<subseteq> set xs"
  by (auto simp: remove_at_def dest: in_set_takeD in_set_dropD)

lemma butlast_remove_at: "i < length xs \<Longrightarrow> set (butlast (remove_at i xs)) \<subseteq> set (butlast xs)"
proof (cases xs rule: rev_cases)
  case (snoc ys y)
  assume "i < length xs"
  then consider "i < length ys" | "i = length ys"
    using snoc by fastforce
  then show ?thesis
    by cases (use snoc set_remove_at [of i ys] in \<open>auto simp: remove_at_snoc dest: in_set_butlastD\<close>)
qed simp

lemma dismissed_stacked:
  assumes "stacked m" "shown_by t m" "i < length (visible_events m)"
  shows "stacked (m\<lparr>visible_events := remove_at i (visible_events m), visible_shown_at := remove_at i (visible_shown_at m)\<rparr>) \<and>
    shown_by t (m\<lparr>visible_events := remove_at i (visible_events m), visible_shown_at := remove_at i (visible_shown_at m)\<rparr>)"
  using assms butlast_remove_at [OF assms(3)] set_remove_at [of i "visible_shown_at m"]
  by (auto simp: stacked_def shown_by_def list_all_iff remove_at_def)

lemma butlast_filter: "set (butlast (filter p xs)) \<subseteq> set (butlast xs)"
  by (cases xs rule: rev_cases) (auto dest: in_set_butlastD)

lemma kept_stacked:
  assumes "stacked m" "shown_by t m"
    and "kept = filter p (zip (visible_events m) (visible_shown_at m))"
  shows "stacked (m\<lparr>timer_due := d, visible_events := map fst kept, visible_shown_at := map snd kept\<rparr>) \<and>
    shown_by t (m\<lparr>timer_due := d, visible_events := map fst kept, visible_shown_at := map snd kept\<rparr>)"
proof -
  have "set (butlast kept) \<subseteq> set (butlast (zip (visible_events m) (visible_shown_at m)))"
    unfolding assms(3) by (rule butlast_filter)
  also have "\<dots> \<subseteq> set (zip (butlast (visible_events m)) (butlast (visible_shown_at m)))"
    using assms(1) by (rule stacked_cases) simp_all
  finally have "fst ` set (butlast kept) \<subseteq> set (butlast (visible_events m))"
    by (auto dest!: set_zip_leftD subsetD)
  moreover have "snd ` set kept \<subseteq> set (visible_shown_at m)"
    by (auto simp: assms(3) dest: set_zip_rightD)
  ultimately show ?thesis
    using assms(1,2) by (auto simp: stacked_def shown_by_def list_all_iff simp flip: map_butlast)
qed

lemma fired_ok:
  assumes "stacked m" "shown_by t m" "t \<le> later"
  shows "toasts_ok later (onTimerFired now later m)"
proof -
  let ?kept = "filter (\<lambda>t. \<not> expired now t) (zip (visible_events m) (visible_shown_at m))"
  let ?m = "m\<lparr>timer_due := None, visible_events := map fst ?kept, visible_shown_at := map snd ?kept\<rparr>"
  have "stacked ?m" "shown_by later ?m"
    using kept_stacked [OF assms(1) _ refl, of later] assms(2,3) by (force simp: shown_by_def list_all_iff)+
  then have "toasts_ok later (rescheduleTimer later ?m)"
    by (rule rescheduled_ok)
  then show ?thesis
    by (simp add: onTimerFired_def announced_ok Let_def)
qed

lemma enqueued_ok:
  assumes "toasts_ok t m" "t \<le> shown_at" "shown_at \<le> now"
  shows "toasts_ok now (snd (EnqueueToast shown_at now e m))"
proof -
  let ?e = "e\<lparr>ne_sequence := next_sequence m\<rparr>"
  let ?m = "announce (EventRecorded ?e) (m\<lparr>next_sequence := next_sequence m + 1\<rparr>)"
  have ok: "toasts_ok now ?m" "toasts_ok t ?m"
    using assms by (auto simp: announced_ok toasts_ok_cong [of "m\<lparr>next_sequence := next_sequence m + 1\<rparr>" m] intro: ok_later)
  have shown: "stacked (show_event ?e shown_at ?m)" "shown_by now (show_event ?e shown_at ?m)"
    using show_event_stacked [of ?m t shown_at ?e] ok(2) assms(2,3) by (force simp: toasts_ok_def shown_by_def list_all_iff)+
  have "toasts_ok now (rescheduleTimer now (announce a (show_event ?e shown_at ?m)))" for a
    using shown by (intro rescheduled_ok) (simp_all add: announce_def stacked_def shown_by_def)
  then show ?thesis
    using ok(1) rescheduled_ok [OF shown] by (simp add: EnqueueToast_def announced_ok Let_def)
qed

lemma dismissed_ok:
  assumes "toasts_ok t m" "t \<le> now"
  shows "toasts_ok now (Dismiss now n m)"
proof (cases "List.find (\<lambda>i. ne_sequence (visible_events m ! i) = n) [0..<length (visible_events m)]")
  case None
  then show ?thesis
    using assms by (simp add: Dismiss_def ok_later)
next
  case (Some i)
  then have "i < length (visible_events m)"
    by (auto simp: find_Some_iff)
  moreover have "stacked m" "shown_by now m"
    using ok_later [OF assms] by (simp_all add: toasts_ok_def)
  ultimately show ?thesis
    using dismissed_stacked Some by (simp add: Dismiss_def announced_ok rescheduled_ok)
qed

lemma switched_ok:
  assumes "toasts_ok t m" "t \<le> now"
  shows "toasts_ok now (SetToastsEnabled now enabled m)"
proof -
  have "toasts_ok now (rescheduleTimer now (m\<lparr>toasts_enabled := b, visible_events := [], visible_shown_at := []\<rparr>))" for b
    by (rule rescheduled_ok) (simp_all add: stacked_def shown_by_def)
  moreover have "toasts_ok now (m\<lparr>toasts_enabled := enabled\<rparr>)"
    using ok_later [OF assms] by (simp add: toasts_ok_cong [of "m\<lparr>toasts_enabled := enabled\<rparr>" m])
  ultimately show ?thesis
    by (simp add: SetToastsEnabled_def announced_ok Let_def)
qed

lemma notified_ok: "notified m t \<Longrightarrow> toasts_ok t m"
proof (induction rule: notified.induct)
  case (notified_new now)
  then show ?case
    by (simp add: new_notifications_def toasts_ok_def stacked_def shown_by_def armed_def trailing_timed_def)
next
  case (notified_timer m before_t due now later)
  then show ?case
    using fired_ok [of m before_t later now] by (simp add: toasts_ok_def [of before_t])
qed (simp_all add: enqueued_ok dismissed_ok switched_ok)

text \<open>The timer that is armed is late enough: when it fires in time, no timed toast is left.\<close>

lemma due_timer_clears:
  assumes "toasts_ok t m" "timer_due m = Some due"
  shows "list_all standing_event (visible_events (onTimerFired due later m))"
proof -
  have "stacked m" "trailing_timed m" "last_expiry m \<le> due"
    using assms by (simp_all add: toasts_ok_def armed_def)
  then have "list_all standing_event (map fst (filter (\<lambda>t. \<not> expired due t) (zip (visible_events m) (visible_shown_at m))))"
    by (elim stacked_cases) (fastforce simp: list_all_iff expired_def trailing_timed_def last_expiry_def timed_iff
      standing_event_def dest: set_zip_leftD)+
  then show ?thesis
    by (simp add: onTimerFired_def announce_def reschedule_fields Let_def)
qed

lemma enabled_or_empty:
  "notified m t \<Longrightarrow> toasts_enabled m \<or> visible_events m = []"
  by (induction rule: notified.induct)
    (auto simp: new_notifications_def EnqueueToast_def Dismiss_def SetToastsEnabled_def onTimerFired_def announce_def show_event_def
      reschedule_fields Let_def split: option.split)


lemma enqueue_switch: "toasts_enabled (snd (EnqueueToast shown_at now e m)) = toasts_enabled m"
  by (simp add: EnqueueToast_def show_event_def announce_def reschedule_fields Let_def)

lemma enqueued_timed:
  "toasts_enabled m \<Longrightarrow> \<not> IsStanding (ne_type e) \<Longrightarrow> ne_type e \<noteq> PresetSwitched \<Longrightarrow>
   trailing_timed (snd (EnqueueToast shown_at now e m))"
  by (simp add: EnqueueToast_def show_event_def trailing_timed_def announce_def reschedule_fields Let_def)

definition demo_toasts :: NotificationManager where
  "demo_toasts = snd (EnqueueToast 1000 1001 \<lparr>ne_type = Saved, ne_title = ''Saved'', ne_body = [], ne_action = OpenFolder,
     ne_action_payload = [], ne_secondary_action = NoAction, ne_sequence = 0, ne_synthetic = False\<rparr>
     (snd (EnqueueToast 900 900 \<lparr>ne_type = LowStorage, ne_title = ''Low storage'', ne_body = [], ne_action = NoAction,
       ne_action_payload = [], ne_secondary_action = NoAction, ne_sequence = 0, ne_synthetic = False\<rparr> new_notifications)))"


end
