(* ===== verification/RecordingStart.thy ===== *)
theory RecordingStart
  imports Resolver SegmentPaths
begin

text \<open>
  What is settled before a recording starts: whether a blocker stands in its way
  (\<^verbatim>\<open>app/services/RecordingAdmission.cpp\<close>), whether the folder can be written, and a path that is free
  (\<^verbatim>\<open>app/models/OutputPathValidator.cpp\<close>). The file system is a record of functions over a world.
\<close>

section \<open>Admission\<close>

datatype ExclusiveEvidence = NoEvidence | SuspectedExclusive | ProvenBlack

datatype AdmissionBlocker = Hdr10CodecConflict | ExclusiveFullscreenWindow

record AdmissionFacts =
  af_hdr_mode :: HdrMode
  af_codec_can_carry_hdr10 :: bool
  af_target_display_hdr_active :: bool
  af_window_exclusive_evidence :: ExclusiveEvidence

definition EvaluateRecordingAdmission :: "AdmissionFacts \<Rightarrow> AdmissionBlocker option" where
  "EvaluateRecordingAdmission facts =
     (if af_hdr_mode facts = Hdr10 \<and> \<not> af_codec_can_carry_hdr10 facts \<and> af_target_display_hdr_active facts
      then Some Hdr10CodecConflict
      else if af_window_exclusive_evidence facts = ProvenBlack then Some ExclusiveFullscreenWindow
      else None)"

definition AdmissionBlockerDetail :: "AdmissionBlocker option \<Rightarrow> string" where
  "AdmissionBlockerDetail b = (case b of
       Some Hdr10CodecConflict \<Rightarrow>
         ''The selected video codec cannot record HDR10. Switch the codec to AV1 or HEVC, or set HDR '' @
         ''handling to Tone-map to SDR.''
     | Some ExclusiveFullscreenWindow \<Rightarrow>
         ''The selected window is in exclusive fullscreen and window capture produces no frames. '' @
         ''Record the monitor instead, or switch the application to borderless fullscreen.''
     | None \<Rightarrow> [])"

definition AdmissionBlockerDiagnosticId :: "AdmissionBlocker option \<Rightarrow> string" where
  "AdmissionBlockerDiagnosticId b = (case b of
       Some Hdr10CodecConflict \<Rightarrow> ''rec.hdr.h264'' | Some ExclusiveFullscreenWindow \<Rightarrow> ''rec.capture.exclusive_window''
     | None \<Rightarrow> [])"

section \<open>The folder\<close>

text \<open>A query answers with its result and whether it failed; a change with whether it failed.\<close>

record 'w folder_api =
  fo_exists :: "'w \<Rightarrow> string \<Rightarrow> bool \<times> bool"
  fo_is_directory :: "'w \<Rightarrow> string \<Rightarrow> bool \<times> bool"
  fo_create_directories :: "string \<Rightarrow> 'w \<Rightarrow> bool \<times> 'w"
  fo_open_truncated :: "string \<Rightarrow> 'w \<Rightarrow> bool \<times> 'w"
  fo_write_and_close :: "string \<Rightarrow> string \<Rightarrow> 'w \<Rightarrow> bool \<times> 'w"
  fo_remove :: "string \<Rightarrow> 'w \<Rightarrow> bool \<times> 'w"

datatype FolderValidationResult = FolderValid | InvalidPath | NotWritable | CreationFailed

definition probe_folder :: "'w folder_api \<Rightarrow> string \<Rightarrow> 'w \<Rightarrow> FolderValidationResult \<times> 'w" where
  "probe_folder api folder w =
     (let probe = path_join folder ''.exosnap_write_test'' in
      case fo_open_truncated api probe w of (opened, w) \<Rightarrow>
        if \<not> opened then (NotWritable, w)
        else
          (case fo_write_and_close api probe ''ok'' w of (good, w) \<Rightarrow>
             if \<not> good then (NotWritable, snd (fo_remove api probe w))
             else
               (case fo_remove api probe w of (failed, w) \<Rightarrow> (if failed then NotWritable else FolderValid, w))))"

definition ValidateOutputFolder :: "'w folder_api \<Rightarrow> string \<Rightarrow> 'w \<Rightarrow> FolderValidationResult \<times> 'w" where
  "ValidateOutputFolder api folder w =
     (if folder = [] then (InvalidPath, w)
      else
        (case fo_exists api w folder of (found, failed) \<Rightarrow>
           if failed then (InvalidPath, w)
           else if found then
             (case fo_is_directory api w folder of (is_dir, failed) \<Rightarrow>
                if failed \<or> \<not> is_dir then (InvalidPath, w) else probe_folder api folder w)
           else
             (case fo_create_directories api folder w of (failed, w) \<Rightarrow>
                if failed then (CreationFailed, w) else probe_folder api folder w)))"

definition FolderValidationMessage :: "FolderValidationResult \<Rightarrow> string" where
  "FolderValidationMessage r = (case r of
       FolderValid \<Rightarrow> ''OK'' | InvalidPath \<Rightarrow> ''Output folder path is invalid.''
     | NotWritable \<Rightarrow> ''Output folder is not writable.'' | CreationFailed \<Rightarrow> ''Failed to create output folder.'')"

section \<open>A free path\<close>

text \<open>Whether the path and its partial file are absent, and whether the last query failed.\<close>

definition is_available :: "'w folder_api \<Rightarrow> 'w \<Rightarrow> string \<Rightarrow> bool \<times> bool" where
  "is_available api w candidate =
     (case fo_exists api w candidate of (found, failed) \<Rightarrow>
        if found \<or> failed then (False, failed)
        else
          (case fo_exists api w (DeriveValuablePartialPath candidate) of (found, failed) \<Rightarrow>
             (\<not> found \<and> \<not> failed, failed)))"

definition numbered_path :: "string \<Rightarrow> nat \<Rightarrow> string" where
  "numbered_path base n =
     path_join (path_parent base) (path_stem base @ '' ('' @ to_string n @ '')'' @ path_extension base)"

fun probe_numbered :: "'w folder_api \<Rightarrow> 'w \<Rightarrow> string \<Rightarrow> nat list \<Rightarrow> string option" where
  "probe_numbered api w base [] = None"
| "probe_numbered api w base (n # ns) =
     (case is_available api w (numbered_path base n) of (free, failed) \<Rightarrow>
        if free then Some (numbered_path base n) else if failed then None else probe_numbered api w base ns)"

definition ResolveAvailableOutputPath :: "'w folder_api \<Rightarrow> 'w \<Rightarrow> string \<Rightarrow> string option" where
  "ResolveAvailableOutputPath api w base =
     (case is_available api w base of (free, failed) \<Rightarrow>
        if free then Some base else if failed then None else probe_numbered api w base [1..<1000])"

section \<open>Guarantees\<close>

text \<open>A path that is given out overwrites neither a recording nor the partial file of one.\<close>

lemma available_is_free:
  "fst (is_available api w p) \<Longrightarrow> \<not> fst (fo_exists api w p) \<and> \<not> fst (fo_exists api w (DeriveValuablePartialPath p))"
  by (auto simp: is_available_def split: prod.splits if_splits)

lemma probed_path_is_free: "probe_numbered api w base ns = Some p \<Longrightarrow> fst (is_available api w p)"
  by (induction ns) (auto split: prod.splits if_splits)

lemma resolved_path_is_free:
  assumes "ResolveAvailableOutputPath api w base = Some p"
  shows "\<not> fst (fo_exists api w p) \<and> \<not> fst (fo_exists api w (DeriveValuablePartialPath p))"
proof (rule available_is_free)
  show "fst (is_available api w p)"
    using assms by (auto simp: ResolveAvailableOutputPath_def dest: probed_path_is_free split: prod.splits if_splits)
qed

text \<open>Each of the two blockers is reported when it stands alone, and no other fact blocks.\<close>

lemma admission_iff:
  "EvaluateRecordingAdmission facts = None \<longleftrightarrow>
     (af_hdr_mode facts = Hdr10 \<longrightarrow> af_target_display_hdr_active facts \<longrightarrow> af_codec_can_carry_hdr10 facts) \<and>
     af_window_exclusive_evidence facts \<noteq> ProvenBlack"
  by (auto simp: EvaluateRecordingAdmission_def)

text \<open>A folder is accepted only when a file could be created, written and removed in it.\<close>

lemma accepted_folder_was_written:
  assumes "fst (ValidateOutputFolder api folder w) = FolderValid"
  shows "\<exists>w1 w2 w3. fo_open_truncated api (path_join folder ''.exosnap_write_test'') w1 = (True, w2) \<and>
    fst (fo_write_and_close api (path_join folder ''.exosnap_write_test'') ''ok'' w2) = True \<and>
    fo_remove api (path_join folder ''.exosnap_write_test'') w3 = (False, snd (ValidateOutputFolder api folder w))"
proof -
  have "\<exists>w2 w3. fo_open_truncated api (path_join folder ''.exosnap_write_test'') v = (True, w2) \<and>
      fst (fo_write_and_close api (path_join folder ''.exosnap_write_test'') ''ok'' w2) = True \<and>
      fo_remove api (path_join folder ''.exosnap_write_test'') w3 = (False, snd (probe_folder api folder v))"
    if "fst (probe_folder api folder v) = FolderValid" for v
    using that by (auto simp: probe_folder_def Let_def split: prod.splits if_splits)
  then show ?thesis
    using assms by (auto simp: ValidateOutputFolder_def split: prod.splits if_splits) blast+
qed

end
