(* ===== verification/Spec2Isabelle.thy ===== *)
theory Spec2Isabelle
  imports AvcConfig HevcConfig EnvGuarantees RoutingProperties UpdateManifest SwapGuarantees UpdaterView UpdaterSession CapabilityProperties SessionProperties UpdaterStart NamingGuarantees NotificationGuarantees RecordingStart
begin

text \<open>
  Verification of ExoSnap, a Windows screen recorder in C++ (\<^verbatim>\<open>src/libs\<close>, \<^verbatim>\<open>src/app\<close>,
  \<^verbatim>\<open>src/apps/updater\<close>, \<^verbatim>\<open>src/tools\<close>).

  The program and this library. The engine (\<^verbatim>\<open>libs/engine\<close>) captures, encodes and muxes: NVENC
  delivers an Annex-B stream, whose packets are rewritten as length-prefixed samples with a decoder
  configuration record, and a streaming writer orders the packets of all tracks into Matroska
  clusters. The updater (\<^verbatim>\<open>libs/update\<close>, \<^verbatim>\<open>libs/control\<close>, \<^verbatim>\<open>apps/updater\<close>) is a second process that
  finds a release, proves it authentic, swaps the installation and reports through a window and a
  control channel. The environment orchestrator (\<^verbatim>\<open>tools/envctl\<close>) changes display and system
  settings for test runs and puts them back.

  Shared: \<open>Prelude\<close> (machine types, bits, lists), \<open>Dict\<close> (\<^verbatim>\<open>std::map\<close> as an ordered association list).

  Bit streams. \<open>RbspReader\<close>: the bit reader \<^verbatim>\<open>rbsp_bit_reader.h\<close> with emulation prevention and
  Exp-Golomb codes, refined to a source of bits (locale) that both parameter-set parsers use.
  \<open>AnnexB\<close>: the start-code scanner and the sample converters of \<^verbatim>\<open>annexb_to_avcc.cpp\<close> and
  \<^verbatim>\<open>annexb_to_hvcc.cpp\<close>. \<open>AvcConfig\<close>, \<open>HevcConfig\<close>: the rest of those files, extraction of the
  parameter sets, their parsing, the configuration records. Lemmas: the converters invert the
  Annex-B encoding, the parsers invert the bit syntax of the standards, the records carry the sets
  unchanged.

  Matroska. \<open>MatroskaWriter\<close>: the reorder window, cluster rendering, cues and trailer of
  \<^verbatim>\<open>matroska_stream_writer.cpp\<close> over an arbitrary file; \<open>MatroskaHeader\<close>: \<^verbatim>\<open>Open\<close> with its checks and
  tracks; \<open>MatroskaGuarantees\<close>: no packet lost, order within the horizon, the window bound, cues,
  progress; \<open>MatroskaLiveness\<close>: only the file system makes it fail.

  Muxer. \<open>AudioTracks\<close>: sources resolved to tracks (\<^verbatim>\<open>audio_track_model.cpp\<close>); \<open>EpochAlign\<close>: the
  alignment of audio and video (\<^verbatim>\<open>av_epoch_align.h\<close>); \<open>Paths\<close>, \<open>SegmentPaths\<close>: the files of a split
  recording; \<open>MuxThread\<close>: the whole of \<^verbatim>\<open>mux_thread.cpp\<close>, one writer per segment. \<open>MuxGuarantees\<close>
  refines the operations to steps on segments and proves by rule induction that the reports tell the
  truth about the files; \<open>MuxAudio\<close> accounts for every audio packet; \<open>MuxProperties\<close> states both for a
  whole run, with the placement of audio across splits and the end of the main loop.

  Routing. \<open>PacketRouting\<close>: split requests (\<^verbatim>\<open>split_sentinel_policy.h\<close>), the bounded queue
  (\<^verbatim>\<open>session_internal.h\<close>), where the video and audio threads put their packets and the video thread its
  segment boundaries. \<open>RoutingGuarantees\<close>: any interleaving as a transition system of atomic moves, its
  invariants by rule induction; \<open>SegmentStarts\<close> carries them through the muxer, to the first packet of
  every file; \<open>RoutingProperties\<close> states them.

  Recording session. \<open>SessionPolicies\<close>: the waits of the shutdown, durations, and the result of
  \<open>RecorderSession::Record\<close> (\<^verbatim>\<open>finalize_join_policy.h\<close>, \<^verbatim>\<open>worker_join.h\<close>, \<^verbatim>\<open>session_outcome.h\<close>);
  \<open>RecorderSession\<close>: the shared state, commands, callback gate and stages of \<^verbatim>\<open>recorder_session.cpp\<close>, with
  callers and workers interleaved as a step relation; \<open>SessionGuarantees\<close>, \<open>SessionInterleaving\<close>: the waits
  and the result against specifications, the invariant of every reachable session. \<open>FramePacing\<close>,
  \<open>PacingGuarantees\<close>: the choice of frames, the ring of captures, the gaps of a source.
  \<open>SessionProperties\<close> states them.

  Settings. \<open>Capability\<close>: containers, codecs, the compatibility registry and the capability set
  (\<^verbatim>\<open>libs/capability\<close>); \<open>CapabilityBuilder\<close>: the set built from a snapshot of the machine, with the exact
  condition under which a combination is selectable; \<open>Resolver\<close>, \<open>ResolverGuarantees\<close>: changes,
  validation, reconciliation, options, and what a successful answer promises; \<open>FormatTranslation\<close>: the
  translation to the engine and the engine's own check of a configuration; \<open>AudioPlan\<close>: the audio page;
  \<open>EncoderDevice\<close>: which GPU encodes. \<open>CapabilityProperties\<close> states that these layers agree.

  Application. \<open>FilenamePattern\<close>, \<open>FilenameBuilder\<close>: patterns and folders as they are entered, and the path
  a recording gets (\<^verbatim>\<open>app/models\<close>); \<open>NamingGuarantees\<close>: its names are valid and stay in the folder.
  \<open>RecordingStart\<close>: admission, the check of the folder, a free path. \<open>Notifications\<close>,
  \<open>NotificationGuarantees\<close>: the toasts and their timer (\<^verbatim>\<open>app/notifications\<close>), in every history.

  Environment. \<open>EnvTypes\<close>, \<open>EnvTransaction\<close>: vocabulary, transaction, journal file and recovery of
  \<^verbatim>\<open>tools/envctl/core\<close>, over a host record for the machine. \<open>EnvSafety\<close> watches the machine from outside
  with a monitor that knows nothing of the bookkeeping; \<open>EnvGuarantees\<close> holds the properties:
  write-ahead journalling at every instant, recovery, restore.

  Updater. \<open>Versions\<close>, \<open>ReleaseFeed\<close>, \<open>UpdateManifest\<close>, \<open>SwapEngine\<close>: versions, choice of the release,
  signed manifest and package check, staged directory swap (\<^verbatim>\<open>libs/update\<close>); \<open>ReleaseGuarantees\<close> and
  \<open>SwapGuarantees\<close> what they promise. \<open>ControlProtocol\<close>, \<open>ControlGuarantees\<close>: the session of the
  control channel (\<^verbatim>\<open>libs/control\<close>). \<open>UpdateFlow\<close>: the published state and the controller;
  \<open>UpdaterControl\<close>: commands, published JSON, exit codes; \<open>UpdaterView\<close>: the window;
  \<open>UpdaterWorker\<close>: the pipeline; \<open>UpdaterRuns\<close>: every slot ends with one outcome, and what it reports
  is the state of the disk; \<open>UpdaterGates\<close>: nothing is installed past the gates; \<open>UpdaterSession\<close>: the
  wiring of the process, where every accepted intent ends. \<open>Handoff\<close>, \<open>UpdaterStart\<close>: the document the
  application hands over (\<^verbatim>\<open>libs/update_handoff\<close>), the command line, and the state the process opens in:
  which runs start by themselves, and how a refused one ends.

  Conventions. A structure is a record, an enumeration a datatype, \<^verbatim>\<open>uintN_t\<close> an N-bit word; a
  \<^verbatim>\<open>size_t\<close> that counts bytes in memory is a natural number. Early returns with an error are options,
  sums, or in the pipeline the signal the step left with. The operating system, the JSON reader, the
  signature primitive, the downloader and the extractor are parameters: records of functions over an
  arbitrary world. What the code relies on is stated where a property needs it, as a locale
  (\<open>sibling_disk\<close>, \<open>portable_system\<close>) with an interpretation on a scripted disk that raises arbitrary
  faults. Times are integers in the unit of the source.

  Threads. What another thread may do between two steps is an argument: an atomic that is loaded is a
  function of the world, a queue is the list of items found in each round of the loop that drains it.

  Termination. Loops that scan data are terminating functions. The main loop of the muxer runs over
  its rounds and has no result while it still waits; it is shown to return once the end marks came. The only loop that waits on the
  operating system inside the model is the rename retry (\<open>RenameLoop\<close>, a partial function); it is
  shown to return for the delays the program uses, and with it every slot of the pipeline.

  Not modelled: GPU and audio processing in floating point; the encoder, capture and audio drivers
  and the threads around them; FFmpeg-based remuxing and playback; Qt Quick windows and adapters;
  diagnostics reports; test harnesses and the Rust tools. Their behaviour is that of libraries and
  drivers that are not in the repository. The recording coordinator, the
  services and the stores of the application are Qt objects around such calls; what they decide by pure
  functions is modelled, their queued callbacks are not.
\<close>

end
